(* ===== verification/Guardian_Prelude.thy ===== *)
theory Guardian_Prelude
  imports Complex_Main "HOL-Library.List_Lexorder" "HOL-Library.Char_ord" "HOL-Library.Sublist"
begin

text \<open>
  Shared vocabulary of the development: the Python values the Guardian modules exchange
  (\<open>pyval\<close>, with floats as \<open>pyfloat\<close>), the accessors the sources use on them
  (\<open>dict.get\<close>, \<open>isinstance\<close> tests, truthiness, \<open>==\<close>, \<open>str\<close>), the list idioms
  \<open>sorted(set(...))\<close> and \<open>dict.fromkeys(...)\<close>, and the interfaces several components
  share: an invariant of a family of operations, one-shot grants, and append-only logs.

  A Python float is a rational number, an infinity or NaN.  Comparisons follow IEEE 754 (every
  comparison with NaN is false); arithmetic on finite values is exact, i.e. rounding of
  intermediate results to 53 bits is not modelled.  Clock readings are finite and are plain
  rationals.  A string is a list of 8-bit characters.
\<close>

named_theorems guardian_simps \<open>unfolding rules of the model's accessors and error plumbing\<close>
named_theorems guardian_inv \<open>preservation of component invariants\<close>

section \<open>Floats\<close>

datatype pyfloat = Fin rat | PInf | NInf | NaN

fun fle :: "pyfloat \<Rightarrow> pyfloat \<Rightarrow> bool" where
  "fle (Fin a) (Fin b) = (a \<le> b)"
| "fle NaN _ = False"
| "fle _ NaN = False"
| "fle NInf _ = True"
| "fle _ PInf = True"
| "fle _ _ = False"

fun flt :: "pyfloat \<Rightarrow> pyfloat \<Rightarrow> bool" where
  "flt (Fin a) (Fin b) = (a < b)"
| "flt NaN _ = False"
| "flt _ NaN = False"
| "flt NInf b = (b \<noteq> NInf)"
| "flt a PInf = (a \<noteq> PInf)"
| "flt _ _ = False"

fun feq :: "pyfloat \<Rightarrow> pyfloat \<Rightarrow> bool" where
  "feq NaN _ = False"
| "feq a b = (a = b)"

fun fneg :: "pyfloat \<Rightarrow> pyfloat" where
  "fneg (Fin a) = Fin (- a)"
| "fneg PInf = NInf"
| "fneg NInf = PInf"
| "fneg NaN = NaN"

fun fadd :: "pyfloat \<Rightarrow> pyfloat \<Rightarrow> pyfloat" where
  "fadd (Fin a) (Fin b) = Fin (a + b)"
| "fadd NaN _ = NaN"
| "fadd _ NaN = NaN"
| "fadd PInf NInf = NaN"
| "fadd NInf PInf = NaN"
| "fadd PInf _ = PInf"
| "fadd _ PInf = PInf"
| "fadd NInf _ = NInf"
| "fadd _ NInf = NInf"

definition fsub :: "pyfloat \<Rightarrow> pyfloat \<Rightarrow> pyfloat" where
  "fsub a b = fadd a (fneg b)"

text \<open>Python's \<open>max(a, b)\<close> keeps the first argument unless the second is greater.\<close>

definition fmax :: "pyfloat \<Rightarrow> pyfloat \<Rightarrow> pyfloat" where
  "fmax a b = (if flt a b then b else a)"

text \<open>\<open>x * n\<close> for an integer \<open>n\<close>.\<close>

fun fscale :: "int \<Rightarrow> pyfloat \<Rightarrow> pyfloat" where
  "fscale n (Fin q) = Fin (of_int n * q)"
| "fscale n PInf = (if 0 < n then PInf else if n < 0 then NInf else NaN)"
| "fscale n NInf = (if 0 < n then NInf else if n < 0 then PInf else NaN)"
| "fscale n NaN = NaN"

text \<open>\<open>math.isfinite\<close>.\<close>

fun is_finite :: "pyfloat \<Rightarrow> bool" where
  "is_finite (Fin _) = True"
| "is_finite _ = False"

lemma fsub_Fin [simp]: "fsub (Fin a) (Fin b) = Fin (a - b)"
  by (simp add: fsub_def)

lemma fle_refl_iff [simp]: "fle a a \<longleftrightarrow> a \<noteq> NaN"
  by (cases a) auto

lemma flt_imp_fle: "flt a b \<Longrightarrow> fle a b"
  by (cases a; cases b) auto

lemma fle_trans: "fle a b \<Longrightarrow> fle b c \<Longrightarrow> fle a c"
  by (cases a; cases b; cases c) auto

lemma fle_NaN [simp]: "\<not> fle NaN a" "\<not> fle a NaN"
  by (cases a; simp)+

lemma feq_iff: "feq a b \<longleftrightarrow> a = b \<and> a \<noteq> NaN"
  by (cases a) auto

lemma is_finite_iff: "is_finite a \<longleftrightarrow> (\<exists>q. a = Fin q)"
  by (cases a) auto

text \<open>
  \<open>round(x, n)\<close> rounds half to even; the rational that a finite float denotes is rounded exactly.
\<close>

definition round_half_even :: "rat \<Rightarrow> int" where
  "round_half_even x =
     (let k = \<lfloor>x\<rfloor>; d = x - of_int k
      in if d < 1 / 2 then k else if 1 / 2 < d then k + 1 else if even k then k else k + 1)"

definition round_digits :: "nat \<Rightarrow> rat \<Rightarrow> rat" where
  "round_digits n x = of_int (round_half_even (x * 10 ^ n)) / 10 ^ n"

section \<open>Python values\<close>

datatype pyval =
    PNone
  | PBool bool
  | PInt int
  | PFloat pyfloat
  | PStr string
  | PList "pyval list"
  | PDict "(string \<times> pyval) list"

type_synonym pydict = "(string \<times> pyval) list"

text \<open>A value that may be \<open>None\<close>: as a Python value, and under a test that \<open>None\<close> fails.\<close>

definition opt_val :: "('a \<Rightarrow> pyval) \<Rightarrow> 'a option \<Rightarrow> pyval" where
  "opt_val f v = (case v of None \<Rightarrow> PNone | Some x \<Rightarrow> f x)"

definition opt_holds :: "('a \<Rightarrow> bool) \<Rightarrow> 'a option \<Rightarrow> bool" where
  "opt_holds P v = (case v of None \<Rightarrow> False | Some x \<Rightarrow> P x)"

text \<open>
  Exceptions of the language that a function of the sources can let escape: the class and the
  message's leading text.
\<close>

datatype py_exn = TypeError | ValueError | KeyError | OverflowError | AttributeError

text \<open>Calls in sequence: the first exception ends it.\<close>

definition sum_bind :: "'e + 'a \<Rightarrow> ('a \<Rightarrow> 'e + 'b) \<Rightarrow> 'e + 'b" where
  "sum_bind m f = (case m of Inl e \<Rightarrow> Inl e | Inr a \<Rightarrow> f a)"

fun py_truthy :: "pyval \<Rightarrow> bool" where
  "py_truthy PNone = False"
| "py_truthy (PBool b) = b"
| "py_truthy (PInt i) = (i \<noteq> 0)"
| "py_truthy (PFloat f) = (f \<noteq> Fin 0)"
| "py_truthy (PStr s) = (s \<noteq> [])"
| "py_truthy (PList xs) = (xs \<noteq> [])"
| "py_truthy (PDict d) = (d \<noteq> [])"

text \<open>\<open>a or b\<close>.\<close>

definition py_or :: "pyval \<Rightarrow> pyval \<Rightarrow> pyval" where
  "py_or a b = (if py_truthy a then a else b)"

text \<open>\<open>isinstance(v, dict)\<close>, \<open>isinstance(v, str)\<close> and so on; \<open>bool\<close> is a subclass of \<open>int\<close>.\<close>

fun is_dict :: "pyval \<Rightarrow> bool" where
  "is_dict (PDict _) = True"
| "is_dict _ = False"

fun is_list :: "pyval \<Rightarrow> bool" where
  "is_list (PList _) = True"
| "is_list _ = False"

fun is_str :: "pyval \<Rightarrow> bool" where
  "is_str (PStr _) = True"
| "is_str _ = False"

text \<open>\<open>isinstance(v, int) and not isinstance(v, bool)\<close>.\<close>

fun as_int :: "pyval \<Rightarrow> int option" where
  "as_int (PInt i) = Some i"
| "as_int _ = None"

text \<open>The same, and positive: the sources' test of monotonic stamps and identifiers.\<close>

definition positive_int :: "pyval \<Rightarrow> int option" where
  "positive_int v = (case as_int v of Some n \<Rightarrow> if 0 < n then Some n else None | None \<Rightarrow> None)"

text \<open>\<open>isinstance(v, int)\<close>, which a bool satisfies.\<close>

fun int_like :: "pyval \<Rightarrow> int option" where
  "int_like (PInt i) = Some i"
| "int_like (PBool b) = Some (if b then 1 else 0)"
| "int_like _ = None"

text \<open>\<open>isinstance(v, str) and v\<close>.\<close>

fun as_nonempty_str :: "pyval \<Rightarrow> string option" where
  "as_nonempty_str (PStr s) = (if s = [] then None else Some s)"
| "as_nonempty_str _ = None"

text \<open>The sources' \<open>_mapping(value)\<close>: the mapping itself, or an empty one.\<close>

fun mapping_of :: "pyval \<Rightarrow> pydict" where
  "mapping_of (PDict d) = d"
| "mapping_of _ = []"

text \<open>The same for lists.\<close>

fun list_value :: "pyval \<Rightarrow> pyval list" where
  "list_value (PList xs) = xs"
| "list_value _ = []"

text \<open>\<open>d.get(key)\<close> and \<open>d.get(key, default)\<close> on a mapping.\<close>

definition dget :: "pydict \<Rightarrow> string \<Rightarrow> pyval" where
  "dget d k = (case map_of d k of None \<Rightarrow> PNone | Some v \<Rightarrow> v)"

definition dget_default :: "pydict \<Rightarrow> string \<Rightarrow> pyval \<Rightarrow> pyval" where
  "dget_default d k v = (case map_of d k of None \<Rightarrow> v | Some w \<Rightarrow> w)"

definition has_key :: "pydict \<Rightarrow> string \<Rightarrow> bool" where
  "has_key d k = (map_of d k \<noteq> None)"

text \<open>\<open>d[key] = value\<close>: the position of an existing key is kept.\<close>

fun dset :: "(string \<times> 'v) list \<Rightarrow> string \<Rightarrow> 'v \<Rightarrow> (string \<times> 'v) list" where
  "dset [] k v = [(k, v)]"
| "dset ((k', v') # d) k v = (if k' = k then (k, v) # d else (k', v') # dset d k v)"

text \<open>Numeric value of a bool, int or float, as \<open>==\<close> and \<open>float()\<close> see it.\<close>

fun num_of :: "pyval \<Rightarrow> pyfloat option" where
  "num_of (PBool b) = Some (Fin (if b then 1 else 0))"
| "num_of (PInt i) = Some (Fin (of_int i))"
| "num_of (PFloat f) = Some f"
| "num_of _ = None"

text \<open>
  Python's \<open>==\<close>: numbers compare by value across bool, int and float, lists element by element,
  dictionaries by their keys and values whatever the insertion order.
\<close>

function (sequential) py_eq :: "pyval \<Rightarrow> pyval \<Rightarrow> bool" where
  "py_eq PNone PNone = True"
| "py_eq (PStr s) (PStr t) = (s = t)"
| "py_eq (PList []) (PList []) = True"
| "py_eq (PList (x # xs)) (PList (y # ys)) = (py_eq x y \<and> py_eq (PList xs) (PList ys))"
| "py_eq (PDict []) (PDict e) = (e = [])"
| "py_eq (PDict ((k, v) # d)) (PDict e) =
     (case map_of e k of
        None \<Rightarrow> False
      | Some w \<Rightarrow> py_eq v w \<and> py_eq (PDict d) (PDict (filter (\<lambda>p. fst p \<noteq> k) e)))"
| "py_eq a b =
     (case (num_of a, num_of b) of (Some x, Some y) \<Rightarrow> feq x y | _ \<Rightarrow> False)"
  by pat_completeness auto
termination
  by (relation "measure (\<lambda>(a, b). size a)") (auto simp: less_Suc_eq_le)

text \<open>
  Decimal text of an integer, and \<open>str(v)\<close>.  The text of floats and of containers is a parameter
  \<open>rep\<close>: no decision of the sources depends on its content.
\<close>

fun digits :: "nat \<Rightarrow> string" where
  "digits n = (if n < 10 then [char_of (48 + n)] else digits (n div 10) @ [char_of (48 + n mod 10)])"

declare digits.simps [simp del]

definition int_str :: "int \<Rightarrow> string" where
  "int_str i = (if i < 0 then ''-'' @ digits (nat (- i)) else digits (nat i))"

fun py_str :: "(pyval \<Rightarrow> string) \<Rightarrow> pyval \<Rightarrow> string" where
  "py_str rep PNone = ''None''"
| "py_str rep (PBool b) = (if b then ''True'' else ''False'')"
| "py_str rep (PInt i) = int_str i"
| "py_str rep (PStr s) = s"
| "py_str rep v = rep v"

text \<open>
  \<open>v in {...}\<close> over a set of strings: a list or dict is unhashable, so the membership test raises
  \<open>TypeError\<close>.
\<close>

fun hashable :: "pyval \<Rightarrow> bool" where
  "hashable (PList _) = False"
| "hashable (PDict _) = False"
| "hashable _ = True"

fun str_in :: "pyval \<Rightarrow> string list \<Rightarrow> bool" where
  "str_in (PStr s) xs = (s \<in> set xs)"
| "str_in _ _ = False"

lemma sum_bind_simps [simp]: "sum_bind (Inl e) f = Inl e" "sum_bind (Inr a) f = f a"
  by (simp_all add: sum_bind_def)

lemma sum_bind_Inr: "sum_bind m f = Inr b \<longleftrightarrow> (\<exists>a. m = Inr a \<and> f a = Inr b)"
  by (cases m) simp_all

lemma dget_simps [simp, guardian_simps]:
  "dget [] k = PNone"
  "dget ((k', v) # d) k = (if k = k' then v else dget d k)"
  by (auto simp: dget_def)

lemma dget_default_simps [simp, guardian_simps]:
  "dget_default [] k w = w"
  "dget_default ((k', v) # d) k w = (if k = k' then v else dget_default d k w)"
  by (auto simp: dget_default_def)

lemma has_key_simps [simp, guardian_simps]:
  "has_key [] k = False"
  "has_key ((k', v) # d) k = (k = k' \<or> has_key d k)"
  by (auto simp: has_key_def)

lemma map_of_dset [simp]: "map_of (dset d k v) = (map_of d)(k \<mapsto> v)"
  by (induction d k v rule: dset.induct) auto

lemma keys_dset: "set (map fst (dset d k v)) = insert k (set (map fst d))"
  by (induction d k v rule: dset.induct) auto

lemma distinct_keys_dset: "distinct (map fst d) \<Longrightarrow> distinct (map fst (dset d k v))"
proof (induction d k v rule: dset.induct)
  case (2 k' v' d k v)
  then show ?case using keys_dset [of d k v] by auto
qed simp

lemma as_nonempty_str_Some [simp]: "as_nonempty_str v = Some s \<longleftrightarrow> v = PStr s \<and> s \<noteq> []"
  by (cases v) auto

lemma as_int_Some [simp]: "as_int v = Some i \<longleftrightarrow> v = PInt i"
  by (cases v) auto

lemma positive_int_Some [simp]: "positive_int v = Some n \<longleftrightarrow> v = PInt n \<and> 0 < n"
  by (auto simp: positive_int_def split: option.splits if_splits)

lemma positive_int_PInt [simp]: "positive_int (PInt n) = (if 0 < n then Some n else None)"
  by (simp add: positive_int_def)

section \<open>List idioms\<close>

text \<open>\<open>sorted(set(xs))\<close> on strings, and \<open>tuple(dict.fromkeys(xs))\<close>.\<close>

definition sorted_set :: "string list \<Rightarrow> string list" where
  "sorted_set xs = sort (remdups xs)"

definition dict_fromkeys :: "'a list \<Rightarrow> 'a list" where
  "dict_fromkeys xs = rev (remdups (rev xs))"

lemma set_sorted_set [simp]: "set (sorted_set xs) = set xs"
  by (simp add: sorted_set_def)

lemma sorted_set_distinct [simp]: "distinct (sorted_set xs)" "sorted (sorted_set xs)"
  by (simp_all add: sorted_set_def)

lemma sorted_set_Nil [simp]: "sorted_set xs = [] \<longleftrightarrow> xs = []"
  by (metis set_empty set_sorted_set)

lemma set_dict_fromkeys [simp]: "set (dict_fromkeys xs) = set xs"
  by (simp add: dict_fromkeys_def)

lemma distinct_dict_fromkeys [simp]: "distinct (dict_fromkeys xs)"
  by (simp add: dict_fromkeys_def)

section \<open>Hexadecimal identifiers\<close>

text \<open>\<open>re.compile("^[0-9a-f]{lo,hi}$").fullmatch(s)\<close>.\<close>

definition is_hex_char :: "char \<Rightarrow> bool" where
  "is_hex_char c = (c \<in> set ''0123456789abcdef'')"

definition hex_fullmatch :: "nat \<Rightarrow> nat \<Rightarrow> string \<Rightarrow> bool" where
  "hex_fullmatch lo hi s = (lo \<le> length s \<and> length s \<le> hi \<and> list_all is_hex_char s)"

section \<open>Interfaces\<close>

text \<open>Runs of a deterministic system: the operations applied in order.\<close>

definition exec_all :: "('d \<Rightarrow> 'o \<Rightarrow> 'd) \<Rightarrow> 'd \<Rightarrow> 'o list \<Rightarrow> 'd" where
  "exec_all step d ops = foldl step d ops"

lemma exec_all_simps [simp]:
  "exec_all step d [] = d"
  "exec_all step d (x # xs) = exec_all step (step d x) xs"
  "exec_all step d (xs @ ys) = exec_all step (exec_all step d xs) ys"
  by (simp_all add: exec_all_def)

text \<open>The grants handed out along a run, in order.\<close>

fun granted :: "('d \<Rightarrow> 'o \<Rightarrow> 'd) \<Rightarrow> ('d \<Rightarrow> 'o \<Rightarrow> 'k option) \<Rightarrow> 'd \<Rightarrow> 'o list \<Rightarrow> 'k list" where
  "granted step grant d [] = []"
| "granted step grant d (x # xs) =
     (case grant d x of None \<Rightarrow> [] | Some k \<Rightarrow> [k]) @ granted step grant (step d x) xs"

text \<open>An invariant that every operation of a component keeps.\<close>

locale invariant_system =
  fixes step :: "'d \<Rightarrow> 'o \<Rightarrow> 'd"
    and inv :: "'d \<Rightarrow> bool"
  assumes step_inv: "inv d \<Longrightarrow> inv (step d x)"
begin

lemma run_inv: "inv d \<Longrightarrow> inv (exec_all step d xs)"
  by (induction xs arbitrary: d) (simp_all add: step_inv)

end

text \<open>
  One-shot grants: an operation hands a key out only while the key is unspent, and a spent key
  stays spent.  Whatever the operations and their order, a key is then handed out at most once.
\<close>

locale one_shot =
  fixes step :: "'d \<Rightarrow> 'o \<Rightarrow> 'd"
    and grant :: "'d \<Rightarrow> 'o \<Rightarrow> 'k option"
    and spent :: "'d \<Rightarrow> 'k \<Rightarrow> bool"
  assumes grant_fresh: "grant d x = Some k \<Longrightarrow> \<not> spent d k"
    and grant_spends: "grant d x = Some k \<Longrightarrow> spent (step d x) k"
    and spent_stays: "spent d k \<Longrightarrow> spent (step d x) k"
begin

lemma spent_never_granted: "spent d k \<Longrightarrow> k \<notin> set (granted step grant d xs)"
proof (induction xs arbitrary: d)
  case (Cons x xs)
  then have "k \<notin> set (granted step grant (step d x) xs)"
    by (blast intro: spent_stays)
  moreover have "grant d x \<noteq> Some k"
    using Cons.prems grant_fresh by blast
  ultimately show ?case
    by (auto split: option.splits)
qed simp

lemma granted_once: "distinct (granted step grant d xs)"
proof (induction xs arbitrary: d)
  case (Cons x xs)
  show ?case
  proof (cases "grant d x")
    case (Some k)
    then have "k \<notin> set (granted step grant (step d x) xs)"
      by (intro spent_never_granted grant_spends)
    with Some Cons show ?thesis by simp
  qed (simp add: Cons)
qed simp

end

text \<open>A log that every operation only extends.\<close>

locale append_only =
  fixes step :: "'d \<Rightarrow> 'o \<Rightarrow> 'd"
    and log :: "'d \<Rightarrow> 'a list"
  assumes step_extends: "prefix (log d) (log (step d x))"
begin

lemma run_extends: "prefix (log d) (log (exec_all step d xs))"
proof (induction xs arbitrary: d)
  case (Cons x xs)
  then show ?case
    using step_extends [of d x] prefix_order.trans by fastforce
qed simp

lemma entry_stays: "e \<in> set (log d) \<Longrightarrow> e \<in> set (log (exec_all step d xs))"
  using run_extends set_mono_prefix by blast

end

text \<open>A loop that sleeps at most \<open>poll\<close> and not beyond the end of its window: one round less is left.\<close>

lemma window_shrinks:
  fixes poll w t0 t t1 t2 t3 :: rat
  assumes "0 < poll" "t \<le> t1" "t1 \<le> t2" "t2 + min poll (w - (t1 - t0)) \<le> t3" "w - (t - t0) \<le> of_nat (Suc n) * poll"
  shows "w - (t3 - t0) \<le> of_nat n * poll"
proof -
  have n: "0 \<le> of_nat n * poll" using assms(1) by simp
  have s: "of_nat (Suc n) * poll = of_nat n * poll + poll" by (simp add: algebra_simps)
  show ?thesis using assms(2-5) n unfolding s by (cases "poll \<le> w - (t1 - t0)") (simp_all add: min_def)
qed

end
