(* ===== verification/Guardian_Actions.thy ===== *)
theory Guardian_Actions
  imports Guardian_Prelude
begin

text \<open>
  The guarded action adapter (\<open>src/guardian_actions.py\<close>): authorizations, action requests,
  \<open>validate_request\<close>, the Docker argument vectors, the mock executor and the Docker adapter.
  \<open>subprocess.run\<close> is a parameter \<open>runner\<close> acting on a world of any type, so that whether and
  how often a command is issued can be observed.  The locale \<open>action_executor\<close> is the contract
  the controller relies on; both executors interpret it.
\<close>

section \<open>Data\<close>

record authorization =
  approval_id :: string
  auth_environment :: string
  auth_target_id :: string
  auth_action :: string
  auth_expires_at :: pyfloat

record action_request =
  req_event_id :: string
  req_target_id :: string
  req_action :: string
  req_protected :: bool
  req_allowed_actions :: "string set"
  req_authorization :: "authorization option"
  req_timeout_seconds :: int

record action_result =
  res_executed :: bool
  res_action :: string
  res_target_id :: string
  res_returncode :: "int option"
  res_stdout :: string
  res_stderr :: string
  res_reason :: string

datatype action_denied = ActionDenied string

definition SUPPORTED_ACTIONS :: "string list" where
  "SUPPORTED_ACTIONS = [''graceful_stop'', ''restart'', ''terminate'']"

definition CONTAINER_ID :: "string \<Rightarrow> bool" where
  "CONTAINER_ID s = hex_fullmatch 12 64 s"

section \<open>Validation and the argument vector\<close>

text \<open>\<open>now\<close> is the timestamp the caller passes (or \<open>time.time()\<close>).\<close>

definition validate_request :: "action_request \<Rightarrow> rat \<Rightarrow> action_denied + unit" where
  "validate_request r now =
     (if req_action r \<notin> set SUPPORTED_ACTIONS then Inl (ActionDenied ''unsupported_action'')
      else if \<not> CONTAINER_ID (req_target_id r) then Inl (ActionDenied ''unstable_or_invalid_container_id'')
      else if req_protected r then Inl (ActionDenied ''protected_object'')
      else if req_action r \<notin> req_allowed_actions r then Inl (ActionDenied ''action_not_allowlisted'')
      else case req_authorization r of
          None \<Rightarrow> Inl (ActionDenied ''explicit_authorization_required'')
        | Some a \<Rightarrow>
            if approval_id a = [] then Inl (ActionDenied ''approval_id_missing'')
            else if auth_environment a \<noteq> ''local-disposable''
              then Inl (ActionDenied ''environment_not_local_disposable'')
            else if auth_target_id a \<noteq> req_target_id r
              then Inl (ActionDenied ''authorization_target_mismatch'')
            else if auth_action a \<noteq> req_action r
              then Inl (ActionDenied ''authorization_action_mismatch'')
            else if fle (auth_expires_at a) (Fin now) then Inl (ActionDenied ''authorization_expired'')
            else if \<not> (1 \<le> req_timeout_seconds r \<and> req_timeout_seconds r \<le> 120)
              then Inl (ActionDenied ''invalid_timeout'')
            else Inr ())"

definition docker_command :: "action_request \<Rightarrow> action_denied + string list" where
  "docker_command r =
     (if req_action r = ''graceful_stop''
        then Inr [''docker'', ''kill'', ''--signal'', ''TERM'', req_target_id r]
      else if req_action r = ''restart''
        then Inr [''docker'', ''restart'', ''--timeout'', int_str (req_timeout_seconds r), req_target_id r]
      else if req_action r = ''terminate'' then Inr [''docker'', ''kill'', req_target_id r]
      else Inl (ActionDenied ''unsupported_action''))"

fun join :: "string \<Rightarrow> string list \<Rightarrow> string" where
  "join sep [] = []"
| "join sep [x] = x"
| "join sep (x # xs) = x @ sep @ join sep xs"

definition allowed_actions :: "string list \<Rightarrow> action_denied + string set" where
  "allowed_actions values =
     (let unknown = sorted_set (filter (\<lambda>a. a \<notin> set SUPPORTED_ACTIONS) values)
      in if unknown \<noteq> [] then Inl (ActionDenied (''unknown_allowlist_action:'' @ join '','' unknown))
         else Inr (set values))"

section \<open>Executors\<close>

text \<open>
  \<open>Denied\<close> is a raised \<open>ActionDenied\<close>; \<open>Escaped\<close> any other exception of the runner
  (\<open>FileNotFoundError\<close>, \<open>OSError\<close>), which no executor catches.
\<close>

datatype exec_outcome = Denied string | Escaped | Done action_result

text \<open>What \<open>subprocess.run\<close> does: complete, raise \<open>TimeoutExpired\<close>, or raise something else.\<close>

datatype run_outcome =
    Completed int "string option" "string option"
  | TimeoutExpired "string option"
  | RunRaised

type_synonym 'w runner = "string list \<Rightarrow> int \<Rightarrow> 'w \<Rightarrow> run_outcome \<times> 'w"

definition is_py_space :: "char \<Rightarrow> bool" where
  "is_py_space c = (of_char c \<in> {9 :: nat, 10, 11, 12, 13, 28, 29, 30, 31, 32, 133, 160})"

definition py_strip :: "string \<Rightarrow> string" where
  "py_strip s = rev (dropWhile is_py_space (rev (dropWhile is_py_space s)))"

definition text_or_empty :: "string option \<Rightarrow> string" where
  "text_or_empty t = (case t of None \<Rightarrow> [] | Some s \<Rightarrow> py_strip s)"

text \<open>\<open>MockActionExecutor.execute\<close>: the executor's state is its list of recorded requests.\<close>

definition mock_execute ::
    "action_request \<Rightarrow> rat \<Rightarrow> action_request list \<Rightarrow> exec_outcome \<times> action_request list" where
  "mock_execute r now requests =
     (case validate_request r now of
        Inl (ActionDenied e) \<Rightarrow> (Denied e, requests)
      | Inr _ \<Rightarrow>
          (Done \<lparr>res_executed = False, res_action = req_action r, res_target_id = req_target_id r,
                 res_returncode = None, res_stdout = [], res_stderr = [],
                 res_reason = ''mock_only_not_executed''\<rparr>,
           requests @ [r]))"

text \<open>\<open>DockerActionAdapter.execute\<close>.\<close>

definition docker_execute ::
    "'w runner \<Rightarrow> action_request \<Rightarrow> rat \<Rightarrow> 'w \<Rightarrow> exec_outcome \<times> 'w" where
  "docker_execute runner r now w =
     (case validate_request r now of
        Inl (ActionDenied e) \<Rightarrow> (Denied e, w)
      | Inr _ \<Rightarrow>
          (case docker_command r of
             Inl (ActionDenied e) \<Rightarrow> (Denied e, w)
           | Inr command \<Rightarrow>
               (case runner command (req_timeout_seconds r + 5) w of
                  (RunRaised, w') \<Rightarrow> (Escaped, w')
                | (TimeoutExpired out, w') \<Rightarrow>
                    (Done \<lparr>res_executed = True, res_action = req_action r,
                           res_target_id = req_target_id r, res_returncode = None,
                           res_stdout = text_or_empty out, res_stderr = ''executor_timeout'',
                           res_reason = ''executor_timeout''\<rparr>, w')
                | (Completed rc out err, w') \<Rightarrow>
                    (Done \<lparr>res_executed = True, res_action = req_action r,
                           res_target_id = req_target_id r, res_returncode = Some rc,
                           res_stdout = text_or_empty out, res_stderr = text_or_empty err,
                           res_reason = ''authorized_runtime_call''\<rparr>, w'))))"

section \<open>The contract\<close>

text \<open>The request is inside the authorization boundary at time \<open>now\<close>.\<close>

definition authorized :: "action_request \<Rightarrow> rat \<Rightarrow> bool" where
  "authorized r now \<longleftrightarrow>
     req_action r \<in> set SUPPORTED_ACTIONS \<and> CONTAINER_ID (req_target_id r) \<and>
     \<not> req_protected r \<and> req_action r \<in> req_allowed_actions r \<and>
     1 \<le> req_timeout_seconds r \<and> req_timeout_seconds r \<le> 120 \<and>
     (\<exists>a. req_authorization r = Some a \<and> approval_id a \<noteq> [] \<and>
          auth_environment a = ''local-disposable'' \<and> auth_target_id a = req_target_id r \<and>
          auth_action a = req_action r \<and> \<not> fle (auth_expires_at a) (Fin now))"

lemma validate_iff_authorized: "validate_request r now = Inr () \<longleftrightarrow> authorized r now"
  by (auto simp: validate_request_def authorized_def split: option.splits)

lemma validate_Inr [simp]: "validate_request r now = Inr u \<longleftrightarrow> authorized r now"
  using validate_iff_authorized by (cases u) simp

lemma validate_cases:
  obtains (ok) "validate_request r now = Inr ()" "authorized r now"
    | (denied) e where "validate_request r now = Inl (ActionDenied e)" "\<not> authorized r now"
proof (cases "validate_request r now")
  case (Inl d)
  then show thesis
    using denied by (cases d) (metis Inl_Inr_False validate_iff_authorized)
next
  case (Inr u)
  then show thesis using ok by simp
qed

lemma docker_command_total: "authorized r now \<Longrightarrow> \<exists>cmd. docker_command r = Inr cmd"
  by (auto simp: authorized_def docker_command_def SUPPORTED_ACTIONS_def)

locale action_executor =
  fixes execute :: "action_request \<Rightarrow> rat \<Rightarrow> 'x \<Rightarrow> exec_outcome \<times> 'x"
  assumes rejects: "\<not> authorized r now \<Longrightarrow> \<exists>e. execute r now x = (Denied e, x)"
    and result_target: "execute r now x = (Done a, x') \<Longrightarrow>
          res_action a = req_action r \<and> res_target_id a = req_target_id r"
    and result_code: "execute r now x = (Done a, x') \<Longrightarrow> \<not> res_executed a \<Longrightarrow> res_returncode a = None"
begin

lemma done_authorized: "execute r now x = (Done a, x') \<Longrightarrow> authorized r now"
  using rejects by (metis exec_outcome.distinct(3) prod.inject)

lemma changed_authorized: "execute r now x = (out, x') \<Longrightarrow> x' \<noteq> x \<Longrightarrow> authorized r now"
  using rejects by (metis prod.inject)

end

interpretation mock: action_executor mock_execute
proof unfold_locales
  fix r now x
  show "\<not> authorized r now \<Longrightarrow> \<exists>e. mock_execute r now x = (Denied e, x)"
    by (cases r now rule: validate_cases) (simp_all add: mock_execute_def)
qed (auto simp: mock_execute_def split: sum.splits action_denied.splits)

interpretation docker: action_executor "docker_execute runner" for runner :: "'w runner"
proof unfold_locales
  fix r now and x :: 'w
  show "\<not> authorized r now \<Longrightarrow> \<exists>e. docker_execute runner r now x = (Denied e, x)"
    by (cases r now rule: validate_cases) (simp_all add: docker_execute_def)
qed (auto simp: docker_execute_def split: sum.splits action_denied.splits prod.splits run_outcome.splits)

section \<open>Properties\<close>

text \<open>Example values shared by the witnesses.\<close>

definition example_target :: string where
  "example_target = replicate 64 CHR ''a''"

definition example_authorization :: authorization where
  "example_authorization =
     \<lparr>approval_id = ''ap-1'', auth_environment = ''local-disposable'',
      auth_target_id = example_target, auth_action = ''graceful_stop'',
      auth_expires_at = Fin 1000\<rparr>"

definition example_request :: action_request where
  "example_request =
     \<lparr>req_event_id = ''ev-1'', req_target_id = example_target, req_action = ''graceful_stop'',
      req_protected = False, req_allowed_actions = {''graceful_stop''},
      req_authorization = Some example_authorization, req_timeout_seconds = 30\<rparr>"

lemma example_target_valid: "CONTAINER_ID example_target"
  by (simp add: CONTAINER_ID_def hex_fullmatch_def example_target_def is_hex_char_def list_all_iff)

lemma example_request_authorized: "authorized example_request 100"
  using example_target_valid
  by (auto simp: authorized_def example_request_def example_authorization_def SUPPORTED_ACTIONS_def)

text \<open>A runner that also keeps the argument vectors and timeouts it was called with.\<close>

definition log_runner :: "'w runner \<Rightarrow> ((string list \<times> int) list \<times> 'w) runner" where
  "log_runner runner command timeout s =
     (case runner command timeout (snd s) of (out, w) \<Rightarrow> (out, (fst s @ [(command, timeout)], w)))"

lemma docker_execute_log:
  "fst (snd (docker_execute (log_runner runner) r now s)) =
     fst s @ (if authorized r now then [(projr (docker_command r), req_timeout_seconds r + 5)] else [])"
proof (cases r now rule: validate_cases)
  case ok
  then obtain command where "docker_command r = Inr command"
    using docker_command_total by blast
  with ok(2) show ?thesis
    unfolding docker_execute_def ok(1)
    by (auto simp: log_runner_def split: prod.splits run_outcome.splits)
qed (simp add: docker_execute_def)

text \<open>
  The Docker adapter starts a process exactly for the requests inside the authorization
  boundary, and then exactly one, on the approved container: a graceful stop is one SIGTERM
  (\<open>docker kill --signal TERM\<close>, never \<open>docker stop\<close> or a plain kill), whatever the process does.
\<close>
theorem docker_runs_authorized_command:
  "fst (snd (docker_execute (log_runner runner) r now (commands, w))) =
     commands @ (if \<not> authorized r now then []
       else [(if req_action r = ''graceful_stop'' then [''docker'', ''kill'', ''--signal'', ''TERM'', req_target_id r]
              else if req_action r = ''restart''
              then [''docker'', ''restart'', ''--timeout'', int_str (req_timeout_seconds r), req_target_id r]
              else [''docker'', ''kill'', req_target_id r], req_timeout_seconds r + 5)])"
  by (auto simp: docker_execute_log docker_command_def authorized_def SUPPORTED_ACTIONS_def)

text \<open>
  An approval whose expiry is NaN (\<open>json.loads\<close> reads the literal) is inside the boundary at every
  time, since \<open>NaN <= now\<close> is false.
\<close>

lemma nan_approval_never_expires:
  "authorized (example_request\<lparr>req_authorization := Some (example_authorization\<lparr>auth_expires_at := NaN\<rparr>)\<rparr>) now"
  using example_target_valid
  by (simp add: authorized_def example_request_def example_authorization_def SUPPORTED_ACTIONS_def)

end
