(* ===== verification/Guardian_Text.thy ===== *)
theory Guardian_Text
  imports Guardian_Actions
begin

text \<open>
  The string methods and numeric conversions of Python that the sources apply to procfs texts and
  JSON values: \<open>splitlines\<close>, \<open>split\<close>, \<open>partition\<close>, \<open>lower\<close>, \<open>int(...)\<close> and \<open>float(...)\<close>.
\<close>

section \<open>Splitting\<close>

definition is_line_break :: "char \<Rightarrow> bool" where
  "is_line_break c = (of_char c \<in> {10 :: nat, 11, 12, 13, 28, 29, 30, 133})"

definition CR :: char where "CR = char_of (13 :: nat)"

definition LF :: char where "LF = char_of (10 :: nat)"

fun split_lines :: "string \<Rightarrow> string \<Rightarrow> string list" where
  "split_lines acc [] = (if acc = [] then [] else [rev acc])"
| "split_lines acc [c] = (if is_line_break c then [rev acc] else [rev (c # acc)])"
| "split_lines acc (c # d # cs) =
     (if c = CR \<and> d = LF then rev acc # split_lines [] cs
      else if is_line_break c then rev acc # split_lines [] (d # cs)
      else split_lines (c # acc) (d # cs))"

definition splitlines :: "string \<Rightarrow> string list" where
  "splitlines s = split_lines [] s"

fun split_ws :: "string \<Rightarrow> string \<Rightarrow> string list" where
  "split_ws acc [] = (if acc = [] then [] else [rev acc])"
| "split_ws acc (c # cs) =
     (if is_py_space c then (if acc = [] then [] else [rev acc]) @ split_ws [] cs
      else split_ws (c # acc) cs)"

text \<open>\<open>s.split()\<close>.\<close>

definition py_split :: "string \<Rightarrow> string list" where
  "py_split s = split_ws [] s"

text \<open>\<open>s.partition(c)\<close> for a one-character separator: head, whether it was found, tail.\<close>

definition py_partition :: "char \<Rightarrow> string \<Rightarrow> string \<times> bool \<times> string" where
  "py_partition c s = (takeWhile (\<lambda>x. x \<noteq> c) s, c \<in> set s, tl (dropWhile (\<lambda>x. x \<noteq> c) s))"

text \<open>\<open>s.split(c)\<close>, and the parts of a path.\<close>

fun split_on :: "char \<Rightarrow> string \<Rightarrow> string list" where
  "split_on c [] = [[]]"
| "split_on c (x # xs) =
     (if x = c then [] # split_on c xs
      else case split_on c xs of [] \<Rightarrow> [[x]] | w # ws \<Rightarrow> (x # w) # ws)"

definition path_parts :: "string \<Rightarrow> string list" where
  "path_parts p = filter (\<lambda>c. c \<noteq> [] \<and> c \<noteq> ''.'') (split_on CHR ''/'' p)"

text \<open>\<open>str(Path(s))\<close>: repeated and trailing slashes and dots go; two leading slashes stay.\<close>

definition path_root :: "string \<Rightarrow> string" where
  "path_root s =
     (if prefix ''//'' s \<and> \<not> prefix ''///'' s then ''//'' else if prefix ''/'' s then ''/'' else [])"

definition pure_path :: "string \<Rightarrow> string" where
  "pure_path s =
     (let text = path_root s @ join ''/'' (path_parts s) in if text = [] then ''.'' else text)"

definition lower_char :: "char \<Rightarrow> char" where
  "lower_char c =
     (let n = (of_char c :: nat) in if 65 \<le> n \<and> n \<le> 90 then char_of (n + 32) else c)"

definition py_lower :: "string \<Rightarrow> string" where
  "py_lower s = map lower_char s"

definition upper_char :: "char \<Rightarrow> char" where
  "upper_char c =
     (let n = (of_char c :: nat) in if 97 \<le> n \<and> n \<le> 122 then char_of (n - 32) else c)"

definition py_upper :: "string \<Rightarrow> string" where
  "py_upper s = map upper_char s"

section \<open>Numbers\<close>

definition is_digit :: "char \<Rightarrow> bool" where
  "is_digit c = (48 \<le> (of_char c :: nat) \<and> (of_char c :: nat) \<le> 57)"

definition digit_val :: "char \<Rightarrow> nat" where
  "digit_val c = of_char c - 48"

text \<open>The rest of a digit sequence after its first digit; single underscores may separate digits.\<close>

fun digit_seq :: "nat \<Rightarrow> nat \<Rightarrow> string \<Rightarrow> (nat \<times> nat) option" where
  "digit_seq acc n [] = Some (acc, n)"
| "digit_seq acc n [c] = (if is_digit c then Some (acc * 10 + digit_val c, n + 1) else None)"
| "digit_seq acc n (c # d # cs) =
     (if is_digit c then digit_seq (acc * 10 + digit_val c) (n + 1) (d # cs)
      else if c = CHR ''_'' \<and> is_digit d then digit_seq (acc * 10 + digit_val d) (n + 1) cs
      else None)"

text \<open>Value and number of digits of a \<open>digitpart\<close>.\<close>

fun digit_part :: "string \<Rightarrow> (nat \<times> nat) option" where
  "digit_part [] = None"
| "digit_part (c # cs) = (if is_digit c then digit_seq (digit_val c) 1 cs else None)"

fun signed :: "string \<Rightarrow> bool \<times> string" where
  "signed [] = (False, [])"
| "signed (c # cs) = (if c = CHR ''-'' then (True, cs) else if c = CHR ''+'' then (False, cs) else (False, c # cs))"

text \<open>\<open>int(s)\<close> on a string, \<open>None\<close> for \<open>ValueError\<close>.\<close>

definition parse_int :: "string \<Rightarrow> int option" where
  "parse_int s =
     (case signed (py_strip s) of (neg, t) \<Rightarrow>
        map_option (\<lambda>(v, _). if neg then - int v else int v) (digit_part t))"

text \<open>The largest rational that still rounds to a finite double is below this bound.\<close>

definition float_limit :: rat where
  "float_limit = 2 ^ 1024 - 2 ^ 970"

definition to_float :: "rat \<Rightarrow> pyfloat" where
  "to_float q = (if float_limit \<le> q then PInf else if q \<le> - float_limit then NInf else Fin q)"

definition parse_mantissa :: "string \<Rightarrow> rat option" where
  "parse_mantissa m =
     (case py_partition CHR ''.'' m of (ip, dot, fp) \<Rightarrow>
        if ip = [] \<and> fp = [] then None
        else case (if ip = [] then Some (0, 0) else digit_part ip) of
            None \<Rightarrow> None
          | Some (i, _) \<Rightarrow>
              (case (if fp = [] then Some (0, 0) else digit_part fp) of
                 None \<Rightarrow> None
               | Some (f, k) \<Rightarrow> Some (of_nat i + of_nat f / 10 ^ k)))"

definition parse_exponent :: "string \<Rightarrow> int option" where
  "parse_exponent e =
     (case signed e of (neg, t) \<Rightarrow> map_option (\<lambda>(v, _). if neg then - int v else int v) (digit_part t))"

definition is_exp_char :: "char \<Rightarrow> bool" where
  "is_exp_char c = (c = CHR ''e'' \<or> c = CHR ''E'')"

definition scale10 :: "rat \<Rightarrow> int \<Rightarrow> rat" where
  "scale10 q e = (if 0 \<le> e then q * 10 ^ nat e else q / 10 ^ nat (- e))"

text \<open>\<open>float(s)\<close> on a string, \<open>None\<close> for \<open>ValueError\<close>.\<close>

definition parse_float :: "string \<Rightarrow> pyfloat option" where
  "parse_float s =
     (case signed (py_strip s) of (neg, t) \<Rightarrow>
        if py_lower t = ''inf'' \<or> py_lower t = ''infinity'' then Some (if neg then NInf else PInf)
        else if py_lower t = ''nan'' then Some NaN
        else
          (let m = takeWhile (\<lambda>c. \<not> is_exp_char c) t; r = dropWhile (\<lambda>c. \<not> is_exp_char c) t
           in case parse_mantissa m of
                None \<Rightarrow> None
              | Some q \<Rightarrow>
                  (case (if r = [] then Some 0 else parse_exponent (tl r)) of
                     None \<Rightarrow> None
                   | Some e \<Rightarrow> Some (to_float (if neg then - scale10 q e else scale10 q e)))))"

text \<open>\<open>float(v)\<close> and \<open>int(v)\<close> on a Python value.\<close>

fun py_float :: "pyval \<Rightarrow> py_exn + pyfloat" where
  "py_float (PBool b) = Inr (Fin (if b then 1 else 0))"
| "py_float (PInt i) =
     (if float_limit \<le> \<bar>of_int i\<bar> then Inl OverflowError else Inr (Fin (of_int i)))"
| "py_float (PFloat f) = Inr f"
| "py_float (PStr s) = (case parse_float s of None \<Rightarrow> Inl ValueError | Some f \<Rightarrow> Inr f)"
| "py_float _ = Inl TypeError"

definition trunc :: "rat \<Rightarrow> int" where
  "trunc q = (if 0 \<le> q then \<lfloor>q\<rfloor> else \<lceil>q\<rceil>)"

fun py_int :: "pyval \<Rightarrow> py_exn + int" where
  "py_int (PBool b) = Inr (if b then 1 else 0)"
| "py_int (PInt i) = Inr i"
| "py_int (PFloat f) =
     (case f of Fin q \<Rightarrow> Inr (trunc q) | NaN \<Rightarrow> Inl ValueError | _ \<Rightarrow> Inl OverflowError)"
| "py_int (PStr s) = (case parse_int s of None \<Rightarrow> Inl ValueError | Some i \<Rightarrow> Inr i)"
| "py_int _ = Inl TypeError"

section \<open>Round trip of decimal texts\<close>

lemma of_char_digit [simp]: "n < 10 \<Longrightarrow> (of_char (char_of (48 + n) :: char) :: nat) = 48 + n"
  by (simp add: of_char_of)

lemma is_digit_char [simp]: "(n :: nat) < 10 \<Longrightarrow> is_digit (char_of (48 + n))"
  by (simp add: is_digit_def)

lemma digit_val_char [simp]: "n < 10 \<Longrightarrow> digit_val (char_of (48 + n)) = n"
  by (simp add: digit_val_def)

lemma digit_seq_Cons:
  "is_digit c \<Longrightarrow> digit_seq acc n (c # cs) = digit_seq (acc * 10 + digit_val c) (n + 1) cs"
  by (cases cs) simp_all

fun digits_value :: "nat \<Rightarrow> string \<Rightarrow> nat" where
  "digits_value acc [] = acc"
| "digits_value acc (c # cs) = digits_value (acc * 10 + digit_val c) cs"

lemma digit_seq_digits:
  "list_all is_digit s \<Longrightarrow> digit_seq acc n s = Some (digits_value acc s, n + length s)"
proof (induction s arbitrary: acc n)
  case (Cons c cs)
  then show ?case by (simp add: digit_seq_Cons)
qed simp

lemma digits_value_append: "digits_value acc (s @ t) = digits_value (digits_value acc s) t"
  by (induction s arbitrary: acc) simp_all

lemma digits_nonempty [simp]: "digits n \<noteq> []"
  by (subst digits.simps) simp

lemma digits_all [simp]: "list_all is_digit (digits n)"
proof (induction n rule: digits.induct)
  case (1 n)
  then show ?case by (subst digits.simps) simp
qed

lemma digits_value_digits: "digits_value 0 (digits n) = n"
proof (induction n rule: digits.induct)
  case (1 n)
  then show ?case
    by (subst digits.simps) (simp add: digits_value_append)
qed

lemma digit_part_digits: "\<exists>k. digit_part (digits n) = Some (n, k)"
proof -
  obtain c cs where cs: "digits n = c # cs"
    using digits_nonempty [of n] by (cases "digits n") auto
  moreover have "is_digit c" "list_all is_digit cs"
    using digits_all [of n] cs by simp_all
  moreover have "digits_value (digit_val c) cs = n"
    using digits_value_digits [of n] cs by simp
  ultimately show ?thesis
    by (simp add: digit_seq_digits)
qed

lemma digit_not_space: "is_digit c \<Longrightarrow> \<not> is_py_space c"
  by (auto simp: is_digit_def is_py_space_def)

lemma strip_nonspace: "list_all (\<lambda>c. \<not> is_py_space c) s \<Longrightarrow> py_strip s = s"
proof -
  assume s: "list_all (\<lambda>c. \<not> is_py_space c) s"
  then have "dropWhile is_py_space s = s"
    by (cases s) simp_all
  moreover from s have "dropWhile is_py_space (rev s) = rev s"
    by (cases s rule: rev_cases) simp_all
  ultimately show ?thesis by (simp add: py_strip_def)
qed

lemma strip_digits: "py_strip (digits n) = digits n"
  by (rule strip_nonspace) (use digits_all [of n] digit_not_space in \<open>auto simp: list_all_iff\<close>)

lemma signed_digits: "signed (digits n) = (False, digits n)"
proof -
  obtain c cs where cs: "digits n = c # cs"
    using digits_nonempty [of n] by (cases "digits n") auto
  moreover have "is_digit c"
    using digits_all [of n] cs by simp
  then have "c \<noteq> CHR ''-''" "c \<noteq> CHR ''+''"
    by (auto simp: is_digit_def)
  ultimately show ?thesis by simp
qed

lemma parse_int_digits: "parse_int (digits n) = Some (int n)"
  using digit_part_digits [of n] by (auto simp: parse_int_def strip_digits signed_digits)

end
