(* ===== verification/Guardian_Dwell.thy ===== *)
theory Guardian_Dwell
  imports Guardian_Text
begin

text \<open>
  What the risk evaluators of the four resources share (\<open>guardian_risk.py\<close>, \<open>guardian_cpu.py\<close>,
  \<open>guardian_disk.py\<close>): a candidate level must hold for a dwell time before it is emitted, a quality
  flag suppresses every emission, and a recovery ends an emission.  The locale \<open>dwell_engine\<close> states
  this contract of \<open>evaluate\<close>; its lemmas are about whole runs of an evaluator.
\<close>

section \<open>Readings\<close>

text \<open>\<open>_number\<close>; integers are within the range of \<open>float\<close>.\<close>

fun number :: "pyval \<Rightarrow> pyfloat option" where
  "number (PInt i) = Some (Fin (of_int i))"
| "number (PFloat f) = Some f"
| "number _ = None"

text \<open>\<open>[str(flag) for flag in flags if flag]\<close>.\<close>

definition flag_texts :: "(pyval \<Rightarrow> string) \<Rightarrow> pyval list \<Rightarrow> string list" where
  "flag_texts rep flags = map (py_str rep) (filter py_truthy flags)"

text \<open>A pair of thresholds: the critical one adds to the second list, else the warning one to the first.\<close>

definition two_level ::
    "(pyfloat \<Rightarrow> bool) \<Rightarrow> string \<Rightarrow> (pyfloat \<Rightarrow> bool) \<Rightarrow> string \<Rightarrow> pyfloat option \<Rightarrow> string list \<times> string list" where
  "two_level critical c_name warning w_name v =
     (case v of
        None \<Rightarrow> ([], [])
      | Some x \<Rightarrow> if critical x then ([], [c_name]) else if warning x then ([w_name], []) else ([], []))"

text \<open>Seconds between two monotonic readings.\<close>

definition elapsed_seconds :: "int option \<Rightarrow> int option \<Rightarrow> rat option" where
  "elapsed_seconds previous ns =
     (case (previous, ns) of (Some p, Some n) \<Rightarrow> Some (of_int (n - p) / 1000000000) | _ \<Rightarrow> None)"

section \<open>The dwell rule\<close>

definition risk_levels :: "string set" where
  "risk_levels = {''normal'', ''warning'', ''critical''}"

definition required_dwell :: "pyfloat \<Rightarrow> pyfloat \<Rightarrow> string \<Rightarrow> pyfloat" where
  "required_dwell warning_for critical_for candidate =
     (if candidate = ''critical'' then critical_for else if candidate = ''warning'' then warning_for else Fin 0)"

definition dwell_state :: "pyfloat \<Rightarrow> string \<Rightarrow> bool \<Rightarrow> string \<Rightarrow> rat \<Rightarrow> string" where
  "dwell_state required last_emitted flagged candidate candidate_for =
     (if flagged then ''degraded_observability''
      else if candidate = ''normal''
      then (if last_emitted \<in> {''warning'', ''critical''} then ''recovered'' else ''normal'')
      else if fle required (Fin candidate_for) then candidate else ''normal'')"

definition emitted_after :: "string \<Rightarrow> string \<Rightarrow> string" where
  "emitted_after state last_emitted =
     (if state = ''recovered'' then ''normal'' else if state \<in> {''warning'', ''critical''} then state else last_emitted)"

text \<open>The part of an evaluator's state the rule works on, and one application of the rule.\<close>

record dwell =
  dw_level :: string
  dw_since :: "rat option"
  dw_last :: string

definition new_dwell :: dwell where
  "new_dwell = \<lparr>dw_level = ''normal'', dw_since = None, dw_last = ''normal''\<rparr>"

definition dwell_start :: "dwell \<Rightarrow> string \<Rightarrow> rat \<Rightarrow> rat" where
  "dwell_start d candidate now =
     (if candidate \<noteq> dw_level d then now else case dw_since d of None \<Rightarrow> now | Some t \<Rightarrow> t)"

definition dwell_next :: "pyfloat \<Rightarrow> pyfloat \<Rightarrow> bool \<Rightarrow> string \<Rightarrow> rat \<Rightarrow> dwell \<Rightarrow> string \<times> dwell" where
  "dwell_next warning_for critical_for flagged candidate now d =
     (let start = dwell_start d candidate now;
          state = dwell_state (required_dwell warning_for critical_for candidate) (dw_last d) flagged candidate (max (now - start) 0)
      in (state, \<lparr>dw_level = candidate, dw_since = Some start, dw_last = emitted_after state (dw_last d)\<rparr>))"

section \<open>Histories\<close>

text \<open>A run keeps, newest first, the emitted state, the candidate and the time of each evaluation.\<close>

type_synonym risk_history = "(string \<times> string \<times> rat) list"

definition streak :: "risk_history \<Rightarrow> risk_history" where
  "streak h = takeWhile (\<lambda>p. fst (snd p) = fst (snd (hd h))) h"

text \<open>The last emission that still stands: none after a recovery.\<close>

definition standing :: "risk_history \<Rightarrow> string" where
  "standing h =
     (case filter (\<lambda>p. fst p \<in> {''warning'', ''critical'', ''recovered''}) h of
        [] \<Rightarrow> ''normal'' | p # _ \<Rightarrow> if fst p = ''recovered'' then ''normal'' else fst p)"

definition dwell_history :: "dwell \<Rightarrow> risk_history \<Rightarrow> bool" where
  "dwell_history d h \<longleftrightarrow>
     dw_last d = standing h \<and>
     (case h of
        [] \<Rightarrow> dw_level d = ''normal'' \<and> dw_since d = None
      | p # _ \<Rightarrow> dw_level d = fst (snd p) \<and> dw_since d = Some (snd (snd (last (streak h)))))"

lemma streak_Cons:
  "streak ((st, c, t) # h) = (st, c, t) # (if h \<noteq> [] \<and> fst (snd (hd h)) = c then streak h else [])"
  by (cases h) (auto simp: streak_def)

lemma streak_nonempty [simp]: "streak h = [] \<longleftrightarrow> h = []"
  by (cases h) (simp_all add: streak_def)

text \<open>The streak starts where \<open>_candidate_since\<close> says.\<close>

lemma streak_start:
  assumes "dwell_history d h"
  shows "snd (snd (last (streak ((st, c, now) # h)))) = dwell_start d c now"
  using assms by (cases h) (auto simp: dwell_history_def streak_Cons dwell_start_def)

lemma standing_Cons: "standing ((st, c, t) # h) = emitted_after st (standing h)"
  by (simp add: standing_def emitted_after_def)

lemma new_dwell_history [simp]: "dwell_history new_dwell []"
  by (simp add: dwell_history_def new_dwell_def standing_def)

lemma dwell_next_history:
  assumes "dwell_history d h" "dwell_next wfor cfor flagged c now d = (st, d')"
  shows "dwell_history d' ((st, c, now) # h)"
  using assms streak_start [OF assms(1), of st c now]
  by (auto simp: dwell_next_def Let_def dwell_history_def standing_Cons)

section \<open>The contract of an evaluator\<close>

text \<open>
  \<open>eval\<close> returns a result or raises (\<open>None\<close>); \<open>dwell_of\<close> reads the dwell state off the evaluator, and
  an evaluation that raises leaves it alone.
\<close>

definition dwell_step ::
    "('x \<Rightarrow> 'e \<Rightarrow> 'r option \<times> 'e) \<Rightarrow> ('x \<Rightarrow> rat) \<Rightarrow> ('r \<Rightarrow> string) \<Rightarrow> ('r \<Rightarrow> string) \<Rightarrow> 'e \<times> risk_history \<Rightarrow> 'x \<Rightarrow> 'e \<times> risk_history" where
  "dwell_step eval time state candidate s x =
     (case eval x (fst s) of
        (None, e) \<Rightarrow> (e, snd s)
      | (Some r, e) \<Rightarrow> (e, (state r, candidate r, time x) # snd s))"

locale dwell_engine =
  fixes eval :: "'x \<Rightarrow> 'e \<Rightarrow> 'r option \<times> 'e"
    and time :: "'x \<Rightarrow> rat"
    and state :: "'r \<Rightarrow> string"
    and candidate :: "'r \<Rightarrow> string"
    and flags :: "'r \<Rightarrow> string list"
    and dwell_of :: "'e \<Rightarrow> dwell"
    and dwells :: "'e \<Rightarrow> pyfloat \<times> pyfloat"
  assumes eval_rule: "eval x e = (Some r, e') \<Longrightarrow>
      dwell_next (fst (dwells e)) (snd (dwells e)) (flags r \<noteq> []) (candidate r) (time x) (dwell_of e) = (state r, dwell_of e')"
    and eval_raised: "eval x e = (None, e') \<Longrightarrow> dwell_of e' = dwell_of e"
    and eval_dwells: "dwells (snd (eval x e)) = dwells e"
    and eval_level: "eval x e = (Some r, e') \<Longrightarrow> candidate r \<in> risk_levels"

sublocale dwell_engine \<subseteq> invariant_system "dwell_step eval time state candidate" "\<lambda>s. dwells (fst s) = w \<and> dwell_history (dwell_of (fst s)) (snd s)"
  for w
proof
  fix s :: "'e \<times> risk_history" and x
  assume inv: "dwells (fst s) = w \<and> dwell_history (dwell_of (fst s)) (snd s)"
  obtain r e' where ev: "eval x (fst s) = (r, e')" by fastforce
  with eval_dwells [of x "fst s"] inv have "dwells e' = w" by simp
  moreover have "dwell_history (dwell_of e') (snd (dwell_step eval time state candidate s x))"
  proof (cases r)
    case None
    with ev inv eval_raised [of x "fst s" e'] show ?thesis by (simp add: dwell_step_def)
  next
    case (Some q)
    from dwell_next_history [OF conjunct2 [OF inv] eval_rule [OF ev [unfolded Some]]] show ?thesis
      by (simp add: dwell_step_def ev Some)
  qed
  ultimately show "dwells (fst (dwell_step eval time state candidate s x)) = w \<and>
      dwell_history (dwell_of (fst (dwell_step eval time state candidate s x))) (snd (dwell_step eval time state candidate s x))"
    by (cases r) (simp_all add: dwell_step_def ev)
qed

context dwell_engine
begin

lemma emission_dwells:
  assumes "exec_all (dwell_step eval time state candidate) (e0, []) xs = (e, h)" "dwell_of e0 = new_dwell"
    and "eval x e = (Some r, e')" "state r \<in> {''warning'', ''critical''}"
  shows "flags r = [] \<and>
    (\<exists>period before. (state r, candidate r, time x) # h = period @ before \<and> period \<noteq> [] \<and>
       (\<forall>p \<in> set period. fst (snd p) = state r) \<and>
       fle (required_dwell (fst (dwells e0)) (snd (dwells e0)) (state r)) (Fin (max (time x - snd (snd (last period))) 0)))"
proof -
  let ?h = "(state r, candidate r, time x) # h"
  have inv: "dwells e = dwells e0" "dwell_history (dwell_of e) h"
    using run_inv [of "(e0, [])" "dwells e0" xs] assms(1,2) by simp_all
  from eval_rule [OF assms(3)] assms(4) inv(1)
  have em: "flags r = [] \<and> state r = candidate r \<and> fle (required_dwell (fst (dwells e0)) (snd (dwells e0)) (candidate r))
      (Fin (max (time x - dwell_start (dwell_of e) (candidate r) (time x)) 0))"
    by (auto simp: dwell_next_def dwell_state_def Let_def split: if_splits)
  have start: "snd (snd (last (streak ?h))) = dwell_start (dwell_of e) (candidate r) (time x)"
    by (rule streak_start [OF inv(2)])
  have "?h = streak ?h @ dropWhile (\<lambda>p. fst (snd p) = candidate r) ?h"
    by (simp add: streak_def)
  moreover have "\<forall>p \<in> set (streak ?h). fst (snd p) = state r"
    using em by (auto simp: streak_def dest: set_takeWhileD)
  moreover have "fle (required_dwell (fst (dwells e0)) (snd (dwells e0)) (state r)) (Fin (max (time x - snd (snd (last (streak ?h)))) 0))"
    using em unfolding start by simp
  moreover have "streak ?h \<noteq> []" by simp
  ultimately show ?thesis using em by blast
qed

lemma recovery_stands:
  assumes "exec_all (dwell_step eval time state candidate) (e0, []) xs = (e, h)" "dwell_of e0 = new_dwell"
    and "eval x e = (Some r, e')" "state r = ''recovered''"
  shows "flags r = [] \<and> candidate r = ''normal'' \<and> standing h \<in> {''warning'', ''critical''}"
proof -
  have "dwell_history (dwell_of e) h"
    using run_inv [of "(e0, [])" "dwells e0" xs] assms(1,2) by simp
  with eval_rule [OF assms(3)] eval_level [OF assms(3)] assms(4) show ?thesis
    by (auto simp: dwell_next_def dwell_state_def dwell_history_def risk_levels_def Let_def split: if_splits)
qed

end

end
