(* ===== verification/Guardian_Risk.thy ===== *)
theory Guardian_Risk
  imports Guardian_Dwell
begin

text \<open>
  The composite memory-risk evaluator (\<open>src/guardian_risk.py\<close>): \<open>CompositeRiskEvaluator\<close> with its
  state, \<open>_event_delta\<close> and \<open>evaluate\<close>, split along the sections of the method.  Configuration
  thresholds are floats (the configuration accepts NaN for some of them); integers of an
  observation are assumed to be in the range of \<open>float\<close>, so that \<open>float(value)\<close> does not raise.
\<close>

section \<open>Data\<close>

record risk_config =
  rc_warning_available :: pyfloat
  rc_critical_available :: pyfloat
  rc_required_samples :: int
  rc_max_sample_age :: pyfloat
  rc_trend_warning :: pyfloat
  rc_trend_critical :: pyfloat
  rc_psi_some_warning :: pyfloat
  rc_psi_full_critical :: pyfloat
  rc_swap_warning :: pyfloat
  rc_swap_critical :: pyfloat

record risk_evaluator =
  re_config :: risk_config
  re_warning_for :: pyfloat
  re_critical_for :: pyfloat
  re_candidate_level :: string
  re_candidate_since :: "rat option"
  re_last_emitted :: string
  re_previous_available :: "int option"
  re_previous_events :: "(string \<times> int) list option"
  re_previous_ns :: "int option"
  re_previous_timestamp :: "rat option"
  re_sample_count :: int

record risk_result =
  rk_state :: string
  rk_candidate :: string
  rk_candidate_for :: rat
  rk_required_for :: pyfloat
  rk_reasons :: "string list"
  rk_quality_flags :: "string list"
  rk_sample_count :: int
  rk_oom_delta :: "int option"
  rk_growth :: "rat option"
  rk_quality_status :: string
  rk_warning_signals :: "string list"
  rk_critical_support :: "string list"
  rk_psi_some :: "pyfloat option"
  rk_psi_full :: "pyfloat option"
  rk_swap_ratio :: "pyfloat option"

definition ATTRIBUTION_ONLY_QUALITY_FLAGS :: "string list" where
  "ATTRIBUTION_ONLY_QUALITY_FLAGS = [''container_collector_degraded'', ''docker_observation_unavailable'']"

text \<open>\<open>_nested_number\<close>.\<close>

fun nested_number :: "pyval \<Rightarrow> string list \<Rightarrow> pyfloat option" where
  "nested_number v [] = number v"
| "nested_number v (k # ks) = (if is_dict v then nested_number (dget (mapping_of v) k) ks else None)"

definition new_evaluator :: "risk_config \<Rightarrow> pyfloat \<Rightarrow> pyfloat \<Rightarrow> risk_evaluator" where
  "new_evaluator config warning_for critical_for =
     \<lparr>re_config = config, re_warning_for = warning_for, re_critical_for = critical_for,
      re_candidate_level = ''normal'', re_candidate_since = None, re_last_emitted = ''normal'',
      re_previous_available = None, re_previous_events = None, re_previous_ns = None,
      re_previous_timestamp = None, re_sample_count = 0\<rparr>"

section \<open>Event counters\<close>

definition tracked_counters :: "pydict \<Rightarrow> (string \<times> int) list" where
  "tracked_counters current =
     List.map_filter (\<lambda>(k, v). if k \<in> {''oom'', ''oom_kill''}
                            then (case as_int v of Some i \<Rightarrow> if 0 \<le> i then Some (k, i) else None | None \<Rightarrow> None)
                            else None) current"

text \<open>The result is (delta, baseline, reset) with the new previous counters.\<close>

definition event_delta ::
    "(string \<times> int) list option \<Rightarrow> pydict \<Rightarrow> (int option \<times> bool \<times> bool) \<times> (string \<times> int) list" where
  "event_delta previous current =
     (let counters = tracked_counters current
      in case previous of
           None \<Rightarrow> ((None, True, False), counters)
         | Some prev \<Rightarrow>
             (let old = (\<lambda>k v. case map_of prev k of None \<Rightarrow> v | Some w \<Rightarrow> w)
              in ((Some (sum_list (map (\<lambda>(k, v). max (v - old k v) 0) counters)), False,
                   list_ex (\<lambda>(k, v). v < old k v) counters), counters)))"

section \<open>Sections of the evaluation\<close>

definition quality_section :: "(pyval \<Rightarrow> string) \<Rightarrow> pydict \<Rightarrow> string list" where
  "quality_section rep ob =
     (case dget ob ''quality'' of
        PDict quality \<Rightarrow>
          (let raw = dget_default quality ''flags'' (PList [])
           in (case raw of
                 PList flags \<Rightarrow>
                   filter (\<lambda>s. s \<notin> set ATTRIBUTION_ONLY_QUALITY_FLAGS)
                     (map (py_str rep) (filter py_truthy flags))
               | _ \<Rightarrow> [''observation_quality_flags_invalid'']) @
              (if dget quality ''status'' \<noteq> PStr ''ok'' \<and> \<not> py_truthy raw
               then [''observation_quality_degraded_without_flags''] else []))
      | _ \<Rightarrow> [''observation_quality_missing''])"

text \<open>The monotonic timestamp: its flags and the value if it is an integer.\<close>

definition clock_section :: "risk_evaluator \<Rightarrow> pydict \<Rightarrow> string list \<times> int option" where
  "clock_section e ob =
     (let raw = dget ob ''observed_monotonic_ns'';
          ns = as_int raw;
          kind = (if raw = PNone then [''monotonic_timestamp_missing'']
                  else if ns = None then [''monotonic_timestamp_invalid''] else []);
          order = (case (re_previous_ns e, ns) of
                     (Some p, Some n) \<Rightarrow>
                       if n \<le> p then [''monotonic_clock_not_increasing'']
                       else if flt (fscale 1000000000 (rc_max_sample_age (re_config e))) (Fin (of_int (n - p)))
                       then [''sample_gap_too_large''] else []
                   | _ \<Rightarrow> [])
      in (kind @ order, ns))"

text \<open>The growth rate and its flag.\<close>

definition growth_section :: "risk_evaluator \<Rightarrow> int option \<Rightarrow> rat \<Rightarrow> string list \<times> rat option" where
  "growth_section e available now =
     (case (re_previous_available e, available) of
        (Some p, Some a) \<Rightarrow>
          (let elapsed = (case re_previous_timestamp e of None \<Rightarrow> 0 | Some t \<Rightarrow> now - t)
           in if elapsed \<le> 0 then ([''evaluation_clock_not_increasing''], None)
              else ([], Some (max (of_int (p - a) / elapsed) 0)))
      | _ \<Rightarrow> ([], None))"

definition swap_section :: "pydict \<Rightarrow> string list \<times> pyfloat option" where
  "swap_section memory =
     (let ratio = number (dget memory ''swap_used_ratio_percent'')
      in case number (dget memory ''swap_total_bytes'') of
           None \<Rightarrow> ([''swap_signal_missing''], ratio)
         | Some t \<Rightarrow>
             if flt t (Fin 0) then ([''swap_signal_invalid''], ratio)
             else if feq t (Fin 0) then ([], None)
             else if ratio = None then ([''swap_signal_missing''], ratio)
             else ([], ratio))"

definition psi_section :: "pydict \<Rightarrow> string list \<times> pyfloat option \<times> pyfloat option" where
  "psi_section psi =
     (let m = dget psi ''memory'';
          some = nested_number m [''some'', ''avg10''];
          full = nested_number m [''full'', ''avg10'']
      in (if \<not> is_dict m \<or> some = None \<or> full = None then [''memory_psi_missing''] else [], some, full))"

definition psi_signals :: "risk_config \<Rightarrow> pyfloat option \<Rightarrow> pyfloat option \<Rightarrow> string list \<times> string list" where
  "psi_signals cfg some full =
     (if opt_holds (fle (rc_psi_full_critical cfg)) full then ([], [''memory_psi_full_critical''])
      else if opt_holds (fle (rc_psi_some_warning cfg)) some then ([''memory_psi_some_warning''], [])
      else ([], []))"

definition candidate_of ::
    "int option \<Rightarrow> bool \<Rightarrow> bool \<Rightarrow> string list \<Rightarrow> string list \<Rightarrow> string" where
  "candidate_of delta low_critical low_warning warning_signals critical_support =
     (if delta \<noteq> None \<and> delta \<noteq> Some 0 then ''critical''
      else if low_critical \<or> 2 \<le> length critical_support then ''critical''
      else if warning_signals \<noteq> [] \<or> low_warning then ''warning''
      else ''normal'')"

text \<open>The state to emit, with the dwell time it needed.\<close>

definition state_of :: "risk_evaluator \<Rightarrow> bool \<Rightarrow> string \<Rightarrow> rat \<Rightarrow> string \<times> pyfloat" where
  "state_of e flagged candidate candidate_for =
     (if flagged then (''degraded_observability'', Fin 0)
      else if candidate = ''normal''
      then (if re_last_emitted e \<in> {''warning'', ''critical''} then ''recovered'' else ''normal'', Fin 0)
      else
        (let required = (if candidate = ''critical'' then re_critical_for e else re_warning_for e)
         in (if fle required (Fin candidate_for) then candidate else ''normal'', required)))"

section \<open>The evaluation\<close>

text \<open>Everything the method derives from one observation before it decides the state.\<close>

record risk_signals =
  sg_flags :: "string list"
  sg_reasons :: "string list"
  sg_candidate :: string
  sg_delta :: "int option"
  sg_growth :: "rat option"
  sg_warning :: "string list"
  sg_critical :: "string list"
  sg_psi_some :: "pyfloat option"
  sg_psi_full :: "pyfloat option"
  sg_swap_ratio :: "pyfloat option"
  sg_available :: "int option"
  sg_counters :: "(string \<times> int) list"
  sg_ns :: "int option"

definition read_signals ::
    "(pyval \<Rightarrow> string) \<Rightarrow> pydict \<Rightarrow> pyfloat option \<Rightarrow> pyfloat option \<Rightarrow> rat \<Rightarrow> risk_evaluator \<Rightarrow> risk_signals" where
  "read_signals rep ob warning_available critical_available now e =
     (let cfg = re_config e;
          warning_threshold = (case warning_available of None \<Rightarrow> rc_warning_available cfg | Some x \<Rightarrow> x);
          critical_threshold = (case critical_available of None \<Rightarrow> rc_critical_available cfg | Some x \<Rightarrow> x);
          memory = mapping_of (dget ob ''memory'');
          cgroup = mapping_of (dget ob ''cgroup'');
          psi = mapping_of (dget ob ''psi'');
          memory_events = mapping_of (dget cgroup ''memory_events'');
          ratio = number (dget memory ''available_ratio_percent'');
          available = as_int (dget memory ''available_bytes'');
          (clock_flags, ns) = clock_section e ob;
          ((delta, baseline, event_reset), counters) = event_delta (re_previous_events e) memory_events;
          (growth_flags, growth) = growth_section e available now;
          (swap_flags, swap_ratio) = swap_section memory;
          (psi_flags, psi_some, psi_full) = psi_section psi;
          low_critical = opt_holds (\<lambda>x. fle x critical_threshold) ratio;
          low_warning = opt_holds (\<lambda>x. fle x warning_threshold) ratio;
          available_w = (if low_critical then [] else if low_warning then [''host_memory_available_warning''] else []);
          (growth_w, growth_c) = two_level (fle (rc_trend_critical cfg)) ''memory_growth_critical''
             (fle (rc_trend_warning cfg)) ''memory_growth_warning'' (map_option Fin growth);
          (psi_w, psi_c) = psi_signals cfg psi_some psi_full;
          (swap_w, swap_c) = two_level (fle (rc_swap_critical cfg)) ''swap_used_critical''
             (fle (rc_swap_warning cfg)) ''swap_used_warning'' swap_ratio;
          warning_signals = available_w @ growth_w @ psi_w @ swap_w;
          critical_support = growth_c @ psi_c @ swap_c;
          few = (if re_sample_count e + 1 < rc_required_samples cfg then [''insufficient_samples''] else [])
      in \<lparr>sg_flags = quality_section rep ob @
            (if has_key memory_events ''oom'' \<and> has_key memory_events ''oom_kill'' then [] else [''oom_counters_missing'']) @
            (if available = None then [''memory_available_missing''] else []) @ clock_flags @
            (if event_reset then [''oom_counter_reset''] else []) @ growth_flags @ swap_flags @ psi_flags @
            (if ratio = None then [''memory_available_ratio_missing''] else []) @ few,
          sg_reasons = (if baseline then [''oom_counter_baseline_established''] else []) @
            (if delta \<noteq> None \<and> delta \<noteq> Some 0 then [''new_cgroup_memory_oom_event''] else []) @
            (if low_critical then [''host_memory_available_critical''] else []) @
            available_w @ growth_w @ growth_c @ psi_w @ psi_c @ swap_w @ swap_c @ few,
          sg_candidate = candidate_of delta low_critical low_warning warning_signals critical_support,
          sg_delta = delta, sg_growth = growth, sg_warning = warning_signals,
          sg_critical = critical_support, sg_psi_some = psi_some, sg_psi_full = psi_full,
          sg_swap_ratio = swap_ratio, sg_available = available, sg_counters = counters, sg_ns = ns\<rparr>)"

definition streak_start :: "risk_evaluator \<Rightarrow> string \<Rightarrow> rat \<Rightarrow> rat" where
  "streak_start e candidate now =
     (if candidate \<noteq> re_candidate_level e then now
      else case re_candidate_since e of None \<Rightarrow> now | Some t \<Rightarrow> t)"

definition evaluate_risk ::
    "(pyval \<Rightarrow> string) \<Rightarrow> pydict \<Rightarrow> pyfloat option \<Rightarrow> pyfloat option \<Rightarrow> rat \<Rightarrow> risk_evaluator \<Rightarrow>
     risk_result \<times> risk_evaluator" where
  "evaluate_risk rep ob warning_available critical_available now e =
     (let sg = read_signals rep ob warning_available critical_available now e;
          since = streak_start e (sg_candidate sg) now;
          candidate_for = max (now - since) 0;
          (state, required_for) = state_of e (sg_flags sg \<noteq> []) (sg_candidate sg) candidate_for
      in (\<lparr>rk_state = state, rk_candidate = sg_candidate sg, rk_candidate_for = round_digits 3 candidate_for,
           rk_required_for = required_for, rk_reasons = sg_reasons sg, rk_quality_flags = sorted_set (sg_flags sg),
           rk_sample_count = re_sample_count e + 1, rk_oom_delta = sg_delta sg, rk_growth = sg_growth sg,
           rk_quality_status = (if sg_flags sg = [] then ''ok'' else ''degraded''),
           rk_warning_signals = sg_warning sg, rk_critical_support = sg_critical sg,
           rk_psi_some = sg_psi_some sg, rk_psi_full = sg_psi_full sg, rk_swap_ratio = sg_swap_ratio sg\<rparr>,
          e\<lparr>re_candidate_level := sg_candidate sg, re_candidate_since := Some since,
            re_last_emitted := (if state = ''recovered'' then ''normal''
                                else if state \<in> {''warning'', ''critical''} then state else re_last_emitted e),
            re_previous_available := sg_available sg, re_previous_events := Some (sg_counters sg),
            re_previous_ns := (case sg_ns sg of None \<Rightarrow> re_previous_ns e | Some n \<Rightarrow> Some n),
            re_previous_timestamp := Some now, re_sample_count := re_sample_count e + 1\<rparr>))"

section \<open>What one evaluation does\<close>

lemma evaluate_risk_frame:
  assumes "evaluate_risk rep ob w c now e = (r, e')"
  shows "re_candidate_level e' = rk_candidate r"
    and "re_candidate_since e' = Some (streak_start e (rk_candidate r) now)"
    and "re_critical_for e' = re_critical_for e" and "re_warning_for e' = re_warning_for e"
    and "re_config e' = re_config e" and "re_sample_count e' = re_sample_count e + 1"
    and "re_last_emitted e' = (if rk_state r = ''recovered'' then ''normal''
           else if rk_state r \<in> {''warning'', ''critical''} then rk_state r else re_last_emitted e)"
    and "rk_state r = fst (state_of e (rk_quality_flags r \<noteq> []) (rk_candidate r)
           (max (now - streak_start e (rk_candidate r) now) 0))"
  using assms [symmetric]
  by (simp_all add: evaluate_risk_def Let_def split: prod.splits)

lemma candidate_levels: "candidate_of d lc lw ws cs \<in> risk_levels"
  by (simp add: candidate_of_def risk_levels_def)

lemma read_signals_level: "sg_candidate (read_signals rep ob w c now e) \<in> risk_levels"
  by (simp add: read_signals_def Let_def case_prod_beta candidate_levels)

lemma evaluate_risk_level: "evaluate_risk rep ob w c now e = (r, e') \<Longrightarrow> rk_candidate r \<in> risk_levels"
  using read_signals_level by (auto simp: evaluate_risk_def Let_def case_prod_beta)

section \<open>Runs\<close>

type_synonym risk_sample = "pydict \<times> pyfloat option \<times> pyfloat option \<times> rat"

definition risk_step ::
    "(pyval \<Rightarrow> string) \<Rightarrow> risk_evaluator \<times> risk_history \<Rightarrow> risk_sample \<Rightarrow> risk_evaluator \<times> risk_history" where
  "risk_step rep s x =
     (case x of (ob, w, c, now) \<Rightarrow>
        case evaluate_risk rep ob w c now (fst s) of (r, e) \<Rightarrow> (e, (rk_state r, rk_candidate r, now) # snd s))"

text \<open>The evaluator meets the shared contract.\<close>

definition risk_dwell :: "risk_evaluator \<Rightarrow> dwell" where
  "risk_dwell e = \<lparr>dw_level = re_candidate_level e, dw_since = re_candidate_since e, dw_last = re_last_emitted e\<rparr>"

definition risk_eval :: "(pyval \<Rightarrow> string) \<Rightarrow> risk_sample \<Rightarrow> risk_evaluator \<Rightarrow> risk_result option \<times> risk_evaluator" where
  "risk_eval rep x e = (case x of (ob, w, c, now) \<Rightarrow> map_prod Some id (evaluate_risk rep ob w c now e))"

definition sample_time :: "risk_sample \<Rightarrow> rat" where
  "sample_time x = snd (snd (snd x))"

lemma risk_step_dwell: "risk_step rep = dwell_step (risk_eval rep) sample_time rk_state rk_candidate"
  by (auto simp: fun_eq_iff risk_step_def dwell_step_def risk_eval_def sample_time_def split: prod.splits)

lemma state_of_dwell:
  "candidate \<in> risk_levels \<Longrightarrow>
   fst (state_of e flagged candidate t) =
   dwell_state (required_dwell (re_warning_for e) (re_critical_for e) candidate) (re_last_emitted e) flagged candidate t"
  by (auto simp: state_of_def dwell_state_def required_dwell_def risk_levels_def Let_def)

interpretation risk_run: dwell_engine "risk_eval rep" sample_time rk_state rk_candidate rk_quality_flags risk_dwell
  "\<lambda>e. (re_warning_for e, re_critical_for e)"
  for rep
proof
  fix x e r e'
  assume "risk_eval rep x e = (Some r, e')"
  then obtain ob w c where ev: "evaluate_risk rep ob w c (sample_time x) e = (r, e')"
    by (cases x) (auto simp: risk_eval_def sample_time_def map_prod_def split: prod.splits)
  note f = evaluate_risk_frame [OF ev] and level = evaluate_risk_level [OF ev]
  show "rk_candidate r \<in> risk_levels" by (rule level)
  have "dwell_start (risk_dwell e) (rk_candidate r) (sample_time x) = streak_start e (rk_candidate r) (sample_time x)"
    by (simp add: dwell_start_def streak_start_def risk_dwell_def)
  then show "dwell_next (fst (re_warning_for e, re_critical_for e)) (snd (re_warning_for e, re_critical_for e))
      (rk_quality_flags r \<noteq> []) (rk_candidate r) (sample_time x) (risk_dwell e) = (rk_state r, risk_dwell e')"
    using f state_of_dwell [OF level] by (simp add: dwell_next_def Let_def risk_dwell_def emitted_after_def)
next
  fix x :: risk_sample and e
  obtain ob w c now where x: "x = (ob, w, c, now)" by (cases x)
  obtain r e' where ev: "evaluate_risk rep ob w c now e = (r, e')" by fastforce
  show "(re_warning_for (snd (risk_eval rep x e)), re_critical_for (snd (risk_eval rep x e))) = (re_warning_for e, re_critical_for e)"
    using evaluate_risk_frame [OF ev] by (simp add: risk_eval_def x ev)
qed (auto simp: risk_eval_def map_prod_def split: prod.splits)

lemma new_evaluator_dwell [simp]:
  "risk_dwell (new_evaluator cfg wfor cfor) = new_dwell"
  "re_warning_for (new_evaluator cfg wfor cfor) = wfor" "re_critical_for (new_evaluator cfg wfor cfor) = cfor"
  by (simp_all add: risk_dwell_def new_evaluator_def new_dwell_def)

section \<open>Properties\<close>

text \<open>A host with 5 percent of its memory left, sampled at a time and a monotonic reading.\<close>

definition example_observation :: "int \<Rightarrow> int \<Rightarrow> pydict" where
  "example_observation ns percent =
     [(''quality'', PDict [(''status'', PStr ''ok''), (''flags'', PList [])]),
      (''memory'', PDict [(''available_ratio_percent'', PInt percent), (''available_bytes'', PInt 1000),
                         (''swap_total_bytes'', PInt 0)]),
      (''cgroup'', PDict [(''memory_events'', PDict [(''oom'', PInt 4), (''oom_kill'', PInt 3)])]),
      (''psi'', PDict [(''memory'', PDict [(''some'', PDict [(''avg10'', PInt 0)]), (''full'', PDict [(''avg10'', PInt 0)])])]),
      (''observed_monotonic_ns'', PInt ns)]"

definition example_config :: risk_config where
  "example_config =
     \<lparr>rc_warning_available = Fin 15, rc_critical_available = Fin 10, rc_required_samples = 1,
      rc_max_sample_age = Fin 60, rc_trend_warning = Fin 1048576, rc_trend_critical = Fin 16777216,
      rc_psi_some_warning = Fin 1, rc_psi_full_critical = Fin (1 / 2), rc_swap_warning = Fin 25,
      rc_swap_critical = Fin 50\<rparr>"

definition example_sample :: "int \<Rightarrow> int \<Rightarrow> risk_sample" where
  "example_sample t percent = (example_observation (t * 1000000000 + 1) percent, None, None, of_int t)"

definition example_run :: "risk_sample list \<Rightarrow> risk_evaluator \<times> risk_history" where
  "example_run samples = exec_all (risk_step (\<lambda>_. [])) (new_evaluator example_config (Fin 180) (Fin 30), []) samples"

definition example_next :: "int \<Rightarrow> int \<Rightarrow> risk_evaluator \<times> risk_history \<Rightarrow> risk_result \<times> risk_evaluator" where
  "example_next t percent s =
     evaluate_risk (\<lambda>_. []) (example_observation (t * 1000000000 + 1) percent) None None (of_int t) (fst s)"

lemma example_critical: "rk_state (fst (example_next 30 5 (example_run [example_sample 0 5]))) = ''critical''"
  by code_simp

lemma example_recovered:
  "rk_state (fst (example_next 40 50 (example_run [example_sample 0 5, example_sample 30 5]))) = ''recovered''"
  by code_simp

text \<open>
  C37. Dwell and fail-closed quality: whatever was observed before, a warning or critical state is
  emitted only for an observation without a single quality flag, and only when the same candidate
  was computed at every evaluation of a period at least as long as the configured dwell time.
\<close>
theorem emission_needs_dwell:
  assumes "exec_all (risk_step rep) (new_evaluator cfg wfor cfor, []) samples = (e, h)"
    and "evaluate_risk rep ob w c now e = (r, e')" and "rk_state r \<in> {''warning'', ''critical''}"
  shows "rk_quality_flags r = [] \<and>
    (\<exists>period before. (rk_state r, rk_candidate r, now) # h = period @ before \<and> period \<noteq> [] \<and>
       (\<forall>p \<in> set period. fst (snd p) = rk_state r) \<and>
       fle (if rk_state r = ''critical'' then cfor else wfor) (Fin (max (now - snd (snd (last period))) 0)))"
proof -
  have ev: "risk_eval rep (ob, w, c, now) e = (Some r, e')"
    using assms(2) by (simp add: risk_eval_def)
  have req: "required_dwell wfor cfor (rk_state r) = (if rk_state r = ''critical'' then cfor else wfor)"
    using assms(3) by (auto simp: required_dwell_def)
  show ?thesis
    using risk_run.emission_dwells [OF assms(1) [unfolded risk_step_dwell] new_evaluator_dwell(1) ev assms(3)]
    unfolding new_evaluator_dwell fst_conv snd_conv req sample_time_def .
qed

theorem emission_needs_dwell_witness:
  "\<exists>period before. (''critical'', ''critical'', 30) # snd (example_run [example_sample 0 5]) = period @ before \<and>
     period \<noteq> [] \<and> (\<forall>p \<in> set period. fst (snd p) = ''critical'') \<and>
     fle (Fin 30) (Fin (max (30 - snd (snd (last period))) 0))"
proof -
  let ?s = "example_run [example_sample 0 5]" and ?n = "example_next 30 5 (example_run [example_sample 0 5])"
  have e: "evaluate_risk (\<lambda>_. []) (example_observation (30 * 1000000000 + 1) 5) None None 30 (fst ?s) = (fst ?n, snd ?n)"
    by (simp add: example_next_def)
  have c: "rk_candidate (fst ?n) = ''critical''"
    by code_simp
  have run: "exec_all (risk_step (\<lambda>_. [])) (new_evaluator example_config (Fin 180) (Fin 30), [])
      [example_sample 0 5] = (fst ?s, snd ?s)"
    by (simp add: example_run_def)
  show ?thesis
    using emission_needs_dwell [OF run e] c example_critical by simp
qed

text \<open>
  A recovery is announced only to end an emitted warning or critical state, once: among the
  earlier emissions the last warning, critical or recovered one is a warning or critical.
\<close>
theorem recovery_ends_emission:
  assumes "exec_all (risk_step rep) (new_evaluator cfg wfor cfor, []) samples = (e, h)"
    and "evaluate_risk rep ob w c now e = (r, e')" and "rk_state r = ''recovered''"
  shows "rk_quality_flags r = [] \<and> rk_candidate r = ''normal'' \<and> standing h \<in> {''warning'', ''critical''}"
proof -
  have "risk_eval rep (ob, w, c, now) e = (Some r, e')"
    using assms(2) by (simp add: risk_eval_def)
  from risk_run.recovery_stands [OF assms(1) [unfolded risk_step_dwell] _ this assms(3)] show ?thesis
    by simp
qed

theorem recovery_ends_emission_witness:
  "standing (snd (example_run [example_sample 0 5, example_sample 30 5])) \<in> {''warning'', ''critical''}"
proof -
  let ?s = "example_run [example_sample 0 5, example_sample 30 5]"
  let ?n = "example_next 40 50 ?s"
  have "evaluate_risk (\<lambda>_. []) (example_observation (40 * 1000000000 + 1) 50) None None 40 (fst ?s) = (fst ?n, snd ?n)"
    by (simp add: example_next_def)
  moreover have "exec_all (risk_step (\<lambda>_. [])) (new_evaluator example_config (Fin 180) (Fin 30), [])
      [example_sample 0 5, example_sample 30 5] = (fst ?s, snd ?s)"
    unfolding example_run_def by (rule prod.collapse [symmetric])
  ultimately show ?thesis
    using recovery_ends_emission example_recovered by blast
qed

text \<open>Readings of the two counters, and the sum of the deltas a run computes from them.\<close>

definition oom_events :: "int \<times> int \<Rightarrow> pydict" where
  "oom_events x = [(''oom'', PInt (fst x)), (''oom_kill'', PInt (snd x))]"

fun total_delta :: "(string \<times> int) list option \<Rightarrow> pydict list \<Rightarrow> int" where
  "total_delta prev [] = 0"
| "total_delta prev (ev # evs) =
     (case event_delta prev ev of ((d, _, _), counters) \<Rightarrow>
        (case d of None \<Rightarrow> 0 | Some n \<Rightarrow> n) + total_delta (Some counters) evs)"

definition oom_count :: "int \<times> int \<Rightarrow> int" where
  "oom_count x = fst x + snd x"

definition oom_le :: "int \<times> int \<Rightarrow> int \<times> int \<Rightarrow> bool" where
  "oom_le x y \<longleftrightarrow> 0 \<le> fst x \<and> 0 \<le> snd x \<and> fst x \<le> fst y \<and> snd x \<le> snd y"

lemma event_delta_step:
  assumes "oom_le x y"
  shows "event_delta (Some [(''oom'', fst x), (''oom_kill'', snd x)]) (oom_events y) =
    ((Some (oom_count y - oom_count x), False, False), [(''oom'', fst y), (''oom_kill'', snd y)])"
  using assms
  by (simp add: event_delta_def tracked_counters_def oom_events_def oom_le_def oom_count_def map_filter_simps Let_def)

lemma total_delta_run:
  "successively oom_le (x # xs) \<Longrightarrow>
   total_delta (Some [(''oom'', fst x), (''oom_kill'', snd x)]) (map oom_events xs) =
   oom_count (last (x # xs)) - oom_count x"
proof (induction xs arbitrary: x)
  case (Cons y ys)
  then show ?case by (simp add: event_delta_step)
qed simp

text \<open>
  OOM counters that never decrease are accounted exactly: over a run the reported deltas add
  up to the growth of the counters since the first reading, so events from before the start are a
  baseline and no event is counted twice or lost.
\<close>
theorem oom_deltas_exact:
  assumes "successively oom_le (x # xs)" and "0 \<le> fst x" and "0 \<le> snd x"
  shows "total_delta None (map oom_events (x # xs)) = oom_count (last (x # xs)) - oom_count x"
proof -
  have "event_delta None (oom_events x) = ((None, True, False), [(''oom'', fst x), (''oom_kill'', snd x)])"
    using assms(2,3) by (simp add: event_delta_def tracked_counters_def oom_events_def map_filter_simps)
  with total_delta_run [OF assms(1)] show ?thesis by simp
qed

theorem oom_deltas_exact_witness:
  "total_delta None (map oom_events [(4, 3), (4, 3), (6, 4)]) = 3"
  using oom_deltas_exact [of "(4, 3)" "[(4, 3), (6, 4)]"] by (simp add: oom_le_def oom_count_def)

end
