(* ===== verification/Guardian_Multirisk.thy ===== *)
theory Guardian_Multirisk
  imports Guardian_Text
begin

text \<open>
  Joint arbitration of the resource engines (\<open>src/guardian_multirisk.py\<close>,
  \<open>build_joint_decision\<close>) and the audit-file verifier (\<open>src/guardian_audit.py\<close>,
  \<open>verify_audit_file\<close>).  Resource evaluations are Python mappings as the engines produce them.
\<close>

section \<open>Joint decision\<close>

definition ACTIVE_STATES :: "string list" where
  "ACTIVE_STATES = [''warning'', ''critical'', ''critical_confirmed'']"

definition DEGRADED_STATES :: "string list" where
  "DEGRADED_STATES = [''degraded_observability'']"

definition severity_rank :: "string \<Rightarrow> nat" where
  "severity_rank s =
     (case map_of [(''normal'', 0), (''recovered'', 1), (''warning'', 2), (''critical'', 3),
                   (''critical_confirmed'', 4)] s of None \<Rightarrow> 0 | Some n \<Rightarrow> n)"

definition joint_risk :: "pydict \<Rightarrow> pydict" where
  "joint_risk evaluation = mapping_of (dget evaluation ''risk'')"

definition risk_state :: "(pyval \<Rightarrow> string) \<Rightarrow> pydict \<Rightarrow> string" where
  "risk_state rep evaluation =
     py_str rep (py_or (py_or (dget (joint_risk evaluation) ''state'') (dget evaluation ''state'')) (PStr ''normal''))"

definition attribution_of :: "pydict \<Rightarrow> pydict" where
  "attribution_of evaluation = mapping_of (dget evaluation ''attribution'')"

fun first_some :: "'a option list \<Rightarrow> 'a option" where
  "first_some [] = None"
| "first_some (Some x # xs) = Some x"
| "first_some (None # xs) = first_some xs"

text \<open>\<open>_target_id\<close>.\<close>

definition confirmed_target :: "pydict \<Rightarrow> string option" where
  "confirmed_target attribution =
     (if dget attribution ''state'' \<noteq> PStr ''TARGET_CONFIRMED'' then None
      else
        (let target = mapping_of (dget attribution ''target'')
         in first_some (map (\<lambda>k. as_nonempty_str (dget target k)) [''id'', ''stable_id'', ''identity''])))"

definition listed_flags :: "(pyval \<Rightarrow> string) \<Rightarrow> pydict \<Rightarrow> string list" where
  "listed_flags rep source =
     (case dget_default source ''quality_flags'' (PList []) of
        PList flags \<Rightarrow> map (py_str rep) (filter py_truthy flags) | _ \<Rightarrow> [])"

definition joint_quality_flags :: "(pyval \<Rightarrow> string) \<Rightarrow> pydict \<Rightarrow> string list" where
  "joint_quality_flags rep evaluation =
     sorted_set (listed_flags rep (joint_risk evaluation) @ listed_flags rep (attribution_of evaluation))"

text \<open>\<open>max(states, key=...)\<close>: the first state of the greatest rank.\<close>

fun max_by_rank :: "string \<Rightarrow> string list \<Rightarrow> string" where
  "max_by_rank best [] = best"
| "max_by_rank best (s # ss) = max_by_rank (if severity_rank best < severity_rank s then s else best) ss"

definition event_state :: "string list \<Rightarrow> bool \<Rightarrow> bool \<Rightarrow> string" where
  "event_state active_states degraded recovered =
     (case active_states of
        s # ss \<Rightarrow> if degraded then ''escalated'' else max_by_rank s ss
      | [] \<Rightarrow> if degraded then ''degraded_observability'' else if recovered then ''recovered'' else ''normal'')"

text \<open>The first loop: active resources, degraded quality, a recovery, the quality flags.\<close>

definition is_active_evaluation :: "(pyval \<Rightarrow> string) \<Rightarrow> pydict \<Rightarrow> bool" where
  "is_active_evaluation rep e = (risk_state rep e \<in> set ACTIVE_STATES)"

definition is_degraded_evaluation :: "(pyval \<Rightarrow> string) \<Rightarrow> pydict \<Rightarrow> bool" where
  "is_degraded_evaluation rep e \<longleftrightarrow>
     \<not> is_active_evaluation rep e \<and>
     (risk_state rep e \<in> set DEGRADED_STATES \<or> dget (joint_risk e) ''quality_status'' = PStr ''degraded'')"

definition is_recovered_evaluation :: "(pyval \<Rightarrow> string) \<Rightarrow> pydict \<Rightarrow> bool" where
  "is_recovered_evaluation rep e \<longleftrightarrow>
     \<not> is_active_evaluation rep e \<and> \<not> is_degraded_evaluation rep e \<and> risk_state rep e = ''recovered''"

text \<open>The second loop, over the active resources.\<close>

record joint_targets =
  jt_confirmed :: "(string \<times> string list) list"
  jt_unconfirmed :: "string list"
  jt_target_by_resource :: "(string \<times> pydict) list"
  jt_attribution_states :: "(string \<times> string) list"

definition no_targets :: joint_targets where
  "no_targets = \<lparr>jt_confirmed = [], jt_unconfirmed = [], jt_target_by_resource = [], jt_attribution_states = []\<rparr>"

definition setdefault_append :: "(string \<times> string list) list \<Rightarrow> string \<Rightarrow> string \<Rightarrow> (string \<times> string list) list" where
  "setdefault_append d k x = dset d k ((case map_of d k of None \<Rightarrow> [] | Some xs \<Rightarrow> xs) @ [x])"

definition collect_target ::
    "(pyval \<Rightarrow> string) \<Rightarrow> string \<times> pydict \<Rightarrow> joint_targets \<Rightarrow> joint_targets" where
  "collect_target rep ke jt =
     (let kind = fst ke; attribution = attribution_of (snd ke);
          jt1 = jt\<lparr>jt_attribution_states := dset (jt_attribution_states jt) kind
                    (py_str rep (py_or (dget attribution ''state'') (PStr ''UNKNOWN'')))\<rparr>
      in case confirmed_target attribution of
           None \<Rightarrow> jt1\<lparr>jt_unconfirmed := jt_unconfirmed jt @ [kind]\<rparr>
         | Some t \<Rightarrow> jt1\<lparr>jt_confirmed := setdefault_append (jt_confirmed jt) t kind,
                        jt_target_by_resource := dset (jt_target_by_resource jt) kind
                          (mapping_of (dget attribution ''target''))\<rparr>)"

record joint_decision =
  jd_mode :: string
  jd_action :: string
  jd_execution :: string
  jd_reason_codes :: "string list"
  jd_target_state :: string
  jd_target_id :: pyval
  jd_active_resources :: "string list"
  jd_quality_flags :: "string list"

record joint_result =
  jr_state :: string
  jr_active_resources :: "string list"
  jr_target_state :: string
  jr_target :: "pydict option"
  jr_targets_by_resource :: "(string \<times> pydict) list"
  jr_attribution_states :: "(string \<times> string) list"
  jr_quality_flags :: "string list"
  jr_decision :: joint_decision

text \<open>The target state, its reason code and the target.\<close>

definition joint_target :: "nat \<Rightarrow> bool \<Rightarrow> joint_targets \<Rightarrow> string \<times> string \<times> pydict option" where
  "joint_target n_active degraded jt =
     (if n_active = 0 then (''NO_TARGET'', ''no_active_resource_risk'', None)
      else if degraded then (''DEGRADED_OBSERVABILITY'', ''multi_resource_observability_degraded'', None)
      else if 1 < length (jt_confirmed jt) then (''MULTI_RESOURCE_AMBIGUOUS'', ''multi_resource_ambiguous'', None)
      else case jt_unconfirmed jt of
          k # _ \<Rightarrow>
            if 1 < n_active \<or> jt_confirmed jt \<noteq> []
            then (''MULTI_RESOURCE_AMBIGUOUS'', ''multi_resource_ambiguous'', None)
            else (case map_of (jt_attribution_states jt) k of None \<Rightarrow> ''NO_TARGET'' | Some s \<Rightarrow> s,
                  ''target_attribution_not_confirmed'', None)
        | [] \<Rightarrow>
            (''TARGET_CONFIRMED'', ''multi_resource_target_confirmed'',
             case jt_confirmed jt of
               (t, k # ks) # _ \<Rightarrow> map_of (jt_target_by_resource jt) k
             | _ \<Rightarrow> None))"

text \<open>The action and the reason codes it adds.\<close>

definition joint_action ::
    "string \<Rightarrow> string \<Rightarrow> bool \<Rightarrow> string list \<Rightarrow> nat \<Rightarrow> string \<Rightarrow> string \<times> string list" where
  "joint_action mode simulate_action protected allowed n_active target_state =
     (if mode \<in> {''simulate'', ''enforce''} \<and> n_active \<noteq> 0 then
        (if target_state \<noteq> ''TARGET_CONFIRMED'' then (''escalate'', [])
         else if protected then (''escalate'', [''protected_object''])
         else if simulate_action \<notin> set allowed then (''escalate'', [''action_not_allowlisted''])
         else (simulate_action,
               [if mode = ''simulate'' then ''multi_resource_simulate_only''
                else ''multi_resource_enforce_requires_controller'']))
      else if mode = ''observe'' then (''none'', [''observe_only''])
      else (''none'', []))"

definition active_evaluations :: "(pyval \<Rightarrow> string) \<Rightarrow> pydict \<Rightarrow> (string \<times> pydict) list" where
  "active_evaluations rep resources =
     filter (\<lambda>ke. is_active_evaluation rep (snd ke)) (map (\<lambda>(k, v). (k, mapping_of v)) resources)"

definition build_joint_decision ::
    "(pyval \<Rightarrow> string) \<Rightarrow> pydict \<Rightarrow> string \<Rightarrow> string \<Rightarrow> bool \<Rightarrow> string list \<Rightarrow> joint_result" where
  "build_joint_decision rep resources mode simulate_action protected allowed =
     (let evaluations = map (\<lambda>(k, v). (k, mapping_of v)) resources;
          active = active_evaluations rep resources;
          degraded = list_ex (\<lambda>ke. is_degraded_evaluation rep (snd ke)) evaluations;
          recovered = list_ex (\<lambda>ke. is_recovered_evaluation rep (snd ke)) evaluations;
          flags = sorted_set (concat (map (\<lambda>ke. joint_quality_flags rep (snd ke)) evaluations));
          jt = fold (collect_target rep) active no_targets;
          (target_state, reason, target) = joint_target (length active) degraded jt;
          (action, added) = joint_action mode simulate_action protected allowed (length active) target_state
      in \<lparr>jr_state = event_state (map (\<lambda>ke. risk_state rep (snd ke)) active) degraded recovered,
          jr_active_resources = map fst active, jr_target_state = target_state, jr_target = target,
          jr_targets_by_resource = jt_target_by_resource jt, jr_attribution_states = jt_attribution_states jt,
          jr_quality_flags = flags,
          jr_decision =
            \<lparr>jd_mode = mode, jd_action = action,
             jd_execution = (if mode = ''observe'' then ''not_applicable''
                             else if mode = ''simulate'' then ''not_executed'' else ''pending_controller''),
             jd_reason_codes = sorted_set (reason # added), jd_target_state = target_state,
             jd_target_id = (case target of None \<Rightarrow> PNone | Some t \<Rightarrow> dget t ''id''),
             jd_active_resources = map fst active, jd_quality_flags = flags\<rparr>\<rparr>)"

section \<open>Targets of the active resources\<close>

abbreviation target_of :: "string \<times> pydict \<Rightarrow> string option" where
  "target_of ke \<equiv> confirmed_target (attribution_of (snd ke))"

lemma collect_target_simps:
  "set (map fst (jt_confirmed (collect_target rep ke jt))) =
     set (map fst (jt_confirmed jt)) \<union> set_option (target_of ke)"
  "jt_unconfirmed (collect_target rep ke jt) =
     jt_unconfirmed jt @ (if target_of ke = None then [fst ke] else [])"
  "distinct (map fst (jt_confirmed jt)) \<Longrightarrow> distinct (map fst (jt_confirmed (collect_target rep ke jt)))"
  by (auto simp: collect_target_def Let_def setdefault_append_def keys_dset distinct_keys_dset
      simp del: set_map split: option.splits)

lemma fold_collect:
  fixes rep active start
  defines "jt \<equiv> fold (collect_target rep) active start"
  shows "set (map fst (jt_confirmed jt)) =
      set (map fst (jt_confirmed start)) \<union> {t. \<exists>ke \<in> set active. target_of ke = Some t}"
    and "jt_unconfirmed jt = jt_unconfirmed start @ map fst (filter (\<lambda>ke. target_of ke = None) active)"
    and "distinct (map fst (jt_confirmed start)) \<Longrightarrow> distinct (map fst (jt_confirmed jt))"
  unfolding jt_def
  by (induction active arbitrary: start) (auto simp: collect_target_simps simp del: set_map)

lemma joint_targets_of:
  fixes rep active
  defines "jt \<equiv> fold (collect_target rep) active no_targets"
  shows "set (map fst (jt_confirmed jt)) = {t. \<exists>ke \<in> set active. target_of ke = Some t}"
    and "jt_unconfirmed jt = map fst (filter (\<lambda>ke. target_of ke = None) active)"
    and "distinct (map fst (jt_confirmed jt))"
  unfolding jt_def
  using fold_collect [where start = no_targets and rep = rep and active = active] by (simp_all add: no_targets_def del: set_map)

text \<open>All active resources name one stable target.\<close>

definition agreed :: "(string \<times> pydict) list \<Rightarrow> string \<Rightarrow> bool" where
  "agreed active t \<longleftrightarrow> active \<noteq> [] \<and> (\<forall>ke \<in> set active. target_of ke = Some t)"

text \<open>
  An attribution that claims TARGET_CONFIRMED carries an identity, which is what the attribution
  module promises.
\<close>

definition claims_have_target :: "(pyval \<Rightarrow> string) \<Rightarrow> (string \<times> pydict) list \<Rightarrow> bool" where
  "claims_have_target rep active \<longleftrightarrow>
     (\<forall>ke \<in> set active. target_of ke = None \<longrightarrow>
        py_str rep (py_or (dget (attribution_of (snd ke)) ''state'') (PStr ''UNKNOWN'')) \<noteq> ''TARGET_CONFIRMED'')"

lemma single_attribution_state:
  "map_of (jt_attribution_states (fold (collect_target rep) [ke] no_targets)) (fst ke) =
     Some (py_str rep (py_or (dget (attribution_of (snd ke)) ''state'') (PStr ''UNKNOWN'')))"
  by (auto simp: collect_target_def no_targets_def Let_def split: option.splits)

lemma joint_target_confirmed:
  assumes "fst (joint_target (length active) degraded (fold (collect_target rep) active no_targets)) = ''TARGET_CONFIRMED''"
    and "claims_have_target rep active"
  shows "\<not> degraded \<and> (\<exists>t. agreed active t)"
proof -
  let ?jt = "fold (collect_target rep) active no_targets"
  note jt = joint_targets_of [of rep active]
  have ne: "active \<noteq> []" and d: "\<not> degraded" and one: "length (jt_confirmed ?jt) \<le> 1"
    using assms(1) by (auto simp: joint_target_def split: if_splits)
  have all: "jt_unconfirmed ?jt = []"
  proof (rule ccontr)
    assume "jt_unconfirmed ?jt \<noteq> []"
    then obtain k ks where ks: "jt_unconfirmed ?jt = k # ks" by (cases "jt_unconfirmed ?jt") auto
    with assms(1) ne d one obtain ke where ke: "active = [ke]"
      by (cases active) (auto simp: joint_target_def split: if_splits)
    with ks jt(2) have "k = fst ke" "target_of ke = None" by (auto split: if_splits)
    with assms ke ks one d single_attribution_state [of rep ke] show False
      by (auto simp: joint_target_def claims_have_target_def split: if_splits)
  qed
  then have some: "\<forall>ke \<in> set active. target_of ke \<noteq> None"
    using jt(2) by (auto simp: filter_empty_conv)
  from ne some obtain ke0 t where t: "ke0 \<in> set active" "target_of ke0 = Some t"
    by (cases active) auto
  have "t' = t" if "ke \<in> set active" "target_of ke = Some t'" for ke t'
  proof -
    have "t \<in> set (map fst (jt_confirmed ?jt))" "t' \<in> set (map fst (jt_confirmed ?jt))"
      using t that unfolding jt(1) by blast+
    with one show ?thesis by (cases "jt_confirmed ?jt") auto
  qed
  then have "target_of ke = Some t" if "ke \<in> set active" for ke
    using some that by (metis not_None_eq)
  with ne d show ?thesis unfolding agreed_def by blast
qed

lemma joint_target_agreed:
  assumes "agreed active t" and "\<not> degraded"
  shows "fst (joint_target (length active) degraded (fold (collect_target rep) active no_targets)) = ''TARGET_CONFIRMED''"
proof -
  let ?jt = "fold (collect_target rep) active no_targets"
  note jt = joint_targets_of [of rep active]
  have "set (map fst (jt_confirmed ?jt)) = {t}"
    using assms(1) unfolding jt(1) agreed_def by (cases active) auto
  with jt(3) have "length (map fst (jt_confirmed ?jt)) = 1"
    by (metis One_nat_def card.empty card_insert_disjoint distinct_card empty_iff finite.emptyI)
  moreover have "jt_unconfirmed ?jt = []"
    using assms(1) by (simp add: jt(2) agreed_def filter_empty_conv)
  ultimately show ?thesis
    using assms by (simp add: joint_target_def agreed_def)
qed

section \<open>Audit file verification\<close>

text \<open>
  \<open>verify_audit_file\<close>.  The file is given by the outcome of \<open>stat\<close> (an exception's class name or
  the file_size) and of reading: the decoded lines, each \<open>None\<close> for a line that is no UTF-8 JSON, and
  the class name of an exception that ended the reading early, if any.
\<close>

record audit_report =
  ar_status :: string
  ar_lines :: nat
  ar_valid :: nat
  ar_invalid :: nat
  ar_missing_ids :: nat
  ar_duplicate_ids :: nat
  ar_bytes :: int
  ar_max_bytes :: "int option"
  ar_capacity_ok :: bool
  ar_error :: "string option"

definition audit_line :: "pyval option \<Rightarrow> audit_report \<times> string list \<Rightarrow> audit_report \<times> string list" where
  "audit_line line s =
     (let r = (fst s)\<lparr>ar_lines := ar_lines (fst s) + 1\<rparr>
      in case line of
           Some (PDict record) \<Rightarrow>
             (let r = r\<lparr>ar_valid := ar_valid r + 1\<rparr>
              in case as_nonempty_str (dget record ''event_id'') of
                   None \<Rightarrow> (r\<lparr>ar_missing_ids := ar_missing_ids r + 1\<rparr>, snd s)
                 | Some i \<Rightarrow>
                     if i \<in> set (snd s) then (r\<lparr>ar_duplicate_ids := ar_duplicate_ids r + 1\<rparr>, snd s)
                     else (r, i # snd s))
         | _ \<Rightarrow> (r\<lparr>ar_invalid := ar_invalid r + 1\<rparr>, snd s))"

definition verify_audit_file ::
    "int option \<Rightarrow> string + int \<Rightarrow> pyval option list \<Rightarrow> string option \<Rightarrow> audit_report" where
  "verify_audit_file max_bytes stat lines read_error =
     (let r = \<lparr>ar_status = ''invalid'', ar_lines = 0, ar_valid = 0, ar_invalid = 0, ar_missing_ids = 0,
               ar_duplicate_ids = 0, ar_bytes = 0, ar_max_bytes = max_bytes, ar_capacity_ok = True,
               ar_error = None\<rparr>
      in case stat of
           Inl e \<Rightarrow> r\<lparr>ar_error := Some (''audit_file_unavailable:'' @ e)\<rparr>
         | Inr file_size \<Rightarrow>
             (let r = r\<lparr>ar_bytes := file_size,
                        ar_capacity_ok := (case max_bytes of None \<Rightarrow> True | Some m \<Rightarrow> file_size \<le> m)\<rparr>;
                  r = fst (fold audit_line lines (r, []))
              in case read_error of
                   Some e \<Rightarrow> r\<lparr>ar_error := Some (''audit_file_read_failed:'' @ e)\<rparr>
                 | None \<Rightarrow>
                     if ar_capacity_ok r \<and> ar_invalid r = 0 \<and> ar_missing_ids r = 0 \<and> ar_duplicate_ids r = 0
                     then r\<lparr>ar_status := ''valid''\<rparr> else r))"

text \<open>The event id of a line, if it has one.\<close>

definition line_id :: "pyval option \<Rightarrow> string option" where
  "line_id line = (case line of Some (PDict record) \<Rightarrow> as_nonempty_str (dget record ''event_id'') | _ \<Rightarrow> None)"

definition clean :: "audit_report \<Rightarrow> bool" where
  "clean r \<longleftrightarrow> ar_invalid r = 0 \<and> ar_missing_ids r = 0 \<and> ar_duplicate_ids r = 0"

lemma audit_line_frame:
  "ar_status (fst (audit_line line s)) = ar_status (fst s)"
  "ar_capacity_ok (fst (audit_line line s)) = ar_capacity_ok (fst s)"
  by (simp_all add: audit_line_def Let_def split: option.split pyval.split)

lemma audit_line_bad:
  "line_id line = None \<or> (\<exists>i. line_id line = Some i \<and> i \<in> set (snd s)) \<Longrightarrow> \<not> clean (fst (audit_line line s))"
  by (auto simp: audit_line_def line_id_def clean_def Let_def split: option.splits pyval.splits)

lemma audit_line_good:
  "line_id line = Some i \<Longrightarrow> i \<notin> set (snd s) \<Longrightarrow>
   clean (fst (audit_line line s)) = clean (fst s) \<and> snd (audit_line line s) = i # snd s"
  by (auto simp: audit_line_def line_id_def clean_def Let_def split: option.splits pyval.splits)

lemma audit_fold_frame:
  "ar_status (fst (fold audit_line lines s)) = ar_status (fst s) \<and>
   ar_capacity_ok (fst (fold audit_line lines s)) = ar_capacity_ok (fst s)"
  by (induction lines arbitrary: s) (simp_all add: audit_line_frame)

lemma audit_fold_clean:
  "clean (fst (fold audit_line lines s)) \<longleftrightarrow>
     clean (fst s) \<and> None \<notin> set (map line_id lines) \<and> distinct (map line_id lines) \<and>
     Some ` set (snd s) \<inter> set (map line_id lines) = {}"
proof (induction lines arbitrary: s)
  case (Cons line lines)
  show ?case
  proof (cases "\<exists>i. line_id line = Some i \<and> i \<notin> set (snd s)")
    case True
    then obtain i where i: "line_id line = Some i" "i \<notin> set (snd s)" by blast
    with audit_line_good [OF i] Cons show ?thesis by auto
  next
    case False
    then have "\<not> clean (fst (audit_line line s))"
      by (intro audit_line_bad) (cases "line_id line", auto)
    moreover have "line_id line = None \<or> line_id line \<in> Some ` set (snd s)"
      using False by (cases "line_id line") auto
    ultimately show ?thesis using Cons by auto
  qed
qed simp

section \<open>Properties\<close>

text \<open>
  The joint plan is fail closed.  Provided attributions that claim a confirmed target carry one,
  an action other than none and escalate is planned exactly when the mode is simulate or enforce,
  the requested action is allowlisted, the object is not protected, no resource is degraded, and
  every active resource confirms the same target (at least one being active).
\<close>
theorem joint_plan_iff:
  assumes "claims_have_target rep (active_evaluations rep resources)"
    and "simulate_action \<notin> {''none'', ''escalate''}"
  shows "jd_action (jr_decision (build_joint_decision rep resources mode simulate_action protected allowed)) \<notin>
      {''none'', ''escalate''} \<longleftrightarrow>
    mode \<in> {''simulate'', ''enforce''} \<and> simulate_action \<in> set allowed \<and> \<not> protected \<and>
    \<not> list_ex (\<lambda>ke. is_degraded_evaluation rep (snd ke)) (map (\<lambda>(k, v). (k, mapping_of v)) resources) \<and>
    (\<exists>t. agreed (active_evaluations rep resources) t)"
proof -
  let ?active = "active_evaluations rep resources"
  let ?degraded = "list_ex (\<lambda>ke. is_degraded_evaluation rep (snd ke)) (map (\<lambda>(k, v). (k, mapping_of v)) resources)"
  let ?ts = "fst (joint_target (length ?active) ?degraded (fold (collect_target rep) ?active no_targets))"
  have ts: "?ts = ''TARGET_CONFIRMED'' \<longleftrightarrow> \<not> ?degraded \<and> (\<exists>t. agreed ?active t)"
    using joint_target_confirmed [OF _ assms(1)] joint_target_agreed by blast
  have act: "jd_action (jr_decision (build_joint_decision rep resources mode simulate_action protected allowed)) =
      fst (joint_action mode simulate_action protected allowed (length ?active) ?ts)"
    by (simp add: build_joint_decision_def Let_def case_prod_beta)
  have plan: "fst (joint_action mode simulate_action protected allowed n st) \<notin> {''none'', ''escalate''} \<longleftrightarrow>
      mode \<in> {''simulate'', ''enforce''} \<and> simulate_action \<in> set allowed \<and> \<not> protected \<and>
      n \<noteq> 0 \<and> st = ''TARGET_CONFIRMED''" for n st
    using assms(2) by (cases "st = ''TARGET_CONFIRMED''") (simp_all add: joint_action_def)
  have "length ?active \<noteq> 0 \<and> (\<exists>t. agreed ?active t) \<longleftrightarrow> (\<exists>t. agreed ?active t)" by (auto simp: agreed_def)
  then show ?thesis unfolding act plan ts by argo
qed

text \<open>A memory and a CPU evaluation that agree, and one whose confirmed attribution has no identity.\<close>

definition example_evaluation :: "pydict \<Rightarrow> pyval" where
  "example_evaluation target =
     PDict [(''risk'', PDict [(''state'', PStr ''critical'')]),
            (''attribution'', PDict [(''state'', PStr ''TARGET_CONFIRMED''), (''target'', PDict target)])]"

theorem joint_plan_iff_witness:
  "jd_action (jr_decision (build_joint_decision (\<lambda>_. [])
     [(''memory'', example_evaluation [(''id'', PStr ''c1'')]), (''cpu'', example_evaluation [(''id'', PStr ''c1'')])]
     ''enforce'' ''graceful_stop'' False [''graceful_stop''])) \<notin> {''none'', ''escalate''}"
proof -
  let ?rs = "[(''memory'', example_evaluation [(''id'', PStr ''c1'')]), (''cpu'', example_evaluation [(''id'', PStr ''c1'')])]"
  have a: "active_evaluations (\<lambda>_. []) ?rs = map (\<lambda>(k, v). (k, mapping_of v)) ?rs"
    by (simp add: active_evaluations_def is_active_evaluation_def risk_state_def joint_risk_def ACTIVE_STATES_def
        example_evaluation_def py_or_def)
  have t: "\<exists>t. agreed (active_evaluations (\<lambda>_. []) ?rs) t"
    unfolding a by (rule exI [of _ "''c1''"])
      (simp add: agreed_def confirmed_target_def attribution_of_def example_evaluation_def Let_def)
  moreover have "claims_have_target (\<lambda>_. []) (active_evaluations (\<lambda>_. []) ?rs)"
    using t by (auto simp: claims_have_target_def agreed_def)
  moreover have "\<not> list_ex (\<lambda>ke. is_degraded_evaluation (\<lambda>_. []) (snd ke)) (map (\<lambda>(k, v). (k, mapping_of v)) ?rs)"
    by (simp add: is_degraded_evaluation_def is_active_evaluation_def risk_state_def joint_risk_def ACTIVE_STATES_def
        example_evaluation_def py_or_def)
  ultimately show ?thesis
    using joint_plan_iff [of "\<lambda>_. []" ?rs "''graceful_stop''" "''enforce''" False "[''graceful_stop'']"] by simp
qed

text \<open>
  The provision of the previous property is needed: a single active resource whose attribution
  says TARGET_CONFIRMED without an identity is planned for, with no target id and the reason
  that its attribution is not confirmed.
\<close>
theorem joint_plan_without_target:
  "let r = build_joint_decision (\<lambda>_. []) [(''memory'', example_evaluation [])] ''enforce'' ''graceful_stop''
             False [''graceful_stop'']
   in jd_action (jr_decision r) = ''graceful_stop'' \<and> jd_target_id (jr_decision r) = PNone \<and>
      ''target_attribution_not_confirmed'' \<in> set (jd_reason_codes (jr_decision r))"
  by code_simp

text \<open>
  An audit file is reported valid exactly when it can be read to the end, is within its
  capacity, and every line is a JSON object with a non-empty event id, all of them different.
\<close>
theorem audit_valid_iff:
  "ar_status (verify_audit_file max_bytes stat lines read_error) = ''valid'' \<longleftrightarrow>
     (\<exists>file_size. stat = Inr file_size \<and> (case max_bytes of None \<Rightarrow> True | Some m \<Rightarrow> file_size \<le> m)) \<and> read_error = None \<and>
     None \<notin> set (map line_id lines) \<and> distinct (map line_id lines)"
proof (cases stat)
  case (Inr file_size)
  let ?r = "\<lparr>ar_status = ''invalid'', ar_lines = 0, ar_valid = 0, ar_invalid = 0, ar_missing_ids = 0,
             ar_duplicate_ids = 0, ar_bytes = file_size, ar_max_bytes = max_bytes,
             ar_capacity_ok = (case max_bytes of None \<Rightarrow> True | Some m \<Rightarrow> file_size \<le> m), ar_error = None\<rparr>"
  define f where "f = fst (fold audit_line lines (?r, []))"
  have f: "ar_status f = ''invalid''" "ar_capacity_ok f = ar_capacity_ok ?r"
    using audit_fold_frame [of lines "(?r, [])"] unfolding f_def by simp_all
  have c: "clean f \<longleftrightarrow> None \<notin> set (map line_id lines) \<and> distinct (map line_id lines)"
    using audit_fold_clean [of lines "(?r, [])"] unfolding f_def by (simp add: clean_def)
  have "ar_status (verify_audit_file max_bytes stat lines read_error) =
      (if read_error = None \<and> ar_capacity_ok f \<and> clean f then ''valid'' else ar_status f)"
    by (cases read_error) (simp_all add: verify_audit_file_def Inr f_def clean_def Let_def)
  then have "ar_status (verify_audit_file max_bytes stat lines read_error) = ''valid'' \<longleftrightarrow>
      read_error = None \<and> ar_capacity_ok ?r \<and> None \<notin> set (map line_id lines) \<and> distinct (map line_id lines)"
    using f c by auto
  with Inr show ?thesis by (auto split: option.splits)
qed (simp add: verify_audit_file_def)

end
