(* ===== verification/Guardian_Config.thy ===== *)
theory Guardian_Config
  imports Guardian_Text
begin

text \<open>
  The configuration validator (\<open>src/guardian_config.py\<close>, \<open>validate_config\<close> and
  \<open>safe_defaults\<close>).  A section is a list of checks in the order of the code; the first failing one
  is the raised error.  \<open>Escapes\<close> stands for an exception other than \<open>ConfigError\<close>: an unhashable
  value in a set membership test, or an integer beyond the range of \<open>float\<close>.
\<close>

section \<open>Checks\<close>

datatype config_error = ConfigError string | Escapes py_exn

type_synonym check = "config_error + unit"

fun checks :: "check list \<Rightarrow> check" where
  "checks [] = Inr ()"
| "checks (Inl e # _) = Inl e"
| "checks (Inr _ # cs) = checks cs"

lemma checks_Inr [simp]: "checks cs = Inr () \<longleftrightarrow> (\<forall>c \<in> set cs. c = Inr ())"
  by (induction cs rule: checks.induct) auto

definition require :: "bool \<Rightarrow> string \<Rightarrow> check" where
  "require b msg = (if b then Inr () else Inl (ConfigError msg))"

lemma require_Inr [simp]: "require b msg = Inr () \<longleftrightarrow> b"
  by (simp add: require_def)

text \<open>A check that only applies under a condition.\<close>

definition provided :: "bool \<Rightarrow> check \<Rightarrow> check" where
  "provided b c = (if b then c else Inr ())"

lemma provided_Inr [simp]: "provided b c = Inr () \<longleftrightarrow> (b \<longrightarrow> c = Inr ())"
  by (simp add: provided_def)

lemma check_simps [simp]:
  "require True msg = Inr ()" "provided False c = Inr ()" "provided b (Inr ()) = Inr ()"
  by (simp_all add: require_def provided_def)

definition missing_keys :: "pydict \<Rightarrow> string list \<Rightarrow> string list" where
  "missing_keys d expected = sorted_set (filter (\<lambda>k. \<not> has_key d k) expected)"

definition unknown_keys :: "pydict \<Rightarrow> string list \<Rightarrow> string list" where
  "unknown_keys d expected = sorted_set (filter (\<lambda>k. k \<notin> set expected) (map fst d))"

definition exact_keys :: "pydict \<Rightarrow> string list \<Rightarrow> string \<Rightarrow> check" where
  "exact_keys d expected path =
     checks [require (missing_keys d expected = []) (path @ '':missing_fields:'' @ join '','' (missing_keys d expected)),
             require (unknown_keys d expected = []) (path @ '':unknown_fields:'' @ join '','' (unknown_keys d expected))]"

definition check_mapping :: "pyval \<Rightarrow> string \<Rightarrow> check" where
  "check_mapping v path = require (is_dict v) (path @ '':object_required'')"

fun as_bool :: "pyval \<Rightarrow> bool option" where
  "as_bool (PBool b) = Some b"
| "as_bool _ = None"

definition check_bool :: "pyval \<Rightarrow> string \<Rightarrow> check" where
  "check_bool v path = require (as_bool v \<noteq> None) (path @ '':boolean_required'')"

fun check_number :: "pyval \<Rightarrow> string \<Rightarrow> check" where
  "check_number (PInt i) path = (case py_float (PInt i) of Inl e \<Rightarrow> Inl (Escapes e) | Inr _ \<Rightarrow> Inr ())"
| "check_number (PFloat f) path = Inr ()"
| "check_number v path = Inl (ConfigError (path @ '':number_required''))"

text \<open>The float a value that passed \<open>_number\<close> stands for.\<close>

fun num :: "pyval \<Rightarrow> pyfloat" where
  "num (PInt i) = Fin (of_int i)"
| "num (PFloat f) = f"
| "num _ = NaN"

definition check_string :: "pyval \<Rightarrow> string \<Rightarrow> check" where
  "check_string v path = require (as_nonempty_str v \<noteq> None) (path @ '':non_empty_string_required'')"

definition str_list :: "pyval \<Rightarrow> string list" where
  "str_list v = (case v of PList xs \<Rightarrow> List.map_filter as_nonempty_str xs | _ \<Rightarrow> [])"

definition check_strings :: "pyval \<Rightarrow> string \<Rightarrow> check" where
  "check_strings v path =
     checks [require (case v of PList xs \<Rightarrow> list_all (\<lambda>x. as_nonempty_str x \<noteq> None) xs | _ \<Rightarrow> False)
               (path @ '':string_list_required''),
             require (distinct (str_list v)) (path @ '':duplicates_not_allowed'')]"

text \<open>\<open>v not in {...}\<close> on a set of strings raises for an unhashable value.\<close>

definition check_member :: "pyval \<Rightarrow> string list \<Rightarrow> string \<Rightarrow> check" where
  "check_member v allowed msg =
     (if \<not> hashable v then Inl (Escapes TypeError) else require (str_in v allowed) msg)"

text \<open>\<open>type(v) is int and lo <= v <= hi\<close>.\<close>

definition int_between :: "int \<Rightarrow> int \<Rightarrow> pyval \<Rightarrow> bool" where
  "int_between lo hi v = (case as_int v of None \<Rightarrow> False | Some i \<Rightarrow> lo \<le> i \<and> i \<le> hi)"

definition between :: "rat \<Rightarrow> rat \<Rightarrow> pyfloat \<Rightarrow> bool" where
  "between lo hi x = (fle (Fin lo) x \<and> fle x (Fin hi))"

definition starts_with_slash :: "string \<Rightarrow> bool" where
  "starts_with_slash s = (case s of c # _ \<Rightarrow> c = CHR ''/'' | [] \<Rightarrow> False)"

fun text_of :: "pyval \<Rightarrow> string" where
  "text_of (PStr s) = s"
| "text_of _ = []"

text \<open>Numbers at several keys of one section, in order.\<close>

definition check_numbers :: "pydict \<Rightarrow> string \<Rightarrow> string list \<Rightarrow> check" where
  "check_numbers d path ks = checks (map (\<lambda>k. check_number (dget d k) (path @ ''.'' @ k)) ks)"

section \<open>Sections\<close>

definition check_agent :: "pyval \<Rightarrow> check" where
  "check_agent v =
     (let agent = mapping_of v
      in checks
        [check_mapping v ''agent'',
         exact_keys agent [''mode'', ''interval_seconds'', ''snapshot_directory'', ''snapshot_max_total_bytes''] ''agent'',
         check_member (dget agent ''mode'') [''observe'', ''simulate'', ''enforce''] ''agent.mode:invalid'',
         check_number (dget agent ''interval_seconds'') ''agent.interval_seconds'',
         require (between (1 / 10) 60 (num (dget agent ''interval_seconds'')))
           ''agent.interval_seconds:must_be_between_0.1_and_60'',
         provided (dget agent ''snapshot_directory'' \<noteq> PNone)
           (check_string (dget agent ''snapshot_directory'') ''agent.snapshot_directory''),
         require (int_between 0 (10 * 1024 * 1024 * 1024) (dget agent ''snapshot_max_total_bytes''))
           ''agent.snapshot_max_total_bytes:invalid''])"

definition check_risk_keys :: "pyval \<Rightarrow> check" where
  "check_risk_keys v =
     (let risk = mapping_of v; required = [''memory'', ''composite''];
          optional = [''cpu'', ''disk_capacity'', ''io'', ''emergency_shedding'', ''disk_reserve_recovery'']
      in checks
        [check_mapping v ''risk'',
         require (missing_keys risk required = []) (''risk:missing_fields:'' @ join '','' (missing_keys risk required)),
         require (unknown_keys risk (required @ optional) = [])
           (''risk:unknown_fields:'' @ join '','' (unknown_keys risk (required @ optional)))])"

definition check_memory :: "pyval \<Rightarrow> check" where
  "check_memory v =
     (let m = mapping_of v;
          keys = [''warning_available_percent'', ''critical_available_percent'', ''warning_for_seconds'', ''critical_for_seconds''];
          warning = num (dget m ''warning_available_percent'');
          critical = num (dget m ''critical_available_percent'')
      in checks
        [check_mapping v ''risk.memory'', exact_keys m keys ''risk.memory'', check_numbers m ''risk.memory'' keys,
         require (flt (Fin 0) critical \<and> fle critical warning \<and> flt warning (Fin 100))
           ''risk.memory:critical_must_be_positive_and_not_above_warning'',
         require (\<not> (fle (num (dget m ''warning_for_seconds'')) (Fin 0) \<or> fle (num (dget m ''critical_for_seconds'')) (Fin 0)))
           ''risk.memory:dwell_windows_must_be_positive''])"

definition age_ok :: "pyval \<Rightarrow> bool" where
  "age_ok v \<longleftrightarrow> \<not> (fle (num v) (Fin 0) \<or> flt (Fin 300) (num v))"

definition check_composite :: "pyval \<Rightarrow> check" where
  "check_composite v =
     (let c = mapping_of v;
          numbers = [''max_sample_age_seconds'', ''trend_warning_bytes_per_second'', ''trend_critical_bytes_per_second'',
            ''psi_memory_some_warning_avg10'', ''psi_memory_full_critical_avg10'', ''swap_used_warning_percent'',
            ''swap_used_critical_percent''];
          n = (\<lambda>k. num (dget c k))
      in checks
        [check_mapping v ''risk.composite'', exact_keys c (''required_samples'' # numbers) ''risk.composite'',
         require (int_between 1 60 (dget c ''required_samples'')) ''risk.composite.required_samples:invalid'',
         check_numbers c ''risk.composite'' numbers,
         require (age_ok (dget c ''max_sample_age_seconds'')) ''risk.composite.max_sample_age_seconds:invalid'',
         require (\<not> (flt (n ''trend_warning_bytes_per_second'') (Fin 0) \<or>
                     flt (n ''trend_critical_bytes_per_second'') (n ''trend_warning_bytes_per_second'')))
           ''risk.composite:trend_thresholds_invalid'',
         require (between 0 100 (n ''psi_memory_some_warning_avg10'') \<and> between 0 100 (n ''psi_memory_full_critical_avg10''))
           ''risk.composite:psi_thresholds_invalid'',
         require (fle (Fin 0) (n ''swap_used_warning_percent'') \<and>
                  fle (n ''swap_used_warning_percent'') (n ''swap_used_critical_percent'') \<and>
                  fle (n ''swap_used_critical_percent'') (Fin 100))
           ''risk.composite:swap_thresholds_invalid''])"

text \<open>The last four checks of the three resource sections.\<close>

definition check_tail :: "pydict \<Rightarrow> string \<Rightarrow> check list" where
  "check_tail d path =
     [require (\<not> (fle (num (dget d ''warning_for_seconds'')) (Fin 0) \<or> fle (num (dget d ''critical_for_seconds'')) (Fin 0)))
        (path @ '':dwell_windows_must_be_positive''),
      require (int_between 1 60 (dget d ''required_samples'')) (path @ ''.required_samples:invalid''),
      require (age_ok (dget d ''max_sample_age_seconds'')) (path @ ''.max_sample_age_seconds:invalid''),
      require (between 0 100 (num (dget d ''min_object_contribution_percent'')) \<and>
               between 0 1 (num (dget d ''min_object_lead_margin'')))
        (path @ '':attribution_thresholds_invalid'')]"

definition check_cpu :: "pyval \<Rightarrow> check" where
  "check_cpu v =
     (let c = mapping_of v; n = (\<lambda>k. num (dget c k));
          numbers = [''warning_utilization_percent'', ''critical_utilization_percent'', ''warning_psi_some_avg10'',
            ''critical_psi_full_avg10'', ''warning_scheduler_delay_ms'', ''critical_scheduler_delay_ms'',
            ''warning_for_seconds'', ''critical_for_seconds'', ''max_sample_age_seconds'',
            ''min_object_contribution_percent'', ''min_object_lead_margin'']
      in checks
        ([check_mapping v ''risk.cpu'', exact_keys c (''required_samples'' # numbers) ''risk.cpu'',
          check_numbers c ''risk.cpu'' numbers,
          require (flt (Fin 0) (n ''warning_utilization_percent'') \<and>
                   fle (n ''warning_utilization_percent'') (n ''critical_utilization_percent'') \<and>
                   fle (n ''critical_utilization_percent'') (Fin 100))
            ''risk.cpu:utilization_thresholds_invalid'',
          require (between 0 100 (n ''warning_psi_some_avg10'') \<and> between 0 100 (n ''critical_psi_full_avg10''))
            ''risk.cpu:psi_thresholds_invalid'',
          require (flt (Fin 0) (n ''warning_scheduler_delay_ms'') \<and>
                   fle (n ''warning_scheduler_delay_ms'') (n ''critical_scheduler_delay_ms''))
            ''risk.cpu:scheduler_delay_thresholds_invalid''] @ check_tail c ''risk.cpu''))"

definition check_disk_capacity :: "pyval \<Rightarrow> check" where
  "check_disk_capacity v =
     (let c = mapping_of v; n = (\<lambda>k. num (dget c k)); path = ''risk.disk_capacity'';
          numbers = [''warning_free_percent'', ''critical_free_percent'', ''warning_inode_free_percent'',
            ''critical_inode_free_percent'', ''warning_time_to_full_seconds'', ''critical_time_to_full_seconds'',
            ''warning_for_seconds'', ''critical_for_seconds'', ''max_sample_age_seconds'',
            ''min_object_contribution_percent'', ''min_object_lead_margin'']
      in checks
        ([check_mapping v path, exact_keys c (''mount_points'' # ''required_samples'' # numbers) path,
          check_strings (dget c ''mount_points'') (path @ ''.mount_points''),
          require (str_list (dget c ''mount_points'') \<noteq> [] \<and>
                   list_all starts_with_slash (str_list (dget c ''mount_points'')))
            (path @ ''.mount_points:absolute_non_empty_required''),
          check_numbers c path numbers,
          require (flt (Fin 0) (n ''critical_free_percent'') \<and> fle (n ''critical_free_percent'') (n ''warning_free_percent'') \<and>
                   fle (n ''warning_free_percent'') (Fin 100) \<and>
                   flt (Fin 0) (n ''critical_inode_free_percent'') \<and>
                   fle (n ''critical_inode_free_percent'') (n ''warning_inode_free_percent'') \<and>
                   fle (n ''warning_inode_free_percent'') (Fin 100))
            (path @ '':free_thresholds_invalid''),
          require (\<not> (fle (n ''critical_time_to_full_seconds'') (Fin 0) \<or>
                      flt (n ''warning_time_to_full_seconds'') (n ''critical_time_to_full_seconds'')))
            (path @ '':time_to_full_thresholds_invalid'')] @ check_tail c path))"

definition check_io :: "pyval \<Rightarrow> check" where
  "check_io v =
     (let c = mapping_of v; n = (\<lambda>k. num (dget c k));
          numbers = [''warning_psi_some_avg10'', ''critical_psi_full_avg10'', ''warning_device_utilization_percent'',
            ''critical_device_utilization_percent'', ''warning_average_latency_ms'', ''critical_average_latency_ms'',
            ''warning_for_seconds'', ''critical_for_seconds'', ''max_sample_age_seconds'',
            ''min_object_contribution_percent'', ''min_object_lead_margin'']
      in checks
        ([check_mapping v ''risk.io'', exact_keys c (''required_samples'' # numbers) ''risk.io'',
          check_numbers c ''risk.io'' numbers,
          require (between 0 100 (n ''warning_psi_some_avg10'') \<and> between 0 100 (n ''critical_psi_full_avg10''))
            ''risk.io:psi_thresholds_invalid'',
          require (flt (Fin 0) (n ''warning_device_utilization_percent'') \<and>
                   fle (n ''warning_device_utilization_percent'') (n ''critical_device_utilization_percent'') \<and>
                   fle (n ''critical_device_utilization_percent'') (Fin 100))
            ''risk.io:utilization_thresholds_invalid'',
          require (\<not> (fle (n ''warning_average_latency_ms'') (Fin 0) \<or>
                      flt (n ''critical_average_latency_ms'') (n ''warning_average_latency_ms'')))
            ''risk.io:latency_thresholds_invalid''] @ check_tail c ''risk.io''))"

section \<open>Emergency shedding and the reserve\<close>

definition EMERGENCY_RESOURCES :: "string list" where
  "EMERGENCY_RESOURCES = [''memory'', ''cpu'', ''io'', ''disk_capacity'']"

definition FULL_CONTAINER_ID :: "string \<Rightarrow> bool" where
  "FULL_CONTAINER_ID s = hex_fullmatch 64 64 s"

definition entry_path :: "string \<Rightarrow> nat \<Rightarrow> string" where
  "entry_path set_name i = ''risk.emergency_shedding.'' @ set_name @ ''['' @ int_str (int i) @ '']''"

definition check_stable_id :: "pydict \<Rightarrow> string \<Rightarrow> check list" where
  "check_stable_id item path =
     [check_string (dget item ''stable_id'') (path @ ''.stable_id''),
      require (FULL_CONTAINER_ID (text_of (dget item ''stable_id''))) (path @ ''.stable_id:full_container_id_required'')]"

definition check_protected_entry :: "nat \<times> pyval \<Rightarrow> check" where
  "check_protected_entry ie =
     (let item = mapping_of (snd ie); path = entry_path ''protected_set'' (fst ie)
      in checks
        ([exact_keys item [''stable_id'', ''owner'', ''reason''] path] @ check_stable_id item path @
         [check_string (dget item ''owner'') (path @ ''.owner''),
          check_string (dget item ''reason'') (path @ ''.reason'')]))"

definition check_actionable_entry :: "nat \<times> pyval \<Rightarrow> check" where
  "check_actionable_entry ie =
     (let item = mapping_of (snd ie); path = entry_path ''actionable_set'' (fst ie);
          resources = str_list (dget item ''allowed_resources'')
      in checks
        ([exact_keys item [''stable_id'', ''owner'', ''environment'', ''allowed_resources'', ''action'',
            ''grace_timeout_seconds'', ''expires_at'', ''human_contact''] path] @ check_stable_id item path @
         [check_string (dget item ''owner'') (path @ ''.owner''),
          require (dget item ''environment'' = PStr ''local-disposable'') (path @ ''.environment:local_disposable_required''),
          check_strings (dget item ''allowed_resources'') (path @ ''.allowed_resources''),
          require (resources \<noteq> [] \<and> set resources \<subseteq> set EMERGENCY_RESOURCES) (path @ ''.allowed_resources:invalid''),
          require (dget item ''action'' = PStr ''graceful_stop'') (path @ ''.action:only_graceful_stop_supported''),
          require (int_between 1 120 (dget item ''grace_timeout_seconds'')) (path @ ''.grace_timeout_seconds:invalid''),
          check_string (dget item ''expires_at'') (path @ ''.expires_at''),
          check_string (dget item ''human_contact'') (path @ ''.human_contact'')]))"

definition entries_of :: "pyval \<Rightarrow> pyval list" where
  "entries_of v = (case v of PList xs \<Rightarrow> xs | _ \<Rightarrow> [])"

definition object_list :: "pyval \<Rightarrow> bool" where
  "object_list v = (case v of PList xs \<Rightarrow> list_all is_dict xs | _ \<Rightarrow> False)"

definition entry_ids :: "pyval \<Rightarrow> string list" where
  "entry_ids v = map (\<lambda>e. text_of (dget (mapping_of e) ''stable_id'')) (entries_of v)"

definition check_shedding :: "pyval \<Rightarrow> check" where
  "check_shedding v =
     (let s = mapping_of v; path = ''risk.emergency_shedding'';
          protected = dget s ''protected_set''; actionable = dget s ''actionable_set'';
          priority = str_list (dget s ''resource_priority'');
          enabled = (as_bool (dget s ''enabled'') = Some True)
      in checks
        ([check_mapping v path,
          exact_keys s [''schema'', ''enabled'', ''window_seconds'', ''required_samples'', ''min_host_contribution_percent'',
            ''resource_priority'', ''action'', ''protected_set'', ''actionable_set''] path,
          require (dget s ''schema'' = PStr ''guardian.emergency_shedding.v1'') (path @ ''.schema:unsupported''),
          check_bool (dget s ''enabled'') (path @ ''.enabled''),
          check_number (dget s ''window_seconds'') (path @ ''.window_seconds''),
          check_number (dget s ''min_host_contribution_percent'') (path @ ''.min_host_contribution_percent''),
          check_strings (dget s ''resource_priority'') (path @ ''.resource_priority''),
          require (between 1 60 (num (dget s ''window_seconds''))) (path @ ''.window_seconds:must_be_between_1_and_60''),
          require (int_between 1 60 (dget s ''required_samples'')) (path @ ''.required_samples:invalid''),
          require (between 0 100 (num (dget s ''min_host_contribution_percent''))) (path @ ''.min_host_contribution_percent:invalid''),
          require (length priority = length EMERGENCY_RESOURCES \<and> set priority = set EMERGENCY_RESOURCES)
            (path @ ''.resource_priority:must_cover_all_resources''),
          require (dget s ''action'' = PStr ''graceful_stop'') (path @ ''.action:only_graceful_stop_supported''),
          require (object_list protected) (path @ ''.protected_set:object_list_required''),
          require (object_list actionable) (path @ ''.actionable_set:object_list_required'')] @
         map check_protected_entry (enumerate 0 (entries_of protected)) @
         map check_actionable_entry (enumerate 0 (entries_of actionable)) @
         [require (distinct (entry_ids protected)) (path @ ''.protected_set:duplicate_stable_id''),
          require (distinct (entry_ids actionable)) (path @ ''.actionable_set:duplicate_stable_id''),
          require (set (entry_ids protected) \<inter> set (entry_ids actionable) = {}) (path @ '':protected_actionable_overlap''),
          require (\<not> (enabled \<and> entries_of protected = [])) (path @ ''.protected_set:non_empty_when_enabled''),
          require (\<not> (enabled \<and> entries_of actionable = [])) (path @ ''.actionable_set:non_empty_when_enabled'')]))"

definition check_authorization_file :: "pyval \<Rightarrow> string \<Rightarrow> check list" where
  "check_authorization_file v path =
     [provided (v \<noteq> PNone) (check_string v path),
      provided (v \<noteq> PNone) (require (starts_with_slash (text_of v)) (path @ '':absolute_path_required''))]"

definition check_reserve :: "pyval \<Rightarrow> check" where
  "check_reserve v =
     (let r = mapping_of v; path = ''risk.disk_reserve_recovery''; auth = dget r ''authorization_file''
      in checks
        ([check_mapping v path,
          exact_keys r [''enabled'', ''root'', ''mount_point'', ''max_releases_per_incident'', ''authorization_file''] path,
          check_bool (dget r ''enabled'') (path @ ''.enabled''),
          check_string (dget r ''root'') (path @ ''.root''),
          check_string (dget r ''mount_point'') (path @ ''.mount_point''),
          require (text_of (dget r ''root'') = ''/var/lib/guardian/reserve'')
            (path @ ''.root:fixed_guardian_reserve_path_required''),
          require (starts_with_slash (text_of (dget r ''mount_point''))) (path @ ''.mount_point:absolute_path_required''),
          require (dget r ''max_releases_per_incident'' = PInt 1) (path @ ''.max_releases_per_incident:must_be_one'')] @
         check_authorization_file auth (path @ ''.authorization_file'') @
         [require (\<not> (as_bool (dget r ''enabled'') = Some True \<and> auth = PNone))
            (path @ '':authorization_file_required_when_enabled'')]))"

section \<open>Actions, protection, recovery, audit\<close>

definition CONFIG_ACTIONS :: "string list" where
  "CONFIG_ACTIONS = [''graceful_stop'', ''restart'', ''terminate'']"

text \<open>The mapping that is checked: older observe and simulate files lack the authorization path.\<close>

definition effective_actions :: "pyval \<Rightarrow> pyval \<Rightarrow> pydict" where
  "effective_actions mode v =
     (let actions = mapping_of v
      in if \<not> has_key actions ''authorization_file'' \<and> str_in mode [''observe'', ''simulate'']
         then actions @ [(''authorization_file'', PNone)] else actions)"

definition check_actions :: "pyval \<Rightarrow> pyval \<Rightarrow> check" where
  "check_actions mode v =
     (let a = effective_actions mode v; allow = str_list (dget a ''allow'');
          unknown = sorted_set (filter (\<lambda>x. x \<notin> set CONFIG_ACTIONS) allow);
          enforcing = (mode = PStr ''enforce'')
      in checks
        ([check_mapping v ''actions'',
          exact_keys a [''enabled'', ''require_approval'', ''authorization_file'', ''graceful_timeout_seconds'',
            ''cooldown_seconds'', ''max_actions_per_host_per_hour'', ''allow''] ''actions'',
          check_bool (dget a ''enabled'') ''actions.enabled'',
          check_bool (dget a ''require_approval'') ''actions.require_approval''] @
         check_authorization_file (dget a ''authorization_file'') ''actions.authorization_file'' @
         [require (int_between 1 120 (dget a ''graceful_timeout_seconds''))
            ''actions.graceful_timeout_seconds:must_be_between_1_and_120'',
          check_number (dget a ''cooldown_seconds'') ''actions.cooldown_seconds'',
          require (\<not> flt (num (dget a ''cooldown_seconds'')) (Fin 0)) ''actions.cooldown_seconds:must_be_non_negative'',
          require (int_between 0 100 (dget a ''max_actions_per_host_per_hour''))
            ''actions.max_actions_per_host_per_hour:invalid'',
          check_strings (dget a ''allow'') ''actions.allow'',
          require (unknown = []) (''actions.allow:unknown_action:'' @ join '','' unknown),
          provided enforcing (require (as_bool (dget a ''enabled'') = Some True)
            ''agent.mode:enforce_requires_actions_enabled''),
          provided enforcing (require (as_bool (dget a ''require_approval'') = Some True)
            ''agent.mode:enforce_requires_approval''),
          provided enforcing (require (allow \<noteq> []) ''agent.mode:enforce_requires_non_empty_allowlist''),
          provided enforcing (require (''terminate'' \<notin> set allow) ''actions.allow:automatic_terminate_forbidden''),
          provided enforcing (require (dget a ''authorization_file'' \<noteq> PNone)
            ''agent.mode:enforce_requires_authorization_file'')]))"

definition check_protection :: "pyval \<Rightarrow> check" where
  "check_protection v =
     (let p = mapping_of v; keys = [''systemd_units'', ''executable_paths'', ''container_labels'']
      in checks
        ([check_mapping v ''protection'', exact_keys p keys ''protection''] @
         map (\<lambda>k. check_strings (dget p k) (''protection.'' @ k)) keys))"

definition check_recovery :: "pyval \<Rightarrow> check" where
  "check_recovery v =
     (let r = mapping_of v; max_wait = num (dget r ''max_wait_seconds''); poll = num (dget r ''poll_interval_seconds'')
      in checks
        [check_mapping v ''recovery'',
         exact_keys r [''max_wait_seconds'', ''poll_interval_seconds'', ''require_business_health''] ''recovery'',
         check_numbers r ''recovery'' [''max_wait_seconds'', ''poll_interval_seconds''],
         require (\<not> (fle max_wait (Fin 0) \<or> fle poll (Fin 0) \<or> flt max_wait poll)) ''recovery:invalid_poll_window'',
         check_bool (dget r ''require_business_health'') ''recovery.require_business_health''])"

definition check_audit_section :: "pyval \<Rightarrow> check" where
  "check_audit_section v =
     (let a = mapping_of v
      in checks
        [check_mapping v ''audit'',
         exact_keys a [''local_buffer_enabled'', ''remote_export_enabled'', ''max_total_bytes''] ''audit'',
         check_bool (dget a ''local_buffer_enabled'') ''audit.local_buffer_enabled'',
         check_bool (dget a ''remote_export_enabled'') ''audit.remote_export_enabled'',
         require (as_bool (dget a ''remote_export_enabled'') \<noteq> Some True) ''audit.remote_export_enabled:not_implemented'',
         require (int_between 1 (10 * 1024 * 1024 * 1024) (dget a ''max_total_bytes'')) ''audit.max_total_bytes:invalid''])"

definition CONFIG_SCHEMA :: string where
  "CONFIG_SCHEMA = ''guardian.config.v1''"

text \<open>An optional section of the risk block.\<close>

definition optional_section :: "pydict \<Rightarrow> string \<Rightarrow> (pyval \<Rightarrow> check) \<Rightarrow> check" where
  "optional_section risk k chk = (let v = dget risk k in provided (v \<noteq> PNone) (chk v))"

definition validate_config :: "pyval \<Rightarrow> config_error + pydict" where
  "validate_config v =
     (let root = mapping_of v; risk = mapping_of (dget root ''risk'');
          mode = dget (mapping_of (dget root ''agent'')) ''mode''
      in case checks
        [check_mapping v ''config'',
         exact_keys root [''schema'', ''version'', ''agent'', ''risk'', ''actions'', ''protection'', ''recovery'', ''audit''] ''config'',
         require (dget root ''schema'' = PStr CONFIG_SCHEMA) (''config.schema:expected:'' @ CONFIG_SCHEMA),
         require (dget root ''version'' = PInt 1) ''config.version:unsupported'',
         check_agent (dget root ''agent''),
         check_risk_keys (dget root ''risk''),
         check_memory (dget risk ''memory''),
         check_composite (dget risk ''composite''),
         optional_section risk ''cpu'' check_cpu,
         optional_section risk ''disk_capacity'' check_disk_capacity,
         optional_section risk ''io'' check_io,
         optional_section risk ''emergency_shedding'' check_shedding,
         optional_section risk ''disk_reserve_recovery'' check_reserve,
         check_actions mode (dget root ''actions''),
         check_protection (dget root ''protection''),
         check_recovery (dget root ''recovery''),
         check_audit_section (dget root ''audit'')] of
          Inl e \<Rightarrow> Inl e
        | Inr _ \<Rightarrow> Inr root)"

section \<open>The built-in defaults\<close>

definition default_agent :: pyval where
  "default_agent =
     PDict [(''mode'', PStr ''observe''),
     (''interval_seconds'', PInt 5),
     (''snapshot_directory'', PNone),
     (''snapshot_max_total_bytes'', PInt 268435456)]"

definition default_memory :: pyval where
  "default_memory =
     PDict [(''warning_available_percent'', PInt 15),
     (''critical_available_percent'', PInt 10),
     (''warning_for_seconds'', PInt 180),
     (''critical_for_seconds'', PInt 30)]"

definition default_composite :: pyval where
  "default_composite =
     PDict [(''required_samples'', PInt 2),
     (''max_sample_age_seconds'', PInt 15),
     (''trend_warning_bytes_per_second'', PInt 1048576),
     (''trend_critical_bytes_per_second'', PInt 16777216),
     (''psi_memory_some_warning_avg10'', PInt 1),
     (''psi_memory_full_critical_avg10'', PFloat (Fin (1 / 2))),
     (''swap_used_warning_percent'', PInt 25),
     (''swap_used_critical_percent'', PInt 50)]"

definition default_cpu :: pyval where
  "default_cpu =
     PDict [(''warning_utilization_percent'', PInt 85),
     (''critical_utilization_percent'', PInt 95),
     (''warning_psi_some_avg10'', PInt 1),
     (''critical_psi_full_avg10'', PFloat (Fin (1 / 2))),
     (''warning_scheduler_delay_ms'', PInt 250),
     (''critical_scheduler_delay_ms'', PInt 1000),
     (''warning_for_seconds'', PInt 30),
     (''critical_for_seconds'', PInt 10),
     (''required_samples'', PInt 2),
     (''max_sample_age_seconds'', PInt 15),
     (''min_object_contribution_percent'', PInt 20),
     (''min_object_lead_margin'', PFloat (Fin (3 / 20)))]"

definition default_disk_capacity :: pyval where
  "default_disk_capacity =
     PDict [(''mount_points'', PList [PStr ''/'']),
     (''warning_free_percent'', PInt 15),
     (''critical_free_percent'', PInt 5),
     (''warning_inode_free_percent'', PInt 10),
     (''critical_inode_free_percent'', PInt 5),
     (''warning_time_to_full_seconds'', PInt 86400),
     (''critical_time_to_full_seconds'', PInt 3600),
     (''warning_for_seconds'', PInt 180),
     (''critical_for_seconds'', PInt 30),
     (''required_samples'', PInt 2),
     (''max_sample_age_seconds'', PInt 15),
     (''min_object_contribution_percent'', PInt 20),
     (''min_object_lead_margin'', PFloat (Fin (3 / 20)))]"

definition default_io :: pyval where
  "default_io =
     PDict [(''warning_psi_some_avg10'', PInt 1),
     (''critical_psi_full_avg10'', PFloat (Fin (1 / 2))),
     (''warning_device_utilization_percent'', PInt 70),
     (''critical_device_utilization_percent'', PInt 90),
     (''warning_average_latency_ms'', PInt 100),
     (''critical_average_latency_ms'', PInt 500),
     (''warning_for_seconds'', PInt 30),
     (''critical_for_seconds'', PInt 10),
     (''required_samples'', PInt 2),
     (''max_sample_age_seconds'', PInt 15),
     (''min_object_contribution_percent'', PInt 20),
     (''min_object_lead_margin'', PFloat (Fin (3 / 20)))]"

definition default_disk_reserve_recovery :: pyval where
  "default_disk_reserve_recovery =
     PDict [(''enabled'', PBool False),
     (''root'', PStr ''/var/lib/guardian/reserve''),
     (''mount_point'', PStr ''/''),
     (''max_releases_per_incident'', PInt 1),
     (''authorization_file'', PNone)]"

definition default_actions :: pyval where
  "default_actions =
     PDict [(''enabled'', PBool False),
     (''require_approval'', PBool True),
     (''authorization_file'', PNone),
     (''graceful_timeout_seconds'', PInt 30),
     (''cooldown_seconds'', PInt 600),
     (''max_actions_per_host_per_hour'', PInt 0),
     (''allow'', PList [])]"

definition default_protection :: pyval where
  "default_protection =
     PDict [(''systemd_units'', PList [PStr ''guardian-runtime.service'', PStr ''guardian-collector.service'', PStr ''guardian-broker.service'', PStr ''beszel.service'', PStr ''beszel-agent.service'', PStr ''ssh.service'', PStr ''sshd.service'', PStr ''systemd-logind.service'', PStr ''systemd-journald.service'', PStr ''docker.service'', PStr ''containerd.service'']),
     (''executable_paths'', PList []),
     (''container_labels'', PList [PStr ''guardian.role=control-plane'', PStr ''guardian.role=guardian'', PStr ''com.docker.compose.service=beszel'', PStr ''com.docker.compose.service=beszel-agent'', PStr ''com.docker.compose.service=beszel-isolated'', PStr ''com.docker.compose.service=beszel-agent-isolated''])]"

definition default_recovery :: pyval where
  "default_recovery =
     PDict [(''max_wait_seconds'', PInt 30),
     (''poll_interval_seconds'', PInt 1),
     (''require_business_health'', PBool True)]"

definition default_audit :: pyval where
  "default_audit =
     PDict [(''local_buffer_enabled'', PBool True),
     (''remote_export_enabled'', PBool False),
     (''max_total_bytes'', PInt 104857600)]"

definition safe_defaults :: pyval where
  "safe_defaults =
     PDict [(''schema'', PStr CONFIG_SCHEMA),
            (''version'', PInt 1),
            (''agent'', default_agent),
            (''risk'', PDict [(''memory'', default_memory), (''composite'', default_composite), (''cpu'', default_cpu), (''disk_capacity'', default_disk_capacity), (''io'', default_io), (''disk_reserve_recovery'', default_disk_reserve_recovery)]),
            (''actions'', default_actions),
            (''protection'', default_protection),
            (''recovery'', default_recovery),
            (''audit'', default_audit)]"

lemma float_limit_large: "(2 :: rat) ^ 64 < float_limit"
proof -
  have "(2 :: rat) ^ 64 < 2 ^ 1023" by (rule power_strict_increasing) simp_all
  moreover have "(2 :: rat) ^ 970 \<le> 2 ^ 1023" by (rule power_increasing) simp_all
  moreover have "(2 :: rat) ^ 1024 = 2 ^ 1023 + 2 ^ 1023" by simp
  ultimately show ?thesis unfolding float_limit_def by linarith
qed

lemma check_number_small: "\<bar>i\<bar> \<le> 2 ^ 64 \<Longrightarrow> check_number (PInt i) path = Inr ()"
proof -
  assume "\<bar>i\<bar> \<le> 2 ^ 64"
  then have "\<bar>of_int i\<bar> \<le> (2 :: rat) ^ 64"
    by (metis of_int_abs of_int_le_iff of_int_numeral of_int_power)
  with float_limit_large show ?thesis by auto
qed

lemmas config_eval = Let_def exact_keys_def missing_keys_def unknown_keys_def check_mapping_def check_bool_def
  check_numbers_def check_string_def check_strings_def check_member_def check_number_small int_between_def
  between_def str_list_def map_filter_simps age_ok_def check_tail_def starts_with_slash_def ex_bool_eq

lemma default_sections_ok:
  "check_agent default_agent = Inr ()" "check_memory default_memory = Inr ()"
  "check_composite default_composite = Inr ()"
  by (simp_all add: check_agent_def default_agent_def check_memory_def default_memory_def
      check_composite_def default_composite_def config_eval del: check_number.simps(1))

lemma default_resources_ok:
  "check_cpu default_cpu = Inr ()" "check_disk_capacity default_disk_capacity = Inr ()" "check_io default_io = Inr ()"
  by (simp_all add: check_cpu_def default_cpu_def check_disk_capacity_def default_disk_capacity_def
      check_io_def default_io_def config_eval del: check_number.simps(1))

lemma default_rest_ok:
  "check_reserve default_disk_reserve_recovery = Inr ()" "check_actions (PStr ''observe'') default_actions = Inr ()"
  "check_protection default_protection = Inr ()" "check_recovery default_recovery = Inr ()"
  "check_audit_section default_audit = Inr ()"
  by (simp_all add: check_reserve_def default_disk_reserve_recovery_def check_actions_def default_actions_def
      effective_actions_def check_authorization_file_def check_protection_def default_protection_def
      check_recovery_def default_recovery_def check_audit_section_def default_audit_def
      config_eval del: check_number.simps(1))

lemma validate_config_Inr:
  "validate_config v = Inr cfg \<Longrightarrow>
     cfg = mapping_of v \<and> check_agent (dget cfg ''agent'') = Inr () \<and>
     optional_section (mapping_of (dget cfg ''risk'')) ''emergency_shedding'' check_shedding = Inr () \<and>
     check_actions (dget (mapping_of (dget cfg ''agent'')) ''mode'') (dget cfg ''actions'') = Inr ()"
  by (auto simp: validate_config_def Let_def split: sum.splits)

lemma effective_actions_enforce: "effective_actions (PStr ''enforce'') v = mapping_of v"
  by (simp add: effective_actions_def Let_def)

lemma str_list_set: "set (str_list v) = {s. s \<noteq> [] \<and> PStr s \<in> set (entries_of v)}"
proof -
  have "x \<in> set (List.map_filter as_nonempty_str xs) \<longleftrightarrow> x \<noteq> [] \<and> PStr x \<in> set xs" for x xs
    by (induction xs) (auto simp: map_filter_simps split: option.splits elim!: as_nonempty_str.elims)
  then show ?thesis by (auto simp: str_list_def entries_of_def split: pyval.splits)
qed

section \<open>Properties\<close>

text \<open>
  A configuration accepted in enforce mode has its actions enabled, requires an approval,
  names an absolute authorization file, and allows a non-empty list of graceful stops and
  restarts only: automatic termination is never configurable.
\<close>
theorem enforce_config_guarded:
  assumes "validate_config v = Inr cfg"
    and "dget (mapping_of (dget cfg ''agent'')) ''mode'' = PStr ''enforce''"
  shows "let a = mapping_of (dget cfg ''actions'') in
    dget a ''enabled'' = PBool True \<and> dget a ''require_approval'' = PBool True \<and>
    (\<exists>f. dget a ''authorization_file'' = PStr f \<and> starts_with_slash f) \<and>
    str_list (dget a ''allow'') \<noteq> [] \<and> set (str_list (dget a ''allow'')) \<subseteq> {''graceful_stop'', ''restart''}"
proof -
  let ?a = "mapping_of (dget cfg ''actions'')"
  have c: "check_actions (PStr ''enforce'') (dget cfg ''actions'') = Inr ()"
    using validate_config_Inr [OF assms(1)] assms(2) by metis
  have b: "as_bool x = Some True \<longleftrightarrow> x = PBool True" for x by (cases x) auto
  have f: "\<exists>f. x = PStr f \<and> starts_with_slash f" if "starts_with_slash (text_of x)" for x
    using that by (cases x) (simp_all add: starts_with_slash_def)
  have g: "dget ?a ''enabled'' = PBool True" "dget ?a ''require_approval'' = PBool True"
    "starts_with_slash (text_of (dget ?a ''authorization_file''))" "str_list (dget ?a ''allow'') \<noteq> []"
    "\<forall>x \<in> set (str_list (dget ?a ''allow'')). x \<in> set CONFIG_ACTIONS" "''terminate'' \<notin> set (str_list (dget ?a ''allow''))"
    using c
    by (simp_all add: check_actions_def effective_actions_enforce Let_def b check_authorization_file_def
        filter_empty_conv)
  have "set (str_list (dget ?a ''allow'')) \<subseteq> {''graceful_stop'', ''restart''}"
    using g(5,6) by (auto simp: CONFIG_ACTIONS_def)
  with g f [OF g(3)] show ?thesis unfolding Let_def by blast
qed

definition enforce_actions :: pyval where
  "enforce_actions =
     PDict [(''enabled'', PBool True), (''require_approval'', PBool True),
            (''authorization_file'', PStr ''/etc/guardian/approval.json''), (''graceful_timeout_seconds'', PInt 30),
            (''cooldown_seconds'', PInt 600), (''max_actions_per_host_per_hour'', PInt 1),
            (''allow'', PList [PStr ''graceful_stop''])]"

definition enforce_agent :: pyval where
  "enforce_agent = PDict (dset (mapping_of default_agent) ''mode'' (PStr ''enforce''))"

definition enforce_config :: pyval where
  "enforce_config = PDict (dset (dset (mapping_of safe_defaults) ''agent'' enforce_agent) ''actions'' enforce_actions)"

lemma enforce_sections_ok:
  "check_agent enforce_agent = Inr ()" "check_actions (PStr ''enforce'') enforce_actions = Inr ()"
  by (simp_all add: check_agent_def enforce_agent_def default_agent_def check_actions_def enforce_actions_def
      effective_actions_def check_authorization_file_def CONFIG_ACTIONS_def config_eval del: check_number.simps(1))

lemma enforce_config_valid: "validate_config enforce_config = Inr (mapping_of enforce_config)"
proof -
  have "dget (mapping_of enforce_agent) ''mode'' = PStr ''enforce''"
    by (simp add: enforce_agent_def default_agent_def)
  then show ?thesis
    by (simp add: validate_config_def enforce_config_def safe_defaults_def optional_section_def
        check_risk_keys_def exact_keys_def missing_keys_def unknown_keys_def check_mapping_def Let_def
        default_sections_ok default_resources_ok default_rest_ok enforce_sections_ok)
qed

theorem enforce_config_guarded_witness:
  "let a = mapping_of (dget (mapping_of enforce_config) ''actions'') in
    dget a ''enabled'' = PBool True \<and> dget a ''require_approval'' = PBool True \<and>
    (\<exists>f. dget a ''authorization_file'' = PStr f \<and> starts_with_slash f) \<and>
    str_list (dget a ''allow'') \<noteq> [] \<and> set (str_list (dget a ''allow'')) \<subseteq> {''graceful_stop'', ''restart''}"
  by (rule enforce_config_guarded [OF enforce_config_valid])
    (simp add: enforce_config_def safe_defaults_def enforce_agent_def default_agent_def)

text \<open>
  The built-in defaults are accepted, observe only, and have every action disabled.
\<close>
theorem safe_defaults_observe_only:
  "validate_config safe_defaults = Inr (mapping_of safe_defaults) \<and>
   dget (mapping_of (dget (mapping_of safe_defaults) ''agent'')) ''mode'' = PStr ''observe'' \<and>
   dget (mapping_of (dget (mapping_of safe_defaults) ''actions'')) ''enabled'' = PBool False \<and>
   str_list (dget (mapping_of (dget (mapping_of safe_defaults) ''actions'')) ''allow'') = []"
proof -
  have "dget (mapping_of default_agent) ''mode'' = PStr ''observe''" by (simp add: default_agent_def)
  then have "validate_config safe_defaults = Inr (mapping_of safe_defaults)"
    by (simp add: validate_config_def safe_defaults_def optional_section_def
        check_risk_keys_def exact_keys_def missing_keys_def unknown_keys_def check_mapping_def Let_def
        default_sections_ok default_resources_ok default_rest_ok)
  then show ?thesis
    by (simp add: safe_defaults_def default_agent_def default_actions_def str_list_def map_filter_simps)
qed

text \<open>
  An accepted emergency-shedding section never lists a container both as protected and as
  actionable, lists no container twice, and each actionable entry is a full container id of the
  disposable environment whose only action is a graceful stop of at most 120 seconds; when the
  section is enabled both lists are non-empty.
\<close>
theorem shedding_config_scoped:
  assumes "check_shedding v = Inr ()"
  shows "let s = mapping_of v; protected = entry_ids (dget s ''protected_set'');
             actionable = entry_ids (dget s ''actionable_set'')
    in distinct (protected @ actionable) \<and> dget s ''action'' = PStr ''graceful_stop'' \<and>
       (dget s ''enabled'' = PBool False \<or> protected \<noteq> [] \<and> actionable \<noteq> []) \<and>
       (\<forall>e \<in> set (entries_of (dget s ''actionable_set'')).
          FULL_CONTAINER_ID (text_of (dget (mapping_of e) ''stable_id'')) \<and>
          dget (mapping_of e) ''environment'' = PStr ''local-disposable'' \<and>
          dget (mapping_of e) ''action'' = PStr ''graceful_stop'' \<and>
          int_between 1 120 (dget (mapping_of e) ''grace_timeout_seconds''))"
proof -
  let ?s = "mapping_of v"
  note parts = assms [unfolded check_shedding_def Let_def checks_Inr set_append ball_Un set_map ball_simps
      list.set require_Inr]
  have all: "\<forall>ie \<in> set (enumerate 0 (entries_of (dget ?s ''actionable_set''))). check_actionable_entry ie = Inr ()"
    using parts by (elim conjE) assumption
  have d: "distinct (entry_ids (dget ?s ''protected_set''))" "distinct (entry_ids (dget ?s ''actionable_set''))"
      "set (entry_ids (dget ?s ''protected_set'')) \<inter> set (entry_ids (dget ?s ''actionable_set'')) = {}"
    using parts by - (elim conjE, assumption)+
  have a: "dget ?s ''action'' = PStr ''graceful_stop''"
    and b: "check_bool (dget ?s ''enabled'') (''risk.emergency_shedding'' @ ''.enabled'') = Inr ()"
    using parts by - (elim conjE, assumption)+
  have "\<not> (as_bool (dget ?s ''enabled'') = Some True \<and> entries_of (dget ?s ''protected_set'') = [])"
    and "\<not> (as_bool (dget ?s ''enabled'') = Some True \<and> entries_of (dget ?s ''actionable_set'') = [])"
    using parts by - (elim conjE, assumption)+
  then have e: "as_bool (dget ?s ''enabled'') = Some True \<longrightarrow>
      entries_of (dget ?s ''protected_set'') \<noteq> [] \<and> entries_of (dget ?s ''actionable_set'') \<noteq> []"
    by blast
  have entry: "FULL_CONTAINER_ID (text_of (dget (mapping_of e) ''stable_id'')) \<and>
      dget (mapping_of e) ''environment'' = PStr ''local-disposable'' \<and>
      dget (mapping_of e) ''action'' = PStr ''graceful_stop'' \<and>
      int_between 1 120 (dget (mapping_of e) ''grace_timeout_seconds'')"
    if in_set: "e \<in> set (entries_of (dget ?s ''actionable_set''))" for e
  proof -
    have "e \<in> snd ` set (enumerate 0 (entries_of (dget ?s ''actionable_set'')))"
      using in_set by (simp only: flip: set_map) (simp add: map_snd_enumerate)
    then obtain i where "(i, e) \<in> set (enumerate 0 (entries_of (dget ?s ''actionable_set'')))" by force
    with all have "check_actionable_entry (i, e) = Inr ()" by blast
    then show ?thesis by (simp add: check_actionable_entry_def check_stable_id_def Let_def)
  qed
  have "dget ?s ''enabled'' = PBool False \<or> as_bool (dget ?s ''enabled'') = Some True"
    using b by (cases "dget ?s ''enabled''") (auto simp: check_bool_def)
  with e have "dget ?s ''enabled'' = PBool False \<or>
      entry_ids (dget ?s ''protected_set'') \<noteq> [] \<and> entry_ids (dget ?s ''actionable_set'') \<noteq> []"
    by (auto simp: entry_ids_def)
  with d a entry show ?thesis unfolding Let_def by simp
qed

definition example_shedding :: pyval where
  "example_shedding =
     PDict [(''schema'', PStr ''guardian.emergency_shedding.v1''), (''enabled'', PBool True),
            (''window_seconds'', PInt 10), (''required_samples'', PInt 3), (''min_host_contribution_percent'', PInt 20),
            (''resource_priority'', PList [PStr ''memory'', PStr ''cpu'', PStr ''io'', PStr ''disk_capacity'']),
            (''action'', PStr ''graceful_stop''),
            (''protected_set'', PList [PDict [(''stable_id'', PStr (replicate 64 CHR ''b'')), (''owner'', PStr ''ops''),
                                              (''reason'', PStr ''monitoring'')]]),
            (''actionable_set'', PList [PDict [(''stable_id'', PStr (replicate 64 CHR ''a'')), (''owner'', PStr ''lab''),
               (''environment'', PStr ''local-disposable''), (''allowed_resources'', PList [PStr ''memory'']),
               (''action'', PStr ''graceful_stop''), (''grace_timeout_seconds'', PInt 30),
               (''expires_at'', PStr ''2030-01-01T00:00:00Z''), (''human_contact'', PStr ''lab'')]])]"

lemma example_shedding_ok: "check_shedding example_shedding = Inr ()"
  by (simp add: check_shedding_def example_shedding_def config_eval object_list_def entries_of_def entry_ids_def
      EMERGENCY_RESOURCES_def check_protected_entry_def check_actionable_entry_def check_stable_id_def
      FULL_CONTAINER_ID_def hex_fullmatch_def is_hex_char_def list_all_iff del: check_number.simps(1)) auto

theorem shedding_config_scoped_witness:
  "distinct (entry_ids (dget (mapping_of example_shedding) ''protected_set'') @
             entry_ids (dget (mapping_of example_shedding) ''actionable_set''))"
  using shedding_config_scoped [OF example_shedding_ok] unfolding Let_def by blast

end
