(* ===== verification/Guardian_Shedding.thy ===== *)
theory Guardian_Shedding
  imports Guardian_Multirisk Guardian_Config "HOL-Library.Product_Lexorder"
begin

text \<open>
  The emergency-shedding policy (\<open>src/guardian_emergency_shedding.py\<close>): construction of the
  policy, validation of the protected and actionable sets, identity checks against the registry,
  the ranking of running containers per resource, and the decision with all its refusals.

  Parameters: \<open>rep\<close> is the text of floats and containers; \<open>iso_at\<close> is
  \<open>datetime.fromisoformat\<close> (no time, a time without an offset, or the epoch of an aware time);
  \<open>policy_sha\<close> and \<open>plan_sha\<close> are the SHA-256 hex digests of the canonical JSON text of the policy
  and of the plan key.  A tuple or list input is \<open>PList\<close>; every other value is an input that
  cannot be materialised.
\<close>

section \<open>Accessors\<close>

definition SUPPORTED_RESOURCES :: "string list" where
  "SUPPORTED_RESOURCES = [''memory'', ''cpu'', ''io'', ''disk_capacity'']"

definition EMERGENCY_SHEDDING_SCHEMA :: string where
  "EMERGENCY_SHEDDING_SCHEMA = ''guardian.emergency_shedding.v1''"

definition full_container_id :: "string \<Rightarrow> bool" where
  "full_container_id s = hex_fullmatch 64 64 s"

definition RESOURCE_ALIASES :: "(string \<times> string) list" where
  "RESOURCE_ALIASES =
     [(''capacity'', ''disk_capacity''), (''disk_capacity'', ''disk_capacity''), (''disk'', ''disk_capacity''),
      (''memory'', ''memory''), (''cpu'', ''cpu''), (''io'', ''io'')]"

text \<open>The values of an input and whether it could not be materialised.\<close>

fun materialize_iterable :: "pyval \<Rightarrow> pyval list \<times> bool" where
  "materialize_iterable (PList xs) = (xs, False)"
| "materialize_iterable _ = ([], True)"

fun resource_kind :: "pyval \<Rightarrow> string option" where
  "resource_kind (PStr s) = map_of RESOURCE_ALIASES (py_lower (py_strip s))"
| "resource_kind _ = None"

definition id_keys :: "string list" where
  "id_keys = [''stable_id'', ''container_id'', ''id'']"

definition entry_id :: "pydict \<Rightarrow> string option" where
  "entry_id value =
     first_some (map (\<lambda>k. as_nonempty_str (dget value k)) id_keys @
                 map (\<lambda>k. as_nonempty_str (dget (mapping_of (dget value ''selector'')) k)) id_keys)"

fun label_pair :: "string \<times> pyval \<Rightarrow> (string \<times> string) option" where
  "label_pair (key, PStr raw) =
     (if key = [] \<or> 256 < length key \<or> 1024 < length raw then None else Some (key, raw))"
| "label_pair _ = None"

definition labels :: "pyval \<Rightarrow> (string \<times> string) list" where
  "labels value = sort (List.map_filter label_pair (mapping_of value))"

fun finite_number :: "pyval \<Rightarrow> rat option" where
  "finite_number (PInt i) = (if float_limit \<le> \<bar>of_int i\<bar> then None else Some (of_int i))"
| "finite_number (PFloat (Fin q)) = Some q"
| "finite_number _ = None"

section \<open>The policy\<close>

record shedding_policy =
  sp_enabled :: bool
  sp_window_seconds :: pyval
  sp_required_samples :: int
  sp_min_host_contribution_percent :: pyval
  sp_resource_priority :: "string list"
  sp_action :: string
  sp_protected_set :: "pyval list"
  sp_actionable_set :: "pyval list"

definition default_policy :: shedding_policy where
  "default_policy =
     \<lparr>sp_enabled = False, sp_window_seconds = PFloat (Fin 15), sp_required_samples = 2,
      sp_min_host_contribution_percent = PFloat (Fin 20), sp_resource_priority = SUPPORTED_RESOURCES,
      sp_action = ''graceful_stop'', sp_protected_set = [], sp_actionable_set = []\<rparr>"

text \<open>\<open>EmergencySheddingPolicy(...)\<close>: the checks of \<open>__post_init__\<close> on the arguments, in order.\<close>

definition make_policy ::
  "pyval \<Rightarrow> pyval \<Rightarrow> pyval \<Rightarrow> pyval \<Rightarrow> pyval list \<Rightarrow> pyval \<Rightarrow> pyval list \<Rightarrow> pyval list \<Rightarrow> string + shedding_policy" where
  "make_policy enabled window required minimum priority action protected_set actionable_set =
     (let names = map text_of priority
      in if as_bool enabled = None then Inl ''enabled_must_be_boolean''
         else if \<not> opt_holds (\<lambda>w. 0 < w) (finite_number window) then Inl ''window_seconds_must_be_positive''
         else if \<not> int_between 1 60 required then Inl ''required_samples_out_of_bounds''
         else if \<not> opt_holds (\<lambda>m. 0 \<le> m \<and> m \<le> 100) (finite_number minimum) then Inl ''min_host_contribution_out_of_bounds''
         else if \<not> list_all is_str priority \<or> length priority \<noteq> length SUPPORTED_RESOURCES \<or>
                 set names \<noteq> set SUPPORTED_RESOURCES
           then Inl ''resource_priority_must_cover_all_resources''
         else if action \<noteq> PStr ''graceful_stop'' then Inl ''only_graceful_stop_is_supported''
         else Inr \<lparr>sp_enabled = (enabled = PBool True), sp_window_seconds = window,
                   sp_required_samples = the (as_int required), sp_min_host_contribution_percent = minimum,
                   sp_resource_priority = names, sp_action = ''graceful_stop'',
                   sp_protected_set = protected_set, sp_actionable_set = actionable_set\<rparr>)"

definition entry_tuple :: "pydict \<Rightarrow> string \<Rightarrow> string + pyval list" where
  "entry_tuple raw key =
     (case dget_default raw key (PList []) of
        PList entries \<Rightarrow>
          if list_all is_dict entries then Inr entries else Inl (key @ ''_entries_must_be_mappings'')
      | _ \<Rightarrow> Inl (key @ ''_must_be_list''))"

definition policy_from_mapping :: "pyval \<Rightarrow> string + shedding_policy" where
  "policy_from_mapping value =
     (let raw = mapping_of value; enabled = dget_default raw ''enabled'' (PBool False);
          priority = dget_default raw ''resource_priority'' (PList (map PStr SUPPORTED_RESOURCES))
      in if raw = [] then Inr default_policy
         else if has_key raw ''schema'' \<and> dget raw ''schema'' \<noteq> PStr EMERGENCY_SHEDDING_SCHEMA
           then Inl ''schema_unsupported''
         else if as_bool enabled = None then Inl ''enabled_must_be_boolean''
         else if \<not> is_list priority then Inl ''resource_priority_must_be_list''
         else case entry_tuple raw ''protected_set'' of
             Inl e \<Rightarrow> Inl e
           | Inr protected \<Rightarrow>
               (case entry_tuple raw ''actionable_set'' of
                  Inl e \<Rightarrow> Inl e
                | Inr actionable \<Rightarrow>
                    make_policy enabled (dget_default raw ''window_seconds'' (PFloat (Fin 15)))
                      (dget_default raw ''required_samples'' (PInt 2))
                      (dget_default raw ''min_host_contribution_percent'' (PFloat (Fin 20)))
                      (list_value priority) (dget_default raw ''action'' (PStr ''graceful_stop''))
                      protected actionable))"

definition policy_payload :: "shedding_policy \<Rightarrow> pyval" where
  "policy_payload policy =
     PDict [(''schema'', PStr EMERGENCY_SHEDDING_SCHEMA), (''enabled'', PBool (sp_enabled policy)),
            (''window_seconds'', sp_window_seconds policy), (''required_samples'', PInt (sp_required_samples policy)),
            (''min_host_contribution_percent'', sp_min_host_contribution_percent policy),
            (''resource_priority'', PList (map PStr (sp_resource_priority policy))),
            (''action'', PStr (sp_action policy)), (''protected_set'', PList (sp_protected_set policy)),
            (''actionable_set'', PList (sp_actionable_set policy))]"

section \<open>Risk, identity and contribution of a candidate\<close>

definition shedding_risk_mapping :: "pyval \<Rightarrow> pydict" where
  "shedding_risk_mapping value =
     (let d = mapping_of value in case dget d ''risk'' of PDict nested \<Rightarrow> nested | _ \<Rightarrow> d)"

definition shedding_risk_state :: "(pyval \<Rightarrow> string) \<Rightarrow> pydict \<Rightarrow> string" where
  "shedding_risk_state rep value = py_upper (py_str rep (py_or (dget value ''state'') (PStr ''NORMAL'')))"

definition is_confirmed :: "(pyval \<Rightarrow> string) \<Rightarrow> pydict \<Rightarrow> bool" where
  "is_confirmed rep value \<longleftrightarrow>
     shedding_risk_state rep value = ''CRITICAL_CONFIRMED'' \<or>
     shedding_risk_state rep value = ''CRITICAL'' \<and> dget value ''danger_confirmed'' = PBool True"

definition explicit_complete :: "pydict \<Rightarrow> bool option" where
  "explicit_complete value =
     first_some (map (\<lambda>k. if has_key value k then Some (dget value k = PBool True) else None)
                   [''sample_complete'', ''samples_complete'', ''sample_window_complete''])"

definition sample_complete :: "pydict \<Rightarrow> shedding_policy \<Rightarrow> bool" where
  "sample_complete value policy \<longleftrightarrow>
     explicit_complete value \<noteq> Some False \<and>
     (case as_int (dget value ''sample_count'') of
        None \<Rightarrow> False
      | Some count \<Rightarrow>
          (case as_int (dget_default value ''required_samples'' (PInt (sp_required_samples policy))) of
             None \<Rightarrow> False
           | Some required \<Rightarrow> 1 \<le> required \<and> required \<le> 60 \<and> required \<le> count)) \<and>
     dget_default value ''quality_status'' (PStr ''ok'') = PStr ''ok'' \<and>
     dget_default value ''quality_flags'' (PList []) = PList []"

record target_identity =
  ti_stable_id :: "string option"
  ti_created_at :: "string option"
  ti_cgroup_path :: "string option"
  ti_cgroup_inode :: "int option"

definition identity_fields :: "pydict \<Rightarrow> target_identity" where
  "identity_fields value =
     \<lparr>ti_stable_id = entry_id value, ti_created_at = as_nonempty_str (dget value ''created_at''),
      ti_cgroup_path = as_nonempty_str (dget value ''cgroup_path''),
      ti_cgroup_inode =
        (case as_int (dget value ''cgroup_inode'') of Some n \<Rightarrow> if 0 < n then Some n else None | None \<Rightarrow> None)\<rparr>"

definition identity_reason :: "pydict \<Rightarrow> (string \<times> pydict) list \<Rightarrow> string option" where
  "identity_reason candidate registry =
     (let c = identity_fields candidate
      in if dget candidate ''identity_changed'' = PBool True \<or> dget candidate ''registry_identity_changed'' = PBool True
         then Some ''TARGET_IDENTITY_CHANGED''
         else if \<not> opt_holds full_container_id (ti_stable_id c) then Some ''DATA_INCOMPLETE''
         else if ti_created_at c = None \<or> ti_cgroup_path c = None \<or> ti_cgroup_inode c = None
           then Some ''DATA_INCOMPLETE''
         else case map_of registry (the (ti_stable_id c)) of
             None \<Rightarrow> Some ''TARGET_IDENTITY_CHANGED''
           | Some observed \<Rightarrow>
               if identity_fields observed \<noteq> c then Some ''TARGET_IDENTITY_CHANGED'' else None)"

definition contribution_keys :: "string \<Rightarrow> string list" where
  "contribution_keys resource =
     (case map_of
        [(''memory'', [''memory_contribution_percent'', ''host_contribution_percent'', ''memory_growth_share_percent'']),
         (''cpu'', [''cpu_contribution_percent'', ''host_contribution_percent'']),
         (''io'', [''io_contribution_percent'', ''host_contribution_percent'']),
         (''disk_capacity'', [''capacity_contribution_percent'', ''capacity_writer_contribution_percent'',
           ''host_contribution_percent''])] resource of None \<Rightarrow> [] | Some ks \<Rightarrow> ks)"

definition contribution :: "pydict \<Rightarrow> string \<Rightarrow> rat option" where
  "contribution candidate resource =
     (let values = (case dget candidate ''resource_contributions'' of
                      PDict d \<Rightarrow> d | _ \<Rightarrow> mapping_of (dget candidate ''contributions''))
      in first_some (finite_number (dget values resource) #
                     map (\<lambda>k. finite_number (dget candidate k)) (contribution_keys resource)))"

section \<open>Protected and actionable entries\<close>

datatype iso_time = NotIso | Naive | Epoch rat

definition offset_text :: "string \<Rightarrow> string" where
  "offset_text s = (if s \<noteq> [] \<and> last s = CHR ''Z'' then butlast s @ ''+00:00'' else s)"

definition actionable_expiry_reason :: "(string \<Rightarrow> iso_time) \<Rightarrow> pydict \<Rightarrow> rat \<Rightarrow> string option" where
  "actionable_expiry_reason iso_at entry now =
     (case as_nonempty_str (dget entry ''expires_at'') of
        None \<Rightarrow> Some ''DATA_INCOMPLETE''
      | Some s \<Rightarrow>
          (case iso_at (offset_text s) of
             Epoch t \<Rightarrow> if t \<le> now then Some ''ACTIONABLE_ENTRY_EXPIRED'' else None
           | _ \<Rightarrow> Some ''DATA_INCOMPLETE''))"

definition actionable_fields_ok :: "(string \<Rightarrow> iso_time) \<Rightarrow> rat \<Rightarrow> pydict \<Rightarrow> bool" where
  "actionable_fields_ok iso_at now entry \<longleftrightarrow>
     dget entry ''environment'' = PStr ''local-disposable'' \<and> dget entry ''action'' = PStr ''graceful_stop'' \<and>
     list_value (dget entry ''allowed_resources'') \<noteq> [] \<and>
     list_all (\<lambda>v. resource_kind v \<noteq> None) (list_value (dget entry ''allowed_resources'')) \<and>
     actionable_expiry_reason iso_at entry now \<noteq> Some ''DATA_INCOMPLETE''"

text \<open>One round of the validation loop: the map so far and the malformed indexes.\<close>

definition entry_ok ::
  "(string \<Rightarrow> iso_time) \<Rightarrow> rat \<Rightarrow> bool \<Rightarrow> (string \<times> pydict) list \<Rightarrow> pyval \<Rightarrow> (string \<times> pydict) option" where
  "entry_ok iso_at now actionable result v =
     (case v of
        PDict entry \<Rightarrow>
          (case entry_id entry of
             None \<Rightarrow> None
           | Some i \<Rightarrow>
               if full_container_id i \<and> i \<notin> set (map fst result) \<and> (actionable \<longrightarrow> actionable_fields_ok iso_at now entry)
               then Some (i, entry) else None)
      | _ \<Rightarrow> None)"

fun validate_entries ::
  "(string \<Rightarrow> iso_time) \<Rightarrow> rat \<Rightarrow> bool \<Rightarrow> int \<Rightarrow> pyval list \<Rightarrow>
   (string \<times> pydict) list \<times> int list \<Rightarrow> (string \<times> pydict) list \<times> int list" where
  "validate_entries iso_at now actionable i [] acc = acc"
| "validate_entries iso_at now actionable i (v # vs) (result, bad) =
     validate_entries iso_at now actionable (i + 1) vs
       (case entry_ok iso_at now actionable result v of
          None \<Rightarrow> (result, bad @ [i])
        | Some e \<Rightarrow> (result @ [e], bad))"

definition validated_entry_map ::
  "(string \<Rightarrow> iso_time) \<Rightarrow> rat \<Rightarrow> bool \<Rightarrow> pyval \<Rightarrow> (string \<times> pydict) list \<times> int list" where
  "validated_entry_map iso_at now actionable entries =
     (case materialize_iterable entries of
        (raw, malformed) \<Rightarrow> if malformed then ([], [- 1]) else validate_entries iso_at now actionable 0 raw ([], []))"

section \<open>The decision\<close>

record shedding_plan =
  pl_plan_id :: string
  pl_resource_kind :: string
  pl_target_id :: string
  pl_created_at :: string
  pl_cgroup_path :: string
  pl_cgroup_inode :: int
  pl_labels :: "(string \<times> string) list"
  pl_event_id :: string
  pl_sample_id :: string
  pl_policy_digest :: string
  pl_config_digest :: string
  pl_expires_at :: string

text \<open>The fields with a fixed value in every plan are part of the dictionary form.\<close>

definition plan_as_dict :: "shedding_plan \<Rightarrow> pydict" where
  "plan_as_dict p =
     [(''schema'', PStr EMERGENCY_SHEDDING_SCHEMA), (''plan_id'', PStr (pl_plan_id p)),
      (''resource_kind'', PStr (pl_resource_kind p)), (''target_id'', PStr (pl_target_id p)),
      (''target'', PDict [(''kind'', PStr ''container''), (''id'', PStr (pl_target_id p)),
         (''created_at'', PStr (pl_created_at p)), (''cgroup_path'', PStr (pl_cgroup_path p)),
         (''cgroup_inode'', PInt (pl_cgroup_inode p)),
         (''labels'', PDict (map (\<lambda>(k, v). (k, PStr v)) (pl_labels p)))]),
      (''action'', PStr ''graceful_stop''), (''execution'', PStr ''not_executed''), (''max_actions'', PInt 1),
      (''root_cause_claimed'', PBool False), (''event_id'', PStr (pl_event_id p)), (''sample_id'', PStr (pl_sample_id p)),
      (''policy_digest'', PStr (pl_policy_digest p)), (''config_digest'', PStr (pl_config_digest p)),
      (''expires_at'', PStr (pl_expires_at p))]"

definition plan_id :: "(pyval \<Rightarrow> string) \<Rightarrow> string option \<Rightarrow> string \<Rightarrow> string \<Rightarrow> string option \<Rightarrow> string" where
  "plan_id plan_sha event_id resource target_id config_digest =
     ''es-v1-'' @ take 24 (plan_sha
       (PDict [(''event_id'', PStr (case event_id of None \<Rightarrow> [] | Some e \<Rightarrow> e)), (''resource_kind'', PStr resource),
               (''target_id'', PStr target_id), (''config_digest'', PStr (case config_digest of None \<Rightarrow> [] | Some c \<Rightarrow> c)),
               (''schema'', PStr EMERGENCY_SHEDDING_SCHEMA)]))"

record shedding_row =
  row_id :: string
  row_name :: pyval
  row_contribution :: "rat option"
  row_protected :: bool
  row_actionable :: bool
  row_identity_reason :: "string option"
  row_writer_evidence :: bool

text \<open>A decision; \<open>sd_extra\<close> holds the diagnostic keys some refusals add.\<close>

record shedding_decision =
  sd_mode :: string
  sd_action :: string
  sd_execution :: string
  sd_resource_kind :: "string option"
  sd_target_id :: "string option"
  sd_reason_codes :: "string list"
  sd_plan :: "shedding_plan option"
  sd_plans_count :: nat
  sd_extra :: pydict

record shedding_result =
  sr_decision :: shedding_decision
  sr_active_resources :: "string list"
  sr_rankings :: "(string \<times> shedding_row list) list"

definition empty_decision :: "string \<Rightarrow> string \<Rightarrow> string list \<Rightarrow> string option \<Rightarrow> pydict \<Rightarrow> shedding_decision" where
  "empty_decision mode execution reasons resource extra =
     \<lparr>sd_mode = mode, sd_action = ''none'', sd_execution = execution, sd_resource_kind = resource, sd_target_id = None,
      sd_reason_codes = sorted_set (filter (\<lambda>r. r \<noteq> []) reasons), sd_plan = None, sd_plans_count = 0,
      sd_extra = extra\<rparr>"

text \<open>A refusal without rankings.\<close>

definition refuse_early ::
  "string \<Rightarrow> string \<Rightarrow> string list \<Rightarrow> string option \<Rightarrow> pydict \<Rightarrow> string list \<Rightarrow> shedding_result" where
  "refuse_early mode execution reasons resource extra active =
     \<lparr>sr_decision = empty_decision mode execution reasons resource extra, sr_active_resources = active,
      sr_rankings = []\<rparr>"

definition normalized_risks :: "pyval \<Rightarrow> (string \<times> pydict) list" where
  "normalized_risks host_risks =
     fold (\<lambda>(raw_kind, value) d.
             case resource_kind (PStr raw_kind) of None \<Rightarrow> d | Some kind \<Rightarrow> dset d kind (shedding_risk_mapping value))
       (mapping_of host_risks) []"

definition risk_of :: "(string \<times> pydict) list \<Rightarrow> string \<Rightarrow> pydict" where
  "risk_of risks resource = (case map_of risks resource of None \<Rightarrow> [] | Some r \<Rightarrow> r)"

definition active_of :: "(pyval \<Rightarrow> string) \<Rightarrow> shedding_policy \<Rightarrow> (string \<times> pydict) list \<Rightarrow> string list" where
  "active_of rep policy risks =
     filter (\<lambda>resource. is_confirmed rep (risk_of risks resource)) (sp_resource_priority policy)"

definition incomplete_of :: "(pyval \<Rightarrow> string) \<Rightarrow> shedding_policy \<Rightarrow> (string \<times> pydict) list \<Rightarrow> string list" where
  "incomplete_of rep policy risks =
     filter (\<lambda>resource. shedding_risk_state rep (risk_of risks resource) \<in> {''CRITICAL'', ''CRITICAL_CONFIRMED''} \<and>
                        \<not> sample_complete (risk_of risks resource) policy) (sp_resource_priority policy)"

definition record_ok :: "pyval \<Rightarrow> bool" where
  "record_ok v = (case v of PDict d \<Rightarrow> dget d ''kind'' = PStr ''container'' \<and> entry_id d \<noteq> None | _ \<Rightarrow> False)"

definition malformed_indexes :: "pyval list \<Rightarrow> int list" where
  "malformed_indexes vs = map (\<lambda>(i, _). int i) (filter (\<lambda>(_, v). \<not> record_ok v) (enumerate 0 vs))"

definition duplicate_ids :: "string list \<Rightarrow> string list" where
  "duplicate_ids ids = sorted_set (filter (\<lambda>i. 1 < count_list ids i) ids)"

text \<open>The registry loop: a repeated identifier is noted and replaces the earlier record.\<close>

fun register :: "pydict list \<Rightarrow> (string \<times> pydict) list \<times> string list \<Rightarrow> (string \<times> pydict) list \<times> string list" where
  "register [] acc = acc"
| "register (item # items) (m, dups) =
     (case entry_id item of
        None \<Rightarrow> register items (m, dups)
      | Some i \<Rightarrow> register items (dset m i item, if i \<in> set (map fst m) then dups @ [i] else dups))"

definition is_running :: "(pyval \<Rightarrow> string) \<Rightarrow> pydict \<Rightarrow> bool" where
  "is_running rep candidate \<longleftrightarrow>
     dget candidate ''running'' = PBool True \<or>
     py_lower (py_str rep (py_or (dget candidate ''status'') (PStr ''unknown''))) \<in> {''running'', ''restarting''}"

definition candidate_row ::
  "(string \<times> pydict) list \<Rightarrow> (string \<times> pydict) list \<Rightarrow> (string \<times> pydict) list \<Rightarrow> string \<Rightarrow> pydict \<Rightarrow> string \<Rightarrow> shedding_row" where
  "candidate_row registry protected actionable resource candidate i =
     \<lparr>row_id = i, row_name = dget candidate ''name'',
      row_contribution =
        (case contribution candidate resource of
           Some c \<Rightarrow> Some c
         | None \<Rightarrow> finite_number (dget (mapping_of (dget candidate ''resource_contributions'')) resource)),
      row_protected = i \<in> set (map fst protected), row_actionable = i \<in> set (map fst actionable),
      row_identity_reason = identity_reason candidate registry,
      row_writer_evidence =
        (resource \<noteq> ''disk_capacity'' \<or> dget candidate ''writer_evidence'' = PBool True \<or>
         dget candidate ''capacity_writer'' = PBool True)\<rparr>"

definition candidate_rows ::
  "(pyval \<Rightarrow> string) \<Rightarrow> (string \<times> pydict) list \<Rightarrow> (string \<times> pydict) list \<Rightarrow> (string \<times> pydict) list \<Rightarrow>
   pydict list \<Rightarrow> string \<Rightarrow> shedding_row list" where
  "candidate_rows rep registry protected actionable candidates resource =
     List.map_filter (\<lambda>candidate.
       case entry_id candidate of
         None \<Rightarrow> None
       | Some i \<Rightarrow>
           if dget_default candidate ''kind'' (PStr ''container'') = PStr ''container'' \<and> is_running rep candidate
           then Some (candidate_row registry protected actionable resource candidate i) else None) candidates"

definition rank_rows :: "shedding_row list \<Rightarrow> shedding_row list" where
  "rank_rows rows = sort_key (\<lambda>row. (- (case row_contribution row of None \<Rightarrow> 0 | Some c \<Rightarrow> c), row_id row)) rows"

text \<open>
  The ranking loop over the active resources: \<open>Inl\<close> carries the resource whose samples are
  incomplete and the rankings shown with the refusal.
\<close>

fun rank_resources ::
  "(string \<Rightarrow> shedding_row list) \<Rightarrow> string list \<Rightarrow> (string \<times> shedding_row list) list \<Rightarrow>
   (string \<times> (string \<times> shedding_row list) list) + (string \<times> shedding_row list) list" where
  "rank_resources rows_of [] rankings = Inr rankings"
| "rank_resources rows_of (resource # resources) rankings =
     (let rows = rows_of resource
      in if list_ex (\<lambda>row. row_contribution row = None) rows \<or> rows = []
         then Inl (resource, dset rankings resource (sort_key row_id rows))
         else rank_resources rows_of resources (dset rankings resource (rank_rows rows)))"

text \<open>
  The checks on the rankings, in order: the refusal's reasons, resource and diagnostic keys, or the
  first active resource and its top row.
\<close>

definition select_top ::
  "string list \<Rightarrow> (string \<times> shedding_row list) list \<Rightarrow> rat \<Rightarrow>
   (string list \<times> string \<times> pydict) + (string \<times> shedding_row)" where
  "select_top active rankings minimum =
     (let tops = map (\<lambda>(resource, rows). (resource, hd rows)) (filter (\<lambda>(_, rows). rows \<noteq> []) rankings);
          disk = map_of tops ''disk_capacity'';
          resource = hd active;
          ranking = (case map_of rankings resource of None \<Rightarrow> [] | Some rows \<Rightarrow> rows);
          failures = filter (\<lambda>row. row_identity_reason row \<noteq> None) ranking;
          top = hd ranking;
          none = ''NO_EFFECTIVE_SHEDDING_TARGET'';
          consumer = [(''top_consumer'', PStr (row_id top))]
      in if 1 < length active \<and> 1 < card (row_id ` snd ` set tops)
         then Inl ([''MULTI_RESOURCE_AMBIGUOUS'', none], ''multi_resource'',
                   [(''top_consumers'', PDict (map (\<lambda>(r, row). (r, PStr (row_id row))) tops))])
         else if opt_holds (\<lambda>row. \<not> row_writer_evidence row) disk
         then Inl ([''CAPACITY_WRITER_EVIDENCE_MISSING'', none], ''disk_capacity'',
                   [(''top_consumer'', PStr (row_id (the disk)))])
         else if failures \<noteq> []
         then Inl ([if list_ex (\<lambda>row. row_identity_reason row = Some ''TARGET_IDENTITY_CHANGED'') failures
                    then ''TARGET_IDENTITY_CHANGED'' else ''DATA_INCOMPLETE'', none], resource,
                   [(''identity_failures'', PList (map (\<lambda>row. PStr (row_id row)) failures))])
         else if 1 < length ranking \<and> row_contribution top = row_contribution (ranking ! 1)
         then Inl ([''AMBIGUOUS_TOP_CONSUMER'', none], resource, [])
         else if row_protected top then Inl ([''PROTECTED_TOP_CONSUMER'', none], resource, consumer)
         else if \<not> row_actionable top then Inl ([''UNKNOWN_TOP_CONSUMER'', none], resource, consumer)
         else if row_identity_reason top \<noteq> None
         then Inl ([the (row_identity_reason top), none], resource, consumer)
         else if resource = ''disk_capacity'' \<and> \<not> row_writer_evidence top
         then Inl ([''CAPACITY_WRITER_EVIDENCE_MISSING'', none], resource, [])
         else if opt_holds (\<lambda>c. c < minimum) (row_contribution top)
         then Inl ([''CONTRIBUTION_BELOW_MINIMUM'', none], resource, consumer)
         else Inr (resource, top))"

text \<open>The checks on the actionable entry of the top row: reasons and diagnostic keys of a refusal.\<close>

definition entry_refusal ::
  "(string \<Rightarrow> iso_time) \<Rightarrow> rat \<Rightarrow> string list \<Rightarrow> pydict \<Rightarrow> string \<Rightarrow> string \<Rightarrow> (string list \<times> pydict) option" where
  "entry_refusal iso_at now allowed entry resource target =
     (case actionable_expiry_reason iso_at entry now of
        Some reason \<Rightarrow> Some ([reason, ''NO_EFFECTIVE_SHEDDING_TARGET''], [(''top_consumer'', PStr target)])
      | None \<Rightarrow>
          if Some resource \<notin> set (map resource_kind (list_value (dget entry ''allowed_resources'')))
          then Some ([''RESOURCE_NOT_ALLOWED'', ''NO_EFFECTIVE_SHEDDING_TARGET''], [])
          else if dget_default entry ''action'' (PStr ''graceful_stop'') \<noteq> PStr ''graceful_stop'' \<or>
                  ''graceful_stop'' \<notin> set allowed
          then Some ([''ACTION_NOT_ALLOWLISTED'', ''NO_EFFECTIVE_SHEDDING_TARGET''], [])
          else None)"

text \<open>The inputs of one decision; the sets and lists are unvalidated values.\<close>

record shedding_input =
  si_host_risks :: pyval
  si_candidates :: pyval
  si_registry :: pyval
  si_protected_set :: pyval
  si_actionable_set :: pyval
  si_mode :: pyval
  si_policy :: "shedding_policy option"
  si_allowed_actions :: pyval
  si_event_id :: "string option"
  si_sample_id :: "string option"
  si_config_digest :: "string option"
  si_now :: "pyval option"

definition opt_text :: "string option \<Rightarrow> string" where
  "opt_text s = (case s of None \<Rightarrow> [] | Some t \<Rightarrow> t)"

definition make_plan ::
  "(pyval \<Rightarrow> string) \<Rightarrow> (pyval \<Rightarrow> string) \<Rightarrow> (pyval \<Rightarrow> string) \<Rightarrow> shedding_input \<Rightarrow> shedding_policy \<Rightarrow> pydict list \<Rightarrow>
   pydict \<Rightarrow> string \<Rightarrow> string \<Rightarrow> shedding_plan" where
  "make_plan rep policy_sha plan_sha inp policy candidates entry resource target =
     (let candidate = (case find (\<lambda>item. entry_id item = Some target) candidates of None \<Rightarrow> [] | Some c \<Rightarrow> c);
          f = identity_fields candidate
      in \<lparr>pl_plan_id = plan_id plan_sha (si_event_id inp) resource target (si_config_digest inp),
          pl_resource_kind = resource, pl_target_id = target, pl_created_at = opt_text (ti_created_at f),
          pl_cgroup_path = opt_text (ti_cgroup_path f),
          pl_cgroup_inode = (case ti_cgroup_inode f of None \<Rightarrow> 0 | Some n \<Rightarrow> n),
          pl_labels = labels (dget candidate ''labels''), pl_event_id = opt_text (si_event_id inp),
          pl_sample_id = opt_text (si_sample_id inp), pl_policy_digest = policy_sha (policy_payload policy),
          pl_config_digest = opt_text (si_config_digest inp),
          pl_expires_at = py_str rep (py_or (dget entry ''expires_at'') (PStr []))\<rparr>)"

text \<open>
  The input checks up to the ranking, in order: the reasons and diagnostic keys of a refusal, or the
  candidates with the validated registry, protected and actionable maps and the allowed actions.
\<close>

type_synonym shedding_inputs =
  "pydict list \<times> (string \<times> pydict) list \<times> (string \<times> pydict) list \<times> (string \<times> pydict) list \<times> string list"

definition check_inputs ::
  "(string \<Rightarrow> iso_time) \<Rightarrow> rat \<Rightarrow> shedding_input \<Rightarrow> (string list \<times> pydict) + shedding_inputs" where
  "check_inputs iso_at now inp =
     (let (candidate_values, candidates_invalid) = materialize_iterable (si_candidates inp);
          candidates = map mapping_of (filter is_dict candidate_values);
          ids = List.map_filter entry_id
            (filter (\<lambda>c. dget_default c ''kind'' (PStr ''container'') = PStr ''container'') candidates);
          (raw_registry, registry_invalid) = materialize_iterable (si_registry inp);
          (registry, repeated) = register (map mapping_of (filter is_dict raw_registry)) ([], []);
          (protected, bad_protected) = validated_entry_map iso_at now False (si_protected_set inp);
          (actionable, bad_actionable) = validated_entry_map iso_at now True (si_actionable_set inp);
          (allowed, allowed_invalid) = materialize_iterable (si_allowed_actions inp);
          incomplete = [''DATA_INCOMPLETE'', ''NO_EFFECTIVE_SHEDDING_TARGET''];
          indexes = (\<lambda>is. PList (map PInt is)); names = (\<lambda>ns. PList (map PStr ns))
      in if candidates_invalid then Inl (incomplete, [(''malformed_candidate_input'', PBool True)])
         else if malformed_indexes candidate_values \<noteq> []
           then Inl (incomplete, [(''malformed_candidate_indexes'', indexes (malformed_indexes candidate_values))])
         else if duplicate_ids ids \<noteq> [] then Inl (incomplete, [(''duplicate_candidate_ids'', names (duplicate_ids ids))])
         else if registry_invalid then Inl (incomplete, [(''malformed_registry_input'', PBool True)])
         else if malformed_indexes raw_registry \<noteq> []
           then Inl (incomplete, [(''malformed_registry_indexes'', indexes (malformed_indexes raw_registry))])
         else if registry = [] then Inl ([''INCOMPLETE_SAMPLES'', ''NO_EFFECTIVE_SHEDDING_TARGET''], [])
         else if repeated \<noteq> [] then Inl (incomplete, [(''duplicate_registry_ids'', names (sorted_set repeated))])
         else if bad_protected \<noteq> [] \<or> bad_actionable \<noteq> []
           then Inl (incomplete,
             (if bad_protected \<noteq> [] then [(''malformed_protected_set_indexes'', indexes bad_protected)] else []) @
             (if bad_actionable \<noteq> [] then [(''malformed_actionable_set_indexes'', indexes bad_actionable)] else []))
         else if allowed_invalid \<or> \<not> list_all is_str allowed
           then Inl ([''DATA_INCOMPLETE'', ''ACTION_NOT_ALLOWLISTED''], [])
         else Inr (candidates, registry, protected, actionable, map text_of allowed))"

text \<open>From the ranking to the plan.\<close>

definition decide ::
  "(pyval \<Rightarrow> string) \<Rightarrow> (string \<Rightarrow> iso_time) \<Rightarrow> (pyval \<Rightarrow> string) \<Rightarrow> (pyval \<Rightarrow> string) \<Rightarrow> rat \<Rightarrow> shedding_input \<Rightarrow>
   shedding_policy \<Rightarrow> string \<Rightarrow> string \<Rightarrow> string list \<Rightarrow> shedding_inputs \<Rightarrow> shedding_result" where
  "decide rep iso_at policy_sha plan_sha now inp policy mode execution active =
     (\<lambda>(candidates, registry, protected, actionable, allowed).
        case rank_resources (candidate_rows rep registry protected actionable candidates) active [] of
          Inl (resource, rankings) \<Rightarrow>
            \<lparr>sr_decision = empty_decision mode execution [''INCOMPLETE_SAMPLES'', ''NO_EFFECTIVE_SHEDDING_TARGET'']
                            (Some resource) [], sr_active_resources = active, sr_rankings = rankings\<rparr>
        | Inr rankings \<Rightarrow>
            \<lparr>sr_decision =
               (case select_top active rankings (the (finite_number (sp_min_host_contribution_percent policy))) of
                  Inl (reasons, resource, extra) \<Rightarrow> empty_decision mode execution reasons (Some resource) extra
                | Inr (resource, row) \<Rightarrow>
                    let target = row_id row; consumer = [(''top_consumer'', PStr target)];
                        entry = (case map_of actionable target of None \<Rightarrow> [] | Some e \<Rightarrow> e)
                    in if mode = ''observe''
                       then empty_decision mode ''not_applicable'' [''OBSERVE_ONLY''] (Some resource) consumer
                       else case entry_refusal iso_at now allowed entry resource target of
                           Some (reasons, extra) \<Rightarrow> empty_decision mode execution reasons (Some resource) extra
                         | None \<Rightarrow>
                             \<lparr>sd_mode = mode, sd_action = ''graceful_stop'', sd_execution = ''not_executed'',
                              sd_resource_kind = Some resource, sd_target_id = Some target,
                              sd_reason_codes = [''PLAN_GENERATED'', ''TOP_ACTIONABLE_CONSUMER''],
                              sd_plan = Some (make_plan rep policy_sha plan_sha inp policy candidates entry resource target),
                              sd_plans_count = 1, sd_extra = consumer\<rparr>),
             sr_active_resources = active, sr_rankings = rankings\<rparr>)"

definition selected_policy :: "shedding_input \<Rightarrow> shedding_policy" where
  "selected_policy inp = (case si_policy inp of None \<Rightarrow> default_policy | Some p \<Rightarrow> p)"

definition current_epoch :: "rat \<Rightarrow> shedding_input \<Rightarrow> rat option" where
  "current_epoch clock inp = (case si_now inp of None \<Rightarrow> Some clock | Some v \<Rightarrow> finite_number v)"

definition build_emergency_shedding_decision ::
  "(pyval \<Rightarrow> string) \<Rightarrow> (string \<Rightarrow> iso_time) \<Rightarrow> (pyval \<Rightarrow> string) \<Rightarrow> (pyval \<Rightarrow> string) \<Rightarrow> rat \<Rightarrow> shedding_input \<Rightarrow>
   shedding_result" where
  "build_emergency_shedding_decision rep iso_at policy_sha plan_sha clock inp =
     (let policy = selected_policy inp;
          mode = (case si_mode inp of PStr m \<Rightarrow> m | _ \<Rightarrow> ''invalid'');
          execution = (if mode = ''observe'' then ''not_applicable'' else ''not_executed'');
          risks = normalized_risks (si_host_risks inp);
          active = active_of rep policy risks; incomplete = incomplete_of rep policy risks
      in if \<not> sp_enabled policy then refuse_early mode execution [''EMERGENCY_SHEDDING_DISABLED''] None [] []
         else if \<not> str_in (si_mode inp) [''observe'', ''simulate'', ''enforce'']
           then refuse_early mode ''not_executed'' [''EMERGENCY_SHEDDING_SIMULATE_ONLY''] None [] []
         else case current_epoch clock inp of
             None \<Rightarrow> refuse_early mode execution [''DATA_INCOMPLETE'', ''NO_EFFECTIVE_SHEDDING_TARGET''] None [] []
           | Some now \<Rightarrow>
               if incomplete \<noteq> [] then refuse_early mode execution [''INCOMPLETE_SAMPLES''] (Some (hd incomplete)) [] active
               else if active = [] then refuse_early mode execution [''HOST_RISK_NOT_CONFIRMED''] None [] []
               else case check_inputs iso_at now inp of
                   Inl (reasons, extra) \<Rightarrow> refuse_early mode execution reasons None extra active
                 | Inr inputs \<Rightarrow> decide rep iso_at policy_sha plan_sha now inp policy mode execution active inputs)"

section \<open>Lemmas\<close>

lemma first_some_Cons: "first_some (x # xs) = (case x of None \<Rightarrow> first_some xs | Some _ \<Rightarrow> x)"
  by (cases x) simp_all

text \<open>The second lookup of a contribution never finds what the first missed.\<close>

lemma row_contribution_eq [simp]:
  "row_contribution (candidate_row registry protected actionable resource candidate i) = contribution candidate resource"
  by (cases "dget candidate ''resource_contributions''")
    (auto simp: candidate_row_def contribution_def Let_def first_some_Cons split: option.splits)

lemma candidate_row_simps [simp]:
  "row_id (candidate_row registry protected actionable resource candidate i) = i"
  "row_protected (candidate_row registry protected actionable resource candidate i) \<longleftrightarrow> i \<in> fst ` set protected"
  "row_actionable (candidate_row registry protected actionable resource candidate i) \<longleftrightarrow> i \<in> fst ` set actionable"
  "row_identity_reason (candidate_row registry protected actionable resource candidate i) = identity_reason candidate registry"
  by (simp_all add: candidate_row_def)

lemma in_map_filter: "y \<in> set (List.map_filter f xs) \<longleftrightarrow> (\<exists>x \<in> set xs. f x = Some y)"
  by (induction xs) (auto simp: map_filter_simps split: option.splits)

lemma in_candidate_rows:
  "row \<in> set (candidate_rows rep registry protected actionable candidates resource) \<longleftrightarrow>
     (\<exists>c i. c \<in> set candidates \<and> entry_id c = Some i \<and>
        dget_default c ''kind'' (PStr ''container'') = PStr ''container'' \<and> is_running rep c \<and>
        row = candidate_row registry protected actionable resource c i)"
  by (auto simp: candidate_rows_def in_map_filter split: option.splits if_splits)

text \<open>What the entry map holds when no entry was malformed.\<close>

definition entry_for :: "(string \<Rightarrow> iso_time) \<Rightarrow> rat \<Rightarrow> bool \<Rightarrow> pyval list \<Rightarrow> string \<times> pydict \<Rightarrow> bool" where
  "entry_for iso_at now actionable vs ie \<longleftrightarrow>
     PDict (snd ie) \<in> set vs \<and> entry_id (snd ie) = Some (fst ie) \<and>
     (actionable \<longrightarrow> actionable_fields_ok iso_at now (snd ie))"

lemma entry_ok_Some:
  "entry_ok iso_at now actionable result v = Some ie \<Longrightarrow>
     v = PDict (snd ie) \<and> entry_id (snd ie) = Some (fst ie) \<and> (actionable \<longrightarrow> actionable_fields_ok iso_at now (snd ie))"
  by (auto simp: entry_ok_def split: pyval.splits option.splits if_splits)

lemma validate_entries_sound:
  "ie \<in> set (fst (validate_entries iso_at now actionable i vs acc)) \<Longrightarrow>
     ie \<in> set (fst acc) \<or> entry_for iso_at now actionable vs ie"
proof (induction iso_at now actionable i vs acc rule: validate_entries.induct)
  case (2 iso_at now actionable i v vs result bad)
  show ?case
  proof (cases "entry_ok iso_at now actionable result v")
    case None
    with 2 show ?thesis by (auto simp: entry_for_def)
  next
    case (Some e)
    with entry_ok_Some [OF Some] 2 show ?thesis by (auto simp: entry_for_def)
  qed
qed simp

lemma validate_entries_complete:
  "snd (validate_entries iso_at now actionable i vs acc) = [] \<Longrightarrow>
     snd acc = [] \<and> set (fst acc) \<subseteq> set (fst (validate_entries iso_at now actionable i vs acc)) \<and>
     (\<forall>v \<in> set vs. \<exists>ie \<in> set (fst (validate_entries iso_at now actionable i vs acc)).
        v = PDict (snd ie) \<and> entry_id (snd ie) = Some (fst ie))"
proof (induction iso_at now actionable i vs acc rule: validate_entries.induct)
  case (2 iso_at now actionable i v vs result bad)
  show ?case
  proof (cases "entry_ok iso_at now actionable result v")
    case None
    with 2 show ?thesis by simp
  next
    case (Some e)
    with 2 have ih: "bad = []" "set (result @ [e]) \<subseteq> set (fst (validate_entries iso_at now actionable i (v # vs) (result, bad)))"
      "\<forall>w \<in> set vs. \<exists>ie \<in> set (fst (validate_entries iso_at now actionable i (v # vs) (result, bad))).
        w = PDict (snd ie) \<and> entry_id (snd ie) = Some (fst ie)"
      by auto
    with entry_ok_Some [OF Some] show ?thesis by auto
  qed
qed simp

lemma validated_entry_map_sound:
  "validated_entry_map iso_at now actionable entries = (m, bad) \<Longrightarrow> ie \<in> set m \<Longrightarrow>
     entry_for iso_at now actionable (list_value entries) ie"
  using validate_entries_sound [of ie iso_at now actionable 0 "list_value entries" "([], [])"]
  by (cases entries) (auto simp: validated_entry_map_def)

lemma validated_entry_map_complete:
  "validated_entry_map iso_at now actionable entries = (m, []) \<Longrightarrow> PDict e \<in> set (list_value entries) \<Longrightarrow>
     entry_id e = Some i \<Longrightarrow> i \<in> fst ` set m"
proof -
  assume m: "validated_entry_map iso_at now actionable entries = (m, [])" and e: "PDict e \<in> set (list_value entries)"
    and i: "entry_id e = Some i"
  from e obtain vs where vs: "entries = PList vs" by (cases entries) simp_all
  with m have v: "validate_entries iso_at now actionable 0 vs ([], []) = (m, [])" by (simp add: validated_entry_map_def)
  with validate_entries_complete [of iso_at now actionable 0 vs "([], [])"] e vs
  obtain ie where "ie \<in> set m" "PDict e = PDict (snd ie)" "entry_id (snd ie) = Some (fst ie)" by auto
  with i show ?thesis by auto
qed

lemma register_sound:
  "map_of (fst (register items acc)) i = Some item \<Longrightarrow> map_of (fst acc) i = Some item \<or> item \<in> set items"
  by (induction items acc rule: register.induct) (auto split: option.splits if_splits)

lemma identity_reason_None:
  "identity_reason candidate registry = None \<Longrightarrow>
     \<exists>i observed. entry_id candidate = Some i \<and> full_container_id i \<and> map_of registry i = Some observed \<and>
       identity_fields observed = identity_fields candidate"
  by (auto simp: identity_reason_def Let_def opt_holds_def identity_fields_def split: if_splits option.splits)

text \<open>The top of a ranking without a tie for the first place exceeds every other row.\<close>

lemma rank_rows_set [simp]: "set (rank_rows rows) = set rows"
  by (simp add: rank_rows_def)

lemma rank_rows_sorted:
  assumes "i < j" "j < length (rank_rows rows)" "\<forall>row \<in> set rows. row_contribution row \<noteq> None"
  shows "the (row_contribution (rank_rows rows ! j)) \<le> the (row_contribution (rank_rows rows ! i))"
proof -
  let ?f = "\<lambda>row. (- (case row_contribution row of None \<Rightarrow> 0 | Some c \<Rightarrow> c), row_id row)"
  have "sorted (map ?f (rank_rows rows))" by (simp add: rank_rows_def)
  then have le: "?f (rank_rows rows ! i) \<le> ?f (rank_rows rows ! j)"
    using assms(1,2) sorted_nth_mono [of "map ?f (rank_rows rows)" i j] by simp
  have "rank_rows rows ! i \<in> set rows" "rank_rows rows ! j \<in> set rows"
    using assms(1,2) nth_mem rank_rows_set by (metis order_less_trans)+
  with assms(3) obtain a b where "row_contribution (rank_rows rows ! i) = Some a"
    "row_contribution (rank_rows rows ! j) = Some b" by blast
  with le show ?thesis by (auto simp: less_eq_prod_def)
qed

lemma rank_rows_top:
  assumes "\<forall>row \<in> set rows. row_contribution row \<noteq> None"
    and "\<not> (1 < length (rank_rows rows) \<and> row_contribution (hd (rank_rows rows)) = row_contribution (rank_rows rows ! 1))"
    and "row \<in> set rows" "row \<noteq> hd (rank_rows rows)"
  shows "the (row_contribution row) < the (row_contribution (hd (rank_rows rows)))"
proof -
  let ?r = "rank_rows rows"
  obtain j where j: "j < length ?r" "row = ?r ! j" using assms(3) by (metis in_set_conv_nth rank_rows_set)
  then have "?r \<noteq> []" by auto
  then have top: "hd ?r = ?r ! 0" by (rule hd_conv_nth)
  with j assms(4) have "0 < j" by (metis gr0I)
  then have one: "1 < length ?r" using j(1) by linarith
  have in1: "?r ! 1 \<in> set rows" "?r ! 0 \<in> set rows"
    using one nth_mem [of _ ?r] rank_rows_set by (metis less_trans zero_less_one)+
  have "the (row_contribution (?r ! 1)) \<le> the (row_contribution (?r ! 0))"
    using rank_rows_sorted [OF _ one assms(1), of 0] by simp
  moreover have "the (row_contribution (?r ! 1)) \<noteq> the (row_contribution (?r ! 0))"
    using assms(1,2) in1 one top by (metis option.expand)
  moreover have "the (row_contribution row) \<le> the (row_contribution (?r ! 1))"
    using rank_rows_sorted [OF _ j(1) assms(1), of 1] \<open>0 < j\<close> j(2) by (cases "j = 1") auto
  ultimately show ?thesis using top by simp
qed

lemma rank_resources_Inr:
  "rank_resources rows_of active rankings = Inr out \<Longrightarrow>
     (\<forall>r. r \<notin> set active \<longrightarrow> map_of out r = map_of rankings r) \<and>
     (\<forall>r \<in> set active. map_of out r = Some (rank_rows (rows_of r)) \<and> rows_of r \<noteq> [] \<and>
        (\<forall>row \<in> set (rows_of r). row_contribution row \<noteq> None))"
proof (induction active arbitrary: rankings)
  case (Cons a active)
  then have a: "rows_of a \<noteq> []" "\<forall>row \<in> set (rows_of a). row_contribution row \<noteq> None"
    and rest: "rank_resources rows_of active (dset rankings a (rank_rows (rows_of a))) = Inr out"
    by (auto simp: Let_def list_ex_iff split: if_splits)
  from Cons.IH [OF rest] a show ?case by (cases "a \<in> set active") auto
qed simp

lemma select_top_Inr:
  assumes "select_top active rankings minimum = Inr (resource, row)"
    and "map_of rankings (hd active) = Some ranking"
  shows "resource = hd active" "row = hd ranking"
    "\<forall>r \<in> set ranking. row_identity_reason r = None"
    "\<not> (1 < length ranking \<and> row_contribution (hd ranking) = row_contribution (ranking ! 1))"
    "\<not> row_protected row" "row_actionable row" "\<not> opt_holds (\<lambda>c. c < minimum) (row_contribution row)"
  using assms by (simp_all add: select_top_def Let_def filter_empty_conv split: if_splits)

text \<open>What the checks establish on the path that ends in a plan.\<close>

lemma check_inputs_Inr:
  assumes "check_inputs iso_at now inp = Inr (candidates, registry, protected, actionable, allowed)"
  shows "candidates = map mapping_of (filter is_dict (list_value (si_candidates inp)))"
    "registry = fst (register (map mapping_of (filter is_dict (list_value (si_registry inp)))) ([], []))"
    "malformed_indexes (list_value (si_registry inp)) = []"
    "validated_entry_map iso_at now False (si_protected_set inp) = (protected, [])"
    "validated_entry_map iso_at now True (si_actionable_set inp) = (actionable, [])"
    "allowed = map text_of (list_value (si_allowed_actions inp))" "list_all is_str (list_value (si_allowed_actions inp))"
proof -
  have m: "materialize_iterable v = (list_value v, \<not> is_list v)" for v by (cases v) simp_all
  obtain reg dup pro bp act ba where
    d: "register (map mapping_of (filter is_dict (list_value (si_registry inp)))) ([], []) = (reg, dup)"
      "validated_entry_map iso_at now False (si_protected_set inp) = (pro, bp)"
      "validated_entry_map iso_at now True (si_actionable_set inp) = (act, ba)"
    by (metis surj_pair)
  note unfolded = assms [unfolded check_inputs_def m d Let_def prod.case]
  show "candidates = map mapping_of (filter is_dict (list_value (si_candidates inp)))"
    "registry = fst (register (map mapping_of (filter is_dict (list_value (si_registry inp)))) ([], []))"
    "malformed_indexes (list_value (si_registry inp)) = []"
    "validated_entry_map iso_at now False (si_protected_set inp) = (protected, [])"
    "validated_entry_map iso_at now True (si_actionable_set inp) = (actionable, [])"
    "allowed = map text_of (list_value (si_allowed_actions inp))" "list_all is_str (list_value (si_allowed_actions inp))"
    using unfolded unfolding d by (simp_all split: if_splits)
qed

lemma decide_plan:
  assumes "sd_plan (sr_decision (decide rep iso_at policy_sha plan_sha now inp policy mode execution active
      (candidates, registry, protected, actionable, allowed))) = Some p"
  shows "\<exists>rankings row entry resource. mode \<noteq> ''observe'' \<and>
    rank_resources (candidate_rows rep registry protected actionable candidates) active [] = Inr rankings \<and>
    select_top active rankings (the (finite_number (sp_min_host_contribution_percent policy))) = Inr (resource, row) \<and>
    entry = (case map_of actionable (row_id row) of None \<Rightarrow> [] | Some e \<Rightarrow> e) \<and>
    entry_refusal iso_at now allowed entry resource (row_id row) = None \<and>
    p = make_plan rep policy_sha plan_sha inp policy candidates entry resource (row_id row)"
  using assms
  by (auto simp: decide_def empty_decision_def Let_def split: sum.splits prod.splits if_splits option.splits)

lemma build_plan:
  assumes "sd_plan (sr_decision (build_emergency_shedding_decision rep iso_at policy_sha plan_sha clock inp)) = Some p"
  shows "\<exists>now inputs mode execution. si_mode inp = PStr mode \<and> mode \<in> {''observe'', ''simulate'', ''enforce''} \<and>
    sp_enabled (selected_policy inp) \<and> current_epoch clock inp = Some now \<and>
    incomplete_of rep (selected_policy inp) (normalized_risks (si_host_risks inp)) = [] \<and>
    active_of rep (selected_policy inp) (normalized_risks (si_host_risks inp)) \<noteq> [] \<and>
    check_inputs iso_at now inp = Inr inputs \<and>
    sd_plan (sr_decision (decide rep iso_at policy_sha plan_sha now inp (selected_policy inp) mode execution
      (active_of rep (selected_policy inp) (normalized_risks (si_host_risks inp))) inputs)) = Some p"
proof -
  have s: "str_in (si_mode inp) xs \<Longrightarrow> \<exists>m. si_mode inp = PStr m \<and> m \<in> set xs" for xs by (cases "si_mode inp") simp_all
  show ?thesis
    using assms
    by (auto simp: build_emergency_shedding_decision_def refuse_early_def empty_decision_def Let_def dest!: s
        split: sum.splits prod.splits if_splits option.splits)
qed

section \<open>Properties\<close>

text \<open>The path of a plan in one statement, shared by the properties below.\<close>

lemma plan_path:
  assumes "sd_plan (sr_decision (build_emergency_shedding_decision rep iso_at policy_sha plan_sha clock inp)) = Some p"
  obtains now candidates registry protected actionable allowed entry row
  where "si_mode inp \<in> {PStr ''simulate'', PStr ''enforce''}" "sp_enabled (selected_policy inp)"
    "current_epoch clock inp = Some now"
    "incomplete_of rep (selected_policy inp) (normalized_risks (si_host_risks inp)) = []"
    "pl_resource_kind p \<in> set (active_of rep (selected_policy inp) (normalized_risks (si_host_risks inp)))"
    "check_inputs iso_at now inp = Inr (candidates, registry, protected, actionable, allowed)"
    "row_id row = pl_target_id p" "map_of actionable (pl_target_id p) = Some entry"
    "entry_refusal iso_at now allowed entry (pl_resource_kind p) (pl_target_id p) = None"
    "pl_target_id p \<notin> fst ` set protected"
    "row \<in> set (candidate_rows rep registry protected actionable candidates (pl_resource_kind p))"
    "row_identity_reason row = None"
    "\<forall>r \<in> set (candidate_rows rep registry protected actionable candidates (pl_resource_kind p)).
       row_contribution r \<noteq> None \<and> (row_id r \<noteq> pl_target_id p \<longrightarrow> the (row_contribution r) < the (row_contribution row))"
    "the (finite_number (sp_min_host_contribution_percent (selected_policy inp))) \<le> the (row_contribution row)"
proof -
  let ?policy = "selected_policy inp"
  let ?active = "active_of rep ?policy (normalized_risks (si_host_risks inp))"
  let ?min = "the (finite_number (sp_min_host_contribution_percent ?policy))"
  obtain now mode execution candidates registry protected actionable allowed where
    b: "si_mode inp = PStr mode" "mode \<in> {''observe'', ''simulate'', ''enforce''}" "sp_enabled ?policy"
      "current_epoch clock inp = Some now" "incomplete_of rep ?policy (normalized_risks (si_host_risks inp)) = []"
      "?active \<noteq> []" "check_inputs iso_at now inp = Inr (candidates, registry, protected, actionable, allowed)"
    and d: "sd_plan (sr_decision (decide rep iso_at policy_sha plan_sha now inp ?policy mode execution ?active
      (candidates, registry, protected, actionable, allowed))) = Some p"
    using build_plan [OF assms] by (metis surj_pair)
  let ?rows = "candidate_rows rep registry protected actionable candidates"
  obtain rankings row entry resource where
    r: "mode \<noteq> ''observe''" "rank_resources ?rows ?active [] = Inr rankings"
      "select_top ?active rankings ?min = Inr (resource, row)"
      "entry = (case map_of actionable (row_id row) of None \<Rightarrow> [] | Some e \<Rightarrow> e)"
      "entry_refusal iso_at now allowed entry resource (row_id row) = None"
      "p = make_plan rep policy_sha plan_sha inp ?policy candidates entry resource (row_id row)"
    using decide_plan [OF d] by blast
  have res: "hd ?active \<in> set ?active" using b(6) by simp
  with rank_resources_Inr [OF r(2)] have k: "map_of rankings (hd ?active) = Some (rank_rows (?rows (hd ?active)))"
    "?rows (hd ?active) \<noteq> []" "\<forall>x \<in> set (?rows (hd ?active)). row_contribution x \<noteq> None" by blast+
  note top = select_top_Inr [OF r(3) k(1)]
  have p: "pl_target_id p = row_id row" "pl_resource_kind p = resource" using r(6) by (simp_all add: make_plan_def Let_def)
  have row: "row \<in> set (?rows resource)"
    using top(1,2) k(2) by (metis hd_in_set rank_rows_set set_empty)
  then obtain cand where rowc: "row = candidate_row registry protected actionable resource cand (row_id row)"
    by (auto simp: in_candidate_rows)
  then have "row_id row \<in> fst ` set actionable" using top(6) candidate_row_simps(3) by metis
  then have e: "map_of actionable (row_id row) = Some entry"
    using r(4) by (metis map_of_eq_None_iff not_None_eq option.simps(5))
  obtain c where c: "row_contribution row = Some c" using row k(3) top(1) by blast
  show ?thesis
  proof (rule that)
    show "si_mode inp \<in> {PStr ''simulate'', PStr ''enforce''}" using b(1,2) r(1) by simp
    show "pl_resource_kind p \<in> set ?active" using p top(1) res by simp
    show "map_of actionable (pl_target_id p) = Some entry" using e p by simp
    show "entry_refusal iso_at now allowed entry (pl_resource_kind p) (pl_target_id p) = None" using r(5) p by simp
    show "pl_target_id p \<notin> fst ` set protected" using rowc top(5) p candidate_row_simps(2) by metis
    show "row \<in> set (?rows (pl_resource_kind p))" using row p by simp
    show "row_identity_reason row = None" using top(3) row top(1) by simp
    show "?min \<le> the (row_contribution row)" using top(7) c by (simp add: opt_holds_def)
    show "\<forall>r \<in> set (?rows (pl_resource_kind p)). row_contribution r \<noteq> None \<and>
        (row_id r \<noteq> pl_target_id p \<longrightarrow> the (row_contribution r) < the (row_contribution row))"
      using rank_rows_top [OF k(3) top(4)] k(3) top(1,2) p by metis
  qed (use b p in auto)
qed

lemma plan_authorized:
  assumes "sd_plan (sr_decision (build_emergency_shedding_decision rep iso_at policy_sha plan_sha clock inp)) = Some p"
  shows "let risk = risk_of (normalized_risks (si_host_risks inp)) (pl_resource_kind p) in
    sp_enabled (selected_policy inp) \<and> si_mode inp \<in> {PStr ''simulate'', PStr ''enforce''} \<and>
    is_confirmed rep risk \<and> sample_complete risk (selected_policy inp) \<and>
    PStr ''graceful_stop'' \<in> set (list_value (si_allowed_actions inp)) \<and>
    (\<nexists>e. PDict e \<in> set (list_value (si_protected_set inp)) \<and> entry_id e = Some (pl_target_id p)) \<and>
    (\<exists>e now s t. PDict e \<in> set (list_value (si_actionable_set inp)) \<and> entry_id e = Some (pl_target_id p) \<and>
       dget e ''environment'' = PStr ''local-disposable'' \<and>
       Some (pl_resource_kind p) \<in> resource_kind ` set (list_value (dget e ''allowed_resources'')) \<and>
       current_epoch clock inp = Some now \<and> dget e ''expires_at'' = PStr s \<and>
       iso_at (offset_text s) = Epoch t \<and> now < t)"
proof -
  obtain now candidates registry protected actionable allowed entry row where
    path: "si_mode inp \<in> {PStr ''simulate'', PStr ''enforce''}" "sp_enabled (selected_policy inp)"
      "current_epoch clock inp = Some now"
      "incomplete_of rep (selected_policy inp) (normalized_risks (si_host_risks inp)) = []"
      "pl_resource_kind p \<in> set (active_of rep (selected_policy inp) (normalized_risks (si_host_risks inp)))"
      "check_inputs iso_at now inp = Inr (candidates, registry, protected, actionable, allowed)"
      "map_of actionable (pl_target_id p) = Some entry"
      "entry_refusal iso_at now allowed entry (pl_resource_kind p) (pl_target_id p) = None"
      "pl_target_id p \<notin> fst ` set protected"
    using plan_path [OF assms] by metis
  note inputs = check_inputs_Inr [OF path(6)]
  let ?risk = "risk_of (normalized_risks (si_host_risks inp)) (pl_resource_kind p)"
  have confirmed: "is_confirmed rep ?risk" "pl_resource_kind p \<in> set (sp_resource_priority (selected_policy inp))"
    using path(5) by (simp_all add: active_of_def)
  then have complete: "sample_complete ?risk (selected_policy inp)"
    using path(4) by (auto simp: incomplete_of_def filter_empty_conv is_confirmed_def)
  have entry: "entry_for iso_at now True (list_value (si_actionable_set inp)) (pl_target_id p, entry)"
    using validated_entry_map_sound [OF inputs(5)] map_of_SomeD [OF path(7)] by blast
  have refusal: "actionable_expiry_reason iso_at entry now = None" "''graceful_stop'' \<in> set allowed"
    "Some (pl_resource_kind p) \<in> resource_kind ` set (list_value (dget entry ''allowed_resources''))"
    using path(8) by (auto simp: entry_refusal_def split: option.splits if_splits)
  obtain s t where expiry: "dget entry ''expires_at'' = PStr s" "iso_at (offset_text s) = Epoch t" "now < t"
    using refusal(1) by (auto simp: actionable_expiry_reason_def split: option.splits iso_time.splits if_splits)
  have "PStr ''graceful_stop'' \<in> set (list_value (si_allowed_actions inp))"
  proof -
    obtain v where v: "v \<in> set (list_value (si_allowed_actions inp))" "text_of v = ''graceful_stop''"
      using refusal(2) inputs(6) by auto
    have "v = PStr ''graceful_stop''" using v(2) by (cases v) simp_all
    with v(1) show ?thesis by simp
  qed
  moreover have "\<nexists>e. PDict e \<in> set (list_value (si_protected_set inp)) \<and> entry_id e = Some (pl_target_id p)"
    using validated_entry_map_complete [OF inputs(4)] path(9) by blast
  moreover have "\<exists>e now s t. PDict e \<in> set (list_value (si_actionable_set inp)) \<and> entry_id e = Some (pl_target_id p) \<and>
       dget e ''environment'' = PStr ''local-disposable'' \<and>
       Some (pl_resource_kind p) \<in> resource_kind ` set (list_value (dget e ''allowed_resources'')) \<and>
       current_epoch clock inp = Some now \<and> dget e ''expires_at'' = PStr s \<and>
       iso_at (offset_text s) = Epoch t \<and> now < t"
    using entry refusal(3) expiry path(3) unfolding entry_for_def actionable_fields_ok_def fst_conv snd_conv by blast
  ultimately show ?thesis using path(1,2) confirmed complete unfolding Let_def by blast
qed

text \<open>
  C23. A shedding plan is made only when the policy is enabled, the mode is simulate or enforce,
  the resource is in a confirmed critical state with complete samples, and graceful stops are
  allowed; the target is in no protected entry, and has an actionable entry of the disposable
  environment that allows the resource and has not expired.
\<close>
theorem plan_target_authorized:
  assumes "sd_plan (sr_decision (build_emergency_shedding_decision rep iso_at policy_sha plan_sha clock inp)) = Some p"
  shows "let risk = risk_of (normalized_risks (si_host_risks inp)) (pl_resource_kind p) in
    sp_enabled (selected_policy inp) \<and> si_mode inp \<in> {PStr ''simulate'', PStr ''enforce''} \<and>
    is_confirmed rep risk \<and> sample_complete risk (selected_policy inp) \<and>
    PStr ''graceful_stop'' \<in> set (list_value (si_allowed_actions inp)) \<and>
    (\<nexists>e. PDict e \<in> set (list_value (si_protected_set inp)) \<and> entry_id e = Some (pl_target_id p)) \<and>
    (\<exists>e now s t. PDict e \<in> set (list_value (si_actionable_set inp)) \<and> entry_id e = Some (pl_target_id p) \<and>
       dget e ''environment'' = PStr ''local-disposable'' \<and>
       Some (pl_resource_kind p) \<in> resource_kind ` set (list_value (dget e ''allowed_resources'')) \<and>
       current_epoch clock inp = Some now \<and> dget e ''expires_at'' = PStr s \<and>
       iso_at (offset_text s) = Epoch t \<and> now < t)"
  by (rule plan_authorized [OF assms])

lemma plan_is_top:
  assumes "sd_plan (sr_decision (build_emergency_shedding_decision rep iso_at policy_sha plan_sha clock inp)) = Some p"
  shows "\<exists>candidate observed c. PDict candidate \<in> set (list_value (si_candidates inp)) \<and>
    entry_id candidate = Some (pl_target_id p) \<and> is_running rep candidate \<and> full_container_id (pl_target_id p) \<and>
    PDict observed \<in> set (list_value (si_registry inp)) \<and> identity_fields observed = identity_fields candidate \<and>
    contribution candidate (pl_resource_kind p) = Some c \<and>
    the (finite_number (sp_min_host_contribution_percent (selected_policy inp))) \<le> c \<and>
    (\<forall>other. PDict other \<in> set (list_value (si_candidates inp)) \<and> is_running rep other \<and>
        dget_default other ''kind'' (PStr ''container'') = PStr ''container'' \<and>
        entry_id other \<noteq> None \<and> entry_id other \<noteq> Some (pl_target_id p) \<longrightarrow>
      (\<exists>c'. contribution other (pl_resource_kind p) = Some c' \<and> c' < c))"
proof -
  obtain now candidates registry protected actionable allowed row where
    path: "check_inputs iso_at now inp = Inr (candidates, registry, protected, actionable, allowed)"
      "row_id row = pl_target_id p"
      "row \<in> set (candidate_rows rep registry protected actionable candidates (pl_resource_kind p))"
      "row_identity_reason row = None"
      "\<forall>r \<in> set (candidate_rows rep registry protected actionable candidates (pl_resource_kind p)).
         row_contribution r \<noteq> None \<and> (row_id r \<noteq> pl_target_id p \<longrightarrow> the (row_contribution r) < the (row_contribution row))"
      "the (finite_number (sp_min_host_contribution_percent (selected_policy inp))) \<le> the (row_contribution row)"
    using plan_path [OF assms] by metis
  note inputs = check_inputs_Inr [OF path(1)]
  have dict: "c \<in> set (map mapping_of (filter is_dict vs)) \<longleftrightarrow> PDict c \<in> set vs" for c vs
  proof -
    have "is_dict v \<Longrightarrow> v = PDict (mapping_of v)" for v by (cases v) simp_all
    then show ?thesis by (force simp: image_iff)
  qed
  obtain candidate where candidate: "candidate \<in> set candidates" "entry_id candidate = Some (pl_target_id p)"
    "is_running rep candidate" "row = candidate_row registry protected actionable (pl_resource_kind p) candidate (pl_target_id p)"
    using path(2,3) by (auto simp: in_candidate_rows)
  obtain observed where observed: "full_container_id (pl_target_id p)" "map_of registry (pl_target_id p) = Some observed"
    "identity_fields observed = identity_fields candidate"
    using identity_reason_None [of candidate registry] path(4) candidate(2,4) by auto
  have "PDict observed \<in> set (list_value (si_registry inp))"
    using register_sound [of "map mapping_of (filter is_dict (list_value (si_registry inp)))" "([], [])"]
      observed(2) inputs(2) by (simp add: dict del: set_map)
  obtain c where c: "contribution candidate (pl_resource_kind p) = Some c"
    using path(3,5) candidate(4) by auto
  have others: "\<exists>c'. contribution other (pl_resource_kind p) = Some c' \<and> c' < c"
    if "PDict other \<in> set (list_value (si_candidates inp))" "is_running rep other"
      "dget_default other ''kind'' (PStr ''container'') = PStr ''container''" "entry_id other = Some i"
      "i \<noteq> pl_target_id p" for other i
  proof -
    have "other \<in> set candidates" unfolding inputs(1) dict by (rule that(1))
    then have "candidate_row registry protected actionable (pl_resource_kind p) other i \<in>
        set (candidate_rows rep registry protected actionable candidates (pl_resource_kind p))"
      using that(2-4) unfolding in_candidate_rows by blast
    then show ?thesis using path(5) that(5) c candidate(4) by fastforce
  qed
  have "PDict candidate \<in> set (list_value (si_candidates inp))"
    using candidate(1) unfolding inputs(1) dict .
  moreover have "the (finite_number (sp_min_host_contribution_percent (selected_policy inp))) \<le> c"
    using path(6) c candidate(4) by simp
  ultimately show ?thesis
    using candidate(2,3) observed(1,3) \<open>PDict observed \<in> _\<close> c others by blast
qed

text \<open>
  C24. The target of a shedding plan is a running candidate with a full container id whose identity
  equals the registry's record, it contributes at least the policy's minimum to the resource,
  and strictly more than every other running candidate.
\<close>
theorem plan_target_is_top:
  assumes "sd_plan (sr_decision (build_emergency_shedding_decision rep iso_at policy_sha plan_sha clock inp)) = Some p"
  shows "\<exists>candidate observed c. PDict candidate \<in> set (list_value (si_candidates inp)) \<and>
    entry_id candidate = Some (pl_target_id p) \<and> is_running rep candidate \<and> full_container_id (pl_target_id p) \<and>
    PDict observed \<in> set (list_value (si_registry inp)) \<and> identity_fields observed = identity_fields candidate \<and>
    contribution candidate (pl_resource_kind p) = Some c \<and>
    the (finite_number (sp_min_host_contribution_percent (selected_policy inp))) \<le> c \<and>
    (\<forall>other. PDict other \<in> set (list_value (si_candidates inp)) \<and> is_running rep other \<and>
        dget_default other ''kind'' (PStr ''container'') = PStr ''container'' \<and>
        entry_id other \<noteq> None \<and> entry_id other \<noteq> Some (pl_target_id p) \<longrightarrow>
      (\<exists>c'. contribution other (pl_resource_kind p) = Some c' \<and> c' < c))"
  by (rule plan_is_top [OF assms])

text \<open>
  A host in a confirmed memory emergency with two running containers: the larger one is
  actionable, the smaller one protected.
\<close>

definition example_container :: "string \<Rightarrow> int \<Rightarrow> rat \<Rightarrow> pyval" where
  "example_container i inode share =
     PDict [(''kind'', PStr ''container''), (''stable_id'', PStr i), (''status'', PStr ''running''),
            (''created_at'', PStr ''2026-01-01''), (''cgroup_path'', PStr ''/docker''), (''cgroup_inode'', PInt inode),
            (''memory_contribution_percent'', PFloat (Fin share))]"

definition example_risks :: pyval where
  "example_risks =
     PDict [(''memory'', PDict [(''state'', PStr ''CRITICAL_CONFIRMED''), (''sample_count'', PInt 3)])]"

definition example_input :: shedding_input where
  "example_input =
     \<lparr>si_host_risks = example_risks,
      si_candidates = PList [example_container (replicate 64 CHR ''b'') 11 30, example_container (replicate 64 CHR ''a'') 12 45],
      si_registry = PList [example_container (replicate 64 CHR ''a'') 12 45, example_container (replicate 64 CHR ''b'') 11 30],
      si_protected_set = dget (mapping_of example_shedding) ''protected_set'',
      si_actionable_set = dget (mapping_of example_shedding) ''actionable_set'',
      si_mode = PStr ''enforce'', si_policy = Some (default_policy\<lparr>sp_enabled := True\<rparr>),
      si_allowed_actions = PList [PStr ''graceful_stop''], si_event_id = Some ''e1'', si_sample_id = None,
      si_config_digest = None, si_now = None\<rparr>"

definition example_decision :: shedding_result where
  "example_decision = build_emergency_shedding_decision (\<lambda>_. []) (\<lambda>_. Epoch 100) (\<lambda>_. []) (\<lambda>_. []) 50 example_input"

lemma example_plan_target: "map_option pl_target_id (sd_plan (sr_decision example_decision)) = Some (replicate 64 CHR ''a'')"
  by code_simp

lemma example_shedding_plan:
  obtains p where "sd_plan (sr_decision (build_emergency_shedding_decision (\<lambda>_. []) (\<lambda>_. Epoch 100) (\<lambda>_. []) (\<lambda>_. []) 50
      example_input)) = Some p" "pl_target_id p = replicate 64 CHR ''a''"
  using example_plan_target by (auto simp: example_decision_def)

theorem plan_target_authorized_witness:
  "\<nexists>e. PDict e \<in> set (list_value (si_protected_set example_input)) \<and> entry_id e = Some (replicate 64 CHR ''a'')"
proof -
  obtain p where "sd_plan (sr_decision (build_emergency_shedding_decision (\<lambda>_. []) (\<lambda>_. Epoch 100) (\<lambda>_. []) (\<lambda>_. []) 50
      example_input)) = Some p" and "pl_target_id p = replicate 64 CHR ''a''" by (rule example_shedding_plan)
  with plan_target_authorized [of "\<lambda>_. []" "\<lambda>_. Epoch 100" "\<lambda>_. []" "\<lambda>_. []" 50 example_input p]
  show ?thesis unfolding Let_def by metis
qed

theorem plan_target_is_top_witness:
  "\<exists>candidate observed. PDict candidate \<in> set (list_value (si_candidates example_input)) \<and>
     entry_id candidate = Some (replicate 64 CHR ''a'') \<and>
     PDict observed \<in> set (list_value (si_registry example_input)) \<and> identity_fields observed = identity_fields candidate"
proof -
  obtain p where "sd_plan (sr_decision (build_emergency_shedding_decision (\<lambda>_. []) (\<lambda>_. Epoch 100) (\<lambda>_. []) (\<lambda>_. []) 50
      example_input)) = Some p" and "pl_target_id p = replicate 64 CHR ''a''" by (rule example_shedding_plan)
  with plan_target_is_top [of "\<lambda>_. []" "\<lambda>_. Epoch 100" "\<lambda>_. []" "\<lambda>_. []" 50 example_input p]
  show ?thesis by metis
qed

end
