(* ===== verification/Guardian_Attribution.thy ===== *)
theory Guardian_Attribution
  imports Guardian_Shedding
begin

text \<open>
  Attribution of memory pressure to a container (\<open>src/guardian_attribution.py\<close>): the parsers of the
  object registry that are not file access, and \<open>ObjectAttributionEvaluator\<close>, which compares two
  consecutive registries.  Its state is the previous sample.  \<open>Inl\<close> is an exception that a
  malformed registry provokes; the evaluator's state is then unchanged.
\<close>

section \<open>Registry parsing\<close>

fun parse_counter_lines :: "string list \<Rightarrow> (string \<times> int) list \<Rightarrow> (string \<times> int) list" where
  "parse_counter_lines [] acc = acc"
| "parse_counter_lines (line # lines) acc =
     parse_counter_lines lines
       (case py_split line of
          [key, value] \<Rightarrow> (case parse_int value of None \<Rightarrow> acc | Some n \<Rightarrow> dset acc key n)
        | _ \<Rightarrow> acc)"

definition parse_counters :: "string option \<Rightarrow> (string \<times> int) list" where
  "parse_counters text = parse_counter_lines (splitlines (case text of None \<Rightarrow> [] | Some t \<Rightarrow> t)) []"

definition container_id :: "pydict \<Rightarrow> string option" where
  "container_id container =
     first_some (map (\<lambda>k. as_nonempty_str (dget container k)) [''Container'', ''ID'', ''Id'', ''id''])"

text \<open>
  \<open>_inspect_records\<close> on the decoded output lines (\<open>None\<close>: not JSON) of a successful run.
\<close>

fun inspect_lines ::
  "pyval option list \<Rightarrow> (string \<times> pydict) list \<times> string list \<Rightarrow> (string \<times> pydict) list \<times> string list" where
  "inspect_lines [] acc = acc"
| "inspect_lines (None # lines) (records, errors) = inspect_lines lines (records, errors @ [''docker_inspect_invalid_json''])"
| "inspect_lines (Some (PDict raw) # lines) (records, errors) =
     inspect_lines lines (case as_nonempty_str (dget raw ''Id'') of None \<Rightarrow> records | Some i \<Rightarrow> dset records i raw, errors)"
| "inspect_lines (Some _ # lines) (records, errors) =
     inspect_lines lines (records, errors @ [''docker_inspect_record_not_object''])"

definition find_inspect_record :: "(string \<times> pydict) list \<Rightarrow> string option \<Rightarrow> pydict" where
  "find_inspect_record records stable_id =
     (case stable_id of
        None \<Rightarrow> []
      | Some [] \<Rightarrow> []
      | Some i \<Rightarrow>
          (case map_of records i of
             Some r \<Rightarrow> r
           | None \<Rightarrow>
               (case filter (\<lambda>(key, _). prefix i key \<or> prefix key i) records of
                  [(_, r)] \<Rightarrow> r
                | _ \<Rightarrow> [])))"

section \<open>The evaluator\<close>

record attribution_policy =
  ap_min_host_contribution_percent :: rat
  ap_min_lead_margin :: rat
  ap_max_sample_age_seconds :: rat

definition default_attribution_policy :: attribution_policy where
  "default_attribution_policy =
     \<lparr>ap_min_host_contribution_percent = 20, ap_min_lead_margin = 15 / 100, ap_max_sample_age_seconds = 15\<rparr>"

record attribution_evaluator =
  ev_policy :: attribution_policy
  ev_previous_objects :: "(string \<times> pydict) list"
  ev_previous_names :: "(string \<times> string) list"
  ev_previous_host_available :: "int option"
  ev_previous_timestamp :: "rat option"

definition new_attribution :: "attribution_policy \<Rightarrow> attribution_evaluator" where
  "new_attribution policy =
     \<lparr>ev_policy = policy, ev_previous_objects = [], ev_previous_names = [], ev_previous_host_available = None,
      ev_previous_timestamp = None\<rparr>"

definition oom_counter :: "pydict \<Rightarrow> string \<Rightarrow> int option" where
  "oom_counter d k = (case int_like (dget d k) of Some n \<Rightarrow> if 0 \<le> n then Some n else None | None \<Rightarrow> None)"

definition counter_delta :: "pydict \<Rightarrow> pydict \<Rightarrow> int option \<times> bool" where
  "counter_delta current previous =
     (case (oom_counter current ''oom'', oom_counter current ''oom_kill'',
            oom_counter previous ''oom'', oom_counter previous ''oom_kill'') of
        (Some a, Some b, Some a', Some b') \<Rightarrow> (Some (max (a - a') 0 + max (b - b') 0), a < a' \<or> b < b')
      | _ \<Rightarrow> (None, True))"

record attribution_candidate =
  ac_id :: string
  ac_name :: pyval
  ac_confidence :: string
  ac_cgroup_path :: pyval
  ac_memory_current :: pyval
  ac_growth_rate :: "rat option"
  ac_growth_share :: "rat option"
  ac_host_contribution :: "rat option"
  ac_oom_delta :: "int option"
  ac_score :: rat
  ac_mapping_errors :: "pyval list"

text \<open>The values of a \<open>for\<close> loop, and \<open>text in v\<close>, with the exception of a value that has neither.\<close>

fun iterate :: "pyval \<Rightarrow> py_exn + pyval list" where
  "iterate (PList xs) = Inr xs"
| "iterate (PStr s) = Inr (map (\<lambda>c. PStr [c]) s)"
| "iterate (PDict d) = Inr (map (PStr \<circ> fst) d)"
| "iterate _ = Inl TypeError"

fun contains_text :: "string \<Rightarrow> pyval \<Rightarrow> py_exn + bool" where
  "contains_text t (PList xs) = Inr (PStr t \<in> set xs)"
| "contains_text t (PStr s) = Inr (sublist t s)"
| "contains_text t (PDict d) = Inr (has_key d t)"
| "contains_text t _ = Inl TypeError"

definition quality_of_clock :: "attribution_evaluator \<Rightarrow> pyval \<Rightarrow> rat \<Rightarrow> string list" where
  "quality_of_clock e observed_ns now =
     (if as_int observed_ns = None then [''host_monotonic_timestamp_missing'']
      else (case (ev_previous_host_available e, ev_previous_timestamp e) of
          (Some _, Some before) \<Rightarrow>
            if now \<le> before then [''attribution_clock_not_increasing'']
            else if ap_max_sample_age_seconds (ev_policy e) < now - before then [''attribution_sample_gap_too_large'']
            else []
        | _ \<Rightarrow> []))"

definition host_decline_rate :: "attribution_evaluator \<Rightarrow> int option \<Rightarrow> rat option \<Rightarrow> rat option" where
  "host_decline_rate e available elapsed =
     (case (elapsed, ev_previous_host_available e, available) of
        (Some dt, Some before, Some a) \<Rightarrow> if 0 < dt then Some (max (of_int (before - a) / dt) 0) else None
      | _ \<Rightarrow> None)"

text \<open>What one object adds: its candidate, identity blockers and quality flags.\<close>

definition identity_blockers_of :: "attribution_evaluator \<Rightarrow> string \<Rightarrow> pydict \<Rightarrow> py_exn + string list" where
  "identity_blockers_of e stable_id item =
     (let previous = (case map_of (ev_previous_objects e) stable_id of None \<Rightarrow> [] | Some d \<Rightarrow> d);
          recreated =
            (case dget item ''name'' of
               PStr name \<Rightarrow>
                 (case map_of (ev_previous_names e) name of
                    Some old \<Rightarrow> if old \<noteq> [] \<and> old \<noteq> stable_id then [''container_recreated''] else []
                  | None \<Rightarrow> [])
             | _ \<Rightarrow> []);
          before = dget previous ''cgroup_path''; path = dget item ''cgroup_path'';
          moved = (if py_truthy before \<and> py_truthy path \<and> \<not> py_eq before path then [''container_cgroup_path_changed''] else [])
      in case dget item ''mapping_errors'' of
           PList errors \<Rightarrow>
             if list_all hashable errors
             then Inr (recreated @ moved @
                       map (\<lambda>_. ''container_id_cgroup_mismatch'') (filter (\<lambda>x. x = PStr ''container_id_cgroup_mismatch'') errors))
             else Inl TypeError
         | _ \<Rightarrow> Inr (recreated @ moved))"

definition growth_rate_of :: "pydict \<Rightarrow> pyval \<Rightarrow> rat option \<Rightarrow> rat option" where
  "growth_rate_of previous current elapsed =
     (case (elapsed, int_like current, int_like (dget previous ''memory_current_bytes'')) of
        (Some dt, Some now, Some before) \<Rightarrow> if 0 < dt then Some (max (of_int (now - before) / dt) 0) else None
      | _ \<Rightarrow> None)"

definition confidence_of :: "pydict \<Rightarrow> py_exn + string" where
  "confidence_of item =
     (let path = py_truthy (dget item ''cgroup_path''); errors = dget item ''mapping_errors'';
          base = (if dget item ''mapping_confidence'' = PStr ''high'' \<and> path \<and> int_like (dget item ''memory_current_bytes'') \<noteq> None
                  then ''high'' else if path then ''medium'' else ''low'')
      in if py_truthy errors
         then map_sum id (\<lambda>mismatch. if mismatch then ''low'' else base) (contains_text ''container_id_cgroup_mismatch'' errors)
         else Inr base)"

definition score_of :: "rat option \<Rightarrow> rat option \<Rightarrow> int option \<Rightarrow> rat" where
  "score_of host_share share oom =
     (case host_share of
        Some c \<Rightarrow> c / 100
      | None \<Rightarrow> (case share of Some s \<Rightarrow> s / 100 | None \<Rightarrow> 0)) +
     (if opt_holds (\<lambda>n. 0 < n) oom then 25 / 100 else 0)"

definition make_candidate ::
  "attribution_evaluator \<Rightarrow> rat option \<Rightarrow> rat option \<Rightarrow> rat list \<Rightarrow> string \<Rightarrow> pydict \<Rightarrow>
   py_exn + attribution_candidate \<times> rat list \<times> string list" where
  "make_candidate e elapsed decline positive stable_id item =
     (let previous = (case map_of (ev_previous_objects e) stable_id of None \<Rightarrow> [] | Some d \<Rightarrow> d);
          current = dget item ''memory_current_bytes'';
          growth = growth_rate_of previous current elapsed;
          positive' = (case growth of Some g \<Rightarrow> if 0 < g then positive @ [g] else positive | None \<Rightarrow> positive);
          (oom, reset) = (if previous \<noteq> []
                          then counter_delta (mapping_of (dget item ''memory_events'')) (mapping_of (dget previous ''memory_events''))
                          else (None, False));
          share = (case growth of
                     Some g \<Rightarrow> if positive' \<noteq> [] then Some (g / max (sum_list positive') 1 * 100) else None
                   | None \<Rightarrow> None);
          host_share = (case (growth, decline) of
                     (Some g, Some h) \<Rightarrow> if 0 < h then Some (min (g / h * 100) 100) else None
                   | _ \<Rightarrow> None)
      in case confidence_of item of
           Inl x \<Rightarrow> Inl x
         | Inr confidence \<Rightarrow>
             Inr (\<lparr>ac_id = stable_id, ac_name = dget item ''name'', ac_confidence = confidence,
                   ac_cgroup_path = dget item ''cgroup_path'', ac_memory_current = current, ac_growth_rate = growth,
                   ac_growth_share = map_option (round_digits 3) share,
                   ac_host_contribution = map_option (round_digits 3) host_share, ac_oom_delta = oom,
                   ac_score = round_digits 6 (min (score_of host_share share oom) 1),
                   ac_mapping_errors = list_value (dget item ''mapping_errors'')\<rparr>,
                  positive', if reset then [''object_oom_counter_reset''] else []))"

record attribution_scan =
  as_candidates :: "attribution_candidate list"
  as_blockers :: "string list"
  as_positive :: "rat list"
  as_flags :: "string list"
  as_reasons :: "string list"

fun scan_objects ::
  "attribution_evaluator \<Rightarrow> rat option \<Rightarrow> rat option \<Rightarrow> pydict list \<Rightarrow> attribution_scan \<Rightarrow> py_exn + attribution_scan" where
  "scan_objects e elapsed decline [] s = Inr s"
| "scan_objects e elapsed decline (item # items) s =
     (case as_nonempty_str (dget item ''id'') of
        None \<Rightarrow> scan_objects e elapsed decline items (s\<lparr>as_reasons := as_reasons s @ [''stable_object_identity_missing'']\<rparr>)
      | Some stable_id \<Rightarrow>
          (case identity_blockers_of e stable_id item of
             Inl x \<Rightarrow> Inl x
           | Inr blockers \<Rightarrow>
               (case make_candidate e elapsed decline (as_positive s) stable_id item of
                  Inl x \<Rightarrow> Inl x
                | Inr (candidate, positive, flags) \<Rightarrow>
                    scan_objects e elapsed decline items
                      (s\<lparr>as_candidates := as_candidates s @ [candidate], as_blockers := as_blockers s @ blockers,
                         as_positive := positive, as_flags := as_flags s @ flags\<rparr>))))"

text \<open>The second pass over the candidates once the total growth is known.\<close>

definition total_growth :: "attribution_candidate list \<Rightarrow> rat" where
  "total_growth cs = sum_list (List.map_filter ac_growth_rate cs)"

definition reshare :: "rat \<Rightarrow> attribution_candidate \<Rightarrow> attribution_candidate" where
  "reshare growth c =
     (case ac_growth_rate c of
        None \<Rightarrow> c
      | Some rate \<Rightarrow>
          if \<not> 0 < growth then c
          else
            (let c' = c\<lparr>ac_growth_share := Some (round_digits 3 (rate / growth * 100))\<rparr>
             in if ac_host_contribution c = None
                then c'\<lparr>ac_score := round_digits 6
                          (min (rate / growth + (if opt_holds (\<lambda>n. 0 < n) (ac_oom_delta c) then 25 / 100 else 0)) 1)\<rparr>
                else c'))"

definition rank_candidates :: "attribution_candidate list \<Rightarrow> attribution_candidate list" where
  "rank_candidates cs = sort_key (\<lambda>c. (- ac_score c, ac_id c)) (map (reshare (total_growth cs)) cs)"

definition valid_candidate :: "attribution_policy \<Rightarrow> attribution_candidate \<Rightarrow> bool" where
  "valid_candidate policy c \<longleftrightarrow>
     ac_confidence c = ''high'' \<and>
     opt_holds (\<lambda>h. ap_min_host_contribution_percent policy \<le> h) (ac_host_contribution c)"

definition lead_margin :: "attribution_candidate list \<Rightarrow> rat option" where
  "lead_margin valid =
     (case valid of
        [] \<Rightarrow> None
      | [best] \<Rightarrow> Some (ac_score best)
      | best # second # _ \<Rightarrow> Some (ac_score best - ac_score second))"

text \<open>State, target and the reason added.\<close>

definition attribution_verdict ::
  "attribution_policy \<Rightarrow> bool \<Rightarrow> string list \<Rightarrow> attribution_candidate list \<Rightarrow>
   string \<times> attribution_candidate option \<times> string list" where
  "attribution_verdict policy degraded blockers valid =
     (if degraded then (''DEGRADED_OBSERVABILITY'', None, [])
      else if blockers \<noteq> [] then (''AMBIGUOUS_TARGET'', None, [''target_identity_not_stable''])
      else (case valid of
          [] \<Rightarrow> (''NO_TARGET'', None, [''no_candidate_meets_confidence_or_contribution''])
        | [best] \<Rightarrow> (''TARGET_CONFIRMED'', Some best, [''single_target_exceeds_contribution_and_margin''])
        | best # second # _ \<Rightarrow>
            if ac_score best - ac_score second < ap_min_lead_margin policy
            then (''AMBIGUOUS_TARGET'', None, [''candidate_lead_margin_too_small''])
            else (''TARGET_CONFIRMED'', Some best, [''single_target_exceeds_contribution_and_margin''])))"

record attribution_result =
  at_state :: string
  at_target :: "attribution_candidate option"
  at_candidates :: "attribution_candidate list"
  at_reason_codes :: "string list"
  at_quality_flags :: "string list"
  at_host_decline :: "rat option"
  at_lead_margin :: "rat option"
  at_elapsed :: "rat option"

definition registry_reasons :: "(pyval \<Rightarrow> string) \<Rightarrow> pydict \<Rightarrow> pydict list \<Rightarrow> py_exn + string list" where
  "registry_reasons rep registry objects =
     (let empty = (if objects = [] then [''object_registry_empty''] else [])
      in if dget registry ''status'' = PStr ''ok'' then Inr empty
         else map_sum id (\<lambda>errors. map (py_str rep) (filter py_truthy errors) @ [''object_registry_degraded''] @ empty)
                (iterate (dget_default registry ''errors'' (PList []))))"

definition remember :: "(pyval \<Rightarrow> string) \<Rightarrow> pydict list \<Rightarrow> int option \<Rightarrow> rat \<Rightarrow> attribution_evaluator \<Rightarrow> attribution_evaluator" where
  "remember rep objects available now e =
     e\<lparr>ev_previous_objects :=
         fold (\<lambda>item d. if py_truthy (dget item ''id'') then dset d (py_str rep (dget item ''id'')) item else d) objects [],
       ev_previous_names :=
         fold (\<lambda>item d. if py_truthy (dget item ''name'') \<and> py_truthy (dget item ''id'')
                        then dset d (py_str rep (dget item ''name'')) (py_str rep (dget item ''id'')) else d) objects [],
       ev_previous_host_available := available, ev_previous_timestamp := Some now\<rparr>"

definition evaluate_attribution ::
  "(pyval \<Rightarrow> string) \<Rightarrow> pydict \<Rightarrow> pydict \<Rightarrow> rat \<Rightarrow> attribution_evaluator \<Rightarrow>
   (py_exn + attribution_result) \<times> attribution_evaluator" where
  "evaluate_attribution rep host_observation registry now e =
     (let available = as_int (dget (mapping_of (dget host_observation ''memory'')) ''available_bytes'');
          clock_flags = quality_of_clock e (dget host_observation ''observed_monotonic_ns'') now;
          objects = map mapping_of (filter is_dict (list_value (dget registry ''objects'')));
          elapsed = map_option (\<lambda>before. now - before) (ev_previous_timestamp e);
          decline = host_decline_rate e available elapsed
      in case registry_reasons rep registry objects of
           Inl x \<Rightarrow> (Inl x, e)
         | Inr reasons \<Rightarrow>
             (case scan_objects e elapsed decline objects
                     \<lparr>as_candidates = [], as_blockers = [], as_positive = [], as_flags = clock_flags, as_reasons = reasons\<rparr> of
                Inl x \<Rightarrow> (Inl x, e)
              | Inr s \<Rightarrow>
                  (let candidates = rank_candidates (as_candidates s);
                       flags = as_flags s @ (if opt_holds (\<lambda>dt. dt \<le> 0) elapsed then [''attribution_elapsed_missing''] else []);
                       valid = filter (valid_candidate (ev_policy e)) candidates;
                       degraded = (flags \<noteq> [] \<or> dget registry ''status'' \<noteq> PStr ''ok'' \<or> ev_previous_objects e = []);
                       (state, target, verdict) = attribution_verdict (ev_policy e) degraded (as_blockers s) valid
                   in (Inr \<lparr>at_state = state, at_target = target, at_candidates = candidates,
                            at_reason_codes = sorted_set (as_reasons s @
                              (if ev_previous_timestamp e = None then [''object_baseline_established''] else []) @
                              (if ev_previous_objects e = [] then [''insufficient_object_history''] else []) @
                              as_blockers s @ verdict),
                            at_quality_flags = sorted_set flags, at_host_decline = decline,
                            at_lead_margin = lead_margin valid, at_elapsed = elapsed\<rparr>,
                       remember rep objects available now e))))"

section \<open>Lemmas\<close>

text \<open>An object keeps its identity: its name still belongs to it and its cgroup has not moved.\<close>

definition identity_kept :: "attribution_evaluator \<Rightarrow> string \<Rightarrow> pydict \<Rightarrow> bool" where
  "identity_kept e i item \<longleftrightarrow>
     (\<forall>name old. dget item ''name'' = PStr name \<and> map_of (ev_previous_names e) name = Some old \<longrightarrow> old \<in> {[], i}) \<and>
     (\<forall>previous. map_of (ev_previous_objects e) i = Some previous \<longrightarrow>
        \<not> py_truthy (dget previous ''cgroup_path'') \<or> \<not> py_truthy (dget item ''cgroup_path'') \<or>
        py_eq (dget previous ''cgroup_path'') (dget item ''cgroup_path'')) \<and>
     PStr ''container_id_cgroup_mismatch'' \<notin> set (list_value (dget item ''mapping_errors''))"

lemma no_blockers: "identity_blockers_of e i item = Inr [] \<Longrightarrow> identity_kept e i item"
  by (cases "dget item ''mapping_errors''")
    (auto simp: identity_blockers_of_def identity_kept_def Let_def filter_empty_conv split: if_splits pyval.splits option.splits)

lemma make_candidate_id: "make_candidate e elapsed decline positive i item = Inr (c, positive', flags) \<Longrightarrow> ac_id c = i"
  by (auto simp: make_candidate_def Let_def split: prod.splits sum.splits)

lemma scan_objects_sound:
  "scan_objects e elapsed decline items s = Inr s' \<Longrightarrow>
     (\<exists>more. as_blockers s' = as_blockers s @ more) \<and> (\<exists>more. as_flags s' = as_flags s @ more) \<and>
     (as_blockers s' = [] \<longrightarrow>
       (\<forall>c \<in> set (as_candidates s'). c \<in> set (as_candidates s) \<or>
          (\<exists>item \<in> set items. dget item ''id'' = PStr (ac_id c) \<and> identity_kept e (ac_id c) item)))"
proof (induction e elapsed decline items s rule: scan_objects.induct)
  case (2 e elapsed decline item items s)
  show ?case
  proof (cases "as_nonempty_str (dget item ''id'')")
    case None
    with 2 show ?thesis by auto
  next
    case (Some i)
    with 2(3) obtain blockers candidate positive flags where
      b: "identity_blockers_of e i item = Inr blockers"
        "make_candidate e elapsed decline (as_positive s) i item = Inr (candidate, positive, flags)"
      by (auto split: sum.splits)
    from Some b 2(3) have rest: "scan_objects e elapsed decline items
        (s\<lparr>as_candidates := as_candidates s @ [candidate], as_blockers := as_blockers s @ blockers,
           as_positive := positive, as_flags := as_flags s @ flags\<rparr>) = Inr s'" by simp
    have id: "ac_id candidate = i" using make_candidate_id [OF b(2)] .
    note ih = 2(2) [OF Some b(1) b(2) refl refl rest]
    have kept: "as_blockers s' = [] \<Longrightarrow> identity_kept e i item" using ih b(1) no_blockers by auto
    from ih Some kept id show ?thesis by fastforce
  qed
qed simp

lemma reshare_simps [simp]:
  "ac_id (reshare growth c) = ac_id c" "ac_confidence (reshare growth c) = ac_confidence c"
  "ac_host_contribution (reshare growth c) = ac_host_contribution c"
  by (simp_all add: reshare_def Let_def split: option.splits)

text \<open>Later rows of the ranking, also after filtering, do not score higher.\<close>

lemma ranked_scores: "sorted_wrt (\<lambda>a b. ac_score b \<le> ac_score a) (filter P (rank_candidates cs))"
proof -
  have "sorted (map (\<lambda>c. (- ac_score c, ac_id c)) (rank_candidates cs))" by (simp add: rank_candidates_def)
  then have "sorted_wrt (\<lambda>a b. ac_score b \<le> ac_score a) (rank_candidates cs)"
    unfolding sorted_map by (rule sorted_wrt_mono_rel [rotated]) (auto simp: less_eq_prod_def)
  then show ?thesis by (rule sorted_wrt_filter)
qed

lemma verdict_confirmed:
  assumes "attribution_verdict policy degraded blockers valid = (''TARGET_CONFIRMED'', target, reasons)"
    and "sorted_wrt (\<lambda>a b. ac_score b \<le> ac_score a) valid"
  shows "\<not> degraded \<and> blockers = [] \<and> (\<exists>t. target = Some t \<and> t \<in> set valid \<and>
    (\<forall>c \<in> set valid. c = t \<or> ac_score c + ap_min_lead_margin policy \<le> ac_score t))"
proof (cases valid)
  case (Cons t rest)
  show ?thesis
  proof (cases rest)
    case (Cons u others)
    have v: "\<not> degraded" "blockers = []" "target = Some t" "ap_min_lead_margin policy \<le> ac_score t - ac_score u"
      using \<open>valid = t # rest\<close> Cons assms(1) by (auto simp: attribution_verdict_def split: if_splits)
    have "ac_score c \<le> ac_score u" if "c \<in> set rest" for c
      using \<open>valid = t # rest\<close> Cons assms(2) that by auto
    then have "c = t \<or> ac_score c + ap_min_lead_margin policy \<le> ac_score t" if "c \<in> set valid" for c
      using \<open>valid = t # rest\<close> v(4) that by fastforce
    with v \<open>valid = t # rest\<close> show ?thesis by auto
  qed (use Cons assms(1) in \<open>auto simp: attribution_verdict_def split: if_splits\<close>)
qed (use assms(1) in \<open>auto simp: attribution_verdict_def split: if_splits\<close>)

section \<open>Properties\<close>

text \<open>
  C27. A target is confirmed only on a healthy registry, with an earlier sample and no quality flag;
  it is a high-confidence candidate that contributes at least the minimum, leads every other
  valid candidate by the margin, and belongs to an object that kept its name and cgroup.
\<close>
theorem attribution_confirms_leader:
  assumes "evaluate_attribution rep host_observation registry now e = (Inr r, e')"
    and "at_state r = ''TARGET_CONFIRMED''"
  shows "at_quality_flags r = [] \<and> dget registry ''status'' = PStr ''ok'' \<and> ev_previous_objects e \<noteq> [] \<and>
    (\<exists>t item. at_target r = Some t \<and> t \<in> set (at_candidates r) \<and> valid_candidate (ev_policy e) t \<and>
       (\<forall>c \<in> set (at_candidates r). c = t \<or> \<not> valid_candidate (ev_policy e) c \<or>
          ac_score c + ap_min_lead_margin (ev_policy e) \<le> ac_score t) \<and>
       PDict item \<in> set (list_value (dget registry ''objects'')) \<and> dget item ''id'' = PStr (ac_id t) \<and>
       identity_kept e (ac_id t) item)"
proof -
  let ?objects = "map mapping_of (filter is_dict (list_value (dget registry ''objects'')))"
  let ?elapsed = "map_option (\<lambda>before. now - before) (ev_previous_timestamp e)"
  let ?decline = "host_decline_rate e (as_int (dget (mapping_of (dget host_observation ''memory'')) ''available_bytes'')) ?elapsed"
  let ?start = "\<lambda>reasons. \<lparr>as_candidates = [], as_blockers = [], as_positive = [],
      as_flags = quality_of_clock e (dget host_observation ''observed_monotonic_ns'') now, as_reasons = reasons\<rparr>"
  let ?flags = "\<lambda>s. as_flags s @ (if opt_holds (\<lambda>dt. dt \<le> 0) ?elapsed then [''attribution_elapsed_missing''] else [])"
  let ?degraded = "\<lambda>s. ?flags s \<noteq> [] \<or> dget registry ''status'' \<noteq> PStr ''ok'' \<or> ev_previous_objects e = []"
  let ?valid = "\<lambda>s. filter (valid_candidate (ev_policy e)) (rank_candidates (as_candidates s))"
  obtain reasons where reasons: "registry_reasons rep registry ?objects = Inr reasons"
    using assms(1) by (cases "registry_reasons rep registry ?objects") (simp_all add: evaluate_attribution_def Let_def)
  obtain s where scan: "scan_objects e ?elapsed ?decline ?objects (?start reasons) = Inr s"
    using assms(1) reasons
    by (cases "scan_objects e ?elapsed ?decline ?objects (?start reasons)") (simp_all add: evaluate_attribution_def Let_def)
  obtain state target why where
    decided: "attribution_verdict (ev_policy e) (?degraded s) (as_blockers s) (?valid s) = (state, target, why)"
    by (rule prod_cases3)
  have r: "at_candidates r = rank_candidates (as_candidates s)" "at_quality_flags r = sorted_set (?flags s)"
    "at_target r = target" "at_state r = state"
    using assms(1) unfolding evaluate_attribution_def Let_def reasons sum.case scan decided prod.case by auto
  then have verdict: "attribution_verdict (ev_policy e) (?degraded s) (as_blockers s) (?valid s) =
      (''TARGET_CONFIRMED'', at_target r, why)"
    using decided assms(2) by simp
  note v = verdict_confirmed [OF verdict ranked_scores]
  then obtain t where t: "at_target r = Some t" "t \<in> set (rank_candidates (as_candidates s))"
    "valid_candidate (ev_policy e) t"
    "\<forall>c \<in> set (filter (valid_candidate (ev_policy e)) (rank_candidates (as_candidates s))).
       c = t \<or> ac_score c + ap_min_lead_margin (ev_policy e) \<le> ac_score t" by auto
  obtain c where c: "c \<in> set (as_candidates s)" "ac_id c = ac_id t" using t(2) by (auto simp: rank_candidates_def)
  have "as_blockers s = []" using v by blast
  then have "\<forall>c \<in> set (as_candidates s). \<exists>item \<in> set ?objects. dget item ''id'' = PStr (ac_id c) \<and> identity_kept e (ac_id c) item"
    using scan_objects_sound [OF scan] by (simp del: set_map)
  with c obtain item where
    item: "item \<in> set ?objects" "dget item ''id'' = PStr (ac_id t)" "identity_kept e (ac_id t) item" by metis
  have "is_dict x \<Longrightarrow> x = PDict (mapping_of x)" for x by (cases x) simp_all
  with item(1) have "PDict item \<in> set (list_value (dget registry ''objects''))" by force
  with t item v r show ?thesis by auto
qed

text \<open>Two samples of one container that takes what the host loses.\<close>

definition sample_host :: "int \<Rightarrow> pydict" where
  "sample_host available =
     [(''memory'', PDict [(''available_bytes'', PInt available)]), (''observed_monotonic_ns'', PInt 1)]"

definition sample_registry :: "int \<Rightarrow> pydict" where
  "sample_registry current =
     [(''status'', PStr ''ok''),
      (''objects'', PList [PDict [(''id'', PStr ''c1''), (''name'', PStr ''web''), (''cgroup_path'', PStr ''/docker/c1''),
         (''mapping_confidence'', PStr ''high''), (''mapping_errors'', PList []), (''memory_current_bytes'', PInt current),
         (''memory_events'', PDict [(''oom'', PInt 0), (''oom_kill'', PInt 0)])]])]"

definition first_sample :: attribution_evaluator where
  "first_sample =
     snd (evaluate_attribution (\<lambda>_. []) (sample_host 1000) (sample_registry 100) 10 (new_attribution default_attribution_policy))"

definition second_sample :: "(py_exn + attribution_result) \<times> attribution_evaluator" where
  "second_sample = evaluate_attribution (\<lambda>_. []) (sample_host 900) (sample_registry 180) 15 first_sample"

lemma second_sample_confirms: "(case fst second_sample of Inl _ \<Rightarrow> False | Inr r \<Rightarrow> at_state r = ''TARGET_CONFIRMED'')"
  by code_simp

theorem attribution_confirms_leader_witness:
  "\<exists>r t. fst second_sample = Inr r \<and> at_target r = Some t \<and> valid_candidate (ev_policy first_sample) t"
proof -
  obtain r where r: "fst second_sample = Inr r" "at_state r = ''TARGET_CONFIRMED''"
    using second_sample_confirms by (auto split: sum.splits)
  then have "evaluate_attribution (\<lambda>_. []) (sample_host 900) (sample_registry 180) 15 first_sample = (Inr r, snd second_sample)"
    by (metis prod.collapse second_sample_def)
  from attribution_confirms_leader [OF this r(2)] r(1) show ?thesis by auto
qed

end
