(* ===== verification/Guardian_Cpu.thy ===== *)
theory Guardian_Cpu
  imports Guardian_Dwell Guardian_Attribution
begin

text \<open>
  The CPU engine (\<open>src/guardian_cpu.py\<close>): the procfs and cgroup parsers, the sample, the risk
  evaluator and the attribution to a cgroup.  File contents, the text of a path, the clock and the
  outcome of the scheduler probe's sleep are arguments.  Policies are typed; \<open>cpu_policy_from_config\<close>
  only copies validated numbers.  \<open>Inl\<close> is an exception a malformed sample provokes; the state then
  has the updates made before it.
\<close>

section \<open>Parsers\<close>

definition CPU_FIELDS :: "string list" where
  "CPU_FIELDS = [''user'', ''nice'', ''system'', ''idle'', ''iowait'', ''irq'', ''softirq'', ''steal'', ''guest'', ''guest_nice'']"

text \<open>\<open>str.isdigit\<close>: the superscript digits pass too.\<close>

definition py_isdigit :: "string \<Rightarrow> bool" where
  "py_isdigit s = (s \<noteq> [] \<and> list_all (\<lambda>c. is_digit c \<or> of_char c \<in> {178 :: nat, 179, 185}) s)"

definition cpu_values :: "string list \<Rightarrow> (string \<times> int) list" where
  "cpu_values raws =
     map (\<lambda>(name, raw). (name, case parse_int raw of None \<Rightarrow> 0 | Some n \<Rightarrow> n)) (zip CPU_FIELDS raws)"

definition counter :: "(string \<times> int) list \<Rightarrow> string \<Rightarrow> int" where
  "counter values k = (case map_of values k of None \<Rightarrow> 0 | Some n \<Rightarrow> n)"

definition stat_line :: "string \<Rightarrow> (string \<times> (string \<times> int) list) option" where
  "stat_line line =
     (case py_split line of
        [] \<Rightarrow> None
      | name # raws \<Rightarrow>
          if name \<noteq> ''cpu'' \<and> \<not> prefix ''cpu'' name then None
          else if name \<noteq> ''cpu'' \<and> \<not> py_isdigit (drop 3 name) then None
          else
            (let values = cpu_values raws
             in if values = [] then None
                else Some (name, values @ [(''total_ticks'', sum_list (map snd values)),
                                           (''idle_ticks'', counter values ''idle'' + counter values ''iowait'')])))"

record proc_stat =
  st_aggregate :: "(string \<times> int) list"
  st_logical_cpus :: nat

definition parse_proc_stat :: "string \<Rightarrow> proc_stat" where
  "parse_proc_stat text =
     (let cpus = fold (\<lambda>line acc. case stat_line line of None \<Rightarrow> acc | Some (name, values) \<Rightarrow> dset acc name values)
            (splitlines text) []
      in \<lparr>st_aggregate = (case map_of cpus ''cpu'' of None \<Rightarrow> [] | Some v \<Rightarrow> v),
          st_logical_cpus = length (filter (\<lambda>(name, _). name \<noteq> ''cpu'') cpus)\<rparr>)"

record loadavg =
  la_load1 :: "pyfloat option"
  la_runnable :: "int option"
  la_total_tasks :: "int option"
  la_last_pid :: "int option"

text \<open>The left number of \<open>3/120\<close> is kept even when the right one is not a number.\<close>

definition parse_loadavg :: "string \<Rightarrow> loadavg" where
  "parse_loadavg text =
     (let fields = py_split text;
          (left, slash, right) = (if 3 < length fields then py_partition CHR ''/'' (fields ! 3) else ([], False, []));
          runnable = (if slash then parse_int left else None)
      in \<lparr>la_load1 = (case fields of [] \<Rightarrow> None | f # _ \<Rightarrow> parse_float f),
          la_runnable = runnable,
          la_total_tasks = (if runnable = None then None else parse_int right),
          la_last_pid = (if 4 < length fields then parse_int (fields ! 4) else None)\<rparr>)"

definition psi_pairs :: "string list \<Rightarrow> (string \<times> pyfloat) list" where
  "psi_pairs items =
     fold (\<lambda>field acc. case py_partition CHR ''='' field of (key, eq, raw) \<Rightarrow>
             (case (if eq then parse_float raw else None) of None \<Rightarrow> acc | Some f \<Rightarrow> dset acc key f)) items []"

definition parse_cpu_psi :: "string \<Rightarrow> (string \<times> (string \<times> pyfloat) list) list" where
  "parse_cpu_psi text =
     fold (\<lambda>line acc. case py_split line of [] \<Rightarrow> acc | name # rest \<Rightarrow> dset acc name (psi_pairs rest)) (splitlines text) []"

definition parse_cpu_stat :: "string \<Rightarrow> (string \<times> int) list" where
  "parse_cpu_stat text = parse_counter_lines (splitlines text) []"

record cpu_max =
  cm_quota_us :: "int option"
  cm_period_us :: "int option"
  cm_valid :: bool

definition parse_cpu_max :: "string \<Rightarrow> cpu_max" where
  "parse_cpu_max text =
     (let invalid = \<lparr>cm_quota_us = None, cm_period_us = None, cm_valid = False\<rparr>
      in case py_split text of
           [quota, period] \<Rightarrow>
             (if quota \<noteq> ''max'' \<and> parse_int quota = None then invalid
              else (case parse_int period of
                  None \<Rightarrow> invalid
                | Some p \<Rightarrow> \<lparr>cm_quota_us = (if quota = ''max'' then None else parse_int quota), cm_period_us = Some p, cm_valid = 0 < p\<rparr>))
         | _ \<Rightarrow> invalid)"

section \<open>The sample\<close>

text \<open>The scheduler probe: the sleep's error text or the nanoseconds it took.\<close>

definition scheduler_probe :: "rat \<Rightarrow> string + int \<Rightarrow> pydict" where
  "scheduler_probe requested_ms outcome =
     (if requested_ms \<le> 0 then [(''valid'', PBool False), (''error'', PStr ''requested_sleep_must_be_positive'')]
      else case outcome of
          Inl error \<Rightarrow> [(''valid'', PBool False), (''error'', PStr error)]
        | Inr ns \<Rightarrow>
            (let elapsed = of_int ns / 1000000
             in [(''valid'', PBool True), (''requested_sleep_ms'', PFloat (Fin requested_ms)),
                 (''elapsed_ms'', PFloat (Fin (round_digits 3 elapsed))),
                 (''overshoot_ms'', PFloat (Fin (round_digits 3 (max (elapsed - requested_ms) 0))))]))"

definition text_or_empty :: "string option \<Rightarrow> string" where
  "text_or_empty raw = (case raw of None \<Rightarrow> [] | Some t \<Rightarrow> t)"

definition int_dict :: "(string \<times> int) list \<Rightarrow> pyval" where
  "int_dict d = PDict (map (map_prod id PInt) d)"

definition psi_dict :: "(string \<times> (string \<times> pyfloat) list) list \<Rightarrow> pyval" where
  "psi_dict d = PDict (map (map_prod id (\<lambda>s. PDict (map (map_prod id PFloat) s))) d)"

definition cpu_max_dict :: "cpu_max \<Rightarrow> pyval" where
  "cpu_max_dict m = PDict [(''quota_us'', opt_val PInt (cm_quota_us m)), (''period_us'', opt_val PInt (cm_period_us m)),
     (''valid'', PBool (cm_valid m))]"

definition quality_status :: "string list \<Rightarrow> pyval" where
  "quality_status flags = PStr (if flags = [] then ''ok'' else ''degraded'')"

definition str_list :: "string list \<Rightarrow> pyval" where
  "str_list xs = PList (map PStr xs)"

record cgroup_files =
  cf_stat :: "string option"
  cf_max :: "string option"
  cf_pressure :: "string option"

definition cgroup_flags :: "cgroup_files \<Rightarrow> string list" where
  "cgroup_flags f = (if cf_stat f = None then [''cpu_stat_missing''] else []) @
     (if cf_pressure f = None then [''cpu_pressure_missing''] else [])"

definition cgroup_cpu :: "string \<Rightarrow> cgroup_files \<Rightarrow> pydict" where
  "cgroup_cpu path f =
     [(''path'', PStr path),
      (''cpu_stat'', int_dict (parse_cpu_stat (text_or_empty (cf_stat f)))),
      (''cpu_max'', cpu_max_dict (parse_cpu_max (text_or_empty (cf_max f)))),
      (''psi'', psi_dict (parse_cpu_psi (text_or_empty (cf_pressure f)))),
      (''quality'', PDict [(''status'', quality_status (cgroup_flags f)), (''flags'', str_list (cgroup_flags f)),
         (''optional_flags'', str_list (if cf_max f = None then [''cpu_max_missing''] else []))])]"

text \<open>One registry record; the files are those of the normalised path.\<close>

definition sample_object :: "(string \<Rightarrow> string \<times> cgroup_files) \<Rightarrow> pydict \<Rightarrow> pyval" where
  "sample_object open_cgroup item =
     (let path = as_nonempty_str (dget item ''cgroup_path'');
          cgroup = (case path of
             None \<Rightarrow> [(''path'', PNone), (''cpu_stat'', PDict []),
                      (''cpu_max'', cpu_max_dict \<lparr>cm_quota_us = None, cm_period_us = None, cm_valid = False\<rparr>), (''psi'', PDict [])]
           | Some p \<Rightarrow> cgroup_cpu (fst (open_cgroup p)) (snd (open_cgroup p)));
          flags = (case path of None \<Rightarrow> [''object_cgroup_path_missing''] | Some p \<Rightarrow> cgroup_flags (snd (open_cgroup p)))
      in PDict [(''kind'', dget_default item ''kind'' (PStr ''container'')), (''id'', dget item ''id''), (''name'', dget item ''name''),
           (''cgroup_path'', dget cgroup ''path''), (''mapping_confidence'', dget_default item ''mapping_confidence'' (PStr ''low'')),
           (''mapping_errors'', case dget item ''mapping_errors'' of PList es \<Rightarrow> PList es | _ \<Rightarrow> PList []),
           (''cpu_stat'', dget cgroup ''cpu_stat''), (''cpu_max'', dget cgroup ''cpu_max''), (''psi'', dget cgroup ''psi''),
           (''quality'', PDict [(''status'', quality_status flags), (''flags'', str_list flags)])])"

record host_files =
  hf_stat :: "string option"
  hf_loadavg :: "string option"
  hf_pressure :: "string option"

definition collect_cpu_sample ::
  "host_files \<Rightarrow> string \<times> cgroup_files \<Rightarrow> (string \<Rightarrow> string \<times> cgroup_files) \<Rightarrow> pyval list \<Rightarrow> pydict \<Rightarrow> int option \<Rightarrow> int \<Rightarrow> pydict" where
  "collect_cpu_sample host top_cgroup open_cgroup registry probe cpu_count ns =
     (let stat = parse_proc_stat (text_or_empty (hf_stat host));
          load = parse_loadavg (text_or_empty (hf_loadavg host));
          pressure = parse_cpu_psi (text_or_empty (hf_pressure host));
          flags = (if st_aggregate stat = [] then [''proc_stat_missing''] else []) @
            (if la_load1 load = None then [''loadavg_missing''] else []) @
            (if pressure = [] then [''cpu_pressure_missing''] else []) @
            concat (map (\<lambda>item. if is_dict item then [] else [''cpu_object_record_invalid'']) registry) @
            cgroup_flags (snd top_cgroup) @
            (if py_truthy (dget probe ''valid'') then [] else [''scheduler_probe_failed'']);
          logical = (if st_logical_cpus stat \<noteq> 0 then int (st_logical_cpus stat)
                     else case cpu_count of None \<Rightarrow> 1 | Some n \<Rightarrow> if n = 0 then 1 else n)
      in [(''observed_monotonic_ns'', PInt ns),
          (''host'', PDict
             [(''stat'', PDict [(''aggregate'', int_dict (st_aggregate stat)), (''logical_cpus'', PInt (int (st_logical_cpus stat))),
                 (''valid'', PBool (st_aggregate stat \<noteq> []))]),
              (''loadavg'', PDict [(''load1'', opt_val PFloat (la_load1 load)), (''runnable_tasks'', opt_val PInt (la_runnable load)),
                 (''total_tasks'', opt_val PInt (la_total_tasks load)), (''last_pid'', opt_val PInt (la_last_pid load)),
                 (''valid'', PBool (la_load1 load \<noteq> None))]),
              (''logical_cpus'', PInt logical)]),
          (''psi'', psi_dict pressure),
          (''cgroup'', PDict (cgroup_cpu (fst top_cgroup) (snd top_cgroup))),
          (''scheduler_probe'', PDict probe),
          (''objects'', PList (map (\<lambda>item. sample_object open_cgroup (mapping_of item)) (filter is_dict registry))),
          (''quality'', PDict [(''status'', quality_status flags), (''flags'', str_list (sorted_set flags))])])"

section \<open>The risk evaluator\<close>

record cpu_policy =
  cp_warning_utilization :: pyfloat
  cp_critical_utilization :: pyfloat
  cp_warning_psi_some :: pyfloat
  cp_critical_psi_full :: pyfloat
  cp_warning_scheduler_delay :: pyfloat
  cp_critical_scheduler_delay :: pyfloat
  cp_warning_for :: pyfloat
  cp_critical_for :: pyfloat
  cp_required_samples :: int
  cp_max_sample_age :: pyfloat

definition default_cpu_policy :: cpu_policy where
  "default_cpu_policy =
     \<lparr>cp_warning_utilization = Fin 85, cp_critical_utilization = Fin 95, cp_warning_psi_some = Fin 1,
      cp_critical_psi_full = Fin (1 / 2), cp_warning_scheduler_delay = Fin 250, cp_critical_scheduler_delay = Fin 1000,
      cp_warning_for = Fin 30, cp_critical_for = Fin 10, cp_required_samples = 2, cp_max_sample_age = Fin 15\<rparr>"

record cpu_evaluator =
  ce_policy :: cpu_policy
  ce_previous_stat :: "pydict option"
  ce_previous_ns :: "int option"
  ce_dwell :: dwell
  ce_sample_count :: int
  ce_previous_cgroup :: pydict

definition new_cpu_evaluator :: "cpu_policy \<Rightarrow> cpu_evaluator" where
  "new_cpu_evaluator policy =
     \<lparr>ce_policy = policy, ce_previous_stat = None, ce_previous_ns = None, ce_dwell = new_dwell, ce_sample_count = 0,
      ce_previous_cgroup = []\<rparr>"

record cpu_risk =
  ck_state :: string
  ck_candidate :: string
  ck_candidate_for :: rat
  ck_required_for :: pyfloat
  ck_reasons :: "string list"
  ck_quality_flags :: "string list"
  ck_sample_count :: int
  ck_utilization :: "rat option"
  ck_load1 :: "pyfloat option"
  ck_logical_cpus :: int
  ck_psi_some :: "pyfloat option"
  ck_psi_full :: "pyfloat option"
  ck_scheduler_delay :: "pyfloat option"
  ck_throttled_delta :: "int option"
  ck_warning_signals :: "string list"
  ck_critical_support :: "string list"

definition cpu_quality_section :: "(pyval \<Rightarrow> string) \<Rightarrow> pydict \<Rightarrow> string list" where
  "cpu_quality_section rep sample =
     (case dget sample ''quality'' of
        PDict quality \<Rightarrow>
          (case dget_default quality ''flags'' (PList []) of
             PList raw \<Rightarrow> flag_texts rep raw
           | _ \<Rightarrow> [''cpu_quality_flags_invalid''])
      | _ \<Rightarrow> [''cpu_quality_missing''])"

definition cpu_clock_flags :: "cpu_policy \<Rightarrow> int option \<Rightarrow> rat option \<Rightarrow> string list" where
  "cpu_clock_flags policy ns elapsed =
     (if ns = None then [''cpu_monotonic_timestamp_missing''] else []) @
     (case elapsed of
        None \<Rightarrow> []
      | Some dt \<Rightarrow> if dt \<le> 0 then [''cpu_monotonic_clock_not_increasing'']
                   else if flt (cp_max_sample_age policy) (Fin dt) then [''cpu_sample_gap_too_large''] else [])"

text \<open>\<open>int(stat.get(key, 0))\<close>; a value without \<open>get\<close> raises.\<close>

fun stat_ticks :: "pyval \<Rightarrow> string \<Rightarrow> py_exn + int" where
  "stat_ticks (PDict stat) key = py_int (dget_default stat key (PInt 0))"
| "stat_ticks _ key = Inl AttributeError"

definition utilization_of :: "int \<Rightarrow> int \<Rightarrow> rat" where
  "utilization_of total_delta idle_delta =
     round_digits 3 (max (min (of_int (total_delta - idle_delta) / of_int total_delta * 100) 100) 0)"

text \<open>The flags and reasons of the tick counters, and the utilisation.\<close>

definition utilization_section ::
  "pydict option \<Rightarrow> rat option \<Rightarrow> pyval \<Rightarrow> py_exn + (string list \<times> string list \<times> rat option)" where
  "utilization_section previous elapsed current =
     (case previous of
        None \<Rightarrow> Inr ([], [''cpu_counter_baseline_established''], None)
      | Some old \<Rightarrow>
          if \<not> opt_holds (\<lambda>dt. 0 < dt) elapsed then Inr ([''cpu_elapsed_missing''], [], None)
          else
            sum_bind (stat_ticks current ''total_ticks'') (\<lambda>total.
            sum_bind (stat_ticks (PDict old) ''total_ticks'') (\<lambda>old_total.
            sum_bind (stat_ticks current ''idle_ticks'') (\<lambda>idle.
            sum_bind (stat_ticks (PDict old) ''idle_ticks'') (\<lambda>old_idle.
              Inr (if total - old_total \<le> 0 \<or> idle - old_idle < 0 then ([''cpu_counter_reset_or_invalid''], [], None)
                   else ([], [], Some (utilization_of (total - old_total) (idle - old_idle)))))))))"

definition logical_cpu_count :: "pydict \<Rightarrow> int option" where
  "logical_cpu_count host =
     (case int_like (dget host ''logical_cpus'') of None \<Rightarrow> None | Some n \<Rightarrow> if n \<le> 0 then None else Some n)"

definition psi_value :: "pydict \<Rightarrow> string \<Rightarrow> string \<Rightarrow> pyfloat option" where
  "psi_value sample stall key =
     (case dget (mapping_of (dget sample ''psi'')) stall of PDict s \<Rightarrow> number (dget s key) | _ \<Rightarrow> None)"

text \<open>The throttling counter of the own cgroup: flags and delta.\<close>

definition throttle_section :: "bool \<Rightarrow> pydict \<Rightarrow> pydict \<Rightarrow> string list \<times> int option" where
  "throttle_section has_previous old current =
     (if \<not> has_previous then ([], None)
      else case (int_like (dget current ''nr_throttled''), int_like (dget old ''nr_throttled'')) of
          (Some n, Some p) \<Rightarrow> if n < p then ([''cgroup_throttle_counter_reset''], None) else ([], Some (n - p))
        | _ \<Rightarrow> ([], None))"

definition DIRECT_HOST_CRITICAL :: "string list" where
  "DIRECT_HOST_CRITICAL = [''cpu_utilization_critical'', ''cpu_psi_full_critical'', ''scheduler_delay_critical'', ''cpu_load_critical'']"

definition cpu_candidate :: "string list \<Rightarrow> string list \<Rightarrow> string" where
  "cpu_candidate warning_signals critical_support =
     (if list_ex (\<lambda>c. c \<in> set DIRECT_HOST_CRITICAL) critical_support then ''critical''
      else if warning_signals \<noteq> [] \<or> critical_support \<noteq> [] then ''warning'' else ''normal'')"

text \<open>Everything the method reads off one sample before it decides the state.\<close>

record cpu_signals =
  cs_flags :: "string list"
  cs_reasons :: "string list"
  cs_warning :: "string list"
  cs_critical :: "string list"
  cs_logical :: int
  cs_load1 :: "pyfloat option"
  cs_some :: "pyfloat option"
  cs_full :: "pyfloat option"
  cs_delay :: "pyfloat option"
  cs_throttled :: "int option"

definition cgroup_stat :: "pydict \<Rightarrow> pydict" where
  "cgroup_stat sample = mapping_of (dget (mapping_of (dget sample ''cgroup'')) ''cpu_stat'')"

definition cpu_signals ::
  "(pyval \<Rightarrow> string) \<Rightarrow> pydict \<Rightarrow> cpu_evaluator \<Rightarrow> string list \<times> string list \<times> rat option \<Rightarrow> cpu_signals" where
  "cpu_signals rep sample e ticks =
     (let (tick_flags, tick_reasons, utilization) = ticks;
          policy = ce_policy e; host = mapping_of (dget sample ''host'');
          ns = as_int (dget sample ''observed_monotonic_ns'');
          cpus = logical_cpu_count host;
          logical = (case cpus of None \<Rightarrow> 1 | Some n \<Rightarrow> n);
          load1 = number (dget (mapping_of (dget host ''loadavg'')) ''load1'');
          some_avg = psi_value sample ''some'' ''avg10''; full_avg = psi_value sample ''full'' ''avg10'';
          delay = number (dget (mapping_of (dget sample ''scheduler_probe'')) ''elapsed_ms'');
          (throttle_flags, throttled) = throttle_section (ce_previous_stat e \<noteq> None) (ce_previous_cgroup e) (cgroup_stat sample);
          (use_w, use_c) = two_level (fle (cp_critical_utilization policy)) ''cpu_utilization_critical''
             (fle (cp_warning_utilization policy)) ''cpu_utilization_warning'' (map_option Fin utilization);
          some_w = (if opt_holds (fle (cp_warning_psi_some policy)) some_avg then [''cpu_psi_some_warning''] else []);
          full_c = (if opt_holds (fle (cp_critical_psi_full policy)) full_avg then [''cpu_psi_full_critical''] else []);
          (delay_w, delay_c) = two_level (fle (cp_critical_scheduler_delay policy)) ''scheduler_delay_critical''
             (fle (cp_warning_scheduler_delay policy)) ''scheduler_delay_warning'' delay;
          (load_w, load_c) = two_level (fle (Fin (of_int logical * 2))) ''cpu_load_critical''
             (fle (Fin (of_int logical * (3 / 2)))) ''cpu_load_warning'' load1;
          throttle_c = (if opt_holds (\<lambda>n. 0 < n) throttled then [''cgroup_cpu_throttled''] else []);
          warning_signals = use_w @ some_w @ delay_w @ load_w;
          critical_support = use_c @ full_c @ delay_c @ load_c @ throttle_c;
          few = (if ce_sample_count e + 1 < cp_required_samples policy then [''insufficient_samples''] else [])
      in \<lparr>cs_flags = cpu_quality_section rep sample @ cpu_clock_flags policy ns (elapsed_seconds (ce_previous_ns e) ns) @ tick_flags @
            (if cpus = None then [''logical_cpu_count_missing''] else []) @
            (if load1 = None then [''load1_missing''] else []) @
            (if some_avg = None \<or> full_avg = None then [''cpu_psi_avg10_missing''] else []) @ throttle_flags @ few,
          cs_reasons = tick_reasons @ warning_signals @ critical_support @ few,
          cs_warning = warning_signals, cs_critical = critical_support, cs_logical = logical, cs_load1 = load1,
          cs_some = some_avg, cs_full = full_avg, cs_delay = delay, cs_throttled = throttled\<rparr>)"

text \<open>The counters of the host, and the state once the tick counters have been read.\<close>

definition current_stat :: "pydict \<Rightarrow> pyval" where
  "current_stat sample =
     (case dget (mapping_of (dget sample ''host'')) ''stat'' of PDict w \<Rightarrow> dget w ''aggregate'' | _ \<Rightarrow> PDict [])"

definition begin_sample :: "pydict \<Rightarrow> cpu_evaluator \<Rightarrow> cpu_evaluator" where
  "begin_sample sample e =
     (let ns = as_int (dget sample ''observed_monotonic_ns'')
      in e\<lparr>ce_sample_count := ce_sample_count e + 1, ce_previous_ns := (if ns = None then ce_previous_ns e else ns)\<rparr>)"

definition evaluate_cpu ::
  "(pyval \<Rightarrow> string) \<Rightarrow> pydict \<Rightarrow> rat \<Rightarrow> cpu_evaluator \<Rightarrow> (py_exn + cpu_risk) \<times> cpu_evaluator" where
  "evaluate_cpu rep sample now e =
     (let elapsed = elapsed_seconds (ce_previous_ns e) (as_int (dget sample ''observed_monotonic_ns''));
          wfor = cp_warning_for (ce_policy e); cfor = cp_critical_for (ce_policy e)
      in case utilization_section (ce_previous_stat e) elapsed (current_stat sample) of
           Inl x \<Rightarrow> (Inl x, begin_sample sample e)
         | Inr ticks \<Rightarrow>
             (let sg = cpu_signals rep sample e ticks;
                  candidate = cpu_candidate (cs_warning sg) (cs_critical sg);
                  flagged = (cs_flags sg \<noteq> []);
                  next_dwell = dwell_next wfor cfor flagged candidate now (ce_dwell e)
              in (Inr \<lparr>ck_state = fst next_dwell, ck_candidate = candidate,
                    ck_candidate_for = round_digits 3 (max (now - dwell_start (ce_dwell e) candidate now) 0),
                    ck_required_for = (if flagged then Fin 0 else required_dwell wfor cfor candidate),
                    ck_reasons = sorted_set (cs_reasons sg), ck_quality_flags = sorted_set (cs_flags sg),
                    ck_sample_count = ce_sample_count e + 1, ck_utilization = snd (snd ticks),
                    ck_load1 = cs_load1 sg, ck_logical_cpus = cs_logical sg, ck_psi_some = cs_some sg, ck_psi_full = cs_full sg,
                    ck_scheduler_delay = cs_delay sg, ck_throttled_delta = cs_throttled sg,
                    ck_warning_signals = sorted_set (cs_warning sg), ck_critical_support = sorted_set (cs_critical sg)\<rparr>,
                  (begin_sample sample e)
                    \<lparr>ce_previous_stat := (if is_dict (current_stat sample) then Some (mapping_of (current_stat sample)) else None),
                     ce_dwell := snd next_dwell, ce_previous_cgroup := cgroup_stat sample\<rparr>)))"

section \<open>Attribution\<close>

record cpu_attribution_policy =
  cap_min_share :: pyfloat
  cap_min_lead :: pyfloat
  cap_max_sample_age :: pyfloat

definition default_cpu_attribution :: cpu_attribution_policy where
  "default_cpu_attribution = \<lparr>cap_min_share = Fin 20, cap_min_lead = Fin (15 / 100), cap_max_sample_age = Fin 15\<rparr>"

record cpu_attributor =
  ca_policy :: cpu_attribution_policy
  ca_previous_objects :: "(string \<times> pydict) list"
  ca_previous_ns :: "int option"

definition new_cpu_attributor :: "cpu_attribution_policy \<Rightarrow> cpu_attributor" where
  "new_cpu_attributor policy = \<lparr>ca_policy = policy, ca_previous_objects = [], ca_previous_ns = None\<rparr>"

record cpu_object =
  co_kind :: pyval
  co_id :: string
  co_name :: pyval
  co_path :: string
  co_confidence :: pyval
  co_errors :: "pyval list"
  co_delta :: "int option"
  co_share :: "rat option"

record cpu_attribution =
  cr_state :: string
  cr_target :: "(cpu_object \<times> rat) option"
  cr_candidates :: "cpu_object list"
  cr_reasons :: "string list"
  cr_quality_flags :: "string list"
  cr_elapsed :: "rat option"

text \<open>The growth of one usage counter; \<open>Inl\<close> when it went backwards.\<close>

definition usage_delta :: "rat option \<Rightarrow> pyval \<Rightarrow> pyval \<Rightarrow> string + int option" where
  "usage_delta elapsed current previous =
     (if \<not> opt_holds (\<lambda>dt. 0 < dt) elapsed then Inr None
      else case (int_like current, int_like previous) of
          (Some n, Some p) \<Rightarrow> if n < p then Inl ''cpu_usage_counter_reset'' else Inr (Some (n - p))
        | _ \<Rightarrow> Inr None)"

text \<open>What the loop does with one object: reasons, quality flags, identity blockers, candidate.\<close>

definition cpu_row ::
  "(string \<times> pydict) list \<Rightarrow> rat option \<Rightarrow> pydict \<Rightarrow> string list \<times> string list \<times> string list \<times> cpu_object option" where
  "cpu_row previous_objects elapsed item =
     (case (as_nonempty_str (dget item ''id''), as_nonempty_str (dget item ''cgroup_path'')) of
        (Some i, Some path) \<Rightarrow>
          (let previous = map_of previous_objects i;
               previous_path = (case previous of None \<Rightarrow> PStr path | Some p \<Rightarrow> dget p ''cgroup_path'');
               previous_usage = (case previous of None \<Rightarrow> PNone | Some p \<Rightarrow> dget (mapping_of (dget p ''cpu_stat'')) ''usage_usec'');
               delta = usage_delta elapsed (dget (mapping_of (dget item ''cpu_stat'')) ''usage_usec'') previous_usage
           in ([], case delta of Inl flag \<Rightarrow> [flag] | Inr _ \<Rightarrow> [],
               if previous_path \<noteq> PStr path then [''cpu_cgroup_path_changed''] else [],
               Some \<lparr>co_kind = dget_default item ''kind'' (PStr ''container''), co_id = i, co_name = dget item ''name'', co_path = path,
                     co_confidence = dget_default item ''mapping_confidence'' (PStr ''low''),
                     co_errors = list_value (dget item ''mapping_errors''),
                     co_delta = (case delta of Inl _ \<Rightarrow> None | Inr d \<Rightarrow> d), co_share = None\<rparr>))
      | _ \<Rightarrow> ([''cpu_stable_object_identity_missing''], [], [], None))"

definition cpu_shares :: "int \<Rightarrow> cpu_object list \<Rightarrow> cpu_object list" where
  "cpu_shares usage objects =
     (if usage \<le> 0 then objects
      else sort_key (\<lambda>c. - (case co_share c of None \<Rightarrow> 0 | Some s \<Rightarrow> s))
             (map (\<lambda>c. c\<lparr>co_share := map_option (\<lambda>d. round_digits 3 (of_int d / of_int usage * 100)) (co_delta c)\<rparr>) objects))"

definition share_of :: "cpu_object \<Rightarrow> rat" where
  "share_of c = (case co_share c of None \<Rightarrow> 0 | Some s \<Rightarrow> s)"

text \<open>The verdict on a ranked list: state, target with its lead, further reasons.\<close>

definition cpu_verdict ::
  "cpu_attribution_policy \<Rightarrow> int \<Rightarrow> cpu_object list \<Rightarrow> py_exn + (string \<times> (cpu_object \<times> rat) option \<times> string list)" where
  "cpu_verdict policy usage ranked =
     (if usage \<le> 0 then Inr (''NO_TARGET'', None, [''cpu_growth_not_observed''])
      else case ranked of
          [] \<Rightarrow> Inr (''DEGRADED_OBSERVABILITY'', None, [''cpu_target_mapping_unconfirmed''])
        | first # rest \<Rightarrow>
            (let lead = share_of first - (case rest of [] \<Rightarrow> 0 | second # _ \<Rightarrow> share_of second)
             in if co_errors first = [] \<and> \<not> hashable (co_confidence first) then Inl TypeError
                else if co_errors first \<noteq> [] \<or> \<not> str_in (co_confidence first) [''high'', ''medium'']
                  then Inr (''DEGRADED_OBSERVABILITY'', None, [''cpu_target_mapping_unconfirmed''])
                else if flt (Fin (share_of first)) (cap_min_share policy) then Inr (''NO_TARGET'', None, [''cpu_contribution_below_minimum''])
                else if flt (Fin lead) (fscale 100 (cap_min_lead policy))
                  then Inr (''AMBIGUOUS_TARGET'', None, [''cpu_candidate_lead_margin_too_small''])
                else Inr (''TARGET_CONFIRMED'', Some (first, round_digits 3 lead), [])))"

definition remember_objects :: "pydict list \<Rightarrow> (string \<times> pydict) list" where
  "remember_objects objects =
     fold (\<lambda>item acc. case as_nonempty_str (dget item ''id'') of None \<Rightarrow> acc | Some i \<Rightarrow> dset acc i item) objects []"

definition attribute_cpu :: "pydict \<Rightarrow> cpu_attributor \<Rightarrow> (py_exn + cpu_attribution) \<times> cpu_attributor" where
  "attribute_cpu sample a =
     (let ns = as_int (dget sample ''observed_monotonic_ns'');
          elapsed = elapsed_seconds (ca_previous_ns a) ns;
          objects = map mapping_of (filter is_dict (list_value (dget sample ''objects'')));
          rows = map (cpu_row (ca_previous_objects a) elapsed) objects;
          candidates = List.map_filter (\<lambda>(_, _, _, c). c) rows;
          usage = sum_list (map (\<lambda>c. case co_delta c of None \<Rightarrow> 0 | Some d \<Rightarrow> d) candidates);
          flags = (if ns = None then [''cpu_monotonic_timestamp_missing''] else []) @
            (if opt_holds (\<lambda>dt. dt \<le> 0 \<or> flt (cap_max_sample_age (ca_policy a)) (Fin dt)) elapsed
             then [''cpu_attribution_sample_gap_or_reset''] else []) @ concat (map (\<lambda>(_, f, _, _). f) rows);
          blockers = concat (map (\<lambda>(_, _, b, _). b) rows);
          reasons = (if objects = [] then [''cpu_object_registry_empty''] else []) @
            (if ca_previous_ns a = None then [''cpu_object_baseline_established''] else []) @ concat (map fst rows);
          ranked = cpu_shares usage candidates;
          result = (\<lambda>state target why. Inr \<lparr>cr_state = state, cr_target = target, cr_candidates = ranked,
             cr_reasons = sorted_set (reasons @ why), cr_quality_flags = sorted_set flags, cr_elapsed = elapsed\<rparr>)
      in (if flags \<noteq> [] \<or> elapsed = None then result ''DEGRADED_OBSERVABILITY'' None blockers
          else if blockers \<noteq> [] then result ''AMBIGUOUS_TARGET'' None blockers
          else sum_bind (cpu_verdict (ca_policy a) usage ranked) (\<lambda>(state, target, why). result state target why),
          a\<lparr>ca_previous_objects := remember_objects objects, ca_previous_ns := (if ns = None then ca_previous_ns a else ns)\<rparr>))"

section \<open>One evaluation\<close>

lemma begin_sample_simps [simp]:
  "ce_dwell (begin_sample sample e) = ce_dwell e" "ce_policy (begin_sample sample e) = ce_policy e"
  by (simp_all add: begin_sample_def Let_def)

lemma cpu_candidate_sorted [simp]: "cpu_candidate (sorted_set ws) (sorted_set cs) = cpu_candidate ws cs"
  by (simp add: cpu_candidate_def list_ex_iff)

lemma evaluate_cpu_rule:
  assumes "evaluate_cpu rep sample now e = (Inr r, e')"
  shows "dwell_next (cp_warning_for (ce_policy e)) (cp_critical_for (ce_policy e)) (ck_quality_flags r \<noteq> []) (ck_candidate r) now (ce_dwell e)
      = (ck_state r, ce_dwell e')"
    and "ce_policy e' = ce_policy e" "ck_candidate r = cpu_candidate (ck_warning_signals r) (ck_critical_support r)"
  using assms by (auto simp: evaluate_cpu_def Let_def split: sum.splits)

lemma evaluate_cpu_raised:
  "evaluate_cpu rep sample now e = (Inl x, e') \<Longrightarrow> ce_dwell e' = ce_dwell e \<and> ce_policy e' = ce_policy e"
  by (auto simp: evaluate_cpu_def Let_def split: sum.splits)

lemma cpu_candidate_level: "cpu_candidate ws cs \<in> risk_levels"
  by (simp add: cpu_candidate_def risk_levels_def)

definition cpu_eval :: "(pyval \<Rightarrow> string) \<Rightarrow> pydict \<times> rat \<Rightarrow> cpu_evaluator \<Rightarrow> cpu_risk option \<times> cpu_evaluator" where
  "cpu_eval rep x e = (case evaluate_cpu rep (fst x) (snd x) e of (Inl _, e') \<Rightarrow> (None, e') | (Inr r, e') \<Rightarrow> (Some r, e'))"

definition cpu_dwells :: "cpu_evaluator \<Rightarrow> pyfloat \<times> pyfloat" where
  "cpu_dwells e = (cp_warning_for (ce_policy e), cp_critical_for (ce_policy e))"

interpretation cpu_run: dwell_engine "cpu_eval rep" snd ck_state ck_candidate ck_quality_flags ce_dwell cpu_dwells
  for rep
proof
  fix x e r e'
  assume "cpu_eval rep x e = (Some r, e')"
  then have ev: "evaluate_cpu rep (fst x) (snd x) e = (Inr r, e')"
    by (auto simp: cpu_eval_def split: prod.splits sum.splits)
  show "dwell_next (fst (cpu_dwells e)) (snd (cpu_dwells e)) (ck_quality_flags r \<noteq> []) (ck_candidate r) (snd x) (ce_dwell e) = (ck_state r, ce_dwell e')"
    using evaluate_cpu_rule(1) [OF ev] by (simp add: cpu_dwells_def)
  show "ck_candidate r \<in> risk_levels"
    using evaluate_cpu_rule(3) [OF ev] cpu_candidate_level by simp
next
  fix x e e'
  assume "cpu_eval rep x e = (None, e')"
  then show "ce_dwell e' = ce_dwell e"
    by (auto simp: cpu_eval_def dest!: evaluate_cpu_raised split: prod.splits sum.splits)
next
  fix x e
  show "cpu_dwells (snd (cpu_eval rep x e)) = cpu_dwells e"
    by (auto simp: cpu_eval_def cpu_dwells_def dest: evaluate_cpu_raised evaluate_cpu_rule(2) split: prod.splits sum.splits)
qed

section \<open>The verdict of the attribution\<close>

lemma cpu_shares_origin: "t \<in> set (cpu_shares usage cs) \<Longrightarrow> \<exists>c\<in>set cs. co_id c = co_id t \<and> co_path c = co_path t"
  by (auto simp: cpu_shares_def split: if_splits)

lemma cpu_shares_sorted: "0 < usage \<Longrightarrow> sorted_wrt (\<lambda>a b. share_of b \<le> share_of a) (cpu_shares usage cs)"
proof -
  assume "0 < usage"
  then have "sorted (map (\<lambda>c. - share_of c) (cpu_shares usage cs))"
    by (simp add: cpu_shares_def share_of_def)
  then show ?thesis
    unfolding sorted_map by (rule sorted_wrt_mono_rel [rotated]) simp
qed

lemma cpu_verdict_confirmed:
  assumes "cpu_verdict policy usage ranked = Inr (''TARGET_CONFIRMED'', target, why)"
    and "sorted_wrt (\<lambda>a b. share_of b \<le> share_of a) ranked"
  obtains t rest lead where "ranked = t # rest" "target = Some (t, round_digits 3 lead)"
    "co_errors t = []" "str_in (co_confidence t) [''high'', ''medium'']" "\<not> flt (Fin (share_of t)) (cap_min_share policy)"
    "\<not> flt (Fin lead) (fscale 100 (cap_min_lead policy))" "\<forall>c\<in>set rest. share_of c \<le> share_of t - lead"
proof (cases ranked)
  case (Cons t rest)
  let ?lead = "share_of t - (case rest of [] \<Rightarrow> 0 | second # _ \<Rightarrow> share_of second)"
  have "target = Some (t, round_digits 3 ?lead)" "co_errors t = []" "str_in (co_confidence t) [''high'', ''medium'']"
      "\<not> flt (Fin (share_of t)) (cap_min_share policy)" "\<not> flt (Fin ?lead) (fscale 100 (cap_min_lead policy))"
    using assms(1) Cons by (auto simp: cpu_verdict_def Let_def split: if_splits)
  moreover have "\<forall>c\<in>set rest. share_of c \<le> share_of t - ?lead"
    using assms(2) Cons by (cases rest) auto
  ultimately show ?thesis
    using that Cons by blast
qed (use assms(1) in \<open>auto simp: cpu_verdict_def split: if_splits\<close>)

text \<open>An object that blocks nothing kept its cgroup.\<close>

definition kept_cgroup :: "(string \<times> pydict) list \<Rightarrow> string \<Rightarrow> string \<Rightarrow> bool" where
  "kept_cgroup previous i path \<longleftrightarrow> (\<forall>p. map_of previous i = Some p \<longrightarrow> dget p ''cgroup_path'' = PStr path)"

lemma cpu_row_candidate:
  assumes "cpu_row previous elapsed item = (rs, fs, [], Some c)"
  shows "dget item ''id'' = PStr (co_id c) \<and> dget item ''cgroup_path'' = PStr (co_path c) \<and> kept_cgroup previous (co_id c) (co_path c)"
  using assms by (auto simp: cpu_row_def Let_def kept_cgroup_def split: option.splits if_splits)

lemma row_candidate:
  "c \<in> set (List.map_filter (\<lambda>(_, _, _, c). c) (map f xs)) \<Longrightarrow> \<exists>x\<in>set xs. \<exists>rs fs bs. f x = (rs, fs, bs, Some c)"
  by (induction xs) (auto simp: map_filter_simps split: prod.splits option.splits)

section \<open>Properties\<close>

definition cpu_sample :: "int \<Rightarrow> int \<Rightarrow> int \<Rightarrow> int \<Rightarrow> pydict" where
  "cpu_sample ns ticks idle usage =
     [(''observed_monotonic_ns'', PInt ns),
      (''quality'', PDict [(''status'', PStr ''ok''), (''flags'', PList [])]),
      (''host'', PDict [(''stat'', PDict [(''aggregate'', PDict [(''total_ticks'', PInt ticks), (''idle_ticks'', PInt idle)])]),
         (''loadavg'', PDict [(''load1'', PInt 1)]), (''logical_cpus'', PInt 4)]),
      (''psi'', PDict [(''some'', PDict [(''avg10'', PInt 0)]), (''full'', PDict [(''avg10'', PInt 0)])]),
      (''objects'', PList
         [PDict [(''id'', PStr ''c1''), (''cgroup_path'', PStr ''/c1''), (''mapping_confidence'', PStr ''high''),
            (''mapping_errors'', PList []), (''cpu_stat'', PDict [(''usage_usec'', PInt usage)])],
          PDict [(''id'', PStr ''c2''), (''cgroup_path'', PStr ''/c2''), (''mapping_confidence'', PStr ''high''),
            (''mapping_errors'', PList []), (''cpu_stat'', PDict [(''usage_usec'', PInt 10)])]])]"

text \<open>
  The CPU evaluator emits a warning or critical state only for a sample without a quality
  flag and after the same candidate held for the whole dwell time of the policy; a critical state
  rests on a signal of the host, never on the throttling of the own cgroup alone.
\<close>

theorem cpu_emission_justified:
  assumes "exec_all (dwell_step (cpu_eval rep) snd ck_state ck_candidate) (new_cpu_evaluator policy, []) xs = (e, h)"
    and "evaluate_cpu rep sample now e = (Inr r, e')" and "ck_state r \<in> {''warning'', ''critical''}"
  shows "ck_quality_flags r = [] \<and>
    (\<exists>period before. (ck_state r, ck_candidate r, now) # h = period @ before \<and> period \<noteq> [] \<and>
       (\<forall>p \<in> set period. fst (snd p) = ck_state r) \<and>
       fle (required_dwell (cp_warning_for policy) (cp_critical_for policy) (ck_state r)) (Fin (max (now - snd (snd (last period))) 0))) \<and>
    (ck_state r = ''critical'' \<longrightarrow> (\<exists>s \<in> set (ck_critical_support r). s \<in> set DIRECT_HOST_CRITICAL))"
proof -
  have ev: "cpu_eval rep (sample, now) e = (Some r, e')"
    using assms(2) by (simp add: cpu_eval_def)
  have new: "ce_dwell (new_cpu_evaluator policy) = new_dwell"
      "cpu_dwells (new_cpu_evaluator policy) = (cp_warning_for policy, cp_critical_for policy)"
    by (simp_all add: new_cpu_evaluator_def cpu_dwells_def)
  note rule = evaluate_cpu_rule [OF assms(2)]
  have "ck_state r = ''critical'' \<longrightarrow> (\<exists>s \<in> set (ck_critical_support r). s \<in> set DIRECT_HOST_CRITICAL)"
    using rule(1,3) by (auto simp: dwell_next_def dwell_state_def cpu_candidate_def list_ex_iff Let_def split: if_splits)
  then show ?thesis
    using cpu_run.emission_dwells [OF assms(1) new(1) ev assms(3)] unfolding new fst_conv snd_conv by blast
qed

definition cpu_example :: "cpu_evaluator \<times> risk_history" where
  "cpu_example =
     exec_all (dwell_step (cpu_eval (\<lambda>_. [])) snd ck_state ck_candidate) (new_cpu_evaluator default_cpu_policy, [])
       [(cpu_sample 1000000000 100 50 0, 0), (cpu_sample 6000000000 200 50 0, 5)]"

definition cpu_example_next :: "(py_exn + cpu_risk) \<times> cpu_evaluator" where
  "cpu_example_next = evaluate_cpu (\<lambda>_. []) (cpu_sample 16000000000 400 50 0) 15 (fst cpu_example)"

lemma cpu_example_critical: "(case fst cpu_example_next of Inl _ \<Rightarrow> False | Inr r \<Rightarrow> ck_state r = ''critical'')"
  by code_simp

theorem cpu_emission_justified_witness:
  "\<exists>r. fst cpu_example_next = Inr r \<and> ck_quality_flags r = [] \<and> (\<exists>s \<in> set (ck_critical_support r). s \<in> set DIRECT_HOST_CRITICAL)"
proof -
  obtain r where r: "fst cpu_example_next = Inr r" "ck_state r = ''critical''"
    using cpu_example_critical by (auto split: sum.splits)
  then have "evaluate_cpu (\<lambda>_. []) (cpu_sample 16000000000 400 50 0) 15 (fst cpu_example) = (Inr r, snd cpu_example_next)"
    by (metis prod.collapse cpu_example_next_def)
  from cpu_emission_justified [OF _ this, of default_cpu_policy _ "snd cpu_example"] r show ?thesis
    unfolding cpu_example_def by (metis insertCI prod.collapse)
qed

text \<open>
  The CPU attribution confirms a target only between two samples in the allowed age with no
  quality flag and no object that changed its cgroup; the target heads the ranking with a trusted
  mapping and at least the minimum share, and every other object is behind it by the margin.
\<close>

theorem cpu_target_leads:
  assumes "attribute_cpu sample a = (Inr r, a')" and "cr_state r = ''TARGET_CONFIRMED''"
  shows "cr_quality_flags r = [] \<and>
    (\<exists>dt. cr_elapsed r = Some dt \<and> 0 < dt \<and> \<not> flt (cap_max_sample_age (ca_policy a)) (Fin dt)) \<and>
    (\<exists>t rest lead. cr_target r = Some (t, round_digits 3 lead) \<and> cr_candidates r = t # rest \<and>
       co_errors t = [] \<and> str_in (co_confidence t) [''high'', ''medium''] \<and>
       \<not> flt (Fin (share_of t)) (cap_min_share (ca_policy a)) \<and>
       \<not> flt (Fin lead) (fscale 100 (cap_min_lead (ca_policy a))) \<and> (\<forall>c \<in> set rest. share_of c \<le> share_of t - lead) \<and>
       (\<exists>item. PDict item \<in> set (list_value (dget sample ''objects'')) \<and> dget item ''id'' = PStr (co_id t) \<and>
          dget item ''cgroup_path'' = PStr (co_path t)) \<and>
       kept_cgroup (ca_previous_objects a) (co_id t) (co_path t))"
proof -
  let ?elapsed = "elapsed_seconds (ca_previous_ns a) (as_int (dget sample ''observed_monotonic_ns''))"
  let ?objects = "map mapping_of (filter is_dict (list_value (dget sample ''objects'')))"
  let ?rows = "map (cpu_row (ca_previous_objects a) ?elapsed) ?objects"
  let ?cands = "List.map_filter (\<lambda>(_, _, _, c). c) ?rows"
  let ?usage = "sum_list (map (\<lambda>c. case co_delta c of None \<Rightarrow> 0 | Some d \<Rightarrow> d) ?cands)"
  let ?ranked = "cpu_shares ?usage ?cands"
  obtain why where r: "cr_quality_flags r = []" "cr_candidates r = ?ranked" "cr_elapsed r = ?elapsed" "?elapsed \<noteq> None"
      "\<not> opt_holds (\<lambda>dt. dt \<le> 0 \<or> flt (cap_max_sample_age (ca_policy a)) (Fin dt)) ?elapsed"
      "concat (map (\<lambda>(_, _, b, _). b) ?rows) = []"
      "cpu_verdict (ca_policy a) ?usage ?ranked = Inr (''TARGET_CONFIRMED'', cr_target r, why)"
    using assms by (auto simp: attribute_cpu_def Let_def sum_bind_def split: if_splits sum.splits)
  have "0 < ?usage"
    using r(7) by (auto simp: cpu_verdict_def split: if_splits)
  from cpu_verdict_confirmed [OF r(7) cpu_shares_sorted [OF this]] obtain t rest lead where
    t: "?ranked = t # rest" "cr_target r = Some (t, round_digits 3 lead)" "co_errors t = []"
      "str_in (co_confidence t) [''high'', ''medium'']" "\<not> flt (Fin (share_of t)) (cap_min_share (ca_policy a))"
      "\<not> flt (Fin lead) (fscale 100 (cap_min_lead (ca_policy a)))" "\<forall>c\<in>set rest. share_of c \<le> share_of t - lead" .
  have "t \<in> set ?ranked"
    unfolding t(1) by (rule list.set_intros)
  then obtain c where c: "c \<in> set ?cands" "co_id c = co_id t" "co_path c = co_path t"
    using cpu_shares_origin by blast
  from row_candidate [OF c(1)] obtain item rs fs bs where item: "item \<in> set ?objects" "cpu_row (ca_previous_objects a) ?elapsed item = (rs, fs, bs, Some c)"
    by blast
  moreover from item r(6) have "bs = []" by force
  ultimately have kept: "dget item ''id'' = PStr (co_id t)" "dget item ''cgroup_path'' = PStr (co_path t)"
      "kept_cgroup (ca_previous_objects a) (co_id t) (co_path t)"
    using cpu_row_candidate c(2,3) by metis+
  have "is_dict v \<Longrightarrow> v = PDict (mapping_of v)" for v by (cases v) simp_all
  with item(1) have "PDict item \<in> set (list_value (dget sample ''objects''))" by force
  moreover obtain dt where "?elapsed = Some dt" using r(4) by blast
  ultimately show ?thesis
    using r(1-3,5) t kept by (auto simp: opt_holds_def)
qed

definition cpu_attributed :: "(py_exn + cpu_attribution) \<times> cpu_attributor" where
  "cpu_attributed =
     attribute_cpu (cpu_sample 6000000000 0 0 500) (snd (attribute_cpu (cpu_sample 1000000000 0 0 100) (new_cpu_attributor default_cpu_attribution)))"

lemma cpu_attributed_confirms: "(case fst cpu_attributed of Inl _ \<Rightarrow> False | Inr r \<Rightarrow> cr_state r = ''TARGET_CONFIRMED'')"
  by code_simp

theorem cpu_target_leads_witness:
  "\<exists>r t lead. fst cpu_attributed = Inr r \<and> cr_target r = Some (t, lead) \<and> co_errors t = []"
proof -
  obtain r where r: "fst cpu_attributed = Inr r" "cr_state r = ''TARGET_CONFIRMED''"
    using cpu_attributed_confirms by (auto split: sum.splits)
  then have "attribute_cpu (cpu_sample 6000000000 0 0 500)
      (snd (attribute_cpu (cpu_sample 1000000000 0 0 100) (new_cpu_attributor default_cpu_attribution))) = (Inr r, snd cpu_attributed)"
    by (metis prod.collapse cpu_attributed_def)
  from cpu_target_leads [OF this r(2)] r(1) show ?thesis by blast
qed

end
