(* ===== verification/Guardian_Disk.thy ===== *)
theory Guardian_Disk
  imports Guardian_Cpu
begin

text \<open>
  The disk engine (\<open>src/guardian_disk.py\<close>): the parsers of mounts, device counters and cgroup I/O, the
  sample, the capacity and I/O risk evaluators, the I/O attribution and the simulated decision.
  File contents, \<open>statvfs\<close> and the clock are arguments; policies are typed.  \<open>Inl\<close> is an exception a
  malformed sample provokes.
\<close>

section \<open>Text\<close>

text \<open>\<open>s.partition(sep)\<close> for a longer separator: \<open>None\<close> when it does not occur.\<close>

fun split_at :: "string \<Rightarrow> string \<Rightarrow> (string \<times> string) option" where
  "split_at sep [] = (if sep = [] then Some ([], []) else None)"
| "split_at sep (x # xs) =
     (if prefix sep (x # xs) then Some ([], drop (length sep) (x # xs))
      else map_option (\<lambda>(a, b). (x # a, b)) (split_at sep xs))"

definition rstrip_slash :: "string \<Rightarrow> string" where
  "rstrip_slash s = rev (dropWhile (\<lambda>c. c = CHR ''/'') (rev s))"

definition octal_digit :: "char \<Rightarrow> bool" where
  "octal_digit c = (48 \<le> (of_char c :: nat) \<and> (of_char c :: nat) \<le> 55)"

text \<open>Three octal digits after a backslash are a character.\<close>

fun unescape_mount_path :: "string \<Rightarrow> string" where
  "unescape_mount_path (a # x # y # z # s) =
     (if a = CHR 0x5C \<and> octal_digit x \<and> octal_digit y \<and> octal_digit z
      then char_of (digit_val x * 64 + digit_val y * 8 + digit_val z :: nat) # unescape_mount_path s
      else a # unescape_mount_path (x # y # z # s))"
| "unescape_mount_path s = s"

text \<open>The pattern of a device number, digits on both sides of a colon.\<close>

definition is_device :: "string \<Rightarrow> bool" where
  "is_device s =
     (case py_partition CHR '':'' s of (a, colon, b) \<Rightarrow>
        colon \<and> a \<noteq> [] \<and> b \<noteq> [] \<and> list_all is_digit a \<and> list_all is_digit b)"

section \<open>Parsers\<close>

record mount_fact =
  mt_id :: int
  mt_parent :: string
  mt_device :: "string option"
  mt_root :: string
  mt_point :: string
  mt_options :: "string list"
  mt_fs_type :: string
  mt_source :: string
  mt_super_options :: "string list"

definition mt_read_only :: "mount_fact \<Rightarrow> bool" where
  "mt_read_only m = (''ro'' \<in> set (mt_options m))"

definition parse_mount_line :: "string \<Rightarrow> mount_fact option" where
  "parse_mount_line line =
     (case split_at '' - '' line of
        None \<Rightarrow> None
      | Some (left, right) \<Rightarrow>
          (let l = py_split left; r = py_split right
           in if length l < 6 \<or> length r < 3 then None
              else (case parse_int (l ! 0) of
                  None \<Rightarrow> None
                | Some i \<Rightarrow>
                    Some \<lparr>mt_id = i, mt_parent = l ! 1, mt_device = (if is_device (l ! 2) then Some (l ! 2) else None),
                          mt_root = unescape_mount_path (l ! 3), mt_point = unescape_mount_path (l ! 4),
                          mt_options = split_on CHR '','' (l ! 5), mt_fs_type = r ! 0,
                          mt_source = unescape_mount_path (r ! 1), mt_super_options = split_on CHR '','' (r ! 2)\<rparr>)))"

definition parse_mountinfo :: "string \<Rightarrow> mount_fact list" where
  "parse_mountinfo text = List.map_filter parse_mount_line (splitlines text)"

definition DISKSTATS_FIELDS :: "string list" where
  "DISKSTATS_FIELDS = [''reads_completed'', ''reads_merged'', ''sectors_read'', ''milliseconds_reading'', ''writes_completed'',
     ''writes_merged'', ''sectors_written'', ''milliseconds_writing'', ''ios_in_progress'', ''io_ticks_ms'', ''weighted_io_ms'']"

fun parse_ints :: "string list \<Rightarrow> int list option" where
  "parse_ints [] = Some []"
| "parse_ints (x # xs) = (case parse_int x of None \<Rightarrow> None | Some n \<Rightarrow> map_option (\<lambda>ns. n # ns) (parse_ints xs))"

definition diskstats_line :: "string \<Rightarrow> (string \<times> pydict) option" where
  "diskstats_line line =
     (let f = py_split line
      in if length f < 14 then None
         else case (parse_ints (take 2 f), parse_ints (take 11 (drop 3 f))) of
             (Some [major, minor], Some values) \<Rightarrow>
               Some (int_str major @ '':'' @ int_str minor, (''name'', PStr (f ! 2)) # zip DISKSTATS_FIELDS (map PInt values))
           | _ \<Rightarrow> None)"

definition parse_diskstats :: "string \<Rightarrow> (string \<times> pydict) list" where
  "parse_diskstats text =
     fold (\<lambda>line acc. case diskstats_line line of None \<Rightarrow> acc | Some (k, v) \<Rightarrow> dset acc k v) (splitlines text) []"

definition parse_io_stat :: "string \<Rightarrow> (string \<times> (string \<times> int) list) list" where
  "parse_io_stat text =
     fold (\<lambda>line acc. case py_split line of
            [] \<Rightarrow> acc
          | dev # items \<Rightarrow>
              if is_device dev
              then dset acc dev
                (fold (\<lambda>field cs. case py_partition CHR ''='' field of (key, eq, raw) \<Rightarrow>
                         (case (if eq then parse_int raw else None) of None \<Rightarrow> cs | Some n \<Rightarrow> dset cs key n)) items [])
              else acc) (splitlines text) []"

definition parse_psi :: "string \<Rightarrow> (string \<times> (string \<times> pyfloat) list) list" where
  "parse_psi = parse_cpu_psi"

section \<open>Capacity of a mount\<close>

text \<open>The attributes of a \<open>statvfs\<close> result; an absent one is the default of the \<open>getattr\<close>; the
  flag word is an integer, its lowest bit says read-only.\<close>

record statvfs =
  sv_frsize :: pyval
  sv_bsize :: pyval
  sv_blocks :: pyval
  sv_bavail :: pyval
  sv_bfree :: pyval
  sv_files :: pyval
  sv_ffree :: pyval
  sv_flag :: int

definition natural :: "pyval \<Rightarrow> int option" where
  "natural v = (case int_like v of None \<Rightarrow> None | Some n \<Rightarrow> if n < 0 then None else Some n)"

definition percent :: "int \<Rightarrow> int \<Rightarrow> pyval" where
  "percent part whole = (if whole = 0 then PNone else PFloat (Fin (round_digits 3 (of_int part / of_int whole * 100))))"

definition statvfs_record :: "statvfs \<Rightarrow> string + pydict" where
  "statvfs_record v =
     (let size = int_like (py_or (sv_frsize v) (sv_bsize v))
      in if size = None \<or> opt_holds (\<lambda>n. n \<le> 0) size \<or> natural (sv_blocks v) = None then Inl ''statvfs_block_counts_invalid''
         else case (natural (sv_bavail v), natural (sv_bfree v), natural (sv_files v), natural (sv_ffree v)) of
             (None, _, _, _) \<Rightarrow> Inl ''statvfs_available_blocks_invalid''
           | (_, None, _, _) \<Rightarrow> Inl ''statvfs_free_blocks_invalid''
           | (_, _, None, _) \<Rightarrow> Inl ''statvfs_inode_counts_invalid''
           | (_, _, _, None) \<Rightarrow> Inl ''statvfs_free_inodes_invalid''
           | (Some avail, Some _, Some inodes, Some free_inodes) \<Rightarrow>
               (let block = the size; all = the (natural (sv_blocks v)) * block
                in Inr [(''block_size_bytes'', PInt block), (''total_bytes'', PInt all), (''free_bytes'', PInt (avail * block)),
                    (''free_ratio_percent'', percent (avail * block) all), (''total_inodes'', PInt inodes),
                    (''free_inodes'', PInt free_inodes), (''free_inode_ratio_percent'', percent free_inodes inodes),
                    (''read_only'', PBool (odd (sv_flag v)))]))"

text \<open>\<open>os.path.commonpath\<close> of two paths; \<open>None\<close> for a mix of absolute and relative ones.\<close>

definition commonpath :: "string \<Rightarrow> string \<Rightarrow> string option" where
  "commonpath a b =
     (if prefix ''/'' a \<noteq> prefix ''/'' b then None
      else Some ((if prefix ''/'' a then ''/'' else []) @ join ''/'' (longest_common_prefix (path_parts a) (path_parts b))))"

definition or_slash :: "string \<Rightarrow> string" where
  "or_slash s = (if s = [] then ''/'' else s)"

definition covers_path :: "string \<Rightarrow> string \<Rightarrow> bool" where
  "covers_path requested point = (commonpath requested (or_slash (rstrip_slash point)) = Some (or_slash (rstrip_slash point)))"

fun longest_mount :: "mount_fact list \<Rightarrow> mount_fact option" where
  "longest_mount [] = None"
| "longest_mount (m # ms) =
     (case longest_mount ms of
        None \<Rightarrow> Some m
      | Some n \<Rightarrow> if length (mt_point m) < length (mt_point n) then Some n else Some m)"

definition mount_for_path :: "mount_fact list \<Rightarrow> string \<Rightarrow> mount_fact option" where
  "mount_for_path mounts path = longest_mount (filter (\<lambda>m. covers_path (or_slash (rstrip_slash path)) (mt_point m)) mounts)"

section \<open>The sample\<close>

record io_files =
  if_stat :: "string option"
  if_pressure :: "string option"

definition io_optional_flags :: "io_files \<Rightarrow> string list" where
  "io_optional_flags f = (if if_stat f = None then [''io_stat_missing''] else []) @
     (if if_pressure f = None then [''io_pressure_missing''] else [])"

definition io_stat_dict :: "(string \<times> (string \<times> int) list) list \<Rightarrow> pyval" where
  "io_stat_dict d = PDict (map (map_prod id int_dict) d)"

definition cgroup_io :: "string \<Rightarrow> io_files \<Rightarrow> pydict" where
  "cgroup_io path f =
     [(''path'', PStr path), (''io_stat'', io_stat_dict (parse_io_stat (text_or_empty (if_stat f)))),
      (''pressure'', psi_dict (parse_psi (text_or_empty (if_pressure f)))),
      (''quality'', PDict [(''status'', PStr ''ok''), (''flags'', PList []), (''optional_flags'', str_list (io_optional_flags f))])]"

text \<open>A row of the sample: the record of a configured path, and what it adds to the capacity flags.\<close>

definition mount_row ::
  "(string \<times> pydict) list \<Rightarrow> mount_fact list \<Rightarrow> (string \<Rightarrow> string + statvfs) \<Rightarrow> string \<Rightarrow> pydict \<times> string list" where
  "mount_row devices mountinfo reader path =
     (let mount = mount_for_path mountinfo path;
          stats = sum_bind (reader path) statvfs_record;
          stats_read_only = (case stats of Inl _ \<Rightarrow> False | Inr d \<Rightarrow> dget d ''read_only'' = PBool True);
          device = (case mount of None \<Rightarrow> None | Some m \<Rightarrow> mt_device m);
          device_stats = (case device of None \<Rightarrow> None | Some dev \<Rightarrow> map_of devices dev);
          flags = (if mount = None then [''mount_metadata_missing''] else []) @
            (case stats of Inl _ \<Rightarrow> [''statvfs_missing''] | Inr _ \<Rightarrow> if stats_read_only then [''mount_read_only''] else []) @
            (case device of
               Some dev \<Rightarrow> if device_stats = None then [''device_stats_missing''] else []
             | None \<Rightarrow> if mount \<noteq> None then [''mount_device_missing''] else []);
          degraded = (mount = None \<or> isl stats)
      in ([(''configured_path'', PStr path), (''mount_point'', opt_val (PStr \<circ> mt_point) mount), (''mount_id'', opt_val (PInt \<circ> mt_id) mount),
           (''device'', opt_val PStr device), (''filesystem_type'', opt_val (PStr \<circ> mt_fs_type) mount),
           (''source'', opt_val (PStr \<circ> mt_source) mount),
           (''read_only'', if stats_read_only then PBool True else opt_val (PBool \<circ> mt_read_only) mount),
           (''stats'', case stats of Inl _ \<Rightarrow> PNone | Inr d \<Rightarrow> PDict d), (''device_stats'', opt_val PDict device_stats),
           (''quality'', PDict ([(''status'', PStr (if degraded then ''degraded'' else ''ok'')), (''flags'', str_list flags)] @
              (case stats of Inl e \<Rightarrow> [(''error'', PStr e)] | Inr _ \<Rightarrow> [])))],
          (if mount = None then [''mount_metadata_missing''] else []) @ (if isl stats then [''statvfs_missing''] else [])))"

definition io_object :: "(string \<Rightarrow> string \<times> io_files) \<Rightarrow> pydict \<Rightarrow> pyval" where
  "io_object open_cgroup item =
     (let path = as_nonempty_str (dget item ''cgroup_path'');
          cgroup = (case path of
             None \<Rightarrow> [(''io_stat'', PDict []), (''pressure'', PDict []), (''path'', PNone)]
           | Some p \<Rightarrow> cgroup_io (fst (open_cgroup p)) (snd (open_cgroup p)));
          flags = (case path of None \<Rightarrow> [''object_cgroup_path_missing''] | Some p \<Rightarrow> io_optional_flags (snd (open_cgroup p)))
      in PDict [(''kind'', dget_default item ''kind'' (PStr ''container'')), (''id'', dget item ''id''), (''name'', dget item ''name''),
           (''cgroup_path'', dget cgroup ''path''), (''mapping_confidence'', dget_default item ''mapping_confidence'' (PStr ''low'')),
           (''mapping_errors'', case dget item ''mapping_errors'' of PList es \<Rightarrow> PList es | _ \<Rightarrow> PList []),
           (''io_stat'', dget cgroup ''io_stat''), (''pressure'', dget cgroup ''pressure''),
           (''quality'', PDict [(''status'', quality_status flags), (''flags'', str_list flags)])])"

text \<open>\<open>mountinfo\<close> is the first readable one of the two files.\<close>

record disk_files =
  df_mountinfo :: "string option"
  df_diskstats :: "string option"
  df_io_pressure :: "string option"

definition collect_disk_sample ::
  "disk_files \<Rightarrow> string \<times> io_files \<Rightarrow> string list \<Rightarrow> (string \<Rightarrow> string \<times> io_files) \<Rightarrow> pyval list \<Rightarrow> (string \<Rightarrow> string + statvfs) \<Rightarrow> int \<Rightarrow> pydict" where
  "collect_disk_sample host top_cgroup mount_points open_cgroup registry reader ns =
     (let mountinfo = parse_mountinfo (text_or_empty (df_mountinfo host));
          devices = parse_diskstats (text_or_empty (df_diskstats host));
          pressure = parse_psi (text_or_empty (df_io_pressure host));
          rows = map (mount_row devices mountinfo reader) mount_points;
          capacity_flags = (if df_mountinfo host = None then [''mountinfo_missing''] else []) @
            (if mount_points = [] then [''mount_points_empty''] else []) @ concat (map snd rows);
          io_flags = (if df_diskstats host = None \<or> devices = [] then [''diskstats_missing''] else []) @
            (if df_io_pressure host = None \<or> pressure = [] then [''io_pressure_missing''] else [])
      in [(''observed_monotonic_ns'', PInt ns), (''mounts'', PList (map (PDict \<circ> fst) rows)),
          (''capacity_quality'', PDict [(''status'', quality_status capacity_flags), (''flags'', str_list (sorted_set capacity_flags))]),
          (''io'', PDict
             [(''psi'', psi_dict pressure), (''devices'', PDict (map (map_prod id PDict) devices)),
              (''cgroup'', PDict (cgroup_io (fst top_cgroup) (snd top_cgroup))),
              (''objects'', PList (map (\<lambda>item. io_object open_cgroup (mapping_of item)) (filter is_dict registry))),
              (''quality'', PDict [(''status'', quality_status io_flags), (''flags'', str_list (sorted_set io_flags))])]),
          (''quality'', PDict [(''status'', quality_status (capacity_flags @ io_flags)),
             (''flags'', str_list (sorted_set (capacity_flags @ io_flags)))])])"

section \<open>Parts the two risk evaluators share\<close>

fun traverse :: "('a \<Rightarrow> 'e + 'b) \<Rightarrow> 'a list \<Rightarrow> 'e + 'b list" where
  "traverse f [] = Inr []"
| "traverse f (x # xs) = sum_bind (f x) (\<lambda>y. sum_bind (traverse f xs) (\<lambda>ys. Inr (y # ys)))"

text \<open>\<open>str(flag) for flag in flags if flag\<close> over a value that may not be a list.\<close>

definition flags_of :: "(pyval \<Rightarrow> string) \<Rightarrow> pyval \<Rightarrow> py_exn + string list" where
  "flags_of rep v = map_sum id (flag_texts rep) (iterate v)"

definition timestamp_quality :: "pydict \<Rightarrow> int option \<Rightarrow> pyfloat \<Rightarrow> int option \<times> rat option \<times> string list" where
  "timestamp_quality sample previous_ns max_age =
     (case as_int (dget sample ''observed_monotonic_ns'') of
        None \<Rightarrow> (None, None, [''disk_monotonic_timestamp_missing''])
      | Some ns \<Rightarrow>
          (let elapsed = elapsed_seconds previous_ns (Some ns)
           in (Some ns, elapsed,
               case elapsed of
                 None \<Rightarrow> []
               | Some dt \<Rightarrow> if dt \<le> 0 then [''disk_monotonic_clock_not_increasing'']
                            else if flt max_age (Fin dt) then [''disk_sample_gap_too_large''] else [])))"

text \<open>The fields every evaluator has besides its previous sample.\<close>

record risk_core =
  rc_dwell :: dwell
  rc_sample_count :: int
  rc_previous_ns :: "int option"

definition new_core :: risk_core where
  "new_core = \<lparr>rc_dwell = new_dwell, rc_sample_count = 0, rc_previous_ns = None\<rparr>"

record disk_risk =
  dk_state :: string
  dk_candidate :: string
  dk_candidate_for :: rat
  dk_required_for :: pyfloat
  dk_reasons :: "string list"
  dk_quality_flags :: "string list"
  dk_sample_count :: int
  dk_warning_signals :: "string list"
  dk_critical_support :: "string list"

text \<open>
  The tail of both \<open>evaluate\<close> methods, with \<open>_state_result\<close>: flags and signals are those gathered
  from the sample.
\<close>

definition conclude_risk ::
  "pyfloat \<Rightarrow> pyfloat \<Rightarrow> int \<Rightarrow> string list \<Rightarrow> string list \<Rightarrow> string list \<Rightarrow> string \<Rightarrow> int option \<Rightarrow> rat \<Rightarrow> risk_core \<Rightarrow> disk_risk \<times> risk_core" where
  "conclude_risk wfor cfor required_samples sample_flags warning critical candidate ns now core =
     (let few = (if rc_sample_count core + 1 < required_samples then [''insufficient_samples''] else []);
          flags = sample_flags @ few;
          next_dwell = dwell_next wfor cfor (flags \<noteq> []) candidate now (rc_dwell core)
      in (\<lparr>dk_state = fst next_dwell, dk_candidate = candidate,
           dk_candidate_for = round_digits 3 (max (now - dwell_start (rc_dwell core) candidate now) 0),
           dk_required_for = required_dwell wfor cfor candidate,
           dk_reasons = sorted_set (warning @ critical @ few), dk_quality_flags = sorted_set flags,
           dk_sample_count = rc_sample_count core + 1,
           dk_warning_signals = sorted_set warning, dk_critical_support = sorted_set critical\<rparr>,
          \<lparr>rc_dwell = snd next_dwell, rc_sample_count = rc_sample_count core + 1,
           rc_previous_ns = (if ns = None then rc_previous_ns core else ns)\<rparr>))"

definition failed_core :: "risk_core \<Rightarrow> risk_core" where
  "failed_core core = core\<lparr>rc_sample_count := rc_sample_count core + 1\<rparr>"

section \<open>Capacity risk\<close>

record capacity_policy =
  dp_warning_free :: pyfloat
  dp_critical_free :: pyfloat
  dp_warning_inode :: pyfloat
  dp_critical_inode :: pyfloat
  dp_warning_full :: pyfloat
  dp_critical_full :: pyfloat
  dp_warning_for :: pyfloat
  dp_critical_for :: pyfloat
  dp_required_samples :: int
  dp_max_sample_age :: pyfloat

definition default_capacity_policy :: capacity_policy where
  "default_capacity_policy =
     \<lparr>dp_warning_free = Fin 15, dp_critical_free = Fin 5, dp_warning_inode = Fin 10, dp_critical_inode = Fin 5,
      dp_warning_full = Fin 86400, dp_critical_full = Fin 3600, dp_warning_for = Fin 180, dp_critical_for = Fin 30,
      dp_required_samples = 2, dp_max_sample_age = Fin 15\<rparr>"

record capacity_evaluator =
  de_policy :: capacity_policy
  de_core :: risk_core
  de_previous_mounts :: "(string \<times> pydict) list"

definition new_capacity_evaluator :: "capacity_policy \<Rightarrow> capacity_evaluator" where
  "new_capacity_evaluator policy = \<lparr>de_policy = policy, de_core = new_core, de_previous_mounts = []\<rparr>"

definition mount_identity :: "(pyval \<Rightarrow> string) \<Rightarrow> pydict \<Rightarrow> string" where
  "mount_identity rep mount =
     join ''|'' (map (\<lambda>k. py_str rep (py_or (dget mount k) (PStr []))) [''mount_id'', ''device'', ''mount_point'', ''configured_path''])"

text \<open>Bytes per second by which the free space shrinks, and the seconds until it is gone.\<close>

definition shrink_rate :: "pydict option \<Rightarrow> rat option \<Rightarrow> pydict \<Rightarrow> rat option" where
  "shrink_rate previous elapsed stats =
     (case (previous, elapsed) of
        (Some p, Some dt) \<Rightarrow>
          (case (int_like (dget (mapping_of (dget p ''stats'')) ''free_bytes''), int_like (dget stats ''free_bytes'')) of
             (Some old, Some new) \<Rightarrow> if 0 < dt then Some (max (of_int (old - new) / dt) 0) else None
           | _ \<Rightarrow> None)
      | _ \<Rightarrow> None)"

definition time_to_full :: "rat option \<Rightarrow> pydict \<Rightarrow> rat option" where
  "time_to_full rate stats =
     (case (rate, int_like (dget stats ''free_bytes'')) of
        (Some r, Some free) \<Rightarrow> if 0 < r then Some (of_int free / r) else None
      | _ \<Rightarrow> None)"

record mount_signals =
  ms_flags :: "string list"
  ms_warning :: "string list"
  ms_critical :: "string list"
  ms_row :: "pydict option"

definition mount_section ::
  "(pyval \<Rightarrow> string) \<Rightarrow> capacity_evaluator \<Rightarrow> rat option \<Rightarrow> pyval \<Rightarrow> py_exn + mount_signals" where
  "mount_section rep e elapsed v =
     (case v of
        PDict mount \<Rightarrow>
          (let policy = de_policy e;
               row = (\<lambda>rate full. dset (dset mount ''free_bytes_per_second'' (opt_val (\<lambda>q. PFloat (Fin (round_digits 3 q))) rate))
                                ''time_to_full_seconds'' (opt_val (\<lambda>q. PFloat (Fin (round_digits 3 q))) full))
           in case dget mount ''stats'' of
                PDict stats \<Rightarrow>
                  (let rate = shrink_rate (map_of (de_previous_mounts e) (mount_identity rep mount)) elapsed stats;
                       full = time_to_full rate stats;
                       missing = map (\<lambda>k. ''capacity_'' @ k @ ''_missing'') (filter (\<lambda>k. dget stats k = PNone)
                         [''free_ratio_percent'', ''free_inode_ratio_percent'', ''free_bytes'', ''free_inodes'']);
                       raw = dget (mapping_of (dget mount ''quality'')) ''flags'';
                       (free_w, free_c) = two_level (\<lambda>x. fle x (dp_critical_free policy)) ''disk_capacity_free_critical''
                         (\<lambda>x. fle x (dp_warning_free policy)) ''disk_capacity_free_warning'' (number (dget stats ''free_ratio_percent''));
                       (inode_w, inode_c) = two_level (\<lambda>x. fle x (dp_critical_inode policy)) ''disk_inode_free_critical''
                         (\<lambda>x. fle x (dp_warning_inode policy)) ''disk_inode_free_warning'' (number (dget stats ''free_inode_ratio_percent''));
                       (full_w, full_c) = two_level (\<lambda>x. fle x (dp_critical_full policy)) ''disk_capacity_time_to_full_critical''
                         (\<lambda>x. fle x (dp_warning_full policy)) ''disk_capacity_time_to_full_warning'' (map_option Fin full)
                   in sum_bind (if py_truthy raw then flags_of rep raw else Inr []) (\<lambda>flags.
                        Inr \<lparr>ms_flags = missing @ flags, ms_warning = free_w @ inode_w @ full_w, ms_critical = free_c @ inode_c @ full_c,
                             ms_row = Some (row rate full)\<rparr>))
              | _ \<Rightarrow> Inr \<lparr>ms_flags = [''capacity_mount_statvfs_missing''], ms_warning = [], ms_critical = [], ms_row = Some (row None None)\<rparr>)
      | _ \<Rightarrow> Inr \<lparr>ms_flags = [''capacity_mount_record_invalid''], ms_warning = [], ms_critical = [], ms_row = None\<rparr>)"

definition capacity_candidate :: "string list \<Rightarrow> string list \<Rightarrow> string" where
  "capacity_candidate warning critical =
     (if critical \<noteq> [] then ''critical'' else if warning \<noteq> [] then ''warning'' else ''normal'')"

definition remember_mounts :: "(pyval \<Rightarrow> string) \<Rightarrow> pyval list \<Rightarrow> (string \<times> pydict) list" where
  "remember_mounts rep mounts = fold (\<lambda>m acc. dset acc (mount_identity rep m) m) (map mapping_of (filter is_dict mounts)) []"

text \<open>The result is the risk with the rows of the mounts.\<close>

definition evaluate_capacity ::
  "(pyval \<Rightarrow> string) \<Rightarrow> pydict \<Rightarrow> rat \<Rightarrow> capacity_evaluator \<Rightarrow> (py_exn + disk_risk \<times> pydict list) \<times> capacity_evaluator" where
  "evaluate_capacity rep sample now e =
     (let policy = de_policy e;
          mounts = list_value (dget sample ''mounts'');
          (ns, elapsed, clock_flags) = timestamp_quality sample (rc_previous_ns (de_core e)) (dp_max_sample_age policy);
          gathered =
            sum_bind (flags_of rep (dget_default (mapping_of (dget sample ''capacity_quality'')) ''flags'' (PList []))) (\<lambda>flags.
            sum_bind (traverse (mount_section rep e elapsed) mounts) (\<lambda>signals.
              Inr (flags @ clock_flags @ (if mounts = [] then [''capacity_mounts_empty''] else []) @ concat (map ms_flags signals),
                   concat (map ms_warning signals), concat (map ms_critical signals), List.map_filter ms_row signals)))
      in case gathered of
           Inl x \<Rightarrow> (Inl x, e\<lparr>de_core := failed_core (de_core e)\<rparr>)
         | Inr (flags, warning, critical, rows) \<Rightarrow>
             (let (r, core) = conclude_risk (dp_warning_for policy) (dp_critical_for policy) (dp_required_samples policy)
                    flags warning critical (capacity_candidate warning critical) ns now (de_core e)
              in (Inr (r, rows), e\<lparr>de_core := core, de_previous_mounts := remember_mounts rep mounts\<rparr>)))"

section \<open>I/O risk\<close>

record io_policy =
  ip_warning_psi_some :: pyfloat
  ip_critical_psi_full :: pyfloat
  ip_warning_utilization :: pyfloat
  ip_critical_utilization :: pyfloat
  ip_warning_latency :: pyfloat
  ip_critical_latency :: pyfloat
  ip_warning_for :: pyfloat
  ip_critical_for :: pyfloat
  ip_required_samples :: int
  ip_max_sample_age :: pyfloat
  ip_min_share :: pyfloat
  ip_min_lead :: pyfloat

definition default_io_policy :: io_policy where
  "default_io_policy =
     \<lparr>ip_warning_psi_some = Fin 1, ip_critical_psi_full = Fin (1 / 2), ip_warning_utilization = Fin 70, ip_critical_utilization = Fin 90,
      ip_warning_latency = Fin 100, ip_critical_latency = Fin 500, ip_warning_for = Fin 30, ip_critical_for = Fin 10,
      ip_required_samples = 2, ip_max_sample_age = Fin 15, ip_min_share = Fin 20, ip_min_lead = Fin (15 / 100)\<rparr>"

record io_evaluator =
  ie_policy :: io_policy
  ie_core :: risk_core
  ie_previous_devices :: "(string \<times> pydict) list"

definition new_io_evaluator :: "io_policy \<Rightarrow> io_evaluator" where
  "new_io_evaluator policy = \<lparr>ie_policy = policy, ie_core = new_core, ie_previous_devices = []\<rparr>"

definition DELTA_FIELDS :: "string list" where
  "DELTA_FIELDS = [''reads_completed'', ''writes_completed'', ''sectors_read'', ''sectors_written'', ''io_ticks_ms'', ''weighted_io_ms'']"

definition field_delta :: "pydict \<Rightarrow> pydict \<Rightarrow> string \<Rightarrow> string + int" where
  "field_delta current previous field =
     (case (int_like (dget current field), int_like (dget previous field)) of
        (Some n, Some p) \<Rightarrow> if n < p then Inl ''io_device_counter_reset'' else Inr (n - p)
      | _ \<Rightarrow> Inl (''io_device_'' @ field @ ''_missing''))"

definition device_deltas :: "pydict \<Rightarrow> pydict \<Rightarrow> rat option \<Rightarrow> pydict \<times> string list" where
  "device_deltas current previous elapsed =
     (case elapsed of
        None \<Rightarrow> (current, [''io_device_elapsed_missing''])
      | Some dt \<Rightarrow>
          if dt \<le> 0 then (current, [''io_device_elapsed_missing''])
          else
            (let each = map (\<lambda>f. (f, field_delta current previous f)) DELTA_FIELDS;
                 deltas = List.map_filter (\<lambda>(f, d). case d of Inl _ \<Rightarrow> None | Inr n \<Rightarrow> Some (f, n)) each;
                 get = counter deltas;
                 operations = get ''reads_completed'' + get ''writes_completed'';
                 number_or_none = (\<lambda>c q. if c then PFloat (Fin (round_digits 3 q)) else PNone)
             in (dset (dset (dset (dset current ''deltas'' (int_dict deltas))
                   ''utilization_percent'' (number_or_none (map_of deltas ''io_ticks_ms'' \<noteq> None)
                      (min (max (of_int (get ''io_ticks_ms'') / (dt * 1000) * 100) 0) 100)))
                   ''throughput_bytes_per_second'' (number_or_none True (of_int ((get ''sectors_read'' + get ''sectors_written'') * 512) / dt)))
                   ''average_latency_ms'' (number_or_none (operations \<noteq> 0) (of_int (get ''weighted_io_ms'') / of_int operations)),
                 List.map_filter (\<lambda>(f, d). case d of Inl flag \<Rightarrow> Some flag | Inr _ \<Rightarrow> None) each)))"

definition device_section :: "(string \<times> pydict) list \<Rightarrow> rat option \<Rightarrow> string \<Rightarrow> pydict \<Rightarrow> pydict \<times> string list" where
  "device_section previous elapsed device current =
     (case map_of previous device of
        None \<Rightarrow> (dset (dset (dset (dset current ''utilization_percent'' PNone) ''average_latency_ms'' PNone)
                    ''throughput_bytes_per_second'' PNone) ''deltas'' (PDict []), [])
      | Some p \<Rightarrow> device_deltas current p elapsed)"

definition larger :: "pyfloat option \<Rightarrow> pyfloat option \<Rightarrow> pyfloat option" where
  "larger value best =
     (case value of None \<Rightarrow> best | Some x \<Rightarrow> (case best of None \<Rightarrow> value | Some b \<Rightarrow> if flt b x then value else best))"

definition section_avg10 :: "pydict \<Rightarrow> string \<Rightarrow> pyfloat option" where
  "section_avg10 psi k = (case dget psi k of PDict s \<Rightarrow> number (dget s ''avg10'') | _ \<Rightarrow> None)"

definition io_candidate :: "string list \<Rightarrow> string list \<Rightarrow> string" where
  "io_candidate warning critical =
     (if ''io_psi_full_critical'' \<in> set critical \<or> 2 \<le> length critical then ''critical''
      else if warning \<noteq> [] \<or> critical \<noteq> [] then ''warning'' else ''normal'')"

text \<open>The warning and critical signals of pressure and devices.\<close>

definition io_signals :: "io_policy \<Rightarrow> pyfloat option \<Rightarrow> pyfloat option \<Rightarrow> pyfloat option \<Rightarrow> pyfloat option \<Rightarrow> string list \<times> string list" where
  "io_signals policy some_avg full_avg utilization latency =
     (let (use_w, use_c) = two_level (fle (ip_critical_utilization policy)) ''io_device_utilization_critical''
            (fle (ip_warning_utilization policy)) ''io_device_utilization_warning'' utilization;
          (late_w, late_c) = two_level (fle (ip_critical_latency policy)) ''io_average_latency_critical''
            (fle (ip_warning_latency policy)) ''io_average_latency_warning'' latency
      in ((if opt_holds (fle (ip_warning_psi_some policy)) some_avg then [''io_psi_some_warning''] else []) @ use_w @ late_w,
          (if opt_holds (fle (ip_critical_psi_full policy)) full_avg then [''io_psi_full_critical''] else []) @ use_c @ late_c))"

record io_readings =
  ir_some :: "pyfloat option"
  ir_full :: "pyfloat option"
  ir_utilization :: "pyfloat option"
  ir_latency :: "pyfloat option"
  ir_devices :: "(string \<times> pydict) list"

definition io_devices :: "pydict \<Rightarrow> (string \<times> pydict) list" where
  "io_devices io =
     List.map_filter (\<lambda>(k, v). case v of PDict d \<Rightarrow> Some (k, d) | _ \<Rightarrow> None) (mapping_of (dget io ''devices''))"

definition evaluate_io ::
  "(pyval \<Rightarrow> string) \<Rightarrow> pydict \<Rightarrow> rat \<Rightarrow> io_evaluator \<Rightarrow> (py_exn + disk_risk \<times> io_readings) \<times> io_evaluator" where
  "evaluate_io rep sample now e =
     (let policy = ie_policy e; io = mapping_of (dget sample ''io'')
      in case flags_of rep (dget_default (mapping_of (dget io ''quality'')) ''flags'' (PList [])) of
           Inl x \<Rightarrow> (Inl x, e\<lparr>ie_core := failed_core (ie_core e)\<rparr>)
         | Inr quality_flags \<Rightarrow>
             (let (ns, elapsed, clock_flags) = timestamp_quality sample (rc_previous_ns (ie_core e)) (ip_max_sample_age policy);
                  all_devices = mapping_of (dget io ''devices''); devices = io_devices io;
                  results = map (\<lambda>(k, d). (k, device_section (ie_previous_devices e) elapsed k d)) devices;
                  utilization = fold (\<lambda>(_, r, _). larger (number (dget r ''utilization_percent''))) results None;
                  latency = fold (\<lambda>(_, r, _). larger (number (dget r ''average_latency_ms''))) results None;
                  psi = mapping_of (dget io ''psi'');
                  some_avg = section_avg10 psi ''some''; full_avg = section_avg10 psi ''full'';
                  (warning, critical) = io_signals policy some_avg full_avg utilization latency;
                  flags = quality_flags @ clock_flags @ (if all_devices = [] then [''io_devices_empty''] else []) @
                    concat (map (\<lambda>(_, v). if is_dict v then [] else [''io_device_record_invalid'']) all_devices) @
                    concat (map (\<lambda>(_, _, fs). fs) results) @
                    (if some_avg = None \<or> full_avg = None then [''io_psi_avg10_missing''] else []);
                  (r, core) = conclude_risk (ip_warning_for policy) (ip_critical_for policy) (ip_required_samples policy)
                    flags warning critical (io_candidate warning critical) ns now (ie_core e)
              in (Inr (r, \<lparr>ir_some = some_avg, ir_full = full_avg, ir_utilization = utilization, ir_latency = latency,
                          ir_devices = map (\<lambda>(k, r, _). (k, r)) results\<rparr>),
                  e\<lparr>ie_core := core, ie_previous_devices := devices\<rparr>)))"

section \<open>I/O attribution\<close>

definition io_bytes :: "pyval \<Rightarrow> int" where
  "io_bytes v =
     sum_list (concat (map (\<lambda>(_, d). case d of
         PDict values \<Rightarrow> map (\<lambda>k. case natural (dget values k) of None \<Rightarrow> 0 | Some n \<Rightarrow> n) [''rbytes'', ''wbytes'', ''dbytes'']
       | _ \<Rightarrow> []) (mapping_of v)))"

record io_candidate_row =
  ic_kind :: pyval
  ic_id :: string
  ic_name :: pyval
  ic_path :: pyval
  ic_delta :: "int option"
  ic_confidence :: string
  ic_errors :: "pyval list"
  ic_share :: "rat option"

record io_attributor =
  ia_policy :: io_policy
  ia_previous_objects :: "(string \<times> pydict) list"
  ia_previous_ns :: "int option"

definition new_io_attributor :: "io_policy \<Rightarrow> io_attributor" where
  "new_io_attributor policy = \<lparr>ia_policy = policy, ia_previous_objects = [], ia_previous_ns = None\<rparr>"

record io_attribution =
  io_state :: string
  io_target :: "io_candidate_row option"
  io_candidates :: "io_candidate_row list"
  io_reasons :: "string list"
  io_quality_flags :: "string list"
  io_elapsed :: "rat option"

text \<open>One object: reasons, quality flags, identity blockers, candidate.\<close>

definition io_row ::
  "(pyval \<Rightarrow> string) \<Rightarrow> (string \<times> pydict) list \<Rightarrow> rat option \<Rightarrow> pyval \<Rightarrow>
   py_exn + (string list \<times> string list \<times> string list \<times> io_candidate_row option)" where
  "io_row rep previous_objects elapsed v =
     (case v of
        PDict item \<Rightarrow>
          (case as_nonempty_str (dget item ''id'') of
             None \<Rightarrow> Inr ([''io_stable_object_identity_missing''], [], [], None)
           | Some i \<Rightarrow>
               (let path = dget item ''cgroup_path''; previous = map_of previous_objects i;
                    moved = (case previous of
                       None \<Rightarrow> False
                     | Some p \<Rightarrow> py_truthy (dget p ''cgroup_path'') \<and> py_truthy path \<and> \<not> py_eq (dget p ''cgroup_path'') path);
                    current_bytes = io_bytes (dget item ''io_stat'');
                    growth = (case previous of
                       None \<Rightarrow> Inr None
                     | Some p \<Rightarrow>
                         (if \<not> opt_holds (\<lambda>dt. 0 < dt) elapsed then Inr None
                          else if current_bytes < io_bytes (dget p ''io_stat'') then Inl ''io_object_counter_reset''
                          else Inr (Some (current_bytes - io_bytes (dget p ''io_stat'')))));
                    raw = dget (mapping_of (dget item ''quality'')) ''flags'';
                    trusted = (dget item ''mapping_confidence'' = PStr ''high'' \<and> as_nonempty_str path \<noteq> None \<and> \<not> py_truthy raw)
                in sum_bind (if py_truthy raw then flags_of rep raw else Inr []) (\<lambda>flags.
                     Inr ([], (case growth of Inl flag \<Rightarrow> [flag] | Inr _ \<Rightarrow> []) @ flags,
                          if moved then [''io_cgroup_path_changed''] else [],
                          Some \<lparr>ic_kind = dget_default item ''kind'' (PStr ''container''), ic_id = i, ic_name = dget item ''name'',
                                ic_path = path, ic_delta = (case growth of Inl _ \<Rightarrow> None | Inr d \<Rightarrow> d),
                                ic_confidence = (if trusted then ''high'' else ''low''),
                                ic_errors = list_value (dget item ''mapping_errors''), ic_share = None\<rparr>))))
      | _ \<Rightarrow> Inr ([], [''io_object_record_invalid''], [], None))"

definition io_share_of :: "io_candidate_row \<Rightarrow> rat" where
  "io_share_of c = (case ic_share c of None \<Rightarrow> 0 | Some s \<Rightarrow> s)"

definition io_rank :: "io_candidate_row list \<Rightarrow> io_candidate_row list" where
  "io_rank rows =
     (let growth = sum_list (map (\<lambda>c. case ic_delta c of None \<Rightarrow> 0 | Some d \<Rightarrow> max d 0) rows)
      in sort_key (\<lambda>c. - io_share_of c)
           (map (\<lambda>c. c\<lparr>ic_share := (if 0 < growth then map_option (\<lambda>d. round_digits 3 (of_int d / of_int growth * 100)) (ic_delta c) else None)\<rparr>) rows))"

definition io_valid :: "io_policy \<Rightarrow> io_candidate_row \<Rightarrow> bool" where
  "io_valid policy c \<longleftrightarrow> ic_confidence c = ''high'' \<and> opt_holds (\<lambda>s. fle (ip_min_share policy) (Fin s)) (ic_share c)"

definition io_verdict ::
  "io_policy \<Rightarrow> bool \<Rightarrow> string list \<Rightarrow> io_candidate_row list \<Rightarrow> string \<times> io_candidate_row option \<times> string list" where
  "io_verdict policy degraded blockers valid =
     (if degraded then (''DEGRADED_OBSERVABILITY'', None, [])
      else if blockers \<noteq> [] then (''AMBIGUOUS_TARGET'', None, blockers)
      else case valid of
          [] \<Rightarrow> (''NO_TARGET'', None, [''io_no_candidate_meets_confidence_or_contribution''])
        | [c] \<Rightarrow> (''TARGET_CONFIRMED'', Some c, [''io_single_target_exceeds_contribution_and_margin''])
        | c # second # _ \<Rightarrow>
            if flt (Fin (io_share_of c - io_share_of second)) (fscale 100 (ip_min_lead policy))
            then (''AMBIGUOUS_TARGET'', None, [''io_candidate_lead_margin_too_small''])
            else (''TARGET_CONFIRMED'', Some c, [''io_single_target_exceeds_contribution_and_margin'']))"

text \<open>A boolean stamp is flagged as missing but still read as a number.\<close>

definition io_clock_flags :: "io_policy \<Rightarrow> pyval \<Rightarrow> rat option \<Rightarrow> string list" where
  "io_clock_flags policy stamp elapsed =
     (if as_int stamp = None then [''io_attribution_timestamp_missing''] else []) @
     (case elapsed of
        None \<Rightarrow> []
      | Some dt \<Rightarrow> if dt \<le> 0 then [''io_attribution_clock_not_increasing'']
                   else if flt (ip_max_sample_age policy) (Fin dt) then [''io_attribution_sample_gap_too_large''] else [])"

definition attribute_io ::
  "(pyval \<Rightarrow> string) \<Rightarrow> pydict \<Rightarrow> io_attributor \<Rightarrow> (py_exn + io_attribution) \<times> io_attributor" where
  "attribute_io rep sample a =
     (let stamp = dget sample ''observed_monotonic_ns''; ns = int_like stamp;
          elapsed = elapsed_seconds (ia_previous_ns a) ns;
          objects = list_value (dget (mapping_of (dget sample ''io'')) ''objects'')
      in case traverse (io_row rep (ia_previous_objects a) elapsed) objects of
           Inl x \<Rightarrow> (Inl x, a)
         | Inr rows \<Rightarrow>
             (let flags = io_clock_flags (ia_policy a) stamp elapsed @ concat (map (\<lambda>(_, f, _, _). f) rows);
                  ranked = io_rank (List.map_filter (\<lambda>(_, _, _, c). c) rows);
                  fresh = (ia_previous_objects a = []);
                  (state, target, why) = io_verdict (ia_policy a) (flags \<noteq> [] \<or> fresh) (concat (map (\<lambda>(_, _, b, _). b) rows))
                     (filter (io_valid (ia_policy a)) ranked);
                  reasons = (if objects = [] then [''io_object_registry_empty''] else []) @ concat (map fst rows) @
                     (if fresh then [''io_object_baseline_established''] else []) @ why
              in (Inr \<lparr>io_state = state, io_target = target, io_candidates = ranked, io_reasons = sorted_set reasons,
                      io_quality_flags = sorted_set flags, io_elapsed = elapsed\<rparr>,
                  a\<lparr>ia_previous_objects := fold (\<lambda>item acc. if py_truthy (dget item ''id'') then dset acc (py_str rep (dget item ''id'')) item else acc)
                       (map mapping_of (filter is_dict objects)) [],
                    ia_previous_ns := (if ns = None then ia_previous_ns a else ns)\<rparr>)))"

section \<open>Capacity attribution and the simulated decision\<close>

definition attribute_capacity :: "(pyval \<Rightarrow> string) \<Rightarrow> pydict \<Rightarrow> py_exn + string \<times> string list \<times> string list" where
  "attribute_capacity rep sample =
     sum_bind (flags_of rep (dget_default (mapping_of (dget sample ''capacity_quality'')) ''flags'' (PList []))) (\<lambda>flags.
       Inr (''DEGRADED_OBSERVABILITY'', [''capacity_writer_ownership_unavailable''], sorted_set flags))"

record simulated_decision =
  sd_mode :: string
  sd_action :: string
  sd_execution :: string
  sd_reasons :: "string list"

definition build_disk_simulation_decision ::
  "pyval \<Rightarrow> pyval \<Rightarrow> string \<Rightarrow> string \<Rightarrow> string \<Rightarrow> bool \<Rightarrow> string list \<Rightarrow> py_exn + simulated_decision" where
  "build_disk_simulation_decision risk_now attribution_state kind mode simulate_action protected allowed =
     (let decide = (\<lambda>action reason. Inr \<lparr>sd_mode = mode, sd_action = action,
            sd_execution = (if mode = ''observe'' then ''not_applicable'' else ''not_executed''), sd_reasons = [reason]\<rparr>)
      in if risk_now = PStr ''degraded_observability''
         then decide (if mode \<noteq> ''observe'' then ''escalate'' else ''none'') (kind @ ''_observability_degraded'')
         else if \<not> hashable risk_now then Inl TypeError
         else if \<not> str_in risk_now [''warning'', ''critical''] then decide ''none'' (kind @ ''_risk_not_actionable'')
         else if mode = ''observe'' then decide ''none'' ''observe_only''
         else if attribution_state \<noteq> PStr ''TARGET_CONFIRMED'' then decide ''escalate'' (kind @ ''_attribution_not_confirmed'')
         else if protected then decide ''escalate'' ''protected_object''
         else if simulate_action \<notin> set allowed then decide ''escalate'' ''action_not_allowlisted''
         else decide simulate_action (kind @ ''_simulate_only''))"

section \<open>The dwell contract\<close>

lemma conclude_risk_rule:
  assumes "conclude_risk wfor cfor n flags warning critical candidate ns now core = (r, core')"
  shows "dwell_next wfor cfor (dk_quality_flags r \<noteq> []) (dk_candidate r) now (rc_dwell core) = (dk_state r, rc_dwell core')"
    and "dk_candidate r = candidate"
  using assms by (auto simp: conclude_risk_def Let_def)

lemma failed_core_dwell [simp]: "rc_dwell (failed_core core) = rc_dwell core"
  by (simp add: failed_core_def)

lemma disk_candidate_levels:
  "capacity_candidate w c \<in> risk_levels" "io_candidate w c \<in> risk_levels"
  by (simp_all add: capacity_candidate_def io_candidate_def risk_levels_def)

lemma evaluate_capacity_rule:
  assumes "evaluate_capacity rep sample now e = (Inr (r, rows), e')"
  shows "dwell_next (dp_warning_for (de_policy e)) (dp_critical_for (de_policy e)) (dk_quality_flags r \<noteq> []) (dk_candidate r) now
      (rc_dwell (de_core e)) = (dk_state r, rc_dwell (de_core e'))"
    and "de_policy e' = de_policy e" "dk_candidate r \<in> risk_levels"
  using assms conclude_risk_rule
  by (auto simp: evaluate_capacity_def Let_def disk_candidate_levels split: sum.splits prod.splits)

lemma evaluate_capacity_raised:
  "evaluate_capacity rep sample now e = (Inl x, e') \<Longrightarrow> rc_dwell (de_core e') = rc_dwell (de_core e) \<and> de_policy e' = de_policy e"
  by (auto simp: evaluate_capacity_def Let_def split: sum.splits prod.splits)

lemma evaluate_io_rule:
  assumes "evaluate_io rep sample now e = (Inr (r, readings), e')"
  shows "dwell_next (ip_warning_for (ie_policy e)) (ip_critical_for (ie_policy e)) (dk_quality_flags r \<noteq> []) (dk_candidate r) now
      (rc_dwell (ie_core e)) = (dk_state r, rc_dwell (ie_core e'))"
    and "ie_policy e' = ie_policy e" "dk_candidate r \<in> risk_levels"
  using assms conclude_risk_rule
  by (auto simp: evaluate_io_def Let_def disk_candidate_levels split: sum.splits prod.splits)

lemma evaluate_io_raised:
  "evaluate_io rep sample now e = (Inl x, e') \<Longrightarrow> rc_dwell (ie_core e') = rc_dwell (ie_core e) \<and> ie_policy e' = ie_policy e"
  by (auto simp: evaluate_io_def Let_def split: sum.splits prod.splits)

text \<open>The outcome of an evaluation as the contract sees it.\<close>

definition risk_outcome :: "(py_exn + disk_risk \<times> 'a) \<times> 'e \<Rightarrow> disk_risk option \<times> 'e" where
  "risk_outcome = map_prod (\<lambda>r. case r of Inl _ \<Rightarrow> None | Inr p \<Rightarrow> Some (fst p)) id"

lemma risk_outcome_iff:
  "risk_outcome p = (Some r, e) \<longleftrightarrow> (\<exists>a. p = (Inr (r, a), e))" "risk_outcome p = (None, e) \<longleftrightarrow> (\<exists>x. p = (Inl x, e))"
  by (cases p; auto simp: risk_outcome_def split: sum.splits)+

lemma risk_outcome_snd [simp]: "snd (risk_outcome p) = snd p"
  by (simp add: risk_outcome_def)

definition capacity_eval :: "(pyval \<Rightarrow> string) \<Rightarrow> pydict \<times> rat \<Rightarrow> capacity_evaluator \<Rightarrow> disk_risk option \<times> capacity_evaluator" where
  "capacity_eval rep x e = risk_outcome (evaluate_capacity rep (fst x) (snd x) e)"

definition io_eval :: "(pyval \<Rightarrow> string) \<Rightarrow> pydict \<times> rat \<Rightarrow> io_evaluator \<Rightarrow> disk_risk option \<times> io_evaluator" where
  "io_eval rep x e = risk_outcome (evaluate_io rep (fst x) (snd x) e)"

definition capacity_dwells :: "capacity_evaluator \<Rightarrow> pyfloat \<times> pyfloat" where
  "capacity_dwells e = (dp_warning_for (de_policy e), dp_critical_for (de_policy e))"

definition io_dwells :: "io_evaluator \<Rightarrow> pyfloat \<times> pyfloat" where
  "io_dwells e = (ip_warning_for (ie_policy e), ip_critical_for (ie_policy e))"

lemma evaluate_policies:
  "de_policy (snd (evaluate_capacity rep sample now e)) = de_policy e"
  "ie_policy (snd (evaluate_io rep sample now i)) = ie_policy i"
  by (simp_all add: evaluate_capacity_def evaluate_io_def Let_def split: sum.split prod.split)

interpretation capacity_run: dwell_engine "capacity_eval rep" snd dk_state dk_candidate dk_quality_flags "\<lambda>e. rc_dwell (de_core e)" capacity_dwells
  for rep
  by unfold_locales
     (auto simp: capacity_eval_def capacity_dwells_def risk_outcome_iff evaluate_policies
       dest: evaluate_capacity_rule evaluate_capacity_raised)

interpretation io_run: dwell_engine "io_eval rep" snd dk_state dk_candidate dk_quality_flags "\<lambda>e. rc_dwell (ie_core e)" io_dwells
  for rep
  by unfold_locales
     (auto simp: io_eval_def io_dwells_def risk_outcome_iff evaluate_policies
       dest: evaluate_io_rule evaluate_io_raised)

text \<open>Both disk channels emit only after their dwell time and without a quality flag.\<close>

theorem capacity_emission_dwells:
  assumes "exec_all (dwell_step (capacity_eval rep) snd dk_state dk_candidate) (new_capacity_evaluator policy, []) xs = (e, h)"
    and "evaluate_capacity rep sample now e = (Inr (r, rows), e')" and "dk_state r \<in> {''warning'', ''critical''}"
  shows "dk_quality_flags r = [] \<and>
    (\<exists>period before. (dk_state r, dk_candidate r, now) # h = period @ before \<and> period \<noteq> [] \<and>
       (\<forall>p \<in> set period. fst (snd p) = dk_state r) \<and>
       fle (required_dwell (dp_warning_for policy) (dp_critical_for policy) (dk_state r)) (Fin (max (now - snd (snd (last period))) 0)))"
proof -
  have ev: "capacity_eval rep (sample, now) e = (Some r, e')"
    using assms(2) by (simp add: capacity_eval_def risk_outcome_iff)
  have new: "rc_dwell (de_core (new_capacity_evaluator policy)) = new_dwell"
      "capacity_dwells (new_capacity_evaluator policy) = (dp_warning_for policy, dp_critical_for policy)"
    by (simp_all add: new_capacity_evaluator_def capacity_dwells_def new_core_def)
  show ?thesis
    using capacity_run.emission_dwells [OF assms(1) new(1) ev assms(3)] unfolding new fst_conv snd_conv .
qed

theorem io_emission_dwells:
  assumes "exec_all (dwell_step (io_eval rep) snd dk_state dk_candidate) (new_io_evaluator policy, []) xs = (e, h)"
    and "evaluate_io rep sample now e = (Inr (r, readings), e')" and "dk_state r \<in> {''warning'', ''critical''}"
  shows "dk_quality_flags r = [] \<and>
    (\<exists>period before. (dk_state r, dk_candidate r, now) # h = period @ before \<and> period \<noteq> [] \<and>
       (\<forall>p \<in> set period. fst (snd p) = dk_state r) \<and>
       fle (required_dwell (ip_warning_for policy) (ip_critical_for policy) (dk_state r)) (Fin (max (now - snd (snd (last period))) 0)))"
proof -
  have ev: "io_eval rep (sample, now) e = (Some r, e')"
    using assms(2) by (simp add: io_eval_def risk_outcome_iff)
  have new: "rc_dwell (ie_core (new_io_evaluator policy)) = new_dwell"
      "io_dwells (new_io_evaluator policy) = (ip_warning_for policy, ip_critical_for policy)"
    by (simp_all add: new_io_evaluator_def io_dwells_def new_core_def)
  show ?thesis
    using io_run.emission_dwells [OF assms(1) new(1) ev assms(3)] unfolding new fst_conv snd_conv .
qed

section \<open>The verdict of the I/O attribution\<close>

lemma io_rank_sorted: "sorted_wrt (\<lambda>a b. io_share_of b \<le> io_share_of a) (filter P (io_rank rows))"
proof (rule sorted_wrt_filter)
  have "sorted (map (\<lambda>c. - io_share_of c) (io_rank rows))"
    by (simp add: io_rank_def Let_def)
  then show "sorted_wrt (\<lambda>a b. io_share_of b \<le> io_share_of a) (io_rank rows)"
    unfolding sorted_map by (rule sorted_wrt_mono_rel [rotated]) simp
qed

lemma io_verdict_confirmed:
  assumes "io_verdict policy degraded blockers valid = (''TARGET_CONFIRMED'', target, why)"
    and "sorted_wrt (\<lambda>a b. io_share_of b \<le> io_share_of a) valid"
  shows "\<not> degraded \<and> blockers = [] \<and> (\<exists>t rest lead. valid = t # rest \<and> target = Some t \<and>
    (rest \<noteq> [] \<longrightarrow> \<not> flt (Fin lead) (fscale 100 (ip_min_lead policy))) \<and> (\<forall>c \<in> set rest. io_share_of c \<le> io_share_of t - lead))"
proof (cases valid)
  case (Cons t rest)
  have t: "\<not> degraded" "blockers = []" "target = Some t"
    using assms(1) Cons by (auto simp: io_verdict_def split: if_splits list.splits)
  show ?thesis
  proof (cases rest)
    case (Cons u more)
    then have "\<not> flt (Fin (io_share_of t - io_share_of u)) (fscale 100 (ip_min_lead policy))"
      using assms(1) \<open>valid = t # rest\<close> t by (auto simp: io_verdict_def split: if_splits)
    moreover have "\<forall>c \<in> set rest. io_share_of c \<le> io_share_of t - (io_share_of t - io_share_of u)"
      using assms(2) \<open>valid = t # rest\<close> Cons by auto
    ultimately show ?thesis
      using t \<open>valid = t # rest\<close> by blast
  qed (use t Cons in auto)
qed (use assms(1) in \<open>auto simp: io_verdict_def split: if_splits\<close>)

text \<open>
  The I/O attribution confirms a target only with an earlier sample, without a quality flag or a
  moved cgroup; the target is a high-confidence object with at least the minimum share, and it
  leads every other such object by the margin.
\<close>

theorem io_target_confirmed:
  assumes "attribute_io rep sample a = (Inr r, a')" and "io_state r = ''TARGET_CONFIRMED''"
  shows "io_quality_flags r = [] \<and> ia_previous_objects a \<noteq> [] \<and>
    (\<exists>t rest lead. filter (io_valid (ia_policy a)) (io_candidates r) = t # rest \<and> io_target r = Some t \<and>
       (rest \<noteq> [] \<longrightarrow> \<not> flt (Fin lead) (fscale 100 (ip_min_lead (ia_policy a)))) \<and>
       (\<forall>c \<in> set rest. io_share_of c \<le> io_share_of t - lead))"
proof -
  let ?elapsed = "elapsed_seconds (ia_previous_ns a) (int_like (dget sample ''observed_monotonic_ns''))"
  let ?objects = "list_value (dget (mapping_of (dget sample ''io'')) ''objects'')"
  obtain rows where rows: "traverse (io_row rep (ia_previous_objects a) ?elapsed) ?objects = Inr rows"
    using assms(1) by (cases "traverse (io_row rep (ia_previous_objects a) ?elapsed) ?objects") (simp_all add: attribute_io_def Let_def)
  let ?ranked = "io_rank (List.map_filter (\<lambda>(_, _, _, c). c) rows)"
  let ?blockers = "concat (map (\<lambda>(_, _, b, _). b) rows)"
  let ?flags = "io_clock_flags (ia_policy a) (dget sample ''observed_monotonic_ns'') ?elapsed @ concat (map (\<lambda>(_, f, _, _). f) rows)"
  obtain state target why where v: "io_verdict (ia_policy a) (?flags \<noteq> [] \<or> ia_previous_objects a = []) ?blockers
      (filter (io_valid (ia_policy a)) ?ranked) = (state, target, why)"
    by (rule prod_cases3)
  have r: "io_quality_flags r = sorted_set ?flags" "io_candidates r = ?ranked" "io_state r = state" "io_target r = target"
    using assms(1) unfolding attribute_io_def Let_def rows sum.case v prod.case by auto
  then have "io_verdict (ia_policy a) (?flags \<noteq> [] \<or> ia_previous_objects a = []) ?blockers
      (filter (io_valid (ia_policy a)) ?ranked) = (''TARGET_CONFIRMED'', target, why)"
    using v assms(2) by simp
  from io_verdict_confirmed [OF this io_rank_sorted] have "?flags = []" "ia_previous_objects a \<noteq> []" by blast+
  with io_verdict_confirmed [OF \<open>io_verdict _ _ _ _ = (''TARGET_CONFIRMED'', target, why)\<close> io_rank_sorted] r show ?thesis
    by (simp add: sorted_set_def)
qed

text \<open>A sample with two growing objects: one with a medium and one with a high mapping confidence.\<close>

definition io_sample :: "int \<Rightarrow> int \<Rightarrow> int \<Rightarrow> pydict" where
  "io_sample ns a b =
     [(''observed_monotonic_ns'', PInt ns),
      (''io'', PDict [(''objects'', PList
         [PDict [(''id'', PStr ''a''), (''cgroup_path'', PStr ''/a''), (''mapping_confidence'', PStr ''medium''),
            (''io_stat'', PDict [(''8:0'', PDict [(''rbytes'', PInt a)])])],
          PDict [(''id'', PStr ''b''), (''cgroup_path'', PStr ''/b''), (''mapping_confidence'', PStr ''high''),
            (''io_stat'', PDict [(''8:0'', PDict [(''rbytes'', PInt b)])])]])])]"

definition io_attributed :: "(py_exn + io_attribution) \<times> io_attributor" where
  "io_attributed =
     attribute_io (\<lambda>_. []) (io_sample 6000000000 700 300) (snd (attribute_io (\<lambda>_. []) (io_sample 1000000000 0 0) (new_io_attributor default_io_policy)))"

lemma io_attributed_confirms: "(case fst io_attributed of Inl _ \<Rightarrow> False | Inr r \<Rightarrow> io_state r = ''TARGET_CONFIRMED'')"
  by code_simp

theorem io_target_confirmed_witness:
  "\<exists>r t. fst io_attributed = Inr r \<and> io_target r = Some t \<and> io_valid default_io_policy t"
proof -
  obtain r where r: "fst io_attributed = Inr r" "io_state r = ''TARGET_CONFIRMED''"
    using io_attributed_confirms by (auto split: sum.splits)
  then have "attribute_io (\<lambda>_. []) (io_sample 6000000000 700 300)
      (snd (attribute_io (\<lambda>_. []) (io_sample 1000000000 0 0) (new_io_attributor default_io_policy))) = (Inr r, snd io_attributed)"
    by (metis prod.collapse io_attributed_def)
  from io_target_confirmed [OF this r(2)] obtain t rest where
    t: "io_target r = Some t" "filter (io_valid (ia_policy (snd (attribute_io (\<lambda>_. []) (io_sample 1000000000 0 0)
      (new_io_attributor default_io_policy))))) (io_candidates r) = t # rest" by blast
  moreover have "ia_policy (snd (attribute_io (\<lambda>_. []) (io_sample 1000000000 0 0) (new_io_attributor default_io_policy))) = default_io_policy"
    by code_simp
  ultimately have "t \<in> set (filter (io_valid default_io_policy) (io_candidates r))" by simp
  with t r(1) show ?thesis by auto
qed

text \<open>
  The confirmed I/O target need not be the largest contributor: an object whose mapping
  confidence is medium grows by 70 percent of the I/O and raises no flag, and the one with the
  remaining 30 percent is confirmed as the single target that exceeds the margin.
\<close>

theorem io_confirms_non_leader:
  "(case fst io_attributed of Inl _ \<Rightarrow> False
    | Inr r \<Rightarrow> io_state r = ''TARGET_CONFIRMED'' \<and> map_option ic_id (io_target r) = Some ''b'' \<and>
        map (\<lambda>c. (ic_id c, ic_share c)) (io_candidates r) = [(''a'', Some 70), (''b'', Some 30)] \<and>
        io_reasons r = [''io_single_target_exceeds_contribution_and_margin''])"
  by code_simp

end
