(* ===== verification/Guardian_Observer.thy ===== *)
theory Guardian_Observer
  imports Guardian_Risk Guardian_Cpu Guardian_Disk Guardian_Attribution Guardian_Multirisk Guardian_Shedding
begin

text \<open>
  One sample of the observer (\<open>src/guardian_observer.py\<close>): the results of the engines as dictionaries, the event
  built from them, the join of the registry with the contributions, and \<open>ObserverSampler.sample\<close>, which threads the
  engines' states.
\<close>

section \<open>Results as dictionaries\<close>

abbreviation strs :: "string list \<Rightarrow> pyval" where
  "strs xs \<equiv> PList (map PStr xs)"

abbreviation flo :: "rat \<Rightarrow> pyval" where
  "flo q \<equiv> PFloat (Fin q)"

definition memory_risk_dict :: "risk_result \<Rightarrow> pydict" where
  "memory_risk_dict r =
     [(''state'', PStr (rk_state r)), (''candidate_state'', PStr (rk_candidate r)), (''candidate_for_seconds'', flo (rk_candidate_for r)),
      (''required_for_seconds'', PFloat (rk_required_for r)), (''reasons'', strs (rk_reasons r)), (''quality_flags'', strs (rk_quality_flags r)),
      (''sample_count'', PInt (rk_sample_count r)), (''oom_events_delta'', opt_val PInt (rk_oom_delta r)),
      (''memory_available_growth_bytes_per_second'', opt_val flo (rk_growth r)), (''quality_status'', PStr (rk_quality_status r)),
      (''signal_summary'', PDict [(''warning_signals'', strs (rk_warning_signals r)), (''critical_support'', strs (rk_critical_support r)),
         (''psi_memory_some_avg10'', opt_val PFloat (rk_psi_some r)), (''psi_memory_full_avg10'', opt_val PFloat (rk_psi_full r)),
         (''swap_used_ratio_percent'', opt_val PFloat (rk_swap_ratio r))])]"

definition cpu_risk_dict :: "cpu_risk \<Rightarrow> pydict" where
  "cpu_risk_dict r =
     [(''resource_kind'', PStr ''cpu''), (''state'', PStr (ck_state r)), (''candidate_state'', PStr (ck_candidate r)),
      (''candidate_for_seconds'', flo (ck_candidate_for r)), (''required_for_seconds'', PFloat (ck_required_for r)),
      (''reasons'', strs (ck_reasons r)), (''quality_flags'', strs (ck_quality_flags r)),
      (''quality_status'', PStr (if ck_quality_flags r = [] then ''ok'' else ''degraded'')), (''sample_count'', PInt (ck_sample_count r)),
      (''cpu_utilization_percent'', opt_val flo (ck_utilization r)), (''load1'', opt_val PFloat (ck_load1 r)),
      (''logical_cpus'', PInt (ck_logical_cpus r)), (''cpu_psi_some_avg10'', opt_val PFloat (ck_psi_some r)),
      (''cpu_psi_full_avg10'', opt_val PFloat (ck_psi_full r)), (''scheduler_delay_ms'', opt_val PFloat (ck_scheduler_delay r)),
      (''cgroup_throttled_delta'', opt_val PInt (ck_throttled_delta r)), (''warning_signals'', strs (ck_warning_signals r)),
      (''critical_support'', strs (ck_critical_support r))]"

definition disk_risk_dict :: "string \<Rightarrow> disk_risk \<Rightarrow> pydict \<Rightarrow> pydict" where
  "disk_risk_dict kind r extra =
     [(''resource_kind'', PStr kind), (''state'', PStr (dk_state r)), (''candidate_state'', PStr (dk_candidate r)),
      (''candidate_for_seconds'', flo (dk_candidate_for r)), (''required_for_seconds'', PFloat (dk_required_for r)),
      (''reasons'', strs (dk_reasons r)), (''quality_flags'', strs (dk_quality_flags r)),
      (''quality_status'', PStr (if dk_quality_flags r = [] then ''ok'' else ''degraded'')), (''sample_count'', PInt (dk_sample_count r)),
      (''warning_signals'', strs (dk_warning_signals r)), (''critical_support'', strs (dk_critical_support r))] @ extra"

definition io_readings_dict :: "io_readings \<Rightarrow> pydict" where
  "io_readings_dict r =
     [(''io_psi_some_avg10'', opt_val PFloat (ir_some r)), (''io_psi_full_avg10'', opt_val PFloat (ir_full r)),
      (''max_device_utilization_percent'', opt_val PFloat (ir_utilization r)), (''max_average_latency_ms'', opt_val PFloat (ir_latency r)),
      (''devices'', PDict (map (\<lambda>(k, d). (k, PDict d)) (ir_devices r)))]"

definition memory_candidate_dict :: "attribution_candidate \<Rightarrow> pydict" where
  "memory_candidate_dict c =
     [(''kind'', PStr ''container''), (''id'', PStr (ac_id c)), (''name'', ac_name c), (''confidence'', PStr (ac_confidence c)),
      (''cgroup_path'', ac_cgroup_path c), (''memory_current_bytes'', ac_memory_current c),
      (''memory_growth_bytes_per_second'', opt_val flo (ac_growth_rate c)), (''memory_growth_share_percent'', opt_val flo (ac_growth_share c)),
      (''host_contribution_percent'', opt_val flo (ac_host_contribution c)), (''oom_events_delta'', opt_val PInt (ac_oom_delta c)),
      (''score'', flo (ac_score c)), (''mapping_errors'', PList (ac_mapping_errors c))]"

definition memory_attribution_dict :: "attribution_result \<Rightarrow> pydict" where
  "memory_attribution_dict r =
     [(''state'', PStr (at_state r)), (''target'', opt_val (PDict \<circ> memory_candidate_dict) (at_target r)),
      (''candidates'', PList (map (PDict \<circ> memory_candidate_dict) (at_candidates r))), (''reason_codes'', strs (at_reason_codes r)),
      (''quality_flags'', strs (at_quality_flags r)), (''host_decline_bytes_per_second'', opt_val flo (at_host_decline r)),
      (''lead_margin'', opt_val flo (at_lead_margin r)), (''sample_elapsed_seconds'', opt_val flo (at_elapsed r))]"

definition cpu_object_dict :: "cpu_object \<Rightarrow> pydict" where
  "cpu_object_dict c =
     [(''kind'', co_kind c), (''id'', PStr (co_id c)), (''name'', co_name c), (''cgroup_path'', PStr (co_path c)),
      (''mapping_confidence'', co_confidence c), (''mapping_errors'', PList (co_errors c)), (''cpu_usage_delta_usec'', opt_val PInt (co_delta c)),
      (''cpu_contribution_percent'', opt_val flo (co_share c))]"

definition cpu_attribution_dict :: "cpu_attribution \<Rightarrow> pydict" where
  "cpu_attribution_dict r =
     [(''resource_kind'', PStr ''cpu''), (''state'', PStr (cr_state r)),
      (''target'', opt_val (\<lambda>(c, lead). PDict (cpu_object_dict c @ [(''lead_margin_percent'', flo lead)])) (cr_target r)),
      (''candidates'', PList (map (PDict \<circ> cpu_object_dict) (cr_candidates r))), (''reason_codes'', strs (cr_reasons r)),
      (''quality_flags'', strs (cr_quality_flags r)), (''sample_elapsed_seconds'', opt_val flo (cr_elapsed r))]"

definition io_candidate_dict :: "io_candidate_row \<Rightarrow> pydict" where
  "io_candidate_dict c =
     [(''kind'', ic_kind c), (''id'', PStr (ic_id c)), (''name'', ic_name c), (''cgroup_path'', ic_path c),
      (''io_bytes_delta'', opt_val PInt (ic_delta c)), (''confidence'', PStr (ic_confidence c)), (''mapping_errors'', PList (ic_errors c)),
      (''io_contribution_percent'', opt_val flo (ic_share c))]"

definition io_attribution_dict :: "io_attribution \<Rightarrow> pydict" where
  "io_attribution_dict r =
     [(''resource_kind'', PStr ''io''), (''state'', PStr (io_state r)), (''target'', opt_val (PDict \<circ> io_candidate_dict) (io_target r)),
      (''candidates'', PList (map (PDict \<circ> io_candidate_dict) (io_candidates r))), (''reason_codes'', strs (io_reasons r)),
      (''quality_flags'', strs (io_quality_flags r)), (''sample_elapsed_seconds'', opt_val flo (io_elapsed r))]"

definition capacity_attribution_dict :: "string \<times> string list \<times> string list \<Rightarrow> pydict" where
  "capacity_attribution_dict r =
     (case r of (state, reasons, flags) \<Rightarrow>
       [(''resource_kind'', PStr ''disk_capacity''), (''state'', PStr state), (''target'', PNone), (''candidates'', PList []),
        (''reason_codes'', strs reasons), (''quality_flags'', strs flags)])"

definition joint_decision_dict :: "joint_decision \<Rightarrow> pydict" where
  "joint_decision_dict d =
     [(''mode'', PStr (jd_mode d)), (''resource_kind'', PStr ''multi_resource''), (''action'', PStr (jd_action d)),
      (''execution'', PStr (jd_execution d)), (''reason_codes'', strs (jd_reason_codes d)), (''target_state'', PStr (jd_target_state d)),
      (''target_id'', jd_target_id d), (''active_resources'', strs (jd_active_resources d)), (''quality_flags'', strs (jd_quality_flags d))]"

definition joint_dict :: "joint_result \<Rightarrow> pydict" where
  "joint_dict r =
     [(''state'', PStr (jr_state r)), (''active_resources'', strs (jr_active_resources r)), (''target_state'', PStr (jr_target_state r)),
      (''target'', opt_val PDict (jr_target r)), (''targets_by_resource'', PDict (map (\<lambda>(k, d). (k, PDict d)) (jr_targets_by_resource r))),
      (''attribution_states'', PDict (map (\<lambda>(k, s). (k, PStr s)) (jr_attribution_states r))), (''quality_flags'', strs (jr_quality_flags r)),
      (''decision'', PDict (joint_decision_dict (jr_decision r)))]"

definition shedding_row_dict :: "shedding_row \<Rightarrow> pydict" where
  "shedding_row_dict r =
     [(''id'', PStr (row_id r)), (''name'', row_name r), (''contribution_percent'', opt_val flo (row_contribution r)),
      (''protected'', PBool (row_protected r)), (''actionable'', PBool (row_actionable r)),
      (''identity_reason'', opt_val PStr (row_identity_reason r)), (''writer_evidence'', PBool (row_writer_evidence r))]"

definition shedding_decision_dict :: "shedding_decision \<Rightarrow> pydict" where
  "shedding_decision_dict d =
     [(''schema'', PStr EMERGENCY_SHEDDING_SCHEMA), (''mode'', PStr (shedding_decision.sd_mode d)), (''action'', PStr (shedding_decision.sd_action d)),
      (''execution'', PStr (shedding_decision.sd_execution d)), (''resource_kind'', opt_val PStr (sd_resource_kind d)),
      (''target_id'', opt_val PStr (sd_target_id d)), (''reason_codes'', strs (sd_reason_codes d)),
      (''plan'', opt_val (PDict \<circ> plan_as_dict) (sd_plan d)), (''plans_count'', PInt (int (sd_plans_count d)))] @ sd_extra d"

definition shedding_dict :: "shedding_result \<Rightarrow> pydict" where
  "shedding_dict r =
     [(''schema'', PStr EMERGENCY_SHEDDING_SCHEMA), (''decision'', PDict (shedding_decision_dict (sr_decision r))),
      (''active_resources'', strs (sr_active_resources r)),
      (''rankings'', PDict (map (\<lambda>(k, rows). (k, PList (map (PDict \<circ> shedding_row_dict) rows))) (sr_rankings r)))] @
     (case sd_plan (sr_decision r) of None \<Rightarrow> [] | Some p \<Rightarrow> [(''plan'', PDict (plan_as_dict p))])"

definition simulated_dict :: "string \<Rightarrow> simulated_decision \<Rightarrow> pydict" where
  "simulated_dict kind d =
     [(''mode'', PStr (simulated_decision.sd_mode d)), (''resource_kind'', PStr kind), (''action'', PStr (simulated_decision.sd_action d)),
      (''execution'', PStr (simulated_decision.sd_execution d)), (''reason_codes'', strs (sd_reasons d))]"

section \<open>The event\<close>

text \<open>The candidates of the memory attribution, or the containers when there is none.\<close>

definition attributed_candidate :: "pydict \<Rightarrow> pydict" where
  "attributed_candidate item =
     [(''kind'', dget_default item ''kind'' (PStr ''container'')), (''id'', dget item ''id''), (''name'', dget item ''name''),
      (''confidence'', dget_default item ''confidence'' (PStr ''low'')), (''cgroup_path'', dget item ''cgroup_path''),
      (''score'', dget item ''score''), (''host_contribution_percent'', dget item ''host_contribution_percent''),
      (''mapping_errors'', dget_default item ''mapping_errors'' (PList []))]"

definition container_candidate :: "pydict \<Rightarrow> pydict" where
  "container_candidate c =
     (let i = py_or (dget c ''ID'') (dget c ''Container'')
      in [(''kind'', PStr ''container''), (''id'', i), (''name'', dget c ''Name''), (''raw'', PDict c),
          (''confidence'', PStr (if py_truthy i then ''observed'' else ''low''))])"

definition object_candidates :: "pydict \<Rightarrow> pydict option \<Rightarrow> pydict list" where
  "object_candidates observation attribution =
     (case attribution of
        Some a \<Rightarrow>
          (case dget a ''candidates'' of
             PList items \<Rightarrow> map (attributed_candidate \<circ> mapping_of) (filter is_dict items)
           | _ \<Rightarrow> map (container_candidate \<circ> mapping_of)
                    (filter is_dict (list_value (dget (mapping_of (dget observation ''docker'')) ''containers''))))
      | None \<Rightarrow> map (container_candidate \<circ> mapping_of)
                  (filter is_dict (list_value (dget (mapping_of (dget observation ''docker'')) ''containers''))))"

text \<open>The action of the memory decision and the reason codes it adds.\<close>

definition memory_action ::
  "string \<Rightarrow> string \<Rightarrow> string \<Rightarrow> bool \<Rightarrow> string list \<Rightarrow> pydict list \<Rightarrow> pydict option \<Rightarrow> string \<times> string list" where
  "memory_action mode state simulate_action protected allowed candidates attribution =
     (let active = state \<in> {''warning'', ''critical''};
          stable = filter (\<lambda>c. as_nonempty_str (dget c ''id'') \<noteq> None) candidates;
          (action, code) =
            (if \<not> active then (''none'', ''risk_not_actionable'')
             else if stable = [] then (''escalate'', ''no_stable_object_identity'')
             else if length stable \<noteq> 1 then (''escalate'', ''ambiguous_object_identity'')
             else if protected then (''escalate'', ''protected_object'')
             else if simulate_action \<notin> set allowed then (''escalate'', ''action_not_allowlisted'')
             else (simulate_action, if mode = ''simulate'' then ''simulate_only'' else ''enforce_requires_controller''))
      in if mode \<notin> {''simulate'', ''enforce''} then (''none'', [])
         else if active \<and> (case attribution of None \<Rightarrow> False | Some a \<Rightarrow> dget a ''state'' \<noteq> PStr ''TARGET_CONFIRMED'')
         then (''escalate'', [code, ''object_attribution_not_confirmed'']) else (action, [code]))"

definition execution_of :: "string \<Rightarrow> string" where
  "execution_of mode = (if mode = ''observe'' then ''not_applicable'' else if mode = ''simulate'' then ''not_executed'' else ''pending_controller'')"

text \<open>What \<open>uuid4\<close>, \<open>uname\<close>, the clocks and the digests answer during one sample.\<close>

record observer_env =
  se_rep :: "pyval \<Rightarrow> string"
  se_iso_at :: "string \<Rightarrow> iso_time"
  se_policy_sha :: "pyval \<Rightarrow> string"
  se_plan_sha :: "pyval \<Rightarrow> string"
  se_monotonic :: "nat \<Rightarrow> rat"
  se_epoch :: rat
  se_uuid :: "nat \<Rightarrow> string"
  se_node :: string

definition sample_id_of :: "observer_env \<Rightarrow> pydict \<Rightarrow> string" where
  "sample_id_of env observation =
     (case as_nonempty_str (dget observation ''sample_id'') of
        Some s \<Rightarrow> s
      | None \<Rightarrow> (case as_int (dget observation ''observed_monotonic_ns'') of
          Some n \<Rightarrow> ''sample-'' @ int_str n
        | None \<Rightarrow> ''sample-'' @ se_uuid env 1))"

text \<open>
  \<open>build_event\<close> for a given memory risk and its reasons.  The decision's list of reason codes is the risk's list of
  reasons, so the codes of the decision show in the risk too.
\<close>

definition build_event ::
  "observer_env \<Rightarrow> pydict \<Rightarrow> pydict \<Rightarrow> string \<Rightarrow> string list \<Rightarrow> string \<Rightarrow> string \<Rightarrow> bool \<Rightarrow> string list \<Rightarrow> pydict option \<Rightarrow> pydict" where
  "build_event env observation risk state reasons mode simulate_action protected allowed attribution =
     (let candidates = object_candidates observation attribution;
          (action, added) = memory_action mode state simulate_action protected allowed candidates attribution;
          codes = strs (reasons @ added)
      in [(''schema'', PStr ''guardian.risk.event.v1''), (''event_id'', PStr (se_uuid env 0)), (''sample_id'', PStr (sample_id_of env observation)),
          (''observed_at'', dget observation ''observed_at''),
          (''observed_monotonic_ns'', opt_val PInt (as_int (dget observation ''observed_monotonic_ns''))), (''state'', PStr state),
          (''host_id'', PStr (se_node env)), (''signals'', PDict observation), (''risk'', PDict (dset risk ''reasons'' codes)),
          (''object_candidates'', PList (map PDict candidates)), (''object_attribution'', opt_val PDict attribution),
          (''decision'', PDict [(''mode'', PStr mode), (''action'', PStr action), (''reason_codes'', codes), (''protected'', PBool protected),
             (''execution'', PStr (execution_of mode))]),
          (''evidence'', PDict [(''snapshot_path'', PNone), (''sample_window'', PNone)])])"

text \<open>The CPU-only plan.\<close>

definition build_cpu_simulation_decision :: "string \<Rightarrow> string \<Rightarrow> string \<Rightarrow> string \<Rightarrow> bool \<Rightarrow> string list \<Rightarrow> pydict" where
  "build_cpu_simulation_decision risk attribution mode simulate_action protected allowed =
     (let (action, code) =
        (if risk = ''degraded_observability'' then (if mode \<noteq> ''observe'' then ''escalate'' else ''none'', ''cpu_observability_degraded'')
         else if risk \<notin> {''warning'', ''critical''} then (''none'', ''cpu_risk_not_actionable'')
         else if mode = ''observe'' then (''none'', ''observe_only'')
         else if attribution \<noteq> ''TARGET_CONFIRMED'' then (''escalate'', ''cpu_attribution_not_confirmed'')
         else if protected then (''escalate'', ''protected_object'')
         else if simulate_action \<notin> set allowed then (''escalate'', ''action_not_allowlisted'')
         else (simulate_action, ''cpu_simulate_only''))
      in [(''mode'', PStr mode), (''resource_kind'', PStr ''cpu''), (''action'', PStr action),
          (''execution'', PStr (if mode = ''observe'' then ''not_applicable'' else ''not_executed'')), (''reason_codes'', strs [code])])"

section \<open>The danger gate\<close>

definition danger_gate :: "(pyval \<Rightarrow> string) \<Rightarrow> int \<Rightarrow> pydict \<Rightarrow> bool \<times> bool" where
  "danger_gate rep required_samples risk =
     (let whole = (opt_holds (\<lambda>n. required_samples \<le> n) (as_int (dget risk ''sample_count'')) \<and>
            dget_default risk ''quality_status'' (PStr ''ok'') = PStr ''ok'' \<and> \<not> py_truthy (dget_default risk ''quality_flags'' (PList [])));
          state = py_lower (py_str rep (py_or (dget risk ''state'') (PStr ''normal'')))
      in (state \<in> {''critical'', ''critical_confirmed''} \<and> whole \<and>
            (case (num_of (dget risk ''candidate_for_seconds''), num_of (dget risk ''required_for_seconds'')) of
               (Some held, Some required) \<Rightarrow> fle required held | _ \<Rightarrow> False), whole))"

definition emergency_risk :: "(pyval \<Rightarrow> string) \<Rightarrow> int \<Rightarrow> pydict \<Rightarrow> pydict" where
  "emergency_risk rep required_samples risk =
     (case danger_gate rep required_samples risk of (danger, whole) \<Rightarrow>
       dset (dset (dset risk ''state'' (if danger then PStr ''CRITICAL_CONFIRMED'' else dget_default risk ''state'' (PStr ''normal'')))
         ''danger_confirmed'' (PBool danger)) ''sample_complete'' (PBool whole))"

definition emergency_host_risks :: "(pyval \<Rightarrow> string) \<Rightarrow> pydict \<Rightarrow> int \<Rightarrow> (string \<times> pydict) list" where
  "emergency_host_risks rep evaluations required_samples =
     map (\<lambda>(kind, e). (kind, emergency_risk rep required_samples (mapping_of (dget (mapping_of e) ''risk'')))) evaluations"

section \<open>Candidates\<close>

definition registry_candidates :: "(pyval \<Rightarrow> string) \<Rightarrow> pyval \<Rightarrow> pyval list \<Rightarrow> (string \<times> pydict) list" where
  "registry_candidates rep window objects =
     fold (\<lambda>v acc. case v of
         PDict item \<Rightarrow>
           (case dget item ''id'' of
              PStr i \<Rightarrow>
                let running = py_lower (py_str rep (py_or (dget item ''status'') (PStr ''unknown''))) \<in> {''running'', ''restarting''}
                in dset acc i (dset (dset (dset item ''running'' (PBool running)) ''resource_contributions'' (PDict []))
                     ''contribution_window_seconds'' window)
            | _ \<Rightarrow> acc)
       | _ \<Rightarrow> acc) objects []"

definition share_keys :: "string \<Rightarrow> string list" where
  "share_keys kind =
     (if kind = ''memory'' then [''host_contribution_percent'', ''memory_growth_share_percent'']
      else if kind = ''cpu'' then [''cpu_contribution_percent'']
      else if kind = ''io'' then [''io_contribution_percent''] else [''capacity_contribution_percent''])"

definition IDENTITY_CHANGES :: "string list" where
  "IDENTITY_CHANGES = [''container_recreated'', ''container_cgroup_path_changed'', ''cpu_cgroup_path_changed'', ''io_cgroup_path_changed'',
     ''target_identity_changed'']"

fun contribution_number :: "pyval \<Rightarrow> py_exn + pyfloat option" where
  "contribution_number (PInt i) = map_sum id Some (py_float (PInt i))"
| "contribution_number (PFloat f) = Inr (Some f)"
| "contribution_number _ = Inr None"

fun first_contribution :: "pydict \<Rightarrow> string list \<Rightarrow> py_exn + pyfloat option" where
  "first_contribution raw [] = Inr None"
| "first_contribution raw (k # ks) =
     (case contribution_number (dget raw k) of
        Inl x \<Rightarrow> Inl x | Inr None \<Rightarrow> first_contribution raw ks | Inr (Some f) \<Rightarrow> Inr (Some f))"

fun names_change :: "pyval list \<Rightarrow> py_exn + bool" where
  "names_change [] = Inr False"
| "names_change (v # vs) = (if \<not> hashable v then Inl TypeError else if str_in v IDENTITY_CHANGES then Inr True else names_change vs)"

text \<open>One row of an attribution joins the candidate it names.\<close>

definition join_row :: "string \<Rightarrow> bool \<Rightarrow> pydict \<Rightarrow> pydict \<Rightarrow> py_exn + pydict" where
  "join_row kind changed raw candidate =
     sum_bind (first_contribution raw (share_keys kind)) (\<lambda>contribution.
     sum_bind (if changed then Inr True else sum_bind (iterate (dget_default raw ''mapping_errors'' (PList []))) names_change) (\<lambda>moved.
       let c1 = (case contribution of
                   None \<Rightarrow> candidate
                 | Some f \<Rightarrow> dset candidate ''resource_contributions''
                     (PDict (dset (mapping_of (dget candidate ''resource_contributions'')) kind (PFloat f))));
           c2 = (if moved then dset c1 ''identity_changed'' (PBool True) else c1)
       in Inr (if kind = ''disk_capacity'' \<and> dget raw ''writer_evidence'' = PBool True then dset c2 ''writer_evidence'' (PBool True) else c2)))"

fun join_rows :: "string \<Rightarrow> bool \<Rightarrow> pyval list \<Rightarrow> (string \<times> pydict) list \<Rightarrow> py_exn + (string \<times> pydict) list" where
  "join_rows kind changed [] cs = Inr cs"
| "join_rows kind changed (v # vs) cs =
     (case dget (mapping_of v) ''id'' of
        PStr i \<Rightarrow>
          (case map_of cs i of
             None \<Rightarrow> join_rows kind changed vs cs
           | Some c \<Rightarrow> sum_bind (join_row kind changed (mapping_of v) c) (\<lambda>c'. join_rows kind changed vs (dset cs i c')))
      | _ \<Rightarrow> join_rows kind changed vs cs)"

definition join_resource :: "(pyval \<Rightarrow> string) \<Rightarrow> pydict \<Rightarrow> string \<Rightarrow> (string \<times> pydict) list \<Rightarrow> py_exn + (string \<times> pydict) list" where
  "join_resource rep evaluations kind cs =
     (let attribution = mapping_of (dget (mapping_of (dget evaluations kind)) ''attribution'')
      in sum_bind (iterate (dget_default attribution ''reason_codes'' (PList []))) (\<lambda>reasons.
         sum_bind (iterate (dget_default attribution ''candidates'' (PList []))) (\<lambda>rows.
           join_rows kind (list_ex (\<lambda>v. py_truthy v \<and> py_str rep v \<in> set IDENTITY_CHANGES) reasons) rows cs)))"

fun join_resources :: "(pyval \<Rightarrow> string) \<Rightarrow> pydict \<Rightarrow> string list \<Rightarrow> (string \<times> pydict) list \<Rightarrow> py_exn + (string \<times> pydict) list" where
  "join_resources rep evaluations [] cs = Inr cs"
| "join_resources rep evaluations (kind # kinds) cs =
     sum_bind (join_resource rep evaluations kind cs) (join_resources rep evaluations kinds)"

definition emergency_candidates :: "(pyval \<Rightarrow> string) \<Rightarrow> pydict \<Rightarrow> pydict \<Rightarrow> pyval \<Rightarrow> py_exn + pydict list" where
  "emergency_candidates rep observation evaluations window =
     (let objects = list_value (dget (mapping_of (dget observation ''object_registry'')) ''objects'')
      in map_sum id (map snd) (join_resources rep evaluations SUPPORTED_RESOURCES (registry_candidates rep window objects)))"

end
