(* ===== verification/Guardian_Pressure_Gate.thy ===== *)
theory Guardian_Pressure_Gate
  imports Guardian_Text
begin

text \<open>
  The host-pressure gate (\<open>src/guardian_pressure_gate.py\<close>): parsing of \<open>/proc/meminfo\<close> and
  \<open>/proc/pressure/memory\<close>, the raw classification, the hysteresis of \<open>PressureGate.evaluate\<close>, the
  collection schedule and the slimming of audit events.  The two texts \<open>_read_text\<close> returns are
  arguments of \<open>evaluate\<close>; quotients of the two memory counters are exact rationals.
\<close>

section \<open>States\<close>

datatype pressure = NORMAL | DEGRADED | SUSPENDED

fun pressure_text :: "pressure \<Rightarrow> string" where
  "pressure_text NORMAL = ''normal''"
| "pressure_text DEGRADED = ''degraded''"
| "pressure_text SUSPENDED = ''suspended''"

text \<open>Severity order.\<close>

fun severity :: "pressure \<Rightarrow> nat" where
  "severity NORMAL = 0"
| "severity DEGRADED = 1"
| "severity SUSPENDED = 2"

lemma severity_inj [simp]: "severity a = severity b \<longleftrightarrow> a = b"
  by (cases a; cases b) simp_all

instantiation pressure :: linorder
begin

definition less_eq_pressure :: "pressure \<Rightarrow> pressure \<Rightarrow> bool" where
  "less_eq_pressure a b = (severity a \<le> severity b)"

definition less_pressure :: "pressure \<Rightarrow> pressure \<Rightarrow> bool" where
  "less_pressure a b = (severity a < severity b)"

instance
proof
  fix a b :: pressure
  show "a \<le> b \<or> b \<le> a" by (auto simp: less_eq_pressure_def)
  show "a \<le> b \<Longrightarrow> b \<le> a \<Longrightarrow> a = b" by (auto simp: less_eq_pressure_def dest: antisym)
qed (auto simp: less_eq_pressure_def less_pressure_def)

end

definition DEGRADED_AVAILABLE_RATIO :: rat where "DEGRADED_AVAILABLE_RATIO = 1 / 10"
definition SUSPENDED_AVAILABLE_RATIO :: rat where "SUSPENDED_AVAILABLE_RATIO = 3 / 100"
definition DEGRADED_PSI_FULL_AVG10 :: rat where "DEGRADED_PSI_FULL_AVG10 = 10"
definition SUSPENDED_PSI_FULL_AVG10 :: rat where "SUSPENDED_PSI_FULL_AVG10 = 25"
definition SUSPENDED_AVAILABLE_BYTES :: int where "SUSPENDED_AVAILABLE_BYTES = 128 * 1024 * 1024"
definition NORMAL_SAMPLES_TO_RESUME :: nat where "NORMAL_SAMPLES_TO_RESUME = 3"
definition DEGRADED_COLLECTION_MULTIPLIER :: int where "DEGRADED_COLLECTION_MULTIPLIER = 3"
definition MIN_DEGRADED_INTERVAL_SECONDS :: rat where "MIN_DEGRADED_INTERVAL_SECONDS = 15"

record pressure_decision =
  pd_state :: pressure
  pd_available :: "int option"
  pd_total :: "int option"
  pd_ratio :: "rat option"
  pd_psi :: "rat option"
  pd_reasons :: "string list"
  pd_transition :: "string option"
  pd_normal_samples :: nat

definition allow_container_collection :: "pressure_decision \<Rightarrow> bool" where
  "allow_container_collection d = (pd_state d \<noteq> SUSPENDED)"

definition collection_interval_multiplier :: "pressure_decision \<Rightarrow> int" where
  "collection_interval_multiplier d =
     (if pd_state d = DEGRADED then DEGRADED_COLLECTION_MULTIPLIER else 1)"

definition decision_as_dict :: "pressure_decision \<Rightarrow> pyval" where
  "decision_as_dict d =
     PDict [(''state'', PStr (pressure_text (pd_state d))),
            (''available_bytes'', opt_val PInt (pd_available d)),
            (''total_bytes'', opt_val PInt (pd_total d)),
            (''available_ratio'', opt_val (\<lambda>q. PFloat (Fin q)) (pd_ratio d)),
            (''psi_full_avg10'', opt_val (\<lambda>q. PFloat (Fin q)) (pd_psi d)),
            (''reason_codes'', PList (map PStr (pd_reasons d))),
            (''transition'', opt_val PStr (pd_transition d)),
            (''normal_samples'', PInt (int (pd_normal_samples d)))]"

section \<open>Signals\<close>

text \<open>\<open>_parse_meminfo\<close>: a later line with the same key replaces the value.\<close>

definition parse_meminfo_line :: "string \<Rightarrow> (string \<times> int) option" where
  "parse_meminfo_line line =
     (case py_partition CHR '':'' line of (key, found, raw) \<Rightarrow>
        if \<not> found then None
        else case py_split raw of
            [] \<Rightarrow> None
          | f # fs \<Rightarrow>
              (case parse_int f of
                 None \<Rightarrow> None
               | Some v \<Rightarrow>
                   Some (key, case fs of [] \<Rightarrow> v | u # _ \<Rightarrow> if py_lower u = ''kb'' then v * 1024 else v)))"

definition parse_meminfo :: "string option \<Rightarrow> (string \<times> int) list" where
  "parse_meminfo text =
     fold (\<lambda>line values. case parse_meminfo_line line of None \<Rightarrow> values | Some (k, v) \<Rightarrow> dset values k v)
       (splitlines (case text of None \<Rightarrow> [] | Some s \<Rightarrow> s)) []"

text \<open>
  The inner loop of \<open>_read_psi_full_avg10\<close> over the fields of a \<open>full\<close> line: \<open>None\<close> when it falls
  through to the next line, otherwise the returned value.
\<close>

fun psi_fields :: "string list \<Rightarrow> rat option option" where
  "psi_fields [] = None"
| "psi_fields (f # fs) =
     (case py_partition CHR ''='' f of (key, found, raw) \<Rightarrow>
        if key = ''avg10'' \<and> found
        then Some (case parse_float raw of
            Some (Fin q) \<Rightarrow> if 0 \<le> q then Some q else None
          | _ \<Rightarrow> None)
        else psi_fields fs)"

fun psi_lines :: "string list \<Rightarrow> rat option" where
  "psi_lines [] = None"
| "psi_lines (line # ls) =
     (case py_split line of
        [] \<Rightarrow> psi_lines ls
      | f # fs \<Rightarrow>
          if f \<noteq> ''full'' then psi_lines ls
          else case psi_fields fs of None \<Rightarrow> psi_lines ls | Some v \<Rightarrow> v)"

definition read_psi_full_avg10 :: "string option \<Rightarrow> rat option" where
  "read_psi_full_avg10 text = psi_lines (splitlines (case text of None \<Rightarrow> [] | Some s \<Rightarrow> s))"

definition gate_signals :: "string option \<Rightarrow> string option \<Rightarrow> int option \<times> int option \<times> rat option" where
  "gate_signals meminfo pressure =
     (let values = parse_meminfo meminfo
      in (map_of values ''MemAvailable'', map_of values ''MemTotal'', read_psi_full_avg10 pressure))"

section \<open>Classification\<close>

definition available_ratio :: "int option \<Rightarrow> int option \<Rightarrow> rat option" where
  "available_ratio available total_bytes =
     (case (available, total_bytes) of
        (Some a, Some t) \<Rightarrow> if 0 < t then Some (of_int a / of_int t) else None
      | _ \<Rightarrow> None)"

definition raw_state :: "int option \<Rightarrow> int option \<Rightarrow> rat option \<Rightarrow> pressure \<times> string list" where
  "raw_state available total_bytes psi =
     (let ratio = available_ratio available total_bytes;
          critical =
            (if opt_holds (\<lambda>q. q \<le> SUSPENDED_AVAILABLE_RATIO) ratio then [''memory_available_critical''] else []) @
            (if opt_holds (\<lambda>a. a \<le> SUSPENDED_AVAILABLE_BYTES) available then [''memory_available_bytes_critical''] else []) @
            (if opt_holds (\<lambda>p. SUSPENDED_PSI_FULL_AVG10 \<le> p) psi then [''memory_psi_critical''] else []);
          low = opt_holds (\<lambda>q. q \<le> DEGRADED_AVAILABLE_RATIO) ratio;
          elevated = opt_holds (\<lambda>p. DEGRADED_PSI_FULL_AVG10 \<le> p) psi
      in if critical \<noteq> [] then (SUSPENDED, critical)
         else if low \<or> elevated
         then (DEGRADED, (if low then [''memory_available_low''] else []) @
                         (if elevated then [''memory_psi_elevated''] else []))
         else if available = None \<or> total_bytes = None then (DEGRADED, [''memory_signal_unavailable''])
         else (NORMAL, []))"

section \<open>The gate\<close>

record pressure_gate =
  g_state :: pressure
  g_normal_samples :: nat
  g_last_transition :: "string option"
  g_last_decision :: "pressure_decision option"

definition new_gate :: pressure_gate where
  "new_gate = \<lparr>g_state = NORMAL, g_normal_samples = 0, g_last_transition = None, g_last_decision = None\<rparr>"

definition next_samples :: "pressure \<Rightarrow> pressure_gate \<Rightarrow> nat" where
  "next_samples raw g = (if raw = NORMAL then g_normal_samples g + 1 else 0)"

definition next_state :: "pressure \<Rightarrow> pressure_gate \<Rightarrow> pressure" where
  "next_state raw g =
     (if raw = NORMAL
      then (if g_state g \<noteq> NORMAL \<and> NORMAL_SAMPLES_TO_RESUME \<le> next_samples raw g then NORMAL else g_state g)
      else if raw = SUSPENDED \<or> g_state g = NORMAL then raw
      else if g_state g = SUSPENDED \<and> raw = DEGRADED then DEGRADED
      else g_state g)"

definition evaluate :: "string option \<Rightarrow> string option \<Rightarrow> pressure_gate \<Rightarrow> pressure_decision \<times> pressure_gate" where
  "evaluate meminfo pressure g =
     (case gate_signals meminfo pressure of (available, total_bytes, psi) \<Rightarrow>
        case raw_state available total_bytes psi of (raw, reasons) \<Rightarrow>
          let st = next_state raw g;
              transition = (if st \<noteq> g_state g
                            then Some (pressure_text (g_state g) @ ''->'' @ pressure_text st) else None);
              d = \<lparr>pd_state = st, pd_available = available, pd_total = total_bytes,
                   pd_ratio = map_option (round_digits 6) (available_ratio available total_bytes),
                   pd_psi = psi, pd_reasons = reasons, pd_transition = transition,
                   pd_normal_samples = next_samples raw g\<rparr>
          in (d, \<lparr>g_state = st, g_normal_samples = next_samples raw g,
                  g_last_transition = (if transition = None then g_last_transition g else transition),
                  g_last_decision = Some d\<rparr>))"

definition should_collect :: "pressure_gate \<Rightarrow> rat \<Rightarrow> rat option \<Rightarrow> pyval \<Rightarrow> bool" where
  "should_collect g now last_collection interval_seconds =
     (case last_collection of
        None \<Rightarrow> True
      | Some before \<Rightarrow>
          if g_state g \<noteq> DEGRADED then True
          else
            (let interval = (case py_float interval_seconds of
                   Inl _ \<Rightarrow> Fin MIN_DEGRADED_INTERVAL_SECONDS
                 | Inr x \<Rightarrow> fmax x (Fin MIN_DEGRADED_INTERVAL_SECONDS))
             in fle (fscale DEGRADED_COLLECTION_MULTIPLIER interval) (Fin (now - before))))"

definition DROPPED_KEYS :: "string list" where
  "DROPPED_KEYS = [''signals'', ''resource_evaluations'', ''joint_evaluation'', ''object_attribution'',
     ''object_candidates'', ''presentation'', ''target_attribution'', ''runtime_result'']"

definition slim_audit_event :: "pydict \<Rightarrow> pressure_decision \<Rightarrow> pydict" where
  "slim_audit_event event d =
     (let fidelity = (case pd_state d of SUSPENDED \<Rightarrow> ''minimal'' | DEGRADED \<Rightarrow> ''summary'' | NORMAL \<Rightarrow> ''full'')
      in if fidelity = ''full'' then dset event ''audit_fidelity'' (PStr fidelity)
         else
           [(''schema'', dget event ''schema''), (''event_id'', dget event ''event_id''),
            (''sample_id'', dget event ''sample_id''), (''observed_at'', dget event ''observed_at''),
            (''observed_monotonic_ns'', dget event ''observed_monotonic_ns''),
            (''host_id'', dget event ''host_id''), (''state'', dget event ''state''),
            (''audit_fidelity'', PStr fidelity), (''risk'', dget event ''risk''),
            (''decision'', dget event ''decision''), (''pressure_gate'', decision_as_dict d),
            (''emergency_shedding'', dget event ''emergency_shedding''),
            (''evidence'', dget event ''evidence''),
            (''slimmed'', PDict [(''dropped'', PList (map PStr (filter (has_key event) DROPPED_KEYS))),
                                 (''reason'', PStr (''audit_fidelity_'' @ fidelity @ ''_under_pressure''))])])"

section \<open>Hysteresis\<close>

text \<open>
  What the gate promises, read off the whole history of raw classifications: the last
  non-normal classification, until three normal samples in a row have followed it.
\<close>

definition gate_spec :: "pressure list \<Rightarrow> pressure" where
  "gate_spec raws =
     (case dropWhile (\<lambda>r. r = NORMAL) (rev raws) of
        [] \<Rightarrow> NORMAL
      | r # _ \<Rightarrow>
          if NORMAL_SAMPLES_TO_RESUME \<le> length (takeWhile (\<lambda>r. r = NORMAL) (rev raws)) then NORMAL else r)"

definition sample_raw :: "string option \<times> string option \<Rightarrow> pressure" where
  "sample_raw s = (case gate_signals (fst s) (snd s) of (a, t, p) \<Rightarrow> fst (raw_state a t p))"

definition gate_step :: "pressure_gate \<Rightarrow> string option \<times> string option \<Rightarrow> pressure_gate" where
  "gate_step g s = snd (evaluate (fst s) (snd s) g)"

lemma gate_step_simps [simp]:
  "g_state (gate_step g s) = next_state (sample_raw s) g"
  "g_normal_samples (gate_step g s) = next_samples (sample_raw s) g"
  by (simp_all add: gate_step_def evaluate_def sample_raw_def Let_def split: prod.splits)

lemma dropWhile_head: "dropWhile P xs = y # ys \<Longrightarrow> \<not> P y"
  by (simp add: dropWhile_eq_Cons_conv)

lemma gate_run:
  fixes samples
  defines "g \<equiv> exec_all gate_step new_gate samples" and "raws \<equiv> map sample_raw samples"
  shows "g_state g = gate_spec raws \<and>
    g_normal_samples g = length (takeWhile (\<lambda>r. r = NORMAL) (rev raws))"
  unfolding g_def raws_def
proof (induction samples rule: rev_induct)
  case (snoc s samples)
  let ?raws = "map sample_raw samples" and ?g = "exec_all gate_step new_gate samples"
  have run: "exec_all gate_step new_gate (samples @ [s]) = gate_step ?g s" by simp
  show ?case
  proof (cases "sample_raw s = NORMAL")
    case True
    with snoc show ?thesis
      by (cases "dropWhile (\<lambda>r. r = NORMAL) (rev ?raws)")
        (auto simp: run next_state_def next_samples_def gate_spec_def NORMAL_SAMPLES_TO_RESUME_def
          dest: dropWhile_head simp del: dropWhile_eq_Nil_conv)
  next
    case False
    with snoc show ?thesis
      by (cases "sample_raw s"; cases "gate_spec ?raws")
        (auto simp: run next_state_def next_samples_def gate_spec_def NORMAL_SAMPLES_TO_RESUME_def)
  qed
qed (simp add: new_gate_def gate_spec_def)

section \<open>The texts of procfs\<close>

definition plain :: "string \<Rightarrow> bool" where
  "plain s \<longleftrightarrow> list_all (\<lambda>c. \<not> is_line_break c) s"

lemma split_lines_append:
  assumes "plain l"
  shows "split_lines acc (l @ LF # rest) = (rev acc @ l) # split_lines [] rest"
proof -
  have lf: "LF \<noteq> CR" "is_line_break LF" by (simp_all add: CR_def LF_def is_line_break_def)
  show ?thesis
    using assms
  proof (induction l arbitrary: acc)
    case Nil
    then show ?case using lf by (cases rest) simp_all
  next
    case (Cons c l)
    then have c: "\<not> is_line_break c" "c \<noteq> CR" by (auto simp: plain_def is_line_break_def CR_def)
    obtain d ds where d: "l @ LF # rest = d # ds" by (cases l) simp_all
    have "split_lines acc ((c # l) @ LF # rest) = split_lines (c # acc) (l @ LF # rest)"
      using c by (simp add: d)
    also have "\<dots> = (rev (c # acc) @ l) # split_lines [] rest"
      using Cons by (simp add: plain_def)
    finally show ?case by simp
  qed
qed

lemma splitlines_cons: "plain l \<Longrightarrow> splitlines (l @ LF # rest) = l # splitlines rest"
  by (simp add: splitlines_def split_lines_append)

lemma digit_plain: "is_digit c \<Longrightarrow> \<not> is_line_break c"
  by (auto simp: is_digit_def is_line_break_def)

lemma plain_simps [simp]:
  "plain []" "plain (c # s) \<longleftrightarrow> \<not> is_line_break c \<and> plain s" "plain (s @ t) \<longleftrightarrow> plain s \<and> plain t"
  "plain (digits n)"
  using digits_all [of n] by (auto simp: plain_def list_all_iff digit_plain)

lemma split_ws_word:
  "list_all (\<lambda>c. \<not> is_py_space c) w \<Longrightarrow> split_ws acc (w @ s) = split_ws (rev w @ acc) s"
  by (induction w arbitrary: acc) simp_all

lemma py_partition_found: "c \<notin> set k \<Longrightarrow> py_partition c (k @ c # r) = (k, True, r)"
  unfolding py_partition_def by (induction k) auto

text \<open>A line of \<open>/proc/meminfo\<close>.\<close>

definition meminfo_line :: "string \<Rightarrow> nat \<Rightarrow> string" where
  "meminfo_line key n = key @ '':'' @ ''       '' @ digits n @ '' kB''"

lemma parse_meminfo_line_print:
  assumes "CHR '':'' \<notin> set key"
  shows "parse_meminfo_line (meminfo_line key n) = Some (key, int n * 1024)"
proof -
  have "py_partition CHR '':'' (meminfo_line key n) = (key, True, ''       '' @ digits n @ '' kB'')"
    using py_partition_found [OF assms] by (simp add: meminfo_line_def)
  moreover have "py_split (''       '' @ digits n @ '' kB'') = [digits n, ''kB'']"
  proof -
    have "list_all (\<lambda>c. \<not> is_py_space c) (digits n)"
      using digits_all [of n] digit_not_space by (auto simp: list_all_iff)
    then show ?thesis
      by (simp add: py_split_def split_ws_word is_py_space_def)
  qed
  moreover have "py_lower ''kB'' = ''kb''" by code_simp
  ultimately show ?thesis
    by (simp add: parse_meminfo_line_def parse_int_digits)
qed

text \<open>The whole text.\<close>

definition meminfo_text :: "(string \<times> nat) list \<Rightarrow> string" where
  "meminfo_text kvs = concat (map (\<lambda>(k, n). meminfo_line k n @ [LF]) kvs)"

definition meminfo_key :: "string \<Rightarrow> bool" where
  "meminfo_key k \<longleftrightarrow> plain k \<and> CHR '':'' \<notin> set k"

lemma meminfo_line_plain: "plain k \<Longrightarrow> plain (meminfo_line k n)"
  by (simp add: meminfo_line_def is_line_break_def)

lemma splitlines_meminfo:
  "list_all (\<lambda>p. meminfo_key (fst p)) kvs \<Longrightarrow> splitlines (meminfo_text kvs) = map (\<lambda>(k, n). meminfo_line k n) kvs"
proof (induction kvs)
  case (Cons p kvs)
  then show ?case
    by (cases p) (simp add: meminfo_text_def meminfo_key_def splitlines_cons meminfo_line_plain)
qed (simp add: meminfo_text_def splitlines_def)

lemma fold_meminfo:
  "list_all (\<lambda>p. meminfo_key (fst p)) kvs \<Longrightarrow>
   map_of (fold (\<lambda>line values. case parse_meminfo_line line of None \<Rightarrow> values | Some (k, v) \<Rightarrow> dset values k v)
     (map (\<lambda>(k, n). meminfo_line k n) kvs) d) key =
   (case map_of (rev kvs) key of None \<Rightarrow> map_of d key | Some n \<Rightarrow> Some (int n * 1024))"
proof (induction kvs arbitrary: d)
  case (Cons p kvs)
  then show ?case
    by (cases p) (auto simp: meminfo_key_def parse_meminfo_line_print map_of_dset map_add_def split: option.splits)
qed simp

section \<open>Slimming\<close>

definition KEPT_KEYS :: "string list" where
  "KEPT_KEYS = [''schema'', ''event_id'', ''sample_id'', ''observed_at'', ''observed_monotonic_ns'', ''host_id'',
     ''state'', ''risk'', ''decision'', ''emergency_shedding'', ''evidence'']"

lemma slim_kept:
  assumes "pd_state d \<noteq> NORMAL"
  shows "\<forall>k \<in> set KEPT_KEYS. dget (slim_audit_event event d) k = dget event k"
  using assms by (cases "pd_state d") (simp_all add: slim_audit_event_def KEPT_KEYS_def Let_def)

lemma slim_parts:
  assumes "pd_state d \<noteq> NORMAL"
  shows "dget (slim_audit_event event d) ''pressure_gate'' = decision_as_dict d"
    and "dget (mapping_of (dget (slim_audit_event event d) ''slimmed'')) ''dropped'' =
      PList (map PStr (filter (has_key event) DROPPED_KEYS))"
  using assms by (cases "pd_state d"; simp add: slim_audit_event_def Let_def)+

lemma slim_dropped:
  assumes "pd_state d \<noteq> NORMAL"
  shows "\<forall>x \<in> set DROPPED_KEYS. \<not> has_key (slim_audit_event event d) x"
  using assms by (cases "pd_state d") (simp_all add: slim_audit_event_def Let_def DROPPED_KEYS_def)

section \<open>Properties\<close>

text \<open>
  C38. Hysteresis: after any sequence of samples the gate's state is the last non-normal
  classification, and it returns to normal exactly when three normal samples in a row follow it.
\<close>
theorem gate_follows_history:
  "g_state (exec_all gate_step new_gate samples) = gate_spec (map sample_raw samples)"
  by (rule conjunct1 [OF gate_run])

text \<open>
  Worse memory signals never give a milder classification: with less available memory and a
  higher stall share the raw state is at least as severe.
\<close>
theorem raw_state_monotone:
  assumes "a \<le> a'" and "p' \<le> p"
  shows "fst (raw_state (Some a') t (Some p')) \<le> fst (raw_state (Some a) t (Some p))"
proof -
  have ratio: "opt_holds (\<lambda>q. q \<le> x) (available_ratio (Some a') t) \<Longrightarrow>
      opt_holds (\<lambda>q. q \<le> x) (available_ratio (Some a) t)" for x
  proof -
    assume "opt_holds (\<lambda>q. q \<le> x) (available_ratio (Some a') t)"
    then obtain n where t: "t = Some n" "0 < n" and le: "(of_int a' :: rat) / of_int n \<le> x"
      by (auto simp: opt_holds_def available_ratio_def split: option.splits if_splits)
    have "(of_int a :: rat) / of_int n \<le> of_int a' / of_int n"
      using assms(1) t(2) by (simp add: divide_right_mono)
    with t le show ?thesis by (simp add: opt_holds_def available_ratio_def)
  qed
  have psi: "opt_holds (\<lambda>q. x \<le> q) (Some p') \<Longrightarrow> opt_holds (\<lambda>q. x \<le> q) (Some p)" for x
    using assms(2) by (simp add: opt_holds_def)
  have bytes: "opt_holds (\<lambda>q. q \<le> x) (Some a') \<Longrightarrow> opt_holds (\<lambda>q. q \<le> x) (Some a)" for x
    using assms(1) by (simp add: opt_holds_def)
  show ?thesis
    using ratio [of SUSPENDED_AVAILABLE_RATIO] ratio [of DEGRADED_AVAILABLE_RATIO]
      psi [of SUSPENDED_PSI_FULL_AVG10] psi [of DEGRADED_PSI_FULL_AVG10] bytes [of SUSPENDED_AVAILABLE_BYTES]
    by (auto simp: raw_state_def Let_def less_eq_pressure_def)
qed

theorem raw_state_monotone_witness:
  "fst (raw_state (Some 4000000000) (Some 16000000000) (Some 1)) \<le>
   fst (raw_state (Some 1000000) (Some 16000000000) (Some 30))"
  by (rule raw_state_monotone) simp_all

text \<open>
  Reading back a \<open>/proc/meminfo\<close> text gives the printed counters in bytes, the last line
  winning for a repeated key.
\<close>
theorem meminfo_round_trip:
  assumes "list_all (\<lambda>p. meminfo_key (fst p)) kvs"
  shows "map_of (parse_meminfo (Some (meminfo_text kvs))) key =
    map_option (\<lambda>n. int n * 1024) (map_of (rev kvs) key)"
  using fold_meminfo [OF assms] splitlines_meminfo [OF assms]
  by (simp add: parse_meminfo_def split: option.splits)

theorem meminfo_round_trip_witness:
  "map_of (parse_meminfo (Some (meminfo_text [(''MemTotal'', 16000), (''MemAvailable'', 400)]))) ''MemAvailable'' =
   Some 409600"
proof -
  have "list_all (\<lambda>p. meminfo_key (fst p)) [(''MemTotal'', 16000 :: nat), (''MemAvailable'', 400)]"
    by (simp add: meminfo_key_def is_line_break_def)
  from meminfo_round_trip [OF this, of "''MemAvailable''"] show ?thesis by simp
qed

text \<open>
  Slimming under pressure keeps the identity, the host risk state, the decision and the
  evidence of an event, always carries the gate's own decision, and lists exactly the heavy keys it
  dropped.
\<close>
theorem slim_keeps_risk:
  assumes "pd_state d \<noteq> NORMAL"
    and "k \<in> {''schema'', ''event_id'', ''sample_id'', ''observed_at'', ''observed_monotonic_ns'', ''host_id'',
              ''state'', ''risk'', ''decision'', ''emergency_shedding'', ''evidence''}"
  shows "dget (slim_audit_event event d) k = dget event k \<and>
    dget (slim_audit_event event d) ''pressure_gate'' = decision_as_dict d \<and>
    dget (mapping_of (dget (slim_audit_event event d) ''slimmed'')) ''dropped'' =
      PList (map PStr (filter (has_key event) DROPPED_KEYS)) \<and>
    (\<forall>x \<in> set DROPPED_KEYS. \<not> has_key (slim_audit_event event d) x)"
proof -
  have "k \<in> set KEPT_KEYS" using assms(2) by (simp add: KEPT_KEYS_def)
  with slim_kept [OF assms(1)] slim_parts [OF assms(1)] slim_dropped [OF assms(1)] show ?thesis by blast
qed

definition example_pressure :: pressure_decision where
  "example_pressure = fst (evaluate None None new_gate)"

theorem slim_keeps_risk_witness:
  "dget (slim_audit_event [(''signals'', PInt 1), (''risk'', PStr ''r'')] example_pressure) ''risk'' = PStr ''r'' \<and>
   pd_state example_pressure = DEGRADED"
proof -
  have st: "pd_state example_pressure = DEGRADED"
    by (simp add: example_pressure_def evaluate_def gate_signals_def parse_meminfo_def splitlines_def
        read_psi_full_avg10_def raw_state_def available_ratio_def opt_holds_def next_state_def new_gate_def Let_def)
  with slim_keeps_risk [of example_pressure "''risk''" "[(''signals'', PInt 1), (''risk'', PStr ''r'')]"]
  show ?thesis by simp
qed

text \<open>
  A total of zero is no missing signal to the classifier: without a ratio, and with enough
  available bytes, the state is normal, and so is it when the stall text is missing.
\<close>

lemma zero_total_is_normal:
  "raw_state (Some 200000000) (Some 0) None = (NORMAL, [])"
  by (simp add: raw_state_def available_ratio_def opt_holds_def SUSPENDED_AVAILABLE_BYTES_def Let_def)

end
