(* ===== verification/Guardian_Collect.thy ===== *)
theory Guardian_Collect
  imports Guardian_Observer Guardian_Pressure_Gate
begin

text \<open>
  The reading of one observation: the registry of containers (\<open>collect_object_registry\<close> of
  \<open>src/guardian_attribution.py\<close>) and the sample of the host (\<open>collect_observation\<close> of
  \<open>src/guardian_observer.py\<close>).  The file system, the two Docker commands and the clocks are a record of answers.
\<close>

section \<open>The host\<close>

text \<open>A command raises with a text, or ends with its code and both outputs.\<close>

type_synonym command_result = "string + int \<times> string \<times> string"

record host_view =
  hv_read :: "string \<Rightarrow> string option"
  hv_is_dir :: "string \<Rightarrow> bool"
  hv_inode :: "string \<Rightarrow> int option"
  hv_statvfs :: "string \<Rightarrow> string + statvfs"
  hv_run :: "string list \<Rightarrow> command_result"
  hv_json :: "string \<Rightarrow> pyval option"
  hv_sleep :: "string + int"
  hv_cpu_count :: "int option"
  hv_monotonic_ns :: "nat \<Rightarrow> int"
  hv_utc_now :: string

definition below :: "string \<Rightarrow> string \<Rightarrow> string" where
  "below dir name = pure_path (dir @ ''/'' @ name)"

definition read_int_file :: "host_view \<Rightarrow> string \<Rightarrow> int option" where
  "read_int_file hv path = Option.bind (hv_read hv path) (\<lambda>raw. parse_int (py_strip raw))"

definition read_scalar_file :: "host_view \<Rightarrow> string \<Rightarrow> pyval" where
  "read_scalar_file hv path =
     (case hv_read hv path of
        None \<Rightarrow> PNone
      | Some raw \<Rightarrow> (case parse_int (py_strip raw) of None \<Rightarrow> PStr (py_strip raw) | Some n \<Rightarrow> PInt n))"

definition path_inode :: "host_view \<Rightarrow> string option \<Rightarrow> int option" where
  "path_inode hv path =
     (case Option.bind path (hv_inode hv) of None \<Rightarrow> None | Some n \<Rightarrow> if 0 < n then Some n else None)"

text \<open>\<open>line.partition("::")\<close>, and the path of a line of the unified hierarchy.\<close>

fun split_colons :: "string \<Rightarrow> string \<times> string" where
  "split_colons [] = ([], [])"
| "split_colons (c # cs) =
     (if c = CHR '':'' \<and> prefix '':'' cs then ([], tl cs) else (case split_colons cs of (a, b) \<Rightarrow> (c # a, b)))"

definition unified_path :: "string \<Rightarrow> string option" where
  "unified_path line =
     (case split_colons line of (hierarchy, relative) \<Rightarrow>
        if hierarchy = ''0'' \<and> relative \<noteq> [] then Some (dropWhile (\<lambda>c. c = CHR ''/'') relative) else None)"

definition resolve_process_cgroup_root :: "host_view \<Rightarrow> string \<Rightarrow> string \<Rightarrow> string" where
  "resolve_process_cgroup_root hv proc cgroup =
     (case hv_read hv (below proc ''self/cgroup'') of
        None \<Rightarrow> cgroup
      | Some content \<Rightarrow>
          (case find (hv_is_dir hv) (map (below cgroup) (List.map_filter unified_path (splitlines content))) of
             None \<Rightarrow> cgroup | Some path \<Rightarrow> path))"

section \<open>The registry\<close>

definition process_cgroup_path :: "host_view \<Rightarrow> string \<Rightarrow> string \<Rightarrow> int option \<Rightarrow> string option \<times> string list" where
  "process_cgroup_path hv proc cgroup pid =
     (case pid of
        None \<Rightarrow> (None, [''container_pid_missing''])
      | Some n \<Rightarrow>
          if n \<le> 0 then (None, [''container_pid_missing''])
          else (case hv_read hv (below proc (int_str n @ ''/cgroup'')) of
              None \<Rightarrow> (None, [''container_cgroup_file_missing''])
            | Some content \<Rightarrow>
                (case List.map_filter unified_path (splitlines content) of
                   [] \<Rightarrow> (None, [''container_cgroup_v2_path_missing''])
                 | relative # _ \<Rightarrow>
                     let path = below cgroup relative
                     in (Some path, if hv_is_dir hv path then [] else [''container_cgroup_path_missing'']))))"

text \<open>The identifier in the name of a scope that Docker's systemd driver makes.\<close>

definition docker_scope :: "string \<Rightarrow> string option" where
  "docker_scope path =
     (let name = last (split_on CHR ''/'' path); i = drop 7 (take (length name - 6) name)
      in if prefix ''docker-'' name \<and> suffix ''.scope'' name \<and> hex_fullmatch 12 64 i then Some i else None)"

definition identity_flags :: "string option \<Rightarrow> string option \<Rightarrow> string list" where
  "identity_flags stable_id path =
     (case (stable_id, Option.bind path docker_scope) of
        (Some (c # cs), Some i) \<Rightarrow>
          if prefix (c # cs) i \<or> prefix i (c # cs) then [] else [''container_id_cgroup_mismatch'']
      | _ \<Rightarrow> [])"

definition registry_inspect_command :: "string list" where
  "registry_inspect_command = [''docker'', ''inspect'', ''--format'', ''{{json .}}'']"

definition inspect_records :: "host_view \<Rightarrow> string list \<Rightarrow> (string \<times> pydict) list \<times> string list" where
  "inspect_records hv identifiers =
     (if identifiers = [] then ([], [])
      else case hv_run hv (registry_inspect_command @ identifiers) of
          Inl e \<Rightarrow> ([], [''docker_inspect_unavailable:'' @ e, ''docker_inspect_not_run''])
        | Inr (code, out, err) \<Rightarrow>
            if code \<noteq> 0 then ([], [''docker_inspect_failed:'' @ py_strip (if err = [] then ''docker inspect failed'' else err)])
            else inspect_lines (map (hv_json hv) (splitlines out)) ([], []))"

definition registry_object :: "host_view \<Rightarrow> string \<Rightarrow> string \<Rightarrow> (string \<times> pydict) list \<Rightarrow> pydict \<Rightarrow> pydict" where
  "registry_object hv proc cgroup records container =
     (let stats_id = container_id container; inspect = find_inspect_record records stats_id;
          stable_id = (case dget inspect ''Id'' of PStr i \<Rightarrow> Some i | _ \<Rightarrow> stats_id);
          state = mapping_of (dget inspect ''State''); config = mapping_of (dget inspect ''Config'');
          pid = as_int (dget state ''Pid''); (path, mapping_errors) = process_cgroup_path hv proc cgroup pid;
          foreign = identity_flags stable_id path;
          current = Option.bind path (\<lambda>p. read_int_file hv (below p ''memory.current''));
          events = (case path of None \<Rightarrow> [] | Some p \<Rightarrow> parse_counters (hv_read hv (below p ''memory.events'')));
          errors = mapping_errors @ foreign @ (if inspect = [] then [''docker_inspect_identity_missing''] else []) @
            (if path \<noteq> None \<and> current = None then [''container_memory_current_missing''] else []) @
            (if path \<noteq> None \<and> \<not> (map_of events ''oom'' \<noteq> None \<and> map_of events ''oom_kill'' \<noteq> None)
             then [''container_oom_counters_missing''] else []);
          name = py_or (dget inspect ''Name'') (dget container ''Name'');
          confidence = (if errors \<noteq> [] then (if foreign \<noteq> [] then ''low'' else ''medium'')
            else if inspect \<noteq> [] \<and> path \<noteq> None then ''high'' else if stable_id \<noteq> None \<and> stable_id \<noteq> Some [] then ''medium'' else ''low'')
      in [(''kind'', PStr ''container''), (''id'', opt_val PStr stable_id),
          (''name'', case name of PStr n \<Rightarrow> PStr (dropWhile (\<lambda>c. c = CHR ''/'') n) | _ \<Rightarrow> name),
          (''image'', py_or (dget config ''Image'') (dget container ''Image'')), (''created_at'', dget inspect ''Created''),
          (''status'', py_or (dget state ''Status'') (PStr ''unknown'')),
          (''health'', py_or (dget (mapping_of (dget state ''Health'')) ''Status'') (PStr ''unknown'')),
          (''labels'', PDict (mapping_of (dget config ''Labels''))), (''pid'', opt_val PInt pid), (''cgroup_path'', opt_val PStr path),
          (''cgroup_inode'', opt_val PInt (path_inode hv path)), (''mapping_confidence'', PStr confidence),
          (''mapping_errors'', str_list (sorted_set errors)), (''memory_current_bytes'', opt_val PInt current),
          (''memory_max'', case path of None \<Rightarrow> PNone | Some p \<Rightarrow> read_scalar_file hv (below p ''memory.max'')), (''memory_events'', int_dict events)])"

definition registry_dict :: "string \<Rightarrow> pydict list \<Rightarrow> string list \<Rightarrow> pydict" where
  "registry_dict status objects errors =
     [(''status'', PStr status), (''objects'', PList (map PDict objects)), (''errors'', str_list errors)]"

definition collect_object_registry :: "host_view \<Rightarrow> string \<Rightarrow> string \<Rightarrow> pydict \<Rightarrow> pydict" where
  "collect_object_registry hv proc cgroup docker =
     (if dget docker ''available'' = PBool False then registry_dict ''unavailable'' [] [''docker_stats_unavailable'']
      else case dget docker ''containers'' of
          PList raw \<Rightarrow>
            (let containers = map mapping_of (filter is_dict raw); (records, errors) = inspect_records hv (List.map_filter container_id containers);
                 all_errors = errors @ (if list_all is_dict raw then [] else [''docker_container_record_not_object'']);
                 objects = map (registry_object hv proc cgroup records) containers
             in registry_dict (if all_errors = [] \<and> list_all (\<lambda>r. dget r ''mapping_errors'' = PList []) objects then ''ok'' else ''degraded'')
                  objects (sorted_set all_errors))
        | _ \<Rightarrow> registry_dict ''degraded'' [] [''docker_container_list_missing''])"

section \<open>The sample of the host\<close>

definition memory_signals :: "(string \<times> int) list \<Rightarrow> pydict" where
  "memory_signals meminfo =
     (let total = map_of meminfo ''MemTotal''; available = map_of meminfo ''MemAvailable'';
          swap_total = map_of meminfo ''SwapTotal''; swap_free = map_of meminfo ''SwapFree'';
          share = (\<lambda>a t. PFloat (Fin (round_digits 3 (of_int a / of_int t * 100))))
      in [(''total_bytes'', opt_val PInt total), (''available_bytes'', opt_val PInt available),
          (''available_ratio_percent'', case (total, available) of (Some t, Some a) \<Rightarrow> if t = 0 then PNone else share a t | _ \<Rightarrow> PNone),
          (''swap_total_bytes'', opt_val PInt swap_total), (''swap_free_bytes'', opt_val PInt swap_free),
          (''swap_used_ratio_percent'', case swap_total of
             None \<Rightarrow> PNone
           | Some t \<Rightarrow> if t = 0 then PNone else share (t - (case swap_free of None \<Rightarrow> 0 | Some f \<Rightarrow> f)) t)])"

definition stats_command :: "string list" where
  "stats_command = [''docker'', ''stats'', ''--no-stream'', ''--format'', ''{{json .}}'']"

definition docker_down :: "string \<Rightarrow> pydict" where
  "docker_down reason = [(''available'', PBool False), (''error'', PStr reason), (''containers'', PList [])]"

definition collect_docker_stats :: "host_view \<Rightarrow> pydict" where
  "collect_docker_stats hv =
     (case hv_run hv stats_command of
        Inl e \<Rightarrow> docker_down e
      | Inr (code, out, err) \<Rightarrow>
          if code \<noteq> 0 then docker_down (py_strip (if err = [] then ''docker stats failed'' else err))
          else [(''available'', PBool True),
                (''containers'', PList (map (\<lambda>line. case hv_json hv line of Some v \<Rightarrow> v | None \<Rightarrow> PDict [(''raw'', PStr line)]) (splitlines out)))])"

text \<open>The pressure files that could be read.\<close>

definition psi_readings :: "host_view \<Rightarrow> string \<Rightarrow> pydict" where
  "psi_readings hv proc =
     List.map_filter (\<lambda>resource. map_option (\<lambda>text. (resource, psi_dict (parse_psi text))) (hv_read hv (below proc (''pressure/'' @ resource))))
       [''cpu'', ''memory'', ''io'']"

definition cpu_files_of :: "host_view \<Rightarrow> string \<Rightarrow> cgroup_files" where
  "cpu_files_of hv path = \<lparr>cf_stat = hv_read hv (below path ''cpu.stat''), cf_max = hv_read hv (below path ''cpu.max''),
     cf_pressure = hv_read hv (below path ''cpu.pressure'')\<rparr>"

definition io_files_of :: "host_view \<Rightarrow> string \<Rightarrow> io_files" where
  "io_files_of hv path = \<lparr>if_stat = hv_read hv (below path ''io.stat''), if_pressure = hv_read hv (below path ''io.pressure'')\<rparr>"

definition cpu_of_host :: "host_view \<Rightarrow> string \<Rightarrow> string \<Rightarrow> pyval list \<Rightarrow> pydict" where
  "cpu_of_host hv proc cgroup objects =
     collect_cpu_sample
       \<lparr>hf_stat = hv_read hv (below proc ''stat''), hf_loadavg = hv_read hv (below proc ''loadavg''), hf_pressure = hv_read hv (below proc ''pressure/cpu'')\<rparr>
       (cgroup, cpu_files_of hv cgroup) (\<lambda>p. (pure_path p, cpu_files_of hv (pure_path p))) objects (scheduler_probe 1 (hv_sleep hv)) (hv_cpu_count hv)
       (hv_monotonic_ns hv 1)"

definition disk_of_host :: "host_view \<Rightarrow> string \<Rightarrow> string \<Rightarrow> string list \<Rightarrow> pyval list \<Rightarrow> pydict" where
  "disk_of_host hv proc cgroup mount_points objects =
     collect_disk_sample
       \<lparr>df_mountinfo = (case hv_read hv (below proc ''self/mountinfo'') of None \<Rightarrow> hv_read hv (below proc ''mountinfo'') | Some t \<Rightarrow> Some t),
        df_diskstats = hv_read hv (below proc ''diskstats''), df_io_pressure = hv_read hv (below proc ''pressure/io'')\<rparr>
       (cgroup, io_files_of hv cgroup) mount_points (\<lambda>p. (pure_path p, io_files_of hv (pure_path p))) objects (hv_statvfs hv) (hv_monotonic_ns hv 2)"

text \<open>
  The containers: read here, or by a collector, which answers with a mapping or raises an exception of the given name.
  The result: the two mappings, the collector's own record, and the quality flags.
\<close>

definition registry_down :: "string \<Rightarrow> pydict" where
  "registry_down reason = [(''status'', PStr ''unavailable''), (''objects'', PList []), (''errors'', PList [PStr reason])]"

definition collector_answer :: "string + pydict \<Rightarrow> pydict" where
  "collector_answer answer =
     (case answer of
        Inr collected \<Rightarrow> collected
      | Inl name \<Rightarrow> [(''docker'', PDict (docker_down (''collector_unavailable:'' @ name))), (''object_registry'', PDict (registry_down ''collector_unavailable''))])"

definition containers_of ::
  "host_view \<Rightarrow> string \<Rightarrow> string \<Rightarrow> (string + pydict) option \<Rightarrow> pydict \<times> pydict \<times> pydict \<times> string list" where
  "containers_of hv proc cgroup collector =
     (case collector of
        None \<Rightarrow>
          (let docker = collect_docker_stats hv
           in (docker, collect_object_registry hv proc cgroup docker, [(''status'', PStr ''direct'')], []))
      | Some answer \<Rightarrow>
          (let collected = collector_answer answer;
               docker = (case dget collected ''docker'' of PDict d \<Rightarrow> d | _ \<Rightarrow> docker_down ''collector_docker_data_missing'');
               registry = (case dget collected ''object_registry'' of PDict d \<Rightarrow> d | _ \<Rightarrow> registry_down ''collector_object_registry_missing'');
               meta = mapping_of (dget collected ''collector'')
           in (docker, registry, meta,
               (if dget meta ''read_only'' \<noteq> PBool True then [''collector_read_only_contract_missing''] else []) @
               (if dget docker ''available'' = PBool False \<or> dget registry ''status'' = PStr ''unavailable'' then [''docker_observation_unavailable''] else []) @
               (if dget meta ''status'' = PStr ''degraded'' \<or> dget registry ''status'' = PStr ''degraded'' then [''container_collector_degraded''] else []))))"

text \<open>The quality flags of the host's part, and of the whole observation.\<close>

definition observation_flags :: "host_view \<Rightarrow> string \<Rightarrow> string \<Rightarrow> pydict \<Rightarrow> string list \<Rightarrow> string list" where
  "observation_flags hv proc own_cgroup docker collector_flags =
     (let meminfo_text = hv_read hv (below proc ''meminfo''); memory = memory_signals (parse_meminfo meminfo_text)
      in (if meminfo_text = None then [''meminfo_missing''] else []) @
         (if has_key (psi_readings hv proc) ''memory'' then [] else [''memory_psi_missing'']) @
         (if hv_read hv (below own_cgroup ''memory.events'') = None then [''memory_events_missing''] else []) @
         (if dget memory ''total_bytes'' = PNone then [''memory_total_missing''] else []) @
         (if dget memory ''available_bytes'' = PNone then [''memory_available_missing''] else []) @ collector_flags @
         (if dget docker ''available'' = PBool False then [''docker_observation_unavailable''] else []))"

definition collect_observation ::
  "host_view \<Rightarrow> string \<Rightarrow> string \<Rightarrow> string list \<Rightarrow> (string + pydict) option \<Rightarrow> py_exn + pydict" where
  "collect_observation hv proc cgroup mount_points collector =
     (let own_cgroup = resolve_process_cgroup_root hv proc cgroup;
          (docker, registry, meta, collector_flags) = containers_of hv proc cgroup collector;
          flags = observation_flags hv proc own_cgroup docker collector_flags
      in sum_bind (iterate (dget_default registry ''objects'' (PList []))) (\<lambda>objects.
         Inr [(''observed_at'', PStr (hv_utc_now hv)), (''observed_monotonic_ns'', PInt (hv_monotonic_ns hv 0)),
              (''memory'', PDict (memory_signals (parse_meminfo (hv_read hv (below proc ''meminfo''))))), (''psi'', PDict (psi_readings hv proc)),
              (''cgroup'', PDict [(''memory_current_bytes'', opt_val PInt (read_int_file hv (below own_cgroup ''memory.current''))),
                 (''memory_max'', read_scalar_file hv (below own_cgroup ''memory.max'')),
                 (''memory_events'', int_dict (parse_counters (hv_read hv (below own_cgroup ''memory.events'')))),
                 (''pids_current'', opt_val PInt (read_int_file hv (below own_cgroup ''pids.current''))),
                 (''pids_max'', read_scalar_file hv (below own_cgroup ''pids.max'')), (''path'', PStr own_cgroup)]),
              (''docker'', PDict docker), (''object_registry'', PDict registry), (''collector'', PDict meta),
              (''cpu'', PDict (cpu_of_host hv proc own_cgroup objects)), (''disk'', PDict (disk_of_host hv proc own_cgroup mount_points objects)),
              (''quality'', PDict [(''status'', quality_status flags), (''flags'', str_list (sorted_set flags))])]))"

section \<open>The evaluator of the one-shot mode\<close>

definition candidate_state :: "pydict \<Rightarrow> pyfloat \<Rightarrow> pyfloat \<Rightarrow> string \<times> string list" where
  "candidate_state observation warning_available critical_available =
     (let events = mapping_of (dget (mapping_of (dget observation ''cgroup'')) ''memory_events'');
          oom = (py_truthy (dget events ''oom'') \<or> py_truthy (dget events ''oom_kill''));
          ratio = num_of (dget (mapping_of (dget observation ''memory'')) ''available_ratio_percent'');
          low = opt_holds (\<lambda>x. fle x critical_available) ratio;
          reasons = (if oom then [''cgroup_memory_oom_event''] else []) @
            (if low then [''host_memory_available_critical'']
             else if opt_holds (\<lambda>x. fle x warning_available) ratio then [''host_memory_available_warning''] else [])
      in (if oom \<or> low then ''critical'' else if reasons \<noteq> [] then ''warning'' else ''normal'', reasons))"

record plain_evaluator =
  pe_warning_for :: rat
  pe_critical_for :: rat
  pe_level :: string
  pe_since :: "rat option"
  pe_emitted :: string
  pe_previous :: "(int \<times> rat) option"

definition new_plain_evaluator :: "rat \<Rightarrow> rat \<Rightarrow> plain_evaluator" where
  "new_plain_evaluator warning_for critical_for =
     \<lparr>pe_warning_for = warning_for, pe_critical_for = critical_for, pe_level = ''normal'', pe_since = None, pe_emitted = ''normal'', pe_previous = None\<rparr>"

definition plain_risk :: "pydict \<Rightarrow> pyfloat \<Rightarrow> pyfloat \<Rightarrow> rat \<Rightarrow> plain_evaluator \<Rightarrow> pydict \<times> plain_evaluator" where
  "plain_risk observation warning_available critical_available now e =
     (let (candidate, reasons) = candidate_state observation warning_available critical_available;
          available = int_like (dget (mapping_of (dget observation ''memory'')) ''available_bytes'');
          growth = (case (available, pe_previous e) of
             (Some a, Some (before, then_at)) \<Rightarrow> if then_at < now then Some (max (of_int (before - a) / (now - then_at)) 0) else None
           | _ \<Rightarrow> None);
          since = (if candidate \<noteq> pe_level e then now else case pe_since e of None \<Rightarrow> now | Some t \<Rightarrow> t);
          held = max (now - since) 0;
          required = (if candidate = ''normal'' then 0 else if candidate = ''critical'' then pe_critical_for e else pe_warning_for e);
          state = (if candidate = ''normal'' then (if pe_emitted e \<in> {''warning'', ''critical''} then ''recovered'' else ''normal'')
            else if required \<le> held then candidate else ''normal'')
      in ([(''state'', PStr state), (''candidate_state'', PStr candidate), (''candidate_for_seconds'', flo (round_digits 3 held)),
           (''required_for_seconds'', flo required), (''reasons'', strs reasons), (''memory_available_growth_bytes_per_second'', opt_val flo growth)],
          e\<lparr>pe_level := candidate, pe_since := Some since, pe_previous := map_option (\<lambda>a. (a, now)) available,
            pe_emitted := (if state = ''recovered'' then ''normal'' else if state \<noteq> ''normal'' then state else pe_emitted e)\<rparr>))"

end
