(* ===== verification/Guardian_Revalidation.thy ===== *)
theory Guardian_Revalidation
  imports Guardian_Shedding
begin

text \<open>
  Action-time revalidation (\<open>src/guardian_revalidation.py\<close>): an intent is checked against a
  separately collected event immediately before an adapter may be called.  The intent's
  attributes are Python values; a label attribute that is not a tuple is \<open>None\<close>.  The clocks are
  the optional arguments or, in their absence, the readings \<open>wall\<close> and \<open>ticks\<close>.  \<open>Inl\<close> is an
  exception that escapes: an integer beyond the float range, or an unhashable resource kind.
\<close>

section \<open>Data\<close>

record action_intent =
  ai_observed_monotonic_ns :: pyval
  ai_target_id :: pyval
  ai_target_created_at :: pyval
  ai_target_cgroup_path :: pyval
  ai_target_cgroup_inode :: pyval
  ai_target_labels :: "(string \<times> string) list option"
  ai_event_id :: pyval
  ai_sample_id :: pyval
  ai_host_id :: pyval
  ai_policy_digest :: pyval
  ai_config_digest :: pyval
  ai_expires_at :: pyval
  ai_resource_kind :: pyval

record fresh_revalidation =
  fr_accepted :: bool
  fr_reason_codes :: "string list"
  fr_event_id :: "string option"
  fr_sample_id :: "string option"
  fr_observed_monotonic_ns :: "pyval option"
  fr_registry :: "pydict list"
  fr_event :: pydict

definition fresh_as_dict :: "fresh_revalidation \<Rightarrow> pydict" where
  "fresh_as_dict r =
     [(''schema'', PStr ''guardian.fresh_revalidation.v1''), (''accepted'', PBool (fr_accepted r)),
      (''reason_codes'', PList (map PStr (fr_reason_codes r))), (''fresh_event_id'', opt_val PStr (fr_event_id r)),
      (''fresh_sample_id'', opt_val PStr (fr_sample_id r)),
      (''fresh_observed_monotonic_ns'', opt_val id (fr_observed_monotonic_ns r)),
      (''registry'', PList (map PDict (fr_registry r)))]"

definition full_digest :: "string \<Rightarrow> bool" where
  "full_digest s = hex_fullmatch 64 64 s"

fun strict_pairs :: "pydict \<Rightarrow> (string \<times> string) list option" where
  "strict_pairs [] = Some []"
| "strict_pairs (kv # kvs) =
     (case label_pair kv of None \<Rightarrow> None | Some p \<Rightarrow> map_option (\<lambda>ps. p # ps) (strict_pairs kvs))"

definition strict_labels :: "pyval \<Rightarrow> (string \<times> string) list option" where
  "strict_labels value = (case value of PDict d \<Rightarrow> map_option sort (strict_pairs d) | _ \<Rightarrow> None)"

fun revalidation_number :: "pyval \<Rightarrow> py_exn + rat option" where
  "revalidation_number (PInt i) = (if float_limit \<le> \<bar>of_int i\<bar> then Inl OverflowError else Inr (Some (of_int i)))"
| "revalidation_number (PFloat (Fin q)) = Inr (Some q)"
| "revalidation_number _ = Inr None"

definition failure ::
  "pydict \<Rightarrow> string option \<Rightarrow> string option \<Rightarrow> pyval option \<Rightarrow> string \<Rightarrow> py_exn + fresh_revalidation" where
  "failure event event_id sample_id monotonic reason =
     Inr \<lparr>fr_accepted = False, fr_reason_codes = [reason], fr_event_id = event_id, fr_sample_id = sample_id,
          fr_observed_monotonic_ns = monotonic, fr_registry = [], fr_event = event\<rparr>"

section \<open>The checks\<close>

definition full_id_text :: "pyval \<Rightarrow> string option" where
  "full_id_text v = (case v of PStr s \<Rightarrow> if full_container_id s then Some s else None | _ \<Rightarrow> None)"

text \<open>
  The fresh readings with their fallback to the \<open>signals\<close> block.
\<close>

definition fresh_monotonic :: "pydict \<Rightarrow> pyval" where
  "fresh_monotonic event =
     (case positive_int (dget event ''observed_monotonic_ns'') of
        Some n \<Rightarrow> PInt n
      | None \<Rightarrow> dget (mapping_of (dget event ''signals'')) ''observed_monotonic_ns'')"

definition fresh_sample_id :: "pydict \<Rightarrow> string option" where
  "fresh_sample_id event =
     first_some [as_nonempty_str (dget event ''sample_id''),
                 as_nonempty_str (dget (mapping_of (dget event ''signals'')) ''sample_id'')]"

definition digest_text :: "pyval \<Rightarrow> string option" where
  "digest_text v = (case v of PStr s \<Rightarrow> if full_digest s then Some s else None | _ \<Rightarrow> None)"

definition config_digest_ok :: "string option \<Rightarrow> action_intent \<Rightarrow> pydict \<Rightarrow> bool" where
  "config_digest_ok expected intent evidence =
     (case digest_text (dget evidence ''config_digest'') of
        None \<Rightarrow> False
      | Some d \<Rightarrow>
          (case expected of Some (c # cs) \<Rightarrow> PStr (c # cs) | _ \<Rightarrow> ai_config_digest intent) = PStr d \<and>
          ai_config_digest intent = PStr d)"

definition policy_digest_ok :: "(pyval \<Rightarrow> string) \<Rightarrow> shedding_policy \<Rightarrow> action_intent \<Rightarrow> pydict \<Rightarrow> bool" where
  "policy_digest_ok policy_sha policy intent evidence =
     (case digest_text (dget evidence ''policy_digest'') of
        None \<Rightarrow> False
      | Some d \<Rightarrow> ai_policy_digest intent = PStr d \<and> policy_sha (policy_payload policy) = d)"

definition dash_to_underscore :: "string \<Rightarrow> string" where
  "dash_to_underscore s = map (\<lambda>c. if c = CHR ''-'' then CHR ''_'' else c) s"

definition fresh_risk_confirmed :: "(pyval \<Rightarrow> string) \<Rightarrow> pydict \<Rightarrow> bool" where
  "fresh_risk_confirmed rep risk \<longleftrightarrow>
     dash_to_underscore (py_upper (py_str rep (py_or (dget risk ''state'') (PStr [])))) = ''CRITICAL_CONFIRMED'' \<and>
     dget risk ''danger_confirmed'' = PBool True \<and> dget risk ''sample_complete'' = PBool True \<and>
     dget risk ''quality_status'' = PStr ''ok'' \<and> dget risk ''quality_flags'' = PList []"

text \<open>The risk block of the intent's resource in the fresh event.\<close>

definition fresh_risk :: "action_intent \<Rightarrow> pydict \<Rightarrow> pydict" where
  "fresh_risk intent event =
     (case ai_resource_kind intent of
        PStr kind \<Rightarrow> mapping_of (dget (mapping_of (dget (mapping_of (dget event ''resource_evaluations'')) kind)) ''risk'')
      | _ \<Rightarrow> [])"

definition registry_block :: "pydict \<Rightarrow> pyval" where
  "registry_block event =
     (let block = dget (mapping_of (dget event ''signals'')) ''object_registry''
      in if is_dict block then block else dget event ''object_registry'')"

definition same_identity :: "action_intent \<Rightarrow> pydict \<Rightarrow> bool" where
  "same_identity intent identity \<longleftrightarrow>
     py_eq (dget identity ''created_at'') (ai_target_created_at intent) \<and>
     py_eq (dget identity ''cgroup_path'') (ai_target_cgroup_path intent) \<and>
     py_eq (dget identity ''cgroup_inode'') (ai_target_cgroup_inode intent) \<and>
     strict_labels (dget identity ''labels'') \<noteq> None \<and>
     strict_labels (dget identity ''labels'') = ai_target_labels intent \<and>
     dget identity ''mapping_confidence'' = PStr ''high'' \<and> dget identity ''mapping_errors'' = PList []"

definition fresh_running :: "(pyval \<Rightarrow> string) \<Rightarrow> pydict \<Rightarrow> bool" where
  "fresh_running rep identity \<longleftrightarrow>
     py_lower (py_str rep (py_or (dget identity ''status'') (PStr []))) \<in> {''running'', ''restarting''} \<or>
     dget identity ''running'' = PBool True"

text \<open>The checks on the registry block, in order: the refusal reason or the registry.\<close>

definition check_target ::
  "(pyval \<Rightarrow> string) \<Rightarrow> action_intent \<Rightarrow> string \<Rightarrow> pydict \<Rightarrow> string + pydict list" where
  "check_target rep intent target event =
     (let block = registry_block event; objects = dget (mapping_of block) ''objects'';
          registry = map mapping_of (filter is_dict (list_value objects));
          matches = filter (\<lambda>item. dget item ''id'' = PStr target) registry; identity = hd matches
      in if \<not> is_dict block \<or> dget (mapping_of block) ''status'' \<noteq> PStr ''ok'' then Inl ''fresh_object_registry_unavailable''
         else if list_value objects = [] then Inl ''fresh_object_registry_incomplete''
         else if length matches \<noteq> 1 then Inl ''fresh_target_identity_changed''
         else if \<not> same_identity intent identity then Inl ''fresh_target_identity_changed''
         else if as_nonempty_str (dget identity ''created_at'') = None then Inl ''fresh_created_at_missing''
         else if \<not> starts_with_slash (text_of (dget identity ''cgroup_path'')) then Inl ''fresh_cgroup_path_missing''
         else if positive_int (dget identity ''cgroup_inode'') = None then Inl ''fresh_cgroup_inode_missing''
         else if \<not> fresh_running rep identity then Inl ''fresh_target_not_running''
         else Inr registry)"

text \<open>
  From the freshness of the sample on: the event id, the sample id, their order in time, the
  runtime gate, the digests, the risk, the action and the target.
\<close>

definition check_fresh ::
  "(pyval \<Rightarrow> string) \<Rightarrow> (pyval \<Rightarrow> string) \<Rightarrow> shedding_policy \<Rightarrow> string option \<Rightarrow> action_intent \<Rightarrow> string \<Rightarrow> int \<Rightarrow> int \<Rightarrow>
   pydict \<Rightarrow> py_exn + fresh_revalidation" where
  "check_fresh rep policy_sha policy expected intent target original ticks event =
     (let evidence = mapping_of (dget event ''evidence''); reading = fresh_monotonic event;
          risk = fresh_risk intent event;
          decision = mapping_of (dget (mapping_of (dget event ''emergency_shedding'')) ''decision'')
      in case as_nonempty_str (dget event ''event_id'') of
           None \<Rightarrow> failure event None None None ''fresh_event_id_missing''
         | Some event_id \<Rightarrow>
             if \<not> py_eq (dget event ''host_id'') (ai_host_id intent)
             then failure event (Some event_id) None None ''fresh_host_identity_changed''
             else (case fresh_sample_id event of
               None \<Rightarrow> failure event (Some event_id) None None ''fresh_sample_id_missing''
             | Some sample_id \<Rightarrow>
               let fail = failure event (Some event_id) (Some sample_id)
               in if ai_event_id intent = PStr event_id \<or> ai_sample_id intent = PStr sample_id
                  then fail None ''fresh_sample_reused''
                  else (case as_int reading of
                    None \<Rightarrow> fail (case reading of PBool b \<Rightarrow> Some reading | _ \<Rightarrow> None) ''fresh_monotonic_timestamp_stale''
                  | Some fresh \<Rightarrow>
                      if fresh \<le> original then fail (Some reading) ''fresh_monotonic_timestamp_stale''
                      else if ticks < fresh then fail (Some reading) ''fresh_monotonic_timestamp_in_future''
                      else if dget (mapping_of (dget evidence ''runtime_gate'')) ''execution_allowed'' = PBool False
                        then fail (Some reading) ''fresh_runtime_gate_closed''
                      else if \<not> config_digest_ok expected intent evidence then fail (Some reading) ''fresh_config_digest_mismatch''
                      else if \<not> policy_digest_ok policy_sha policy intent evidence
                        then fail (Some reading) ''fresh_policy_digest_mismatch''
                      else if \<not> hashable (ai_resource_kind intent) then Inl TypeError
                      else if \<not> fresh_risk_confirmed rep risk then fail (Some reading) ''fresh_risk_not_confirmed''
                      else if dget decision ''action'' \<noteq> PStr ''graceful_stop'' then fail (Some reading) ''fresh_action_not_allowed''
                      else (case check_target rep intent target event of
                          Inl reason \<Rightarrow> fail (Some reading) reason
                        | Inr registry \<Rightarrow>
                            Inr \<lparr>fr_accepted = True, fr_reason_codes = [''fresh_revalidation_passed''],
                                 fr_event_id = Some event_id, fr_sample_id = Some sample_id,
                                 fr_observed_monotonic_ns = Some reading, fr_registry = registry, fr_event = event\<rparr>))))"

definition revalidate_observer_event ::
  "(pyval \<Rightarrow> string) \<Rightarrow> (pyval \<Rightarrow> string) \<Rightarrow> rat \<Rightarrow> int \<Rightarrow> action_intent \<Rightarrow> pyval \<Rightarrow> pyval \<Rightarrow> shedding_policy \<Rightarrow>
   string option \<Rightarrow> pyval option \<Rightarrow> pyval option \<Rightarrow> py_exn + fresh_revalidation" where
  "revalidate_observer_event rep policy_sha wall ticks intent original_event fresh_event policy expected now_epoch now_monotonic =
     (let event = mapping_of fresh_event; refuse = failure event None None None;
          monotonic = (case now_monotonic of None \<Rightarrow> PInt ticks | Some v \<Rightarrow> v)
      in if \<not> is_dict original_event \<or> \<not> is_dict fresh_event then refuse ''fresh_event_mapping_required''
         else (case revalidation_number (ai_expires_at intent) of
           Inl e \<Rightarrow> Inl e
         | Inr expires \<Rightarrow>
           (case positive_int (ai_observed_monotonic_ns intent) of
              None \<Rightarrow> refuse ''original_monotonic_timestamp_missing''
            | Some original \<Rightarrow>
              (case full_id_text (ai_target_id intent) of
                 None \<Rightarrow> refuse ''target_full_id_required''
               | Some target \<Rightarrow>
                   if ai_target_labels intent = None then refuse ''target_labels_invalid''
                   else if expires = None then refuse ''intent_expiry_invalid''
                   else (case (case now_epoch of None \<Rightarrow> Inr (Some wall) | Some v \<Rightarrow> revalidation_number v) of
                       Inl e \<Rightarrow> Inl e
                     | Inr epoch \<Rightarrow>
                         if epoch = None \<or> positive_int monotonic = None then refuse ''revalidation_clock_invalid''
                         else if the expires \<le> the epoch then refuse ''intent_expired''
                         else check_fresh rep policy_sha policy expected intent target original
                                (the (positive_int monotonic)) event)))))"

section \<open>Properties\<close>

lemma full_id_text_Some [simp]: "full_id_text v = Some s \<longleftrightarrow> v = PStr s \<and> full_container_id s"
  by (cases v) (auto simp: full_id_text_def)

lemma digest_text_Some: "digest_text v = Some s \<longleftrightarrow> v = PStr s \<and> full_digest s"
  by (cases v) (auto simp: digest_text_def)

lemma failure_refuses [simp]: "failure event event_id sample_id monotonic reason = Inr r \<Longrightarrow> \<not> fr_accepted r"
  by (auto simp: failure_def)

text \<open>The one registry object that carries the intent's target.\<close>

definition fresh_target :: "(pyval \<Rightarrow> string) \<Rightarrow> action_intent \<Rightarrow> string \<Rightarrow> pydict list \<Rightarrow> bool" where
  "fresh_target rep intent target registry \<longleftrightarrow>
     (\<exists>identity. filter (\<lambda>item. dget item ''id'' = PStr target) registry = [identity] \<and>
        same_identity intent identity \<and> fresh_running rep identity)"

lemma check_target_Inr: "check_target rep intent target event = Inr registry \<Longrightarrow> fresh_target rep intent target registry"
proof -
  assume t: "check_target rep intent target event = Inr registry"
  let ?m = "filter (\<lambda>item. dget item ''id'' = PStr target) registry"
  have "length ?m = 1" "same_identity intent (hd ?m)" "fresh_running rep (hd ?m)"
    using t by (auto simp: check_target_def Let_def split: if_splits)
  moreover from this(1) have "?m = [hd ?m]" by (cases ?m) simp_all
  ultimately show ?thesis unfolding fresh_target_def by metis
qed

lemma check_fresh_accepted:
  assumes "check_fresh rep policy_sha policy expected intent target original ticks event = Inr r" "fr_accepted r"
  shows "\<exists>event_id sample_id fresh. fr_event_id r = Some event_id \<and> fr_sample_id r = Some sample_id \<and>
      ai_event_id intent \<noteq> PStr event_id \<and> ai_sample_id intent \<noteq> PStr sample_id \<and>
      fr_observed_monotonic_ns r = Some (PInt fresh) \<and> original < fresh \<and> fresh \<le> ticks"
    "py_eq (dget event ''host_id'') (ai_host_id intent)"
    "policy_digest_ok policy_sha policy intent (mapping_of (dget event ''evidence''))"
    "config_digest_ok expected intent (mapping_of (dget event ''evidence''))"
    "fresh_risk_confirmed rep (fresh_risk intent event)"
    "fresh_target rep intent target (fr_registry r)"
  using assms
  by (auto simp: check_fresh_def Let_def dest: check_target_Inr split: option.splits if_splits sum.splits)

lemma revalidate_accepted:
  assumes "revalidate_observer_event rep policy_sha wall ticks intent original_event fresh_event policy expected
      now_epoch now_monotonic = Inr r" "fr_accepted r"
  shows "\<exists>event target original clock epoch expires. fresh_event = PDict event \<and>
    ai_observed_monotonic_ns intent = PInt original \<and> ai_target_id intent = PStr target \<and> full_container_id target \<and>
    revalidation_number (ai_expires_at intent) = Inr (Some expires) \<and> epoch < expires \<and>
    epoch = (case now_epoch of None \<Rightarrow> wall | Some v \<Rightarrow> the (finite_number v)) \<and>
    clock = (case now_monotonic of None \<Rightarrow> ticks | Some v \<Rightarrow> the (as_int v)) \<and>
    check_fresh rep policy_sha policy expected intent target original clock event = Inr r"
proof -
  have d: "is_dict v \<Longrightarrow> \<exists>d. v = PDict d" for v by (cases v) simp_all
  have n: "revalidation_number v = Inr (Some q) \<Longrightarrow> finite_number v = Some q" for v q
    by (cases v rule: finite_number.cases) (auto split: if_splits)
  show ?thesis
    using assms
    by (auto simp: revalidate_observer_event_def Let_def n dest!: d failure_refuses split: option.splits if_splits sum.splits)
qed

text \<open>
  C25. An intent passes the revalidation only before it expires, for a full container id, with an
  event and a sample that are not the intent's own and were observed after it and not in the
  future, with the digest of the current policy and the intent's configuration digest, while
  the risk of the intent's resource is still confirmed, and with exactly one registry object
  under the target id, whose identity is the intent's and which is still running.
\<close>
theorem revalidation_is_fresh:
  assumes "revalidate_observer_event rep policy_sha wall ticks intent original_event fresh_event policy expected
      now_epoch now_monotonic = Inr r" "fr_accepted r"
  shows "\<exists>event target original fresh event_id sample_id epoch expires. fresh_event = PDict event \<and>
    ai_target_id intent = PStr target \<and> full_container_id target \<and>
    revalidation_number (ai_expires_at intent) = Inr (Some expires) \<and> epoch < expires \<and>
    epoch = (case now_epoch of None \<Rightarrow> wall | Some v \<Rightarrow> the (finite_number v)) \<and>
    fr_event_id r = Some event_id \<and> ai_event_id intent \<noteq> PStr event_id \<and>
    fr_sample_id r = Some sample_id \<and> ai_sample_id intent \<noteq> PStr sample_id \<and>
    ai_observed_monotonic_ns intent = PInt original \<and> fr_observed_monotonic_ns r = Some (PInt fresh) \<and>
    original < fresh \<and> fresh \<le> (case now_monotonic of None \<Rightarrow> ticks | Some v \<Rightarrow> the (as_int v)) \<and>
    ai_policy_digest intent = PStr (policy_sha (policy_payload policy)) \<and>
    dget (mapping_of (dget event ''evidence'')) ''config_digest'' = ai_config_digest intent \<and>
    fresh_risk_confirmed rep (fresh_risk intent event) \<and> fresh_target rep intent target (fr_registry r)"
proof -
  obtain event target original clock epoch expires where
    e: "fresh_event = PDict event" "ai_observed_monotonic_ns intent = PInt original" "ai_target_id intent = PStr target"
      "full_container_id target" "revalidation_number (ai_expires_at intent) = Inr (Some expires)" "epoch < expires"
      "epoch = (case now_epoch of None \<Rightarrow> wall | Some v \<Rightarrow> the (finite_number v))"
      "clock = (case now_monotonic of None \<Rightarrow> ticks | Some v \<Rightarrow> the (as_int v))"
      "check_fresh rep policy_sha policy expected intent target original clock event = Inr r"
    using revalidate_accepted [OF assms] by blast
  note c = check_fresh_accepted [OF e(9) assms(2)]
  have "ai_policy_digest intent = PStr (policy_sha (policy_payload policy))"
    using c(3) by (auto simp: policy_digest_ok_def split: option.splits)
  moreover have "dget (mapping_of (dget event ''evidence'')) ''config_digest'' = ai_config_digest intent"
    using c(4) by (auto simp: config_digest_ok_def digest_text_Some split: option.splits)
  ultimately show ?thesis using e c(1,5,6) by blast
qed

definition example_intent :: action_intent where
  "example_intent =
     \<lparr>ai_observed_monotonic_ns = PInt 100, ai_target_id = PStr (replicate 64 CHR ''a''),
      ai_target_created_at = PStr ''2026-01-01'', ai_target_cgroup_path = PStr ''/docker'', ai_target_cgroup_inode = PInt 12,
      ai_target_labels = Some [], ai_event_id = PStr ''e1'', ai_sample_id = PStr ''s1'', ai_host_id = PStr ''h'',
      ai_policy_digest = PStr (replicate 64 CHR ''c''), ai_config_digest = PStr (replicate 64 CHR ''d''),
      ai_expires_at = PFloat (Fin 90), ai_resource_kind = PStr ''memory''\<rparr>"

definition example_object :: pyval where
  "example_object =
     PDict [(''id'', PStr (replicate 64 CHR ''a'')), (''created_at'', PStr ''2026-01-01''), (''cgroup_path'', PStr ''/docker''),
            (''cgroup_inode'', PInt 12), (''labels'', PDict []), (''mapping_confidence'', PStr ''high''),
            (''mapping_errors'', PList []), (''status'', PStr ''running'')]"

definition example_fresh_event :: pyval where
  "example_fresh_event =
     PDict [(''event_id'', PStr ''e2''), (''sample_id'', PStr ''s2''), (''host_id'', PStr ''h''),
            (''observed_monotonic_ns'', PInt 200),
            (''evidence'', PDict [(''config_digest'', PStr (replicate 64 CHR ''d'')), (''policy_digest'', PStr (replicate 64 CHR ''c''))]),
            (''resource_evaluations'', PDict [(''memory'', PDict [(''risk'', PDict [(''state'', PStr ''critical-confirmed''),
               (''danger_confirmed'', PBool True), (''sample_complete'', PBool True), (''quality_status'', PStr ''ok''),
               (''quality_flags'', PList [])])])]),
            (''emergency_shedding'', PDict [(''decision'', PDict [(''action'', PStr ''graceful_stop'')])]),
            (''object_registry'', PDict [(''status'', PStr ''ok''), (''objects'', PList [example_object])])]"

definition example_revalidation :: "py_exn + fresh_revalidation" where
  "example_revalidation = revalidate_observer_event (\<lambda>_. []) (\<lambda>_. replicate 64 CHR ''c'') 50 300 example_intent (PDict [])
     example_fresh_event default_policy None None None"

lemma example_accepted: "(case example_revalidation of Inl _ \<Rightarrow> False | Inr r \<Rightarrow> fr_accepted r)"
  by code_simp

theorem revalidation_is_fresh_witness:
  "\<exists>r. example_revalidation = Inr r \<and> fresh_target (\<lambda>_. []) example_intent (replicate 64 CHR ''a'') (fr_registry r)"
proof -
  obtain r where r: "example_revalidation = Inr r" "fr_accepted r"
    using example_accepted by (auto split: sum.splits)
  show ?thesis
    using revalidation_is_fresh [OF r(1) [unfolded example_revalidation_def] r(2)] r(1)
    by (auto simp: example_intent_def)
qed

end
