(* ===== verification/Guardian_Intent.thy ===== *)
theory Guardian_Intent
  imports Guardian_Revalidation
begin

text \<open>
  The durable contract between a plan and an action (\<open>src/guardian_coordinator.py\<close>, \<open>ActionIntent\<close> and
  \<open>action_intent_from_event\<close>).  \<open>Inl\<close> is the text of an \<open>ActionIntentError\<close>.  The current time is an
  argument, which stands for \<open>now_epoch_s\<close> or for the reading of \<open>time.time()\<close>; \<open>iso_at\<close> is
  \<open>datetime.fromisoformat\<close> and \<open>sha\<close> the hexadecimal SHA-256.
\<close>

section \<open>The checks of single values\<close>

definition ensure :: "bool \<Rightarrow> string \<Rightarrow> string + unit" where
  "ensure b reason = (if b then Inr () else Inl reason)"

definition required_string :: "pyval \<Rightarrow> string \<Rightarrow> string + string" where
  "required_string value field =
     (case value of
        PStr s \<Rightarrow>
          if py_strip s = [] then Inl (field @ ''_required'')
          else if 512 < length (py_strip s) then Inl (field @ ''_too_long'') else Inr (py_strip s)
      | _ \<Rightarrow> Inl (field @ ''_required''))"

definition required_positive :: "pyval \<Rightarrow> string \<Rightarrow> string + int" where
  "required_positive value field = (case positive_int value of None \<Rightarrow> Inl (field @ ''_invalid'') | Some n \<Rightarrow> Inr n)"

definition required_finite :: "pyval \<Rightarrow> string \<Rightarrow> string + rat" where
  "required_finite value field = (case finite_number value of None \<Rightarrow> Inl (field @ ''_invalid'') | Some q \<Rightarrow> Inr q)"

definition parse_expiry :: "(string \<Rightarrow> iso_time) \<Rightarrow> pyval \<Rightarrow> string \<Rightarrow> string + rat" where
  "parse_expiry iso_at value field =
     sum_bind (required_string value field) (\<lambda>raw.
       case iso_at (offset_text raw) of
         NotIso \<Rightarrow> Inl (field @ ''_invalid'')
       | Naive \<Rightarrow> Inl (field @ ''_timezone_required'')
       | Epoch t \<Rightarrow> Inr t)"

definition intent_key :: "(string \<Rightarrow> string) \<Rightarrow> string \<Rightarrow> string \<Rightarrow> string \<Rightarrow> string \<Rightarrow> string" where
  "intent_key sha host target action event = sha (join [char_of (0 :: nat)] [host, target, action, event])"

definition intent_labels :: "pyval \<Rightarrow> string + (string \<times> string) list" where
  "intent_labels value =
     (case value of
        PDict d \<Rightarrow> (case strict_pairs d of None \<Rightarrow> Inl ''target_labels_invalid'' | Some ps \<Rightarrow> Inr (sort ps))
      | _ \<Rightarrow> Inr [])"

definition extract_plan :: "pydict \<Rightarrow> pydict option" where
  "extract_plan event =
     (let emergency = mapping_of (dget event ''emergency_shedding'')
      in case dget emergency ''plan'' of PDict plan \<Rightarrow> Some plan
         | _ \<Rightarrow> (case dget (mapping_of (dget emergency ''decision'')) ''plan'' of PDict plan \<Rightarrow> Some plan
           | _ \<Rightarrow> (case dget (mapping_of (dget event ''decision'')) ''plan'' of PDict plan \<Rightarrow> Some plan | _ \<Rightarrow> None)))"

section \<open>The intent\<close>

record guardian_intent =
  gi_plan_id :: string
  gi_event_id :: string
  gi_sample_id :: string
  gi_observed_monotonic_ns :: int
  gi_host_id :: string
  gi_incident_id :: string
  gi_resource_kind :: string
  gi_target_id :: string
  gi_target_created_at :: string
  gi_target_cgroup_path :: string
  gi_target_cgroup_inode :: int
  gi_target_labels :: "(string \<times> string) list"
  gi_action :: string
  gi_reason_codes :: "string list"
  gi_policy_digest :: string
  gi_config_digest :: string
  gi_idempotency_key :: string
  gi_issued_at :: rat
  gi_expires_at :: rat
  gi_timeout_seconds :: int

definition intent_as_dict :: "guardian_intent \<Rightarrow> pydict" where
  "intent_as_dict i =
     [(''schema'', PStr ''guardian.action_intent.v1''), (''plan_id'', PStr (gi_plan_id i)), (''event_id'', PStr (gi_event_id i)),
      (''sample_id'', PStr (gi_sample_id i)), (''observed_monotonic_ns'', PInt (gi_observed_monotonic_ns i)),
      (''host_id'', PStr (gi_host_id i)), (''incident_id'', PStr (gi_incident_id i)), (''resource_kind'', PStr (gi_resource_kind i)),
      (''target'', PDict [(''kind'', PStr ''container''), (''id'', PStr (gi_target_id i)),
         (''created_at'', PStr (gi_target_created_at i)), (''cgroup_path'', PStr (gi_target_cgroup_path i)),
         (''cgroup_inode'', PInt (gi_target_cgroup_inode i)),
         (''labels'', PDict (foldl (\<lambda>d (k, v). dset d k (PStr v)) [] (gi_target_labels i)))]),
      (''action'', PStr (gi_action i)), (''reason_codes'', PList (map PStr (gi_reason_codes i))),
      (''policy_digest'', PStr (gi_policy_digest i)), (''config_digest'', PStr (gi_config_digest i)),
      (''idempotency_key'', PStr (gi_idempotency_key i)), (''issued_at'', PFloat (Fin (gi_issued_at i))),
      (''expires_at'', PFloat (Fin (gi_expires_at i))), (''timeout_seconds'', PInt (gi_timeout_seconds i))]"

text \<open>The intent as the revalidation reads its attributes.\<close>

definition intent_view :: "guardian_intent \<Rightarrow> action_intent" where
  "intent_view i =
     \<lparr>ai_observed_monotonic_ns = PInt (gi_observed_monotonic_ns i), ai_target_id = PStr (gi_target_id i),
      ai_target_created_at = PStr (gi_target_created_at i), ai_target_cgroup_path = PStr (gi_target_cgroup_path i),
      ai_target_cgroup_inode = PInt (gi_target_cgroup_inode i), ai_target_labels = Some (gi_target_labels i),
      ai_event_id = PStr (gi_event_id i), ai_sample_id = PStr (gi_sample_id i), ai_host_id = PStr (gi_host_id i),
      ai_policy_digest = PStr (gi_policy_digest i), ai_config_digest = PStr (gi_config_digest i),
      ai_expires_at = PFloat (Fin (gi_expires_at i)), ai_resource_kind = PStr (gi_resource_kind i)\<rparr>"

section \<open>The conversion of an event\<close>

text \<open>The conversion in the order of the code, one definition per block.\<close>

record intent_source =
  so_event_id :: string
  so_sample_id :: string
  so_host_id :: string
  so_incident_id :: string
  so_observed :: int

definition source_of_event :: "pydict \<Rightarrow> string + intent_source" where
  "source_of_event event =
     sum_bind (required_string (dget event ''event_id'') ''event_id'') (\<lambda>event_id.
     sum_bind (required_string (dget event ''state'') ''event_state'') (\<lambda>state.
     sum_bind (ensure (py_lower state \<in> {''warning'', ''critical'', ''critical_confirmed''}) ''event_not_actionable'') (\<lambda>_.
     sum_bind (required_string
                 (case as_nonempty_str (dget event ''sample_id'') of
                    Some s \<Rightarrow> PStr s | None \<Rightarrow> dget (mapping_of (dget event ''signals'')) ''sample_id'') ''sample_id'') (\<lambda>sample_id.
     sum_bind (required_string (dget event ''host_id'') ''host_id'') (\<lambda>host_id.
     sum_bind (required_string (py_or (dget event ''incident_id'') (PStr event_id)) ''incident_id'') (\<lambda>incident_id.
     sum_bind (required_positive (fresh_monotonic event) ''observed_monotonic_ns'') (\<lambda>observed.
       Inr \<lparr>so_event_id = event_id, so_sample_id = sample_id, so_host_id = host_id, so_incident_id = incident_id,
            so_observed = observed\<rparr>)))))))"

text \<open>\<open>plan.get(key)\<close> is absent, falsy or the given text.\<close>

definition same_or_absent :: "pyval \<Rightarrow> string \<Rightarrow> bool" where
  "same_or_absent v s = (\<not> py_truthy v \<or> v = PStr s)"

definition plan_fields :: "(pyval \<Rightarrow> string) \<Rightarrow> pydict \<Rightarrow> intent_source \<Rightarrow> string + string \<times> string \<times> string" where
  "plan_fields rep plan source =
     sum_bind (required_string (dget plan ''plan_id'') ''plan_id'') (\<lambda>plan_id.
     sum_bind (ensure (same_or_absent (dget plan ''event_id'') (so_event_id source)) ''plan_event_id_mismatch'') (\<lambda>_.
     sum_bind (ensure (same_or_absent (dget plan ''sample_id'') (so_sample_id source)) ''plan_sample_id_mismatch'') (\<lambda>_.
     let resource = py_str rep (py_or (dget plan ''resource_kind'') (PStr [])) in
     sum_bind (ensure (resource \<in> set SUPPORTED_RESOURCES) ''resource_kind_invalid'') (\<lambda>_.
     sum_bind (required_string (dget plan ''action'') ''action'') (\<lambda>action.
     sum_bind (ensure (action = ''graceful_stop'') ''only_graceful_stop_is_supported'') (\<lambda>_.
     sum_bind (ensure (dget plan ''root_cause_claimed'' = PBool False) ''root_cause_claim_not_allowed'') (\<lambda>_.
       Inr (plan_id, resource, action))))))))"

record plan_identity =
  ta_id :: string
  ta_created_at :: string
  ta_cgroup_path :: string
  ta_cgroup_inode :: int
  ta_labels :: "(string \<times> string) list"

definition target_of_plan :: "pydict \<Rightarrow> string + plan_identity" where
  "target_of_plan plan =
     (let target = mapping_of (dget plan ''target'') in
     sum_bind (required_string (dget plan ''target_id'') ''plan_target_id'') (\<lambda>target_id.
     sum_bind (ensure (dget target ''id'' = PStr target_id \<and> full_container_id target_id) ''target_full_id_required'') (\<lambda>_.
     sum_bind (required_string (dget target ''created_at'') ''target_created_at'') (\<lambda>created_at.
     sum_bind (required_string (dget target ''cgroup_path'') ''target_cgroup_path'') (\<lambda>path.
     sum_bind (ensure (starts_with_slash path) ''target_cgroup_path_invalid'') (\<lambda>_.
     sum_bind (required_positive (dget target ''cgroup_inode'') ''target_cgroup_inode'') (\<lambda>inode.
     sum_bind (intent_labels (dget_default target ''labels'' (PDict []))) (\<lambda>ls.
       Inr \<lparr>ta_id = target_id, ta_created_at = created_at, ta_cgroup_path = path, ta_cgroup_inode = inode,
            ta_labels = ls\<rparr>))))))))"

definition plan_digests :: "string option \<Rightarrow> pydict \<Rightarrow> pydict \<Rightarrow> string + string \<times> string" where
  "plan_digests expected event plan =
     (let evidence = mapping_of (dget event ''evidence'') in
     sum_bind (required_string (py_or (dget plan ''config_digest'') (dget evidence ''config_digest'')) ''config_digest'') (\<lambda>config.
     sum_bind (ensure (full_digest config) ''config_digest_invalid'') (\<lambda>_.
     sum_bind (required_string (py_or (dget plan ''policy_digest'') (dget evidence ''policy_digest'')) ''policy_digest'') (\<lambda>policy.
     sum_bind (ensure (full_digest policy) ''policy_digest_invalid'') (\<lambda>_.
     sum_bind (ensure (expected = None \<or> expected = Some policy) ''policy_digest_mismatch'') (\<lambda>_.
       Inr (config, policy)))))))"

definition reason_ok :: "pyval \<Rightarrow> bool" where
  "reason_ok v = (case v of PStr s \<Rightarrow> s \<noteq> [] \<and> length (py_strip s) \<le> 128 | _ \<Rightarrow> False)"

definition reasons_of_event :: "pydict \<Rightarrow> string + string list" where
  "reasons_of_event event =
     (let own = dget (mapping_of (dget event ''decision'')) ''reason_codes'';
          raw = (if is_list own then own
                 else dget (mapping_of (dget (mapping_of (dget event ''emergency_shedding'')) ''decision'')) ''reason_codes'')
      in case raw of
           PList items \<Rightarrow>
             if items = [] \<or> 32 < length items \<or> \<not> list_all reason_ok items then Inl ''reason_codes_required''
             else Inr (dict_fromkeys (map text_of items))
         | _ \<Rightarrow> Inl ''reason_codes_required'')"

definition intent_times :: "(string \<Rightarrow> iso_time) \<Rightarrow> rat \<Rightarrow> pyval \<Rightarrow> pydict \<Rightarrow> string + rat" where
  "intent_times iso_at issued_at plan_ttl plan =
     sum_bind (required_finite plan_ttl ''plan_ttl_seconds'') (\<lambda>ttl.
     sum_bind (ensure (0 < ttl \<and> ttl \<le> 300) ''plan_ttl_out_of_bounds'') (\<lambda>_.
     sum_bind (parse_expiry iso_at (dget plan ''expires_at'') ''plan_expires_at'') (\<lambda>policy_expires_at.
     sum_bind (ensure (issued_at < policy_expires_at) ''plan_expired'') (\<lambda>_.
     let expires_at = min policy_expires_at (issued_at + ttl) in
     sum_bind (ensure (issued_at < expires_at) ''intent_expiry_invalid'') (\<lambda>_. Inr expires_at)))))"

definition timeout_of_plan :: "pydict \<Rightarrow> int" where
  "timeout_of_plan plan =
     (case as_int (dget_default plan ''timeout_seconds'' (PInt 30)) of
        Some n \<Rightarrow> if 1 \<le> n \<and> n \<le> 120 then n else 30
      | None \<Rightarrow> 30)"

definition action_intent_from_event ::
  "(pyval \<Rightarrow> string) \<Rightarrow> (string \<Rightarrow> iso_time) \<Rightarrow> (string \<Rightarrow> string) \<Rightarrow> string option \<Rightarrow> rat \<Rightarrow> pyval \<Rightarrow> pyval \<Rightarrow>
   string + guardian_intent" where
  "action_intent_from_event rep iso_at sha expected issued_at plan_ttl event =
     (case event of
        PDict ev \<Rightarrow>
          (case extract_plan ev of
             None \<Rightarrow> Inl ''plan_required''
           | Some plan \<Rightarrow>
               sum_bind (ensure (dget plan ''schema'' = PStr EMERGENCY_SHEDDING_SCHEMA) ''plan_schema_invalid'') (\<lambda>_.
               sum_bind (source_of_event ev) (\<lambda>so.
               sum_bind (plan_fields rep plan so) (\<lambda>(plan_id, resource, action).
               sum_bind (target_of_plan plan) (\<lambda>ta.
               sum_bind (plan_digests expected ev plan) (\<lambda>(config, policy).
               sum_bind (reasons_of_event ev) (\<lambda>reasons.
               sum_bind (intent_times iso_at issued_at plan_ttl plan) (\<lambda>expires_at.
               let key = intent_key sha (so_host_id so) (ta_id ta) action (so_event_id so) in
               sum_bind (ensure (dget plan ''idempotency_key'' \<in> {PNone, PStr key}) ''idempotency_key_mismatch'') (\<lambda>_.
                 Inr \<lparr>gi_plan_id = plan_id, gi_event_id = so_event_id so, gi_sample_id = so_sample_id so,
                      gi_observed_monotonic_ns = so_observed so, gi_host_id = so_host_id so, gi_incident_id = so_incident_id so,
                      gi_resource_kind = resource, gi_target_id = ta_id ta, gi_target_created_at = ta_created_at ta,
                      gi_target_cgroup_path = ta_cgroup_path ta, gi_target_cgroup_inode = ta_cgroup_inode ta,
                      gi_target_labels = ta_labels ta, gi_action = action, gi_reason_codes = reasons,
                      gi_policy_digest = policy, gi_config_digest = config, gi_idempotency_key = key,
                      gi_issued_at = issued_at, gi_expires_at = expires_at, gi_timeout_seconds = timeout_of_plan plan\<rparr>)))))))))
      | _ \<Rightarrow> Inl ''event_mapping_required'')"

end
