(* ===== verification/Guardian_Sql.thy ===== *)
theory Guardian_Sql
  imports Guardian_Prelude
begin

text \<open>
  The SQLite usage shared by the durable stores (\<open>guardian_state.py\<close>,
  \<open>guardian_reserve_state.py\<close>).  An operation opens a connection, runs \<open>BEGIN IMMEDIATE\<close> and a
  sequence of statements, and ends in \<open>commit()\<close>, in an explicit \<open>rollback()\<close> with a return
  value, in a raised store error, or in a \<open>sqlite3.Error\<close> from one of its statements; the last
  two roll back and re-raise.  \<open>BEGIN IMMEDIATE\<close> serializes writers, so an operation is one
  atomic step on the tables.

  The environment of one call says which statement, by its number within the call, raises
  \<open>sqlite3.Error\<close> (\<open>stmt_error\<close>), whether opening the database fails (\<open>open_error\<close>), and gives
  \<open>json.dumps\<close> (as UTF-8 bytes, \<open>None\<close> when it raises), a fresh \<open>uuid4\<close> text and SHA-256.
\<close>

record sql_env =
  open_error :: "string option"
  stmt_error :: "nat \<Rightarrow> string option"
  json_dumps :: "pyval \<Rightarrow> string option"
  uuid4 :: string
  sha256_hex :: "string \<Rightarrow> string"

text \<open>How the body of a transaction ends.\<close>

datatype ('a, 'd) tx =
    Commit 'a 'd
  | Rollback 'a
  | SqlFail string
  | StoreFail string

definition stmt :: "sql_env \<Rightarrow> nat \<Rightarrow> ('a, 'd) tx \<Rightarrow> ('a, 'd) tx" where
  "stmt env i k = (case stmt_error env i of Some e \<Rightarrow> SqlFail e | None \<Rightarrow> k)"

text \<open>
  The \<open>try / except StoreError / except sqlite3.Error / finally close\<close> frame of every operation:
  \<open>open_prefix\<close> and \<open>prefix\<close> are the operation's texts for a failed open and a failed statement.
\<close>

definition transaction ::
    "sql_env \<Rightarrow> string \<Rightarrow> string \<Rightarrow> 'd \<Rightarrow> ('a, 'd) tx \<Rightarrow> (string + 'a) \<times> 'd" where
  "transaction env open_prefix fail_prefix db body =
     (case open_error env of
        Some e \<Rightarrow> (Inl (open_prefix @ e), db)
      | None \<Rightarrow>
          (case body of
             Commit a db' \<Rightarrow> (Inr a, db')
           | Rollback a \<Rightarrow> (Inr a, db)
           | SqlFail e \<Rightarrow> (Inl (fail_prefix @ e), db)
           | StoreFail e \<Rightarrow> (Inl e, db)))"

definition no_faults :: "(pyval \<Rightarrow> string option) \<Rightarrow> string \<Rightarrow> (string \<Rightarrow> string) \<Rightarrow> sql_env" where
  "no_faults dumps uuid sha =
     \<lparr>open_error = None, stmt_error = (\<lambda>_. None), json_dumps = dumps, uuid4 = uuid, sha256_hex = sha\<rparr>"

lemma transaction_error: "transaction env p q db body = (Inl e, db') \<Longrightarrow> db' = db"
  by (auto simp: transaction_def split: option.splits tx.splits)

lemma transaction_isl: "isl (fst (transaction env p q db body)) \<Longrightarrow> snd (transaction env p q db body) = db"
  by (auto simp: transaction_def split: option.splits tx.splits)

lemma transaction_Inr:
  "transaction env p q db body = (Inr a, db') \<longleftrightarrow>
     open_error env = None \<and> (body = Commit a db' \<or> body = Rollback a \<and> db' = db)"
  by (auto simp: transaction_def split: option.splits tx.splits)

text \<open>
  The two ways an operation can end, as a destruction rule: the database is untouched, or it is
  the one the body commits.
\<close>

lemma transaction_result:
  "transaction env p q db body = (res, db') \<Longrightarrow> db' = db \<or> (\<exists>a. res = Inr a \<and> body = Commit a db')"
  by (auto simp: transaction_def split: option.splits tx.splits)

lemma stmt_simps [simp, guardian_simps]:
  "stmt env i k = Commit a d \<longleftrightarrow> stmt_error env i = None \<and> k = Commit a d"
  "stmt env i k = Rollback a \<longleftrightarrow> stmt_error env i = None \<and> k = Rollback a"
  by (auto simp: stmt_def split: option.splits)

lemma no_faults_simps [simp]:
  "stmt (no_faults d u s) i k = k"
  "json_dumps (no_faults d u s) = d" "uuid4 (no_faults d u s) = u" "sha256_hex (no_faults d u s) = s"
  "open_error (no_faults d u s) = None"
  by (simp_all add: stmt_def no_faults_def)

lemma transaction_no_faults [simp]:
  "transaction (no_faults d u s) p q db body =
     (case body of Commit a db' \<Rightarrow> (Inr a, db') | Rollback a \<Rightarrow> (Inr a, db)
      | SqlFail e \<Rightarrow> (Inl (q @ e), db) | StoreFail e \<Rightarrow> (Inl e, db))"
  by (simp add: transaction_def)

end
