(* ===== verification/Guardian_Notifications.thy ===== *)
theory Guardian_Notifications
  imports Guardian_Actions Guardian_Text
begin

text \<open>
  Administrator notifications (\<open>src/guardian_notifications.py\<close>): the redacted event, the limits that
  the dispatcher and the durable outbox share, the sinks, and the in-memory dispatcher.  SHA-256
  (as hexadecimal text) and the text of containers (\<open>rep\<close>) are parameters; the back-off sleeps
  between attempts are left out.
\<close>

section \<open>Helpers\<close>

definition NOTIFICATION_SCHEMA :: string where
  "NOTIFICATION_SCHEMA = ''guardian.notification.v1''"

definition NOTIFIABLE_STATES :: "string list" where
  "NOTIFIABLE_STATES = [''warning'', ''critical'', ''recovered'', ''escalated'']"

fun as_text :: "pyval \<Rightarrow> string option" where
  "as_text (PStr s) = Some s"
| "as_text _ = None"

text \<open>\<open>_string\<close>; for a required field the caller turns \<open>None\<close> into an error.\<close>

definition notify_string :: "pyval \<Rightarrow> string option" where
  "notify_string v =
     (case as_nonempty_str v of None \<Rightarrow> None | Some s \<Rightarrow> if length s \<le> 512 then Some s else None)"

definition hash_ref :: "(string \<Rightarrow> string) \<Rightarrow> string \<Rightarrow> string" where
  "hash_ref sha s = take 16 (sha s)"

definition safe_strings :: "pyval \<Rightarrow> string list" where
  "safe_strings v = (case v of PList xs \<Rightarrow> take 12 (List.map_filter as_nonempty_str xs) | _ \<Rightarrow> [])"

definition bounded_int :: "pyval \<Rightarrow> int \<Rightarrow> int \<Rightarrow> string \<Rightarrow> string + int" where
  "bounded_int v minimum maximum error =
     (case as_int v of None \<Rightarrow> Inl error | Some n \<Rightarrow> if minimum \<le> n \<and> n \<le> maximum then Inr n else Inl error)"

definition duration_to_ns :: "pyval \<Rightarrow> string \<Rightarrow> string + int" where
  "duration_to_ns v error =
     (let numeric = (case v of PInt _ \<Rightarrow> py_float v | PFloat _ \<Rightarrow> py_float v | _ \<Rightarrow> Inl TypeError)
      in case numeric of
           Inr (Fin q) \<Rightarrow>
             (if q \<le> 0 then Inl error
              else (case to_float (q * 1000000000) of
                  Fin ns \<Rightarrow> if trunc ns \<le> 0 then Inl error else Inr (trunc ns)
                | _ \<Rightarrow> Inl error))
         | _ \<Rightarrow> Inl error)"

section \<open>The redacted event\<close>

definition resource_states :: "(pyval \<Rightarrow> string) \<Rightarrow> pydict \<Rightarrow> (string \<times> string) list" where
  "resource_states rep e =
     sort_key fst
       (fold (\<lambda>(kind, raw) acc. case raw of
            PDict r \<Rightarrow>
              dset acc kind (py_str rep (py_or (py_or (dget (mapping_of (dget r ''risk'')) ''state'') (dget r ''state'')) (PStr ''unknown'')))
          | _ \<Rightarrow> acc)
         (mapping_of (dget e ''resource_evaluations'')) [])"

definition or_str :: "string option \<Rightarrow> string option \<Rightarrow> string option" where
  "or_str a b = (if a = None then b else a)"

text \<open>The monotonic stamp: of the event, or of its signals.\<close>

definition event_stamp :: "pydict \<Rightarrow> int option" where
  "event_stamp e =
     (case positive_int (dget e ''observed_monotonic_ns'') of
        Some n \<Rightarrow> Some n
      | None \<Rightarrow> positive_int (dget (mapping_of (dget e ''signals'')) ''observed_monotonic_ns''))"

definition event_target :: "pydict \<Rightarrow> string option" where
  "event_target e =
     (let decision = mapping_of (dget e ''decision''); joint = mapping_of (dget e ''joint_evaluation'');
          attributed = mapping_of (dget (mapping_of (dget e ''target_attribution'')) ''target'');
          target = (if attributed = [] then mapping_of (dget joint ''target'') else attributed)
      in or_str (notify_string (dget target ''id''))
           (or_str (notify_string (dget decision ''target_id'')) (notify_string (dget joint ''target_id''))))"

definition active_resources :: "(pyval \<Rightarrow> string) \<Rightarrow> pydict \<Rightarrow> string list" where
  "active_resources rep e =
     (case py_or (dget (mapping_of (dget e ''joint_evaluation'')) ''active_resources'')
                 (dget (mapping_of (dget e ''decision'')) ''active_resources'') of
        PList xs \<Rightarrow> sorted_set (List.map_filter as_text xs)
      | _ \<Rightarrow> sorted_set (map fst (filter (\<lambda>(_, st). st \<in> {''warning'', ''critical'', ''critical_confirmed''}) (resource_states rep e))))"

text \<open>The handle of the incident and the key under which its notifications are deduplicated.\<close>

definition stable_incident :: "string option \<Rightarrow> string option \<Rightarrow> string list \<Rightarrow> string" where
  "stable_incident incident_key target_id active =
     (case incident_key of
        Some (c # cs) \<Rightarrow> c # cs
      | _ \<Rightarrow> (case target_id of
               Some t \<Rightarrow> t
             | None \<Rightarrow> if join '':'' active = [] then ''host'' else join '':'' active))"

definition event_dedup_key :: "(string \<Rightarrow> string) \<Rightarrow> string \<Rightarrow> string \<Rightarrow> (string \<times> string) list \<Rightarrow> string" where
  "event_dedup_key sha host incident states =
     (let scope = join '','' (map fst states)
      in ''notification:'' @ sha (join ''|'' [NOTIFICATION_SCHEMA, hash_ref sha host, hash_ref sha incident,
           if scope = [] then ''host'' else scope]))"

definition or_text :: "string option \<Rightarrow> string \<Rightarrow> pyval" where
  "or_text v s = PStr (case v of None \<Rightarrow> s | Some t \<Rightarrow> t)"

text \<open>The payload from the parts of the event it depends on.\<close>

definition notification_payload ::
  "(string \<Rightarrow> string) \<Rightarrow> (pyval \<Rightarrow> string) \<Rightarrow> pydict \<Rightarrow> string option \<Rightarrow> string \<Rightarrow> string \<Rightarrow> string \<Rightarrow> int \<Rightarrow> pydict" where
  "notification_payload sha rep e incident_key state event_id observed_at observed =
     (let host = (case notify_string (dget e ''host_id'') of None \<Rightarrow> ''unknown-host'' | Some h \<Rightarrow> h);
          decision = mapping_of (dget e ''decision''); joint = mapping_of (dget e ''joint_evaluation'');
          target_id = event_target e; states = resource_states rep e; active = active_resources rep e;
          key = event_dedup_key sha host (stable_incident incident_key target_id active) states
      in [(''schema'', PStr NOTIFICATION_SCHEMA),
          (''notification_id'', PStr (sha (join ''|'' [key, state, int_str observed]))),
          (''dedup_key'', PStr key),
          (''severity'', PStr state),
          (''observed_at'', PStr observed_at),
          (''observed_monotonic_ns'', PInt observed),
          (''host_ref'', PStr (hash_ref sha host)),
          (''resources'', PDict (map (map_prod id PStr) states)),
          (''active_resources'', PList (map PStr active)),
          (''target'', PDict
             [(''state'', or_text (or_str (notify_string (dget decision ''target_state'')) (notify_string (dget joint ''target_state''))) ''NO_TARGET''),
              (''ref'', opt_val (\<lambda>t. PStr (hash_ref sha t)) target_id),
              (''present'', PBool (target_id \<noteq> None))]),
          (''reason_codes'', PList (map PStr (sorted_set (safe_strings (dget decision ''reason_codes''))))),
          (''quality_flags'', PList (map PStr (sorted_set (safe_strings (dget decision ''quality_flags''))))),
          (''action_context'', PDict
             [(''mode'', or_text (notify_string (dget decision ''mode'')) ''observe''),
              (''planned_action'', or_text (notify_string (dget decision ''action'')) ''none''),
              (''execution'', PStr ''not_executed''), (''authorization'', PStr ''unchanged'')]),
          (''source'', PDict
             [(''event_id'', PStr event_id),
              (''config_digest'', opt_val PStr (notify_string (dget (mapping_of (dget e ''evidence'')) ''config_digest'')))]),
          (''security'', PDict
             [(''credentials_included'', PBool False), (''raw_signals_included'', PBool False),
              (''action_authorization_changed'', PBool False)])])"

definition build_notification_event ::
  "(string \<Rightarrow> string) \<Rightarrow> (pyval \<Rightarrow> string) \<Rightarrow> pyval \<Rightarrow> string option \<Rightarrow> string + pydict" where
  "build_notification_event sha rep source_event incident_key =
     (case source_event of
        PDict e \<Rightarrow>
          (case notify_string (dget e ''state'') of
             None \<Rightarrow> Inl ''state_required''
           | Some state \<Rightarrow>
               if state \<notin> set NOTIFIABLE_STATES then Inl ''state_not_notifiable''
               else (case notify_string (dget e ''event_id'') of
                   None \<Rightarrow> Inl ''event_id_required''
                 | Some event_id \<Rightarrow>
                     (case notify_string (dget e ''observed_at'') of
                        None \<Rightarrow> Inl ''observed_at_required''
                      | Some observed_at \<Rightarrow>
                          (case event_stamp e of
                             None \<Rightarrow> Inl ''observed_monotonic_ns_required''
                           | Some observed \<Rightarrow>
                               Inr (notification_payload sha rep e incident_key state event_id observed_at observed)))))
      | _ \<Rightarrow> Inl ''source_event_mapping_required'')"

section \<open>Sinks and limits\<close>

text \<open>A sink takes the payload, is unavailable, or raises something else.\<close>

datatype send_outcome = Sent | SinkUnavailable | SinkRaised

text \<open>\<open>FakeNotificationSink\<close>: the failures left and what it took; \<open>DisabledNotificationSink\<close>.\<close>

definition fake_send :: "pydict \<Rightarrow> nat \<times> pydict list \<Rightarrow> send_outcome \<times> nat \<times> pydict list" where
  "fake_send payload = (\<lambda>(failures, delivered).
     if failures \<noteq> 0 then (SinkUnavailable, failures - 1, delivered) else (Sent, failures, delivered @ [payload]))"

definition disabled_send :: "pydict \<Rightarrow> 's \<Rightarrow> send_outcome \<times> 's" where
  "disabled_send payload s = (SinkUnavailable, s)"

text \<open>The attempts of one delivery: the number of the successful one, or the number made and the last error.\<close>

fun send_loop ::
  "(pydict \<Rightarrow> 's \<Rightarrow> send_outcome \<times> 's) \<Rightarrow> pydict \<Rightarrow> nat \<Rightarrow> int \<Rightarrow> string \<Rightarrow> 's \<Rightarrow> (int + int \<times> string) \<times> 's" where
  "send_loop send payload 0 attempts error s = (Inr (attempts, error), s)"
| "send_loop send payload (Suc n) attempts error s =
     (case send payload s of
        (Sent, s') \<Rightarrow> (Inl (attempts + 1), s')
      | (SinkUnavailable, s') \<Rightarrow> send_loop send payload n (attempts + 1) ''sink_unavailable'' s'
      | (SinkRaised, s') \<Rightarrow> send_loop send payload n (attempts + 1) ''sink_error'' s')"

record notify_policy =
  op_max_attempts :: nat
  op_max_age_ns :: int
  op_rate_limit_count :: int
  op_rate_limit_window_ns :: int

text \<open>The argument checks of the dispatcher's constructor, in its order.\<close>

definition make_notify_policy :: "pyval \<Rightarrow> pyval \<Rightarrow> pyval \<Rightarrow> pyval \<Rightarrow> string + notify_policy" where
  "make_notify_policy max_attempts max_age_seconds rate_limit_count rate_limit_window_seconds =
     (case bounded_int max_attempts 1 5 ''max_attempts_out_of_bounds'' of Inl e \<Rightarrow> Inl e | Inr attempts \<Rightarrow>
      (case duration_to_ns max_age_seconds ''notification_window_must_be_positive'' of Inl e \<Rightarrow> Inl e | Inr age \<Rightarrow>
       (case bounded_int rate_limit_count 1 100 ''rate_limit_count_out_of_bounds'' of Inl e \<Rightarrow> Inl e | Inr count \<Rightarrow>
        (case duration_to_ns rate_limit_window_seconds ''notification_window_must_be_positive'' of Inl e \<Rightarrow> Inl e | Inr window \<Rightarrow>
           Inr \<lparr>op_max_attempts = nat attempts, op_max_age_ns = age, op_rate_limit_count = count, op_rate_limit_window_ns = window\<rparr>))))"

lemma bounded_int_Inr: "bounded_int v lo hi e = Inr n \<longleftrightarrow> v = PInt n \<and> lo \<le> n \<and> n \<le> hi"
  by (cases v) (auto simp: bounded_int_def)

lemma duration_positive: "duration_to_ns v e = Inr n \<Longrightarrow> 0 < n"
  by (auto simp: duration_to_ns_def Let_def split: sum.splits pyfloat.splits if_splits)

lemma notify_policy_bounds:
  assumes "make_notify_policy attempts age count window = Inr p"
  shows "1 \<le> op_max_attempts p \<and> op_max_attempts p \<le> 5 \<and> 0 < op_max_age_ns p \<and>
         1 \<le> op_rate_limit_count p \<and> op_rate_limit_count p \<le> 100 \<and> 0 < op_rate_limit_window_ns p"
  using assms unfolding make_notify_policy_def
  by (auto simp: bounded_int_Inr dest: duration_positive split: sum.splits)

section \<open>The dispatcher\<close>

record notify_audit =
  na_id :: pyval
  na_key :: pyval
  na_event :: pyval
  na_severity :: pyval
  na_status :: string
  na_attempts :: int
  na_reason :: "string option"

record dispatcher =
  nd_audits :: "notify_audit list"
  nd_dead_letters :: "(pydict \<times> string \<times> int) list"
  nd_seen :: "string list"
  nd_last :: "string \<Rightarrow> int option"
  nd_delivered :: "string \<Rightarrow> string list"
  nd_attempts :: "int list"

definition fresh_dispatcher :: dispatcher where
  "fresh_dispatcher = \<lparr>nd_audits = [], nd_dead_letters = [], nd_seen = [], nd_last = (\<lambda>_. None), nd_delivered = (\<lambda>_. []), nd_attempts = []\<rparr>"

text \<open>\<open>_audit\<close> and \<open>_result\<close>: the audit entry is the result, with the two constant fields left out.\<close>

definition notify_result :: "pydict \<Rightarrow> string \<Rightarrow> int \<Rightarrow> string option \<Rightarrow> dispatcher \<Rightarrow> notify_audit \<times> dispatcher" where
  "notify_result payload status attempts reason d =
     (let a = \<lparr>na_id = dget payload ''notification_id'', na_key = dget payload ''dedup_key'',
               na_event = dget (mapping_of (dget payload ''source'')) ''event_id'', na_severity = dget payload ''severity'',
               na_status = status, na_attempts = attempts, na_reason = reason\<rparr>
      in (a, d\<lparr>nd_audits := nd_audits d @ [a]\<rparr>))"

definition notify_allow_attempt :: "'a notify_policy_scheme \<Rightarrow> int \<Rightarrow> dispatcher \<Rightarrow> bool \<times> dispatcher" where
  "notify_allow_attempt policy now d =
     (let recent = filter (\<lambda>t. now - op_rate_limit_window_ns policy < t) (nd_attempts d)
      in if op_rate_limit_count policy \<le> int (length recent) then (False, d\<lparr>nd_attempts := recent\<rparr>)
         else (True, d\<lparr>nd_attempts := recent @ [now]\<rparr>))"

definition dead_letter :: "pydict \<Rightarrow> string \<Rightarrow> int \<Rightarrow> dispatcher \<Rightarrow> dispatcher" where
  "dead_letter payload reason attempts d = d\<lparr>nd_dead_letters := nd_dead_letters d @ [(payload, reason, attempts)]\<rparr>"

text \<open>The severities delivered for a key, after one more: a recovery starts the set again.\<close>

definition delivered_after :: "string \<Rightarrow> string list \<Rightarrow> string list" where
  "delivered_after severity delivered =
     sorted_set (severity # (if severity = ''recovered'' then [] else delivered))"

definition notify_deliver ::
  "(pyval \<Rightarrow> string) \<Rightarrow> 'a notify_policy_scheme \<Rightarrow> (pydict \<Rightarrow> 's \<Rightarrow> send_outcome \<times> 's) \<Rightarrow> pydict \<Rightarrow> int \<Rightarrow> bool \<Rightarrow>
   dispatcher \<Rightarrow> 's \<Rightarrow> (notify_audit \<times> dispatcher) \<times> 's" where
  "notify_deliver rep policy send payload now redrive d s =
     (case notify_allow_attempt policy now d of
        (False, d1) \<Rightarrow> (notify_result payload ''rate_limited'' 0 (Some ''rate_limited'') (dead_letter payload ''rate_limited'' 0 d1), s)
      | (True, d1) \<Rightarrow>
          (case send_loop send payload (op_max_attempts policy) 0 ''sink_error'' s of
             (Inl attempt, s') \<Rightarrow>
               (let key = py_str rep (dget payload ''dedup_key''); severity = py_str rep (dget payload ''severity'');
                    d2 = d1\<lparr>nd_delivered := (nd_delivered d1)(key := delivered_after severity (nd_delivered d1 key))\<rparr>
                in (notify_result payload ''delivered'' attempt (if redrive then Some ''redrive'' else None) d2, s'))
           | (Inr (attempts, error), s') \<Rightarrow>
               (notify_result payload ''dead_letter'' attempts (Some error) (dead_letter payload error attempts d1), s')))"

definition dispatch ::
  "(pyval \<Rightarrow> string) \<Rightarrow> 'a notify_policy_scheme \<Rightarrow> (pydict \<Rightarrow> 's \<Rightarrow> send_outcome \<times> 's) \<Rightarrow> pyval \<Rightarrow> int option \<Rightarrow> dispatcher \<Rightarrow> 's \<Rightarrow>
   ((py_exn + notify_audit) \<times> dispatcher) \<times> 's" where
  "dispatch rep policy send p now_ns d s =
     (let payload = mapping_of p; done = (\<lambda>(a, d'). (Inr a, d'));
          reject = (\<lambda>reason d'. (done (notify_result payload ''rejected'' 0 (Some reason) d'), s));
          suppress = (\<lambda>reason d'. (done (notify_result payload ''duplicate_suppressed'' 0 (Some reason) d'), s))
      in if dget payload ''schema'' \<noteq> PStr NOTIFICATION_SCHEMA then reject ''schema_invalid'' d
         else if \<not> list_all (has_key payload) [''notification_id'', ''dedup_key'', ''severity'', ''observed_monotonic_ns'', ''source'']
           then reject ''payload_invalid'' d
         else if \<not> hashable (dget payload ''severity'') then ((Inl TypeError, d), s)
         else if \<not> str_in (dget payload ''severity'') NOTIFIABLE_STATES then reject ''payload_invalid'' d
         else (case positive_int (dget payload ''observed_monotonic_ns'') of
             None \<Rightarrow> reject ''timestamp_invalid'' d
           | Some observed \<Rightarrow>
               (let now = (case now_ns of None \<Rightarrow> observed | Some n \<Rightarrow> n)
                in if now < observed then reject ''clock_invalid'' d
                   else if op_max_age_ns policy < now - observed then reject ''expired'' d
                   else
                     (let event_id = py_str rep (dget (mapping_of (dget payload ''source'')) ''event_id'');
                          key = py_str rep (dget payload ''dedup_key''); severity = py_str rep (dget payload ''severity'');
                          previous = nd_last d key
                      in if event_id \<in> set (nd_seen d) then suppress ''event_id_seen'' d
                         else
                           (let d1 = d\<lparr>nd_seen := event_id # nd_seen d\<rparr>
                            in if opt_holds (\<lambda>l. observed < l) previous then reject ''out_of_order'' d1
                               else
                                 (let d2 = d1\<lparr>nd_last := (nd_last d1)(key \<mapsto>
                                        max (case previous of Some l \<Rightarrow> if l = 0 then observed else l | None \<Rightarrow> observed) observed)\<rparr>
                                  in if severity \<in> set (nd_delivered d2 key) then suppress ''severity_already_delivered'' d2
                                     else (case notify_deliver rep policy send payload now False d2 s of
                                         (r, s') \<Rightarrow> (done r, s'))))))))"

fun redrive_letters ::
  "(pyval \<Rightarrow> string) \<Rightarrow> 'a notify_policy_scheme \<Rightarrow> (pydict \<Rightarrow> 's \<Rightarrow> send_outcome \<times> 's) \<Rightarrow> int \<Rightarrow> (pydict \<times> string \<times> int) list \<Rightarrow>
   dispatcher \<Rightarrow> 's \<Rightarrow> (notify_audit list \<times> dispatcher) \<times> 's" where
  "redrive_letters rep policy send now [] d s = (([], d), s)"
| "redrive_letters rep policy send now ((payload, _) # letters) d s =
     (if payload = [] then redrive_letters rep policy send now letters d s
      else (case notify_deliver rep policy send payload now True d s of
          ((a, d1), s1) \<Rightarrow>
            (case redrive_letters rep policy send now letters d1 s1 of
               ((audits, d2), s2) \<Rightarrow> ((a # audits, d2), s2))))"

definition notify_redrive ::
  "(pyval \<Rightarrow> string) \<Rightarrow> 'a notify_policy_scheme \<Rightarrow> (pydict \<Rightarrow> 's \<Rightarrow> send_outcome \<times> 's) \<Rightarrow> int \<Rightarrow> dispatcher \<Rightarrow> 's \<Rightarrow>
   (notify_audit list \<times> dispatcher) \<times> 's" where
  "notify_redrive rep policy send now d s =
     redrive_letters rep policy send now (nd_dead_letters d) (d\<lparr>nd_dead_letters := []\<rparr>) s"

section \<open>What leaves the host\<close>

lemma notify_string_Some: "notify_string v = Some s \<longleftrightarrow> v = PStr s \<and> s \<noteq> [] \<and> length s \<le> 512"
  by (cases v) (auto simp: notify_string_def)

lemma event_stamp_positive: "event_stamp e = Some n \<Longrightarrow> 0 < n"
  by (auto simp: event_stamp_def split: option.splits)

lemma build_event_parts:
  assumes "build_notification_event sha rep source incident_key = Inr p"
  obtains e state event_id observed_at observed where "source = PDict e" "state \<in> set NOTIFIABLE_STATES" "event_id \<noteq> []"
    "event_stamp e = Some observed" "p = notification_payload sha rep e incident_key state event_id observed_at observed"
  using assms
  by (auto simp: build_notification_event_def notify_string_Some split: pyval.splits option.splits if_splits)

text \<open>
  The host identity and the caller's incident key leave the host only as digests: two events
  that differ in these alone give the same notification whenever the digests agree.
\<close>

theorem notification_redacted:
  assumes "hash_ref sha host1 = hash_ref sha host2" "hash_ref sha key1 = hash_ref sha key2"
    and "notify_string (PStr host1) \<noteq> None" "notify_string (PStr host2) \<noteq> None" "key1 \<noteq> []" "key2 \<noteq> []"
  shows "build_notification_event sha rep (PDict ((''host_id'', PStr host1) # e)) (Some key1) =
         build_notification_event sha rep (PDict ((''host_id'', PStr host2) # e)) (Some key2)"
proof -
  have keys: "stable_incident (Some key1) t a = key1" "stable_incident (Some key2) t a = key2" for t a
    using assms(5,6) by (simp_all add: stable_incident_def split: list.split)
  have hosts: "notify_string (PStr host1) = Some host1" "notify_string (PStr host2) = Some host2"
    using assms(3,4) by (auto simp: notify_string_Some)
  have states: "resource_states rep ((''host_id'', v) # e) = resource_states rep e" for v
    by (simp add: resource_states_def)
  have parts: "event_stamp ((''host_id'', v) # e) = event_stamp e" "event_target ((''host_id'', v) # e) = event_target e"
    "active_resources rep ((''host_id'', v) # e) = active_resources rep e" for v
    by (simp_all add: event_stamp_def event_target_def active_resources_def states split: option.split pyval.split)
  show ?thesis
    by (simp add: build_notification_event_def notification_payload_def event_dedup_key_def Let_def keys hosts states parts assms(1,2)
        split: option.split)
qed

definition sample_event :: pydict where
  "sample_event = [(''state'', PStr ''warning''), (''event_id'', PStr ''e1''), (''observed_at'', PStr ''t''), (''observed_monotonic_ns'', PInt 5)]"

theorem notification_redacted_witness:
  "build_notification_event (\<lambda>t. take 3 t) (\<lambda>_. []) (PDict ((''host_id'', PStr ''srv-a'') # sample_event)) (Some ''key-1'') =
   build_notification_event (\<lambda>t. take 3 t) (\<lambda>_. []) (PDict ((''host_id'', PStr ''srv-b'') # sample_event)) (Some ''key-2'')"
  by (rule notification_redacted) (simp_all add: hash_ref_def notify_string_def)

section \<open>The dispatcher delivers an event once\<close>

definition payload_event :: "(pyval \<Rightarrow> string) \<Rightarrow> pydict \<Rightarrow> string" where
  "payload_event rep payload = py_str rep (dget (mapping_of (dget payload ''source'')) ''event_id'')"

text \<open>A sink that counts its calls, answers arbitrarily, and lists what it took under a label.\<close>

definition labelling_sink ::
  "(pydict \<Rightarrow> 'l) \<Rightarrow> (nat \<Rightarrow> send_outcome) \<Rightarrow> pydict \<Rightarrow> nat \<times> 'l list \<Rightarrow> send_outcome \<times> nat \<times> 'l list" where
  "labelling_sink label outcome payload =
     (\<lambda>(n, taken). (outcome n, (n + 1, if outcome n = Sent then taken @ [label payload] else taken)))"

lemma send_loop_log:
  "send_loop (labelling_sink label outcome) payload n attempts error (c, taken) = (r, c', taken') \<Longrightarrow>
   taken' = (if isl r then taken @ [label payload] else taken)"
proof (induction n arbitrary: attempts error c)
  case (Suc n)
  then show ?case
    by (cases "outcome c") (auto simp: labelling_sink_def)
qed auto

lemma notify_deliver_log:
  assumes "notify_deliver rep policy (labelling_sink label outcome) payload now redrive d (c, taken) = ((a, d'), c', taken')"
  shows "taken' \<in> {taken, taken @ [label payload]}" "nd_seen d' = nd_seen d"
  using assms
  by (auto simp: notify_deliver_def notify_allow_attempt_def notify_result_def dead_letter_def Let_def
      dest!: send_loop_log split: prod.splits sum.splits if_splits)

definition dispatch_inv :: "dispatcher \<times> nat \<times> string list \<Rightarrow> bool" where
  "dispatch_inv d \<longleftrightarrow> distinct (snd (snd d)) \<and> set (snd (snd d)) \<subseteq> set (nd_seen (fst d))"

definition dispatch_step ::
  "(pyval \<Rightarrow> string) \<Rightarrow> 'a notify_policy_scheme \<Rightarrow> (nat \<Rightarrow> send_outcome) \<Rightarrow> dispatcher \<times> nat \<times> string list \<Rightarrow> pyval \<times> int option \<Rightarrow>
   dispatcher \<times> nat \<times> string list" where
  "dispatch_step rep policy outcome d x =
     (case dispatch rep policy (labelling_sink (payload_event rep) outcome) (fst x) (snd x) (fst d) (snd d) of
        ((_, d'), s') \<Rightarrow> (d', s'))"

lemma dispatch_log:
  assumes "dispatch rep policy (labelling_sink (payload_event rep) outcome) p now_ns d (c, taken) = ((r, d'), c', taken')"
  shows "set (nd_seen d) \<subseteq> set (nd_seen d')"
    and "taken' = taken \<or> taken' = taken @ [payload_event rep (mapping_of p)] \<and>
         payload_event rep (mapping_of p) \<in> set (nd_seen d') - set (nd_seen d)"
  using assms
  by (auto simp: dispatch_def Let_def notify_result_def payload_event_def [symmetric] dest: notify_deliver_log
      split: if_splits option.splits prod.splits)

interpretation dispatching: invariant_system "dispatch_step rep policy outcome" dispatch_inv
  for rep policy outcome
proof
  fix d x
  assume inv: "dispatch_inv d"
  obtain d0 c taken where d: "d = (d0, c, taken)"
    by (cases d)
  obtain r d' c' taken' where
    x: "dispatch rep policy (labelling_sink (payload_event rep) outcome) (fst x) (snd x) d0 (c, taken) = ((r, d'), c', taken')"
    by (metis prod.exhaust)
  from inv dispatch_log [OF x] show "dispatch_inv (dispatch_step rep policy outcome d x)"
    by (auto simp: dispatch_inv_def dispatch_step_def d x)
qed

text \<open>
  Over any sequence of \<open>dispatch\<close> calls, whatever the sink answers, the payload of an event is taken at
  most once: only an explicit redrive sends an event again.
\<close>

theorem dispatch_event_once:
  "distinct (snd (snd (exec_all (dispatch_step rep policy outcome) (fresh_dispatcher, 0, []) xs)))"
  using dispatching.run_inv [of "(fresh_dispatcher, 0, [])" rep policy outcome xs]
  by (simp add: dispatch_inv_def fresh_dispatcher_def)

end
