(* ===== verification/Guardian_Outbox.thy ===== *)
theory Guardian_Outbox
  imports Guardian_Sql Guardian_Notifications "HOL-Library.Product_Lexorder"
begin

text \<open>
  The durable notification outbox (\<open>src/guardian_notification_outbox.py\<close>).  The database is the record
  of its four tables; a payload column holds the decoded payload.  Statements of a method are
  numbered and may fail as in the other stores.  The codec gives the canonical JSON text of a
  value (\<open>None\<close>: not serialisable) and SHA-256; it is the same for every call.  The sink acts on a
  state of any type.  A process that dies between two transactions is a call whose next transaction
  fails to open: the rows it left in flight stay so.  Left out: the back-off sleeps between attempts
  and a dedup column that is not valid JSON; \<open>LIMIT 1\<close> without an order takes the oldest row, and
  integers are within the 64 bits of an SQLite column.
\<close>

section \<open>Tables\<close>

datatype outbox_status = PENDING | IN_FLIGHT | DELIVERED | DEAD_LETTER

record outbox_row =
  ob_id :: string
  ob_key :: string
  ob_event :: string
  ob_severity :: string
  ob_observed :: int
  ob_payload :: pydict
  ob_status :: outbox_status
  ob_attempts :: int
  ob_last_error :: "string option"
  ob_created_at :: rat
  ob_updated_at :: rat

record dedup_row =
  dd_last_observed :: int
  dd_delivered :: "string list"

record delivery_audit =
  da_id :: "string option"
  da_key :: "string option"
  da_event :: "string option"
  da_severity :: "string option"
  da_status :: string
  da_attempts :: int
  da_reason :: "string option"
  da_payload_digest :: "string option"
  da_authorization :: string
  da_recorded_at :: rat
  da_previous :: "string option"
  da_digest :: string

record outbox_db =
  ot_rows :: "outbox_row list"
  ot_dedup :: "string \<Rightarrow> dedup_row option"
  ot_attempts :: "int list"
  ot_audits :: "delivery_audit list"

definition empty_outbox :: outbox_db where
  "empty_outbox = \<lparr>ot_rows = [], ot_dedup = (\<lambda>_. None), ot_attempts = [], ot_audits = []\<rparr>"

record outbox_policy = notify_policy +
  op_max_pending :: int
  op_max_payload_bytes :: int

text \<open>The argument checks of the constructor, in its order.\<close>

definition make_outbox_policy :: "pyval \<Rightarrow> pyval \<Rightarrow> pyval \<Rightarrow> pyval \<Rightarrow> pyval \<Rightarrow> pyval \<Rightarrow> string + outbox_policy" where
  "make_outbox_policy max_attempts max_age rate_count rate_window max_pending max_payload_bytes =
     (case make_notify_policy max_attempts max_age rate_count rate_window of Inl e \<Rightarrow> Inl e | Inr base \<Rightarrow>
      (case bounded_int max_pending 1 100000 ''max_pending_out_of_bounds'' of Inl e \<Rightarrow> Inl e | Inr pending \<Rightarrow>
       (case bounded_int max_payload_bytes 1024 (16 * 1024 * 1024) ''max_payload_bytes_out_of_bounds'' of Inl e \<Rightarrow> Inl e | Inr bytes \<Rightarrow>
          Inr (notify_policy.extend base (outbox_policy.fields pending bytes)))))"

record codec =
  co_canonical :: "pyval \<Rightarrow> string option"
  co_sha256 :: "string \<Rightarrow> string"

definition outbox_digest :: "codec \<Rightarrow> pyval \<Rightarrow> string option" where
  "outbox_digest co v = map_option (co_sha256 co) (co_canonical co v)"

section \<open>The audit chain\<close>

definition audit_body :: "delivery_audit \<Rightarrow> pyval" where
  "audit_body a =
     PDict [(''notification_id'', opt_val PStr (da_id a)), (''dedup_key'', opt_val PStr (da_key a)),
            (''event_id'', opt_val PStr (da_event a)), (''severity'', opt_val PStr (da_severity a)),
            (''status'', PStr (da_status a)), (''attempts'', PInt (da_attempts a)), (''reason'', opt_val PStr (da_reason a)),
            (''payload_digest'', opt_val PStr (da_payload_digest a)), (''action_authorization'', PStr (da_authorization a)),
            (''recorded_at'', PFloat (Fin (da_recorded_at a))), (''previous_digest'', opt_val PStr (da_previous a))]"

definition last_digest :: "delivery_audit list \<Rightarrow> string option" where
  "last_digest audits = (if audits = [] then None else Some (da_digest (last audits)))"

definition new_audit ::
  "codec \<Rightarrow> delivery_audit list \<Rightarrow> pydict \<Rightarrow> string \<Rightarrow> int \<Rightarrow> string option \<Rightarrow> rat \<Rightarrow> delivery_audit" where
  "new_audit co audits payload status attempts reason now =
     \<lparr>da_id = as_text (dget payload ''notification_id''), da_key = as_text (dget payload ''dedup_key''),
      da_event = as_text (dget (mapping_of (dget payload ''source'')) ''event_id''),
      da_severity = as_text (dget payload ''severity''), da_status = status, da_attempts = attempts, da_reason = reason,
      da_payload_digest = (if payload = [] then None else outbox_digest co (PDict payload)),
      da_authorization = ''unchanged'', da_recorded_at = now, da_previous = last_digest audits, da_digest = []\<rparr>"

text \<open>\<open>_append_audit\<close>: two statements, the read of the last digest and the insert.\<close>

definition append_audit ::
  "sql_env \<Rightarrow> nat \<Rightarrow> codec \<Rightarrow> outbox_db \<Rightarrow> pydict \<Rightarrow> string \<Rightarrow> int \<Rightarrow> string option \<Rightarrow> rat \<Rightarrow>
   (outbox_db \<Rightarrow> ('a, outbox_db) tx) \<Rightarrow> ('a, outbox_db) tx" where
  "append_audit env i co db payload status attempts reason now k =
     stmt env i
       (let body = new_audit co (ot_audits db) payload status attempts reason now
        in case outbox_digest co (audit_body body) of
             None \<Rightarrow> StoreFail ''payload_not_serializable''
           | Some d \<Rightarrow>
               (case stmt_error env (i + 1) of
                  Some e \<Rightarrow> StoreFail (''audit_write_failed:'' @ e)
                | None \<Rightarrow> k (db\<lparr>ot_audits := ot_audits db @ [body\<lparr>da_digest := d\<rparr>]\<rparr>)))"

section \<open>Results\<close>

record outbox_result =
  or_status :: string
  or_outbox_status :: "outbox_status option"
  or_id :: pyval
  or_key :: pyval
  or_attempts :: int
  or_reason :: "string option"

definition outbox_result :: "pydict \<Rightarrow> string \<Rightarrow> int \<Rightarrow> string option \<Rightarrow> outbox_status option \<Rightarrow> outbox_result" where
  "outbox_result payload status attempts reason outbox_status =
     \<lparr>or_status = status, or_outbox_status = outbox_status, or_id = dget payload ''notification_id'',
      or_key = dget payload ''dedup_key'', or_attempts = attempts, or_reason = reason\<rparr>"

datatype outbox_exn = OutboxError string | NotificationError string | OutboxPy py_exn

section \<open>Validation\<close>

text \<open>\<open>_validate_payload\<close>: a reason to reject, or none; an unhashable severity raises.\<close>

definition validate_payload :: "codec \<Rightarrow> outbox_policy \<Rightarrow> pydict \<Rightarrow> int \<Rightarrow> py_exn + string option" where
  "validate_payload co policy payload now =
     (let source = mapping_of (dget payload ''source''); context = mapping_of (dget payload ''action_context'');
          security = mapping_of (dget payload ''security'')
      in if dget payload ''schema'' \<noteq> PStr NOTIFICATION_SCHEMA then Inr (Some ''schema_invalid'')
         else if as_nonempty_str (dget payload ''notification_id'') = None \<or> as_nonempty_str (dget payload ''dedup_key'') = None
           then Inr (Some ''payload_invalid'')
         else if \<not> hashable (dget payload ''severity'') then Inl TypeError
         else if \<not> str_in (dget payload ''severity'') NOTIFIABLE_STATES then Inr (Some ''payload_invalid'')
         else (case as_int (dget payload ''observed_monotonic_ns'') of
             None \<Rightarrow> Inr (Some ''timestamp_invalid'')
           | Some observed \<Rightarrow>
               if observed \<le> 0 then Inr (Some ''timestamp_invalid'')
               else if now < observed then Inr (Some ''clock_invalid'')
               else if op_max_age_ns policy < now - observed then Inr (Some ''expired'')
               else if as_nonempty_str (dget source ''event_id'') = None then Inr (Some ''payload_invalid'')
               else if dget context ''execution'' \<noteq> PStr ''not_executed'' \<or> dget context ''authorization'' \<noteq> PStr ''unchanged''
                 then Inr (Some ''action_boundary_invalid'')
               else if dget security ''credentials_included'' \<noteq> PBool False \<or>
                       dget security ''raw_signals_included'' \<noteq> PBool False \<or>
                       dget security ''action_authorization_changed'' \<noteq> PBool False
                 then Inr (Some ''security_boundary_invalid'')
               else (case co_canonical co (PDict payload) of
                   None \<Rightarrow> Inr (Some ''payload_not_serializable'')
                 | Some encoded \<Rightarrow>
                     Inr (if op_max_payload_bytes policy < int (length encoded) then Some ''payload_too_large'' else None))))"

definition record_rejection ::
  "sql_env \<Rightarrow> codec \<Rightarrow> pydict \<Rightarrow> string \<Rightarrow> rat \<Rightarrow> outbox_db \<Rightarrow> (string + outbox_result) \<times> outbox_db" where
  "record_rejection env co payload reason now db =
     transaction env ''outbox_open_failed:'' ''rejection_audit_failed:'' db
       (stmt env 0
         (append_audit env 1 co db payload ''REJECTED'' 0 (Some reason) now
            (\<lambda>db'. stmt env 3 (Commit (outbox_result payload ''rejected'' 0 (Some reason) None) db'))))"

section \<open>Enqueue\<close>

definition outbox_active :: "outbox_row \<Rightarrow> bool" where
  "outbox_active r \<longleftrightarrow> ob_status r \<in> {PENDING, IN_FLIGHT}"

text \<open>An early return of \<open>enqueue\<close>: audit, commit, result.\<close>

definition finish_enqueue ::
  "sql_env \<Rightarrow> nat \<Rightarrow> codec \<Rightarrow> outbox_db \<Rightarrow> pydict \<Rightarrow> string \<Rightarrow> string \<Rightarrow> int \<Rightarrow> string option \<Rightarrow> outbox_status option \<Rightarrow> rat \<Rightarrow>
   (outbox_result, outbox_db) tx" where
  "finish_enqueue env i co db payload status audit_status attempts reason outbox_status now =
     append_audit env i co db payload audit_status attempts reason now
       (\<lambda>db'. stmt env (i + 2) (Commit (outbox_result payload status 0 reason outbox_status) db'))"

definition enqueue_tx ::
  "sql_env \<Rightarrow> codec \<Rightarrow> outbox_policy \<Rightarrow> pydict \<Rightarrow> rat \<Rightarrow> outbox_db \<Rightarrow> (outbox_result, outbox_db) tx" where
  "enqueue_tx env co policy payload now db =
     (let text = (\<lambda>k. case dget payload k of PStr s \<Rightarrow> s | _ \<Rightarrow> []);
          i = text ''notification_id''; key = text ''dedup_key''; severity = text ''severity'';
          event = (case dget (mapping_of (dget payload ''source'')) ''event_id'' of PStr s \<Rightarrow> s | _ \<Rightarrow> []);
          observed = (case as_int (dget payload ''observed_monotonic_ns'') of Some n \<Rightarrow> n | None \<Rightarrow> 0);
          suppress = (\<lambda>n reason r. finish_enqueue env n co db payload ''duplicate_suppressed'' ''DUPLICATE_SUPPRESSED''
                        (ob_attempts r) (Some reason) (Some (ob_status r)) now);
          last = map_option dd_last_observed (ot_dedup db key);
          delivered = (case ot_dedup db key of None \<Rightarrow> [] | Some d \<Rightarrow> dd_delivered d)
      in stmt env 0 (stmt env 1
        (case find (\<lambda>r. ob_id r = i) (ot_rows db) of
           Some r \<Rightarrow> suppress 2 ''notification_id_seen'' r
         | None \<Rightarrow> stmt env 2
            (case find (\<lambda>r. ob_event r = event) (ot_rows db) of
               Some r \<Rightarrow> suppress 3 ''event_id_seen'' r
             | None \<Rightarrow> stmt env 3
                (if opt_holds (\<lambda>l. observed < l) last
                 then finish_enqueue env 4 co db payload ''rejected'' ''REJECTED'' 0 (Some ''out_of_order'') None now
                 else if severity \<in> set delivered
                 then finish_enqueue env 4 co db payload ''duplicate_suppressed'' ''DUPLICATE_SUPPRESSED'' 0
                        (Some ''severity_already_delivered'') None now
                 else stmt env 4
                   (case find (\<lambda>r. ob_key r = key \<and> ob_severity r = severity \<and> outbox_active r) (ot_rows db) of
                      Some r \<Rightarrow> suppress 5 ''severity_pending'' r
                    | None \<Rightarrow> stmt env 5
                       (if op_max_pending policy \<le> int (length (filter outbox_active (ot_rows db)))
                        then finish_enqueue env 6 co db payload ''rejected'' ''REJECTED'' 0 (Some ''outbox_capacity_reached'') None now
                        else stmt env 6 (stmt env 7
                          (finish_enqueue env 8 co
                             (db\<lparr>ot_rows := ot_rows db @
                                   [\<lparr>ob_id = i, ob_key = key, ob_event = event, ob_severity = severity, ob_observed = observed,
                                     ob_payload = payload, ob_status = PENDING, ob_attempts = 0, ob_last_error = None,
                                     ob_created_at = now, ob_updated_at = now\<rparr>],
                                 ot_dedup := (ot_dedup db)(key \<mapsto>
                                   \<lparr>dd_last_observed = max (case last of Some l \<Rightarrow> if l = 0 then observed else l | None \<Rightarrow> observed) observed,
                                    dd_delivered = delivered\<rparr>)\<rparr>)
                             payload ''queued'' ''ENQUEUED'' 0 None (Some PENDING) now)))))))))"

definition enqueue ::
  "sql_env \<Rightarrow> codec \<Rightarrow> outbox_policy \<Rightarrow> pyval \<Rightarrow> int \<Rightarrow> rat \<Rightarrow> outbox_db \<Rightarrow> (outbox_exn + outbox_result) \<times> outbox_db" where
  "enqueue env co policy payload mono_ns now db =
     (let raise = (\<lambda>(r, db'). (map_sum OutboxError id r, db'))
      in case payload of
           PDict d \<Rightarrow>
             (case validate_payload co policy d mono_ns of
                Inl e \<Rightarrow> (Inl (OutboxPy e), db)
              | Inr (Some reason) \<Rightarrow> raise (record_rejection env co d reason now db)
              | Inr None \<Rightarrow>
                  raise (transaction env ''outbox_open_failed:'' ''outbox_enqueue_failed:'' db (enqueue_tx env co policy d now db)))
         | _ \<Rightarrow> raise (record_rejection env co [] ''payload_mapping_required'' now db))"

definition enqueue_event ::
  "sql_env \<Rightarrow> codec \<Rightarrow> outbox_policy \<Rightarrow> (pyval \<Rightarrow> string) \<Rightarrow> pyval \<Rightarrow> string option \<Rightarrow> int \<Rightarrow> rat \<Rightarrow> outbox_db \<Rightarrow>
   (outbox_exn + outbox_result) \<times> outbox_db" where
  "enqueue_event env co policy rep source_event incident_key mono_ns now db =
     (case build_notification_event (co_sha256 co) rep source_event incident_key of
        Inl e \<Rightarrow> (Inl (NotificationError e), db)
      | Inr payload \<Rightarrow> enqueue env co policy (PDict payload) mono_ns now db)"

section \<open>Delivery\<close>

definition next_pending :: "outbox_db \<Rightarrow> outbox_row option" where
  "next_pending db =
     (case sort_key (\<lambda>r. (ob_created_at r, ob_id r)) (filter (\<lambda>r. ob_status r = PENDING) (ot_rows db)) of
        [] \<Rightarrow> None | r # _ \<Rightarrow> Some r)"

text \<open>\<open>UPDATE ... WHERE notification_id=? AND status=?\<close>.\<close>

definition update_rows :: "string \<Rightarrow> outbox_status \<Rightarrow> (outbox_row \<Rightarrow> outbox_row) \<Rightarrow> outbox_db \<Rightarrow> outbox_db" where
  "update_rows i st f db =
     db\<lparr>ot_rows := map (\<lambda>r. if ob_id r = i \<and> ob_status r = st then f r else r) (ot_rows db)\<rparr>"

definition claim_one :: "sql_env \<Rightarrow> codec \<Rightarrow> rat \<Rightarrow> outbox_db \<Rightarrow> (string + outbox_row option) \<times> outbox_db" where
  "claim_one env co now db =
     transaction env ''outbox_open_failed:'' ''outbox_claim_failed:'' db
       (stmt env 0 (stmt env 1
         (case next_pending db of
            None \<Rightarrow> Rollback None
          | Some row \<Rightarrow> stmt env 2
              (append_audit env 3 co
                 (update_rows (ob_id row) PENDING (\<lambda>r. r\<lparr>ob_status := IN_FLIGHT, ob_updated_at := now\<rparr>) db)
                 (ob_payload row) ''DELIVERY_STARTED'' (ob_attempts row) None now
                 (\<lambda>db'. stmt env 5 (Commit (Some (row\<lparr>ob_status := IN_FLIGHT\<rparr>)) db'))))))"

definition allow_attempt :: "sql_env \<Rightarrow> outbox_policy \<Rightarrow> int \<Rightarrow> outbox_db \<Rightarrow> (string + bool) \<times> outbox_db" where
  "allow_attempt env policy mono_ns db =
     (let recent = filter (\<lambda>t. mono_ns - op_rate_limit_window_ns policy < t) (ot_attempts db)
      in transaction env ''outbox_open_failed:'' ''attempt_gate_failed:'' db
        (stmt env 0 (stmt env 1 (stmt env 2
          (if op_rate_limit_count policy \<le> int (length recent)
           then stmt env 3 (Commit False (db\<lparr>ot_attempts := recent\<rparr>))
           else stmt env 3 (stmt env 4 (Commit True (db\<lparr>ot_attempts := recent @ [mono_ns]\<rparr>))))))))"

definition mark_delivered :: "outbox_row \<Rightarrow> outbox_db \<Rightarrow> outbox_db" where
  "mark_delivered row db =
     (let (last, delivered) = (case ot_dedup db (ob_key row) of
            None \<Rightarrow> (ob_observed row, []) | Some d \<Rightarrow> (dd_last_observed d, dd_delivered d))
      in db\<lparr>ot_dedup := (ot_dedup db)(ob_key row \<mapsto>
              \<lparr>dd_last_observed = last, dd_delivered = delivered_after (ob_severity row) delivered\<rparr>)\<rparr>)"

definition mark_final ::
  "sql_env \<Rightarrow> codec \<Rightarrow> outbox_row \<Rightarrow> outbox_status \<Rightarrow> string \<Rightarrow> int \<Rightarrow> string option \<Rightarrow> rat \<Rightarrow> outbox_db \<Rightarrow>
   (string + outbox_result) \<times> outbox_db" where
  "mark_final env co row status status_text attempts reason now db =
     (let db1 = update_rows (ob_id row) IN_FLIGHT
            (\<lambda>r. r\<lparr>ob_status := status, ob_attempts := attempts, ob_last_error := reason, ob_updated_at := now\<rparr>) db;
          finish = (\<lambda>n db'. append_audit env n co db' (ob_payload row) status_text attempts reason now
            (\<lambda>db''. stmt env (n + 2)
               (Commit (outbox_result (ob_payload row) (if status = DELIVERED then ''delivered'' else ''dead_letter'')
                          attempts reason (Some status)) db'')))
      in transaction env ''outbox_open_failed:'' ''outbox_finalize_failed:'' db
        (stmt env 0 (stmt env 1
          (if status = DELIVERED then stmt env 2 (stmt env 3 (finish 4 (mark_delivered row db1))) else finish 2 db1))))"

definition rate_limited :: "sql_env \<Rightarrow> codec \<Rightarrow> outbox_row \<Rightarrow> rat \<Rightarrow> outbox_db \<Rightarrow> (string + outbox_result) \<times> outbox_db" where
  "rate_limited env co row now db =
     transaction env ''outbox_open_failed:'' ''rate_limit_finalize_failed:'' db
       (stmt env 0 (stmt env 1
         (append_audit env 2 co
            (update_rows (ob_id row) IN_FLIGHT
               (\<lambda>r. r\<lparr>ob_status := DEAD_LETTER, ob_last_error := Some ''rate_limited'', ob_updated_at := now\<rparr>) db)
            (ob_payload row) ''DEAD_LETTER'' (ob_attempts row) (Some ''rate_limited'') now
            (\<lambda>db'. stmt env 4
               (Commit (outbox_result (ob_payload row) ''rate_limited'' 0 (Some ''rate_limited'') (Some DEAD_LETTER)) db')))))"

definition deliver_row ::
  "(nat \<Rightarrow> sql_env) \<Rightarrow> codec \<Rightarrow> outbox_policy \<Rightarrow> (pydict \<Rightarrow> 's \<Rightarrow> send_outcome \<times> 's) \<Rightarrow> outbox_row \<Rightarrow> int \<Rightarrow> rat \<Rightarrow> outbox_db \<Rightarrow>
   's \<Rightarrow> ((string + outbox_result) \<times> outbox_db) \<times> 's" where
  "deliver_row envs co policy send row mono_ns now db s =
     (if mono_ns < ob_observed row
      then (mark_final (envs 0) co row DEAD_LETTER ''DEAD_LETTER'' (ob_attempts row) (Some ''clock_invalid'') now db, s)
      else if op_max_age_ns policy < mono_ns - ob_observed row
      then (mark_final (envs 0) co row DEAD_LETTER ''DEAD_LETTER'' (ob_attempts row) (Some ''expired'') now db, s)
      else (case allow_attempt (envs 0) policy mono_ns db of
          (Inl e, db1) \<Rightarrow> ((Inl e, db1), s)
        | (Inr False, db1) \<Rightarrow> (rate_limited (envs 1) co row now db1, s)
        | (Inr True, db1) \<Rightarrow>
            (case send_loop send (ob_payload row) (op_max_attempts policy) (ob_attempts row) ''sink_error'' s of
               (Inl attempts, s') \<Rightarrow> (mark_final (envs 1) co row DELIVERED ''DELIVERED'' attempts None now db1, s')
             | (Inr (attempts, error), s') \<Rightarrow>
                 (mark_final (envs 1) co row DEAD_LETTER ''DEAD_LETTER'' attempts (Some error) now db1, s'))))"

text \<open>One round of \<open>drain_pending\<close>: \<open>Inr None\<close> when nothing is pending.\<close>

definition drain_one ::
  "(nat \<Rightarrow> sql_env) \<Rightarrow> codec \<Rightarrow> outbox_policy \<Rightarrow> (pydict \<Rightarrow> 's \<Rightarrow> send_outcome \<times> 's) \<Rightarrow> int \<Rightarrow> rat \<Rightarrow> outbox_db \<Rightarrow> 's \<Rightarrow>
   ((string + outbox_result option) \<times> outbox_db) \<times> 's" where
  "drain_one envs co policy send mono_ns now db s =
     (case claim_one (envs 0) co now db of
        (Inl e, db1) \<Rightarrow> ((Inl e, db1), s)
      | (Inr None, db1) \<Rightarrow> ((Inr None, db1), s)
      | (Inr (Some row), db1) \<Rightarrow>
          (case deliver_row (\<lambda>n. envs (n + 1)) co policy send row mono_ns now db1 s of
             ((r, db2), s') \<Rightarrow> ((map_sum id Some r, db2), s')))"

fun drain_loop ::
  "nat \<Rightarrow> (nat \<Rightarrow> sql_env) \<Rightarrow> codec \<Rightarrow> outbox_policy \<Rightarrow> (pydict \<Rightarrow> 's \<Rightarrow> send_outcome \<times> 's) \<Rightarrow> int \<Rightarrow> rat \<Rightarrow> outbox_db \<Rightarrow> 's \<Rightarrow>
   ((string + outbox_result list) \<times> outbox_db) \<times> 's" where
  "drain_loop 0 envs co policy send mono_ns now db s = ((Inr [], db), s)"
| "drain_loop (Suc n) envs co policy send mono_ns now db s =
     (case drain_one envs co policy send mono_ns now db s of
        ((Inl e, db1), s1) \<Rightarrow> ((Inl e, db1), s1)
      | ((Inr None, db1), s1) \<Rightarrow> ((Inr [], db1), s1)
      | ((Inr (Some r), db1), s1) \<Rightarrow>
          (case drain_loop n (\<lambda>k. envs (k + 3)) co policy send mono_ns now db1 s1 of
             ((rs, db2), s2) \<Rightarrow> ((map_sum id (\<lambda>l. r # l) rs, db2), s2)))"

definition drain_pending ::
  "int \<Rightarrow> (nat \<Rightarrow> sql_env) \<Rightarrow> codec \<Rightarrow> outbox_policy \<Rightarrow> (pydict \<Rightarrow> 's \<Rightarrow> send_outcome \<times> 's) \<Rightarrow> int \<Rightarrow> rat \<Rightarrow> outbox_db \<Rightarrow> 's \<Rightarrow>
   ((outbox_exn + outbox_result list) \<times> outbox_db) \<times> 's" where
  "drain_pending max_items envs co policy send mono_ns now db s =
     (if \<not> (1 \<le> max_items \<and> max_items \<le> 1000) then ((Inl (OutboxPy ValueError), db), s)
      else (case drain_loop (nat max_items) envs co policy send mono_ns now db s of
        ((r, db'), s') \<Rightarrow> ((map_sum OutboxError id r, db'), s')))"

section \<open>Reconciliation and redrive\<close>

fun requeue_rows ::
  "sql_env \<Rightarrow> nat \<Rightarrow> codec \<Rightarrow> outbox_status \<Rightarrow> (outbox_row \<Rightarrow> outbox_row) \<Rightarrow> string \<Rightarrow> string \<Rightarrow> rat \<Rightarrow> outbox_row list \<Rightarrow> outbox_db \<Rightarrow>
   (nat \<Rightarrow> outbox_db \<Rightarrow> ('a, outbox_db) tx) \<Rightarrow> ('a, outbox_db) tx" where
  "requeue_rows env i co st f status reason now [] db k = k i db"
| "requeue_rows env i co st f status reason now (row # rows) db k =
     stmt env i
       (append_audit env (i + 1) co (update_rows (ob_id row) st f db) (ob_payload row) status (ob_attempts row) (Some reason) now
          (\<lambda>db'. requeue_rows env (i + 3) co st f status reason now rows db' k))"

definition reconcile_in_flight :: "sql_env \<Rightarrow> codec \<Rightarrow> rat \<Rightarrow> outbox_db \<Rightarrow> (string + nat) \<times> outbox_db" where
  "reconcile_in_flight env co now db =
     (let rows = sort_key ob_created_at (filter (\<lambda>r. ob_status r = IN_FLIGHT) (ot_rows db))
      in transaction env ''outbox_open_failed:'' ''reconciliation_failed:'' db
        (stmt env 0 (stmt env 1
          (requeue_rows env 2 co IN_FLIGHT
             (\<lambda>r. r\<lparr>ob_status := DEAD_LETTER, ob_last_error := Some ''delivery_interrupted'', ob_updated_at := now\<rparr>)
             ''RECONCILIATION_REQUIRED'' ''delivery_interrupted'' now rows db
             (\<lambda>i db'. stmt env i (Commit (length rows) db'))))))"

definition redrive_queue :: "sql_env \<Rightarrow> codec \<Rightarrow> nat \<Rightarrow> rat \<Rightarrow> outbox_db \<Rightarrow> (string + unit) \<times> outbox_db" where
  "redrive_queue env co max_items now db =
     (let rows = take max_items (sort_key (\<lambda>r. (ob_updated_at r, ob_id r)) (filter (\<lambda>r. ob_status r = DEAD_LETTER) (ot_rows db)))
      in transaction env ''outbox_open_failed:'' ''redrive_queue_failed:'' db
        (stmt env 0 (stmt env 1
          (requeue_rows env 2 co DEAD_LETTER
             (\<lambda>r. r\<lparr>ob_status := PENDING, ob_last_error := None, ob_updated_at := now\<rparr>)
             ''REDRIVE_QUEUED'' ''explicit_redrive'' now rows db
             (\<lambda>i db'. stmt env i (Commit () db'))))))"

definition redrive_dead_letters ::
  "int \<Rightarrow> (nat \<Rightarrow> sql_env) \<Rightarrow> codec \<Rightarrow> outbox_policy \<Rightarrow> (pydict \<Rightarrow> 's \<Rightarrow> send_outcome \<times> 's) \<Rightarrow> int \<Rightarrow> rat \<Rightarrow> outbox_db \<Rightarrow> 's \<Rightarrow>
   ((outbox_exn + outbox_result list) \<times> outbox_db) \<times> 's" where
  "redrive_dead_letters max_items envs co policy send mono_ns now db s =
     (if \<not> (1 \<le> max_items \<and> max_items \<le> 1000) then ((Inl (OutboxPy ValueError), db), s)
      else (case redrive_queue (envs 0) co (nat max_items) now db of
        (Inl e, db1) \<Rightarrow> ((Inl (OutboxError e), db1), s)
      | (Inr _, db1) \<Rightarrow> drain_pending max_items (\<lambda>k. envs (k + 1)) co policy send mono_ns now db1 s))"

section \<open>Reading back\<close>

definition status_count :: "outbox_db \<Rightarrow> outbox_status \<Rightarrow> nat" where
  "status_count db st = length (filter (\<lambda>r. ob_status r = st) (ot_rows db))"

definition status_counts :: "outbox_db \<Rightarrow> (outbox_status \<times> nat) list" where
  "status_counts db = map (\<lambda>st. (st, status_count db st)) [PENDING, IN_FLIGHT, DELIVERED, DEAD_LETTER]"

definition dead_letter_count :: "outbox_db \<Rightarrow> nat" where
  "dead_letter_count db = status_count db DEAD_LETTER"

definition get_notification :: "outbox_db \<Rightarrow> string \<Rightarrow> outbox_row option" where
  "get_notification db i = find (\<lambda>r. ob_id r = i) (ot_rows db)"

fun audit_errors :: "codec \<Rightarrow> nat \<Rightarrow> string option \<Rightarrow> delivery_audit list \<Rightarrow> string list" where
  "audit_errors co n previous [] = []"
| "audit_errors co n previous (a # later) =
     (if da_previous a \<noteq> previous then [''previous_digest_mismatch:'' @ int_str (int n)] else []) @
     (if da_authorization a \<noteq> ''unchanged'' then [''action_authorization_changed:'' @ int_str (int n)] else []) @
     (if outbox_digest co (audit_body a) \<noteq> Some (da_digest a) then [''record_digest_mismatch:'' @ int_str (int n)] else []) @
     audit_errors co (n + 1) (Some (da_digest a)) later"

definition verify_audit :: "codec \<Rightarrow> outbox_db \<Rightarrow> bool \<times> nat \<times> string list" where
  "verify_audit co db = (let errors = audit_errors co 1 None (ot_audits db) in (errors = [], length (ot_audits db), errors))"

end
