(* ===== verification/Guardian_State.thy ===== *)
theory Guardian_State
  imports Guardian_Sql Guardian_Actions
begin

text \<open>
  The durable state store (\<open>src/guardian_state.py\<close>, class \<open>GuardianStateStore\<close>): capabilities,
  intents, audit records, the cooldown ledger and the action slots, as one record of tables, and
  one definition per public operation.  Rows are kept in insertion order.
\<close>

section \<open>Tables\<close>

datatype intent_state =
    INTENT_RECORDED | EXECUTION_STARTED | RECONCILIATION_REQUIRED | PLANNED | SUCCEEDED | FAILED

datatype slot_state = SLOT_ACTIVE | SLOT_RECONCILIATION_REQUIRED

record capability_row =
  cap_environment :: string
  cap_target_id :: string
  cap_action :: string
  cap_expires_at :: pyfloat
  cap_consumed_at :: "rat option"
  cap_consumed_event_id :: "string option"

record intent_row =
  int_id :: string
  int_key :: string
  int_host :: string
  int_object :: string
  int_action :: string
  int_event :: string
  int_state :: intent_state
  int_created_at :: rat
  int_updated_at :: rat
  int_result :: "string option"

record audit_row =
  aud_intent_id :: "string option"
  aud_kind :: string
  aud_payload :: string
  aud_recorded_at :: rat

text \<open>
  \<open>led_times\<close> is the decoded \<open>action_times_json\<close> column; \<open>None\<close> stands for a text that does not
  decode to a list of numbers (the \<open>action_ledger_corrupt\<close> branch).
\<close>

record ledger_row =
  led_last_action_at :: "rat option"
  led_times :: "rat list option"
  led_failures :: int

record slot_row =
  slot_host :: string
  slot_action :: string
  slot_intent :: string
  slot_state :: slot_state
  slot_acquired_at :: rat
  slot_updated_at :: rat

type_synonym ledger_key = "string \<times> string \<times> string"

record state_db =
  capabilities :: "string \<rightharpoonup> capability_row"
  intents :: "intent_row list"
  audit_records :: "audit_row list"
  action_ledger :: "ledger_key \<rightharpoonup> ledger_row"
  action_slots :: "slot_row list"

definition empty_db :: state_db where
  "empty_db = \<lparr>capabilities = Map.empty, intents = [], audit_records = [],
               action_ledger = Map.empty, action_slots = []\<rparr>"

definition ACTIVE_INTENT_STATES :: "intent_state list" where
  "ACTIVE_INTENT_STATES = [INTENT_RECORDED, EXECUTION_STARTED, RECONCILIATION_REQUIRED]"

definition FINAL_INTENT_STATES :: "intent_state list" where
  "FINAL_INTENT_STATES = [PLANNED, SUCCEEDED, FAILED]"

definition MAX_STATE_JSON_BYTES :: nat where
  "MAX_STATE_JSON_BYTES = 64 * 1024"

record capability_decision =
  cd_allowed :: bool
  cd_reason :: string

record intent_claim =
  ic_claimed :: bool
  ic_intent_id :: string
  ic_key :: string
  ic_state :: intent_state
  ic_reason :: string

section \<open>Helpers\<close>

definition authorization_fields ::
    "authorization \<Rightarrow> string + string \<times> string \<times> string \<times> string \<times> pyfloat" where
  "authorization_fields a =
     (if approval_id a = [] then Inl ''approval_id_missing''
      else Inr (approval_id a, auth_environment a, auth_target_id a, auth_action a, auth_expires_at a))"

definition state_json :: "sql_env \<Rightarrow> pyval \<Rightarrow> string + string" where
  "state_json env v =
     (case json_dumps env v of
        None \<Rightarrow> Inl ''audit_payload_not_serializable''
      | Some encoded \<Rightarrow>
          if length encoded > MAX_STATE_JSON_BYTES then Inl ''audit_payload_too_large''
          else Inr encoded)"

definition idempotency_key :: "sql_env \<Rightarrow> string \<Rightarrow> string \<Rightarrow> string \<Rightarrow> string \<Rightarrow> string" where
  "idempotency_key env host object action event =
     sha256_hex env (join [char_of (0 :: nat)] [host, object, action, event])"

text \<open>
  \<open>_audit\<close>: serialize the payload, then one INSERT (statement \<open>i\<close>) whose failure is reported as
  \<open>audit_write_failed\<close>.
\<close>

definition audit ::
    "sql_env \<Rightarrow> nat \<Rightarrow> state_db \<Rightarrow> string option \<Rightarrow> string \<Rightarrow> pyval \<Rightarrow> rat \<Rightarrow>
     (state_db \<Rightarrow> ('a, state_db) tx) \<Rightarrow> ('a, state_db) tx" where
  "audit env i db intent kind payload now k =
     (case state_json env payload of
        Inl e \<Rightarrow> StoreFail e
      | Inr text \<Rightarrow>
          (case stmt_error env i of
             Some e \<Rightarrow> StoreFail (''audit_write_failed:'' @ e)
           | None \<Rightarrow>
               k (db\<lparr>audit_records := audit_records db @
                    [\<lparr>aud_intent_id = intent, aud_kind = kind, aud_payload = text,
                      aud_recorded_at = now\<rparr>]\<rparr>)))"

definition find_intent :: "state_db \<Rightarrow> string \<Rightarrow> intent_row option" where
  "find_intent db iid = find (\<lambda>r. int_id r = iid) (intents db)"

text \<open>\<open>UPDATE intents SET ... WHERE intent_id=?\<close>.\<close>

definition update_intent :: "state_db \<Rightarrow> string \<Rightarrow> (intent_row \<Rightarrow> intent_row) \<Rightarrow> state_db" where
  "update_intent db iid f =
     db\<lparr>intents := map (\<lambda>r. if int_id r = iid then f r else r) (intents db)\<rparr>"

definition find_slot :: "state_db \<Rightarrow> string \<Rightarrow> string \<Rightarrow> slot_row option" where
  "find_slot db host action =
     find (\<lambda>r. slot_host r = host \<and> slot_action r = action) (action_slots db)"

section \<open>Capabilities\<close>

text \<open>
  \<open>expires_at REAL NOT NULL\<close>: SQLite stores NaN as NULL, so inserting it is refused.
\<close>

definition register_capability :: "sql_env \<Rightarrow> authorization \<Rightarrow> state_db \<Rightarrow> (string + unit) \<times> state_db" where
  "register_capability env auth db =
     (case authorization_fields auth of
        Inl e \<Rightarrow> (Inl e, db)
      | Inr (aid, environment, target, action, expires) \<Rightarrow>
          transaction env ''state_store_open_failed:'' ''capability_register_failed:'' db
            (stmt env 0 (stmt env 1
               (case capabilities db aid of
                  Some row \<Rightarrow>
                    if \<not> (cap_environment row = environment \<and> cap_target_id row = target \<and>
                          cap_action row = action \<and> feq (cap_expires_at row) expires)
                    then StoreFail ''capability_conflict''
                    else stmt env 2 (Commit () db)
                | None \<Rightarrow>
                    stmt env 2
                      (if expires = NaN
                       then SqlFail ''NOT NULL constraint failed: capabilities.expires_at''
                       else stmt env 3
                         (Commit () (db\<lparr>capabilities := (capabilities db)(aid \<mapsto>
                            \<lparr>cap_environment = environment, cap_target_id = target,
                             cap_action = action, cap_expires_at = expires,
                             cap_consumed_at = None, cap_consumed_event_id = None\<rparr>)\<rparr>)))))))"

definition consume_capability ::
    "sql_env \<Rightarrow> authorization \<Rightarrow> string \<Rightarrow> rat \<Rightarrow> state_db \<Rightarrow> (string + capability_decision) \<times> state_db" where
  "consume_capability env auth event_id now db =
     (case authorization_fields auth of
        Inl e \<Rightarrow> (Inl e, db)
      | Inr (aid, environment, target, action, expires) \<Rightarrow>
          transaction env ''state_store_open_failed:'' ''capability_consume_failed:'' db
            (stmt env 0 (stmt env 1
               (case capabilities db aid of
                  None \<Rightarrow> Rollback \<lparr>cd_allowed = False, cd_reason = ''capability_not_registered''\<rparr>
                | Some row \<Rightarrow>
                    if \<not> (cap_environment row = environment \<and> cap_target_id row = target \<and>
                          cap_action row = action \<and> feq (cap_expires_at row) expires)
                    then Rollback \<lparr>cd_allowed = False, cd_reason = ''capability_record_mismatch''\<rparr>
                    else if cap_consumed_at row \<noteq> None
                    then Rollback \<lparr>cd_allowed = False, cd_reason = ''capability_already_consumed''\<rparr>
                    else if fle expires (Fin now)
                    then Rollback \<lparr>cd_allowed = False, cd_reason = ''capability_expired''\<rparr>
                    else stmt env 2
                      (let db' = db\<lparr>capabilities := (capabilities db)(aid \<mapsto>
                             row\<lparr>cap_consumed_at := Some now, cap_consumed_event_id := Some event_id\<rparr>)\<rparr>
                       in audit env 3 db' None ''capability_consumed''
                            (PDict [(''approval_id'', PStr aid), (''target_id'', PStr target),
                                    (''action'', PStr action), (''event_id'', PStr event_id)])
                            now
                            (\<lambda>db''. stmt env 4
                               (Commit \<lparr>cd_allowed = True, cd_reason = ''capability_consumed''\<rparr> db'')))))))"

section \<open>Intents\<close>

definition active_intent :: "string \<Rightarrow> string \<Rightarrow> string \<Rightarrow> intent_row \<Rightarrow> bool" where
  "active_intent host object action r \<longleftrightarrow>
     int_host r = host \<and> int_object r = object \<and> int_action r = action \<and>
     int_state r \<in> set ACTIVE_INTENT_STATES"

text \<open>
  \<open>intent_id\<close> is a primary key and \<open>idempotency_key\<close> is unique: inserting a row that repeats
  either is a \<open>sqlite3.IntegrityError\<close>.
\<close>

definition claim_intent ::
    "sql_env \<Rightarrow> string \<Rightarrow> string \<Rightarrow> string \<Rightarrow> string \<Rightarrow> pyval \<Rightarrow> rat \<Rightarrow> state_db \<Rightarrow>
     (string + intent_claim) \<times> state_db" where
  "claim_intent env host object action event payload now db =
     (let key = idempotency_key env host object action event
      in transaction env ''state_store_open_failed:'' ''intent_claim_failed:'' db
        (stmt env 0 (stmt env 1
          (case find (\<lambda>r. int_key r = key) (intents db) of
             Some r \<Rightarrow> Rollback \<lparr>ic_claimed = False, ic_intent_id = int_id r, ic_key = key,
                                ic_state = int_state r, ic_reason = ''idempotent_intent_reused''\<rparr>
           | None \<Rightarrow> stmt env 2
              (case find (active_intent host object action) (intents db) of
                 Some r \<Rightarrow> Rollback \<lparr>ic_claimed = False, ic_intent_id = int_id r, ic_key = key,
                                    ic_state = int_state r, ic_reason = ''active_intent_exists''\<rparr>
               | None \<Rightarrow> stmt env 3
                  (if uuid4 env \<in> int_id ` set (intents db)
                   then SqlFail ''UNIQUE constraint failed: intents.intent_id''
                   else
                     (let db' = db\<lparr>intents := intents db @
                            [\<lparr>int_id = uuid4 env, int_key = key, int_host = host, int_object = object,
                              int_action = action, int_event = event, int_state = INTENT_RECORDED,
                              int_created_at = now, int_updated_at = now, int_result = None\<rparr>]\<rparr>
                      in audit env 4 db' (Some (uuid4 env)) ''intent_recorded'' payload now
                           (\<lambda>db''. stmt env 5
                              (Commit \<lparr>ic_claimed = True, ic_intent_id = uuid4 env, ic_key = key,
                                       ic_state = INTENT_RECORDED, ic_reason = ''intent_claimed''\<rparr>
                                 db'')))))))))"

definition mark_execution_started ::
    "sql_env \<Rightarrow> string \<Rightarrow> rat \<Rightarrow> state_db \<Rightarrow> (string + bool) \<times> state_db" where
  "mark_execution_started env iid now db =
     transaction env ''state_store_open_failed:'' ''execution_start_failed:'' db
       (stmt env 0 (stmt env 1
          (case find_intent db iid of
             None \<Rightarrow> StoreFail ''intent_not_found''
           | Some r \<Rightarrow>
               if int_state r \<noteq> INTENT_RECORDED then Rollback False
               else stmt env 2
                 (let db' = update_intent db iid
                         (\<lambda>x. x\<lparr>int_state := EXECUTION_STARTED, int_updated_at := now\<rparr>)
                  in audit env 3 db' (Some iid) ''execution_started'' (PDict []) now
                       (\<lambda>db''. stmt env 4 (Commit True db''))))))"

definition final_state :: "bool \<Rightarrow> bool \<Rightarrow> intent_state" where
  "final_state success executed =
     (if \<not> executed then PLANNED else if success then SUCCEEDED else FAILED)"

definition record_result ::
    "sql_env \<Rightarrow> string \<Rightarrow> pyval \<Rightarrow> bool \<Rightarrow> bool \<Rightarrow> rat \<Rightarrow> state_db \<Rightarrow> (string + intent_state) \<times> state_db" where
  "record_result env iid result success executed now db =
     transaction env ''state_store_open_failed:'' ''result_record_failed:'' db
       (stmt env 0 (stmt env 1
          (case find_intent db iid of
             None \<Rightarrow> StoreFail ''intent_not_found''
           | Some r \<Rightarrow>
               if int_state r \<in> set FINAL_INTENT_STATES then Rollback (int_state r)
               else
                 (case state_json env result of
                    Inl e \<Rightarrow> StoreFail e
                  | Inr text \<Rightarrow> stmt env 2
                     (let db' = update_intent db iid
                            (\<lambda>x. x\<lparr>int_state := final_state success executed, int_updated_at := now,
                                   int_result := Some text\<rparr>)
                      in audit env 3 db' (Some iid) ''result_recorded''
                           (PDict [(''result'', result), (''executed'', PBool executed),
                                   (''success'', PBool success)]) now
                           (\<lambda>db''. stmt env 4 (Commit (final_state success executed) db'')))))))"

section \<open>Reconciliation after a crash\<close>

fun intent_state_text :: "intent_state \<Rightarrow> string" where
  "intent_state_text INTENT_RECORDED = ''INTENT_RECORDED''"
| "intent_state_text EXECUTION_STARTED = ''EXECUTION_STARTED''"
| "intent_state_text RECONCILIATION_REQUIRED = ''RECONCILIATION_REQUIRED''"
| "intent_state_text PLANNED = ''PLANNED''"
| "intent_state_text SUCCEEDED = ''SUCCEEDED''"
| "intent_state_text FAILED = ''FAILED''"

text \<open>An entry of the returned list; its \<open>state\<close> field is always RECONCILIATION_REQUIRED.\<close>

datatype pending_item =
    PendingIntent string string string string string
  | PendingSlot string string string

fun reconcile_intents ::
    "sql_env \<Rightarrow> nat \<Rightarrow> intent_row list \<Rightarrow> rat \<Rightarrow> state_db \<Rightarrow>
     (nat \<Rightarrow> state_db \<Rightarrow> ('a, state_db) tx) \<Rightarrow> ('a, state_db) tx" where
  "reconcile_intents env i [] now db k = k i db"
| "reconcile_intents env i (r # rs) now db k =
     stmt env i
       (audit env (i + 1)
          (update_intent db (int_id r)
             (\<lambda>x. x\<lparr>int_state := RECONCILIATION_REQUIRED, int_updated_at := now\<rparr>))
          (Some (int_id r)) ''reconciliation_required''
          (PDict [(''previous_state'', PStr (intent_state_text (int_state r))),
                  (''event_id'', PStr (int_event r))]) now
          (\<lambda>db'. reconcile_intents env (i + 2) rs now db' k))"

definition park_slot :: "string \<Rightarrow> string \<Rightarrow> rat \<Rightarrow> slot_row \<Rightarrow> slot_row" where
  "park_slot host action now s =
     (if slot_host s = host \<and> slot_action s = action \<and> slot_state s = SLOT_ACTIVE
      then s\<lparr>slot_state := SLOT_RECONCILIATION_REQUIRED, slot_updated_at := now\<rparr> else s)"

fun reconcile_slots ::
    "sql_env \<Rightarrow> nat \<Rightarrow> slot_row list \<Rightarrow> rat \<Rightarrow> state_db \<Rightarrow>
     (nat \<Rightarrow> state_db \<Rightarrow> ('a, state_db) tx) \<Rightarrow> ('a, state_db) tx" where
  "reconcile_slots env i [] now db k = k i db"
| "reconcile_slots env i (s # ss) now db k =
     stmt env i
       (audit env (i + 1)
          (db\<lparr>action_slots := map (park_slot (slot_host s) (slot_action s) now) (action_slots db)\<rparr>)
          (Some (slot_intent s)) ''action_slot_reconciliation_required''
          (PDict [(''host_id'', PStr (slot_host s)), (''action'', PStr (slot_action s)),
                  (''previous_state'', PStr ''ACTIVE'')]) now
          (\<lambda>db'. reconcile_slots env (i + 2) ss now db' k))"

definition pending_rows :: "state_db \<Rightarrow> intent_row list" where
  "pending_rows db =
     sort_key int_created_at (filter (\<lambda>r. int_state r \<in> set ACTIVE_INTENT_STATES) (intents db))"

definition active_slots :: "state_db \<Rightarrow> slot_row list" where
  "active_slots db =
     sort_key slot_acquired_at (filter (\<lambda>s. slot_state s = SLOT_ACTIVE) (action_slots db))"

definition pending_items :: "state_db \<Rightarrow> pending_item list" where
  "pending_items db =
     map (\<lambda>r. PendingIntent (int_id r) (int_host r) (int_object r) (int_action r) (int_event r))
       (pending_rows db)
     @ map (\<lambda>s. PendingSlot (slot_host s) (slot_action s) (slot_intent s)) (active_slots db)"

definition reconcile_pending ::
    "sql_env \<Rightarrow> rat \<Rightarrow> state_db \<Rightarrow> (string + pending_item list) \<times> state_db" where
  "reconcile_pending env now db =
     transaction env ''state_store_open_failed:'' ''reconciliation_failed:'' db
       (stmt env 0 (stmt env 1
         (reconcile_intents env 2 (pending_rows db) now db
           (\<lambda>i db'. stmt env i
             (reconcile_slots env (i + 1) (active_slots db') now db'
               (\<lambda>j db''. stmt env j (Commit (pending_items db) db'')))))))"

section \<open>Action slots\<close>

definition slot_payload :: "string \<Rightarrow> string \<Rightarrow> pyval" where
  "slot_payload host action = PDict [(''host_id'', PStr host), (''action'', PStr action)]"

definition claim_action_slot ::
    "sql_env \<Rightarrow> string \<Rightarrow> string \<Rightarrow> string \<Rightarrow> rat \<Rightarrow> state_db \<Rightarrow> (string + bool) \<times> state_db" where
  "claim_action_slot env host action iid now db =
     transaction env ''state_store_open_failed:'' ''action_slot_claim_failed:'' db
       (stmt env 0 (stmt env 1
          (case find_slot db host action of
             Some _ \<Rightarrow> Rollback False
           | None \<Rightarrow> stmt env 2
               (audit env 3
                  (db\<lparr>action_slots := action_slots db @
                     [\<lparr>slot_host = host, slot_action = action, slot_intent = iid,
                       slot_state = SLOT_ACTIVE, slot_acquired_at = now, slot_updated_at = now\<rparr>]\<rparr>)
                  (Some iid) ''action_slot_claimed'' (slot_payload host action) now
                  (\<lambda>db'. stmt env 4 (Commit True db'))))))"

text \<open>The WHERE clause of the DELETE.\<close>

definition slot_matches :: "string \<Rightarrow> string \<Rightarrow> string \<Rightarrow> slot_row \<Rightarrow> bool" where
  "slot_matches host action iid s \<longleftrightarrow>
     slot_host s = host \<and> slot_action s = action \<and> slot_intent s = iid \<and> slot_state s = SLOT_ACTIVE"

definition release_action_slot ::
    "sql_env \<Rightarrow> string \<Rightarrow> string \<Rightarrow> string \<Rightarrow> rat \<Rightarrow> state_db \<Rightarrow> (string + bool) \<times> state_db" where
  "release_action_slot env host action iid now db =
     transaction env ''state_store_open_failed:'' ''action_slot_release_failed:'' db
       (stmt env 0 (stmt env 1
          (case find_slot db host action of
             None \<Rightarrow> Rollback False
           | Some s \<Rightarrow>
               if slot_intent s \<noteq> iid \<or> slot_state s \<noteq> SLOT_ACTIVE then Rollback False
               else stmt env 2
                 (audit env 3
                    (db\<lparr>action_slots := filter (\<lambda>s. \<not> slot_matches host action iid s) (action_slots db)\<rparr>)
                    (Some iid) ''action_slot_released'' (slot_payload host action) now
                    (\<lambda>db'. stmt env 4 (Commit True db'))))))"

section \<open>Cooldown ledger\<close>

definition allow_action ::
    "sql_env \<Rightarrow> string \<Rightarrow> string \<Rightarrow> string \<Rightarrow> rat \<Rightarrow> rat \<Rightarrow> int \<Rightarrow> rat \<Rightarrow> state_db \<Rightarrow>
     (string + bool \<times> string) \<times> state_db" where
  "allow_action env host object action now cooldown max_actions window db =
     (if max_actions \<le> 0 then (Inr (False, ''action_limit_reached''), db)
      else transaction env ''state_store_open_failed:'' ''cooldown_read_failed:'' db
        (stmt env 0 (stmt env 1
          (case action_ledger db (host, object, action) of
             None \<Rightarrow> stmt env 2 (Commit (True, ''allowed'') db)
           | Some row \<Rightarrow>
               (case led_times row of
                  None \<Rightarrow> StoreFail ''action_ledger_corrupt''
                | Some ts \<Rightarrow>
                    (let recent = filter (\<lambda>t. now - t \<le> window) ts
                     in if (case led_last_action_at row of None \<Rightarrow> False | Some t \<Rightarrow> now - t < cooldown)
                        then stmt env 2 (Commit (False, ''cooldown_active'') db)
                        else if max_actions \<le> int (length recent)
                        then stmt env 2 (Commit (False, ''action_limit_reached'') db)
                        else stmt env 2 (stmt env 3
                          (Commit (True, ''allowed'')
                             (db\<lparr>action_ledger := (action_ledger db)((host, object, action) \<mapsto>
                                row\<lparr>led_times := Some recent\<rparr>)\<rparr>)))))))))"

definition record_action ::
    "sql_env \<Rightarrow> string \<Rightarrow> string \<Rightarrow> string \<Rightarrow> rat \<Rightarrow> bool \<Rightarrow> state_db \<Rightarrow> (string + unit) \<times> state_db" where
  "record_action env host object action now success db =
     transaction env ''state_store_open_failed:'' ''cooldown_write_failed:'' db
       (stmt env 0 (stmt env 1
         (case (case action_ledger db (host, object, action) of
                  None \<Rightarrow> Some ([], 0)
                | Some row \<Rightarrow> map_option (\<lambda>ts. (ts, led_failures row)) (led_times row)) of
            None \<Rightarrow> StoreFail ''action_ledger_corrupt''
          | Some (ts, failures) \<Rightarrow>
              stmt env 2 (stmt env 3
                (Commit () (db\<lparr>action_ledger := (action_ledger db)((host, object, action) \<mapsto>
                   \<lparr>led_last_action_at = Some now, led_times = Some (ts @ [now]),
                    led_failures = (if success then 0 else failures + 1)\<rparr>)\<rparr>))))))"

definition failure_breaker ::
    "sql_env \<Rightarrow> string \<Rightarrow> string \<Rightarrow> string \<Rightarrow> int \<Rightarrow> state_db \<Rightarrow> string + bool" where
  "failure_breaker env host object action max_failures db =
     (case open_error env of
        Some e \<Rightarrow> Inl (''state_store_open_failed:'' @ e)
      | None \<Rightarrow>
          (case stmt_error env 0 of
             Some e \<Rightarrow> Inl (''cooldown_read_failed:'' @ e)
           | None \<Rightarrow>
               Inr (case action_ledger db (host, object, action) of
                      None \<Rightarrow> False
                    | Some row \<Rightarrow> max_failures \<le> led_failures row)))"

definition get_intent :: "sql_env \<Rightarrow> string \<Rightarrow> state_db \<Rightarrow> string + intent_row option" where
  "get_intent env iid db =
     (case open_error env of
        Some e \<Rightarrow> Inl (''state_store_open_failed:'' @ e)
      | None \<Rightarrow>
          (case stmt_error env 0 of
             Some e \<Rightarrow> Inl (''intent_read_failed:'' @ e)
           | None \<Rightarrow> Inr (find_intent db iid)))"

section \<open>The store as a system of operations\<close>

text \<open>One operation of the store with its arguments and its environment.\<close>

datatype store_op =
    Register sql_env authorization
  | Consume sql_env authorization string rat
  | ClaimIntent sql_env string string string string pyval rat
  | MarkStarted sql_env string rat
  | RecordResult sql_env string pyval bool bool rat
  | Reconcile sql_env rat
  | ClaimSlot sql_env string string string rat
  | ReleaseSlot sql_env string string string rat
  | AllowAction sql_env string string string rat rat int rat
  | RecordAction sql_env string string string rat bool

fun store_step :: "state_db \<Rightarrow> store_op \<Rightarrow> state_db" where
  "store_step db (Register env a) = snd (register_capability env a db)"
| "store_step db (Consume env a ev now) = snd (consume_capability env a ev now db)"
| "store_step db (ClaimIntent env h obj act ev p now) = snd (claim_intent env h obj act ev p now db)"
| "store_step db (MarkStarted env iid now) = snd (mark_execution_started env iid now db)"
| "store_step db (RecordResult env iid res ok ex now) = snd (record_result env iid res ok ex now db)"
| "store_step db (Reconcile env now) = snd (reconcile_pending env now db)"
| "store_step db (ClaimSlot env h act iid now) = snd (claim_action_slot env h act iid now db)"
| "store_step db (ReleaseSlot env h act iid now) = snd (release_action_slot env h act iid now db)"
| "store_step db (AllowAction env h obj act now c m w) = snd (allow_action env h obj act now c m w db)"
| "store_step db (RecordAction env h obj act now ok) = snd (record_action env h obj act now ok db)"

text \<open>The approval an operation consumes, and the idempotency key it claims, when it succeeds.\<close>

fun consumed_approval :: "state_db \<Rightarrow> store_op \<Rightarrow> string option" where
  "consumed_approval db (Consume env a ev now) =
     (case fst (consume_capability env a ev now db) of
        Inr d \<Rightarrow> if cd_allowed d then Some (approval_id a) else None
      | Inl _ \<Rightarrow> None)"
| "consumed_approval db _ = None"

fun claimed_key :: "state_db \<Rightarrow> store_op \<Rightarrow> string option" where
  "claimed_key db (ClaimIntent env h obj act ev p now) =
     (case fst (claim_intent env h obj act ev p now db) of
        Inr c \<Rightarrow> if ic_claimed c then Some (ic_key c) else None
      | Inl _ \<Rightarrow> None)"
| "claimed_key db _ = None"

definition is_consumed :: "state_db \<Rightarrow> string \<Rightarrow> bool" where
  "is_consumed db aid = (\<exists>row. capabilities db aid = Some row \<and> cap_consumed_at row \<noteq> None)"

definition key_used :: "state_db \<Rightarrow> string \<Rightarrow> bool" where
  "key_used db key = (key \<in> int_key ` set (intents db))"

text \<open>
  Well-formedness: the primary keys and unique columns are unique, at most one intent of a
  host/object/action is active, and at most one slot exists per host and action.
\<close>

definition intent_target :: "intent_row \<Rightarrow> string \<times> string \<times> string" where
  "intent_target r = (int_host r, int_object r, int_action r)"

definition is_active :: "intent_row \<Rightarrow> bool" where
  "is_active r = (int_state r \<in> set ACTIVE_INTENT_STATES)"

definition slot_key :: "slot_row \<Rightarrow> string \<times> string" where
  "slot_key s = (slot_host s, slot_action s)"

definition store_ok :: "state_db \<Rightarrow> bool" where
  "store_ok db \<longleftrightarrow>
     distinct (map int_id (intents db)) \<and> distinct (map int_key (intents db)) \<and>
     distinct (map intent_target (filter is_active (intents db))) \<and>
     distinct (map slot_key (action_slots db))"

end
