(* ===== verification/Guardian_State_Laws.thy ===== *)
theory Guardian_State_Laws
  imports Guardian_State
begin

text \<open>
  Laws of the durable store: what each operation commits, the well-formedness invariant, the
  life cycle of intents, one-shot capabilities and idempotency keys, the append-only audit trail
  and the exclusivity of action slots, each for arbitrary sequences of operations and arbitrary
  SQL failures.
\<close>

section \<open>What a successful operation commits\<close>

lemma audit_Commit [simp, guardian_simps]:
  "audit env i db iid kind p now k = Commit a d \<longleftrightarrow>
     (\<exists>text. state_json env p = Inr text \<and> stmt_error env i = None \<and>
        k (db\<lparr>audit_records := audit_records db @
             [\<lparr>aud_intent_id = iid, aud_kind = kind, aud_payload = text, aud_recorded_at = now\<rparr>]\<rparr>)
        = Commit a d)"
  by (auto simp: audit_def split: sum.splits option.splits)

lemma audit_Rollback [simp, guardian_simps]:
  "audit env i db iid kind p now k = Rollback a \<longleftrightarrow>
     (\<exists>text. state_json env p = Inr text \<and> stmt_error env i = None \<and>
        k (db\<lparr>audit_records := audit_records db @
             [\<lparr>aud_intent_id = iid, aud_kind = kind, aud_payload = text, aud_recorded_at = now\<rparr>]\<rparr>)
        = Rollback a)"
  by (auto simp: audit_def split: sum.splits option.splits)

lemma update_intent_simps [simp]:
  "intents (update_intent db iid f) = map (\<lambda>r. if int_id r = iid then f r else r) (intents db)"
  "capabilities (update_intent db iid f) = capabilities db"
  "audit_records (update_intent db iid f) = audit_records db"
  "action_ledger (update_intent db iid f) = action_ledger db"
  "action_slots (update_intent db iid f) = action_slots db"
  by (simp_all add: update_intent_def)

lemma find_intent_SomeD:
  "find_intent db iid = Some r \<Longrightarrow> r \<in> set (intents db) \<and> int_id r = iid"
  by (auto simp: find_intent_def find_Some_iff)

lemma find_slot_SomeD:
  "find_slot db h act = Some s \<Longrightarrow> s \<in> set (action_slots db) \<and> slot_key s = (h, act)"
  by (auto simp: find_slot_def find_Some_iff slot_key_def)

lemma find_slot_None: "find_slot db h act = None \<longleftrightarrow> (h, act) \<notin> slot_key ` set (action_slots db)"
  by (auto simp: find_slot_def find_None_iff slot_key_def)

text \<open>
  The possible new databases of an operation: either the database is untouched or the operation's
  rows and its audit record are written together.
\<close>

definition new_capability :: "authorization \<Rightarrow> capability_row" where
  "new_capability a =
     \<lparr>cap_environment = auth_environment a, cap_target_id = auth_target_id a,
      cap_action = auth_action a, cap_expires_at = auth_expires_at a,
      cap_consumed_at = None, cap_consumed_event_id = None\<rparr>"

lemma new_capability_fresh [simp]: "cap_consumed_at (new_capability a) = None"
  by (simp add: new_capability_def)

lemma register_db:
  "register_capability env a db = (res, db') \<Longrightarrow> db' = db \<or>
   capabilities db (approval_id a) = None \<and> auth_expires_at a \<noteq> NaN \<and>
   db' = db\<lparr>capabilities := (capabilities db)(approval_id a \<mapsto> new_capability a)\<rparr>"
  unfolding register_capability_def
  by (auto dest!: transaction_result simp: authorization_fields_def new_capability_def
      split: option.splits if_splits sum.splits)

definition consume_row :: "rat \<Rightarrow> string \<Rightarrow> capability_row \<Rightarrow> capability_row" where
  "consume_row now ev row = row\<lparr>cap_consumed_at := Some now, cap_consumed_event_id := Some ev\<rparr>"

lemma consume_db:
  "consume_capability env a ev now db = (res, db') \<Longrightarrow> db' = db \<or>
   (\<exists>row x. capabilities db (approval_id a) = Some row \<and> cap_consumed_at row = None \<and>
      db' =
        db\<lparr>capabilities := (capabilities db)(approval_id a \<mapsto> consume_row now ev row),
           audit_records := audit_records db @ [x]\<rparr>)"
  unfolding consume_capability_def
  by (auto dest!: transaction_result simp: authorization_fields_def consume_row_def Let_def split: option.splits if_splits sum.splits)

lemma consume_allowed:
  assumes "consume_capability env a ev now db = (Inr d, db')" and "cd_allowed d"
  shows "\<exists>row x. capabilities db (approval_id a) = Some row \<and> cap_consumed_at row = None \<and>
    \<not> fle (auth_expires_at a) (Fin now) \<and> cap_target_id row = auth_target_id a \<and>
    cap_action row = auth_action a \<and> cap_environment row = auth_environment a \<and>
    cap_expires_at row = auth_expires_at a \<and>
    db' = db\<lparr>capabilities := (capabilities db)(approval_id a \<mapsto> consume_row now ev row),
             audit_records := audit_records db @ [x]\<rparr>"
  using assms
  by (auto simp: consume_capability_def authorization_fields_def transaction_Inr Let_def
      consume_row_def feq_iff split: option.splits if_splits sum.splits)

definition new_intent :: "sql_env \<Rightarrow> string \<Rightarrow> string \<Rightarrow> string \<Rightarrow> string \<Rightarrow> rat \<Rightarrow> intent_row" where
  "new_intent env host obj act ev now =
     \<lparr>int_id = uuid4 env, int_key = idempotency_key env host obj act ev, int_host = host,
      int_object = obj, int_action = act, int_event = ev, int_state = INTENT_RECORDED,
      int_created_at = now, int_updated_at = now, int_result = None\<rparr>"

lemma claim_db:
  "claim_intent env host obj act ev p now db = (res, db') \<Longrightarrow> db' = db \<or>
   (\<exists>x. idempotency_key env host obj act ev \<notin> int_key ` set (intents db) \<and>
      uuid4 env \<notin> int_id ` set (intents db) \<and>
      (\<forall>r \<in> set (intents db). is_active r \<longrightarrow> intent_target r \<noteq> (host, obj, act)) \<and>
      db' =
        db\<lparr>intents := intents db @ [new_intent env host obj act ev now],
           audit_records := audit_records db @ [x]\<rparr>)"
  unfolding claim_intent_def Let_def
  by (auto dest!: transaction_result simp: find_None_iff active_intent_def is_active_def intent_target_def new_intent_def split: option.splits if_splits sum.splits)

lemma claim_claimed:
  assumes "claim_intent env host obj act ev p now db = (Inr c, db')" and "ic_claimed c"
  shows "\<exists>x. ic_intent_id c = uuid4 env \<and> ic_key c = idempotency_key env host obj act ev \<and>
    ic_key c \<notin> int_key ` set (intents db) \<and> uuid4 env \<notin> int_id ` set (intents db) \<and>
    db' = db\<lparr>intents := intents db @ [new_intent env host obj act ev now],
             audit_records := audit_records db @ [x]\<rparr>"
  using assms
  by (auto simp: claim_intent_def transaction_Inr find_None_iff new_intent_def Let_def
      split: option.splits if_splits)

lemma mark_db:
  "mark_execution_started env iid now db = (res, db') \<Longrightarrow> db' = db \<or>
   (\<exists>r x. find_intent db iid = Some r \<and> int_state r = INTENT_RECORDED \<and>
      db' =
        update_intent db iid (\<lambda>x. x\<lparr>int_state := EXECUTION_STARTED, int_updated_at := now\<rparr>)
          \<lparr>audit_records := audit_records db @ [x]\<rparr>)"
  unfolding mark_execution_started_def
  by (auto dest!: transaction_result simp: Let_def split: option.splits if_splits sum.splits)

lemma result_db:
  assumes "record_result env iid pl ok ex now db = (res, db')"
  shows "db' = db \<or>
   (\<exists>r x text. find_intent db iid = Some r \<and> int_state r \<notin> set FINAL_INTENT_STATES \<and>
      res = Inr (final_state ok ex) \<and>
      db' = update_intent db iid (\<lambda>x. x\<lparr>int_state := final_state ok ex, int_updated_at := now,
                                    int_result := Some text\<rparr>)
          \<lparr>audit_records := audit_records db @ [x]\<rparr>)"
proof (cases "db' = db")
  case False
  with assms show ?thesis
    unfolding record_result_def Let_def
    by (force dest!: transaction_result split: option.splits if_splits sum.splits)
qed simp

definition new_slot :: "string \<Rightarrow> string \<Rightarrow> string \<Rightarrow> rat \<Rightarrow> slot_row" where
  "new_slot host act iid now =
     \<lparr>slot_host = host, slot_action = act, slot_intent = iid, slot_state = SLOT_ACTIVE,
      slot_acquired_at = now, slot_updated_at = now\<rparr>"

lemma claim_slot_db:
  "claim_action_slot env host act iid now db = (res, db') \<Longrightarrow> db' = db \<or>
   (\<exists>x. (host, act) \<notin> slot_key ` set (action_slots db) \<and>
      db' =
        db\<lparr>action_slots := action_slots db @ [new_slot host act iid now],
           audit_records := audit_records db @ [x]\<rparr>)"
  unfolding claim_action_slot_def
  by (auto dest!: transaction_result simp: find_slot_None [symmetric] new_slot_def split: option.splits if_splits sum.splits)

lemma release_slot_db:
  "release_action_slot env host act iid now db = (res, db') \<Longrightarrow> db' = db \<or>
   (\<exists>s x. find_slot db host act = Some s \<and> slot_intent s = iid \<and> slot_state s = SLOT_ACTIVE \<and>
      db' =
        db\<lparr>action_slots := filter (\<lambda>s. \<not> slot_matches host act iid s) (action_slots db),
           audit_records := audit_records db @ [x]\<rparr>)"
  unfolding release_action_slot_def
  by (auto dest!: transaction_result simp: Let_def split: option.splits if_splits sum.splits)

lemma allow_db:
  "allow_action env h obj act now c k w db = (res, db') \<Longrightarrow> \<exists>m. db' = db\<lparr>action_ledger := m\<rparr>"
proof -
  assume "allow_action env h obj act now c k w db = (res, db')"
  then have "db' = db \<or> (\<exists>m. db' = db\<lparr>action_ledger := m\<rparr>)"
    unfolding allow_action_def Let_def
    by (auto dest!: transaction_result split: option.splits if_splits)
  moreover have "db = db\<lparr>action_ledger := action_ledger db\<rparr>" by simp
  ultimately show ?thesis by metis
qed

lemma record_action_db:
  "record_action env h obj act now ok db = (res, db') \<Longrightarrow> \<exists>m. db' = db\<lparr>action_ledger := m\<rparr>"
proof -
  assume "record_action env h obj act now ok db = (res, db')"
  then have "db' = db \<or> (\<exists>m. db' = db\<lparr>action_ledger := m\<rparr>)"
    unfolding record_action_def
    by (auto dest!: transaction_result split: option.splits if_splits)
  moreover have "db = db\<lparr>action_ledger := action_ledger db\<rparr>" by simp
  ultimately show ?thesis by metis
qed

subsection \<open>Reconciliation\<close>

text \<open>
  The two loops, as rewriting of the table: every row whose id was selected is parked, every slot
  that was active is parked, and one audit record is appended per row.
\<close>

definition park_intents :: "rat \<Rightarrow> string set \<Rightarrow> intent_row list \<Rightarrow> intent_row list" where
  "park_intents now ids rows =
     map (\<lambda>r. if int_id r \<in> ids
              then r\<lparr>int_state := RECONCILIATION_REQUIRED, int_updated_at := now\<rparr> else r) rows"

definition park_slots :: "rat \<Rightarrow> (string \<times> string) set \<Rightarrow> slot_row list \<Rightarrow> slot_row list" where
  "park_slots now ks rows =
     map (\<lambda>s. if slot_key s \<in> ks \<and> slot_state s = SLOT_ACTIVE
              then s\<lparr>slot_state := SLOT_RECONCILIATION_REQUIRED, slot_updated_at := now\<rparr> else s) rows"

lemma reconcile_intents_Commit:
  assumes "reconcile_intents env i rs now db k = Commit a d"
  shows "\<exists>xs j. k j (db\<lparr>intents := park_intents now (int_id ` set rs) (intents db),
                         audit_records := audit_records db @ xs\<rparr>) = Commit a d \<and>
               map aud_intent_id xs = map (Some \<circ> int_id) rs"
  using assms
proof (induction env i rs now db k rule: reconcile_intents.induct)
  case (1 env i now db k)
  moreover have "park_intents now {} (intents db) = intents db"
    by (simp add: park_intents_def)
  ultimately show ?case by (intro exI [of _ "[]"]) auto
next
  case (2 env i r rs now db k)
  let ?f = "\<lambda>x. x\<lparr>int_state := RECONCILIATION_REQUIRED, int_updated_at := now\<rparr>"
  let ?u = "update_intent db (int_id r) ?f"
  from "2.prems" obtain x where
    x: "reconcile_intents env (i + 2) rs now (?u\<lparr>audit_records := audit_records db @ [x]\<rparr>) k = Commit a d"
    "aud_intent_id x = Some (int_id r)"
    by auto
  from "2.IH" [OF x(1)] obtain xs j where
    xs: "k j (?u\<lparr>audit_records := audit_records db @ [x]\<rparr>
          \<lparr>intents := park_intents now (int_id ` set rs) (intents ?u),
           audit_records := (audit_records db @ [x]) @ xs\<rparr>) = Commit a d"
    "map aud_intent_id xs = map (Some \<circ> int_id) rs"
    by auto
  have "park_intents now (int_id ` set rs) (intents ?u) = park_intents now (int_id ` set (r # rs)) (intents db)"
    by (auto simp: park_intents_def)
  with xs x(2) show ?case
    by (intro exI [of _ "x # xs"] exI [of _ j]) (auto simp: update_intent_def)
qed

lemma park_slot_eq: "map (park_slot (slot_host s) (slot_action s) now) rows = park_slots now {slot_key s} rows"
  by (auto simp: park_slot_def park_slots_def slot_key_def)

lemma park_slots_park_slots: "park_slots now ks (park_slots now js rows) = park_slots now (js \<union> ks) rows"
  by (auto simp: park_slots_def slot_key_def)

lemma reconcile_slots_Commit:
  assumes "reconcile_slots env i ss now db k = Commit a d"
  shows "\<exists>xs j. k j (db\<lparr>action_slots := park_slots now (slot_key ` set ss) (action_slots db),
                         audit_records := audit_records db @ xs\<rparr>) = Commit a d \<and>
               map aud_intent_id xs = map (Some \<circ> slot_intent) ss"
  using assms
proof (induction env i ss now db k rule: reconcile_slots.induct)
  case (1 env i now db k)
  moreover have "park_slots now {} (action_slots db) = action_slots db"
    by (simp add: park_slots_def)
  ultimately show ?case by (intro exI [of _ "[]"]) auto
next
  case (2 env i s ss now db k)
  let ?u = "db\<lparr>action_slots := park_slots now {slot_key s} (action_slots db)\<rparr>"
  from "2.prems" obtain x where
    x: "reconcile_slots env (i + 2) ss now (?u\<lparr>audit_records := audit_records db @ [x]\<rparr>) k = Commit a d"
    "aud_intent_id x = Some (slot_intent s)"
    by (auto simp: park_slot_eq)
  from "2.IH" x(1) obtain xs j where
    xs: "k j (?u\<lparr>audit_records := audit_records db @ [x]\<rparr>
          \<lparr>action_slots := park_slots now (slot_key ` set ss) (action_slots ?u),
           audit_records := (audit_records db @ [x]) @ xs\<rparr>) = Commit a d"
    "map aud_intent_id xs = map (Some \<circ> slot_intent) ss"
    by (fastforce simp: park_slot_eq)
  with x(2) show ?case
    by (intro exI [of _ "x # xs"] exI [of _ j]) (auto simp: park_slots_park_slots)
qed

lemma pending_rows_set: "set (pending_rows db) = {r \<in> set (intents db). is_active r}"
  by (auto simp: pending_rows_def is_active_def)

lemma active_slots_set: "set (active_slots db) = {s \<in> set (action_slots db). slot_state s = SLOT_ACTIVE}"
  by (auto simp: active_slots_def)

lemma active_slots_frame [simp]:
  "active_slots (db\<lparr>intents := x\<rparr>) = active_slots db"
  "active_slots (db\<lparr>audit_records := y\<rparr>) = active_slots db"
  by (simp_all add: active_slots_def)

lemma reconcile_no_Rollback:
  "(\<And>j d. k j d \<noteq> Rollback c) \<Longrightarrow> reconcile_intents env i rs now db k \<noteq> Rollback c"
  "(\<And>j d. k j d \<noteq> Rollback c) \<Longrightarrow> reconcile_slots env i ss now db k \<noteq> Rollback c"
  by (induction env i rs now db k rule: reconcile_intents.induct; simp)
    (induction env i ss now db k rule: reconcile_slots.induct; simp)

lemma reconcile_db:
  assumes "reconcile_pending env now db = (res, db')"
  shows "res = Inr (pending_items db) \<and>
   (\<exists>xs. map aud_intent_id xs =
        map (Some \<circ> int_id) (pending_rows db) @ map (Some \<circ> slot_intent) (active_slots db) \<and>
      db' = db\<lparr>intents := park_intents now (int_id ` set (pending_rows db)) (intents db),
           action_slots := park_slots now (slot_key ` set (active_slots db)) (action_slots db),
           audit_records := audit_records db @ xs\<rparr>) \<or> (\<exists>e. res = Inl e) \<and> db' = db"
proof (cases res)
  case (Inl e)
  with assms show ?thesis
    by (auto simp: reconcile_pending_def dest: transaction_error)
next
  case (Inr a)
  from assms Inr have "reconcile_intents env 2 (pending_rows db) now db
       (\<lambda>i d. stmt env i (reconcile_slots env (i + 1) (active_slots d) now d
         (\<lambda>j d'. stmt env j (Commit (pending_items db) d')))) = Commit a db'"
    by (auto simp: reconcile_pending_def transaction_Inr reconcile_no_Rollback)
  then obtain xs i where xs: "map aud_intent_id xs = map (Some \<circ> int_id) (pending_rows db)"
    and "reconcile_slots env (i + 1) (active_slots db) now
        (db\<lparr>intents := park_intents now (int_id ` set (pending_rows db)) (intents db),
            audit_records := audit_records db @ xs\<rparr>)
        (\<lambda>j d'. stmt env j (Commit (pending_items db) d')) = Commit a db'"
    by (auto dest!: reconcile_intents_Commit)
  then obtain ys where "map aud_intent_id ys = map (Some \<circ> slot_intent) (active_slots db)"
    and "db' = db\<lparr>intents := park_intents now (int_id ` set (pending_rows db)) (intents db),
             action_slots := park_slots now (slot_key ` set (active_slots db)) (action_slots db),
             audit_records := audit_records db @ xs @ ys\<rparr>"
    and "a = pending_items db"
    by (auto dest!: reconcile_slots_Commit)
  with xs Inr show ?thesis
    by (intro disjI1 conjI exI [of _ "xs @ ys"]) simp_all
qed

section \<open>Well-formedness\<close>

lemma distinct_map_filter_refine:
  assumes "distinct (map t (filter Q xs))" and "\<And>x. x \<in> set xs \<Longrightarrow> t (g x) = t x"
    and "\<And>x. x \<in> set xs \<Longrightarrow> Q (g x) \<Longrightarrow> Q x"
  shows "distinct (map t (filter Q (map g xs)))"
  using assms
proof (induction xs)
  case (Cons x xs)
  then have "t ` {y \<in> g ` set xs. Q y} \<subseteq> t ` {y \<in> set xs. Q y}" by auto
  moreover have "distinct (map t (filter Q (map g xs)))"
    using Cons by (auto split: if_splits)
  ultimately show ?case
    using Cons.prems by (auto split: if_splits)
qed simp

text \<open>Rewriting intent rows in place, without touching their identity or reviving a final one.\<close>

lemma store_ok_map_intents:
  assumes "store_ok db" and "\<And>r. r \<in> set (intents db) \<Longrightarrow> is_active (g r) \<Longrightarrow> is_active r"
    and "\<And>r. int_id (g r) = int_id r" "\<And>r. int_key (g r) = int_key r"
    and "\<And>r. intent_target (g r) = intent_target r"
  shows "store_ok (db\<lparr>intents := map g (intents db)\<rparr>)"
proof -
  have "map (int_id \<circ> g) (intents db) = map int_id (intents db)"
    "map (int_key \<circ> g) (intents db) = map int_key (intents db)"
    using assms(3,4) by simp_all
  then have "distinct (map (int_id \<circ> g) (intents db))" "distinct (map (int_key \<circ> g) (intents db))"
    using assms(1) by (simp_all only: store_ok_def)
  moreover have "distinct (map intent_target (filter is_active (map g (intents db))))"
    using assms(1,2,5) by (intro distinct_map_filter_refine) (auto simp: store_ok_def)
  ultimately show ?thesis
    using assms(1) by (simp add: store_ok_def)
qed

lemma store_ok_frame [simp]:
  "store_ok (db\<lparr>audit_records := x\<rparr>) = store_ok db"
  "store_ok (db\<lparr>capabilities := c\<rparr>) = store_ok db"
  "store_ok (db\<lparr>action_ledger := m\<rparr>) = store_ok db"
  by (simp_all add: store_ok_def)

text \<open>Under well-formedness \<open>find_intent\<close> finds the only row with that id.\<close>

lemma find_intent_unique:
  assumes "store_ok db" and "find_intent db iid = Some r" and "r' \<in> set (intents db)" and "int_id r' = iid"
  shows "r' = r"
  using assms find_intent_SomeD [OF assms(2)]
  by (auto simp: store_ok_def distinct_map inj_on_def)

lemma not_final_iff_active: "int_state r \<notin> set FINAL_INTENT_STATES \<longleftrightarrow> is_active r"
  by (cases "int_state r") (auto simp: is_active_def FINAL_INTENT_STATES_def ACTIVE_INTENT_STATES_def)

lemma final_state_final [simp]: "final_state ok ex \<in> set FINAL_INTENT_STATES"
  by (simp add: final_state_def FINAL_INTENT_STATES_def)

lemma store_ok_update_intent:
  assumes "store_ok db" and "find_intent db iid = Some r" and "is_active r"
    and "\<And>r. int_id (f r) = int_id r" "\<And>r. int_key (f r) = int_key r"
    and "\<And>r. intent_target (f r) = intent_target r"
  shows "store_ok (update_intent db iid f)"
  unfolding update_intent_def
  using assms(3-) find_intent_unique [OF assms(1,2)]
  by (intro store_ok_map_intents [OF assms(1)]) (auto split: if_splits)

lemma distinct_map_slot_key_filter: "distinct (map slot_key xs) \<Longrightarrow> distinct (map slot_key (filter Q xs))"
  by (simp add: distinct_map_filter)

lemma store_ok_new_intent:
  assumes "store_ok db" "int_id r \<notin> int_id ` set (intents db)" "int_key r \<notin> int_key ` set (intents db)"
    and "\<forall>x \<in> set (intents db). is_active x \<longrightarrow> intent_target x \<noteq> intent_target r"
  shows "store_ok (db\<lparr>intents := intents db @ [r]\<rparr>)"
  using assms by (auto simp: store_ok_def)

lemma store_ok_reconcile:
  assumes "store_ok db"
  shows "store_ok (db\<lparr>intents := park_intents now (int_id ` set (pending_rows db)) (intents db),
                     action_slots := park_slots now ks (action_slots db)\<rparr>)"
proof -
  let ?g = "\<lambda>r. if int_id r \<in> int_id ` set (pending_rows db)
              then r\<lparr>int_state := RECONCILIATION_REQUIRED, int_updated_at := now\<rparr> else r"
  have "is_active r" if "r \<in> set (intents db)" "is_active (?g r)" for r
    using that assms
    by (auto simp: pending_rows_set store_ok_def distinct_map inj_on_def split: if_splits)
  then have "store_ok (db\<lparr>intents := map ?g (intents db)\<rparr>)"
    using assms by (intro store_ok_map_intents) (auto simp: intent_target_def)
  moreover have "map slot_key (park_slots now ks (action_slots db)) = map slot_key (action_slots db)"
    by (simp add: park_slots_def slot_key_def)
  ultimately show ?thesis
    by (simp add: store_ok_def park_intents_def)
qed

section \<open>The effects of an operation\<close>

text \<open>
  What an operation may do to the tables, independently of the SQL and of its failures (the functional contract is in
  \<open>Guardian_State_Contract\<close>): register
  or consume one capability, write a ledger row, record, start or finish one intent, park every
  unfinished intent and slot, claim or release one slot, or nothing.
\<close>

inductive store_effect :: "state_db \<Rightarrow> state_db \<Rightarrow> bool" where
  stutter: "store_effect db db"
| register: "capabilities db aid = None \<Longrightarrow> cap_consumed_at row = None \<Longrightarrow>
    store_effect db (db\<lparr>capabilities := (capabilities db)(aid \<mapsto> row)\<rparr>)"
| consume: "capabilities db aid = Some row \<Longrightarrow> cap_consumed_at row = None \<Longrightarrow>
    store_effect db (db\<lparr>capabilities := (capabilities db)(aid \<mapsto> consume_row now ev row),
                        audit_records := audit_records db @ [x]\<rparr>)"
| ledger: "store_effect db (db\<lparr>action_ledger := m\<rparr>)"
| claim: "int_id r \<notin> int_id ` set (intents db) \<Longrightarrow> int_key r \<notin> int_key ` set (intents db) \<Longrightarrow>
    \<forall>y \<in> set (intents db). is_active y \<longrightarrow> intent_target y \<noteq> intent_target r \<Longrightarrow>
    int_state r = INTENT_RECORDED \<Longrightarrow>
    store_effect db (db\<lparr>intents := intents db @ [r], audit_records := audit_records db @ [x]\<rparr>)"
| start: "find_intent db iid = Some r \<Longrightarrow> int_state r = INTENT_RECORDED \<Longrightarrow>
    store_effect db (update_intent db iid (\<lambda>x. x\<lparr>int_state := EXECUTION_STARTED, int_updated_at := now\<rparr>)
                       \<lparr>audit_records := audit_records db @ [x]\<rparr>)"
| finish: "find_intent db iid = Some r \<Longrightarrow> is_active r \<Longrightarrow> st \<in> set FINAL_INTENT_STATES \<Longrightarrow>
    store_effect db (update_intent db iid (\<lambda>x. x\<lparr>int_state := st, int_updated_at := now,
                                                 int_result := Some text\<rparr>)
                       \<lparr>audit_records := audit_records db @ [x]\<rparr>)"
| park: "store_effect db
    (db\<lparr>intents := park_intents now (int_id ` set (pending_rows db)) (intents db),
        action_slots := park_slots now (slot_key ` set (active_slots db)) (action_slots db),
        audit_records := audit_records db @ xs\<rparr>)"
| claim_slot: "slot_key s \<notin> slot_key ` set (action_slots db) \<Longrightarrow>
    store_effect db (db\<lparr>action_slots := action_slots db @ [s], audit_records := audit_records db @ [x]\<rparr>)"
| release_slot: "store_effect db
    (db\<lparr>action_slots := filter (\<lambda>s. \<not> slot_matches host act iid s) (action_slots db),
        audit_records := audit_records db @ [x]\<rparr>)"

lemmas pair_dest = prod.collapse [symmetric]

lemma new_intent_simps [simp]:
  "int_id (new_intent env h obj act ev now) = uuid4 env"
  "int_key (new_intent env h obj act ev now) = idempotency_key env h obj act ev"
  "int_state (new_intent env h obj act ev now) = INTENT_RECORDED"
  "intent_target (new_intent env h obj act ev now) = (h, obj, act)"
  by (simp_all add: new_intent_def intent_target_def)

lemma image_map_if:
  "(\<And>r. t (f r) = t r) \<Longrightarrow> t ` set (map (\<lambda>r. if Q r then f r else r) xs) = t ` set xs"
  by (induction xs) auto

lemma store_effect_keys: "store_effect db db' \<Longrightarrow> int_key ` set (intents db) \<subseteq> int_key ` set (intents db')"
  by (induction rule: store_effect.induct) (auto simp: park_intents_def image_map_if simp del: set_map)

lemma new_slot_key [simp]: "slot_key (new_slot h act iid now) = (h, act)"
  by (simp add: new_slot_def slot_key_def)

lemma store_step_effect: "store_effect db (store_step db x)"
proof (cases x)
  case (Register env a)
  then show ?thesis
    using register_db [OF pair_dest, of env a db]
      store_effect.register [of db "approval_id a" "new_capability a"]
    by (auto intro: store_effect.stutter)
next
  case (Consume env a ev now)
  then show ?thesis
    using consume_db [OF pair_dest, of env a ev now db]
    by (auto intro: store_effect.stutter store_effect.consume)
next
  case (ClaimIntent env h obj act ev p now)
  then show ?thesis
    using claim_db [OF pair_dest, of env h obj act ev p now db]
    by (auto intro: store_effect.stutter intro!: store_effect.claim)
next
  case (MarkStarted env iid now)
  then show ?thesis
    using mark_db [OF pair_dest, of env iid now db]
    by (auto intro: store_effect.stutter store_effect.start)
next
  case (RecordResult env iid res ok ex now)
  then show ?thesis
    using result_db [OF pair_dest, of env iid res ok ex now db]
    by (auto simp: not_final_iff_active intro: store_effect.stutter store_effect.finish [OF _ _ final_state_final])
next
  case (Reconcile env now)
  then show ?thesis
    using reconcile_db [OF pair_dest, of env now db]
    by (auto intro: store_effect.stutter store_effect.park)
next
  case (ClaimSlot env h act iid now)
  then show ?thesis
    using claim_slot_db [OF pair_dest, of env h act iid now db]
    by (auto intro: store_effect.stutter intro!: store_effect.claim_slot)
next
  case (ReleaseSlot env h act iid now)
  then show ?thesis
    using release_slot_db [OF pair_dest, of env h act iid now db]
    by (auto intro: store_effect.stutter store_effect.release_slot)
next
  case (AllowAction env h obj act now c m w)
  then show ?thesis
    using allow_db [OF pair_dest, of env h obj act now c m w db]
    by (auto intro: store_effect.ledger)
next
  case (RecordAction env h obj act now ok)
  then show ?thesis
    using record_action_db [OF pair_dest, of env h obj act now ok db]
    by (auto intro: store_effect.ledger)
qed

lemma store_effect_ok: "store_effect db db' \<Longrightarrow> store_ok db \<Longrightarrow> store_ok db'"
proof (induction rule: store_effect.induct)
  case (start db iid r now x)
  then show ?case
    by (auto simp: is_active_def ACTIVE_INTENT_STATES_def intent_target_def intro!: store_ok_update_intent)
next
  case (finish db iid r st now js x)
  then show ?case
    by (auto simp: intent_target_def intro!: store_ok_update_intent)
next
  case (park db now xs)
  then show ?case by (auto intro: store_ok_reconcile)
next
  case (claim_slot s db x)
  then show ?case by (auto simp: store_ok_def)
next
  case (release_slot db host act iid x)
  then show ?case by (simp add: store_ok_def distinct_map_slot_key_filter)
qed (auto intro: store_ok_new_intent)

interpretation store_inv: invariant_system store_step store_ok
  by unfold_locales (rule store_effect_ok [OF store_step_effect])

interpretation store_audit: append_only store_step audit_records
proof unfold_locales
  fix db x
  show "prefix (audit_records db) (audit_records (store_step db x))"
    using store_step_effect [of db x] by (cases rule: store_effect.cases) auto
qed

interpretation capability_grant: one_shot store_step consumed_approval is_consumed
proof unfold_locales
  fix db x k
  assume *: "consumed_approval db x = Some k"
  then obtain env a ev now d where x: "x = Consume env a ev now" "k = approval_id a"
    and d: "fst (consume_capability env a ev now db) = Inr d" "cd_allowed d"
    by (cases "(db, x)" rule: consumed_approval.cases) (auto split: sum.splits if_splits)
  from d have "consume_capability env a ev now db = (Inr d, snd (consume_capability env a ev now db))"
    by (metis prod.collapse)
  from consume_allowed [OF this d(2)] x
  show "\<not> is_consumed db k" "is_consumed (store_step db x) k"
    by (auto simp: is_consumed_def consume_row_def)
next
  fix db x k
  assume "is_consumed db k"
  with store_step_effect [of db x] show "is_consumed (store_step db x) k"
    by (cases rule: store_effect.cases) (auto simp: is_consumed_def consume_row_def)
qed

interpretation intent_grant: one_shot store_step claimed_key key_used
proof unfold_locales
  fix db x k
  assume "claimed_key db x = Some k"
  then obtain env h obj act ev p now c where x: "x = ClaimIntent env h obj act ev p now" "k = ic_key c"
    and c: "fst (claim_intent env h obj act ev p now db) = Inr c" "ic_claimed c"
    by (cases "(db, x)" rule: claimed_key.cases) (auto split: sum.splits if_splits)
  from c have "claim_intent env h obj act ev p now db = (Inr c, snd (claim_intent env h obj act ev p now db))"
    by (metis prod.collapse)
  from claim_claimed [OF this c(2)] x
  show "\<not> key_used db k" "key_used (store_step db x) k"
    by (auto simp: key_used_def)
next
  fix db x k
  assume "key_used db k"
  with store_step_effect [of db x] show "key_used (store_step db x) k"
    unfolding key_used_def using store_effect_keys by blast
qed

section \<open>Life cycle of an intent\<close>

inductive intent_moves :: "intent_state \<Rightarrow> intent_state \<Rightarrow> bool" where
  begins: "intent_moves INTENT_RECORDED EXECUTION_STARTED"
| parks: "st \<in> set ACTIVE_INTENT_STATES \<Longrightarrow> intent_moves st RECONCILIATION_REQUIRED"
| ends: "st \<in> set ACTIVE_INTENT_STATES \<Longrightarrow> st' \<in> set FINAL_INTENT_STATES \<Longrightarrow> intent_moves st st'"

inductive_simps intent_moves_iff: "intent_moves st st'"

text \<open>The row \<open>r\<close> has become \<open>r'\<close>: same identity, state moved along the life cycle.\<close>

definition evolves :: "intent_row \<Rightarrow> intent_row \<Rightarrow> bool" where
  "evolves r r' \<longleftrightarrow> int_id r' = int_id r \<and> int_key r' = int_key r \<and>
     intent_target r' = intent_target r \<and> int_event r' = int_event r \<and>
     int_created_at r' = int_created_at r \<and>
     intent_moves\<^sup>*\<^sup>* (int_state r) (int_state r') \<and>
     (int_state r \<in> set FINAL_INTENT_STATES \<longrightarrow> r' = r)"

lemma evolves_refl [simp]: "evolves r r"
  by (simp add: evolves_def)

lemma final_stuck: "intent_moves st st' \<Longrightarrow> st \<notin> set FINAL_INTENT_STATES"
  by (auto simp: intent_moves_iff ACTIVE_INTENT_STATES_def FINAL_INTENT_STATES_def)

lemma evolves_trans: "evolves r s \<Longrightarrow> evolves s t \<Longrightarrow> evolves r t"
  unfolding evolves_def by (metis rtranclp_trans)

lemma evolves_update:
  assumes "int_id r' = int_id r" "int_key r' = int_key r" "intent_target r' = intent_target r"
    and "int_event r' = int_event r" "int_created_at r' = int_created_at r"
    and "intent_moves (int_state r) (int_state r')"
  shows "evolves r r'"
  using assms final_stuck by (auto simp: evolves_def)

lemma park_intents_other:
  "r \<in> set rows \<Longrightarrow> int_id r \<notin> ids \<Longrightarrow> r \<in> set (park_intents now ids rows)"
  by (force simp: park_intents_def)

lemma store_effect_evolves:
  assumes "store_effect db db'" and "store_ok db" and "r \<in> set (intents db)"
  shows "\<exists>r' \<in> set (intents db'). evolves r r'"
  using assms
proof (induction rule: store_effect.induct)
  case (start db iid q y now)
  show ?case
  proof (cases "int_id r = iid")
    case True
    with start have "q = r" using find_intent_unique by blast
    with start True have "evolves r (r\<lparr>int_state := EXECUTION_STARTED, int_updated_at := now\<rparr>)"
      by (intro evolves_update) (auto simp: intent_target_def intent_moves_iff)
    with start True show ?thesis by fastforce
  qed (use start in \<open>auto intro!: bexI [of _ r]\<close>)
next
  case (finish db iid q st y js now)
  show ?case
  proof (cases "int_id r = iid")
    case True
    with finish have "q = r" using find_intent_unique by blast
    with finish True have "evolves r (r\<lparr>int_state := st, int_updated_at := now, int_result := Some js\<rparr>)"
      by (intro evolves_update) (auto simp: intent_target_def intent_moves_iff is_active_def)
    with finish True show ?thesis by fastforce
  qed (use finish in \<open>auto intro!: bexI [of _ r]\<close>)
next
  case (park db xs now)
  show ?case
  proof (cases "is_active r")
    case True
    then have "evolves r (r\<lparr>int_state := RECONCILIATION_REQUIRED, int_updated_at := now\<rparr>)"
      by (intro evolves_update) (auto simp: intent_target_def intent_moves_iff is_active_def)
    moreover from True park have "int_id r \<in> int_id ` set (pending_rows db)"
      by (auto simp: pending_rows_set)
    ultimately show ?thesis
      using park by (fastforce simp: park_intents_def)
  next
    case False
    with park have "int_id r \<notin> int_id ` set (pending_rows db)"
      by (auto simp: pending_rows_set store_ok_def distinct_map inj_on_def)
    then show ?thesis
      using park_intents_other park.prems by (intro bexI [of _ r]) auto
  qed
qed (auto intro: bexI [where x = r])

lemma run_evolves:
  "store_ok db \<Longrightarrow> r \<in> set (intents db) \<Longrightarrow> \<exists>r' \<in> set (intents (exec_all store_step db ops)). evolves r r'"
proof (induction ops arbitrary: db r)
  case (Cons x ops)
  from store_effect_evolves [OF store_step_effect Cons.prems] obtain s where
    "s \<in> set (intents (store_step db x))" "evolves r s" by blast
  moreover from this Cons obtain t where
    "t \<in> set (intents (exec_all store_step (store_step db x) ops))" "evolves s t"
    using store_inv.step_inv by blast
  ultimately show ?case by (auto intro: evolves_trans)
qed (auto intro: evolves_refl)

section \<open>Slots\<close>

definition slot_held :: "state_db \<Rightarrow> string \<Rightarrow> string \<Rightarrow> string \<Rightarrow> bool" where
  "slot_held db h act iid \<longleftrightarrow>
     (h, act) \<in> slot_key ` set (action_slots db) \<and>
     (\<forall>s \<in> set (action_slots db). slot_key s = (h, act) \<longrightarrow> slot_intent s = iid)"

definition releases :: "string \<Rightarrow> string \<Rightarrow> string \<Rightarrow> store_op \<Rightarrow> bool" where
  "releases h act iid x = (\<exists>env now. x = ReleaseSlot env h act iid now)"

lemma slots_frame:
  "action_slots (snd (register_capability env a db)) = action_slots db"
  "action_slots (snd (consume_capability env a ev now db)) = action_slots db"
  "action_slots (snd (claim_intent env h obj act ev p now db)) = action_slots db"
  "action_slots (snd (mark_execution_started env iid now db)) = action_slots db"
  "action_slots (snd (record_result env iid p ok ex now db)) = action_slots db"
  "action_slots (snd (allow_action env h obj act now c m w db)) = action_slots db"
  "action_slots (snd (record_action env h obj act now ok db)) = action_slots db"
  using register_db [OF pair_dest, of env a db] consume_db [OF pair_dest, of env a ev now db]
    claim_db [OF pair_dest, of env h obj act ev p now db] mark_db [OF pair_dest, of env iid now db]
    result_db [OF pair_dest, of env iid p ok ex now db]
    allow_db [OF pair_dest, of env h obj act now c m w db]
    record_action_db [OF pair_dest, of env h obj act now ok db]
  by auto

lemma slot_held_step:
  assumes "slot_held db h act iid" and "\<not> releases h act iid x"
  shows "slot_held (store_step db x) h act iid"
proof (cases x)
  case (ClaimSlot env h' act' iid' now)
  then show ?thesis
    using claim_slot_db [OF pair_dest, of env h' act' iid' now db] assms(1)
    by (auto simp: slot_held_def)
next
  case (ReleaseSlot env h' act' iid' now)
  have "\<not> slot_matches h' act' iid' s"
    if "s \<in> set (action_slots db)" "slot_key s = (h, act)" for s
    using assms ReleaseSlot that by (auto simp: slot_held_def releases_def slot_key_def slot_matches_def)
  then show ?thesis
    using release_slot_db [OF pair_dest, of env h' act' iid' now db] assms(1) ReleaseSlot
    by (fastforce simp: slot_held_def)
next
  case (Reconcile env now)
  have "slot_key ` set (park_slots now ks xs) = slot_key ` set xs" for ks xs
    unfolding park_slots_def by (rule image_map_if) (simp add: slot_key_def)
  moreover have "\<forall>s \<in> set (park_slots now ks (action_slots db)).
      slot_key s = (h, act) \<longrightarrow> slot_intent s = iid" for ks
    using assms(1) by (auto simp: slot_held_def park_slots_def slot_key_def)
  ultimately show ?thesis
    using reconcile_db [OF pair_dest, of env now db] assms(1) Reconcile
    by (auto simp: slot_held_def)
qed (use assms(1) in \<open>simp_all add: slot_held_def slots_frame\<close>)

lemma slot_held_run:
  "slot_held db h act iid \<Longrightarrow> \<forall>x \<in> set ops. \<not> releases h act iid x \<Longrightarrow>
   slot_held (exec_all store_step db ops) h act iid"
  by (induction ops arbitrary: db) (simp_all add: slot_held_step)

lemma claim_slot_True:
  assumes "claim_action_slot env h act iid now db = (Inr True, db')"
  shows "(h, act) \<notin> slot_key ` set (action_slots db) \<and> slot_held db' h act iid"
proof -
  from assms have "(h, act) \<notin> slot_key ` set (action_slots db)"
    and "action_slots db' = action_slots db @ [new_slot h act iid now]"
    by (auto simp: claim_action_slot_def transaction_Inr find_slot_None [symmetric] new_slot_def
        split: option.splits)
  moreover have "slot_intent (new_slot h act iid now) = iid"
    by (simp add: new_slot_def)
  ultimately show ?thesis
    by (auto simp: slot_held_def image_iff)
qed

lemma parked_slot_stays:
  assumes "store_effect db db'" and "s \<in> set (action_slots db)" and "slot_state s = SLOT_RECONCILIATION_REQUIRED"
  shows "s \<in> set (action_slots db')"
  using assms by (induction rule: store_effect.induct) (auto simp: park_slots_def slot_matches_def intro!: rev_image_eqI)

section \<open>Properties\<close>

text \<open>An operation that raises.\<close>

fun store_raises :: "state_db \<Rightarrow> store_op \<Rightarrow> bool" where
  "store_raises db (Register env a) = isl (fst (register_capability env a db))"
| "store_raises db (Consume env a ev now) = isl (fst (consume_capability env a ev now db))"
| "store_raises db (ClaimIntent env h obj act ev p now) = isl (fst (claim_intent env h obj act ev p now db))"
| "store_raises db (MarkStarted env iid now) = isl (fst (mark_execution_started env iid now db))"
| "store_raises db (RecordResult env iid res ok ex now) = isl (fst (record_result env iid res ok ex now db))"
| "store_raises db (Reconcile env now) = isl (fst (reconcile_pending env now db))"
| "store_raises db (ClaimSlot env h act iid now) = isl (fst (claim_action_slot env h act iid now db))"
| "store_raises db (ReleaseSlot env h act iid now) = isl (fst (release_action_slot env h act iid now db))"
| "store_raises db (AllowAction env h obj act now c m w) = isl (fst (allow_action env h obj act now c m w db))"
| "store_raises db (RecordAction env h obj act now ok) = isl (fst (record_action env h obj act now ok db))"

text \<open>Concrete environment and databases for the witnesses.\<close>

definition env_ok :: sql_env where
  "env_ok = no_faults (\<lambda>_. Some ''{}'') ''intent-1'' (\<lambda>s. s)"

definition env_locked :: sql_env where
  "env_locked = env_ok\<lparr>stmt_error := (\<lambda>i. if i = 0 then Some ''database is locked'' else None)\<rparr>"

definition db_recorded :: state_db where
  "db_recorded = snd (claim_intent env_ok ''h'' ''c'' ''graceful_stop'' ''e'' (PDict []) 10 empty_db)"

definition db_started :: state_db where
  "db_started = snd (mark_execution_started env_ok ''intent-1'' 11 db_recorded)"

definition db_finished :: state_db where
  "db_finished = snd (record_result env_ok ''intent-1'' (PDict []) True True 12 db_started)"

definition db_slot :: state_db where
  "db_slot = snd (claim_action_slot env_ok ''h'' ''graceful_stop'' ''intent-1'' 10 empty_db)"

lemma env_ok_simps [simp]:
  "stmt env_ok i k = k" "json_dumps env_ok = (\<lambda>_. Some ''{}'')" "uuid4 env_ok = ''intent-1''"
  "sha256_hex env_ok = (\<lambda>s. s)" "open_error env_ok = None" "stmt_error env_ok i = None"
  by (simp_all add: env_ok_def) (simp add: no_faults_def)

lemmas store_eval = transaction_def audit_def state_json_def MAX_STATE_JSON_BYTES_def find_intent_def
  update_intent_def Let_def

lemma db_recorded_eval:
  "db_recorded = empty_db\<lparr>intents := [new_intent env_ok ''h'' ''c'' ''graceful_stop'' ''e'' 10],
     audit_records := [\<lparr>aud_intent_id = Some ''intent-1'', aud_kind = ''intent_recorded'',
                        aud_payload = ''{}'', aud_recorded_at = 10\<rparr>]\<rparr>"
  by (simp add: db_recorded_def claim_intent_def store_eval empty_db_def new_intent_def)

lemma db_started_eval:
  "intents db_started = [(new_intent env_ok ''h'' ''c'' ''graceful_stop'' ''e'' 10)
       \<lparr>int_state := EXECUTION_STARTED, int_updated_at := 11\<rparr>]"
  by (simp add: db_started_def db_recorded_eval mark_execution_started_def store_eval)

lemma db_finished_eval:
  "intents db_finished = [(new_intent env_ok ''h'' ''c'' ''graceful_stop'' ''e'' 10)
       \<lparr>int_state := SUCCEEDED, int_updated_at := 12, int_result := Some ''{}''\<rparr>]"
  by (simp add: db_finished_def db_started_eval record_result_def store_eval final_state_def
      FINAL_INTENT_STATES_def)

lemma store_ok_empty [simp]: "store_ok empty_db"
  by (simp add: store_ok_def empty_db_def)

lemma db_chain_ok: "store_ok db_recorded" "store_ok db_started" "store_ok db_finished"
proof -
  show r: "store_ok db_recorded"
    using store_inv.step_inv [of empty_db "ClaimIntent env_ok ''h'' ''c'' ''graceful_stop'' ''e'' (PDict []) 10"]
    by (simp add: db_recorded_def)
  then show s: "store_ok db_started"
    using store_inv.step_inv [of db_recorded "MarkStarted env_ok ''intent-1'' 11"]
    by (simp add: db_started_def)
  then show "store_ok db_finished"
    using store_inv.step_inv [of db_started "RecordResult env_ok ''intent-1'' (PDict []) True True 12"]
    by (simp add: db_finished_def)
qed

text \<open>
  In any sequence of store operations, from any database and with any SQL failures in between,
  each approval is consumed successfully at most once.
\<close>
theorem capability_consumed_once: "distinct (granted store_step consumed_approval db ops)"
  by (rule capability_grant.granted_once)

text \<open>
  In any sequence of store operations each idempotency key (host, object, action, event) is
  claimed successfully at most once: a replayed event never obtains a second intent.
\<close>
theorem intent_claimed_once: "distinct (granted store_step claimed_key db ops)"
  by (rule intent_grant.granted_once)

text \<open>
  C30. Every database reachable from the empty one has unique intent ids and idempotency keys, at
  most one active intent per host, object and action, and at most one slot per host and action.
\<close>
theorem store_reachable_ok: "store_ok (exec_all store_step empty_db ops)"
  by (rule store_inv.run_inv) simp

text \<open>
  Intents only move along the documented life cycle: whatever operations follow, the row keeps
  its identity and creation time, its state is reached by life cycle moves, and once it is
  PLANNED, SUCCEEDED or FAILED the whole row is frozen.
\<close>
theorem intent_life_cycle:
  assumes "store_ok db" and "r \<in> set (intents db)"
  shows "\<exists>r' \<in> set (intents (exec_all store_step db ops)). evolves r r'"
  using assms by (rule run_evolves)

theorem intent_life_cycle_witness:
  "\<exists>r' \<in> set (intents (exec_all store_step db_finished [Reconcile env_ok 50])).
     evolves (hd (intents db_finished)) r'"
  by (rule intent_life_cycle) (simp_all add: db_chain_ok db_finished_eval)

text \<open>
  C19. After a successful \<open>reconcile_pending\<close> no intent is INTENT_RECORDED or EXECUTION_STARTED and no
  slot is ACTIVE, the returned list names exactly the intents that were unfinished and the slots
  that were held, and no intent can be started any more: nothing is retried automatically.
\<close>
theorem reconcile_never_retries:
  assumes "reconcile_pending env now db = (Inr items, db')"
  shows "(\<forall>r \<in> set (intents db'). int_state r \<notin> {INTENT_RECORDED, EXECUTION_STARTED}) \<and>
    (\<forall>s \<in> set (action_slots db'). slot_state s \<noteq> SLOT_ACTIVE) \<and>
    items = pending_items db \<and>
    fst (mark_execution_started env' iid now' db') \<noteq> Inr True"
proof -
  from reconcile_db [OF assms] obtain xs where
    db': "db' = db\<lparr>intents := park_intents now (int_id ` set (pending_rows db)) (intents db),
           action_slots := park_slots now (slot_key ` set (active_slots db)) (action_slots db),
           audit_records := audit_records db @ xs\<rparr>"
    and items: "items = pending_items db" by auto
  have states: "int_state r \<notin> {INTENT_RECORDED, EXECUTION_STARTED}" if "r \<in> set (intents db')" for r
    using that by (auto simp: db' park_intents_def pending_rows_set is_active_def ACTIVE_INTENT_STATES_def
        split: if_splits)
  have "slot_state s \<noteq> SLOT_ACTIVE" if "s \<in> set (action_slots db')" for s
    using that by (auto simp: db' park_slots_def active_slots_set split: if_splits)
  moreover have "fst (mark_execution_started env' iid now' db') \<noteq> Inr True"
    using states find_intent_SomeD [of db' iid]
    by (auto simp: mark_execution_started_def transaction_def stmt_def
        split: option.splits tx.splits)
  ultimately show ?thesis
    using states items by blast
qed

theorem reconcile_never_retries_witness:
  "fst (reconcile_pending env_ok 50 db_started) = Inr (pending_items db_started) \<and>
   fst (mark_execution_started env_ok ''intent-1'' 51 (snd (reconcile_pending env_ok 50 db_started)))
     \<noteq> Inr True"
proof -
  have "fst (reconcile_pending env_ok 50 db_started) = Inr (pending_items db_started)"
    by (simp add: reconcile_pending_def store_eval pending_rows_def db_started_eval is_active_def
        ACTIVE_INTENT_STATES_def active_slots_def db_started_def db_recorded_eval
        mark_execution_started_def empty_db_def)
  then have "reconcile_pending env_ok 50 db_started =
      (Inr (pending_items db_started), snd (reconcile_pending env_ok 50 db_started))"
    by (metis prod.collapse)
  from reconcile_never_retries [OF this, of env_ok "''intent-1''" 51] \<open>fst _ = _\<close>
  show ?thesis by blast
qed

text \<open>
  A store operation that raises leaves every table as it was, whichever statement failed.
\<close>
theorem store_error_atomic:
  assumes "store_raises db x"
  shows "store_step db x = db"
  using assms
  by (cases x)
    (auto simp: register_capability_def consume_capability_def claim_intent_def
      mark_execution_started_def record_result_def reconcile_pending_def claim_action_slot_def
      release_action_slot_def allow_action_def record_action_def authorization_fields_def Let_def
      transaction_isl split: if_splits)

theorem store_error_atomic_witness:
  "store_raises db_recorded (MarkStarted env_locked ''intent-1'' 11) \<and>
   store_step db_recorded (MarkStarted env_locked ''intent-1'' 11) = db_recorded"
proof -
  have "store_raises db_recorded (MarkStarted env_locked ''intent-1'' 11)"
    by (simp add: mark_execution_started_def transaction_def env_locked_def stmt_def)
  with store_error_atomic show ?thesis by blast
qed

text \<open>The audit trail is append-only: no operation removes or rewrites an audit record.\<close>
theorem audit_append_only:
  "prefix (audit_records db) (audit_records (exec_all store_step db ops))"
  by (rule store_audit.run_extends)

text \<open>
  Once an intent holds the slot of a host and action, no other claim of that slot succeeds,
  whatever operations run in between, until that intent releases it.
\<close>
theorem slot_exclusive:
  assumes "claim_action_slot env h act iid now db = (Inr True, db')"
    and "\<forall>x \<in> set ops. \<not> releases h act iid x"
  shows "fst (claim_action_slot env2 h act iid2 now2 (exec_all store_step db' ops)) \<noteq> Inr True"
proof -
  let ?d = "exec_all store_step db' ops"
  from claim_slot_True [OF assms(1)] assms(2) have "slot_held ?d h act iid"
    by (blast intro: slot_held_run)
  then have "(h, act) \<in> slot_key ` set (action_slots ?d)"
    by (simp add: slot_held_def)
  then show ?thesis
    using claim_slot_True [of env2 h act iid2 now2 ?d] by (metis prod.collapse)
qed

theorem slot_exclusive_witness:
  "fst (claim_action_slot env_ok ''h'' ''graceful_stop'' ''intent-2'' 20
     (exec_all store_step db_slot [Reconcile env_ok 15])) \<noteq> Inr True"
proof -
  have "claim_action_slot env_ok ''h'' ''graceful_stop'' ''intent-1'' 10 empty_db = (Inr True, db_slot)"
    by (simp add: db_slot_def claim_action_slot_def store_eval find_slot_def empty_db_def)
  then show ?thesis
    by (rule slot_exclusive) (simp add: releases_def)
qed

text \<open>
  A slot parked as RECONCILIATION_REQUIRED after a crash is never freed by any operation of the
  store: it blocks its host and action until a human intervenes.
\<close>
theorem parked_slot_kept:
  assumes "s \<in> set (action_slots db)" and "slot_state s = SLOT_RECONCILIATION_REQUIRED"
  shows "s \<in> set (action_slots (exec_all store_step db ops))"
  using assms
proof (induction ops arbitrary: db)
  case (Cons x ops)
  then show ?case using parked_slot_stays [OF store_step_effect] by simp
qed simp

definition parked_example :: slot_row where
  "parked_example = (new_slot ''h'' ''graceful_stop'' ''intent-1'' 10)
     \<lparr>slot_state := SLOT_RECONCILIATION_REQUIRED, slot_updated_at := 15\<rparr>"

theorem parked_slot_kept_witness:
  "parked_example \<in> set (action_slots (exec_all store_step (empty_db\<lparr>action_slots := [parked_example]\<rparr>)
     [ReleaseSlot env_ok ''h'' ''graceful_stop'' ''intent-1'' 20, Reconcile env_ok 30]))"
  by (rule parked_slot_kept) (simp_all add: parked_example_def)

end
