(* ===== verification/Guardian_Recovery.thy ===== *)
theory Guardian_Recovery
  imports Guardian_Text Guardian_State_Laws
begin

text \<open>
  Recovery assessment and the in-memory cooldown ledger (\<open>src/guardian_recovery.py\<close>), and the
  locale \<open>cooldown_guard\<close>: the contract the controller relies on, interpreted both on the
  in-memory ledger and on the durable ledger of \<open>guardian_state.py\<close>.
\<close>

section \<open>Policies, observations and results\<close>

record recovery_policy =
  rp_action :: string
  rp_max_wait :: pyfloat
  rp_healthy :: "string set"

record recovery_observation =
  ro_target_id :: string
  ro_present :: bool
  ro_running :: bool
  ro_health :: "string option"
  ro_risk_state :: string
  ro_after :: pyfloat
  ro_exit_code :: "int option"

record recovery_result =
  rr_state :: string
  rr_recovered :: bool
  rr_reasons :: "string list"

record host_observation =
  ho_before_available :: "pyfloat option"
  ho_after_available :: "pyfloat option"
  ho_before_psi :: "pyfloat option"
  ho_after_psi :: "pyfloat option"
  ho_before_oom :: "int option"
  ho_after_oom :: "int option"
  ho_risk_state :: string
  ho_after :: pyfloat
  ho_resource_kind :: string
  ho_before_state :: "string option"
  ho_after_state :: "string option"

record host_policy =
  hp_max_wait :: pyfloat
  hp_min_available :: pyfloat
  hp_min_psi :: pyfloat

definition default_host_policy :: host_policy where
  "default_host_policy = \<lparr>hp_max_wait = Fin 30, hp_min_available = Fin (1 / 10), hp_min_psi = Fin (1 / 10)\<rparr>"

record business_observation =
  bo_target_id :: string
  bo_present :: bool
  bo_running :: bool
  bo_health :: "string option"
  bo_probe_ok :: "bool option"
  bo_after :: pyfloat

record business_policy =
  bp_max_wait :: pyfloat
  bp_healthy :: "string set"
  bp_require_probe :: bool
  bp_action :: string

record two_layer_result =
  tl_host_state :: string
  tl_business_state :: string
  tl_overall_state :: string
  tl_host_mitigated :: bool
  tl_business_recovered :: bool
  tl_reasons :: "string list"

definition result :: "string \<Rightarrow> bool \<Rightarrow> string \<Rightarrow> recovery_result" where
  "result st ok reason = \<lparr>rr_state = st, rr_recovered = ok, rr_reasons = [reason]\<rparr>"

section \<open>Assessment\<close>

definition opt_in :: "string option \<Rightarrow> string set \<Rightarrow> bool" where
  "opt_in v S = (case v of None \<Rightarrow> False | Some s \<Rightarrow> s \<in> S)"

definition assess_recovery :: "recovery_policy \<Rightarrow> recovery_observation \<Rightarrow> recovery_result" where
  "assess_recovery p ob =
     (if flt (ro_after ob) (Fin 0) then result ''failed'' False ''invalid_observation_time''
      else if flt (rp_max_wait p) (ro_after ob) then result ''failed'' False ''recovery_window_expired''
      else if rp_action p \<in> {''graceful_stop'', ''terminate''} then
        (let recovered = \<not> ro_present ob \<or> \<not> ro_running ob
         in if recovered \<and> rp_action p = ''graceful_stop'' \<and> ro_exit_code ob = Some 137
            then result ''failed'' False ''target_force_killed''
            else if recovered \<and> rp_action p = ''graceful_stop'' \<and> ro_exit_code ob \<noteq> None \<and>
                    ro_exit_code ob \<notin> {Some 0, Some 143}
            then result ''failed'' False ''target_stopped_nonzero_exit''
            else if recovered
            then result ''recovered'' True
                   (if rp_action p = ''graceful_stop'' \<and> ro_exit_code ob = Some 143
                    then ''target_stopped_sigterm'' else ''target_stopped'')
            else result ''pending'' False ''target_still_running'')
      else if rp_action p = ''restart'' then
        (if ro_present ob \<and> ro_running ob \<and> opt_in (ro_health ob) (rp_healthy p) \<and>
            ro_risk_state ob \<in> {''normal'', ''recovered''}
         then result ''recovered'' True ''target_healthy''
         else result ''pending'' False ''target_not_healthy'')
      else result ''failed'' False ''unsupported_recovery_action'')"

definition assess_host_mitigation :: "host_policy \<Rightarrow> host_observation \<Rightarrow> recovery_result" where
  "assess_host_mitigation p ob =
     (if flt (ho_after ob) (Fin 0) then result ''failed'' False ''invalid_observation_time''
      else if flt (hp_max_wait p) (ho_after ob) then result ''failed'' False ''host_recovery_window_expired''
      else if ho_resource_kind ob \<noteq> ''memory'' then
        (if \<not> opt_in (ho_before_state ob) {''warning'', ''critical'', ''critical_confirmed'', ''CRITICAL_CONFIRMED''}
         then result ''failed'' False ''resource_recovery_before_state_not_actionable''
         else if \<not> opt_in (ho_after_state ob) {''normal'', ''recovered''}
         then result ''failed'' False ''resource_risk_still_actionable''
         else result ''MITIGATED'' True ''resource_risk_mitigated'')
      else
        (case (ho_before_available ob, ho_after_available ob, ho_before_psi ob, ho_after_psi ob,
               ho_before_oom ob, ho_after_oom ob) of
           (Some ba, Some aa, Some bp, Some ap, Some bo, Some ao) \<Rightarrow>
             if ho_risk_state ob \<notin> {''normal'', ''recovered''}
             then result ''failed'' False ''host_risk_still_actionable''
             else if bo < ao then result ''failed'' False ''new_oom_after_action''
             else if fle (hp_min_available p) (fsub aa ba) \<or> fle (hp_min_psi p) (fsub bp ap)
             then result ''MITIGATED'' True ''host_risk_mitigated''
             else result ''pending'' False ''host_pressure_not_improved''
         | _ \<Rightarrow> result ''failed'' False ''host_recovery_observation_incomplete''))"

definition assess_business_recovery ::
    "business_policy \<Rightarrow> business_observation \<Rightarrow> string option \<Rightarrow> recovery_result" where
  "assess_business_recovery p ob expected =
     (if expected \<noteq> None \<and> expected \<noteq> Some (bo_target_id ob)
      then result ''BUSINESS_DEGRADED'' False ''business_target_mismatch''
      else if flt (bo_after ob) (Fin 0) then result ''BUSINESS_DEGRADED'' False ''invalid_observation_time''
      else if flt (bp_max_wait p) (bo_after ob)
      then result ''BUSINESS_DEGRADED'' False ''business_recovery_window_expired''
      else if bp_action p \<in> {''graceful_stop'', ''terminate''} then
        (if bo_present ob \<and> bo_running ob
         then result ''BUSINESS_DEGRADED'' False ''business_target_still_running''
         else if bp_require_probe p \<and> bo_probe_ok ob \<noteq> Some True
         then result ''BUSINESS_DEGRADED'' False ''business_health_check_not_configured''
         else result ''BUSINESS_RECOVERED'' True ''business_health_confirmed'')
      else if \<not> bo_present ob \<or> \<not> bo_running ob
      then result ''BUSINESS_DEGRADED'' False ''business_target_not_running''
      else if \<not> opt_in (bo_health ob) (bp_healthy p)
      then result ''BUSINESS_DEGRADED'' False ''business_health_not_healthy''
      else if bp_require_probe p \<and> bo_probe_ok ob \<noteq> Some True
      then result ''BUSINESS_DEGRADED'' False ''business_probe_not_healthy''
      else result ''BUSINESS_RECOVERED'' True ''business_health_recovered'')"

definition assess_two_layer_recovery ::
    "host_policy \<Rightarrow> host_observation \<Rightarrow> business_policy option \<Rightarrow> business_observation option \<Rightarrow>
     string option \<Rightarrow> two_layer_result" where
  "assess_two_layer_recovery hp ho bp bo expected =
     (let host = assess_host_mitigation hp ho;
          business = (case (bp, bo) of
              (Some p, Some ob) \<Rightarrow> assess_business_recovery p ob expected
            | _ \<Rightarrow> result ''BUSINESS_DEGRADED'' False ''business_probe_not_configured'');
          overall = (if rr_recovered host \<and> rr_recovered business then ''BUSINESS_RECOVERED''
                     else if rr_recovered host then ''MITIGATED''
                     else if rr_state host = ''pending'' \<or> rr_state business = ''pending''
                     then ''RECOVERY_PENDING'' else ''RECOVERY_FAILED'')
      in \<lparr>tl_host_state = rr_state host, tl_business_state = rr_state business,
          tl_overall_state = overall, tl_host_mitigated = rr_recovered host,
          tl_business_recovered = rr_recovered business,
          tl_reasons = dict_fromkeys (rr_reasons host @ rr_reasons business)\<rparr>)"

section \<open>The in-memory cooldown ledger\<close>

record cooldown_ledger =
  cl_last_action_at :: "pyfloat option"
  cl_action_times :: "pyfloat list"
  cl_failures :: int

definition empty_ledger :: cooldown_ledger where
  "empty_ledger = \<lparr>cl_last_action_at = None, cl_action_times = [], cl_failures = 0\<rparr>"

text \<open>\<open>now - timestamp <= window_seconds\<close>.\<close>

definition in_window :: "rat \<Rightarrow> rat \<Rightarrow> pyfloat \<Rightarrow> bool" where
  "in_window window now t = fle (fsub (Fin now) t) (Fin window)"

definition ledger_allow ::
    "rat \<Rightarrow> rat \<Rightarrow> int \<Rightarrow> rat \<Rightarrow> cooldown_ledger \<Rightarrow> (bool \<times> string) \<times> cooldown_ledger" where
  "ledger_allow now cooldown max_actions window l =
     (let l' = l\<lparr>cl_action_times := filter (in_window window now) (cl_action_times l)\<rparr>
      in if (case cl_last_action_at l' of None \<Rightarrow> False | Some t \<Rightarrow> flt (fsub (Fin now) t) (Fin cooldown))
         then ((False, ''cooldown_active''), l')
         else if max_actions \<le> int (length (cl_action_times l'))
         then ((False, ''action_limit_reached''), l')
         else ((True, ''allowed''), l'))"

definition ledger_record :: "rat \<Rightarrow> bool \<Rightarrow> cooldown_ledger \<Rightarrow> cooldown_ledger" where
  "ledger_record now success l =
     \<lparr>cl_last_action_at = Some (Fin now), cl_action_times = cl_action_times l @ [Fin now],
      cl_failures = (if success then 0 else cl_failures l + 1)\<rparr>"

definition ledger_tripped :: "int \<Rightarrow> cooldown_ledger \<Rightarrow> bool" where
  "ledger_tripped max_failures l = (max_failures \<le> cl_failures l)"

definition ledger_to_dict :: "cooldown_ledger \<Rightarrow> pydict" where
  "ledger_to_dict l =
     [(''last_action_at'', case cl_last_action_at l of None \<Rightarrow> PNone | Some t \<Rightarrow> PFloat t),
      (''action_times'', PList (map PFloat (cl_action_times l))),
      (''consecutive_failures'', PInt (cl_failures l))]"

text \<open>\<open>from_dict\<close> lets a failed conversion escape.\<close>

fun float_list :: "pyval list \<Rightarrow> py_exn + pyfloat list" where
  "float_list [] = Inr []"
| "float_list (v # vs) =
     (case py_float v of Inl e \<Rightarrow> Inl e
      | Inr q \<Rightarrow> (case float_list vs of Inl e \<Rightarrow> Inl e | Inr qs \<Rightarrow> Inr (q # qs)))"

definition ledger_from_dict :: "pydict \<Rightarrow> py_exn + cooldown_ledger" where
  "ledger_from_dict d =
     (case (case dget_default d ''action_times'' (PList []) of PList vs \<Rightarrow> float_list vs | _ \<Rightarrow> Inr []) of
        Inl e \<Rightarrow> Inl e
      | Inr ts \<Rightarrow>
          (case (case dget d ''last_action_at'' of
                   PNone \<Rightarrow> Inr None
                 | v \<Rightarrow> (case py_float v of Inl e \<Rightarrow> Inl e | Inr q \<Rightarrow> Inr (Some q))) of
             Inl e \<Rightarrow> Inl e
           | Inr lst \<Rightarrow>
               (case py_int (dget_default d ''consecutive_failures'' (PInt 0)) of
                  Inl e \<Rightarrow> Inl e
                | Inr n \<Rightarrow> Inr \<lparr>cl_last_action_at = lst, cl_action_times = ts, cl_failures = n\<rparr>)))"

section \<open>The cooldown contract\<close>

text \<open>
  \<open>allowed now cooldown max window s\<close>: the guard lets an action pass; \<open>recorded now success s\<close>: the
  state after the action was recorded; \<open>failures s\<close>: consecutive failures.
\<close>

locale cooldown_guard =
  fixes allowed :: "rat \<Rightarrow> rat \<Rightarrow> int \<Rightarrow> rat \<Rightarrow> 's \<Rightarrow> bool"
    and recorded :: "rat \<Rightarrow> bool \<Rightarrow> 's \<Rightarrow> 's"
    and failures :: "'s \<Rightarrow> int"
    and history :: "'s \<Rightarrow> pyfloat list"
    and usable :: "'s \<Rightarrow> bool"
  assumes cooldown: "usable s \<Longrightarrow> now - t < c \<Longrightarrow> \<not> allowed now c m w (recorded t ok s)"
    and limit: "usable s \<Longrightarrow> allowed now c m w s \<Longrightarrow>
          int (length (filter (in_window w now) (history s))) < m"
    and history_recorded: "usable s \<Longrightarrow> history (recorded t ok s) = history s @ [Fin t]"
    and failures_recorded: "usable s \<Longrightarrow> failures (recorded t ok s) = (if ok then 0 else failures s + 1)"
    and usable_recorded: "usable s \<Longrightarrow> usable (recorded t ok s)"
begin

lemma usable_run: "usable s \<Longrightarrow> usable (foldl (\<lambda>s (t, ok). recorded t ok s) s rs)"
  by (induction rs arbitrary: s) (auto simp: usable_recorded split: prod.splits)

lemma failures_run:
  assumes "usable s" and "failures s = 0"
  shows "failures (foldl (\<lambda>s (t, ok). recorded t ok s) s (map (\<lambda>t. (t, False)) ts)) = int (length ts)"
proof (induction ts rule: rev_induct)
  case (snoc t ts)
  then show ?case
    using usable_run [OF assms(1)] by (simp add: failures_recorded)
qed (simp add: assms(2))

lemma history_run: "usable s \<Longrightarrow> history (foldl (\<lambda>s (t, ok). recorded t ok s) s rs) = history s @ map (Fin \<circ> fst) rs"
  by (induction rs arbitrary: s) (auto simp: history_recorded usable_recorded split: prod.splits)

text \<open>Actions recorded within the window of a permitted one are fewer than the limit.\<close>

lemma window_bound:
  assumes "usable s" and "allowed now c m w (foldl (\<lambda>s (t, ok). recorded t ok s) s rs)"
  shows "int (length (filter (in_window w now) (map (Fin \<circ> fst) rs))) < m"
proof -
  have "length (filter (in_window w now) (map (Fin \<circ> fst) rs)) \<le>
      length (filter (in_window w now) (history s @ map (Fin \<circ> fst) rs))"
    by simp
  then show ?thesis
    using limit [OF usable_run [OF assms(1)] assms(2)] unfolding history_run [OF assms(1)] by linarith
qed

end

interpretation ledger: cooldown_guard
  "\<lambda>now c m w l. fst (fst (ledger_allow now c m w l))" ledger_record cl_failures cl_action_times "\<lambda>_. True"
  by unfold_locales
    (auto simp: ledger_allow_def ledger_record_def Let_def split: if_splits option.splits)

text \<open>
  The durable ledger, seen through one key: a missing row is an empty ledger.
\<close>

definition ledger_view :: "ledger_key \<Rightarrow> state_db \<Rightarrow> cooldown_ledger" where
  "ledger_view k db =
     (case action_ledger db k of
        None \<Rightarrow> empty_ledger
      | Some row \<Rightarrow> \<lparr>cl_last_action_at = map_option Fin (led_last_action_at row),
                    cl_action_times = (case led_times row of None \<Rightarrow> [] | Some ts \<Rightarrow> map Fin ts),
                    cl_failures = led_failures row\<rparr>)"

definition ledger_readable :: "ledger_key \<Rightarrow> state_db \<Rightarrow> bool" where
  "ledger_readable k db = (\<forall>row. action_ledger db k = Some row \<longrightarrow> led_times row \<noteq> None)"

lemma filter_in_window_Fin: "filter (in_window w now) (map Fin ts) = map Fin (filter (\<lambda>t. now - t \<le> w) ts)"
  by (induction ts) (auto simp: in_window_def)

lemma allow_action_view:
  assumes "allow_action env h obj act now c m w db = (Inr d, db')" and "0 < m"
  shows "d = fst (ledger_allow now c m w (ledger_view (h, obj, act) db)) \<and>
    (fst d \<longrightarrow> ledger_view (h, obj, act) db' = snd (ledger_allow now c m w (ledger_view (h, obj, act) db))) \<and>
    (\<not> fst d \<longrightarrow> db' = db)"
proof (cases "action_ledger db (h, obj, act)")
  case None
  with assms show ?thesis
    by (simp add: allow_action_def transaction_Inr ledger_allow_def ledger_view_def empty_ledger_def)
next
  case row: (Some row)
  with assms obtain ts where ts: "led_times row = Some ts"
    by (cases "led_times row") (simp_all add: allow_action_def transaction_Inr)
  show ?thesis
  proof (cases "led_last_action_at row")
    case None
    with assms row ts show ?thesis
      by (auto simp: allow_action_def transaction_Inr ledger_allow_def ledger_view_def Let_def
          filter_in_window_Fin split: if_splits)
  next
    case (Some t)
    with assms row ts show ?thesis
      by (auto simp: allow_action_def transaction_Inr ledger_allow_def ledger_view_def Let_def
          filter_in_window_Fin split: if_splits)
  qed
qed

lemma record_action_view:
  assumes "record_action env h obj act now ok db = (Inr (), db')"
  shows "ledger_view (h, obj, act) db' = ledger_record now ok (ledger_view (h, obj, act) db)"
  using assms
  by (auto simp: record_action_def transaction_Inr ledger_record_def ledger_view_def empty_ledger_def
      split: option.splits)

lemma record_action_readable:
  assumes "record_action env (fst k) (fst (snd k)) (snd (snd k)) now ok db = (Inr (), db')"
  shows "ledger_readable k db'"
proof -
  from assms have "\<exists>row. action_ledger db' k = Some row \<and> led_times row \<noteq> None"
    by (cases k) (auto simp: record_action_def transaction_Inr split: option.splits)
  then show ?thesis by (auto simp: ledger_readable_def)
qed

lemma failure_breaker_view:
  "failure_breaker env h obj act n db = Inr b \<Longrightarrow> 0 < n \<Longrightarrow>
   b = ledger_tripped n (ledger_view (h, obj, act) db)"
  by (auto simp: failure_breaker_def ledger_tripped_def ledger_view_def empty_ledger_def
      split: option.splits)

text \<open>
  The durable ledger as a cooldown guard.  Reading may meet any SQL failure (which denies);
  recording is the successful transaction.
\<close>

definition db_allowed :: "sql_env \<Rightarrow> ledger_key \<Rightarrow> rat \<Rightarrow> rat \<Rightarrow> int \<Rightarrow> rat \<Rightarrow> state_db \<Rightarrow> bool" where
  "db_allowed env k now c m w db =
     (case fst (allow_action env (fst k) (fst (snd k)) (snd (snd k)) now c m w db) of
        Inl _ \<Rightarrow> False | Inr d \<Rightarrow> fst d)"

definition db_record :: "ledger_key \<Rightarrow> rat \<Rightarrow> bool \<Rightarrow> state_db \<Rightarrow> state_db" where
  "db_record k now ok db = snd (record_action env_ok (fst k) (fst (snd k)) (snd (snd k)) now ok db)"

lemma db_record_ok:
  "ledger_readable k db \<Longrightarrow>
   record_action env_ok (fst k) (fst (snd k)) (snd (snd k)) now ok db = (Inr (), db_record k now ok db)"
  by (cases k)
    (auto simp: record_action_def db_record_def transaction_def ledger_readable_def split: option.splits)

lemma db_record_view: "ledger_readable k db \<Longrightarrow> ledger_view k (db_record k now ok db) = ledger_record now ok (ledger_view k db)"
  using record_action_view [OF db_record_ok] by simp

lemma db_allowed_view:
  "db_allowed env k now c m w db \<Longrightarrow> fst (fst (ledger_allow now c m w (ledger_view k db)))"
proof -
  assume a: "db_allowed env k now c m w db"
  then have "0 < m"
    by (auto simp: db_allowed_def allow_action_def split: if_splits)
  moreover from a obtain d where "fst (allow_action env (fst k) (fst (snd k)) (snd (snd k)) now c m w db) = Inr d" "fst d"
    by (auto simp: db_allowed_def split: sum.splits)
  ultimately show ?thesis
    using allow_action_view [of env "fst k" "fst (snd k)" "snd (snd k)" now c m w db d]
    by (metis prod.collapse)
qed

interpretation durable: cooldown_guard "db_allowed env k" "db_record k"
  "\<lambda>db. cl_failures (ledger_view k db)" "\<lambda>db. cl_action_times (ledger_view k db)" "ledger_readable k"
  for env k
proof unfold_locales
  fix db now t c m w ok
  assume db: "ledger_readable k db"
  show "now - t < c \<Longrightarrow> \<not> db_allowed env k now c m w (db_record k t ok db)"
    using db_allowed_view ledger.cooldown db_record_view [OF db] by metis
  show "db_allowed env k now c m w db \<Longrightarrow>
      int (length (filter (in_window w now) (cl_action_times (ledger_view k db)))) < m"
    using db_allowed_view ledger.limit by blast
  show "cl_action_times (ledger_view k (db_record k t ok db)) = cl_action_times (ledger_view k db) @ [Fin t]"
    using db_record_view [OF db] ledger.history_recorded by simp
  show "cl_failures (ledger_view k (db_record k t ok db)) = (if ok then 0 else cl_failures (ledger_view k db) + 1)"
    using db_record_view [OF db] ledger.failures_recorded by simp
  show "ledger_readable k (db_record k t ok db)"
    using db_record_ok [OF db, of t ok] by (rule record_action_readable)
qed

section \<open>Properties\<close>

lemma result_simps [simp]:
  "rr_state (result st ok r) = st" "rr_recovered (result st ok r) = ok" "rr_reasons (result st ok r) = [r]"
  by (simp_all add: result_def)

definition host_evidence :: "host_policy \<Rightarrow> host_observation \<Rightarrow> bool" where
  "host_evidence p ob \<longleftrightarrow>
     (if ho_resource_kind ob = ''memory''
      then ho_risk_state ob \<in> {''normal'', ''recovered''} \<and>
        (\<exists>ba aa bp ap bo ao.
           ho_before_available ob = Some ba \<and> ho_after_available ob = Some aa \<and>
           ho_before_psi ob = Some bp \<and> ho_after_psi ob = Some ap \<and>
           ho_before_oom ob = Some bo \<and> ho_after_oom ob = Some ao \<and> ao \<le> bo \<and>
           (fle (hp_min_available p) (fsub aa ba) \<or> fle (hp_min_psi p) (fsub bp ap)))
      else opt_in (ho_before_state ob) {''warning'', ''critical'', ''critical_confirmed'', ''CRITICAL_CONFIRMED''} \<and>
           opt_in (ho_after_state ob) {''normal'', ''recovered''})"

lemma host_mitigation_iff:
  "rr_recovered (assess_host_mitigation p ob) \<longleftrightarrow>
     \<not> flt (ho_after ob) (Fin 0) \<and> \<not> flt (hp_max_wait p) (ho_after ob) \<and> host_evidence p ob"
  by (auto simp: assess_host_mitigation_def host_evidence_def split: option.splits)

lemma business_recovery_iff:
  "rr_recovered (assess_business_recovery p ob expected) \<longleftrightarrow>
     (expected = None \<or> expected = Some (bo_target_id ob)) \<and>
     \<not> flt (bo_after ob) (Fin 0) \<and> \<not> flt (bp_max_wait p) (bo_after ob) \<and>
     (bp_require_probe p \<longrightarrow> bo_probe_ok ob = Some True) \<and>
     (if bp_action p \<in> {''graceful_stop'', ''terminate''} then \<not> (bo_present ob \<and> bo_running ob)
      else bo_present ob \<and> bo_running ob \<and> opt_in (bo_health ob) (bp_healthy p))"
  by (auto simp: assess_business_recovery_def)

definition example_host :: host_observation where
  "example_host =
     \<lparr>ho_before_available = Some (Fin 5), ho_after_available = Some (Fin 40),
      ho_before_psi = Some (Fin 30), ho_after_psi = Some (Fin 0),
      ho_before_oom = Some 1, ho_after_oom = Some 1, ho_risk_state = ''recovered'', ho_after = Fin 5,
      ho_resource_kind = ''memory'', ho_before_state = None, ho_after_state = None\<rparr>"

definition example_business :: business_observation where
  "example_business =
     \<lparr>bo_target_id = ''t'', bo_present = True, bo_running = False, bo_health = None,
      bo_probe_ok = Some True, bo_after = Fin 5\<rparr>"

definition example_business_policy :: business_policy where
  "example_business_policy =
     \<lparr>bp_max_wait = Fin 30, bp_healthy = {''healthy'', ''running''}, bp_require_probe = True,
      bp_action = ''graceful_stop''\<rparr>"

lemma example_two_layer:
  "assess_two_layer_recovery default_host_policy example_host (Some example_business_policy)
     (Some example_business) (Some ''t'') =
   \<lparr>tl_host_state = ''MITIGATED'', tl_business_state = ''BUSINESS_RECOVERED'',
    tl_overall_state = ''BUSINESS_RECOVERED'', tl_host_mitigated = True, tl_business_recovered = True,
    tl_reasons = [''host_risk_mitigated'', ''business_health_confirmed'']\<rparr>"
  by (simp add: assess_two_layer_recovery_def assess_host_mitigation_def assess_business_recovery_def
      default_host_policy_def example_host_def example_business_def example_business_policy_def
      dict_fromkeys_def)

text \<open>
  The overall result BUSINESS_RECOVERED needs both layers: the host evidence (risk gone, no new
  OOM and measured improvement for memory; a state change for other resources) inside the host
  window, and a business observation of the expected target inside its window whose probe
  succeeded whenever the policy requires one.  A stopped container alone never suffices.
\<close>
theorem business_recovered_needs_both_layers:
  assumes "tl_overall_state (assess_two_layer_recovery hp ho bp bo expected) = ''BUSINESS_RECOVERED''"
  shows "host_evidence hp ho \<and> \<not> flt (hp_max_wait hp) (ho_after ho) \<and>
    (\<exists>p ob. bp = Some p \<and> bo = Some ob \<and> (expected = None \<or> expected = Some (bo_target_id ob)) \<and>
       \<not> flt (bp_max_wait p) (bo_after ob) \<and> (bp_require_probe p \<longrightarrow> bo_probe_ok ob = Some True))"
  using assms
  by (auto simp: assess_two_layer_recovery_def Let_def host_mitigation_iff business_recovery_iff
      split: if_splits option.splits)

theorem business_recovered_needs_both_layers_witness:
  "host_evidence default_host_policy example_host \<and>
   (\<exists>p ob. Some example_business_policy = Some p \<and> Some example_business = Some ob \<and>
      (bp_require_probe p \<longrightarrow> bo_probe_ok ob = Some True))"
  using business_recovered_needs_both_layers [of default_host_policy example_host
      "Some example_business_policy" "Some example_business" "Some ''t''"]
  by (auto simp: example_two_layer)

text \<open>
  The two-layer result is consistent: the overall state is determined by the two layer flags,
  and RECOVERY_PENDING arises only from host pressure that has not improved yet, since the
  business layer never reports a pending state.
\<close>
theorem two_layer_overall:
  "let r = assess_two_layer_recovery hp ho bp bo expected in
     (tl_overall_state r = ''BUSINESS_RECOVERED'') = (tl_host_mitigated r \<and> tl_business_recovered r) \<and>
     (tl_overall_state r = ''MITIGATED'') = (tl_host_mitigated r \<and> \<not> tl_business_recovered r) \<and>
     (tl_overall_state r = ''RECOVERY_PENDING'') = (tl_host_state r = ''pending'') \<and>
     (tl_overall_state r = ''RECOVERY_FAILED'') = (tl_host_state r = ''failed'') \<and>
     tl_business_state r \<in> {''BUSINESS_RECOVERED'', ''BUSINESS_DEGRADED''}"
proof -
  let ?h = "assess_host_mitigation hp ho"
  let ?b = "case (bp, bo) of (Some p, Some ob) \<Rightarrow> assess_business_recovery p ob expected
      | _ \<Rightarrow> result ''BUSINESS_DEGRADED'' False ''business_probe_not_configured''"
  have "rr_recovered ?h \<and> rr_state ?h = ''MITIGATED'' \<or> \<not> rr_recovered ?h \<and> rr_state ?h = ''failed'' \<or>
      \<not> rr_recovered ?h \<and> rr_state ?h = ''pending''"
    by (simp add: assess_host_mitigation_def split: option.splits)
  moreover have "rr_recovered ?b \<and> rr_state ?b = ''BUSINESS_RECOVERED'' \<or>
      \<not> rr_recovered ?b \<and> rr_state ?b = ''BUSINESS_DEGRADED''"
    by (simp add: assess_business_recovery_def split: option.splits)
  ultimately show ?thesis
    unfolding assess_two_layer_recovery_def Let_def by (elim disjE conjE) simp_all
qed

text \<open>
  After a graceful stop, recovery is reported only if the target is gone or stopped inside the
  window with no exit code, exit code 0 or 143 (SIGTERM): a force-killed target (137) is a failure.
\<close>
theorem graceful_stop_recovered_iff:
  assumes "rp_action p = ''graceful_stop''"
  shows "rr_recovered (assess_recovery p ob) \<longleftrightarrow>
    \<not> flt (ro_after ob) (Fin 0) \<and> \<not> flt (rp_max_wait p) (ro_after ob) \<and>
    \<not> (ro_present ob \<and> ro_running ob) \<and> ro_exit_code ob \<in> {None, Some 0, Some 143}"
  using assms by (auto simp: assess_recovery_def Let_def)

theorem graceful_stop_recovered_iff_witness:
  "\<not> rr_recovered (assess_recovery
     \<lparr>rp_action = ''graceful_stop'', rp_max_wait = Fin 30, rp_healthy = {}\<rparr>
     \<lparr>ro_target_id = ''t'', ro_present = True, ro_running = False, ro_health = None,
      ro_risk_state = ''normal'', ro_after = Fin 3, ro_exit_code = Some 137\<rparr>)"
  by (subst graceful_stop_recovered_iff) simp_all

text \<open>A cooldown ledger survives \<open>to_dict\<close> followed by \<open>from_dict\<close> unchanged.\<close>
theorem ledger_round_trip: "ledger_from_dict (ledger_to_dict l) = Inr l"
proof -
  have "float_list (map PFloat ts) = Inr ts" for ts
    by (induction ts) simp_all
  then show ?thesis
    by (simp add: ledger_from_dict_def ledger_to_dict_def split: option.splits)
qed

text \<open>
  Refinement: the durable cooldown ledger decides exactly like the in-memory ledger it
  abstracts to, prunes it the same way when it allows, and changes nothing when it denies.
\<close>
theorem durable_allow_refines:
  assumes "allow_action env h obj act now c m w db = (Inr d, db')" and "0 < m"
  shows "d = fst (ledger_allow now c m w (ledger_view (h, obj, act) db)) \<and>
    (fst d \<longrightarrow> ledger_view (h, obj, act) db' = snd (ledger_allow now c m w (ledger_view (h, obj, act) db))) \<and>
    (\<not> fst d \<longrightarrow> db' = db)"
  using assms by (rule allow_action_view)

definition ledger_db :: state_db where
  "ledger_db = db_record (''h'', ''c'', ''graceful_stop'') 100 False empty_db"

lemma ledger_db_eval:
  "action_ledger ledger_db (''h'', ''c'', ''graceful_stop'') =
     Some \<lparr>led_last_action_at = Some 100, led_times = Some [100], led_failures = 1\<rparr>"
  by (simp add: ledger_db_def db_record_def record_action_def transaction_def empty_db_def)

theorem durable_allow_refines_witness:
  "(False, ''cooldown_active'') =
     fst (ledger_allow 110 30 1 300 (ledger_view (''h'', ''c'', ''graceful_stop'') ledger_db))"
proof -
  have "allow_action env_ok ''h'' ''c'' ''graceful_stop'' 110 30 1 300 ledger_db =
      (Inr (False, ''cooldown_active''), ledger_db)"
    by (simp add: allow_action_def ledger_db_eval transaction_def Let_def)
  from durable_allow_refines [OF this] show ?thesis by simp
qed

text \<open>
  Once an action is recorded in the durable ledger, no further action on the same host, object
  and action is allowed until the cooldown has passed, whatever SQL failures the check meets.
\<close>
theorem durable_cooldown:
  assumes "ledger_readable k db" and "now - t < c"
  shows "\<not> db_allowed env k now c m w (db_record k t ok db)"
  using assms by (rule durable.cooldown)

theorem durable_cooldown_witness:
  "\<not> db_allowed env_locked (''h'', ''c'', ''graceful_stop'') 110 30 5 300 ledger_db"
  unfolding ledger_db_def
  by (rule durable_cooldown) (simp_all add: ledger_readable_def empty_db_def)

text \<open>
  After \<open>n\<close> consecutive failures recorded on a key with no earlier failures, the failure breaker
  reports tripped for the limit \<open>n\<close> and not for any larger limit.
\<close>
theorem breaker_after_failures:
  assumes "ledger_readable (h, obj, act) db" and "cl_failures (ledger_view (h, obj, act) db) = 0"
    and "failure_breaker env h obj act n
           (foldl (\<lambda>s (t, ok). db_record (h, obj, act) t ok s) db (map (\<lambda>t. (t, False)) ts)) = Inr b"
    and "0 < n"
  shows "b \<longleftrightarrow> n \<le> int (length ts)"
  using failure_breaker_view [OF assms(3,4)] durable.failures_run [OF assms(1,2)]
  by (simp add: ledger_tripped_def)

theorem breaker_after_failures_witness:
  "failure_breaker env_ok ''h'' ''c'' ''graceful_stop'' 1
     (foldl (\<lambda>s (t, ok). db_record (''h'', ''c'', ''graceful_stop'') t ok s) empty_db
        (map (\<lambda>t. (t, False)) [100])) = Inr True"
proof -
  let ?d = "foldl (\<lambda>s (t, ok). db_record (''h'', ''c'', ''graceful_stop'') t ok s) empty_db
        (map (\<lambda>t. (t, False)) [100])"
  obtain b where b: "failure_breaker env_ok ''h'' ''c'' ''graceful_stop'' 1 ?d = Inr b"
    by (simp add: failure_breaker_def)
  have "b \<longleftrightarrow> (1 :: int) \<le> int (length [100 :: rat])"
    by (rule breaker_after_failures [OF _ _ b])
      (simp_all add: ledger_readable_def ledger_view_def empty_db_def empty_ledger_def)
  with b show ?thesis by simp
qed

end
