(* ===== verification/Guardian_Controller.thy ===== *)
theory Guardian_Controller
  imports Guardian_Recovery
begin

text \<open>
  The controller (\<open>src/guardian_controller.py\<close>, \<open>GuardianController.enforce\<close>): event, policy,
  cooldown, authorization, durable-intent, execution and recovery gates in the order of the code.
  The executor acts on a state of any type; each call of the durable store meets its own SQL
  environment \<open>envs i\<close>, numbered in the order of the calls.
\<close>

section \<open>Data\<close>

record controller_result =
  cr_state :: string
  cr_event_id :: string
  cr_action_result :: "action_result option"
  cr_recovery :: "recovery_result option"
  cr_reasons :: "string list"
  cr_cooldown_state :: string
  cr_breaker_tripped :: bool
  cr_intent_id :: "string option"
  cr_recovery_layers :: "two_layer_result option"

text \<open>
  The recovery probe: an observation, no observation, one of the three caught exceptions with its
  text, or another exception.
\<close>

datatype probe_outcome = ProbeResult "recovery_observation option" | ProbeError string | ProbeEscaped

record enforce_args =
  ea_authorization :: "authorization option"
  ea_allowed :: "string list"
  ea_now :: rat
  ea_recovery_observation :: "recovery_observation option"
  ea_recovery_policy :: "recovery_policy option"
  ea_recovery_probe :: "(action_request \<Rightarrow> action_result \<Rightarrow> probe_outcome) option"
  ea_host_observation :: "host_observation option"
  ea_host_policy :: "host_policy option"
  ea_business_observation :: "business_observation option"
  ea_business_policy :: "business_policy option"
  ea_cooldown :: rat
  ea_max_actions :: int
  ea_window :: rat
  ea_max_failures :: int

text \<open>The controller object: its optional durable store, its ledger and its executor's state.\<close>

record 'x controller =
  ct_store :: "state_db option"
  ct_ledger :: cooldown_ledger
  ct_exec :: 'x

datatype enforce_exn = PyRaised py_exn | ExecutorRaised | ProbeRaised

section \<open>Gates\<close>

record enforce_plan =
  pl_target :: string
  pl_action :: string
  pl_decision :: pydict
  pl_allowed :: "string set"

text \<open>
  The checks on the event alone: an escaping exception, a denial reason, or the plan.  The test
  \<open>event.get("state") not in {...}\<close> raises for an unhashable state.
\<close>

definition plan_of_event :: "pyval \<Rightarrow> string list \<Rightarrow> py_exn + string + enforce_plan" where
  "plan_of_event event allowed =
     (let ev = mapping_of event; decision = mapping_of (dget_default ev ''decision'' (PDict []))
      in if \<not> is_dict event \<or> dget decision ''mode'' \<noteq> PStr ''enforce'' then Inr (Inl ''enforce_mode_required'')
         else if \<not> hashable (dget ev ''state'') then Inl TypeError
         else if \<not> str_in (dget ev ''state'') [''warning'', ''critical''] then Inr (Inl ''risk_not_actionable'')
         else case dget_default ev ''object_candidates'' (PList []) of
             PList [candidate] \<Rightarrow>
               if \<not> is_dict candidate \<or> dget (mapping_of candidate) ''kind'' \<noteq> PStr ''container''
               then Inr (Inl ''unsupported_object_kind'')
               else (case as_nonempty_str (dget (mapping_of candidate) ''id'') of
                   None \<Rightarrow> Inr (Inl ''no_stable_object_identity'')
                 | Some target \<Rightarrow>
                     (case dget decision ''action'' of
                        PStr action \<Rightarrow>
                          if action \<in> {''none'', ''escalate''} then Inr (Inl ''no_action_plan'')
                          else (case allowed_actions allowed of
                              Inl (ActionDenied e) \<Rightarrow> Inr (Inl e)
                            | Inr actions \<Rightarrow>
                                Inr (Inr \<lparr>pl_target = target, pl_action = action,
                                          pl_decision = decision, pl_allowed = actions\<rparr>))
                      | _ \<Rightarrow> Inr (Inl ''no_action_plan'')))
           | _ \<Rightarrow> Inr (Inl ''ambiguous_object_identity''))"

text \<open>The failure breaker, then the cooldown; \<open>Inl\<close> is a \<open>StateStoreError\<close>.\<close>

definition check_cooldown ::
    "(nat \<Rightarrow> sql_env) \<Rightarrow> string \<Rightarrow> enforce_plan \<Rightarrow> enforce_args \<Rightarrow> 'x controller \<Rightarrow>
     (string + bool \<times> bool \<times> string) \<times> 'x controller" where
  "check_cooldown envs host p args c =
     (case ct_store c of
        Some db \<Rightarrow>
          (case failure_breaker (envs 0) host (pl_target p) (pl_action p) (ea_max_failures args) db of
             Inl e \<Rightarrow> (Inl e, c)
           | Inr tripped \<Rightarrow>
               (case allow_action (envs 1) host (pl_target p) (pl_action p) (ea_now args)
                       (ea_cooldown args) (ea_max_actions args) (ea_window args) db of
                  (Inl e, db') \<Rightarrow> (Inl e, c\<lparr>ct_store := Some db'\<rparr>)
                | (Inr (can_run, why), db') \<Rightarrow> (Inr (tripped, can_run, why), c\<lparr>ct_store := Some db'\<rparr>)))
      | None \<Rightarrow>
          (case ledger_allow (ea_now args) (ea_cooldown args) (ea_max_actions args) (ea_window args)
                  (ct_ledger c) of
             ((can_run, why), l) \<Rightarrow>
               (Inr (ledger_tripped (ea_max_failures args) (ct_ledger c), can_run, why),
                c\<lparr>ct_ledger := l\<rparr>)))"

text \<open>
  Register and consume the capability, claim the intent and mark it started.  \<open>Inl\<close>: a refusal as
  (state, reason, intent id of a refused claim, whether it goes through \<open>denied\<close>).
\<close>

datatype claim_outcome =
    Refused string string
  | RefusedClaim string string string
  | Claimed "string option"

definition claim_durably ::
    "(nat \<Rightarrow> sql_env) \<Rightarrow> string \<Rightarrow> string \<Rightarrow> pyval \<Rightarrow> enforce_plan \<Rightarrow> enforce_args \<Rightarrow> 'x controller \<Rightarrow>
     claim_outcome \<times> 'x controller" where
  "claim_durably envs host event_id event p args c =
     (case ct_store c of
        None \<Rightarrow> (Claimed None, c)
      | Some db \<Rightarrow>
          (case ea_authorization args of
             None \<Rightarrow> (Refused ''denied'' ''explicit_authorization_required'', c)
           | Some auth \<Rightarrow>
               (case register_capability (envs 2) auth db of
                  (Inl e, db1) \<Rightarrow> (Refused ''escalated'' e, c\<lparr>ct_store := Some db1\<rparr>)
                | (Inr _, db1) \<Rightarrow>
                    (case consume_capability (envs 3) auth event_id (ea_now args) db1 of
                       (Inl e, db2) \<Rightarrow> (Refused ''escalated'' e, c\<lparr>ct_store := Some db2\<rparr>)
                     | (Inr cap, db2) \<Rightarrow>
                         if \<not> cd_allowed cap then (Refused ''denied'' (cd_reason cap), c\<lparr>ct_store := Some db2\<rparr>)
                         else
                           (case claim_intent (envs 4) host (pl_target p) (pl_action p) event_id event
                                   (ea_now args) db2 of
                              (Inl e, db3) \<Rightarrow> (Refused ''escalated'' e, c\<lparr>ct_store := Some db3\<rparr>)
                            | (Inr claim, db3) \<Rightarrow>
                                if \<not> ic_claimed claim
                                then (RefusedClaim
                                        (if ic_reason claim = ''active_intent_exists'' then ''escalated'' else ''denied'')
                                        (ic_reason claim) (ic_intent_id claim), c\<lparr>ct_store := Some db3\<rparr>)
                                else
                                  (case mark_execution_started (envs 5) (ic_intent_id claim) (ea_now args) db3 of
                                     (Inl e, db4) \<Rightarrow> (Refused ''escalated'' e, c\<lparr>ct_store := Some db4\<rparr>)
                                   | (Inr False, db4) \<Rightarrow>
                                       (RefusedClaim ''escalated'' ''intent_state_not_executable''
                                          (ic_intent_id claim), c\<lparr>ct_store := Some db4\<rparr>)
                                   | (Inr True, db4) \<Rightarrow>
                                       (Claimed (Some (ic_intent_id claim)), c\<lparr>ct_store := Some db4\<rparr>)))))))"

section \<open>Recovery and the final state\<close>

definition assess_action ::
    "enforce_args \<Rightarrow> string \<Rightarrow> action_request \<Rightarrow> action_result \<Rightarrow> enforce_exn + recovery_result option" where
  "assess_action args target request ar =
     (case ea_recovery_observation args of
        Some ob \<Rightarrow>
          Inr (Some (if ro_target_id ob \<noteq> target then result ''failed'' False ''recovery_target_mismatch''
                     else case ea_recovery_policy args of
                         None \<Rightarrow> result ''failed'' False ''recovery_policy_missing''
                       | Some pol \<Rightarrow> assess_recovery pol ob))
      | None \<Rightarrow>
          (case (ea_recovery_probe args, ea_recovery_policy args) of
             (Some probe, Some pol) \<Rightarrow>
               if res_executed ar \<and> res_returncode ar = Some 0
               then (case probe request ar of
                   ProbeEscaped \<Rightarrow> Inl ProbeRaised
                 | ProbeError e \<Rightarrow>
                     Inr (Some \<lparr>rr_state = ''failed'', rr_recovered = False,
                                rr_reasons = [''recovery_probe_error'', e]\<rparr>)
                 | ProbeResult None \<Rightarrow> Inr (Some (result ''failed'' False ''recovery_observation_missing''))
                 | ProbeResult (Some ob) \<Rightarrow>
                     Inr (Some (if ro_target_id ob \<noteq> target
                                then result ''failed'' False ''recovery_target_mismatch''
                                else assess_recovery pol ob)))
               else Inr None
           | _ \<Rightarrow> Inr None))"

definition assess_layers :: "enforce_args \<Rightarrow> string \<Rightarrow> two_layer_result option" where
  "assess_layers args target =
     map_option (\<lambda>ob. assess_two_layer_recovery
         (case ea_host_policy args of None \<Rightarrow> default_host_policy | Some p \<Rightarrow> p) ob
         (ea_business_policy args) (ea_business_observation args) (Some target))
       (ea_host_observation args)"

definition result_payload :: "action_result \<Rightarrow> two_layer_result option \<Rightarrow> pyval" where
  "result_payload ar layers =
     PDict [(''action'', PStr (res_action ar)), (''target_id'', PStr (res_target_id ar)),
            (''returncode'', case res_returncode ar of None \<Rightarrow> PNone | Some n \<Rightarrow> PInt n),
            (''reason'', PStr (res_reason ar)), (''stderr'', PStr (res_stderr ar)),
            (''recovery_layers'',
               case layers of None \<Rightarrow> PNone
               | Some l \<Rightarrow> PDict [(''host_state'', PStr (tl_host_state l)),
                               (''business_state'', PStr (tl_business_state l)),
                               (''overall_state'', PStr (tl_overall_state l))])]"

text \<open>Record the outcome durably or in the ledger, and read the breaker again.\<close>

definition record_outcome ::
    "(nat \<Rightarrow> sql_env) \<Rightarrow> string \<Rightarrow> enforce_plan \<Rightarrow> enforce_args \<Rightarrow> string option \<Rightarrow> pyval \<Rightarrow> bool \<Rightarrow> bool \<Rightarrow>
     'x controller \<Rightarrow> (string + bool) \<times> 'x controller" where
  "record_outcome envs host p args intent payload success executed c =
     (case (ct_store c, intent) of
        (Some db, Some iid) \<Rightarrow>
          (case record_result (envs 6) iid payload success executed (ea_now args) db of
             (Inl e, db1) \<Rightarrow> (Inl e, c\<lparr>ct_store := Some db1\<rparr>)
           | (Inr _, db1) \<Rightarrow>
               (case record_action (envs 7) host (pl_target p) (pl_action p) (ea_now args) success db1 of
                  (Inl e, db2) \<Rightarrow> (Inl e, c\<lparr>ct_store := Some db2\<rparr>)
                | (Inr _, db2) \<Rightarrow>
                    (failure_breaker (envs 8) host (pl_target p) (pl_action p) (ea_max_failures args) db2,
                     c\<lparr>ct_store := Some db2\<rparr>)))
      | _ \<Rightarrow>
          (let l = ledger_record (ea_now args) success (ct_ledger c)
           in (Inr (ledger_tripped (ea_max_failures args) l), c\<lparr>ct_ledger := l\<rparr>)))"

definition final_outcome ::
    "bool \<Rightarrow> action_result \<Rightarrow> recovery_result option \<Rightarrow> two_layer_result option \<Rightarrow> bool \<Rightarrow> string \<times> string list" where
  "final_outcome action_ok ar recovery layers tripped =
     (if \<not> action_ok
      then (''failed'', [if res_reason ar = ''executor_timeout'' then ''action_timeout'' else ''action_failed''])
      else case (recovery, layers) of
          (Some r, l) \<Rightarrow>
            if \<not> rr_recovered r then (if tripped then ''escalated'' else rr_state r, rr_reasons r)
            else (case l of
                None \<Rightarrow> (''recovered'', [''action_succeeded''])
              | Some l \<Rightarrow>
                  if \<not> tl_host_mitigated l then (if tripped then ''escalated'' else ''failed'', tl_reasons l)
                  else if tl_business_recovered l then (''recovered'', tl_reasons l)
                  else (''mitigated'', tl_reasons l))
        | (None, Some l) \<Rightarrow>
            if \<not> tl_host_mitigated l then (if tripped then ''escalated'' else ''failed'', tl_reasons l)
            else if tl_business_recovered l then (''recovered'', tl_reasons l)
            else (''mitigated'', tl_reasons l)
        | (None, None) \<Rightarrow> (''executed'', [''action_succeeded'']))"

section \<open>The handler\<close>

definition simple_result ::
    "string \<Rightarrow> string \<Rightarrow> string \<Rightarrow> string \<Rightarrow> bool \<Rightarrow> string option \<Rightarrow> controller_result" where
  "simple_result st event_id reason cooldown tripped intent =
     \<lparr>cr_state = st, cr_event_id = event_id, cr_action_result = None, cr_recovery = None,
      cr_reasons = [reason], cr_cooldown_state = cooldown, cr_breaker_tripped = tripped,
      cr_intent_id = intent, cr_recovery_layers = None\<rparr>"

text \<open>The local function \<open>denied\<close>.\<close>

definition denied :: "string \<Rightarrow> enforce_args \<Rightarrow> string \<Rightarrow> string \<Rightarrow> 'x controller \<Rightarrow> controller_result" where
  "denied event_id args reason st c =
     simple_result st event_id reason ''not_checked''
       (case ct_store c of None \<Rightarrow> ledger_tripped (ea_max_failures args) (ct_ledger c) | Some _ \<Rightarrow> False) None"

definition conclude ::
    "(nat \<Rightarrow> sql_env) \<Rightarrow> string \<Rightarrow> string \<Rightarrow> enforce_plan \<Rightarrow> enforce_args \<Rightarrow> action_request \<Rightarrow> bool \<Rightarrow>
     string option \<Rightarrow> action_result \<Rightarrow> 'x controller \<Rightarrow> (enforce_exn + controller_result) \<times> 'x controller" where
  "conclude envs host event_id p args request tripped intent ar c =
     (case assess_action args (pl_target p) request ar of
        Inl e \<Rightarrow> (Inl e, c)
      | Inr recovery \<Rightarrow>
          (let layers = assess_layers args (pl_target p);
               res = \<lparr>cr_state = ''planned'', cr_event_id = event_id, cr_action_result = Some ar,
                      cr_recovery = recovery,
                      cr_reasons = [if res_reason ar = [] then ''action_not_executed'' else res_reason ar],
                      cr_cooldown_state = ''not_recorded'', cr_breaker_tripped = tripped,
                      cr_intent_id = intent, cr_recovery_layers = layers\<rparr>
           in if \<not> res_executed ar then (Inr res, c)
              else
                (let action_ok = (res_returncode ar = Some 0);
                     success = (action_ok \<and> (case recovery of None \<Rightarrow> True | Some r \<Rightarrow> rr_recovered r) \<and>
                                (case layers of None \<Rightarrow> True | Some l \<Rightarrow> tl_host_mitigated l))
                 in case record_outcome envs host p args intent (result_payload ar layers) success True c of
                      (Inl _, c') \<Rightarrow>
                        (Inr (res\<lparr>cr_state := ''escalated'', cr_reasons := [''audit_persistence_failed''],
                                  cr_cooldown_state := ''audit_persistence_failed'',
                                  cr_recovery_layers := None\<rparr>), c')
                    | (Inr tripped', c') \<Rightarrow>
                        (case final_outcome action_ok ar recovery layers tripped' of (st, reasons) \<Rightarrow>
                           (Inr (res\<lparr>cr_state := st, cr_reasons := reasons, cr_cooldown_state := ''recorded'',
                                     cr_breaker_tripped := tripped'\<rparr>), c')))))"

definition run_executor ::
    "(nat \<Rightarrow> sql_env) \<Rightarrow> (action_request \<Rightarrow> rat \<Rightarrow> 'x \<Rightarrow> exec_outcome \<times> 'x) \<Rightarrow> string \<Rightarrow> string \<Rightarrow>
     enforce_plan \<Rightarrow> enforce_args \<Rightarrow> action_request \<Rightarrow> bool \<Rightarrow> string option \<Rightarrow> 'x controller \<Rightarrow>
     (enforce_exn + controller_result) \<times> 'x controller" where
  "run_executor envs execute host event_id p args request tripped intent c =
     (case execute request (ea_now args) (ct_exec c) of
        (Escaped, x) \<Rightarrow> (Inl ExecutorRaised, c\<lparr>ct_exec := x\<rparr>)
      | (Denied e, x) \<Rightarrow>
          (let c1 = c\<lparr>ct_exec := x\<rparr> in
           case (ct_store c, intent) of
             (Some db, Some iid) \<Rightarrow>
               (case record_result (envs 6) iid (PDict [(''reason'', PStr e), (''executed'', PBool False)])
                       False False (ea_now args) db of
                  (Inl _, db') \<Rightarrow>
                    (Inr (simple_result ''escalated'' event_id ''audit_persistence_failed''
                            ''audit_persistence_failed'' tripped intent), c1\<lparr>ct_store := Some db'\<rparr>)
                | (Inr _, db') \<Rightarrow>
                    (Inr (simple_result ''denied'' event_id e ''adapter_rejected'' tripped intent),
                     c1\<lparr>ct_store := Some db'\<rparr>))
           | _ \<Rightarrow> (Inr (simple_result ''denied'' event_id e ''adapter_rejected'' tripped intent), c1))
      | (Done ar, x) \<Rightarrow>
          conclude envs host event_id p args request tripped intent ar (c\<lparr>ct_exec := x\<rparr>))"

text \<open>From the validation of the request to the end: lines after the cooldown gate.\<close>

definition attempt ::
    "(nat \<Rightarrow> sql_env) \<Rightarrow> (action_request \<Rightarrow> rat \<Rightarrow> 'x \<Rightarrow> exec_outcome \<times> 'x) \<Rightarrow> string \<Rightarrow> string \<Rightarrow>
     pyval \<Rightarrow> enforce_plan \<Rightarrow> enforce_args \<Rightarrow> action_request \<Rightarrow> bool \<Rightarrow> 'x controller \<Rightarrow>
     (enforce_exn + controller_result) \<times> 'x controller" where
  "attempt envs execute host event_id event p args request tripped c =
     (case validate_request request (ea_now args) of
        Inl (ActionDenied e) \<Rightarrow>
          (Inr (simple_result ''denied'' event_id e ''adapter_rejected'' tripped None), c)
      | Inr _ \<Rightarrow>
          (case claim_durably envs host event_id event p args c of
             (Refused st reason, c2) \<Rightarrow> (Inr (denied event_id args reason st c2), c2)
           | (RefusedClaim st reason iid, c2) \<Rightarrow>
               (Inr (simple_result st event_id reason reason tripped (Some iid)), c2)
           | (Claimed intent, c2) \<Rightarrow>
               run_executor envs execute host event_id p args request tripped intent c2))"

definition make_request :: "string \<Rightarrow> enforce_plan \<Rightarrow> enforce_args \<Rightarrow> int \<Rightarrow> action_request" where
  "make_request event_id p args timeout =
     \<lparr>req_event_id = event_id, req_target_id = pl_target p, req_action = pl_action p,
      req_protected = py_truthy (dget_default (pl_decision p) ''protected'' (PBool True)),
      req_allowed_actions = pl_allowed p, req_authorization = ea_authorization args,
      req_timeout_seconds = timeout\<rparr>"

definition enforce ::
    "(pyval \<Rightarrow> string) \<Rightarrow> (nat \<Rightarrow> sql_env) \<Rightarrow> (action_request \<Rightarrow> rat \<Rightarrow> 'x \<Rightarrow> exec_outcome \<times> 'x) \<Rightarrow>
     pyval \<Rightarrow> enforce_args \<Rightarrow> 'x controller \<Rightarrow> (enforce_exn + controller_result) \<times> 'x controller" where
  "enforce rep envs execute event args c =
     (let ev = mapping_of event;
          event_id = (if is_dict event then py_str rep (dget_default ev ''event_id'' (PStr [])) else []);
          host = (if is_dict event then py_str rep (py_or (dget ev ''host_id'') (PStr ''unknown-host''))
                  else ''unknown-host'')
      in case plan_of_event event (ea_allowed args) of
           Inl e \<Rightarrow> (Inl (PyRaised e), c)
         | Inr (Inl reason) \<Rightarrow> (Inr (denied event_id args reason ''denied'' c), c)
         | Inr (Inr p) \<Rightarrow>
             (case check_cooldown envs host p args c of
                (Inl _, c1) \<Rightarrow> (Inr (denied event_id args ''state_store_read_failed'' ''escalated'' c1), c1)
              | (Inr (tripped, can_run, why), c1) \<Rightarrow>
                  if tripped then (Inr (denied event_id args ''failure_breaker_tripped'' ''escalated'' c1), c1)
                  else if \<not> can_run then (Inr (simple_result ''escalated'' event_id why why tripped None), c1)
                  else
                    (case py_int (dget_default (pl_decision p) ''timeout_seconds'' (PInt 30)) of
                       Inl e \<Rightarrow> (Inl (PyRaised e), c1)
                     | Inr timeout \<Rightarrow>
                         attempt envs execute host event_id event p args
                           (make_request event_id p args timeout) tripped c1)))"

section \<open>Store traffic\<close>

text \<open>Everything a handler does to the durable store is a sequence of store operations.\<close>

definition store_reach :: "state_db \<Rightarrow> state_db \<Rightarrow> bool" where
  "store_reach db db' = (\<exists>ops. db' = exec_all store_step db ops)"

lemma store_reach_refl [simp, intro]: "store_reach db db"
  unfolding store_reach_def by (rule exI [of _ "[]"]) simp

lemma store_reach_trans [trans]: "store_reach a b \<Longrightarrow> store_reach b c \<Longrightarrow> store_reach a c"
  unfolding store_reach_def by (metis exec_all_simps(3))

lemma store_reach_step: "store_reach db (store_step db x)"
  unfolding store_reach_def by (rule exI [of _ "[x]"]) simp

lemma store_reach_ops:
  "register_capability env a db = (r1, db') \<Longrightarrow> store_reach db db'"
  "consume_capability env a ev now db = (r2, db') \<Longrightarrow> store_reach db db'"
  "claim_intent env h obj act ev p now db = (r3, db') \<Longrightarrow> store_reach db db'"
  "mark_execution_started env iid now db = (r4, db') \<Longrightarrow> store_reach db db'"
  "record_result env iid p ok ex now db = (r5, db') \<Longrightarrow> store_reach db db'"
  "allow_action env h obj act now c m w db = (r6, db') \<Longrightarrow> store_reach db db'"
  "record_action env h obj act now ok db = (r7, db') \<Longrightarrow> store_reach db db'"
  using store_reach_step [of db "Register env a"] store_reach_step [of db "Consume env a ev now"]
    store_reach_step [of db "ClaimIntent env h obj act ev p now"] store_reach_step [of db "MarkStarted env iid now"]
    store_reach_step [of db "RecordResult env iid p ok ex now"]
    store_reach_step [of db "AllowAction env h obj act now c m w"]
    store_reach_step [of db "RecordAction env h obj act now ok"]
  by simp_all

lemma store_reach_consumed: "store_reach db db' \<Longrightarrow> is_consumed db aid \<Longrightarrow> is_consumed db' aid"
proof -
  assume "store_reach db db'" and c: "is_consumed db aid"
  then obtain ops where "db' = exec_all store_step db ops" by (auto simp: store_reach_def)
  moreover have "is_consumed (exec_all store_step db ops) aid"
    using c by (induction ops arbitrary: db) (simp_all add: capability_grant.spent_stays)
  ultimately show ?thesis by simp
qed

lemma store_reach_ok: "store_reach db db' \<Longrightarrow> store_ok db \<Longrightarrow> store_ok db'"
  by (auto simp: store_reach_def store_inv.run_inv)

text \<open>Two controllers whose stores are related by store operations (or have no store at all).\<close>

definition ctl_reach :: "'x controller \<Rightarrow> 'x controller \<Rightarrow> bool" where
  "ctl_reach c c' \<longleftrightarrow>
     (case (ct_store c, ct_store c') of
        (None, None) \<Rightarrow> True | (Some db, Some db') \<Rightarrow> store_reach db db' | _ \<Rightarrow> False)"

lemma ctl_reach_refl [simp, intro]: "ctl_reach c c"
  by (simp add: ctl_reach_def split: option.splits)

lemma ctl_reach_trans [trans]: "ctl_reach a b \<Longrightarrow> ctl_reach b c \<Longrightarrow> ctl_reach a c"
  by (auto simp: ctl_reach_def intro: store_reach_trans split: option.splits)

lemma ctl_reach_same_store: "ct_store c' = ct_store c \<Longrightarrow> ctl_reach c c'"
  by (simp add: ctl_reach_def split: option.splits)

section \<open>Stages\<close>

lemma check_cooldown_frame:
  assumes "check_cooldown envs host p args c = (r, c1)"
  shows "ct_exec c1 = ct_exec c \<and> ctl_reach c c1"
  using assms
  by (auto simp: check_cooldown_def ctl_reach_def store_reach_ops split: option.splits sum.splits prod.splits)

lemma check_cooldown_caps:
  assumes "check_cooldown envs host p args c = (r, c1)" and "ct_store c1 = Some db1"
  shows "\<exists>db m. ct_store c = Some db \<and> db1 = db\<lparr>action_ledger := m\<rparr>"
proof (cases "ct_store c")
  case None
  with assms show ?thesis by (auto simp: check_cooldown_def split: prod.splits)
next
  case (Some db)
  obtain r' db' where e: "allow_action (envs 1) host (pl_target p) (pl_action p) (ea_now args)
      (ea_cooldown args) (ea_max_actions args) (ea_window args) db = (r', db')" by force
  with assms Some have "db1 = db \<or> db1 = db'"
    by (auto simp: check_cooldown_def split: sum.splits prod.splits)
  then have "\<exists>m. db1 = db\<lparr>action_ledger := m\<rparr>"
    using allow_db [OF e] by (auto intro: exI [of _ "action_ledger db"])
  with Some show ?thesis by simp
qed

lemma claim_durably_frame:
  assumes "claim_durably envs host event_id event p args c = (out, c2)"
  shows "ct_exec c2 = ct_exec c \<and> ctl_reach c c2"
proof (cases "ct_store c")
  case None
  with assms show ?thesis by (simp add: claim_durably_def)
next
  case (Some db)
  show ?thesis
  proof (cases "ea_authorization args")
    case None
    with assms Some show ?thesis by (simp add: claim_durably_def)
  next
    case (Some auth)
    obtain r1 db1 where e1: "register_capability (envs 2) auth db = (r1, db1)" by force
    obtain r2 db2 where e2: "consume_capability (envs 3) auth event_id (ea_now args) db1 = (r2, db2)" by force
    obtain r3 db3 where e3: "claim_intent (envs 4) host (pl_target p) (pl_action p) event_id event
      (ea_now args) db2 = (r3, db3)" by force
    obtain r4 db4 where e4: "mark_execution_started (envs 5) (ic_intent_id (projr r3)) (ea_now args) db3 =
      (r4, db4)" by force
    have "ct_exec c2 = ct_exec c \<and> ct_store c2 \<in> {Some db1, Some db2, Some db3, Some db4}"
      using assms Some \<open>ct_store c = Some db\<close> e1 e2 e3 e4
      by (simp add: claim_durably_def split: sum.splits if_splits bool.splits) auto
    moreover have r: "store_reach db db1" "store_reach db1 db2" "store_reach db2 db3" "store_reach db3 db4"
      using e1 e2 e3 e4 by (auto dest: store_reach_ops)
    moreover have "store_reach db db2" "store_reach db db3" "store_reach db db4"
      using r by (blast intro: store_reach_trans)+
    ultimately have "ct_exec c2 = ct_exec c \<and> (\<exists>db'. ct_store c2 = Some db' \<and> store_reach db db')"
      by auto
    then show ?thesis using \<open>ct_store c = Some db\<close> by (auto simp: ctl_reach_def)
  qed
qed

lemma claim_durably_state:
  assumes "claim_durably envs host event_id event p args c = (out, c2)"
  shows "out = Refused st e \<Longrightarrow> st \<in> {''denied'', ''escalated''}"
    and "out = RefusedClaim st e iid \<Longrightarrow> st \<in> {''denied'', ''escalated''}"
  using assms
  by (auto simp: claim_durably_def split: option.splits sum.splits prod.splits if_splits bool.splits)

lemma register_not_consumed:
  "register_capability env a db = (r, db') \<Longrightarrow> is_consumed db' aid \<longleftrightarrow> is_consumed db aid"
  by (drule register_db) (auto simp: is_consumed_def new_capability_def split: if_splits)

lemma mark_True:
  assumes "mark_execution_started env iid now db = (Inr True, db')"
  shows "\<exists>r. find_intent db iid = Some r \<and> int_state r = INTENT_RECORDED \<and>
    (\<exists>x. db' = update_intent db iid (\<lambda>x. x\<lparr>int_state := EXECUTION_STARTED, int_updated_at := now\<rparr>)
       \<lparr>audit_records := audit_records db @ [x]\<rparr>)"
  using assms by (auto simp: mark_execution_started_def transaction_Inr split: option.splits if_splits)

text \<open>The intent \<open>iid\<close> for this host, target and action is marked started.\<close>

definition started :: "state_db \<Rightarrow> string \<Rightarrow> string \<Rightarrow> string \<Rightarrow> string \<Rightarrow> bool" where
  "started db iid host target action \<longleftrightarrow>
     (\<exists>r. find_intent db iid = Some r \<and> int_state r = EXECUTION_STARTED \<and>
          intent_target r = (host, target, action))"

lemma find_map_if:
  "(\<And>r. int_id (f r) = int_id r) \<Longrightarrow>
   find (\<lambda>r. int_id r = iid) (map (\<lambda>r. if int_id r = iid then f r else r) xs) =
   map_option f (find (\<lambda>r. int_id r = iid) xs)"
  by (induction xs) auto

lemma find_intent_update:
  "(\<And>r. int_id (f r) = int_id r) \<Longrightarrow> find_intent (update_intent db iid f) iid = map_option f (find_intent db iid)"
  by (simp add: find_intent_def find_map_if)

lemma find_intent_audit [simp]: "find_intent (db\<lparr>audit_records := x\<rparr>) iid = find_intent db iid"
  by (simp add: find_intent_def)

lemma find_intent_audit2 [simp]:
  "find_intent (db\<lparr>intents := xs, audit_records := x\<rparr>) iid = find_intent (db\<lparr>intents := xs\<rparr>) iid"
  by (simp add: find_intent_def)

lemma find_intent_new:
  "uuid4 env \<notin> int_id ` set (intents db) \<Longrightarrow>
   find_intent (db\<lparr>intents := intents db @ [new_intent env h obj act ev now]\<rparr>) (uuid4 env) =
     Some (new_intent env h obj act ev now)"
proof -
  assume "uuid4 env \<notin> int_id ` set (intents db)"
  then have "find (\<lambda>r. int_id r = uuid4 env) (intents db) = None"
    by (force simp: find_None_iff)
  moreover have "find Q (xs @ [x]) = (case find Q xs of None \<Rightarrow> if Q x then Some x else None | Some y \<Rightarrow> Some y)"
    for Q and xs :: "intent_row list" and x
    by (induction xs) auto
  ultimately show ?thesis by (simp add: find_intent_def)
qed

text \<open>
  A successful claim: the approval was unspent before and is spent after, and the intent is
  marked EXECUTION_STARTED for exactly this host, target and action.
\<close>

lemma claim_durably_Claimed:
  assumes "claim_durably envs host event_id event p args c = (Claimed intent, c2)" and "ct_store c = Some db"
  shows "\<exists>auth db2 iid. ea_authorization args = Some auth \<and> \<not> is_consumed db (approval_id auth) \<and>
    ct_store c2 = Some db2 \<and> is_consumed db2 (approval_id auth) \<and>
    intent = Some iid \<and> started db2 iid host (pl_target p) (pl_action p)"
proof -
  from assms obtain auth db1 cap db2 claim db3 db4 where
    auth: "ea_authorization args = Some auth" and
    reg: "register_capability (envs 2) auth db = (Inr (), db1)" and
    con: "consume_capability (envs 3) auth event_id (ea_now args) db1 = (Inr cap, db2)" "cd_allowed cap" and
    clm: "claim_intent (envs 4) host (pl_target p) (pl_action p) event_id event (ea_now args) db2 = (Inr claim, db3)"
      "ic_claimed claim" and
    mrk: "mark_execution_started (envs 5) (ic_intent_id claim) (ea_now args) db3 = (Inr True, db4)" and
    c2: "c2 = c\<lparr>ct_store := Some db4\<rparr>" "intent = Some (ic_intent_id claim)"
    by (auto simp: claim_durably_def split: option.splits sum.splits prod.splits if_splits bool.splits)
  from consume_allowed [OF con] have unspent: "\<not> is_consumed db1 (approval_id auth)"
    and spent: "is_consumed db2 (approval_id auth)"
    by (auto simp: is_consumed_def consume_row_def)
  have "store_reach db2 db4"
    using clm(1) mrk store_reach_ops(3,4) store_reach_trans by blast
  with spent have "is_consumed db4 (approval_id auth)"
    by (rule store_reach_consumed [rotated])
  moreover have "\<not> is_consumed db (approval_id auth)"
    using unspent register_not_consumed [OF reg] by simp
  moreover have "started db4 (ic_intent_id claim) host (pl_target p) (pl_action p)"
  proof -
    from claim_claimed [OF clm] obtain x where
      id: "ic_intent_id claim = uuid4 (envs 4)" and fresh: "uuid4 (envs 4) \<notin> int_id ` set (intents db2)" and
      db3: "db3 = db2\<lparr>intents := intents db2 @ [new_intent (envs 4) host (pl_target p) (pl_action p) event_id
          (ea_now args)], audit_records := audit_records db2 @ [x]\<rparr>"
      by auto
    have "find_intent db3 (ic_intent_id claim) =
        Some (new_intent (envs 4) host (pl_target p) (pl_action p) event_id (ea_now args))"
      unfolding db3 id find_intent_audit2 by (rule find_intent_new [OF fresh])
    with mark_True [OF mrk] show ?thesis
      by (auto simp: started_def find_intent_update intent_target_def new_intent_def)
  qed
  ultimately show ?thesis using auth c2 by auto
qed

lemma record_outcome_frame:
  assumes "record_outcome envs host p args intent payload ok ex c = (r, c')"
  shows "ct_exec c' = ct_exec c \<and> ctl_reach c c'"
  using assms
  by (auto simp: record_outcome_def ctl_reach_def Let_def split: option.splits sum.splits prod.splits
      dest!: store_reach_ops intro: store_reach_trans)

lemma conclude_frame:
  assumes "conclude envs host ev p args rq tr intent ar c = (r, c')"
  shows "ct_exec c' = ct_exec c \<and> ctl_reach c c'"
  using assms
  by (auto simp: conclude_def Let_def split: sum.splits prod.splits if_splits dest!: record_outcome_frame)

lemma run_executor_frame:
  assumes "run_executor envs execute host ev p args rq tr intent c = (r, c')"
  shows "ct_exec c' = snd (execute rq (ea_now args) (ct_exec c)) \<and> ctl_reach c c'"
proof -
  obtain out x where x: "execute rq (ea_now args) (ct_exec c) = (out, x)" by force
  show ?thesis
  proof (cases out)
    case (Done ar)
    with assms x conclude_frame show ?thesis
      by (fastforce simp: run_executor_def ctl_reach_def)
  next
    case (Denied e)
    with assms x show ?thesis
      by (auto simp: run_executor_def ctl_reach_def Let_def split: option.splits sum.splits prod.splits
          dest!: store_reach_ops)
  next
    case Escaped
    with assms x show ?thesis by (auto simp: run_executor_def ctl_reach_def split: option.splits)
  qed
qed

section \<open>The whole handler\<close>

text \<open>What the event must contain for a plan to exist.\<close>

definition actionable :: "pyval \<Rightarrow> string \<Rightarrow> string \<Rightarrow> bool" where
  "actionable event target action \<longleftrightarrow>
     is_dict event \<and> dget (mapping_of (dget_default (mapping_of event) ''decision'' (PDict []))) ''mode'' = PStr ''enforce'' \<and>
     dget (mapping_of (dget_default (mapping_of event) ''decision'' (PDict []))) ''action'' = PStr action \<and>
     action \<notin> {''none'', ''escalate''} \<and>
     str_in (dget (mapping_of event) ''state'') [''warning'', ''critical''] \<and>
     (\<exists>cand. dget_default (mapping_of event) ''object_candidates'' (PList []) = PList [cand] \<and>
        dget (mapping_of cand) ''kind'' = PStr ''container'' \<and>
        as_nonempty_str (dget (mapping_of cand) ''id'') = Some target)"

lemma plan_actionable:
  "plan_of_event event allowed = Inr (Inr p) \<Longrightarrow>
   actionable event (pl_target p) (pl_action p) \<and> allowed_actions allowed = Inr (pl_allowed p)"
  by (auto simp: plan_of_event_def actionable_def Let_def
      split: if_splits pyval.splits list.splits option.splits sum.splits action_denied.splits)

text \<open>
  Either the executor is not reached, or every gate was passed and \<open>enforce\<close> is its last stage.
\<close>

lemma attempt_shape:
  assumes "attempt envs execute host ev event p args rq tr c = (out, c')"
  obtains (stopped) "ct_exec c' = ct_exec c" "ctl_reach c c'"
      "\<And>r. out = Inr r \<Longrightarrow> cr_state r \<in> {''denied'', ''escalated''} \<and> cr_action_result r = None"
  | (ran) c2 intent where "authorized rq (ea_now args)"
      "claim_durably envs host ev event p args c = (Claimed intent, c2)"
      "run_executor envs execute host ev p args rq tr intent c2 = (out, c')"
proof (cases rq "ea_now args" rule: validate_cases)
  case (denied x)
  with assms show thesis by (intro stopped) (auto simp: attempt_def simple_result_def)
next
  case ok
  obtain cl c2 where cl: "claim_durably envs host ev event p args c = (cl, c2)" by force
  note facts = assms [unfolded attempt_def cl] ok claim_durably_frame [OF cl] claim_durably_state [OF cl]
  show thesis
  proof (cases cl)
    case (Claimed intent)
    with cl facts show thesis by (intro ran) auto
  next
    case (Refused st e)
    with facts show thesis by (intro stopped) (auto simp: Guardian_Controller.denied_def simple_result_def)
  next
    case (RefusedClaim st e iid)
    with facts show thesis by (intro stopped) (auto simp: simple_result_def)
  qed
qed

lemma enforce_shape:
  assumes "enforce rep envs execute event args c = (out, c')"
  obtains (stopped) "ct_exec c' = ct_exec c" "ctl_reach c c'"
      "\<And>r. out = Inr r \<Longrightarrow> cr_state r \<in> {''denied'', ''escalated''} \<and> cr_action_result r = None"
  | (tried) host ev p c1 why t where
      "plan_of_event event (ea_allowed args) = Inr (Inr p)"
      "check_cooldown envs host p args c = (Inr (False, True, why), c1)"
      "attempt envs execute host ev event p args (make_request ev p args t) False c1 = (out, c')"
proof -
  define ev where "ev = (if is_dict event then py_str rep (dget_default (mapping_of event) ''event_id'' (PStr [])) else [])"
  define host where "host = (if is_dict event then py_str rep (py_or (dget (mapping_of event) ''host_id'') (PStr ''unknown-host''))
                  else ''unknown-host'')"
  note e = assms [unfolded enforce_def Let_def, folded ev_def host_def]
  consider x where "plan_of_event event (ea_allowed args) = Inl x"
    | x where "plan_of_event event (ea_allowed args) = Inr (Inl x)"
    | p where "plan_of_event event (ea_allowed args) = Inr (Inr p)"
    by (metis sum.exhaust)
  then show thesis
  proof cases
    case (3 p)
    obtain r1 c1 where cd: "check_cooldown envs host p args c = (r1, c1)" by force
    note f1 = check_cooldown_frame [OF cd]
    show thesis
    proof (cases "\<exists>why t. r1 = Inr (False, True, why) \<and>
        py_int (dget_default (pl_decision p) ''timeout_seconds'' (PInt 30)) = Inr t")
      case False
      with e 3 cd f1 show thesis
        by (intro stopped) (auto simp: denied_def simple_result_def split: sum.splits if_splits)
    next
      case True
      with e 3 cd show thesis by (auto intro!: tried)
    qed
  qed (use e in \<open>auto intro!: stopped simp: denied_def simple_result_def\<close>)
qed

section \<open>Executor calls\<close>

text \<open>An executor that also keeps the list of its calls.\<close>

definition spy ::
    "(action_request \<Rightarrow> rat \<Rightarrow> 'x \<Rightarrow> exec_outcome \<times> 'x) \<Rightarrow> action_request \<Rightarrow> rat \<Rightarrow>
     (action_request \<times> rat) list \<times> 'x \<Rightarrow> exec_outcome \<times> ((action_request \<times> rat) list \<times> 'x)" where
  "spy execute r now s =
     (case execute r now (snd s) of (out, x) \<Rightarrow> (out, (fst s @ [(r, now)], x)))"

lemma spy_calls [simp]: "fst (snd (spy execute r now s)) = fst s @ [(r, now)]"
  by (simp add: spy_def split: prod.splits)

text \<open>
  A call is covered by the durable store: between the store before and after it, there is one in
  which the approval is spent and an intent for the host, target and action is started; before
  the handler ran, the approval was unspent.
\<close>

definition covered :: "state_db \<Rightarrow> state_db \<Rightarrow> action_request \<Rightarrow> bool" where
  "covered db db' rq \<longleftrightarrow>
     (\<exists>auth db2 iid host. req_authorization rq = Some auth \<and> \<not> is_consumed db (approval_id auth) \<and>
        store_reach db db2 \<and> is_consumed db2 (approval_id auth) \<and>
        started db2 iid host (req_target_id rq) (req_action rq) \<and> store_reach db2 db')"

definition legitimate_call :: "pyval \<Rightarrow> enforce_args \<Rightarrow> 'x controller \<Rightarrow> 'x controller \<Rightarrow> action_request \<Rightarrow> bool" where
  "legitimate_call event args c c' rq \<longleftrightarrow>
     authorized rq (ea_now args) \<and> req_authorization rq = ea_authorization args \<and>
     actionable event (req_target_id rq) (req_action rq) \<and>
     allowed_actions (ea_allowed args) = Inr (req_allowed_actions rq) \<and>
     (case (ct_store c, ct_store c') of
        (None, None) \<Rightarrow> True | (Some db, Some db') \<Rightarrow> covered db db' rq | _ \<Rightarrow> False)"

lemma make_request_simps [simp]:
  "req_target_id (make_request ev p args t) = pl_target p"
  "req_action (make_request ev p args t) = pl_action p"
  "req_authorization (make_request ev p args t) = ea_authorization args"
  "req_allowed_actions (make_request ev p args t) = pl_allowed p"
  by (simp_all add: make_request_def)

lemma is_consumed_ledger [simp]: "is_consumed (db\<lparr>action_ledger := m\<rparr>) aid = is_consumed db aid"
  by (simp add: is_consumed_def)

lemma cooldown_claim_covered:
  assumes cd: "check_cooldown envs host p args c = (r, c1)"
    and cl: "claim_durably envs host ev event p args c1 = (Claimed intent, c2)"
    and reach: "ctl_reach c2 c'" and st: "ct_store c = Some db"
  shows "\<exists>db'. ct_store c' = Some db' \<and> covered db db' (make_request ev p args t)"
proof -
  from check_cooldown_frame [OF cd] st obtain db1 where db1: "ct_store c1 = Some db1" "store_reach db db1"
    by (auto simp: ctl_reach_def split: option.splits)
  from claim_durably_Claimed [OF cl db1(1)] obtain auth db2 iid where
    auth: "ea_authorization args = Some auth" "\<not> is_consumed db1 (approval_id auth)"
      "ct_store c2 = Some db2" "is_consumed db2 (approval_id auth)"
      "started db2 iid host (pl_target p) (pl_action p)" by auto
  have "store_reach db db2"
    using db1 auth(3) claim_durably_frame [OF cl] store_reach_trans by (force simp: ctl_reach_def)
  moreover have "\<not> is_consumed db (approval_id auth)"
    using check_cooldown_caps [OF cd db1(1)] auth(2) st by auto
  moreover obtain db' where "ct_store c' = Some db'" "store_reach db2 db'"
    using reach auth(3) by (auto simp: ctl_reach_def split: option.splits)
  ultimately show ?thesis using auth by (auto simp: covered_def)
qed

lemma enforce_calls:
  assumes e: "enforce rep envs (spy execute) event args c = (out, c')"
  shows "fst (ct_exec c') = fst (ct_exec c) \<or>
    (\<exists>rq. fst (ct_exec c') = fst (ct_exec c) @ [(rq, ea_now args)] \<and> legitimate_call event args c c' rq)"
  using e
proof (cases rule: enforce_shape)
  case (tried host ev p c1 why t)
  note f1 = check_cooldown_frame [OF tried(2)]
  from tried(3) show ?thesis
  proof (cases rule: attempt_shape)
    case (ran c2 intent)
    let ?rq = "make_request ev p args t"
    note f2 = claim_durably_frame [OF ran(2)] and f3 = run_executor_frame [OF ran(3)]
    have calls: "fst (ct_exec c') = fst (ct_exec c) @ [(?rq, ea_now args)]"
      using f1 f2 f3 by simp
    have "legitimate_call event args c c' ?rq"
    proof (cases "ct_store c")
      case None
      then have "ct_store c' = None"
        using f1 f2 f3 by (auto simp: ctl_reach_def split: option.splits)
      with None ran(1) plan_actionable [OF tried(1)] show ?thesis by (simp add: legitimate_call_def)
    next
      case (Some db)
      with cooldown_claim_covered [OF tried(2) ran(2) conjunct2 [OF f3] Some, of t]
        ran(1) plan_actionable [OF tried(1)]
      show ?thesis by (auto simp: legitimate_call_def)
    qed
    with calls show ?thesis by blast
  qed (use f1 in simp)
qed simp

lemma enforce_reach:
  assumes e: "enforce rep envs execute event args c = (out, c')"
  shows "ctl_reach c c'"
  using e
proof (cases rule: enforce_shape)
  case (tried host ev p c1 why t)
  have "ctl_reach c1 c'"
    using tried(3)
    by (cases rule: attempt_shape)
      (auto dest!: claim_durably_frame run_executor_frame intro: ctl_reach_trans)
  with check_cooldown_frame [OF tried(2)] show ?thesis by (blast intro: ctl_reach_trans)
qed

section \<open>Runs of a durable controller\<close>

text \<open>
  A controller with a durable store, as the triple of its store, ledger and executor state, and
  one call of \<open>enforce\<close> on it.
\<close>

type_synonym 'x durable_controller = "state_db \<times> cooldown_ledger \<times> 'x"
type_synonym enforce_op = "(nat \<Rightarrow> sql_env) \<times> pyval \<times> enforce_args"

definition as_controller :: "'x durable_controller \<Rightarrow> 'x controller" where
  "as_controller d = \<lparr>ct_store = Some (fst d), ct_ledger = fst (snd d), ct_exec = snd (snd d)\<rparr>"

definition enforce_step ::
    "(pyval \<Rightarrow> string) \<Rightarrow> (action_request \<Rightarrow> rat \<Rightarrow> 'x \<Rightarrow> exec_outcome \<times> 'x) \<Rightarrow>
     'x durable_controller \<Rightarrow> enforce_op \<Rightarrow> 'x durable_controller" where
  "enforce_step rep execute d x =
     (case x of (envs, event, args) \<Rightarrow>
        let c = snd (enforce rep envs execute event args (as_controller d))
        in (the (ct_store c), ct_ledger c, ct_exec c))"

definition call_approval :: "action_request \<times> rat \<Rightarrow> string option" where
  "call_approval call = map_option approval_id (req_authorization (fst call))"

definition dispatched ::
    "(pyval \<Rightarrow> string) \<Rightarrow> (action_request \<Rightarrow> rat \<Rightarrow> 'x \<Rightarrow> exec_outcome \<times> 'x) \<Rightarrow>
     ((action_request \<times> rat) list \<times> 'x) durable_controller \<Rightarrow> enforce_op \<Rightarrow> string option" where
  "dispatched rep execute d x =
     (let calls = fst (snd (snd d)); calls' = fst (snd (snd (enforce_step rep (spy execute) d x)))
      in if calls' = calls then None else call_approval (last calls'))"

lemma enforce_step_calls:
  fixes d :: "((action_request \<times> rat) list \<times> 'x) durable_controller"
  defines "d' rep execute x \<equiv> enforce_step rep (spy execute) d x"
  shows "fst (snd (snd (d' rep execute x))) = fst (snd (snd d)) \<or>
    (\<exists>rq now auth. fst (snd (snd (d' rep execute x))) = fst (snd (snd d)) @ [(rq, now)] \<and>
       req_authorization rq = Some auth \<and> \<not> is_consumed (fst d) (approval_id auth) \<and>
       is_consumed (fst (d' rep execute x)) (approval_id auth))"
proof -
  obtain envs event args where x: "x = (envs, event, args)" by (cases x)
  obtain out c' where e: "enforce rep envs (spy execute) event args (as_controller d) = (out, c')" by force
  obtain db' where st: "ct_store c' = Some db'"
    using enforce_reach [OF e] by (auto simp: as_controller_def ctl_reach_def split: option.splits)
  have d': "d' rep execute x = (db', ct_ledger c', ct_exec c')"
    using e st by (simp add: d'_def x enforce_step_def)
  from enforce_calls [OF e] show ?thesis
  proof
    assume "\<exists>rq. fst (ct_exec c') = fst (ct_exec (as_controller d)) @ [(rq, ea_now args)] \<and>
       legitimate_call event args (as_controller d) c' rq"
    then obtain rq where rq: "fst (ct_exec c') = fst (snd (snd d)) @ [(rq, ea_now args)]"
      "covered (fst d) db' rq"
      by (auto simp: legitimate_call_def st as_controller_def)
    from rq(2) obtain auth where "req_authorization rq = Some auth" "\<not> is_consumed (fst d) (approval_id auth)"
      "is_consumed db' (approval_id auth)"
      by (auto simp: covered_def intro: store_reach_consumed)
    with rq(1) d' show ?thesis by auto
  qed (simp add: d' as_controller_def)
qed

lemma enforce_step_consumed:
  "is_consumed (fst d) aid \<Longrightarrow> is_consumed (fst (enforce_step rep execute d x)) aid"
proof -
  assume c: "is_consumed (fst d) aid"
  obtain envs event args where x: "x = (envs, event, args)" by (cases x)
  obtain out c' where e: "enforce rep envs execute event args (as_controller d) = (out, c')" by force
  from enforce_reach [OF e] obtain db' where "ct_store c' = Some db'" "store_reach (fst d) db'"
    by (auto simp: as_controller_def ctl_reach_def split: option.splits)
  with c e show ?thesis
    by (auto simp: x enforce_step_def intro: store_reach_consumed)
qed

interpretation dispatch: one_shot "enforce_step rep (spy execute)" "dispatched rep execute"
    "\<lambda>d. is_consumed (fst d)" for rep and execute :: "action_request \<Rightarrow> rat \<Rightarrow> 'x \<Rightarrow> exec_outcome \<times> 'x"
proof unfold_locales
  fix d :: "((action_request \<times> rat) list \<times> 'x) durable_controller" and x k
  assume "dispatched rep execute d x = Some k"
  with enforce_step_calls [of rep execute d x]
  show "\<not> is_consumed (fst d) k" "is_consumed (fst (enforce_step rep (spy execute) d x)) k"
    by (auto simp: dispatched_def call_approval_def Let_def split: if_splits)
qed (rule enforce_step_consumed)

lemma calls_granted:
  "map call_approval (fst (snd (snd (exec_all (enforce_step rep (spy execute)) d ops)))) =
   map call_approval (fst (snd (snd d))) @ map Some (granted (enforce_step rep (spy execute)) (dispatched rep execute) d ops)"
proof (induction ops arbitrary: d)
  case (Cons x ops)
  from enforce_step_calls [of rep execute d x] Cons show ?case
    by (auto simp: dispatched_def call_approval_def Let_def)
qed simp

section \<open>What is recorded\<close>

lemma record_result_state:
  assumes "record_result env iid payload ok ex now db = (Inr st, db')" and "started db iid h t a"
  shows "\<exists>row. find_intent db' iid = Some row \<and> int_state row = final_state ok ex \<and>
    intent_target row = (h, t, a)"
  using assms
  by (auto simp: record_result_def transaction_Inr started_def FINAL_INTENT_STATES_def Let_def
      find_intent_update intent_target_def split: option.splits if_splits sum.splits)

definition recorded_as :: "state_db \<Rightarrow> string \<Rightarrow> string \<times> string \<times> string \<Rightarrow> intent_state \<Rightarrow> bool" where
  "recorded_as db iid key st \<longleftrightarrow>
     (\<exists>row. find_intent db iid = Some row \<and> int_state row = st \<and> intent_target row = key)"

lemma started_recorded: "started db iid h t a \<longleftrightarrow> recorded_as db iid (h, t, a) EXECUTION_STARTED"
  by (auto simp: started_def recorded_as_def)

lemma recorded_as_ledger [simp]: "recorded_as (db\<lparr>action_ledger := m\<rparr>) iid k st = recorded_as db iid k st"
  by (simp add: recorded_as_def find_intent_def)

lemma record_outcome_state:
  assumes "record_outcome envs host p args (Some iid) payload ok ex c = (Inr tr, c')"
    and "ct_store c = Some db" and "started db iid h t a"
  shows "\<exists>db'. ct_store c' = Some db' \<and> recorded_as db' iid (h, t, a) (final_state ok ex)"
proof -
  from assms(1,2) obtain st db1 db2 where
    rec: "record_result (envs 6) iid payload ok ex (ea_now args) db = (Inr st, db1)" and
    act: "record_action (envs 7) host (pl_target p) (pl_action p) (ea_now args) ok db1 = (Inr (), db2)" and
    c': "ct_store c' = Some db2"
    by (auto simp: record_outcome_def split: sum.splits prod.splits)
  have "recorded_as db1 iid (h, t, a) (final_state ok ex)"
    using record_result_state [OF rec assms(3)] by (auto simp: recorded_as_def)
  with record_action_db [OF act] c' show ?thesis by auto
qed

lemma assess_recovery_unrecovered:
  assumes "\<not> rr_recovered (assess_recovery pol ob)"
  shows "rr_state (assess_recovery pol ob) \<in> {''failed'', ''pending''}"
proof -
  define Q where "Q r \<longleftrightarrow> rr_recovered r \<or> rr_state r \<in> {''failed'', ''pending''}" for r :: recovery_result
  have q: "Q (result ''failed'' False e)" "Q (result ''pending'' False e)" "Q (result st True e)" for st e
    by (simp_all add: Q_def result_def)
  have q_if: "Q (if b then r else r')" if "Q r" "Q r'" for b r r'
    using that by simp
  have "Q (assess_recovery pol ob)"
    unfolding assess_recovery_def Let_def by (intro q_if q)
  with assms show ?thesis by (auto simp: Q_def)
qed

lemma unrecovered_state:
  "assess_action args t rq ar = Inr (Some r) \<Longrightarrow> \<not> rr_recovered r \<Longrightarrow> rr_state r \<in> {''failed'', ''pending''}"
  using assess_recovery_unrecovered
  by (auto simp: assess_action_def result_def split: option.splits if_splits probe_outcome.splits)

definition SUCCESS_STATES :: "string list" where
  "SUCCESS_STATES = [''executed'', ''recovered'', ''mitigated'']"

lemma final_outcome_success:
  assumes "final_outcome ok ar recovery layers tr = (st, reasons)"
    and "\<And>r. recovery = Some r \<Longrightarrow> \<not> rr_recovered r \<Longrightarrow> rr_state r \<in> {''failed'', ''pending''}"
  shows "st \<in> set SUCCESS_STATES \<longleftrightarrow>
    ok \<and> (case recovery of None \<Rightarrow> True | Some r \<Rightarrow> rr_recovered r) \<and>
    (case layers of None \<Rightarrow> True | Some l \<Rightarrow> tl_host_mitigated l)"
  using assms
  by (auto simp: final_outcome_def SUCCESS_STATES_def split: option.splits if_splits)

text \<open>The last stage of a run that called the executor.\<close>

lemma finish_recorded:
  assumes "conclude envs host ev p args rq tr (Some iid) ar c = (Inr r, c')"
    and "ct_store c = Some db" and "started db iid h t a" and "cr_cooldown_state r = ''recorded''"
  shows "cr_action_result r = Some ar \<and> res_executed ar \<and> cr_intent_id r = Some iid \<and>
    (res_returncode ar = Some 0 \<or> cr_state r \<notin> set SUCCESS_STATES) \<and>
    (\<exists>db'. ct_store c' = Some db' \<and>
       recorded_as db' iid (h, t, a) (if cr_state r \<in> set SUCCESS_STATES then SUCCEEDED else FAILED))"
proof -
  let ?layers = "assess_layers args (pl_target p)"
  let ?ok = "\<lambda>recovery. res_returncode ar = Some 0 \<and>
    (case recovery of None \<Rightarrow> True | Some r \<Rightarrow> rr_recovered r) \<and>
    (case ?layers of None \<Rightarrow> True | Some l \<Rightarrow> tl_host_mitigated l)"
  note e = assms(1) [unfolded conclude_def Let_def]
  obtain recovery where as: "assess_action args (pl_target p) rq ar = Inr recovery"
    using e by (cases "assess_action args (pl_target p) rq ar") simp_all
  note e = e [unfolded as sum.case]
  have ex: "res_executed ar"
    using e assms(4) by (cases "res_executed ar") auto
  obtain o1 c1 where rec: "record_outcome envs host p args (Some iid) (result_payload ar ?layers)
      (?ok recovery) True c = (o1, c1)" by force
  note e = e [simplified ex, simplified, unfolded rec prod.case]
  obtain tr' where o1: "o1 = Inr tr'"
    using e assms(4) by (cases o1) auto
  obtain st reasons where
    fin: "final_outcome (res_returncode ar = Some 0) ar recovery ?layers tr' = (st, reasons)" by force
  from e [unfolded o1 sum.case fin prod.case]
  have r: "cr_state r = st" "cr_action_result r = Some ar" "cr_intent_id r = Some iid" "c1 = c'" by auto
  note rec = rec [unfolded o1 r(4)]
  have ok: "st \<in> set SUCCESS_STATES \<longleftrightarrow> res_returncode ar = Some 0 \<and>
      (case recovery of None \<Rightarrow> True | Some r \<Rightarrow> rr_recovered r) \<and>
      (case ?layers of None \<Rightarrow> True | Some l \<Rightarrow> tl_host_mitigated l)"
    using unrecovered_state as by (intro final_outcome_success [OF fin]) blast
  show ?thesis
    using record_outcome_state [OF rec [folded ok] assms(2,3)] r ex ok
    by (simp add: final_state_def)
qed

lemma finish_planned:
  assumes "conclude envs host ev p args rq tr (Some iid) ar c = (Inr r, c')"
    and "ct_store c = Some db" and "started db iid h t a" and "\<not> res_executed ar"
  shows "cr_state r = ''planned'' \<and> cr_intent_id r = Some iid \<and> c' = c"
  using assms by (auto simp: conclude_def Let_def split: sum.splits)

lemma finish_escalated:
  assumes "conclude envs host ev p args rq tr intent ar c = (Inr r, c')"
  shows "cr_action_result r = Some ar"
  using assms by (auto simp: conclude_def Let_def split: sum.splits prod.splits if_splits)

text \<open>A result that carries an action result comes from the last stage.\<close>

lemma enforce_finish:
  assumes "enforce rep envs execute event args c = (Inr r, c')" and "cr_action_result r = Some ar"
    and "ct_store c = Some db"
  obtains host ev p rq tr iid c2 db2 where
    "conclude envs host ev p args rq tr (Some iid) ar c2 = (Inr r, c')"
    "ct_store c2 = Some db2" "started db2 iid host (pl_target p) (pl_action p)"
    "actionable event (pl_target p) (pl_action p)"
  using assms(1)
proof (cases rule: enforce_shape)
  case (tried host ev p c1 why t)
  obtain db1 where db1: "ct_store c1 = Some db1"
    using check_cooldown_frame [OF tried(2)] assms(3) by (auto simp: ctl_reach_def split: option.splits)
  from tried(3) show thesis
  proof (cases rule: attempt_shape)
    case (ran c2 intent)
    from claim_durably_Claimed [OF ran(2) db1] obtain db2 iid where
      c2: "ct_store c2 = Some db2" "intent = Some iid" "started db2 iid host (pl_target p) (pl_action p)" by auto
    from ran(3) assms(2) c2 obtain x ar' where
      "conclude envs host ev p args (make_request ev p args t) False (Some iid) ar' (c2\<lparr>ct_exec := x\<rparr>) = (Inr r, c')"
      by (auto simp: run_executor_def Let_def simple_result_def
          split: prod.splits exec_outcome.splits sum.splits)
    with finish_escalated [OF this] assms(2) c2 plan_actionable [OF tried(1)] show thesis
      by (intro that [of host ev p _ False iid "c2\<lparr>ct_exec := x\<rparr>" db2]) auto
  qed (use assms(2) in auto)
qed (use assms(2) in auto)

section \<open>Properties\<close>

text \<open>A run on a critical event with one disposable container, for the witnesses.\<close>

definition example_event :: pyval where
  "example_event =
     PDict [(''event_id'', PStr ''ev-1''), (''host_id'', PStr ''host-a''), (''state'', PStr ''critical''),
            (''object_candidates'', PList [PDict [(''kind'', PStr ''container''), (''id'', PStr example_target)]]),
            (''decision'', PDict [(''mode'', PStr ''enforce''), (''action'', PStr ''graceful_stop''),
                                  (''protected'', PBool False), (''timeout_seconds'', PInt 30)])]"

definition example_args :: enforce_args where
  "example_args =
     \<lparr>ea_authorization = Some example_authorization, ea_allowed = [''graceful_stop''], ea_now = 100,
      ea_recovery_observation = None, ea_recovery_policy = None, ea_recovery_probe = None,
      ea_host_observation = None, ea_host_policy = None, ea_business_observation = None,
      ea_business_policy = None, ea_cooldown = 60, ea_max_actions = 1, ea_window = 600,
      ea_max_failures = 2\<rparr>"

definition example_controller :: "'x \<Rightarrow> 'x controller" where
  "example_controller x = \<lparr>ct_store = Some empty_db, ct_ledger = empty_ledger, ct_exec = x\<rparr>"

definition ok_runner :: "nat runner" where
  "ok_runner cmd timeout n = (Completed 0 None None, n + 1)"

definition example_docker_run :: "(enforce_exn + controller_result) \<times> nat controller" where
  "example_docker_run =
     enforce (\<lambda>_. []) (\<lambda>_. env_ok) (docker_execute ok_runner) example_event example_args (example_controller 0)"

definition example_mock_run :: "(enforce_exn + controller_result) \<times> action_request list controller" where
  "example_mock_run =
     enforce (\<lambda>_. []) (\<lambda>_. env_ok) mock_execute example_event example_args (example_controller [])"

definition example_plan :: enforce_plan where
  "example_plan = \<lparr>pl_target = example_target, pl_action = ''graceful_stop'',
     pl_decision = mapping_of (dget (mapping_of example_event) ''decision''), pl_allowed = {''graceful_stop''}\<rparr>"

lemma example_plan: "plan_of_event example_event (ea_allowed example_args) = Inr (Inr example_plan)"
  by (simp add: plan_of_event_def example_plan_def example_event_def example_args_def allowed_actions_def
      example_target_def Let_def SUPPORTED_ACTIONS_def)

lemma example_cooldown:
  "\<exists>why. check_cooldown (\<lambda>_. env_ok) host example_plan example_args (example_controller x) =
     (Inr (False, True, why), example_controller x)"
  by (simp add: check_cooldown_def example_controller_def example_args_def failure_breaker_def allow_action_def store_eval empty_db_def)


lemmas controller_eval = claim_durably_def register_capability_def consume_capability_def claim_intent_def
  mark_execution_started_def record_outcome_def record_result_def record_action_def failure_breaker_def
  authorization_fields_def

lemma example_timeout: "py_int (dget_default (pl_decision example_plan) ''timeout_seconds'' (PInt 30)) = Inr 30"
  by (simp add: example_plan_def example_event_def)

lemma example_make_request: "authorized (make_request ev example_plan example_args 30) (ea_now example_args)"
  using example_target_valid
  by (simp add: authorized_def make_request_def example_plan_def example_args_def example_event_def example_authorization_def SUPPORTED_ACTIONS_def)

lemma example_ids:
  "is_dict example_event" "dget_default (mapping_of example_event) ''event_id'' (PStr []) = PStr ''ev-1''"
  "dget (mapping_of example_event) ''host_id'' = PStr ''host-a''"
  by (simp_all add: example_event_def)

lemma example_attempt:
  "enforce rep (\<lambda>_. env_ok) execute example_event example_args (example_controller x) = 
     attempt (\<lambda>_. env_ok) execute ''host-a'' ''ev-1'' example_event example_plan example_args
       (make_request ''ev-1'' example_plan example_args 30) False (example_controller x)"
proof -
  obtain why where "check_cooldown (\<lambda>_. env_ok) ''host-a'' example_plan example_args (example_controller x) =
     (Inr (False, True, why), example_controller x)" by (rule exE [OF example_cooldown])
  then show ?thesis
    unfolding enforce_def example_plan
    by (simp add: example_timeout example_ids py_or_def Let_def)
qed

definition example_claimed_db :: state_db where
  "example_claimed_db = the (ct_store (snd (claim_durably (\<lambda>_. env_ok) ''host-a'' ''ev-1'' example_event example_plan example_args
     (example_controller ()))))"

lemma example_claim:
  "claim_durably (\<lambda>_. env_ok) ''host-a'' ''ev-1'' example_event example_plan example_args (example_controller x) =
    (Claimed (Some ''intent-1''), (example_controller x)\<lparr>ct_store := Some example_claimed_db\<rparr>)"
  "recorded_as example_claimed_db ''intent-1'' (''host-a'', example_target, ''graceful_stop'') EXECUTION_STARTED"
  "action_ledger example_claimed_db = (\<lambda>_. None)"
  by (simp_all add: controller_eval example_claimed_db_def example_controller_def example_args_def example_plan_def
    example_authorization_def store_eval empty_db_def recorded_as_def intent_target_def)

lemma example_docker:
  "docker_execute ok_runner (make_request ''ev-1'' example_plan example_args 30) (ea_now example_args) n =
     (Done \<lparr>res_executed = True, res_action = ''graceful_stop'', res_target_id = example_target,
            res_returncode = Some 0, res_stdout = [], res_stderr = [], res_reason = ''authorized_runtime_call''\<rparr>, n + 1)"
  using example_make_request [of "''ev-1''"]
  by (simp add: docker_execute_def validate_iff_authorized [THEN iffD2] docker_command_def ok_runner_def text_or_empty_def)
   (simp add: make_request_def example_plan_def)

lemma example_record:
  assumes "ct_store c = Some example_claimed_db"
  shows "\<exists>tr c'. record_outcome (\<lambda>_. env_ok) host p args (Some ''intent-1'') payload ok ex c = (Inr tr, c')"
proof -
  obtain row where row: "find_intent example_claimed_db ''intent-1'' = Some row" "int_state row = EXECUTION_STARTED"
    using example_claim(2) by (auto simp: recorded_as_def)
  show ?thesis
    using assms
    by (simp add: record_outcome_def record_result_def row record_action_def failure_breaker_def transaction_def
        audit_def state_json_def MAX_STATE_JSON_BYTES_def Let_def FINAL_INTENT_STATES_def example_claim(3))
qed

lemmas example_run = example_attempt attempt_def example_claim(1) run_executor_def conclude_def
  validate_iff_authorized [THEN iffD2, OF example_make_request]

lemma example_no_recovery: "assess_action example_args t rq ar = Inr None" "assess_layers example_args t = None"
  by (simp_all add: assess_action_def assess_layers_def example_args_def)

lemma example_docker_result:
  "\<exists>r ar. fst example_docker_run = Inr r \<and> cr_cooldown_state r = ''recorded'' \<and> cr_action_result r = Some ar \<and>
     cr_state r = ''executed''"
proof -
  let ?rec = "\<lambda>pay. record_outcome (\<lambda>_. env_ok) ''host-a'' example_plan example_args (Some ''intent-1'')
      pay True True ((example_controller 0)\<lparr>ct_store := Some example_claimed_db, ct_exec := Suc (ct_exec (example_controller 0))\<rparr>)"
  have "\<exists>tr c'. ?rec pay = (Inr tr, c')" for pay
    by (rule example_record) simp
  then obtain tr c' where r: "\<And>pay. ?rec pay = (Inr (tr pay), c' pay)" by metis
  show ?thesis
  unfolding example_docker_run_def
  by (simp add: example_run example_docker example_no_recovery Let_def r final_outcome_def)
qed


lemma example_mock:
  "mock_execute (make_request ''ev-1'' example_plan example_args 30) (ea_now example_args) rs =
     (Done \<lparr>res_executed = False, res_action = ''graceful_stop'', res_target_id = example_target,
            res_returncode = None, res_stdout = [], res_stderr = [], res_reason = ''mock_only_not_executed''\<rparr>, 
      rs @ [make_request ''ev-1'' example_plan example_args 30])"
  using example_make_request [of "''ev-1''"]
  by (simp add: mock_execute_def validate_iff_authorized [THEN iffD2]) (simp add: example_plan_def)

lemma example_mock_result:
  "\<exists>r ar. fst example_mock_run = Inr r \<and> cr_action_result r = Some ar \<and> \<not> res_executed ar"
  unfolding example_mock_run_def
  by (simp add: example_run example_mock example_no_recovery Let_def)

text \<open>
  C2. One call of \<open>enforce\<close>, whatever the event, the arguments, the SQL failures and the executor,
  calls the executor at most once, and only with a request that passed the whole authorization
  boundary, for an actionable event with one container.  A controller with a durable store calls it only after the
  approval, unspent before, was spent and the intent marked started in the store; a controller without one, the
  default of the constructor, has no such record.
\<close>
theorem enforce_call_guarded:
  "case enforce rep envs (spy execute) event args c of (out, c') \<Rightarrow>
     fst (ct_exec c') = fst (ct_exec c) \<or>
     (\<exists>rq. fst (ct_exec c') = fst (ct_exec c) @ [(rq, ea_now args)] \<and>
        authorized rq (ea_now args) \<and> req_authorization rq = ea_authorization args \<and>
        actionable event (req_target_id rq) (req_action rq) \<and>
        allowed_actions (ea_allowed args) = Inr (req_allowed_actions rq) \<and>
        (case ct_store c of
           None \<Rightarrow> ct_store c' = None
         | Some db \<Rightarrow> \<exists>db'. ct_store c' = Some db' \<and> covered db db' rq))"
proof -
  obtain out c' where e: "enforce rep envs (spy execute) event args c = (out, c')" by force
  from enforce_calls [OF e] show ?thesis
    unfolding e prod.case legitimate_call_def by (fastforce split: option.splits)
qed

text \<open>
  C1. Over any sequence of \<open>enforce\<close> calls on one durable store, with any SQL failures, executor
  failures and probes in between, no approval reaches the executor twice, and every executor call
  carries an approval.
\<close>
theorem approval_dispatched_once:
  "\<exists>approvals. distinct approvals \<and>
     map call_approval (fst (snd (snd (exec_all (enforce_step rep (spy execute)) (db, l, ([], x)) ops)))) =
     map Some approvals"
  using dispatch.granted_once [of rep execute "(db, l, ([], x))" ops] calls_granted [of rep execute "(db, l, ([], x))" ops]
  by auto

text \<open>
  When the controller reports a recorded action, its durable intent agrees with the report:
  the executor really ran, the intent is SUCCEEDED exactly for the reported states executed,
  recovered and mitigated and FAILED otherwise, and a reported success has return code 0.
\<close>
theorem report_matches_intent:
  assumes "enforce rep envs execute event args c = (Inr r, c')" and "ct_store c = Some db"
    and "cr_action_result r = Some ar" and "cr_cooldown_state r = ''recorded''"
  shows "\<exists>iid host target action db'. res_executed ar \<and> cr_intent_id r = Some iid \<and>
    actionable event target action \<and> ct_store c' = Some db' \<and>
    recorded_as db' iid (host, target, action)
      (if cr_state r \<in> set SUCCESS_STATES then SUCCEEDED else FAILED) \<and>
    (res_returncode ar = Some 0 \<or> cr_state r \<notin> set SUCCESS_STATES)"
  using assms(1,3,2)
proof (cases rule: enforce_finish)
  case (1 host ev p rq tr iid c2 db2)
  from finish_recorded [OF 1(1-3) assms(4)] 1(4) show ?thesis by blast
qed

theorem report_matches_intent_witness:
  "\<exists>r iid host target action db'. fst example_docker_run = Inr r \<and>
    cr_state r = ''executed'' \<and> cr_intent_id r = Some iid \<and>
    actionable example_event target action \<and> ct_store (snd example_docker_run) = Some db' \<and>
    recorded_as db' iid (host, target, action) SUCCEEDED"
proof -
  obtain r ar where r: "fst example_docker_run = Inr r" "cr_cooldown_state r = ''recorded''"
    "cr_action_result r = Some ar" "cr_state r = ''executed''" using example_docker_result by blast
  then have "enforce (\<lambda>_. []) (\<lambda>_. env_ok) (docker_execute ok_runner) example_event example_args
      (example_controller 0) = (Inr r, snd example_docker_run)"
    by (metis example_docker_run_def prod.collapse)
  from report_matches_intent [OF this _ r(3,2), of empty_db] r(1,4) show ?thesis
    by (simp add: example_controller_def SUCCESS_STATES_def) blast
qed

text \<open>
  A planning executor (one whose result is not executed) with a durable store: the report is
  \<open>planned\<close> and nothing is recorded, so the intent it claimed is left EXECUTION_STARTED.
\<close>
theorem planned_leaves_intent_started:
  assumes "enforce rep envs execute event args c = (Inr r, c')" and "ct_store c = Some db"
    and "cr_action_result r = Some ar" and "\<not> res_executed ar"
  shows "\<exists>iid host target action db'. cr_state r = ''planned'' \<and> cr_intent_id r = Some iid \<and>
    actionable event target action \<and> ct_store c' = Some db' \<and>
    recorded_as db' iid (host, target, action) EXECUTION_STARTED"
  using assms(1,3,2)
proof (cases rule: enforce_finish)
  case (1 host ev p rq tr iid c2 db2)
  from finish_planned [OF 1(1-3) assms(4)] 1(2-4) show ?thesis by (auto simp: started_recorded)
qed

theorem planned_leaves_intent_started_witness:
  "\<exists>r iid host target action db'. fst example_mock_run = Inr r \<and>
    cr_state r = ''planned'' \<and> cr_intent_id r = Some iid \<and>
    actionable example_event target action \<and> ct_store (snd example_mock_run) = Some db' \<and>
    recorded_as db' iid (host, target, action) EXECUTION_STARTED"
proof -
  obtain r ar where r: "fst example_mock_run = Inr r" "cr_action_result r = Some ar" "\<not> res_executed ar"
    using example_mock_result by blast
  then have "enforce (\<lambda>_. []) (\<lambda>_. env_ok) mock_execute example_event example_args
      (example_controller []) = (Inr r, snd example_mock_run)"
    by (metis example_mock_run_def prod.collapse)
  from planned_leaves_intent_started [OF this _ r(2,3), of empty_db] r(1) show ?thesis
    by (simp add: example_controller_def)
qed

end
