(* ===== verification/Guardian_Coordinator.thy ===== *)
theory Guardian_Coordinator
  imports Guardian_Intent Guardian_Outbox Guardian_Controller
begin

text \<open>
  The local action path (\<open>src/guardian_coordinator.py\<close>): the adapters, the action broker and the
  coordinator that turns an event into a notification, an intent and at most one adapter call.  The
  adapter, the revalidation and the verification act on a world of any type and may return anything
  the code distinguishes; each call of a store meets its own SQL environment, numbered in the order
  of the code.
\<close>

section \<open>Adapters\<close>

datatype adapter_outcome = AdapterDenied string | AdapterRaised | NotAResult | AdapterDone action_result

text \<open>
  \<open>ad_fake\<close> is \<open>isinstance(adapter, FakeActionAdapter)\<close>, \<open>ad_managed\<close> the attribute
  \<open>broker_managed_capability\<close>; \<open>ad_run\<close> is \<open>execute_intent\<close> where the adapter has it, else \<open>execute\<close>.
\<close>

record 'x adapter =
  ad_fake :: bool
  ad_managed :: bool
  ad_run :: "guardian_intent \<Rightarrow> action_request \<Rightarrow> string \<Rightarrow> rat \<Rightarrow> 'x \<Rightarrow> adapter_outcome \<times> 'x"

definition fake_result :: "bool \<Rightarrow> action_request \<Rightarrow> int option \<Rightarrow> string \<Rightarrow> string \<Rightarrow> string \<Rightarrow> action_result" where
  "fake_result executed r code out err reason =
     \<lparr>res_executed = executed, res_action = req_action r, res_target_id = req_target_id r, res_returncode = code,
      res_stdout = out, res_stderr = err, res_reason = reason\<rparr>"

definition FAKE_OUTCOMES :: "string list" where
  "FAKE_OUTCOMES = [''success'', ''failure'', ''timeout'', ''rejected'', ''not_executed'']"

definition fake_outcome :: "string \<Rightarrow> action_request \<Rightarrow> adapter_outcome" where
  "fake_outcome outcome r =
     (if outcome = ''rejected'' then AdapterDenied ''fake_adapter_rejected''
      else if outcome = ''not_executed'' then AdapterDone (fake_result False r None [] [] ''fake_not_executed'')
      else if outcome = ''failure'' then AdapterDone (fake_result True r (Some 1) [] ''fake_failure'' ''fake_failure'')
      else if outcome = ''timeout'' then AdapterDone (fake_result True r None [] ''executor_timeout'' ''executor_timeout'')
      else AdapterDone (fake_result True r (Some 0) ''fake_success'' [] ''fake_success''))"

definition fake_adapter :: "string \<Rightarrow> string + action_request list adapter" where
  "fake_adapter outcome =
     (if outcome \<notin> set FAKE_OUTCOMES then Inl ''fake_adapter_outcome_invalid''
      else Inr \<lparr>ad_fake = True, ad_managed = False,
                ad_run = (\<lambda>_ r _ _ requests. (fake_outcome outcome r, requests @ [r]))\<rparr>)"

section \<open>Verification\<close>

definition default_verification :: "guardian_intent \<Rightarrow> action_result \<Rightarrow> two_layer_result" where
  "default_verification intent ar =
     (let ok = res_executed ar \<and> res_returncode ar = Some 0
      in assess_two_layer_recovery default_host_policy
           \<lparr>ho_before_available = Some (Fin 1), ho_after_available = Some (Fin (if ok then 5 else 1)),
            ho_before_psi = Some (Fin 1), ho_after_psi = Some (Fin (if ok then 0 else 1)), ho_before_oom = Some 0,
            ho_after_oom = Some 0, ho_risk_state = (if ok then ''recovered'' else ''critical''), ho_after = Fin 1,
            ho_resource_kind = ''memory'', ho_before_state = None, ho_after_state = None\<rparr>
           (Some \<lparr>bp_max_wait = Fin 30, bp_healthy = {''healthy'', ''running''}, bp_require_probe = True,
                  bp_action = gi_action intent\<rparr>)
           (Some \<lparr>bo_target_id = gi_target_id intent, bo_present = False, bo_running = False, bo_health = Some ''exited'',
                  bo_probe_ok = Some False, bo_after = Fin 1\<rparr>)
           (Some (gi_target_id intent)))"

definition simulation_verification :: two_layer_result where
  "simulation_verification =
     \<lparr>tl_host_state = ''NOT_APPLICABLE'', tl_business_state = ''NOT_APPLICABLE'', tl_overall_state = ''SIMULATED_PLAN'',
      tl_host_mitigated = False, tl_business_recovered = False, tl_reasons = [''simulation_no_real_execution'']\<rparr>"

definition unknown_verification :: two_layer_result where
  "unknown_verification =
     \<lparr>tl_host_state = ''UNKNOWN'', tl_business_state = ''UNKNOWN'', tl_overall_state = ''VERIFICATION_UNKNOWN'',
      tl_host_mitigated = False, tl_business_recovered = False, tl_reasons = [''post_action_verification_unavailable'']\<rparr>"

text \<open>The verification of a call: the default function, or a provider; \<open>None\<close> when it raises or returns nothing.\<close>

datatype 'x verifier =
    DefaultVerification
  | Verifier "guardian_intent \<Rightarrow> action_result \<Rightarrow> 'x \<Rightarrow> two_layer_result option \<times> 'x"

definition run_verification ::
  "string \<Rightarrow> 'x verifier \<Rightarrow> guardian_intent \<Rightarrow> action_result \<Rightarrow> 'x \<Rightarrow> two_layer_result option \<times> 'x" where
  "run_verification mode verifier intent ar x =
     (case verifier of
        DefaultVerification \<Rightarrow>
          (Some (if mode = ''enforce'' then unknown_verification else default_verification intent ar), x)
      | Verifier verify \<Rightarrow> verify intent ar x)"

section \<open>The action broker\<close>

record broker_result =
  br_state :: string
  br_reasons :: "string list"
  br_action :: "action_result option"
  br_verification :: "two_layer_result option"
  br_capability :: string
  br_cooldown :: string
  br_called :: bool
  br_reconcile :: bool
  br_semantic :: string
  br_execution :: string
  br_revalidation :: "fresh_revalidation option"
  br_trace :: "string list"

text \<open>\<open>BrokerResult(state, reasons)\<close> with the default fields.\<close>

definition broker_reply :: "string \<Rightarrow> string list \<Rightarrow> broker_result" where
  "broker_reply st reasons =
     \<lparr>br_state = st, br_reasons = reasons, br_action = None, br_verification = None, br_capability = ''not_required'',
      br_cooldown = ''not_checked'', br_called = False, br_reconcile = False, br_semantic = ''PLANNED'',
      br_execution = ''NOT_EXECUTED'', br_revalidation = None, br_trace = []\<rparr>"

datatype provider_outcome = ProviderRaised | NotRevalidation | Provided fresh_revalidation

record 'x action_broker =
  ab_policy :: shedding_policy
  ab_adapter :: "'x adapter"
  ab_cooldown_seconds :: rat
  ab_max_actions :: int
  ab_action_window :: rat
  ab_max_failures :: int
  ab_provider :: "(guardian_intent \<Rightarrow> pydict \<Rightarrow> 'x \<Rightarrow> provider_outcome \<times> 'x) option"

text \<open>The argument checks of the constructor; the two durations are floats.\<close>

definition make_action_broker ::
  "shedding_policy \<Rightarrow> 'x adapter \<Rightarrow> pyfloat \<Rightarrow> pyval \<Rightarrow> pyfloat \<Rightarrow> pyval \<Rightarrow>
   (guardian_intent \<Rightarrow> pydict \<Rightarrow> 'x \<Rightarrow> provider_outcome \<times> 'x) option \<Rightarrow> string + 'x action_broker" where
  "make_action_broker policy adapter cooldown max_actions window max_failures provider =
     (case cooldown of
        Fin c \<Rightarrow>
          if \<not> (0 \<le> c \<and> c \<le> 86400) then Inl ''cooldown_seconds_out_of_bounds''
          else sum_bind (bounded_int max_actions 1 10 ''max_actions_out_of_bounds'') (\<lambda>m.
            case window of
              Fin w \<Rightarrow>
                if \<not> (0 < w \<and> w \<le> 86400) then Inl ''action_window_seconds_out_of_bounds''
                else sum_bind (bounded_int max_failures 1 10 ''max_consecutive_failures_out_of_bounds'') (\<lambda>f.
                  Inr \<lparr>ab_policy = policy, ab_adapter = adapter, ab_cooldown_seconds = c, ab_max_actions = m,
                       ab_action_window = w, ab_max_failures = f, ab_provider = provider\<rparr>)
            | _ \<Rightarrow> Inl ''action_window_seconds_out_of_bounds'')
      | _ \<Rightarrow> Inl ''cooldown_seconds_out_of_bounds'')"

subsection \<open>Preflight\<close>

definition policy_entry_id :: "pydict \<Rightarrow> pyval" where
  "policy_entry_id item = py_or (dget item ''stable_id'') (py_or (dget item ''container_id'') (dget item ''id''))"

text \<open>The keys of \<open>_policy_entries\<close>: is the target one of them?\<close>

definition policy_lists :: "string \<Rightarrow> pyval list \<Rightarrow> bool" where
  "policy_lists target items = (PStr target \<in> set (map (policy_entry_id \<circ> mapping_of) items))"

definition registry_of :: "pydict \<Rightarrow> pydict list option \<Rightarrow> pydict list" where
  "registry_of event current =
     (case current of
        Some items \<Rightarrow> items
      | None \<Rightarrow>
          map mapping_of (filter is_dict
            (list_value (dget (mapping_of (dget (mapping_of (dget event ''signals'')) ''object_registry'')) ''objects''))))"

definition danger_confirmed :: "(pyval \<Rightarrow> string) \<Rightarrow> string \<Rightarrow> pydict \<Rightarrow> pydict \<Rightarrow> bool" where
  "danger_confirmed rep resource event risk_event =
     (let emergency = mapping_of (dget event ''emergency_shedding'');
          risk = mapping_of (dget (mapping_of (dget (mapping_of (dget risk_event ''resource_evaluations'')) resource)) ''risk'');
          active = py_or (dget (mapping_of (dget risk_event ''emergency_shedding'')) ''active_resources'') (dget emergency ''active_resources'')
      in dget risk ''danger_confirmed'' = PBool True \<or>
         py_lower (py_str rep (py_or (dget risk ''state'') (PStr []))) \<in> {''critical_confirmed'', ''critical-confirmed''} \<or>
         PStr resource \<in> set (list_value active) \<and>
         dget (mapping_of (dget emergency ''decision'')) ''action'' = PStr ''graceful_stop'')"

definition broker_aliases :: "(string \<times> string) list" where
  "broker_aliases =
     [(''capacity'', ''disk_capacity''), (''disk'', ''disk_capacity''), (''disk_capacity'', ''disk_capacity''),
      (''memory'', ''memory''), (''cpu'', ''cpu''), (''io'', ''io'')]"

definition allows_resource :: "string \<Rightarrow> pyval \<Rightarrow> bool" where
  "allows_resource resource allowed =
     list_ex (\<lambda>v. is_str v \<and> (case map_of broker_aliases (py_lower (py_strip (text_of v))) of
                                  None \<Rightarrow> resource = [] | Some r \<Rightarrow> r = resource)) (list_value allowed)"

text \<open>The checks of the actionable entry; the refusal reason, or none.\<close>

definition check_entry :: "(string \<Rightarrow> iso_time) \<Rightarrow> rat \<Rightarrow> shedding_policy \<Rightarrow> guardian_intent \<Rightarrow> string option" where
  "check_entry iso_at now policy intent =
     (if policy_lists (gi_target_id intent) (sp_protected_set policy) then Some ''protected_object''
      else case find (\<lambda>item. policy_entry_id item = PStr (gi_target_id intent)) (map mapping_of (sp_actionable_set policy)) of
          None \<Rightarrow> Some ''target_not_actionable''
        | Some entry \<Rightarrow>
            if \<not> allows_resource (gi_resource_kind intent) (dget entry ''allowed_resources'') then Some ''resource_not_allowed''
            else if dget entry ''action'' \<noteq> PStr ''graceful_stop'' \<or> dget entry ''environment'' \<noteq> PStr ''local-disposable''
            then Some ''actionable_entry_invalid''
            else (case parse_expiry iso_at (dget entry ''expires_at'') ''actionable_expires_at'' of
                Inl _ \<Rightarrow> Some ''actionable_entry_invalid''
              | Inr t \<Rightarrow> if t \<le> now then Some ''actionable_entry_expired'' else None))"

definition registry_identity :: "guardian_intent \<Rightarrow> pydict \<Rightarrow> (string \<times> string) list \<Rightarrow> bool" where
  "registry_identity intent identity ls \<longleftrightarrow>
     dget identity ''created_at'' = PStr (gi_target_created_at intent) \<and>
     dget identity ''cgroup_path'' = PStr (gi_target_cgroup_path intent) \<and>
     py_eq (dget identity ''cgroup_inode'') (PInt (gi_target_cgroup_inode intent)) \<and> ls = gi_target_labels intent"

text \<open>The checks of the target; invalid labels raise only when the other fields agree.\<close>

definition check_identity :: "(pyval \<Rightarrow> string) \<Rightarrow> guardian_intent \<Rightarrow> pydict list \<Rightarrow> py_exn + string option" where
  "check_identity rep intent registry =
     (case filter (\<lambda>item. dget item ''id'' = PStr (gi_target_id intent)) registry of
        [identity] \<Rightarrow>
          if \<not> registry_identity intent identity (gi_target_labels intent) then Inr (Some ''target_identity_changed'')
          else (case intent_labels (dget identity ''labels'') of
              Inl _ \<Rightarrow> Inl ValueError
            | Inr ls \<Rightarrow>
                Inr (if \<not> registry_identity intent identity ls then Some ''target_identity_changed''
                     else if \<not> fresh_running rep identity then Some ''target_not_running'' else None))
      | _ \<Rightarrow> Inr (Some ''target_identity_changed''))"

definition preflight ::
  "(pyval \<Rightarrow> string) \<Rightarrow> (string \<Rightarrow> iso_time) \<Rightarrow> (pyval \<Rightarrow> string) \<Rightarrow> shedding_policy \<Rightarrow> guardian_intent \<Rightarrow> pydict \<Rightarrow> string \<Rightarrow>
   rat \<Rightarrow> pydict list option \<Rightarrow> pydict option \<Rightarrow> py_exn + string option" where
  "preflight rep iso_at policy_sha policy intent event mode now current_registry risk_event =
     (let refuse = (\<lambda>reason. Inr (Some reason));
          decision = mapping_of (dget (mapping_of (dget event ''emergency_shedding'')) ''decision'');
          resource = dget decision ''resource_kind'';
          source = (case risk_event of None \<Rightarrow> event | Some e \<Rightarrow> e)
      in if mode \<notin> {''simulate'', ''enforce''} then refuse ''mode_not_actionable''
         else if gi_action intent \<noteq> ''graceful_stop'' then refuse ''action_not_allowlisted''
         else if gi_expires_at intent \<le> now then refuse ''intent_expired''
         else if gi_policy_digest intent \<noteq> policy_sha (policy_payload policy) then refuse ''policy_digest_mismatch''
         else (case extract_plan event of
             None \<Rightarrow> refuse ''plan_mismatch''
           | Some plan \<Rightarrow>
               if dget plan ''plan_id'' \<noteq> PStr (gi_plan_id intent) then refuse ''plan_mismatch''
               else if \<not> hashable resource then Inl TypeError
               else if resource \<notin> {PNone, PStr (gi_resource_kind intent)} then refuse ''plan_resource_mismatch''
               else if \<not> danger_confirmed rep (gi_resource_kind intent) event source then refuse ''risk_no_longer_confirmed''
               else (case check_entry iso_at now policy intent of
                   Some reason \<Rightarrow> refuse reason
                 | None \<Rightarrow> check_identity rep intent (registry_of event current_registry))))"

subsection \<open>The stages of \<open>execute\<close>\<close>

text \<open>A refusal before the cooldown: \<open>MANUAL_HANDOFF\<close>, with the revalidation where there is one.\<close>

definition refuse_action :: "string list \<Rightarrow> fresh_revalidation option \<Rightarrow> broker_result" where
  "refuse_action reasons revalidation =
     (broker_reply ''denied'' reasons)\<lparr>br_semantic := ''MANUAL_HANDOFF'', br_revalidation := revalidation\<rparr>"

definition revalidate_stage ::
  "'x action_broker \<Rightarrow> guardian_intent \<Rightarrow> pydict \<Rightarrow> string \<Rightarrow> 'x \<Rightarrow> (broker_result + fresh_revalidation option) \<times> 'x" where
  "revalidate_stage broker intent event mode x =
     (if mode \<notin> {''simulate'', ''enforce''} then (Inr None, x)
      else case ab_provider broker of
          None \<Rightarrow> (Inl (refuse_action [''fresh_revalidation_unavailable''] None), x)
        | Some provider \<Rightarrow>
            (case provider intent event x of
               (ProviderRaised, x') \<Rightarrow> (Inl (refuse_action [''fresh_revalidation_failed''] None), x')
             | (NotRevalidation, x') \<Rightarrow> (Inl (refuse_action [''fresh_revalidation_result_invalid''] None), x')
             | (Provided r, x') \<Rightarrow>
                 if \<not> fr_accepted r
                 then (Inl (refuse_action (if fr_reason_codes r = [] then [''fresh_revalidation_denied''] else fr_reason_codes r) (Some r)), x')
                 else (Inr (Some r), x')))"

definition GLOBAL_COOLDOWN_OBJECT :: string where
  "GLOBAL_COOLDOWN_OBJECT = ''__guardian_global__''"

text \<open>The failure breaker and the cooldown: the cooldown state of an action that may run.\<close>

definition cooldown_stage ::
  "(nat \<Rightarrow> sql_env) \<Rightarrow> 'x action_broker \<Rightarrow> guardian_intent \<Rightarrow> rat \<Rightarrow> state_db \<Rightarrow> (broker_result + string) \<times> state_db" where
  "cooldown_stage envs broker intent now db =
     (case failure_breaker (envs 2) (gi_host_id intent) GLOBAL_COOLDOWN_OBJECT (gi_action intent) (ab_max_failures broker) db of
        Inl _ \<Rightarrow> (Inl (broker_reply ''escalated'' [''cooldown_state_unavailable'']), db)
      | Inr True \<Rightarrow>
          (Inl ((broker_reply ''escalated'' [''failure_breaker_tripped''])\<lparr>br_cooldown := ''breaker_open''\<rparr>), db)
      | Inr False \<Rightarrow>
          (case allow_action (envs 3) (gi_host_id intent) GLOBAL_COOLDOWN_OBJECT (gi_action intent) now
                  (ab_cooldown_seconds broker) (ab_max_actions broker) (ab_action_window broker) db of
             (Inl _, db1) \<Rightarrow> (Inl (broker_reply ''escalated'' [''cooldown_state_unavailable'']), db1)
           | (Inr (can_run, why), db1) \<Rightarrow>
               (if can_run then Inr why else Inl ((broker_reply ''escalated'' [why])\<lparr>br_cooldown := why\<rparr>), db1)))"

definition broker_request :: "guardian_intent \<Rightarrow> authorization option \<Rightarrow> action_request" where
  "broker_request intent auth =
     \<lparr>req_event_id = gi_event_id intent, req_target_id = gi_target_id intent, req_action = gi_action intent,
      req_protected = False, req_allowed_actions = {''graceful_stop''}, req_authorization = auth,
      req_timeout_seconds = gi_timeout_seconds intent\<rparr>"

definition request_stage :: "'x action_broker \<Rightarrow> string \<Rightarrow> action_request \<Rightarrow> rat \<Rightarrow> string \<Rightarrow> broker_result + unit" where
  "request_stage broker mode request now cooldown =
     (let deny = (\<lambda>reason capability. Inl ((broker_reply ''denied'' [reason])\<lparr>br_capability := capability, br_cooldown := cooldown\<rparr>))
      in if mode = ''enforce''
         then (if req_authorization request = None then deny ''capability_required'' ''capability_missing''
               else case validate_request request now of
                   Inl (ActionDenied e) \<Rightarrow> deny e ''capability_invalid''
                 | Inr _ \<Rightarrow> Inr ())
         else if mode = ''simulate''
         then (if \<not> CONTAINER_ID (req_target_id request) \<or> req_action request \<noteq> ''graceful_stop''
               then deny ''simulation_request_invalid'' ''not_required''
               else if \<not> ad_fake (ab_adapter broker) then deny ''simulate_requires_fake_adapter'' ''not_required''
               else Inr ())
         else Inr ())"

definition slot_stage :: "(nat \<Rightarrow> sql_env) \<Rightarrow> guardian_intent \<Rightarrow> string \<Rightarrow> rat \<Rightarrow> state_db \<Rightarrow> (broker_result + unit) \<times> state_db" where
  "slot_stage envs intent iid now db =
     (case claim_action_slot (envs 4) (gi_host_id intent) (gi_action intent) iid now db of
        (Inl _, db1) \<Rightarrow>
          (Inl ((broker_reply ''escalated'' [''action_slot_unavailable''])\<lparr>br_cooldown := ''action_slot_unavailable''\<rparr>), db1)
      | (Inr False, db1) \<Rightarrow>
          (Inl ((broker_reply ''escalated'' [''action_slot_busy''])\<lparr>br_cooldown := ''action_slot_busy''\<rparr>), db1)
      | (Inr True, db1) \<Rightarrow> (Inr (), db1))"

text \<open>The local function \<open>release_slot\<close>: \<open>None\<close> when the slot was released.\<close>

definition release_slot ::
  "sql_env \<Rightarrow> guardian_intent \<Rightarrow> string \<Rightarrow> rat \<Rightarrow> state_db \<Rightarrow> string option \<times> state_db" where
  "release_slot env intent iid now db =
     (case release_action_slot env (gi_host_id intent) (gi_action intent) iid now db of
        (Inl _, db1) \<Rightarrow> (Some ''action_slot_release_failed'', db1)
      | (Inr False, db1) \<Rightarrow> (Some ''action_slot_not_owned'', db1)
      | (Inr True, db1) \<Rightarrow> (None, db1))"

text \<open>The reply that asks for a manual reconciliation.\<close>

definition reconcile_reply :: "string list \<Rightarrow> broker_result" where
  "reconcile_reply reasons =
     (broker_reply ''manual_reconciliation_required'' reasons)
       \<lparr>br_cooldown := ''manual_reconciliation_required'', br_reconcile := True\<rparr>"

text \<open>
  Release the slot and answer \<open>reply\<close>; a slot that cannot be released needs a reconciliation, whose
  answer keeps the fields \<open>keep\<close> sets.
\<close>

definition give_back ::
  "(nat \<Rightarrow> sql_env) \<Rightarrow> guardian_intent \<Rightarrow> string \<Rightarrow> rat \<Rightarrow> string \<Rightarrow> (broker_result \<Rightarrow> broker_result) \<Rightarrow> broker_result \<Rightarrow> state_db \<Rightarrow>
   broker_result \<times> state_db" where
  "give_back envs intent iid now reason keep reply db =
     (case release_slot (envs 7) intent iid now db of
        (None, db1) \<Rightarrow> (reply, db1)
      | (Some problem, db1) \<Rightarrow> (keep (reconcile_reply [reason, problem]), db1))"

text \<open>The approval is present here: \<open>request_stage\<close> refuses a missing one.\<close>

definition capability_stage ::
  "(nat \<Rightarrow> sql_env) \<Rightarrow> 'x action_broker \<Rightarrow> guardian_intent \<Rightarrow> string \<Rightarrow> string \<Rightarrow> authorization option \<Rightarrow> rat \<Rightarrow> string \<Rightarrow> state_db \<Rightarrow>
   (broker_result + string) \<times> state_db" where
  "capability_stage envs broker intent iid mode auth now cooldown db =
     (if mode \<noteq> ''enforce'' then (Inr ''not_required_for_simulate'', db)
      else if ad_managed (ab_adapter broker) then (Inr ''broker_managed_capability'', db)
      else case auth of
          None \<Rightarrow> (Inl (broker_reply ''denied'' [''capability_required'']), db)
        | Some a \<Rightarrow>
            (case consume_capability (envs 5) a (gi_event_id intent) now db of
               (Inl _, db1) \<Rightarrow>
                 (case give_back envs intent iid now ''capability_state_unavailable'' id
                         ((broker_reply ''escalated'' [''capability_state_unavailable''])\<lparr>br_cooldown := cooldown\<rparr>) db1 of
                    (r, db2) \<Rightarrow> (Inl r, db2))
             | (Inr cap, db1) \<Rightarrow>
                 if \<not> cd_allowed cap
                 then (case give_back envs intent iid now (cd_reason cap) (br_capability_update (\<lambda>_. cd_reason cap))
                         ((broker_reply ''denied'' [cd_reason cap])\<lparr>br_capability := cd_reason cap, br_cooldown := cooldown\<rparr>) db1 of
                         (r, db2) \<Rightarrow> (Inl r, db2))
                 else (Inr (cd_reason cap), db1)))"

definition semantic_of :: "two_layer_result \<Rightarrow> string" where
  "semantic_of v =
     (if tl_overall_state v = ''VERIFICATION_UNKNOWN'' then ''MANUAL_HANDOFF''
      else if tl_host_mitigated v \<and> tl_business_recovered v then ''BUSINESS_RECOVERED''
      else if tl_host_mitigated v then ''MITIGATED'' else ''NOT_MITIGATED'')"

text \<open>After an adapter that returned a result.\<close>

definition judge_action ::
  "(nat \<Rightarrow> sql_env) \<Rightarrow> guardian_intent \<Rightarrow> string \<Rightarrow> string \<Rightarrow> 'x verifier \<Rightarrow> fresh_revalidation option \<Rightarrow> rat \<Rightarrow> string \<Rightarrow> string \<Rightarrow>
   action_result \<Rightarrow> state_db \<Rightarrow> 'x \<Rightarrow> broker_result \<times> state_db \<times> 'x" where
  "judge_action envs intent iid mode verifier revalidation now capability cooldown ar db x =
     (let reason = (if res_reason ar = [] then ''action_not_executed'' else res_reason ar);
          reply = (\<lambda>st reasons. (broker_reply st reasons)\<lparr>br_action := Some ar, br_capability := capability, br_called := True,
                     br_revalidation := revalidation\<rparr>)
      in if \<not> res_executed ar
         then (case give_back envs intent iid now reason
                 (\<lambda>b. b\<lparr>br_action := Some ar, br_capability := capability, br_called := True\<rparr>)
                 ((reply ''planned'' [reason])\<lparr>br_cooldown := ''not_recorded'', br_trace := [''CRITICAL_CONFIRMED'', ''PLANNED'']\<rparr>) db of
                 (r, db1) \<Rightarrow> (r, db1, x))
         else if mode = ''simulate''
         then ((reply ''simulated_plan_complete'' [''simulation_plan_complete''])
                 \<lparr>br_verification := Some simulation_verification, br_cooldown := ''simulation_not_recorded'',
                  br_semantic := ''SIMULATED_PLAN_COMPLETE'', br_execution := ''SIMULATED'',
                  br_trace := [''CRITICAL_CONFIRMED'', ''PLANNED'', ''AUTHORIZED'', ''EXECUTING'', ''SIMULATED_PLAN_COMPLETE'']\<rparr>, db, x)
         else (case run_verification mode verifier intent ar x of
             (None, x') \<Rightarrow>
               ((reply ''manual_reconciliation_required'' [''verification_unavailable''])
                  \<lparr>br_cooldown := ''verification_failed'', br_reconcile := True, br_semantic := ''MANUAL_HANDOFF'',
                   br_execution := ''UNKNOWN''\<rparr>, db, x')
           | (Some v, x') \<Rightarrow>
               ((reply ''executed'' [''action_completed''])
                  \<lparr>br_verification := Some v, br_cooldown := cooldown, br_semantic := semantic_of v, br_execution := ''REAL'',
                   br_trace := [''CRITICAL_CONFIRMED'', ''PLANNED'', ''AUTHORIZED'', ''EXECUTING'', ''VERIFYING'', semantic_of v]\<rparr>, db, x')))"

text \<open>
  The start of the execution and the adapter call.  A \<open>StateStoreError\<close> of \<open>mark_execution_started\<close>
  reaches the same handler as an exception of the adapter.
\<close>

definition call_stage ::
  "(nat \<Rightarrow> sql_env) \<Rightarrow> 'x action_broker \<Rightarrow> guardian_intent \<Rightarrow> string \<Rightarrow> string \<Rightarrow> action_request \<Rightarrow> 'x verifier \<Rightarrow>
   fresh_revalidation option \<Rightarrow> rat \<Rightarrow> string \<Rightarrow> string \<Rightarrow> state_db \<Rightarrow> 'x \<Rightarrow> broker_result \<times> state_db \<times> 'x" where
  "call_stage envs broker intent iid mode request verifier revalidation now capability cooldown db x =
     (let called = (\<lambda>b. b\<lparr>br_capability := capability, br_called := True\<rparr>)
      in case mark_execution_started (envs 6) iid now db of
           (Inl _, db1) \<Rightarrow> (called (reconcile_reply [''adapter_outcome_unknown'']), db1, x)
         | (Inr False, db1) \<Rightarrow>
             (case give_back envs intent iid now ''intent_state_not_executable'' id
                     ((broker_reply ''escalated'' [''intent_state_not_executable''])\<lparr>br_cooldown := cooldown\<rparr>) db1 of
                (r, db2) \<Rightarrow> (r, db2, x))
         | (Inr True, db1) \<Rightarrow>
             (case ad_run (ab_adapter broker) intent request iid now x of
                (AdapterDenied e, x1) \<Rightarrow>
                  (case give_back envs intent iid now e called
                          (called ((broker_reply ''denied'' [e])\<lparr>br_cooldown := ''adapter_rejected''\<rparr>)) db1 of
                     (r, db2) \<Rightarrow> (r, db2, x1))
              | (AdapterRaised, x1) \<Rightarrow> (called (reconcile_reply [''adapter_outcome_unknown'']), db1, x1)
              | (NotAResult, x1) \<Rightarrow> (called (reconcile_reply [''adapter_result_invalid'']), db1, x1)
              | (AdapterDone ar, x1) \<Rightarrow>
                  judge_action envs intent iid mode verifier revalidation now capability cooldown ar db1 x1))"

definition broker_execute ::
  "(pyval \<Rightarrow> string) \<Rightarrow> (string \<Rightarrow> iso_time) \<Rightarrow> (pyval \<Rightarrow> string) \<Rightarrow> (nat \<Rightarrow> sql_env) \<Rightarrow> 'x action_broker \<Rightarrow> guardian_intent \<Rightarrow>
   pydict \<Rightarrow> string \<Rightarrow> string \<Rightarrow> authorization option \<Rightarrow> rat \<Rightarrow> 'x verifier \<Rightarrow> pydict list option \<Rightarrow> state_db \<Rightarrow> 'x \<Rightarrow>
   broker_result \<times> state_db \<times> 'x" where
  "broker_execute rep iso_at policy_sha envs broker intent event iid mode auth now verifier current_registry db x =
     (case revalidate_stage broker intent event mode x of
        (Inl r, x1) \<Rightarrow> (r, db, x1)
      | (Inr revalidation, x1) \<Rightarrow>
          (case preflight rep iso_at policy_sha (ab_policy broker) intent event mode now
                  (case revalidation of None \<Rightarrow> current_registry | Some r \<Rightarrow> Some (fr_registry r))
                  (map_option fr_event revalidation) of
             Inl _ \<Rightarrow> (refuse_action [''broker_preflight_failed''] revalidation, db, x1)
           | Inr (Some reason) \<Rightarrow> (refuse_action [reason] revalidation, db, x1)
           | Inr None \<Rightarrow>
               (case cooldown_stage envs broker intent now db of
                  (Inl r, db1) \<Rightarrow> (r, db1, x1)
                | (Inr cooldown, db1) \<Rightarrow>
                    (let request = broker_request intent auth in
                     case request_stage broker mode request now cooldown of
                       Inl r \<Rightarrow> (r, db1, x1)
                     | Inr _ \<Rightarrow>
                         (case slot_stage envs intent iid now db1 of
                            (Inl r, db2) \<Rightarrow> (r, db2, x1)
                          | (Inr _, db2) \<Rightarrow>
                              (case capability_stage envs broker intent iid mode auth now cooldown db2 of
                                 (Inl r, db3) \<Rightarrow> (r, db3, x1)
                               | (Inr capability, db3) \<Rightarrow>
                                   call_stage envs broker intent iid mode request verifier revalidation now capability cooldown
                                     db3 x1))))))"

section \<open>The coordinator\<close>

record coordinator_result =
  pr_mode :: string
  pr_state :: string
  pr_event_id :: string
  pr_reasons :: "string list"
  pr_notification :: "outbox_result option"
  pr_intent :: "guardian_intent option"
  pr_intent_id :: "string option"
  pr_broker :: "broker_result option"
  pr_manual_handoff :: bool
  pr_semantic :: string
  pr_execution :: string
  pr_host_state :: "string option"
  pr_business_state :: "string option"
  pr_trace :: "string list"

text \<open>\<open>CoordinatorResult(mode, state, event_id, reasons)\<close> with the default fields.\<close>

definition process_reply :: "string \<Rightarrow> string \<Rightarrow> string \<Rightarrow> string list \<Rightarrow> coordinator_result" where
  "process_reply mode st event_id reasons =
     \<lparr>pr_mode = mode, pr_state = st, pr_event_id = event_id, pr_reasons = reasons, pr_notification = None, pr_intent = None,
      pr_intent_id = None, pr_broker = None, pr_manual_handoff = False, pr_semantic = ''MANUAL_HANDOFF'',
      pr_execution = ''NOT_EXECUTED'', pr_host_state = None, pr_business_state = None, pr_trace = []\<rparr>"

definition SUPPORTED_MODES :: "string list" where
  "SUPPORTED_MODES = [''observe'', ''simulate'', ''enforce'']"

text \<open>An entry of \<open>reconciliation_required\<close>: found at the start, or added by \<open>process\<close>.\<close>

datatype reconciliation_item = FoundAtStart pending_item | OutcomeUnknown string string

record 'x coordinator =
  gc_default_mode :: string
  gc_plan_ttl :: pyval
  gc_broker :: "'x action_broker"

record 'x coordinator_state =
  gs_store :: state_db
  gs_outbox :: outbox_db
  gs_pending :: "reconciliation_item list"
  gs_world :: 'x

text \<open>
  The surroundings of a call: the text of values and of exceptions, ISO times, the two digests, and
  the codec and limits of the outbox.
\<close>

record coordinator_env =
  ce_rep :: "pyval \<Rightarrow> string"
  ce_exn_text :: "py_exn \<Rightarrow> string"
  ce_iso_at :: "string \<Rightarrow> iso_time"
  ce_sha :: "string \<Rightarrow> string"
  ce_policy_sha :: "pyval \<Rightarrow> string"
  ce_codec :: codec
  ce_outbox_policy :: outbox_policy

text \<open>
  The arguments of \<open>process\<close>.  Without \<open>now_epoch_s\<close> the clock is read when the intent is made
  (\<open>pa_issued\<close>) and again before it is claimed (\<open>pa_now\<close>); with it both are that value.
\<close>

record 'x process_args =
  pa_mode :: "string option"
  pa_authorization :: "authorization option"
  pa_registry :: "pydict list option"
  pa_issued :: rat
  pa_now :: rat
  pa_wall :: rat
  pa_monotonic :: int
  pa_verifier :: "'x verifier"

text \<open>The constructor: the mode, and the reconciliation of what an earlier process left.\<close>

definition make_coordinator ::
  "sql_env \<Rightarrow> rat \<Rightarrow> string \<Rightarrow> pyval \<Rightarrow> 'x action_broker \<Rightarrow> state_db \<Rightarrow>
   (string + 'x coordinator \<times> reconciliation_item list) \<times> state_db" where
  "make_coordinator env now default_mode plan_ttl broker db =
     (if default_mode \<notin> set SUPPORTED_MODES then (Inl ''default_mode_invalid'', db)
      else case reconcile_pending env now db of
          (Inl e, db1) \<Rightarrow> (Inl e, db1)
        | (Inr items, db1) \<Rightarrow>
            (Inr (\<lparr>gc_default_mode = default_mode, gc_plan_ttl = plan_ttl, gc_broker = broker\<rparr>, map FoundAtStart items), db1))"

definition event_semantic_state :: "(pyval \<Rightarrow> string) \<Rightarrow> pydict \<Rightarrow> string" where
  "event_semantic_state rep event =
     (let st = py_lower (py_strip (py_str rep (py_or (dget event ''state'') (PStr []))))
      in if st \<in> {''normal'', ''recovered''} then ''NORMAL''
         else if st \<in> {''critical_confirmed'', ''critical-confirmed''} then ''CRITICAL_CONFIRMED''
         else if st \<in> {''warning'', ''critical'', ''suspected''} then ''SUSPECTED'' else ''MANUAL_HANDOFF'')"

definition intent_audit_payload :: "pydict \<Rightarrow> guardian_intent \<Rightarrow> pyval" where
  "intent_audit_payload event intent =
     PDict [(''schema'', PStr ''guardian.incident.audit.v1''), (''stage'', PStr ''intent''),
            (''event'', PDict [(''event_id'', PStr (gi_event_id intent)), (''sample_id'', PStr (gi_sample_id intent)),
               (''state'', dget event ''state''),
               (''observed_monotonic_ns'', py_or (dget event ''observed_monotonic_ns'')
                  (dget (mapping_of (dget event ''signals'')) ''observed_monotonic_ns''))]),
            (''plan'', PDict (intent_as_dict intent))]"

subsection \<open>The notification and the gates before an intent\<close>

definition outbox_exn_text :: "coordinator_env \<Rightarrow> outbox_exn \<Rightarrow> string" where
  "outbox_exn_text ce e =
     (case e of OutboxError s \<Rightarrow> s | NotificationError s \<Rightarrow> s | OutboxPy x \<Rightarrow> ce_exn_text ce x)"

text \<open>The notification: the result that ends \<open>process\<close>, or the notification that was queued.\<close>

definition notify_stage ::
  "coordinator_env \<Rightarrow> sql_env \<Rightarrow> 'x process_args \<Rightarrow> string \<Rightarrow> string \<Rightarrow> pydict \<Rightarrow> outbox_db \<Rightarrow>
   (coordinator_result + outbox_result option) \<times> outbox_db" where
  "notify_stage ce env args mode event_id event ob =
     (let failed = (\<lambda>text. Inl (process_reply mode ''escalated'' event_id [''notification_persistence_failed'', text]))
      in if \<not> hashable (dget event ''state'') then (failed (ce_exn_text ce TypeError), ob)
         else if \<not> str_in (dget event ''state'') NOTIFIABLE_STATES then (Inr None, ob)
         else case enqueue_event env (ce_codec ce) (ce_outbox_policy ce) (ce_rep ce) (PDict event) None (pa_monotonic args)
                     (pa_wall args) ob of
             (Inl e, ob1) \<Rightarrow> (failed (outbox_exn_text ce e), ob1)
           | (Inr n, ob1) \<Rightarrow>
               (if or_status n \<noteq> ''queued''
                then Inl ((process_reply mode ''escalated'' event_id
                       [''notification_not_durable'', case or_reason n of Some (c # cs) \<Rightarrow> c # cs | _ \<Rightarrow> or_status n])
                       \<lparr>pr_notification := Some n\<rparr>)
                else Inr (Some n), ob1))"

text \<open>Iterating the gate's reasons: a string by characters, a mapping by keys; other values are not iterable.\<close>

definition gate_reasons :: "pydict \<Rightarrow> py_exn + string list" where
  "gate_reasons gate =
     (case (case dget_default gate ''reason_codes'' (PList []) of
              PList items \<Rightarrow> Some items | PStr s \<Rightarrow> Some (map (\<lambda>c. PStr [c]) s) | PDict d \<Rightarrow> Some (map (PStr \<circ> fst) d) | _ \<Rightarrow> None) of
        None \<Rightarrow> Inl TypeError
      | Some items \<Rightarrow>
          Inr (dict_fromkeys (''runtime_execution_gate_closed'' # map text_of (filter (\<lambda>v. as_nonempty_str v \<noteq> None) items))))"

subsection \<open>Results\<close>

definition action_as_dict :: "action_result \<Rightarrow> pyval" where
  "action_as_dict ar =
     PDict [(''executed'', PBool (res_executed ar)), (''action'', PStr (res_action ar)), (''target_id'', PStr (res_target_id ar)),
            (''returncode'', opt_val PInt (res_returncode ar)), (''stdout'', PStr (res_stdout ar)), (''stderr'', PStr (res_stderr ar)),
            (''reason'', PStr (res_reason ar))]"

definition verification_as_dict :: "two_layer_result \<Rightarrow> pyval" where
  "verification_as_dict v =
     PDict [(''host_state'', PStr (tl_host_state v)), (''business_state'', PStr (tl_business_state v)),
            (''overall_state'', PStr (tl_overall_state v)), (''host_mitigated'', PBool (tl_host_mitigated v)),
            (''business_recovered'', PBool (tl_business_recovered v)), (''reason_codes'', PList (map PStr (tl_reasons v)))]"

definition simulation_payload :: "broker_result \<Rightarrow> action_result \<Rightarrow> pyval" where
  "simulation_payload b ar =
     PDict [(''stage'', PStr ''simulation''), (''action'', action_as_dict ar),
            (''verification'', opt_val verification_as_dict (br_verification b)),
            (''semantic_state'', PStr ''SIMULATED_PLAN_COMPLETE''), (''execution_semantics'', PStr ''SIMULATED''), (''executed'', PBool False)]"

definition refusal_payload :: "broker_result \<Rightarrow> pyval" where
  "refusal_payload b =
     PDict [(''stage'', PStr ''broker''), (''reason_codes'', PList (map PStr (br_reasons b))),
            (''capability_reason'', PStr (br_capability b)), (''cooldown_state'', PStr (br_cooldown b)),
            (''semantic_state'', PStr (br_semantic b)), (''execution_semantics'', PStr (br_execution b)),
            (''revalidation'', opt_val (PDict \<circ> fresh_as_dict) (br_revalidation b)), (''executed'', PBool False)]"

definition verified_payload :: "broker_result \<Rightarrow> action_result \<Rightarrow> pyval" where
  "verified_payload b ar =
     PDict [(''stage'', PStr ''verification''), (''action'', action_as_dict ar),
            (''verification'', opt_val verification_as_dict (br_verification b)), (''manual_handoff'', PBool True),
            (''semantic_state'', PStr (br_semantic b)), (''execution_semantics'', PStr (br_execution b)),
            (''revalidation'', opt_val (PDict \<circ> fresh_as_dict) (br_revalidation b))]"

text \<open>The end of a simulation: record the result and release the slot.\<close>

definition simulation_stage ::
  "(nat \<Rightarrow> sql_env) \<Rightarrow> guardian_intent \<Rightarrow> string \<Rightarrow> rat \<Rightarrow> broker_result \<Rightarrow> action_result \<Rightarrow> coordinator_result \<Rightarrow> state_db \<Rightarrow>
   coordinator_result \<times> state_db" where
  "simulation_stage envs intent iid now b ar base db =
     (let handoff = (\<lambda>reasons. base\<lparr>pr_state := ''manual_reconciliation_required'', pr_reasons := reasons, pr_manual_handoff := True,
             pr_execution := ''SIMULATED'',
             pr_trace := [''CRITICAL_CONFIRMED'', ''PLANNED'', ''AUTHORIZED'', ''EXECUTING'', ''MANUAL_HANDOFF'']\<rparr>)
      in case record_result (envs 8) iid (simulation_payload b ar) False False now db of
           (Inl e, db1) \<Rightarrow> (handoff [''simulation_result_persistence_failed'', e], db1)
         | (Inr _, db1) \<Rightarrow>
             (case release_action_slot (envs 11) (gi_host_id intent) (gi_action intent) iid now db1 of
                (Inl e, db2) \<Rightarrow> (handoff [''simulation_result_persistence_failed'', e], db2)
              | (Inr False, db2) \<Rightarrow> (handoff [''action_slot_release_failed''], db2)
              | (Inr True, db2) \<Rightarrow>
                  (base\<lparr>pr_state := ''simulated_plan_complete'', pr_reasons := br_reasons b, pr_semantic := ''SIMULATED_PLAN_COMPLETE'',
                        pr_execution := ''SIMULATED'', pr_host_state := Some ''NOT_APPLICABLE'',
                        pr_business_state := Some ''NOT_APPLICABLE'', pr_trace := br_trace b\<rparr>, db2)))"

text \<open>The end of a call that executed nothing.\<close>

definition refusal_stage ::
  "(nat \<Rightarrow> sql_env) \<Rightarrow> string \<Rightarrow> rat \<Rightarrow> broker_result \<Rightarrow> coordinator_result \<Rightarrow> state_db \<Rightarrow> coordinator_result \<times> state_db" where
  "refusal_stage envs iid now b base db =
     (case record_result (envs 8) iid (refusal_payload b) False False now db of
        (Inl e, db1) \<Rightarrow>
          (base\<lparr>pr_state := ''manual_reconciliation_required'', pr_reasons := [''result_persistence_failed'', e],
                pr_manual_handoff := True\<rparr>, db1)
      | (Inr _, db1) \<Rightarrow>
          (base\<lparr>pr_state := br_state b, pr_reasons := br_reasons b, pr_manual_handoff := br_state b \<in> {''denied'', ''escalated''},
                pr_semantic := br_semantic b, pr_execution := br_execution b, pr_trace := br_trace b\<rparr>, db1))"

definition executed_outcome :: "action_result \<Rightarrow> two_layer_result option \<Rightarrow> bool \<Rightarrow> bool \<Rightarrow> string \<times> string list" where
  "executed_outcome ar verification success tripped =
     (let reasons = (case verification of None \<Rightarrow> [] | Some v \<Rightarrow> tl_reasons v);
          failed = (if res_reason ar = ''executor_timeout'' then ''action_timeout'' else ''action_failed'')
      in case verification of
           None \<Rightarrow> if tripped then (''escalated'', [''failure_breaker_tripped'']) else (''not_mitigated'', [failed])
         | Some v \<Rightarrow>
             if tl_overall_state v = ''VERIFICATION_UNKNOWN'' then (''manual_handoff'', reasons)
             else if success then (if tl_business_recovered v then ''business_recovered'' else ''mitigated'', reasons)
             else if tripped then (''escalated'', ''failure_breaker_tripped'' # reasons)
             else (''not_mitigated'', failed # reasons))"

text \<open>The end of a real action: record the result and the cooldown, read the breaker, release the slot.\<close>

definition executed_stage ::
  "(nat \<Rightarrow> sql_env) \<Rightarrow> 'x action_broker \<Rightarrow> guardian_intent \<Rightarrow> string \<Rightarrow> rat \<Rightarrow> broker_result \<Rightarrow> action_result \<Rightarrow> coordinator_result \<Rightarrow>
   state_db \<Rightarrow> coordinator_result \<times> state_db" where
  "executed_stage envs broker intent iid now b ar base db =
     (let verification = br_verification b; host = gi_host_id intent; action = gi_action intent;
          success = (res_returncode ar = Some 0 \<and> (case verification of None \<Rightarrow> False | Some v \<Rightarrow> tl_host_mitigated v));
          handoff = (\<lambda>reasons. base\<lparr>pr_state := ''manual_reconciliation_required'', pr_reasons := reasons, pr_manual_handoff := True\<rparr>)
      in case record_result (envs 8) iid (verified_payload b ar) success True now db of
           (Inl e, db1) \<Rightarrow> (handoff [''result_persistence_failed'', e], db1)
         | (Inr _, db1) \<Rightarrow>
             (case record_action (envs 9) host GLOBAL_COOLDOWN_OBJECT action now success db1 of
                (Inl e, db2) \<Rightarrow> (handoff [''result_persistence_failed'', e], db2)
              | (Inr _, db2) \<Rightarrow>
                  (case failure_breaker (envs 10) host GLOBAL_COOLDOWN_OBJECT action (ab_max_failures broker) db2 of
                     Inl e \<Rightarrow> (handoff [''result_persistence_failed'', e], db2)
                   | Inr tripped \<Rightarrow>
                       (case release_action_slot (envs 11) host action iid now db2 of
                          (Inl e, db3) \<Rightarrow> (handoff [''result_persistence_failed'', e], db3)
                        | (Inr False, db3) \<Rightarrow> (handoff [''action_slot_release_failed''], db3)
                        | (Inr True, db3) \<Rightarrow>
                            (case executed_outcome ar verification success tripped of (st, reasons) \<Rightarrow>
                               (base\<lparr>pr_state := st, pr_reasons := dict_fromkeys reasons,
                                     pr_manual_handoff := st \<in> {''manual_handoff'', ''not_mitigated'', ''mitigated'', ''escalated''},
                                     pr_semantic := br_semantic b, pr_execution := br_execution b,
                                     pr_host_state := map_option tl_host_state verification,
                                     pr_business_state := map_option tl_business_state verification,
                                     pr_trace := br_trace b\<rparr>, db3))))))"

subsection \<open>The handler\<close>

text \<open>The claim of the intent; \<open>base\<close> is the reply with the notification and the intent filled in.\<close>

definition claim_stage ::
  "(nat \<Rightarrow> sql_env) \<Rightarrow> pydict \<Rightarrow> guardian_intent \<Rightarrow> rat \<Rightarrow> coordinator_result \<Rightarrow> state_db \<Rightarrow> (coordinator_result + string) \<times> state_db" where
  "claim_stage envs event intent now base db =
     (case claim_intent (envs 1) (gi_host_id intent) (gi_target_id intent) (gi_action intent) (gi_event_id intent)
             (intent_audit_payload event intent) now db of
        (Inl e, db1) \<Rightarrow> (Inl (base\<lparr>pr_state := ''escalated'', pr_reasons := [''intent_persistence_failed'', e]\<rparr>), db1)
      | (Inr claim, db1) \<Rightarrow>
          if \<not> ic_claimed claim
          then (Inl (base\<lparr>pr_state := if ic_reason claim \<in> {''active_intent_exists'', ''idempotent_intent_reused''}
                                     then ''escalated'' else ''denied'',
                         pr_reasons := [ic_reason claim], pr_intent_id := Some (ic_intent_id claim),
                         pr_manual_handoff := ic_reason claim = ''active_intent_exists''\<rparr>), db1)
          else if ic_key claim \<noteq> gi_idempotency_key intent
          then (Inl (base\<lparr>pr_state := ''manual_reconciliation_required'', pr_reasons := [''idempotency_key_mismatch''],
                         pr_intent_id := Some (ic_intent_id claim), pr_manual_handoff := True\<rparr>),
                snd (record_result (envs 12) (ic_intent_id claim)
                       (PDict [(''stage'', PStr ''intent''), (''reason'', PStr ''idempotency_key_mismatch''), (''executed'', PBool False)])
                       False False now db1))
          else (Inr (ic_intent_id claim), db1))"

text \<open>The outcome of the broker; the flag says whether a reconciliation is now required.\<close>

definition settle ::
  "(nat \<Rightarrow> sql_env) \<Rightarrow> 'x action_broker \<Rightarrow> guardian_intent \<Rightarrow> string \<Rightarrow> string \<Rightarrow> rat \<Rightarrow> broker_result \<Rightarrow> coordinator_result \<Rightarrow>
   state_db \<Rightarrow> coordinator_result \<times> state_db" where
  "settle envs broker intent iid mode now b base db =
     (if br_reconcile b
      then (base\<lparr>pr_state := ''manual_reconciliation_required'', pr_reasons := br_reasons b, pr_manual_handoff := True,
                 pr_execution := br_execution b\<rparr>, db)
      else case br_action b of
          None \<Rightarrow> refusal_stage envs iid now b base db
        | Some ar \<Rightarrow>
            if mode = ''simulate'' then simulation_stage envs intent iid now b ar base db
            else if \<not> res_executed ar then refusal_stage envs iid now b base db
            else executed_stage envs broker intent iid now b ar base db)"

text \<open>From the intent on.\<close>

definition act_on_intent ::
  "coordinator_env \<Rightarrow> (nat \<Rightarrow> sql_env) \<Rightarrow> 'x action_broker \<Rightarrow> pydict \<Rightarrow> guardian_intent \<Rightarrow> string \<Rightarrow> 'x process_args \<Rightarrow> coordinator_result \<Rightarrow>
   'x coordinator_state \<Rightarrow> coordinator_result \<times> 'x coordinator_state" where
  "act_on_intent ce envs broker event intent mode args base s =
     (case claim_stage envs event intent (pa_now args) base (gs_store s) of
        (Inl r, db1) \<Rightarrow> (r, s\<lparr>gs_store := db1\<rparr>)
      | (Inr iid, db1) \<Rightarrow>
          (case broker_execute (ce_rep ce) (ce_iso_at ce) (ce_policy_sha ce) envs broker intent event iid mode (pa_authorization args)
                  (pa_now args) (pa_verifier args) (pa_registry args) db1 (gs_world s) of
             (b, db2, x) \<Rightarrow>
               (case settle envs broker intent iid mode (pa_now args) b (base\<lparr>pr_intent_id := Some iid, pr_broker := Some b\<rparr>) db2 of
                  (r, db3) \<Rightarrow>
                    (r, s\<lparr>gs_store := db3, gs_world := x,
                          gs_pending := gs_pending s @ (if br_reconcile b then [OutcomeUnknown iid (pr_event_id base)] else [])\<rparr>))))"

definition process ::
  "coordinator_env \<Rightarrow> (nat \<Rightarrow> sql_env) \<Rightarrow> 'x coordinator \<Rightarrow> pyval \<Rightarrow> 'x process_args \<Rightarrow> 'x coordinator_state \<Rightarrow>
   (py_exn + coordinator_result) \<times> 'x coordinator_state" where
  "process ce envs gc event args s =
     (case event of
        PDict ev \<Rightarrow>
          (let event_id = py_str (ce_rep ce) (py_or (dget ev ''event_id'') (PStr []));
               mode = (case pa_mode args of None \<Rightarrow> gc_default_mode gc | Some m \<Rightarrow> m);
               reply = process_reply mode
           in if mode \<notin> set SUPPORTED_MODES then (Inr (reply ''denied'' event_id [''mode_invalid'']), s)
              else case notify_stage ce (envs 0) args mode event_id ev (gs_outbox s) of
                  (Inl r, ob1) \<Rightarrow> (Inr r, s\<lparr>gs_outbox := ob1\<rparr>)
                | (Inr notification, ob1) \<Rightarrow>
                    (let s1 = s\<lparr>gs_outbox := ob1\<rparr>;
                         done = (\<lambda>st reasons. (reply st event_id reasons)\<lparr>pr_notification := notification\<rparr>);
                         gate = mapping_of (dget (mapping_of (dget ev ''evidence'')) ''runtime_gate'')
                     in if mode = ''observe''
                        then (Inr ((done ''observed'' [''observe_only''])\<lparr>pr_semantic := event_semantic_state (ce_rep ce) ev,
                                     pr_execution := ''NOT_APPLICABLE''\<rparr>), s1)
                        else if dget gate ''execution_allowed'' = PBool False
                        then (map_sum id (done ''denied'') (gate_reasons gate), s1)
                        else if gs_pending s1 \<noteq> []
                        then (Inr ((done ''manual_reconciliation_required'' [''startup_reconciliation_required''])
                                     \<lparr>pr_manual_handoff := True\<rparr>), s1)
                        else (case action_intent_from_event (ce_rep ce) (ce_iso_at ce) (ce_sha ce)
                                (Some (ce_policy_sha ce (policy_payload (ab_policy (gc_broker gc))))) (pa_issued args)
                                (gc_plan_ttl gc) event of
                            Inl reason \<Rightarrow> (Inr (done ''denied'' [reason]), s1)
                          | Inr intent \<Rightarrow>
                              (case act_on_intent ce envs (gc_broker gc) ev intent mode args
                                      ((done ''denied'' [])\<lparr>pr_intent := Some intent\<rparr>) s1 of
                                 (r, s2) \<Rightarrow> (Inr r, s2)))))
      | _ \<Rightarrow> (Inr (process_reply ''observe'' ''denied'' [] [''event_mapping_required'']), s))"

definition drain_notifications ::
  "coordinator_env \<Rightarrow> (nat \<Rightarrow> sql_env) \<Rightarrow> (pydict \<Rightarrow> 's \<Rightarrow> send_outcome \<times> 's) \<Rightarrow> int \<Rightarrow> int \<Rightarrow> rat \<Rightarrow> 'x coordinator_state \<Rightarrow> 's \<Rightarrow>
   ((outbox_exn + outbox_result list) \<times> 'x coordinator_state) \<times> 's" where
  "drain_notifications ce envs send max_items mono_ns now s sink =
     (case drain_pending max_items envs (ce_codec ce) (ce_outbox_policy ce) send mono_ns now (gs_outbox s) sink of
        ((r, ob), sink') \<Rightarrow> ((r, s\<lparr>gs_outbox := ob\<rparr>), sink'))"

section \<open>Text of the results\<close>

definition notification_as_dict :: "outbox_result \<Rightarrow> pyval" where
  "notification_as_dict n =
     PDict [(''schema'', PStr ''guardian.notification.outbox.v1''), (''status'', PStr (or_status n)),
            (''outbox_status'', opt_val (\<lambda>st. PStr (case st of PENDING \<Rightarrow> ''PENDING'' | IN_FLIGHT \<Rightarrow> ''IN_FLIGHT''
               | DELIVERED \<Rightarrow> ''DELIVERED'' | DEAD_LETTER \<Rightarrow> ''DEAD_LETTER'')) (or_outbox_status n)),
            (''notification_id'', or_id n), (''dedup_key'', or_key n), (''attempts'', PInt (or_attempts n)),
            (''reason'', opt_val PStr (or_reason n)), (''execution'', PStr ''not_executed''),
            (''action_authorization'', PStr ''unchanged'')]"

definition broker_as_dict :: "broker_result \<Rightarrow> pyval" where
  "broker_as_dict b =
     PDict [(''state'', PStr (br_state b)), (''reason_codes'', PList (map PStr (br_reasons b))),
            (''action_result'', opt_val action_as_dict (br_action b)),
            (''verification'', opt_val verification_as_dict (br_verification b)), (''capability_reason'', PStr (br_capability b)),
            (''cooldown_state'', PStr (br_cooldown b)), (''adapter_called'', PBool (br_called b)),
            (''requires_reconciliation'', PBool (br_reconcile b)), (''semantic_state'', PStr (br_semantic b)),
            (''execution_semantics'', PStr (br_execution b)),
            (''revalidation'', opt_val (PDict \<circ> fresh_as_dict) (br_revalidation b)), (''state_trace'', PList (map PStr (br_trace b)))]"

definition coordinator_as_dict :: "coordinator_result \<Rightarrow> pydict" where
  "coordinator_as_dict r =
     [(''schema'', PStr ''guardian.coordinator.result.v1''), (''mode'', PStr (pr_mode r)), (''state'', PStr (pr_state r)),
      (''event_id'', PStr (pr_event_id r)), (''reason_codes'', PList (map PStr (pr_reasons r))),
      (''notification'', opt_val notification_as_dict (pr_notification r)),
      (''intent'', opt_val (PDict \<circ> intent_as_dict) (pr_intent r)), (''intent_id'', opt_val PStr (pr_intent_id r)),
      (''broker'', opt_val broker_as_dict (pr_broker r)), (''manual_handoff'', PBool (pr_manual_handoff r)),
      (''semantic_state'', PStr (pr_semantic r)), (''execution_semantics'', PStr (pr_execution r)),
      (''host_state'', opt_val PStr (pr_host_state r)), (''business_state'', opt_val PStr (pr_business_state r)),
      (''state_trace'', PList (map PStr (pr_trace r)))]"

end
