(* ===== verification/Guardian_Reserve_State.thy ===== *)
theory Guardian_Reserve_State
  imports Guardian_Sql
begin

text \<open>
  The root-only store of the reserve recovery broker (\<open>src/guardian_reserve_state.py\<close>,
  \<open>ReserveBrokerStateStore\<close>): its four tables and the operations \<open>register_capability\<close>,
  \<open>claim_execution\<close> and \<open>finish_execution\<close>.  States are the texts the code stores.
\<close>

section \<open>Tables\<close>

record reserve_capability_row =
  rcap_environment :: string
  rcap_target_id :: string
  rcap_action :: string
  rcap_expires_at :: pyfloat
  rcap_consumed_at :: "rat option"
  rcap_consumed_incident :: "string option"

record reserve_incident_row =
  rinc_approval :: string
  rinc_action :: string
  rinc_target :: string
  rinc_state :: string
  rinc_created_at :: rat
  rinc_updated_at :: rat
  rinc_result :: "string option"

record reserve_slot_row =
  rslot_incident :: string
  rslot_action :: string
  rslot_target :: string
  rslot_state :: string
  rslot_acquired_at :: rat
  rslot_updated_at :: rat

record reserve_audit_row =
  raud_kind :: string
  raud_incident :: "string option"
  raud_approval :: "string option"
  raud_payload :: string
  raud_recorded_at :: rat

record reserve_db =
  reserve_capabilities :: "string \<rightharpoonup> reserve_capability_row"
  reserve_incidents :: "string \<rightharpoonup> reserve_incident_row"
  reserve_slots :: "string \<rightharpoonup> reserve_slot_row"
  reserve_audits :: "reserve_audit_row list"

definition empty_reserve_db :: reserve_db where
  "empty_reserve_db =
     \<lparr>reserve_capabilities = Map.empty, reserve_incidents = Map.empty, reserve_slots = Map.empty,
      reserve_audits = []\<rparr>"

record reserve_execution_claim =
  rec_claimed :: bool
  rec_state :: string
  rec_reason :: string

definition RESERVE_SLOT :: string where
  "RESERVE_SLOT = ''release_emergency_reserve''"

definition TERMINAL_STATES :: "string list" where
  "TERMINAL_STATES = [''RELEASED'', ''FAILED'', ''UNKNOWN'', ''EXECUTED_UNVERIFIED'']"

section \<open>Operations\<close>

definition reserve_json :: "sql_env \<Rightarrow> pyval \<Rightarrow> string + string" where
  "reserve_json env v =
     (case json_dumps env v of
        None \<Rightarrow> Inl ''reserve_state_payload_invalid''
      | Some encoded \<Rightarrow>
          if length encoded > 64 * 1024 then Inl ''reserve_state_payload_too_large'' else Inr encoded)"

definition reserve_audit ::
    "sql_env \<Rightarrow> nat \<Rightarrow> reserve_db \<Rightarrow> string \<Rightarrow> string option \<Rightarrow> string option \<Rightarrow> pyval \<Rightarrow> rat \<Rightarrow>
     (reserve_db \<Rightarrow> ('a, reserve_db) tx) \<Rightarrow> ('a, reserve_db) tx" where
  "reserve_audit env i db kind incident approval payload now k =
     (case reserve_json env payload of
        Inl e \<Rightarrow> StoreFail e
      | Inr text \<Rightarrow> stmt env i
          (k (db\<lparr>reserve_audits := reserve_audits db @
               [\<lparr>raud_kind = kind, raud_incident = incident, raud_approval = approval,
                 raud_payload = text, raud_recorded_at = now\<rparr>]\<rparr>)))"

definition reserve_register ::
    "sql_env \<Rightarrow> string \<Rightarrow> string \<Rightarrow> string \<Rightarrow> string \<Rightarrow> pyfloat \<Rightarrow> rat \<Rightarrow> reserve_db \<Rightarrow> (string + unit) \<times> reserve_db" where
  "reserve_register env approval environment target_id action expires now db =
     transaction env ''reserve_state_open_failed:'' ''reserve_capability_register_failed:'' db
       (stmt env 0 (stmt env 1
          (case reserve_capabilities db approval of
             None \<Rightarrow> stmt env 2
               (if expires = NaN
                then SqlFail ''NOT NULL constraint failed: reserve_capabilities.expires_at''
                else
                  (let db' = db\<lparr>reserve_capabilities := (reserve_capabilities db)(approval \<mapsto>
                         \<lparr>rcap_environment = environment, rcap_target_id = target_id, rcap_action = action,
                          rcap_expires_at = expires, rcap_consumed_at = None,
                          rcap_consumed_incident = None\<rparr>)\<rparr>
                   in reserve_audit env 3 db' ''reserve_capability_registered'' None (Some approval)
                        (PDict [(''approval_id'', PStr approval), (''environment'', PStr environment),
                                (''target_id'', PStr target_id), (''action'', PStr action),
                                (''expires_at'', PFloat expires)]) now
                        (\<lambda>db''. stmt env 4 (Commit () db''))))
           | Some row \<Rightarrow>
               if \<not> (rcap_environment row = environment \<and> rcap_target_id row = target_id \<and>
                     rcap_action row = action \<and> feq (rcap_expires_at row) expires)
               then StoreFail ''reserve_approval_identity_changed''
               else stmt env 2 (Commit () db))))"

definition refuse :: "string \<Rightarrow> string \<Rightarrow> (reserve_execution_claim, reserve_db) tx" where
  "refuse st reason = Rollback \<lparr>rec_claimed = False, rec_state = st, rec_reason = reason\<rparr>"

definition claim_execution ::
    "sql_env \<Rightarrow> string \<Rightarrow> string \<Rightarrow> string \<Rightarrow> string \<Rightarrow> string \<Rightarrow> pyfloat \<Rightarrow> string \<Rightarrow> rat \<Rightarrow> reserve_db \<Rightarrow>
     (string + reserve_execution_claim) \<times> reserve_db" where
  "claim_execution env incident approval environment target_id action expires target now db =
     (if [] \<in> {incident, approval, environment, target_id, action, target}
      then (Inl ''reserve_execution_identity_invalid'', db)
      else
        transaction env ''reserve_state_open_failed:'' ''reserve_execution_claim_failed:'' db
          (stmt env 0 (stmt env 1
             (case reserve_capabilities db approval of
                None \<Rightarrow> refuse ''DENIED'' ''reserve_approval_not_registered''
              | Some cap \<Rightarrow>
                  if rcap_consumed_at cap \<noteq> None then refuse ''DENIED'' ''reserve_approval_already_consumed''
                  else if fle (rcap_expires_at cap) (Fin now) \<or> fle expires (Fin now)
                  then refuse ''DENIED'' ''reserve_approval_expired''
                  else if \<not> (rcap_environment cap = environment \<and> rcap_target_id cap = target_id \<and>
                             rcap_action cap = action)
                  then refuse ''DENIED'' ''reserve_approval_scope_mismatch''
                  else stmt env 2
                    (case reserve_incidents db incident of
                       Some row \<Rightarrow> refuse (rinc_state row) ''reserve_incident_already_claimed''
                     | None \<Rightarrow> stmt env 3
                         (case reserve_slots db RESERVE_SLOT of
                            Some slot \<Rightarrow> refuse (rslot_state slot) ''reserve_active_slot_occupied''
                          | None \<Rightarrow> stmt env 4 (stmt env 5 (stmt env 6
                              (let db' = db\<lparr>reserve_incidents := (reserve_incidents db)(incident \<mapsto>
                                       \<lparr>rinc_approval = approval, rinc_action = action, rinc_target = target,
                                        rinc_state = ''EXECUTION_STARTED'', rinc_created_at = now,
                                        rinc_updated_at = now, rinc_result = None\<rparr>),
                                     reserve_slots := (reserve_slots db)(RESERVE_SLOT \<mapsto>
                                       \<lparr>rslot_incident = incident, rslot_action = action, rslot_target = target,
                                        rslot_state = ''EXECUTION_STARTED'', rslot_acquired_at = now,
                                        rslot_updated_at = now\<rparr>),
                                     reserve_capabilities := (reserve_capabilities db)(approval \<mapsto>
                                       cap\<lparr>rcap_consumed_at := Some now, rcap_consumed_incident := Some incident\<rparr>)\<rparr>;
                                   payload = PDict [(''incident_id'', PStr incident), (''approval_id'', PStr approval),
                                                    (''action'', PStr action), (''target'', PStr target)]
                               in reserve_audit env 7 db' ''reserve_capability_consumed'' (Some incident)
                                    (Some approval) payload now
                                    (\<lambda>db1. reserve_audit env 8 db1 ''reserve_execution_started'' (Some incident)
                                       (Some approval) payload now
                                       (\<lambda>db2. stmt env 9 (Commit
                                          \<lparr>rec_claimed = True, rec_state = ''EXECUTION_STARTED'',
                                           rec_reason = ''reserve_execution_claimed''\<rparr> db2))))))))))))"

definition finish_execution ::
    "sql_env \<Rightarrow> string \<Rightarrow> string \<Rightarrow> pydict \<Rightarrow> rat \<Rightarrow> reserve_db \<Rightarrow> (string + bool) \<times> reserve_db" where
  "finish_execution env incident state result now db =
     (if state \<notin> set TERMINAL_STATES then (Inl ''reserve_execution_terminal_state_invalid'', db)
      else
        transaction env ''reserve_state_open_failed:'' ''reserve_execution_finish_failed:'' db
          (stmt env 0 (stmt env 1
             (case reserve_incidents db incident of
                None \<Rightarrow> Rollback False
              | Some row \<Rightarrow>
                  if rinc_state row \<noteq> ''EXECUTION_STARTED'' then Rollback False
                  else case reserve_json env (PDict result) of
                      Inl e \<Rightarrow> StoreFail e
                    | Inr text \<Rightarrow> stmt env 2 (stmt env 3
                        (let slots = reserve_slots db;
                             slots' =
                               (case slots RESERVE_SLOT of
                                  None \<Rightarrow> slots
                                | Some slot \<Rightarrow>
                                    if rslot_incident slot \<noteq> incident then slots
                                    else if state \<noteq> ''UNKNOWN'' \<and> state \<noteq> ''EXECUTED_UNVERIFIED''
                                    then slots(RESERVE_SLOT := None)
                                    else slots(RESERVE_SLOT \<mapsto> slot\<lparr>rslot_state := state, rslot_updated_at := now\<rparr>));
                             db' = db\<lparr>reserve_incidents := (reserve_incidents db)(incident \<mapsto>
                                 row\<lparr>rinc_state := state, rinc_updated_at := now, rinc_result := Some text\<rparr>),
                               reserve_slots := slots'\<rparr>
                         in reserve_audit env 4 db' ''reserve_execution_finished'' (Some incident)
                              (Some (rinc_approval row))
                              (PDict [(''state'', PStr state), (''result'', PDict result)]) now
                              (\<lambda>db''. stmt env 5 (Commit True db''))))))))"

section \<open>Effects\<close>

lemma reserve_audit_Commit [simp]:
  "reserve_audit env i db kind inc ap payload now k = Commit a db' \<longleftrightarrow>
     (\<exists>text. reserve_json env payload = Inr text \<and> stmt_error env i = None \<and>
        k (db\<lparr>reserve_audits := reserve_audits db @
             [\<lparr>raud_kind = kind, raud_incident = inc, raud_approval = ap, raud_payload = text,
               raud_recorded_at = now\<rparr>]\<rparr>) = Commit a db')"
  by (auto simp: reserve_audit_def split: sum.splits)

lemma reserve_audit_Rollback [simp]:
  "reserve_audit env i db kind inc ap payload now k = Rollback a \<longleftrightarrow>
     (\<exists>text. reserve_json env payload = Inr text \<and> stmt_error env i = None \<and>
        k (db\<lparr>reserve_audits := reserve_audits db @
             [\<lparr>raud_kind = kind, raud_incident = inc, raud_approval = ap, raud_payload = text,
               raud_recorded_at = now\<rparr>]\<rparr>) = Rollback a)"
  by (auto simp: reserve_audit_def split: sum.splits)

definition unspent_row :: "string \<Rightarrow> string \<Rightarrow> string \<Rightarrow> pyfloat \<Rightarrow> reserve_capability_row" where
  "unspent_row e t act ex =
     \<lparr>rcap_environment = e, rcap_target_id = t, rcap_action = act, rcap_expires_at = ex,
      rcap_consumed_at = None, rcap_consumed_incident = None\<rparr>"

lemma reserve_register_db:
  assumes "reserve_register env a e t act ex now db = (r, db')"
  shows "db' = db \<or> (\<exists>x. reserve_capabilities db a = None \<and>
    db' = db\<lparr>reserve_capabilities := (reserve_capabilities db)(a \<mapsto> unspent_row e t act ex),
             reserve_audits := reserve_audits db @ [x]\<rparr>)"
  using assms unfolding reserve_register_def Let_def
  by (auto dest!: transaction_result simp: unspent_row_def split: option.splits if_splits)

text \<open>The database after a successful claim.\<close>

definition claimed_db ::
    "string \<Rightarrow> string \<Rightarrow> string \<Rightarrow> string \<Rightarrow> rat \<Rightarrow> reserve_capability_row \<Rightarrow> reserve_audit_row list \<Rightarrow>
     reserve_db \<Rightarrow> reserve_db" where
  "claimed_db inc a act tgt now cap xs db =
     db\<lparr>reserve_incidents := (reserve_incidents db)(inc \<mapsto>
          \<lparr>rinc_approval = a, rinc_action = act, rinc_target = tgt, rinc_state = ''EXECUTION_STARTED'',
           rinc_created_at = now, rinc_updated_at = now, rinc_result = None\<rparr>),
        reserve_slots := (reserve_slots db)(RESERVE_SLOT \<mapsto>
          \<lparr>rslot_incident = inc, rslot_action = act, rslot_target = tgt, rslot_state = ''EXECUTION_STARTED'',
           rslot_acquired_at = now, rslot_updated_at = now\<rparr>),
        reserve_capabilities := (reserve_capabilities db)(a \<mapsto>
          cap\<lparr>rcap_consumed_at := Some now, rcap_consumed_incident := Some inc\<rparr>),
        reserve_audits := reserve_audits db @ xs\<rparr>"

lemma refuse_simps [simp]:
  "refuse st e \<noteq> Commit a d" "refuse st e = Rollback c \<longleftrightarrow> c = \<lparr>rec_claimed = False, rec_state = st, rec_reason = e\<rparr>"
  by (auto simp: refuse_def)

lemma claim_execution_db:
  assumes "claim_execution env inc a e t act ex tgt now db = (r, db')"
  shows "db' = db \<and> (\<forall>c. r = Inr c \<longrightarrow> \<not> rec_claimed c) \<or>
    (\<exists>cap xs. reserve_capabilities db a = Some cap \<and> rcap_consumed_at cap = None \<and>
       rcap_environment cap = e \<and> rcap_target_id cap = t \<and> rcap_action cap = act \<and>
       \<not> fle (rcap_expires_at cap) (Fin now) \<and>
       reserve_incidents db inc = None \<and> reserve_slots db RESERVE_SLOT = None \<and>
       r = Inr \<lparr>rec_claimed = True, rec_state = ''EXECUTION_STARTED'', rec_reason = ''reserve_execution_claimed''\<rparr> \<and>
       db' = claimed_db inc a act tgt now cap xs db)"
proof (cases "[] \<in> {inc, a, e, t, act, tgt}")
  case False
  show ?thesis
  proof (cases r)
    case (Inl x)
    with assms False show ?thesis by (auto simp: claim_execution_def dest: transaction_error)
  next
    case (Inr c)
    with assms False show ?thesis
      by (auto simp: claim_execution_def transaction_Inr claimed_db_def Let_def split: option.splits if_splits)
  qed
qed (use assms in \<open>auto simp: claim_execution_def\<close>)

text \<open>The slot table after an execution has been finished.\<close>

definition finished_slots :: "string \<Rightarrow> string \<Rightarrow> rat \<Rightarrow> (string \<rightharpoonup> reserve_slot_row) \<Rightarrow> (string \<rightharpoonup> reserve_slot_row)" where
  "finished_slots inc st now slots =
     (case slots RESERVE_SLOT of
        None \<Rightarrow> slots
      | Some slot \<Rightarrow>
          if rslot_incident slot \<noteq> inc then slots
          else if st \<noteq> ''UNKNOWN'' \<and> st \<noteq> ''EXECUTED_UNVERIFIED'' then slots(RESERVE_SLOT := None)
          else slots(RESERVE_SLOT \<mapsto> slot\<lparr>rslot_state := st, rslot_updated_at := now\<rparr>))"

lemma finish_execution_db:
  assumes "finish_execution env inc st res now db = (r, db')"
  shows "db' = db \<and> r \<noteq> Inr True \<or>
    (\<exists>row text xs. reserve_incidents db inc = Some row \<and> rinc_state row = ''EXECUTION_STARTED'' \<and>
       st \<in> set TERMINAL_STATES \<and> r = Inr True \<and>
       db' = db\<lparr>reserve_incidents := (reserve_incidents db)(inc \<mapsto>
                  row\<lparr>rinc_state := st, rinc_updated_at := now, rinc_result := Some text\<rparr>),
                reserve_slots := finished_slots inc st now (reserve_slots db),
                reserve_audits := reserve_audits db @ xs\<rparr>)"
proof (cases r)
  case (Inl x)
  with assms show ?thesis by (auto simp: finish_execution_def dest: transaction_error split: if_splits)
next
  case (Inr b)
  with assms show ?thesis
    by (auto simp: finish_execution_def transaction_Inr Let_def finished_slots_def [symmetric]
        split: if_splits option.splits sum.splits)
qed

section \<open>Runs\<close>

datatype reserve_op =
    RRegister sql_env string string string string pyfloat rat
  | RClaim sql_env string string string string string pyfloat string rat
  | RFinish sql_env string string pydict rat

fun reserve_step :: "reserve_db \<Rightarrow> reserve_op \<Rightarrow> reserve_db" where
  "reserve_step db (RRegister env a e t act ex now) = snd (reserve_register env a e t act ex now db)"
| "reserve_step db (RClaim env inc a e t act ex tgt now) = snd (claim_execution env inc a e t act ex tgt now db)"
| "reserve_step db (RFinish env inc st res now) = snd (finish_execution env inc st res now db)"

text \<open>The approval and the incident of a claim that succeeds, and the incident of a finish that does.\<close>

fun reserve_claimed :: "reserve_db \<Rightarrow> reserve_op \<Rightarrow> (string \<times> string) option" where
  "reserve_claimed db (RClaim env inc a e t act ex tgt now) =
     (case fst (claim_execution env inc a e t act ex tgt now db) of
        Inr c \<Rightarrow> if rec_claimed c then Some (a, inc) else None | Inl _ \<Rightarrow> None)"
| "reserve_claimed db _ = None"

fun reserve_finished :: "reserve_db \<Rightarrow> reserve_op \<Rightarrow> string option" where
  "reserve_finished db (RFinish env inc st res now) =
     (if fst (finish_execution env inc st res now db) = Inr True then Some inc else None)"
| "reserve_finished db _ = None"

definition reserve_spent :: "reserve_db \<Rightarrow> string \<Rightarrow> bool" where
  "reserve_spent db a \<longleftrightarrow> (\<exists>cap. reserve_capabilities db a = Some cap \<and> rcap_consumed_at cap \<noteq> None)"

definition reserve_over :: "reserve_db \<Rightarrow> string \<Rightarrow> bool" where
  "reserve_over db inc \<longleftrightarrow> (\<exists>row. reserve_incidents db inc = Some row \<and> rinc_state row \<noteq> ''EXECUTION_STARTED'')"

text \<open>
  The three kinds of change one operation can make.
\<close>

inductive reserve_effect :: "reserve_db \<Rightarrow> reserve_db \<Rightarrow> bool" where
  same: "reserve_effect db db"
| registered: "reserve_capabilities db a = None \<Longrightarrow>
    reserve_effect db (db\<lparr>reserve_capabilities := (reserve_capabilities db)(a \<mapsto> unspent_row e t act ex),
                         reserve_audits := reserve_audits db @ xs\<rparr>)"
| claimed: "reserve_capabilities db a = Some cap \<Longrightarrow> rcap_consumed_at cap = None \<Longrightarrow>
    reserve_incidents db inc = None \<Longrightarrow> reserve_slots db RESERVE_SLOT = None \<Longrightarrow>
    reserve_effect db (claimed_db inc a act tgt now cap xs db)"
| finished: "reserve_incidents db inc = Some row \<Longrightarrow> rinc_state row = ''EXECUTION_STARTED'' \<Longrightarrow>
    st \<in> set TERMINAL_STATES \<Longrightarrow>
    reserve_effect db (db\<lparr>reserve_incidents := (reserve_incidents db)(inc \<mapsto>
        row\<lparr>rinc_state := st, rinc_updated_at := now, rinc_result := Some text\<rparr>),
      reserve_slots := finished_slots inc st now (reserve_slots db),
      reserve_audits := reserve_audits db @ xs\<rparr>)"

lemma reserve_step_effect: "reserve_effect db (reserve_step db x)"
proof (cases x)
  case (RRegister env a e t act ex now)
  obtain r db' where "reserve_register env a e t act ex now db = (r, db')" by force
  from this reserve_register_db [OF this] RRegister show ?thesis
    by (auto intro: same registered)
next
  case (RClaim env inc a e t act ex tgt now)
  obtain r db' where "claim_execution env inc a e t act ex tgt now db = (r, db')" by force
  from this claim_execution_db [OF this] RClaim show ?thesis
    by (auto intro: same claimed)
next
  case (RFinish env inc st res now)
  obtain r db' where "finish_execution env inc st res now db = (r, db')" by force
  from this finish_execution_db [OF this] RFinish show ?thesis
    by (auto intro: same finished)
qed

lemma claimed_db_simps [simp]:
  "reserve_spent (claimed_db inc a act tgt now cap xs db) a' \<longleftrightarrow> a' = a \<or> reserve_spent db a'"
  "reserve_incidents (claimed_db inc a act tgt now cap xs db) inc' =
     (if inc' = inc then Some \<lparr>rinc_approval = a, rinc_action = act, rinc_target = tgt,
         rinc_state = ''EXECUTION_STARTED'', rinc_created_at = now, rinc_updated_at = now, rinc_result = None\<rparr>
      else reserve_incidents db inc')"
  by (auto simp: reserve_spent_def claimed_db_def)

lemma reserve_effect_spent: "reserve_effect db db' \<Longrightarrow> reserve_spent db a \<Longrightarrow> reserve_spent db' a"
  by (induction rule: reserve_effect.induct) (auto simp: reserve_spent_def claimed_db_def)

lemma reserve_effect_over: "reserve_effect db db' \<Longrightarrow> reserve_over db inc \<Longrightarrow> reserve_over db' inc"
  by (induction rule: reserve_effect.induct) (auto simp: reserve_over_def)

lemma reserve_effect_incident:
  "reserve_effect db db' \<Longrightarrow> reserve_incidents db inc \<noteq> None \<Longrightarrow> reserve_incidents db' inc \<noteq> None"
  by (induction rule: reserve_effect.induct) auto

lemma reserve_claimed_Some:
  assumes "reserve_claimed db x = Some (a, inc)"
  shows "\<not> reserve_spent db a \<and> reserve_spent (reserve_step db x) a \<and>
    reserve_incidents db inc = None \<and> reserve_incidents (reserve_step db x) inc \<noteq> None \<and>
    reserve_slots db RESERVE_SLOT = None"
proof -
  obtain env e t act ex tgt now where x: "x = RClaim env inc a e t act ex tgt now"
    using assms by (cases x) (auto split: sum.splits if_splits)
  obtain r db' where c: "claim_execution env inc a e t act ex tgt now db = (r, db')" by force
  from claim_execution_db [OF c] assms show ?thesis
    by (auto simp: x c reserve_spent_def split: sum.splits if_splits) (auto simp: claimed_db_def)
qed

interpretation reserve_approval: one_shot reserve_step "\<lambda>db x. map_option fst (reserve_claimed db x)" reserve_spent
proof unfold_locales
  fix db x a
  assume "map_option fst (reserve_claimed db x) = Some a"
  then obtain inc where "reserve_claimed db x = Some (a, inc)" by auto
  from reserve_claimed_Some [OF this] show "\<not> reserve_spent db a" "reserve_spent (reserve_step db x) a"
    by blast+
qed (use reserve_step_effect reserve_effect_spent in blast)

interpretation reserve_incident: one_shot reserve_step "\<lambda>db x. map_option snd (reserve_claimed db x)"
    "\<lambda>db inc. reserve_incidents db inc \<noteq> None"
proof unfold_locales
  fix db x inc
  assume "map_option snd (reserve_claimed db x) = Some inc"
  then obtain a where "reserve_claimed db x = Some (a, inc)" by auto
  from reserve_claimed_Some [OF this]
  show "\<not> reserve_incidents db inc \<noteq> None" "reserve_incidents (reserve_step db x) inc \<noteq> None"
    by auto
qed (use reserve_step_effect reserve_effect_incident in blast)

interpretation reserve_finish: one_shot reserve_step reserve_finished reserve_over
proof unfold_locales
  fix db x inc
  assume f: "reserve_finished db x = Some inc"
  then obtain env st res now where x: "x = RFinish env inc st res now"
    by (cases x) (auto split: if_splits)
  obtain r db' where e: "finish_execution env inc st res now db = (r, db')" by force
  from finish_execution_db [OF e] f show "\<not> reserve_over db inc" "reserve_over (reserve_step db x) inc"
    by (auto simp: x e reserve_over_def TERMINAL_STATES_def split: if_splits)
qed (use reserve_step_effect reserve_effect_over in blast)

interpretation reserve_log: append_only reserve_step reserve_audits
proof unfold_locales
  fix db x
  have "reserve_effect db db' \<Longrightarrow> prefix (reserve_audits db) (reserve_audits db')" for db'
    by (induction rule: reserve_effect.induct) (simp_all add: claimed_db_def)
  then show "prefix (reserve_audits db) (reserve_audits (reserve_step db x))"
    using reserve_step_effect by blast
qed

section \<open>The slot\<close>

definition HELD_STATES :: "string list" where
  "HELD_STATES = [''EXECUTION_STARTED'', ''UNKNOWN'', ''EXECUTED_UNVERIFIED'']"

text \<open>
  The slot mirrors the one unresolved incident: every started, unknown or unverified incident
  holds the slot with its own state, and the slot is held by such an incident.
\<close>

definition reserve_ok :: "reserve_db \<Rightarrow> bool" where
  "reserve_ok db \<longleftrightarrow>
     (\<forall>inc row. reserve_incidents db inc = Some row \<longrightarrow> rinc_state row \<in> set HELD_STATES \<longrightarrow>
        (\<exists>s. reserve_slots db RESERVE_SLOT = Some s \<and> rslot_incident s = inc \<and> rslot_state s = rinc_state row)) \<and>
     (\<forall>s. reserve_slots db RESERVE_SLOT = Some s \<longrightarrow>
        rslot_state s \<in> set HELD_STATES \<and>
        (\<exists>row. reserve_incidents db (rslot_incident s) = Some row \<and> rinc_state row = rslot_state s))"

lemma reserve_effect_ok: "reserve_effect db db' \<Longrightarrow> reserve_ok db \<Longrightarrow> reserve_ok db'"
proof (induction rule: reserve_effect.induct)
  case (claimed db a cap inc act tgt now xs)
  then show ?case by (auto simp: reserve_ok_def claimed_db_def HELD_STATES_def)
next
  case (finished db inc row st now json xs)
  then obtain s where s: "reserve_slots db RESERVE_SLOT = Some s" "rslot_incident s = inc"
    by (auto simp: reserve_ok_def HELD_STATES_def)
  have others: "rinc_state r \<notin> set HELD_STATES" if "reserve_incidents db i = Some r" "i \<noteq> inc" for i r
    using finished.prems that s unfolding reserve_ok_def by fastforce
  show ?case
    using finished.hyps s others
    by (auto simp: reserve_ok_def finished_slots_def TERMINAL_STATES_def HELD_STATES_def)
qed (auto simp: reserve_ok_def)

interpretation reserve_inv: invariant_system reserve_step reserve_ok
  by unfold_locales (use reserve_step_effect reserve_effect_ok in blast)

lemma empty_reserve_ok: "reserve_ok empty_reserve_db"
  by (simp add: reserve_ok_def empty_reserve_db_def)

text \<open>A release whose outcome is not known.\<close>

definition unresolved :: "reserve_db \<Rightarrow> reserve_slot_row \<Rightarrow> bool" where
  "unresolved db s \<longleftrightarrow> reserve_ok db \<and> reserve_slots db RESERVE_SLOT = Some s \<and>
     rslot_state s \<in> {''UNKNOWN'', ''EXECUTED_UNVERIFIED''}"

lemma reserve_effect_unresolved: "reserve_effect db db' \<Longrightarrow> unresolved db s \<Longrightarrow> unresolved db' s"
proof -
  assume e: "reserve_effect db db'" and u: "unresolved db s"
  then have ok: "reserve_ok db'" using reserve_effect_ok by (auto simp: unresolved_def)
  from e u have "reserve_slots db' RESERVE_SLOT = Some s"
  proof (induction rule: reserve_effect.induct)
    case (finished db inc row st now json xs)
    then have "rslot_incident s \<noteq> inc" by (auto simp: unresolved_def reserve_ok_def)
    with finished show ?case by (simp add: unresolved_def finished_slots_def)
  qed (auto simp: unresolved_def)
  with u ok show ?thesis by (simp add: unresolved_def)
qed

lemma unresolved_blocks:
  "unresolved db s \<Longrightarrow> granted reserve_step reserve_claimed db ops = [] \<and> unresolved (exec_all reserve_step db ops) s"
proof (induction ops arbitrary: db)
  case (Cons x ops)
  have "reserve_claimed db x = None"
    using Cons.prems reserve_claimed_Some [of db x] by (cases "reserve_claimed db x") (auto simp: unresolved_def)
  with Cons reserve_effect_unresolved [OF reserve_step_effect] show ?case by simp
qed simp

section \<open>Properties\<close>

text \<open>
  In any sequence of broker store operations, with any SQL failures, every approval starts at
  most one reserve release, every incident is started at most once, and every incident is
  finished at most once.
\<close>
theorem reserve_release_once:
  "distinct (granted reserve_step (\<lambda>db x. map_option fst (reserve_claimed db x)) db ops) \<and>
   distinct (granted reserve_step (\<lambda>db x. map_option snd (reserve_claimed db x)) db ops) \<and>
   distinct (granted reserve_step reserve_finished db ops)"
  using reserve_approval.granted_once reserve_incident.granted_once reserve_finish.granted_once by blast

text \<open>
  In every reachable reserve database the single slot mirrors the single unresolved incident:
  no two incidents are ever started, unknown or unverified at the same time.
\<close>
theorem reserve_single_release: "reserve_ok (exec_all reserve_step empty_reserve_db ops)"
  by (rule reserve_inv.run_inv) (rule empty_reserve_ok)

text \<open>
  A release that ended UNKNOWN or EXECUTED_UNVERIFIED keeps the slot for good: no operation
  frees it or changes it, and no further release is ever granted by this store.
\<close>
theorem unknown_release_blocks:
  assumes "reserve_ok db" and "reserve_slots db RESERVE_SLOT = Some s"
    and "rslot_state s \<in> {''UNKNOWN'', ''EXECUTED_UNVERIFIED''}"
  shows "granted reserve_step reserve_claimed db ops = [] \<and>
    reserve_slots (exec_all reserve_step db ops) RESERVE_SLOT = Some s"
  using unresolved_blocks [of db s ops] assms by (auto simp: unresolved_def)

definition reserve_env :: sql_env where
  "reserve_env = no_faults (\<lambda>_. Some ''{}'') ''u'' (\<lambda>s. s)"

definition unknown_db :: reserve_db where
  "unknown_db = exec_all reserve_step empty_reserve_db
     [RRegister reserve_env ''ap'' ''env'' ''t'' ''release'' (Fin 100) 1,
      RClaim reserve_env ''inc'' ''ap'' ''env'' ''t'' ''release'' (Fin 100) ''reserve'' 2,
      RFinish reserve_env ''inc'' ''UNKNOWN'' [] 3]"

definition unknown_slot :: reserve_slot_row where
  "unknown_slot = \<lparr>rslot_incident = ''inc'', rslot_action = ''release'', rslot_target = ''reserve'',
     rslot_state = ''UNKNOWN'', rslot_acquired_at = 2, rslot_updated_at = 3\<rparr>"

lemma unknown_db_slot: "reserve_slots unknown_db RESERVE_SLOT = Some unknown_slot"
  by (simp add: unknown_db_def unknown_slot_def reserve_env_def reserve_register_def claim_execution_def
      finish_execution_def reserve_audit_def reserve_json_def empty_reserve_db_def TERMINAL_STATES_def Let_def)

theorem unknown_release_blocks_witness:
  "granted reserve_step reserve_claimed unknown_db
     [RClaim reserve_env ''inc-2'' ''ap-2'' ''env'' ''t'' ''release'' (Fin 100) ''reserve'' 9] = [] \<and>
   reserve_slots unknown_db RESERVE_SLOT = Some unknown_slot"
proof -
  have "reserve_ok unknown_db"
    unfolding unknown_db_def by (rule reserve_inv.run_inv) (rule empty_reserve_ok)
  moreover have "rslot_state unknown_slot \<in> {''UNKNOWN'', ''EXECUTED_UNVERIFIED''}"
    by (simp add: unknown_slot_def)
  ultimately show ?thesis
    using unknown_release_blocks [OF _ unknown_db_slot] unknown_db_slot by blast
qed

end
