(* ===== verification/Guardian_Reserve_Broker.thy ===== *)
theory Guardian_Reserve_Broker
  imports Guardian_Reserve_State Guardian_Actions Guardian_Config
begin

text \<open>
  The release of Guardian's own disk reserve (\<open>src/guardian_reserve_recovery.py\<close> and
  \<open>src/guardian_reserve_broker.py\<close>): the policy and the controller of the unprivileged runtime, the
  request and the client, and the root-owned server, which validates a request against the
  configuration and the approval file, claims the incident in the broker's store, starts the fixed
  helper and records the outcome.  Everything a connection brings is in the record \<open>connection\<close>: the
  peer, the bytes, the clock, the files as they are read, the SQL environments and the helper.
\<close>

section \<open>Files and paths\<close>

text \<open>A file read as JSON: \<open>OSError\<close>, \<open>UnicodeDecodeError\<close>, \<open>JSONDecodeError\<close> with its text, or a value.\<close>

datatype json_file = Unreadable | Undecodable | NotJson string | Json pyval

text \<open>A call on the file system.\<close>

datatype 'a fs = FsOk 'a | FsDenied | FsError

definition RESERVE_SCHEMA :: string where
  "RESERVE_SCHEMA = ''guardian.emergency_reserve.v1''"

definition RESERVE_CREATED_BY :: string where
  "RESERVE_CREATED_BY = ''server-resource-guardian/maintenance-reserve-v1''"

definition RESERVE_ROOT :: string where
  "RESERVE_ROOT = ''/var/lib/guardian/reserve''"

definition RESERVE_NAME :: string where
  "RESERVE_NAME = ''emergency-space.bin''"

definition RESERVE_ACTION :: string where
  "RESERVE_ACTION = ''release_emergency_reserve''"

definition reserve_path :: "string \<Rightarrow> string" where
  "reserve_path dir = pure_path (dir @ ''/'' @ RESERVE_NAME)"

section \<open>Policy and state of the reserve\<close>

record reserve_policy =
  rp_enabled :: bool
  rp_root :: string
  rp_mount_point :: string
  rp_max_releases :: int
  rp_authorization_file :: "string option"

definition default_reserve_policy :: reserve_policy where
  "default_reserve_policy =
     \<lparr>rp_enabled = False, rp_root = RESERVE_ROOT, rp_mount_point = ''/'', rp_max_releases = 1, rp_authorization_file = None\<rparr>"

definition reserve_policy_from :: "(pyval \<Rightarrow> string) \<Rightarrow> pyval \<Rightarrow> py_exn + reserve_policy" where
  "reserve_policy_from rep value =
     (let raw = mapping_of value
      in sum_bind (py_int (py_or (dget raw ''max_releases_per_incident'') (PInt 1))) (\<lambda>n.
           Inr \<lparr>rp_enabled = (dget raw ''enabled'' = PBool True),
                rp_root = pure_path (py_str rep (py_or (dget raw ''root'') (PStr RESERVE_ROOT))),
                rp_mount_point = py_str rep (py_or (dget raw ''mount_point'') (PStr ''/'')),
                rp_max_releases = n,
                rp_authorization_file = map_option pure_path (as_nonempty_str (dget raw ''authorization_file''))\<rparr>))"

text \<open>What the runtime sees of the reserve: the directory, its access bits, the manifest, the size of the file.\<close>

record reserve_files =
  rf_root :: "unit fs"
  rf_access :: bool
  rf_manifest :: json_file
  rf_size :: "int option fs"

definition manifest_matches :: "string \<Rightarrow> int \<Rightarrow> pydict \<Rightarrow> bool" where
  "manifest_matches path bytes m =
     (dget m ''schema'' = PStr RESERVE_SCHEMA \<and> dget m ''created_by'' = PStr RESERVE_CREATED_BY \<and>
      dget m ''path'' = PStr path \<and> int_like (dget m ''size_bytes'') = Some bytes)"

definition reserve_status :: "string \<Rightarrow> reserve_files \<Rightarrow> py_exn + pydict" where
  "reserve_status dir fs =
     (let path = reserve_path dir;
          answer = (\<lambda>state reason. Inr [(''state'', PStr state), (''path'', PStr path), (''reason_codes'', PList [PStr reason])]);
          protected = answer ''protected'' ''reserve_status_protected_root_boundary'';
          unavailable = answer ''unavailable'' ''reserve_access_unavailable''
      in case rf_root fs of
           FsDenied \<Rightarrow> protected
         | FsError \<Rightarrow> unavailable
         | FsOk _ \<Rightarrow>
             if \<not> rf_access fs then protected
             else if rf_manifest fs = Undecodable then Inl ValueError
             else
               (case rf_size fs of
                  FsDenied \<Rightarrow> protected
                | FsError \<Rightarrow> unavailable
                | FsOk found \<Rightarrow>
                    (case (found, rf_manifest fs) of
                       (Some n, Json (PDict m)) \<Rightarrow>
                         Inr [(''state'', PStr (if manifest_matches path n m then ''ready'' else ''invalid'')), (''path'', PStr path),
                              (''size_bytes'', PInt n),
                              (''reason_codes'', PList (if manifest_matches path n m then [] else [PStr ''reserve_manifest_mismatch'']))]
                     | _ \<Rightarrow> answer ''unavailable'' ''reserve_manifest_missing'')))"

section \<open>Messages\<close>

definition REQUEST_SCHEMA :: string where
  "REQUEST_SCHEMA = ''guardian.reserve_broker.request.v1''"

definition RESPONSE_SCHEMA :: string where
  "RESPONSE_SCHEMA = ''guardian.reserve_broker.response.v1''"

definition MAX_MESSAGE_BYTES :: nat where
  "MAX_MESSAGE_BYTES = 16 * 1024"

definition FIXED_HELPER :: string where
  "FIXED_HELPER = ''/usr/local/sbin/guardian-release-emergency-space''"

definition AUTH_KEYS :: "string list" where
  "AUTH_KEYS = [''approval_id'', ''environment'', ''target_id'', ''action'', ''expires_at'']"

definition REQUEST_KEYS :: "string list" where
  "REQUEST_KEYS = [''schema'', ''version'', ''mode'', ''incident_id'', ''idempotency_key'', ''issued_at'', ''expires_at'',
     ''config_digest'', ''action'', ''target'', ''authorization'']"

definition RESULT_KEYS :: "string list" where
  "RESULT_KEYS = [''action'', ''incident_id'', ''released_path'', ''path'', ''size_bytes'', ''before_free_bytes'',
     ''after_free_bytes'', ''reason_codes'']"

definition keys_are :: "pydict \<Rightarrow> string list \<Rightarrow> bool" where
  "keys_are d ks \<longleftrightarrow> set (map fst d) = set ks"

text \<open>
  The exceptions of the server: the ones its handler turns into a refusal (\<open>ReserveBrokerProtocolError\<close>,
  \<open>ReserveStateError\<close>, \<open>JSONDecodeError\<close>) and all others, which leave the handler.
\<close>

datatype broker_exn = Refused string | Uncaught

definition broker_text :: "string \<Rightarrow> pyval \<Rightarrow> broker_exn + string" where
  "broker_text field v =
     (case as_nonempty_str v of
        Some s \<Rightarrow> if 256 < length s then Inl (Refused (field @ ''_invalid'')) else Inr s
      | None \<Rightarrow> Inl (Refused (field @ ''_invalid'')))"

definition broker_number :: "string \<Rightarrow> pyval \<Rightarrow> broker_exn + rat" where
  "broker_number field v =
     (case v of
        PInt _ \<Rightarrow> (case py_float v of Inr (Fin q) \<Rightarrow> Inr q | _ \<Rightarrow> Inl Uncaught)
      | PFloat (Fin q) \<Rightarrow> Inr q
      | _ \<Rightarrow> Inl (Refused (field @ ''_invalid'')))"

definition broker_authorization :: "pyval \<Rightarrow> broker_exn + authorization" where
  "broker_authorization v =
     (if \<not> is_dict v \<or> \<not> keys_are (mapping_of v) AUTH_KEYS then Inl (Refused ''authorization_invalid'')
      else
        (let d = mapping_of v in
         sum_bind (broker_text ''approval_id'' (dget d ''approval_id'')) (\<lambda>approval.
         sum_bind (broker_text ''environment'' (dget d ''environment'')) (\<lambda>environment.
         sum_bind (broker_text ''authorization_target_id'' (dget d ''target_id'')) (\<lambda>target.
         sum_bind (broker_text ''authorization_action'' (dget d ''action'')) (\<lambda>action.
         sum_bind (broker_number ''authorization_expires_at'' (dget d ''expires_at'')) (\<lambda>expires.
           Inr \<lparr>approval_id = approval, auth_environment = environment, auth_target_id = target, auth_action = action,
                auth_expires_at = Fin expires\<rparr>)))))))"

definition authorization_dict :: "authorization \<Rightarrow> pydict" where
  "authorization_dict a =
     [(''approval_id'', PStr (approval_id a)), (''environment'', PStr (auth_environment a)), (''target_id'', PStr (auth_target_id a)),
      (''action'', PStr (auth_action a)), (''expires_at'', PFloat (auth_expires_at a))]"

definition build_reserve_request ::
  "string \<Rightarrow> string \<Rightarrow> pyfloat \<Rightarrow> pyfloat \<Rightarrow> string \<Rightarrow> authorization \<Rightarrow> string \<Rightarrow> pydict" where
  "build_reserve_request incident key issued expires digest auth mount =
     [(''schema'', PStr REQUEST_SCHEMA), (''version'', PInt 1), (''mode'', PStr ''enforce''), (''incident_id'', PStr incident),
      (''idempotency_key'', PStr key), (''issued_at'', PFloat issued), (''expires_at'', PFloat expires), (''config_digest'', PStr digest),
      (''action'', PStr RESERVE_ACTION), (''target'', PDict [(''root'', PStr RESERVE_ROOT), (''mount_point'', PStr mount)]),
      (''authorization'', PDict (authorization_dict auth))]"

section \<open>The wire\<close>

text \<open>What one \<open>recv\<close> meets: bytes that have arrived, a timeout or another error; the list's end is the peer's close.\<close>

datatype recv = Bytes string | RecvTimeout | RecvFailure

datatype net_error = SocketMissing | SocketTimeout | SocketFailure

fun stream_size :: "recv list \<Rightarrow> nat" where
  "stream_size [] = 0"
| "stream_size (Bytes b # rs) = Suc (length b + stream_size rs)"
| "stream_size (_ # rs) = Suc (stream_size rs)"

text \<open>
  The loop of the server's \<open>_read_line\<close> and of the client: at most 4096 bytes at a time, until a
  newline, the end, or more than the maximum.  Bytes beyond the requested number stay for the next call.
\<close>

function receive :: "nat \<Rightarrow> recv list \<Rightarrow> net_error + string" where
  "receive got [] = Inr []"
| "receive got (RecvTimeout # rs) = Inl SocketTimeout"
| "receive got (RecvFailure # rs) = Inl SocketFailure"
| "receive got (Bytes b # rs) =
     (let n = min 4096 (MAX_MESSAGE_BYTES + 1 - got); chunk = take n b
      in if chunk = [] then Inr []
         else if MAX_MESSAGE_BYTES < got + length chunk \<or> LF \<in> set chunk then Inr chunk
         else sum_bind (receive (got + length chunk) (if n < length b then Bytes (drop n b) # rs else rs)) (\<lambda>rest. Inr (chunk @ rest)))"
  by pat_completeness auto
termination
  by (relation "measure (\<lambda>(got, rs). stream_size rs)") auto

definition first_line :: "string \<Rightarrow> string" where
  "first_line raw = takeWhile (\<lambda>c. c \<noteq> LF) raw"

definition read_line :: "recv list \<Rightarrow> broker_exn + string" where
  "read_line stream =
     (case receive 0 stream of
        Inl _ \<Rightarrow> Inl Uncaught
      | Inr raw \<Rightarrow>
          if MAX_MESSAGE_BYTES < length raw then Inl (Refused ''request_too_large'')
          else if LF \<notin> set raw then Inl (Refused ''request_framing_invalid'')
          else Inr (first_line raw))"

section \<open>The client and the controller of the runtime\<close>

definition client_answer :: "string \<Rightarrow> string \<Rightarrow> string \<Rightarrow> pydict" where
  "client_answer state execution reason =
     [(''action'', PStr RESERVE_ACTION), (''state'', PStr state), (''execution'', PStr execution), (''reason_codes'', PList [PStr reason])]"

definition merge :: "pydict \<Rightarrow> pydict \<Rightarrow> pydict" where
  "merge d e = fold (\<lambda>(k, v) acc. dset acc k v) e d"

text \<open>The states a broker status stands for in the client's answer.\<close>

definition status_meaning :: "string \<Rightarrow> string \<times> string" where
  "status_meaning status =
     (if status = ''EXECUTED'' then (''released'', ''executed'')
      else if status = ''UNKNOWN'' then (''unknown'', ''unknown'') else (''blocked'', ''not_executed''))"

definition response_valid :: "pyval \<Rightarrow> bool" where
  "response_valid v =
     (is_dict v \<and> keys_are (mapping_of v) [''schema'', ''version'', ''status'', ''reason_codes'', ''result''] \<and>
      dget (mapping_of v) ''schema'' = PStr RESPONSE_SCHEMA \<and> py_eq (dget (mapping_of v) ''version'') (PInt 1))"

definition read_response :: "json_file \<Rightarrow> py_exn + pydict" where
  "read_response value =
     (let unknown = (\<lambda>reason. Inr (client_answer ''unknown'' ''unknown'' reason)) in
      case value of
        Json v \<Rightarrow>
          (let d = mapping_of v; status = dget d ''status''; reasons = dget d ''reason_codes''; result = dget d ''result'' in
           if \<not> response_valid v then unknown ''reserve_broker_response_schema_invalid''
           else if \<not> hashable status then Inl TypeError
           else if \<not> str_in status [''EXECUTED'', ''DENIED'', ''UNKNOWN''] \<or> \<not> is_list reasons \<or>
                   list_ex (\<lambda>x. \<not> is_str x) (list_value reasons)
             then unknown ''reserve_broker_response_invalid''
           else if result \<noteq> PNone \<and> (\<not> is_dict result \<or> list_ex (\<lambda>(k, _). k \<notin> set RESULT_KEYS) (mapping_of result))
             then unknown ''reserve_broker_response_result_invalid''
           else
             (let (state, execution) = status_meaning (py_str (\<lambda>_. []) status);
                  base = [(''action'', PStr RESERVE_ACTION), (''state'', PStr state), (''execution'', PStr execution)];
                  payload = filter (\<lambda>(k, _). k \<noteq> ''action'') (mapping_of result)
              in Inr (dset (merge base payload) ''reason_codes''
                        (if list_value reasons = [] then PList [PStr ''reserve_broker_denied''] else reasons))))
      | _ \<Rightarrow> unknown ''reserve_broker_response_invalid'')"

text \<open>The client's side of a connection; an encoded request beyond the maximum raises before it.\<close>

record client_net =
  cl_connect :: "net_error option"
  cl_stream :: "recv list"
  cl_parse :: "string \<Rightarrow> json_file"
  cl_dumps :: "pyval \<Rightarrow> string"
  cl_sha256 :: "string \<Rightarrow> string"

definition fmin :: "pyfloat \<Rightarrow> pyfloat \<Rightarrow> pyfloat" where
  "fmin a b = (if flt b a then b else a)"

definition client_request :: "client_net \<Rightarrow> string \<Rightarrow> authorization \<Rightarrow> string \<Rightarrow> string \<Rightarrow> rat \<Rightarrow> pydict" where
  "client_request net incident auth digest mount now =
     build_reserve_request incident (cl_sha256 net (''reserve:'' @ incident)) (Fin now)
       (fmin (auth_expires_at auth) (Fin (now + 300))) digest auth mount"

definition reserve_release ::
  "client_net \<Rightarrow> string \<Rightarrow> authorization \<Rightarrow> string \<Rightarrow> string \<Rightarrow> rat \<Rightarrow> py_exn + pydict" where
  "reserve_release net incident auth digest mount now =
     (let failed = (\<lambda>e. case e of
            SocketMissing \<Rightarrow> Inr (client_answer ''blocked'' ''not_executed'' ''reserve_broker_unavailable'')
          | SocketTimeout \<Rightarrow> Inr (client_answer ''unknown'' ''unknown'' ''reserve_broker_outcome_unknown'')
          | SocketFailure \<Rightarrow> Inr (client_answer ''blocked'' ''not_executed'' ''reserve_broker_connection_failed''))
      in if MAX_MESSAGE_BYTES < length (cl_dumps net (PDict (client_request net incident auth digest mount now))) + 1
         then Inl ValueError
         else case cl_connect net of
             Some e \<Rightarrow> failed e
           | None \<Rightarrow>
               (case receive 0 (cl_stream net) of
                  Inl e \<Rightarrow> failed e
                | Inr raw \<Rightarrow>
                    if MAX_MESSAGE_BYTES < length raw \<or> LF \<notin> set raw
                    then Inr (client_answer ''unknown'' ''unknown'' ''reserve_broker_response_invalid'')
                    else read_response (cl_parse net (first_line raw))))"

definition reserve_disk_risk :: "pydict \<Rightarrow> pydict" where
  "reserve_disk_risk event =
     mapping_of (dget (mapping_of (dget (mapping_of (dget event ''resource_evaluations'')) ''disk_capacity'')) ''risk'')"

text \<open>\<open>_authorized\<close>: the refusal or the approval; an expiry too large for a float raises.\<close>

definition authorized ::
  "(pyval \<Rightarrow> string) \<Rightarrow> reserve_policy \<Rightarrow> (string \<Rightarrow> json_file) \<Rightarrow> string \<Rightarrow> rat \<Rightarrow> py_exn + (string + authorization)" where
  "authorized rep policy open_json incident now =
     (case rp_authorization_file policy of
        None \<Rightarrow> Inr (Inl ''reserve_authorization_missing'')
      | Some path \<Rightarrow>
          (case open_json path of
             Undecodable \<Rightarrow> Inl ValueError
           | Json (PDict d) \<Rightarrow>
               if dget d ''environment'' \<noteq> PStr ''local-disposable'' \<or> dget d ''action'' \<noteq> PStr RESERVE_ACTION
               then Inr (Inl ''reserve_authorization_scope_invalid'')
               else if dget d ''target_id'' \<noteq> PStr (rp_root policy) then Inr (Inl ''reserve_authorization_target_mismatch'')
               else
                 (case (if has_key d ''expires_at'' then py_float (dget d ''expires_at'') else Inl KeyError) of
                    Inl OverflowError \<Rightarrow> Inl OverflowError
                  | Inl _ \<Rightarrow> Inr (Inl ''reserve_authorization_expiry_invalid'')
                  | Inr expires \<Rightarrow>
                      if fle expires (Fin now) then Inr (Inl ''reserve_authorization_expired'')
                      else if \<not> py_truthy (dget d ''approval_id'') \<or> incident = []
                      then Inr (Inl ''reserve_authorization_identity_missing'')
                      else Inr (Inr \<lparr>approval_id = py_str rep (dget d ''approval_id''), auth_environment = ''local-disposable'',
                             auth_target_id = rp_root policy, auth_action = RESERVE_ACTION, auth_expires_at = expires\<rparr>))
           | _ \<Rightarrow> Inr (Inl ''reserve_authorization_invalid'')))"

text \<open>
  \<open>ReserveRecoveryController.handle\<close>; \<open>release\<close> is the client's answer to an approval, and the second
  component tells whether the broker was asked.
\<close>

record reserve_controller =
  rk_policy :: reserve_policy
  rk_digest :: string

definition event_incident :: "(pyval \<Rightarrow> string) \<Rightarrow> pydict \<Rightarrow> string" where
  "event_incident rep event = py_str rep (py_or (py_or (dget event ''incident_id'') (dget event ''event_id'')) (PStr []))"

definition reserve_eligible :: "(pyval \<Rightarrow> string) \<Rightarrow> pydict \<Rightarrow> bool" where
  "reserve_eligible rep event \<longleftrightarrow>
     py_lower (py_str rep (py_or (dget (reserve_disk_risk event) ''state'') (PStr []))) \<in> {''critical'', ''critical_confirmed''}"

definition reserve_handle ::
  "(pyval \<Rightarrow> string) \<Rightarrow> reserve_controller \<Rightarrow> reserve_files \<Rightarrow> (string \<Rightarrow> json_file) \<Rightarrow> (authorization \<Rightarrow> py_exn + pydict) \<Rightarrow>
   pydict \<Rightarrow> string \<Rightarrow> rat \<Rightarrow> bool \<Rightarrow> (py_exn + pydict) \<times> authorization option" where
  "reserve_handle rep k fs open_json release event mode now execute =
     (let policy = rk_policy k; incident = event_incident rep event;
          plain = (\<lambda>state reason. (Inr [(''action'', PStr ''none''), (''execution'', PStr ''not_applicable''), (''state'', PStr state),
             (''reason_codes'', PList [PStr reason])], None))
      in if \<not> rp_enabled policy then plain ''disabled'' ''RESERVE_RECOVERY_DISABLED''
         else if \<not> reserve_eligible rep event then plain ''not_eligible'' ''DISK_CAPACITY_NOT_CRITICAL''
         else case reserve_status (rp_root policy) fs of
             Inl x \<Rightarrow> (Inl x, None)
           | Inr status \<Rightarrow>
               (let base = [(''action'', PStr RESERVE_ACTION), (''resource_kind'', PStr ''disk_capacity''), (''incident_id'', PStr incident),
                      (''reserve'', PDict status)];
                    stop = (\<lambda>execution state reason. (Inr (base @ [(''execution'', PStr execution), (''state'', PStr state),
                      (''reason_codes'', PList [PStr reason])]), None))
                in if mode = ''observe'' then stop ''not_applicable'' ''observed'' ''OBSERVE_ONLY''
                   else if mode = ''simulate'' then stop ''not_executed'' ''simulated'' ''SIMULATE_ONLY''
                   else if mode \<noteq> ''enforce'' then stop ''not_executed'' ''blocked'' ''MODE_NOT_ACTIONABLE''
                   else case authorized rep policy open_json incident now of
                       Inl x \<Rightarrow> (Inl x, None)
                     | Inr (Inl reason) \<Rightarrow> stop ''not_executed'' ''blocked'' reason
                     | Inr (Inr auth) \<Rightarrow>
                         if rk_digest k = [] then stop ''not_executed'' ''blocked'' ''reserve_config_digest_missing''
                         else if \<not> execute then stop ''not_executed'' ''authorized'' ''reserve_authorized''
                         else (sum_bind (release auth) (\<lambda>answer. Inr (merge base answer)), Some auth)))"

section \<open>The server\<close>

record reserve_server =
  rs_enabled :: bool
  rs_allowed_uid :: int

definition resolve_uid :: "(string \<Rightarrow> int option) \<Rightarrow> pyval \<Rightarrow> int option" where
  "resolve_uid getpwnam v =
     (case v of
        PInt n \<Rightarrow> if 0 \<le> n then Some n else None
      | PStr s \<Rightarrow> if s = [] then None else (case parse_int s of Some n \<Rightarrow> Some n | None \<Rightarrow> getpwnam s)
      | _ \<Rightarrow> None)"

text \<open>The constructor; it refuses any other helper.\<close>

definition make_reserve_server :: "(string \<Rightarrow> int option) \<Rightarrow> bool \<Rightarrow> pyval \<Rightarrow> string \<Rightarrow> string + reserve_server" where
  "make_reserve_server getpwnam enabled uid helper =
     (case resolve_uid getpwnam uid of
        None \<Rightarrow> Inl ''reserve_allowed_uid_invalid''
      | Some n \<Rightarrow> if helper \<noteq> FIXED_HELPER then Inl ''reserve_helper_path_is_fixed''
                  else Inr \<lparr>rs_enabled = enabled, rs_allowed_uid = n\<rparr>)"

text \<open>How the helper's process ends; \<open>HelperGarbled\<close>: its output is not valid text and the runner raises.\<close>

datatype helper_run = HelperTimeout | HelperMissing | HelperGarbled | HelperExit int string

text \<open>The approval file is read twice; the two readings may differ.\<close>

record connection =
  cn_peer :: "string + int"
  cn_stream :: "recv list"
  cn_parse :: "string \<Rightarrow> json_file"
  cn_now :: rat
  cn_config :: json_file
  cn_digest :: "pydict \<Rightarrow> string"
  cn_auth_first :: "string \<Rightarrow> json_file"
  cn_auth_second :: "string \<Rightarrow> json_file"
  cn_register_env :: sql_env
  cn_register_time :: rat
  cn_claim_env :: sql_env
  cn_helper :: helper_run
  cn_loads :: "string \<Rightarrow> pyval option"
  cn_finish_env :: sql_env
  cn_finish_time :: rat
  cn_dumps :: "pyval \<Rightarrow> string"
  cn_sends :: bool
  cn_rep :: "pyval \<Rightarrow> string"

definition json_or :: "broker_exn \<Rightarrow> json_file \<Rightarrow> broker_exn + pyval" where
  "json_or refusal f = (case f of Json v \<Rightarrow> Inr v | Undecodable \<Rightarrow> Inl Uncaught | _ \<Rightarrow> Inl refusal)"

definition load_reserve_config :: "connection \<Rightarrow> broker_exn + pydict" where
  "load_reserve_config c =
     sum_bind (json_or (Refused ''reserve_config_invalid'') (cn_config c)) (\<lambda>v.
       case validate_config v of
         Inl (ConfigError _) \<Rightarrow> Inl (Refused ''reserve_config_invalid'')
       | Inl (Escapes _) \<Rightarrow> Inl Uncaught
       | Inr config \<Rightarrow> Inr config)"

definition reserve_policy_of_config :: "connection \<Rightarrow> pydict \<Rightarrow> broker_exn + reserve_policy" where
  "reserve_policy_of_config c config =
     (case reserve_policy_from (cn_rep c) (dget_default (mapping_of (dget config ''risk'')) ''disk_reserve_recovery'' (PDict [])) of
        Inl _ \<Rightarrow> Inl Uncaught
      | Inr policy \<Rightarrow>
          if \<not> rp_enabled policy \<or> rp_root policy \<noteq> RESERVE_ROOT \<or> rp_mount_point policy \<noteq> ''/'' \<or> rp_max_releases policy \<noteq> 1
          then Inl (Refused ''reserve_policy_not_enabled_or_fixed'') else Inr policy)"

definition auth_path :: "reserve_policy \<Rightarrow> broker_exn + string" where
  "auth_path policy =
     (case rp_authorization_file policy of None \<Rightarrow> Inl (Refused ''reserve_authorization_file_missing'') | Some p \<Rightarrow> Inr p)"

text \<open>\<open>_load_policy\<close>: the approval of the file is registered whatever the request says.\<close>

definition configured_approval :: "connection \<Rightarrow> broker_exn + (reserve_policy \<times> string \<times> authorization)" where
  "configured_approval c =
     sum_bind (load_reserve_config c) (\<lambda>config.
     sum_bind (reserve_policy_of_config c config) (\<lambda>policy.
     sum_bind (auth_path policy) (\<lambda>path.
     sum_bind (json_or (Refused ''reserve_authorization_file_invalid'') (cn_auth_first c path)) (\<lambda>v.
     sum_bind (broker_authorization v) (\<lambda>auth. Inr (policy, cn_digest c config, auth))))))"

definition load_policy :: "connection \<Rightarrow> reserve_db \<Rightarrow> (broker_exn + reserve_policy \<times> string) \<times> reserve_db" where
  "load_policy c db =
     (case configured_approval c of
        Inl x \<Rightarrow> (Inl x, db)
      | Inr (policy, digest, a) \<Rightarrow>
          (case reserve_register (cn_register_env c) (approval_id a) (auth_environment a) (auth_target_id a) (auth_action a)
                  (auth_expires_at a) (cn_register_time c) db of
             (Inl e, db') \<Rightarrow> (Inl (Refused e), db')
           | (Inr _, db') \<Rightarrow> (Inr (policy, digest), db')))"

text \<open>\<open>_validate\<close>, up to the reading of the configuration and after it.\<close>

definition check_request :: "rat \<Rightarrow> pydict \<Rightarrow> broker_exn + string" where
  "check_request now req =
     (if \<not> keys_are req REQUEST_KEYS \<or> dget req ''schema'' \<noteq> PStr REQUEST_SCHEMA \<or> \<not> py_eq (dget req ''version'') (PInt 1)
      then Inl (Refused ''request_schema_invalid'')
      else if dget req ''mode'' \<noteq> PStr ''enforce'' \<or> dget req ''action'' \<noteq> PStr RESERVE_ACTION
      then Inl (Refused ''reserve_action_not_allowlisted'')
      else
        sum_bind (broker_text ''incident_id'' (dget req ''incident_id'')) (\<lambda>incident.
        sum_bind (broker_text ''idempotency_key'' (dget req ''idempotency_key'')) (\<lambda>key.
        if \<not> hex_fullmatch 64 64 key then Inl (Refused ''idempotency_key_invalid'')
        else
          sum_bind (broker_number ''issued_at'' (dget req ''issued_at'')) (\<lambda>issued.
          sum_bind (broker_number ''expires_at'' (dget req ''expires_at'')) (\<lambda>expires.
          if expires \<le> now \<or> now < issued \<or> expires \<le> issued \<or> 300 < expires - issued
          then Inl (Refused ''request_expired_or_ttl_invalid'') else Inr incident)))))"

definition target_fixed :: "pydict \<Rightarrow> reserve_policy \<Rightarrow> bool" where
  "target_fixed req policy =
     (let target = dget req ''target'' in
      is_dict target \<and> keys_are (mapping_of target) [''root'', ''mount_point''] \<and>
      dget (mapping_of target) ''root'' = PStr RESERVE_ROOT \<and> dget (mapping_of target) ''mount_point'' = PStr (rp_mount_point policy))"

definition check_scope :: "connection \<Rightarrow> pydict \<Rightarrow> reserve_policy \<Rightarrow> string \<Rightarrow> broker_exn + authorization" where
  "check_scope c req policy digest =
     (if dget req ''config_digest'' \<noteq> PStr digest then Inl (Refused ''reserve_config_digest_mismatch'')
      else if \<not> target_fixed req policy then Inl (Refused ''reserve_target_not_fixed'')
      else
        sum_bind (broker_authorization (dget req ''authorization'')) (\<lambda>auth.
        if auth_environment auth \<noteq> ''local-disposable'' \<or> auth_target_id auth \<noteq> RESERVE_ROOT \<or> auth_action auth \<noteq> RESERVE_ACTION \<or>
           fle (auth_expires_at auth) (Fin (cn_now c))
        then Inl (Refused ''reserve_authorization_invalid'')
        else
          sum_bind (auth_path policy) (\<lambda>path.
          sum_bind (json_or (Refused ''reserve_authorization_file_invalid'') (cn_auth_second c path)) (\<lambda>v.
          if \<not> is_dict v \<or> \<not> py_eq v (PDict (authorization_dict auth)) then Inl (Refused ''reserve_authorization_file_mismatch'')
          else Inr auth))))"

definition validate_reserve ::
  "connection \<Rightarrow> pydict \<Rightarrow> reserve_db \<Rightarrow> (broker_exn + string \<times> authorization \<times> reserve_policy) \<times> reserve_db" where
  "validate_reserve c req db =
     (case check_request (cn_now c) req of
        Inl x \<Rightarrow> (Inl x, db)
      | Inr incident \<Rightarrow>
          (case load_policy c db of
             (Inl x, db') \<Rightarrow> (Inl x, db')
           | (Inr (policy, digest), db') \<Rightarrow>
               (sum_bind (check_scope c req policy digest) (\<lambda>auth. Inr (incident, auth, policy)), db')))"

record broker_response =
  br_status :: string
  br_reasons :: "string list"
  br_result :: "pydict option"

definition response_dict :: "broker_response \<Rightarrow> pydict" where
  "response_dict r =
     [(''schema'', PStr RESPONSE_SCHEMA), (''version'', PInt 1), (''status'', PStr (br_status r)),
      (''reason_codes'', PList (map PStr (br_reasons r))), (''result'', opt_val PDict (br_result r))]"

text \<open>What a connection leaves: the reply that was sent, the approval and incident the helper ran for, an uncaught exception.\<close>

record outcome =
  oc_reply :: "broker_response option"
  oc_helper :: "(string \<times> string) option"
  oc_uncaught :: bool

definition respond :: "connection \<Rightarrow> string \<Rightarrow> string list \<Rightarrow> pydict option \<Rightarrow> broker_response option" where
  "respond c status reasons result =
     (let r = \<lparr>br_status = status, br_reasons = take 16 (dict_fromkeys reasons), br_result = result\<rparr>
      in if cn_sends c \<and> length (cn_dumps c (PDict (response_dict r))) + 1 \<le> MAX_MESSAGE_BYTES then Some r else None)"

definition refusal :: "connection \<Rightarrow> (string \<times> string) option \<Rightarrow> broker_exn \<Rightarrow> outcome" where
  "refusal c started x =
     (case x of
        Refused e \<Rightarrow> \<lparr>oc_reply = respond c ''DENIED'' [take 128 e] None, oc_helper = started, oc_uncaught = False\<rparr>
      | Uncaught \<Rightarrow> \<lparr>oc_reply = None, oc_helper = started, oc_uncaught = True\<rparr>)"

text \<open>The judgement of a helper run: the incident's final state, the status of the reply, and the payload.\<close>

definition helper_valid :: "string \<Rightarrow> int \<Rightarrow> pydict \<Rightarrow> bool" where
  "helper_valid path code r =
     (code = 0 \<and> dget r ''status'' = PStr ''released'' \<and> dget r ''path'' = PStr path \<and>
      (case (int_like (dget r ''before_free_bytes''), int_like (dget r ''after_free_bytes'')) of
         (Some before, Some after) \<Rightarrow> before < after | _ \<Rightarrow> False))"

definition judge_exit :: "connection \<Rightarrow> reserve_policy \<Rightarrow> string \<Rightarrow> int \<Rightarrow> string \<Rightarrow> string \<times> string \<times> string list \<times> pydict" where
  "judge_exit c policy incident code stdout =
     (let parsed = (case cn_loads c (py_strip stdout) of Some (PDict r) \<Rightarrow> Some r | _ \<Rightarrow> None);
          path = reserve_path (rp_root policy);
          valid = opt_holds (helper_valid path code) parsed;
          partial = opt_holds (\<lambda>r. dget r ''status'' = PStr ''executed_unverified'') parsed;
          unknown = (parsed = None \<or> code \<noteq> 0);
          reasons = (if valid then [''guardian_reserve_released'', ''writer_source_requires_manual_handling'']
                     else if partial then [''reserve_release_executed_unverified'', ''manual_reconciliation_required'']
                     else if unknown then [''reserve_helper_outcome_unknown'', ''manual_reconciliation_required'']
                     else [''reserve_helper_failed'']);
          free = (\<lambda>k. case parsed of None \<Rightarrow> PNone | Some r \<Rightarrow> dget r k)
      in (if valid then ''RELEASED'' else if partial then ''EXECUTED_UNVERIFIED'' else if unknown then ''UNKNOWN'' else ''FAILED'',
          if valid then ''EXECUTED'' else if partial \<or> unknown then ''UNKNOWN'' else ''DENIED'',
          reasons,
          [(''action'', PStr RESERVE_ACTION), (''incident_id'', PStr incident), (''released_path'', PStr path),
           (''before_free_bytes'', free ''before_free_bytes''), (''after_free_bytes'', free ''after_free_bytes''),
           (''reason_codes'', PList (map PStr reasons))]))"

definition judge_helper :: "connection \<Rightarrow> reserve_policy \<Rightarrow> string \<Rightarrow> (string \<times> string \<times> string list \<times> pydict) option" where
  "judge_helper c policy incident =
     (let short = (\<lambda>reason. [(''action'', PStr RESERVE_ACTION), (''incident_id'', PStr incident), (''reason_codes'', PList [PStr reason])])
      in case cn_helper c of
           HelperTimeout \<Rightarrow> Some (''UNKNOWN'', ''UNKNOWN'', [''reserve_helper_outcome_unknown''], short ''reserve_helper_outcome_unknown'')
         | HelperMissing \<Rightarrow> Some (''FAILED'', ''DENIED'', [''reserve_helper_unavailable''], short ''reserve_helper_unavailable'')
         | HelperGarbled \<Rightarrow> None
         | HelperExit code stdout \<Rightarrow> Some (judge_exit c policy incident code stdout))"

definition run_claimed :: "connection \<Rightarrow> reserve_policy \<Rightarrow> string \<Rightarrow> string \<Rightarrow> reserve_db \<Rightarrow> outcome \<times> reserve_db" where
  "run_claimed c policy approval incident db =
     (case judge_helper c policy incident of
        None \<Rightarrow> (refusal c (Some (approval, incident)) Uncaught, db)
      | Some (state, status, reasons, payload) \<Rightarrow>
          (case finish_execution (cn_finish_env c) incident state payload (cn_finish_time c) db of
             (Inl e, db') \<Rightarrow> (refusal c (Some (approval, incident)) (Refused e), db')
           | (Inr _, db') \<Rightarrow>
               (\<lparr>oc_reply = respond c status reasons (Some payload), oc_helper = Some (approval, incident), oc_uncaught = False\<rparr>, db')))"

definition claim_and_run :: "connection \<Rightarrow> string \<times> authorization \<times> reserve_policy \<Rightarrow> reserve_db \<Rightarrow> outcome \<times> reserve_db" where
  "claim_and_run c req db =
     (case req of (incident, a, policy) \<Rightarrow>
       (case claim_execution (cn_claim_env c) incident (approval_id a) (auth_environment a) (auth_target_id a) RESERVE_ACTION
               (auth_expires_at a) (rp_root policy) (cn_now c) db of
          (Inl e, db') \<Rightarrow> (refusal c None (Refused e), db')
        | (Inr claim, db') \<Rightarrow>
            if \<not> rec_claimed claim
            then (\<lparr>oc_reply = respond c ''DENIED'' [rec_reason claim, ''reserve_failure_breaker_or_idempotency''] None,
                   oc_helper = None, oc_uncaught = False\<rparr>, db')
            else run_claimed c policy (approval_id a) incident db'))"

definition read_request :: "connection \<Rightarrow> broker_exn + pydict" where
  "read_request c =
     sum_bind (read_line (cn_stream c)) (\<lambda>line.
       case cn_parse c line of
         Json (PDict req) \<Rightarrow> Inr req
       | Json _ \<Rightarrow> Inl (Refused ''request_mapping_required'')
       | NotJson e \<Rightarrow> Inl (Refused e)
       | _ \<Rightarrow> Inl Uncaught)"

definition handle_connection :: "reserve_server \<Rightarrow> connection \<Rightarrow> reserve_db \<Rightarrow> outcome \<times> reserve_db" where
  "handle_connection s c db =
     (let denied = (\<lambda>reason. \<lparr>oc_reply = respond c ''DENIED'' [reason] None, oc_helper = None, oc_uncaught = False\<rparr>) in
      case cn_peer c of
        Inl e \<Rightarrow> (refusal c None (Refused e), db)
      | Inr uid \<Rightarrow>
          if uid \<noteq> rs_allowed_uid s then (denied ''peer_identity_denied'', db)
          else if \<not> rs_enabled s then (denied ''reserve_broker_disabled'', db)
          else
            (case read_request c of
               Inl x \<Rightarrow> (refusal c None x, db)
             | Inr req \<Rightarrow>
                 (case validate_reserve c req db of
                    (Inl x, db') \<Rightarrow> (refusal c None x, db')
                  | (Inr request, db') \<Rightarrow> claim_and_run c request db')))"

end
