(* ===== verification/Guardian_Action_Broker.thy ===== *)
theory Guardian_Action_Broker
  imports Guardian_Coordinator Guardian_Reserve_Broker
begin

text \<open>
  The privileged boundary: the client the runtime uses as its adapter (\<open>src/guardian_broker_client.py\<close>)
  and the request handler of the independent action broker (\<open>src/guardian_broker_service.py\<close>), which
  alone starts Docker.  A connection carries what the handler meets: the peer, the bytes, the files,
  the live registry and the SQL environments of its store calls.
\<close>

section \<open>The wire\<close>

definition ACTION_REQUEST_SCHEMA :: string where
  "ACTION_REQUEST_SCHEMA = ''guardian.action_broker.request.v1''"

definition ACTION_RESPONSE_SCHEMA :: string where
  "ACTION_RESPONSE_SCHEMA = ''guardian.action_broker.response.v1''"

definition MAX_REQUEST_BYTES :: nat where
  "MAX_REQUEST_BYTES = 64 * 1024"

definition MAX_RESPONSE_BYTES :: nat where
  "MAX_RESPONSE_BYTES = 32 * 1024"

text \<open>
  The receiving loop of both sides: chunks of at most 4096 bytes until a newline, the end, or more than
  \<open>limit\<close> bytes; the flag of an error says whether it is a timeout.
\<close>

function receive_upto :: "nat \<Rightarrow> nat \<Rightarrow> recv list \<Rightarrow> bool + string" where
  "receive_upto limit got [] = Inr []"
| "receive_upto limit got (RecvTimeout # rs) = Inl True"
| "receive_upto limit got (RecvFailure # rs) = Inl False"
| "receive_upto limit got (Bytes b # rs) =
     (let n = min 4096 (limit + 1 - got); chunk = take n b
      in if chunk = [] then Inr []
         else if limit < got + length chunk \<or> LF \<in> set chunk then Inr chunk
         else sum_bind (receive_upto limit (got + length chunk) (if n < length b then Bytes (drop n b) # rs else rs))
                (\<lambda>rest. Inr (chunk @ rest)))"
  by pat_completeness auto
termination
  by (relation "measure (\<lambda>(limit, got, rs). stream_size rs)") auto

section \<open>The client\<close>

definition approval_value :: "authorization option \<Rightarrow> pyval" where
  "approval_value a = opt_val (PDict \<circ> authorization_dict) a"

definition build_broker_request :: "guardian_intent \<Rightarrow> action_request \<Rightarrow> string \<Rightarrow> string \<Rightarrow> pydict" where
  "build_broker_request intent request iid mode =
     [(''schema'', PStr ACTION_REQUEST_SCHEMA), (''version'', PInt 1), (''mode'', PStr mode), (''intent_id'', PStr iid),
      (''event_id'', PStr (gi_event_id intent)), (''sample_id'', PStr (gi_sample_id intent)), (''host_id'', PStr (gi_host_id intent)),
      (''resource_kind'', PStr (gi_resource_kind intent)), (''idempotency_key'', PStr (gi_idempotency_key intent)),
      (''issued_at'', PFloat (Fin (gi_issued_at intent))), (''expires_at'', PFloat (Fin (gi_expires_at intent))),
      (''policy_digest'', PStr (gi_policy_digest intent)), (''config_digest'', PStr (gi_config_digest intent)),
      (''action'', PStr (req_action request)), (''timeout_seconds'', PInt (req_timeout_seconds request)),
      (''target'', PDict [(''kind'', PStr ''container''), (''id'', PStr (gi_target_id intent)),
         (''created_at'', PStr (gi_target_created_at intent)), (''cgroup_path'', PStr (gi_target_cgroup_path intent)),
         (''cgroup_inode'', PInt (gi_target_cgroup_inode intent)),
         (''labels'', PDict (map (\<lambda>(k, v). (k, PStr v)) (gi_target_labels intent)))]),
      (''authorization'', approval_value (req_authorization request))]"

datatype connect_error = NoSocket | ConnectRefused | ConnectTimeout | ConnectFailure

text \<open>
  The client's surroundings: JSON text and parser, and one exchange with the other side, which acts on
  the world: an error of connecting or sending, or the stream of the answer.
\<close>

record 'x broker_client =
  bc_dumps :: "pyval \<Rightarrow> string"
  bc_parse :: "string \<Rightarrow> json_file"
  bc_exchange :: "string \<Rightarrow> 'x \<Rightarrow> (connect_error + recv list) \<times> 'x"

definition client_status :: "pydict \<Rightarrow> action_request \<Rightarrow> (pyval \<Rightarrow> string) \<Rightarrow> adapter_outcome" where
  "client_status response request rep =
     (let status = dget response ''status'';
          reason = (case dget response ''reason_codes'' of PList (PStr s # _) \<Rightarrow> s | _ \<Rightarrow> ''broker_denied'');
          answer = dget response ''result''; d = mapping_of answer;
          text = (\<lambda>key default. py_str rep (py_or (dget d key) (PStr default)))
      in if status = PStr ''DENIED'' then AdapterDenied reason
         else if status \<noteq> PStr ''EXECUTED'' \<or> \<not> is_dict answer then AdapterRaised
         else if dget d ''target_id'' \<noteq> PStr (req_target_id request) \<or> dget d ''action'' \<noteq> PStr (req_action request)
         then AdapterRaised
         else (case dget d ''returncode'' of
             PNone \<Rightarrow> AdapterDone \<lparr>res_executed = (dget d ''executed'' = PBool True), res_action = req_action request,
               res_target_id = req_target_id request, res_returncode = None, res_stdout = take 4096 (text ''stdout'' []),
               res_stderr = take 4096 (text ''stderr'' []), res_reason = take 256 (text ''reason'' ''broker_executed'')\<rparr>
           | PInt code \<Rightarrow> AdapterDone \<lparr>res_executed = (dget d ''executed'' = PBool True), res_action = req_action request,
               res_target_id = req_target_id request, res_returncode = Some code, res_stdout = take 4096 (text ''stdout'' []),
               res_stderr = take 4096 (text ''stderr'' []), res_reason = take 256 (text ''reason'' ''broker_executed'')\<rparr>
           | _ \<Rightarrow> AdapterRaised))"

text \<open>\<open>execute_intent\<close>: \<open>ActionDenied\<close>, any other exception, or a result.\<close>

definition read_answer :: "(pyval \<Rightarrow> string) \<Rightarrow> (string \<Rightarrow> json_file) \<Rightarrow> action_request \<Rightarrow> recv list \<Rightarrow> adapter_outcome" where
  "read_answer rep parse request stream =
     (case receive_upto MAX_RESPONSE_BYTES 0 stream of
        Inl True \<Rightarrow> AdapterRaised
      | Inl False \<Rightarrow> AdapterDenied ''broker_connection_failed''
      | Inr raw \<Rightarrow>
          if MAX_RESPONSE_BYTES < length raw \<or> LF \<notin> set raw then AdapterRaised
          else (case parse (first_line raw) of
              Json (PDict response) \<Rightarrow>
                if dget response ''schema'' \<noteq> PStr ACTION_RESPONSE_SCHEMA then AdapterRaised
                else client_status response request rep
            | _ \<Rightarrow> AdapterRaised))"

definition execute_intent ::
  "(pyval \<Rightarrow> string) \<Rightarrow> 'x broker_client \<Rightarrow> guardian_intent \<Rightarrow> action_request \<Rightarrow> string \<Rightarrow> 'x \<Rightarrow> adapter_outcome \<times> 'x" where
  "execute_intent rep client intent request iid x =
     (let text = bc_dumps client (PDict (build_broker_request intent request iid ''enforce'')) @ [LF]
      in if MAX_REQUEST_BYTES < length text then (AdapterRaised, x)
         else case bc_exchange client text x of
             (Inl NoSocket, x') \<Rightarrow> (AdapterDenied ''broker_socket_unavailable'', x')
           | (Inl ConnectRefused, x') \<Rightarrow> (AdapterDenied ''broker_unavailable'', x')
           | (Inl ConnectTimeout, x') \<Rightarrow> (AdapterRaised, x')
           | (Inl ConnectFailure, x') \<Rightarrow> (AdapterDenied ''broker_connection_failed'', x')
           | (Inr stream, x') \<Rightarrow> (read_answer rep (bc_parse client) request stream, x'))"

definition socket_adapter :: "(pyval \<Rightarrow> string) \<Rightarrow> 'x broker_client \<Rightarrow> 'x adapter" where
  "socket_adapter rep client =
     \<lparr>ad_fake = False, ad_managed = True, ad_run = (\<lambda>intent request iid _. execute_intent rep client intent request iid)\<rparr>"

text \<open>The constructor: the accepted timeout.\<close>

definition make_socket_adapter :: "pyval \<Rightarrow> string + rat" where
  "make_socket_adapter timeout =
     (case py_float timeout of
        Inl _ \<Rightarrow> Inl ''broker_timeout_invalid''
      | Inr (Fin t) \<Rightarrow> if 1 / 10 \<le> t \<and> t \<le> 120 then Inr t else Inl ''broker_timeout_out_of_bounds''
      | Inr _ \<Rightarrow> Inl ''broker_timeout_out_of_bounds'')"

section \<open>The server\<close>

record action_server =
  as_enabled :: bool
  as_uid :: "int option"
  as_gid :: "int option"
  as_policy_digest :: "string option"
  as_config_digest :: "string option"
  as_policy :: "shedding_policy option"
  as_cooldown :: rat
  as_max_actions :: int
  as_window :: rat
  as_max_failures :: int

record action_connection =
  ac_peer :: "string + int \<times> int"
  ac_stream :: "recv list"
  ac_parse :: "string \<Rightarrow> json_file"
  ac_now :: rat
  ac_config :: "json_file option"
  ac_config_sha :: "pydict \<Rightarrow> string"
  ac_policy_sha :: "pyval \<Rightarrow> string"
  ac_timestamp :: "string \<Rightarrow> rat option"
  ac_registry :: "string \<Rightarrow> pydict"
  ac_sql :: "nat \<Rightarrow> sql_env"
  ac_dumps :: "pyval \<Rightarrow> string"
  ac_sends :: bool
  ac_rep :: "pyval \<Rightarrow> string"

text \<open>The checks of the constructor; identities that do not resolve are refused.\<close>

definition make_action_server ::
  "(string \<Rightarrow> int option) \<Rightarrow> (string \<Rightarrow> int option) \<Rightarrow> bool \<Rightarrow> pyval \<Rightarrow> pyval \<Rightarrow> string option \<Rightarrow> string option \<Rightarrow> shedding_policy option \<Rightarrow>
   rat \<Rightarrow> pyval \<Rightarrow> rat \<Rightarrow> pyval \<Rightarrow> rat \<Rightarrow> string + action_server" where
  "make_action_server getpwnam getgrnam enabled uid gid policy_digest config_digest policy cooldown max_actions window max_failures timeout =
     (let identity = (\<lambda>lookup field v. if v = PNone then Inr None
             else case resolve_uid lookup v of None \<Rightarrow> Inl (field @ ''_invalid'') | Some n \<Rightarrow> Inr (Some n))
      in if enabled \<and> uid = PNone then Inl ''allowed_runtime_uid_required''
         else
           sum_bind (identity getpwnam ''uid'' uid) (\<lambda>u.
           sum_bind (identity getgrnam ''gid'' gid) (\<lambda>g.
           if \<not> (0 \<le> cooldown \<and> cooldown \<le> 86400) \<or> \<not> (0 < window \<and> window \<le> 86400) then Inl ''broker_cooldown_bounds_invalid''
           else (case max_actions of
               PInt m \<Rightarrow>
                 if m < 1 \<or> 10 < m then Inl ''broker_max_actions_invalid''
                 else (case max_failures of
                     PInt f \<Rightarrow>
                       if f < 1 \<or> 10 < f then Inl ''broker_breaker_bounds_invalid''
                       else if timeout < 1 / 10 \<or> 120 < timeout then Inl ''request_timeout_out_of_bounds''
                       else Inr \<lparr>as_enabled = enabled, as_uid = u, as_gid = g, as_policy_digest = policy_digest,
                                 as_config_digest = config_digest, as_policy = policy, as_cooldown = cooldown, as_max_actions = m,
                                 as_window = window, as_max_failures = f\<rparr>
                   | _ \<Rightarrow> Inl ''broker_breaker_bounds_invalid'')
             | _ \<Rightarrow> Inl ''broker_max_actions_invalid''))))"

subsection \<open>Validation\<close>

definition action_text :: "string \<Rightarrow> pyval \<Rightarrow> broker_exn + string" where
  "action_text field v =
     (case as_nonempty_str v of
        Some s \<Rightarrow> if 512 < length s then Inl (Refused (field @ ''_invalid'')) else Inr s
      | None \<Rightarrow> Inl (Refused (field @ ''_invalid'')))"

definition action_labels :: "pyval \<Rightarrow> broker_exn + (string \<times> string) list" where
  "action_labels v = (case strict_labels v of None \<Rightarrow> Inl (Refused ''target_labels_invalid'') | Some ls \<Rightarrow> Inr ls)"

definition action_approval :: "pyval \<Rightarrow> broker_exn + authorization" where
  "action_approval v =
     (if \<not> is_dict v \<or> \<not> keys_are (mapping_of v) AUTH_KEYS then Inl (Refused ''authorization_invalid'')
      else
        (let d = mapping_of v in
         sum_bind (action_text ''approval_id'' (dget d ''approval_id'')) (\<lambda>approval.
         sum_bind (action_text ''environment'' (dget d ''environment'')) (\<lambda>environment.
         sum_bind (action_text ''authorization_target_id'' (dget d ''target_id'')) (\<lambda>target.
         sum_bind (action_text ''authorization_action'' (dget d ''action'')) (\<lambda>action.
         sum_bind (broker_number ''authorization_expires_at'' (dget d ''expires_at'')) (\<lambda>expires.
           Inr \<lparr>approval_id = approval, auth_environment = environment, auth_target_id = target, auth_action = action,
                auth_expires_at = Fin expires\<rparr>)))))))"

definition ACTION_KEYS :: "string list" where
  "ACTION_KEYS =
     [''schema'', ''version'', ''mode'', ''intent_id'', ''event_id'', ''sample_id'', ''host_id'', ''resource_kind'', ''idempotency_key'',
      ''issued_at'', ''expires_at'', ''policy_digest'', ''config_digest'', ''action'', ''timeout_seconds'', ''target'', ''authorization'']"

definition TARGET_KEYS :: "string list" where
  "TARGET_KEYS = [''kind'', ''id'', ''created_at'', ''cgroup_path'', ''cgroup_inode'', ''labels'']"

text \<open>What the later checks need of a request.\<close>

record action_details =
  ad_intent :: string
  ad_event :: string
  ad_host :: string
  ad_resource :: string
  ad_key :: string
  ad_target :: string
  ad_created :: string
  ad_cgroup :: string
  ad_inode :: int
  ad_labels :: "(string \<times> string) list"

definition refuse_unless :: "bool \<Rightarrow> string \<Rightarrow> broker_exn + unit" where
  "refuse_unless b reason = (if b then Inr () else Inl (Refused reason))"

text \<open>The request up to its digests.\<close>

definition check_header :: "action_server \<Rightarrow> rat \<Rightarrow> pydict \<Rightarrow> broker_exn + action_details" where
  "check_header s now req =
     sum_bind (refuse_unless (keys_are req ACTION_KEYS) ''request_schema_fields_invalid'') (\<lambda>_.
     sum_bind (refuse_unless (dget req ''schema'' = PStr ACTION_REQUEST_SCHEMA \<and> py_eq (dget req ''version'') (PInt 1)) ''request_schema_invalid'') (\<lambda>_.
     sum_bind (refuse_unless (dget req ''mode'' = PStr ''enforce'') ''broker_mode_invalid'') (\<lambda>_.
     sum_bind (action_text ''intent_id'' (dget req ''intent_id'')) (\<lambda>iid.
     sum_bind (action_text ''event_id'' (dget req ''event_id'')) (\<lambda>event.
     sum_bind (action_text ''sample_id'' (dget req ''sample_id'')) (\<lambda>_.
     sum_bind (action_text ''host_id'' (dget req ''host_id'')) (\<lambda>host.
     sum_bind (action_text ''resource_kind'' (dget req ''resource_kind'')) (\<lambda>resource.
     sum_bind (action_text ''idempotency_key'' (dget req ''idempotency_key'')) (\<lambda>key.
     sum_bind (refuse_unless (hex_fullmatch 64 64 key) ''idempotency_key_invalid'') (\<lambda>_.
     sum_bind (broker_number ''issued_at'' (dget req ''issued_at'')) (\<lambda>issued.
     sum_bind (broker_number ''expires_at'' (dget req ''expires_at'')) (\<lambda>expires.
     sum_bind (refuse_unless (now < expires \<and> issued \<le> now \<and> issued < expires \<and> expires - issued \<le> 300) ''request_expired_or_ttl_invalid'') (\<lambda>_.
     sum_bind (action_text ''policy_digest'' (dget req ''policy_digest'')) (\<lambda>policy_digest.
     sum_bind (action_text ''config_digest'' (dget req ''config_digest'')) (\<lambda>config_digest.
     sum_bind (refuse_unless (hex_fullmatch 64 64 policy_digest \<and> hex_fullmatch 64 64 config_digest) ''request_digest_invalid'') (\<lambda>_.
     sum_bind (refuse_unless (as_policy_digest s \<noteq> None \<and> as_config_digest s \<noteq> None) ''broker_digest_policy_unavailable'') (\<lambda>_.
     sum_bind (refuse_unless (as_policy_digest s = Some policy_digest \<and> as_config_digest s = Some config_digest) ''broker_digest_mismatch'') (\<lambda>_.
       Inr \<lparr>ad_intent = iid, ad_event = event, ad_host = host, ad_resource = resource, ad_key = key, ad_target = [], ad_created = [],
            ad_cgroup = [], ad_inode = 0, ad_labels = []\<rparr>))))))))))))))))))"

text \<open>The action, its timeout and its target.\<close>

definition check_action_target :: "pydict \<Rightarrow> action_details \<Rightarrow> broker_exn + int \<times> action_details" where
  "check_action_target req d =
     sum_bind (action_text ''action'' (dget req ''action'')) (\<lambda>action.
     sum_bind (refuse_unless (action = ''graceful_stop'') ''action_not_allowlisted'') (\<lambda>_.
     sum_bind (case dget req ''timeout_seconds'' of PInt t \<Rightarrow> if 1 \<le> t \<and> t \<le> 120 then Inr t else Inl (Refused ''timeout_invalid'')
                 | _ \<Rightarrow> Inl (Refused ''timeout_invalid'')) (\<lambda>timeout.
     sum_bind (refuse_unless (is_dict (dget req ''target'') \<and> keys_are (mapping_of (dget req ''target'')) TARGET_KEYS) ''target_schema_invalid'') (\<lambda>_.
     let target = mapping_of (dget req ''target'') in
     sum_bind (action_text ''target_id'' (dget target ''id'')) (\<lambda>target_id.
     sum_bind (refuse_unless (dget target ''kind'' = PStr ''container'' \<and> hex_fullmatch 64 64 target_id) ''target_full_id_required'') (\<lambda>_.
     sum_bind (action_text ''target_created_at'' (dget target ''created_at'')) (\<lambda>created.
     sum_bind (action_text ''target_cgroup_path'' (dget target ''cgroup_path'')) (\<lambda>cgroup.
     sum_bind (refuse_unless (prefix ''/'' cgroup) ''target_cgroup_path_invalid'') (\<lambda>_.
     sum_bind (case positive_int (dget target ''cgroup_inode'') of None \<Rightarrow> Inl (Refused ''target_cgroup_inode_invalid'') | Some n \<Rightarrow> Inr n) (\<lambda>inode.
     sum_bind (action_labels (dget target ''labels'')) (\<lambda>labels.
       Inr (timeout, d\<lparr>ad_target := target_id, ad_created := created, ad_cgroup := cgroup, ad_inode := inode, ad_labels := labels\<rparr>))))))))))))"

text \<open>The actionable entry of the server's own policy; of two entries for one target the last counts.\<close>

definition check_policy_entry :: "action_connection \<Rightarrow> shedding_policy option \<Rightarrow> action_details \<Rightarrow> broker_exn + unit" where
  "check_policy_entry c policy d =
     (case policy of
        None \<Rightarrow> Inl (Refused ''broker_policy_unavailable'')
      | Some p \<Rightarrow>
          (let protected = map mapping_of (filter is_dict (sp_protected_set p)); actionable = map mapping_of (filter is_dict (sp_actionable_set p))
           in if list_ex (\<lambda>item. \<not> hashable (policy_entry_id item)) (protected @ actionable) then Inl Uncaught
              else if PStr (ad_target d) \<in> set (map policy_entry_id protected) then Inl (Refused ''protected_object'')
              else case find (\<lambda>item. policy_entry_id item = PStr (ad_target d)) (rev actionable) of
                  None \<Rightarrow> Inl (Refused ''target_not_actionable'')
                | Some entry \<Rightarrow>
                    if \<not> allows_resource (ad_resource d) (dget entry ''allowed_resources'') \<or> dget entry ''action'' \<noteq> PStr ''graceful_stop'' \<or>
                       dget entry ''environment'' \<noteq> PStr ''local-disposable''
                    then Inl (Refused ''actionable_entry_invalid'')
                    else (case dget entry ''expires_at'' of
                        PStr raw \<Rightarrow>
                          (case ac_timestamp c (offset_text raw) of
                             None \<Rightarrow> Inl (Refused ''actionable_entry_expiry_invalid'')
                           | Some t \<Rightarrow> refuse_unless (ac_now c < t) ''actionable_entry_expired'')
                      | _ \<Rightarrow> Inl (Refused ''actionable_entry_expiry_invalid''))))"

definition action_request_of :: "action_details \<Rightarrow> int \<Rightarrow> authorization \<Rightarrow> action_request" where
  "action_request_of d timeout a =
     \<lparr>req_event_id = ad_event d, req_target_id = ad_target d, req_action = ''graceful_stop'', req_protected = False,
      req_allowed_actions = {''graceful_stop''}, req_authorization = Some a, req_timeout_seconds = timeout\<rparr>"

text \<open>\<open>_validate_request\<close>; \<open>ActionDenied\<close> of \<open>validate_request\<close> is not caught by the handler.\<close>

definition validate_action :: "action_server \<Rightarrow> action_connection \<Rightarrow> pydict \<Rightarrow> broker_exn + authorization \<times> action_request \<times> action_details" where
  "validate_action s c req =
     sum_bind (check_header s (ac_now c) req) (\<lambda>d0.
     sum_bind (check_action_target req d0) (\<lambda>(timeout, d).
     sum_bind (action_approval (dget req ''authorization'')) (\<lambda>a.
     sum_bind (check_policy_entry c (as_policy s) d) (\<lambda>_.
     case validate_request (action_request_of d timeout a) (ac_now c) of
       Inl _ \<Rightarrow> Inl Uncaught
     | Inr _ \<Rightarrow> Inr (a, action_request_of d timeout a, d)))))"

subsection \<open>The live checks\<close>

text \<open>\<open>_verify_live_config\<close>: the file is read again; \<open>ValueError\<close> and its subclasses are refusals.\<close>

definition live_config :: "action_connection \<Rightarrow> broker_exn + string \<times> string" where
  "live_config c =
     (case ac_config c of
        None \<Rightarrow> Inl (Refused ''broker_config_unavailable'')
      | Some (Json v) \<Rightarrow>
          (case validate_config v of
             Inl (ConfigError _) \<Rightarrow> Inl (Refused ''broker_config_invalid'')
           | Inl (Escapes ValueError) \<Rightarrow> Inl (Refused ''broker_config_invalid'')
           | Inl (Escapes _) \<Rightarrow> Inl Uncaught
           | Inr config \<Rightarrow>
               (case policy_from_mapping (PDict (mapping_of (dget_default (mapping_of (dget config ''risk'')) ''emergency_shedding'' (PDict [])))) of
                  Inl _ \<Rightarrow> Inl (Refused ''broker_config_invalid'')
                | Inr policy \<Rightarrow> Inr (ac_config_sha c config, ac_policy_sha c (policy_payload policy))))
      | Some _ \<Rightarrow> Inl (Refused ''broker_config_invalid''))"

definition verify_live_config :: "action_server \<Rightarrow> action_connection \<Rightarrow> broker_exn + unit" where
  "verify_live_config s c =
     sum_bind (live_config c) (\<lambda>(config_digest, policy_digest).
       refuse_unless (as_config_digest s = Some config_digest \<and> as_policy_digest s = Some policy_digest) ''broker_config_changed'')"

definition intent_executable :: "intent_row \<Rightarrow> action_details \<Rightarrow> bool" where
  "intent_executable r d \<longleftrightarrow>
     int_state r = EXECUTION_STARTED \<and> int_event r = ad_event d \<and> int_object r = ad_target d \<and>
     int_action r = ''graceful_stop'' \<and> int_key r = ad_key d"

definition verify_durable_intent :: "sql_env \<Rightarrow> action_details \<Rightarrow> state_db \<Rightarrow> broker_exn + unit" where
  "verify_durable_intent env d db =
     (case get_intent env (ad_intent d) db of
        Inl e \<Rightarrow> Inl (Refused e)
      | Inr None \<Rightarrow> Inl (Refused ''intent_not_found'')
      | Inr (Some r) \<Rightarrow> refuse_unless (intent_executable r d) ''intent_not_executable'')"

definition verify_runtime_guards :: "action_server \<Rightarrow> action_connection \<Rightarrow> action_details \<Rightarrow> state_db \<Rightarrow> (broker_exn + unit) \<times> state_db" where
  "verify_runtime_guards s c d db =
     (case failure_breaker (ac_sql c 2) (ad_host d) GLOBAL_COOLDOWN_OBJECT ''graceful_stop'' (as_max_failures s) db of
        Inl e \<Rightarrow> (Inl (Refused e), db)
      | Inr True \<Rightarrow> (Inl (Refused ''failure_breaker_tripped''), db)
      | Inr False \<Rightarrow>
          (case allow_action (ac_sql c 3) (ad_host d) GLOBAL_COOLDOWN_OBJECT ''graceful_stop'' (ac_now c) (as_cooldown s) (as_max_actions s)
                  (as_window s) db of
             (Inl e, db') \<Rightarrow> (Inl (Refused e), db')
           | (Inr (allowed, reason), db') \<Rightarrow> (refuse_unless allowed reason, db')))"

definition live_identity_matches :: "action_connection \<Rightarrow> action_details \<Rightarrow> pydict \<Rightarrow> (string \<times> string) list \<Rightarrow> bool" where
  "live_identity_matches c d identity ls \<longleftrightarrow>
     dget identity ''created_at'' = PStr (ad_created d) \<and> dget identity ''cgroup_path'' = PStr (ad_cgroup d) \<and>
     py_eq (dget identity ''cgroup_inode'') (PInt (ad_inode d)) \<and> ls = ad_labels d \<and>
     dget identity ''mapping_confidence'' = PStr ''high'' \<and> dget identity ''mapping_errors'' = PList [] \<and>
     py_lower (py_str (ac_rep c) (py_or (dget identity ''status'') (PStr []))) \<in> {''running'', ''restarting''}"

definition verify_live_identity :: "action_connection \<Rightarrow> action_details \<Rightarrow> broker_exn + unit" where
  "verify_live_identity c d =
     (let registry = ac_registry c (ad_target d); objects = dget registry ''objects''
      in if dget registry ''status'' \<noteq> PStr ''ok'' \<or> \<not> is_list objects then Inl (Refused ''broker_live_identity_unavailable'')
         else case filter (\<lambda>item. is_dict item \<and> dget (mapping_of item) ''id'' = PStr (ad_target d)) (list_value objects) of
             [item] \<Rightarrow>
               sum_bind (action_labels (dget (mapping_of item) ''labels'')) (\<lambda>labels.
                 refuse_unless (live_identity_matches c d (mapping_of item) labels) ''broker_live_identity_changed'')
           | _ \<Rightarrow> Inl (Refused ''broker_live_identity_changed''))"

subsection \<open>The handler\<close>

text \<open>What a connection leaves: the status, the reasons and the result that were sent, or an exception that ends the thread.\<close>

record action_reply =
  ar_sent :: "(string \<times> string list \<times> pydict option) option"
  ar_uncaught :: bool

definition action_response :: "string \<Rightarrow> string list \<Rightarrow> pydict option \<Rightarrow> pydict" where
  "action_response status reasons answer =
     [(''schema'', PStr ACTION_RESPONSE_SCHEMA), (''version'', PInt 1), (''status'', PStr status),
      (''reason_codes'', PList (map PStr reasons)), (''result'', opt_val PDict answer)]"

definition answer_with :: "action_connection \<Rightarrow> string \<Rightarrow> string list \<Rightarrow> pydict option \<Rightarrow> action_reply" where
  "answer_with c status reasons answer =
     (let kept = take 16 (dict_fromkeys reasons)
      in \<lparr>ar_sent = (if ac_sends c \<and> length (ac_dumps c (PDict (action_response status kept answer))) + 1 \<le> MAX_RESPONSE_BYTES
                     then Some (status, kept, answer) else None),
          ar_uncaught = False\<rparr>)"

definition action_refusal :: "action_connection \<Rightarrow> broker_exn \<Rightarrow> action_reply" where
  "action_refusal c x =
     (case x of Refused e \<Rightarrow> answer_with c ''DENIED'' [take 128 e] None | Uncaught \<Rightarrow> \<lparr>ar_sent = None, ar_uncaught = True\<rparr>)"

definition read_action :: "action_connection \<Rightarrow> broker_exn + pydict" where
  "read_action c =
     (case receive_upto MAX_REQUEST_BYTES 0 (ac_stream c) of
        Inl timeout \<Rightarrow> Inl (if timeout then Refused ''broker_request_timeout'' else Uncaught)
      | Inr raw \<Rightarrow>
          if MAX_REQUEST_BYTES < length raw then Inl (Refused ''request_too_large'')
          else if LF \<notin> set raw then Inl (Refused ''request_framing_invalid'')
          else (case ac_parse c (first_line raw) of
              Json (PDict req) \<Rightarrow> Inr req
            | Json _ \<Rightarrow> Inl (Refused ''request_mapping_required'')
            | _ \<Rightarrow> Inl (Refused ''request_json_invalid'')))"

text \<open>From the live configuration to the live identity: everything before the approval is spent.\<close>

definition check_action ::
  "action_server \<Rightarrow> action_connection \<Rightarrow> state_db \<Rightarrow> (broker_exn + authorization \<times> action_request \<times> action_details) \<times> state_db" where
  "check_action s c db =
     (case sum_bind (read_action c) (\<lambda>req. sum_bind (verify_live_config s c) (\<lambda>_. validate_action s c req)) of
        Inl x \<Rightarrow> (Inl x, db)
      | Inr (a, request, d) \<Rightarrow>
          (case verify_durable_intent (ac_sql c 1) d db of
             Inl x \<Rightarrow> (Inl x, db)
           | Inr _ \<Rightarrow>
               (case verify_runtime_guards s c d db of
                  (Inl x, db') \<Rightarrow> (Inl x, db')
                | (Inr _, db') \<Rightarrow> (sum_bind (verify_live_identity c d) (\<lambda>_. Inr (a, request, d)), db'))))"

definition action_payload :: "action_result \<Rightarrow> pydict" where
  "action_payload r =
     [(''executed'', PBool (res_executed r)), (''action'', PStr (res_action r)), (''target_id'', PStr (res_target_id r)),
      (''returncode'', opt_val PInt (res_returncode r)), (''stdout'', PStr (take 4096 (res_stdout r))),
      (''stderr'', PStr (take 4096 (res_stderr r))), (''reason'', PStr (take 256 (res_reason r)))]"

definition run_action :: "action_connection \<Rightarrow> 'w runner \<Rightarrow> action_request \<Rightarrow> 'w \<Rightarrow> action_reply \<times> 'w" where
  "run_action c runner request w =
     (case docker_execute runner request (ac_now c) w of
        (Denied e, w') \<Rightarrow> (answer_with c ''DENIED'' [e] None, w')
      | (Escaped, w') \<Rightarrow> (answer_with c ''UNKNOWN'' [''broker_adapter_outcome_unknown''] None, w')
      | (Done r, w') \<Rightarrow>
          (if res_target_id r \<noteq> req_target_id request \<or> res_action r \<noteq> req_action request
           then answer_with c ''UNKNOWN'' [''broker_result_identity_mismatch''] None
           else answer_with c ''EXECUTED'' [''broker_action_completed''] (Some (action_payload r)), w'))"

definition handle_action ::
  "action_server \<Rightarrow> 'w runner \<Rightarrow> action_connection \<Rightarrow> state_db \<times> 'w \<Rightarrow> action_reply \<times> state_db \<times> 'w" where
  "handle_action s runner c dw =
     (case dw of (db, w) \<Rightarrow>
       (case ac_peer c of
          Inl e \<Rightarrow> (action_refusal c (Refused e), db, w)
        | Inr (uid, gid) \<Rightarrow>
            if as_uid s \<noteq> Some uid \<or> (as_gid s \<noteq> None \<and> as_gid s \<noteq> Some gid) then (answer_with c ''DENIED'' [''peer_identity_denied''] None, db, w)
            else if \<not> as_enabled s then (answer_with c ''DENIED'' [''broker_disabled''] None, db, w)
            else (case check_action s c db of
                (Inl x, db1) \<Rightarrow> (action_refusal c x, db1, w)
              | (Inr (a, request, d), db1) \<Rightarrow>
                  (case consume_capability (ac_sql c 4) a (ad_event d) (ac_now c) db1 of
                     (Inl e, db2) \<Rightarrow> (action_refusal c (Refused e), db2, w)
                   | (Inr cap, db2) \<Rightarrow>
                       if \<not> cd_allowed cap then (answer_with c ''DENIED'' [cd_reason cap] None, db2, w)
                       else (case run_action c runner request w of (reply, w') \<Rightarrow> (reply, db2, w'))))))"

end
