(* ===== verification/Guardian_Collector.thy ===== *)
theory Guardian_Collector
  imports Guardian_Collect Guardian_Action_Broker
begin

text \<open>
  The separate process that may talk to Docker (\<open>src/guardian_collector_service.py\<close>), its client
  (\<open>src/guardian_collector_client.py\<close>), and the collector of the runtime, which asks it under its own
  pressure gate (\<open>RuntimeOrchestrator.__init__\<close>).
\<close>

section \<open>The wire\<close>

definition COLLECTOR_REQUEST_SCHEMA :: string where
  "COLLECTOR_REQUEST_SCHEMA = ''guardian.container_collector.request.v1''"

definition COLLECTOR_RESPONSE_SCHEMA :: string where
  "COLLECTOR_RESPONSE_SCHEMA = ''guardian.container_collector.response.v1''"

definition MAX_COLLECTOR_REQUEST :: nat where "MAX_COLLECTOR_REQUEST = 4096"
definition MAX_COLLECTOR_RESPONSE :: nat where "MAX_COLLECTOR_RESPONSE = 1024 * 1024"

text \<open>\<open>_read_line\<close> of both sides: \<open>OSError\<close>, a framing error, or the first line.\<close>

datatype line_error = LineFailed bool | LineFraming

definition bounded_line :: "nat \<Rightarrow> recv list \<Rightarrow> line_error + string" where
  "bounded_line limit stream =
     (case receive_upto limit 0 stream of
        Inl timeout \<Rightarrow> Inl (LineFailed timeout)
      | Inr raw \<Rightarrow> if limit < length raw \<or> LF \<notin> set raw then Inl LineFraming else Inr (first_line raw))"

definition collector_response :: "string \<Rightarrow> pydict \<Rightarrow> string list \<Rightarrow> string option \<Rightarrow> pydict" where
  "collector_response status data errors error =
     [(''schema'', PStr COLLECTOR_RESPONSE_SCHEMA), (''version'', PInt 1), (''status'', PStr status), (''data'', PDict data),
      (''errors'', strs errors), (''error'', opt_val PStr error), (''read_only'', PBool True), (''mutation_commands'', PList [])]"

section \<open>The service\<close>

record collector_service =
  sv_gate :: pressure_gate
  sv_last :: "rat option"

definition gate_texts :: "host_view \<Rightarrow> string \<Rightarrow> string option \<times> string option" where
  "gate_texts hv proc = (hv_read hv (below proc ''meminfo''), hv_read hv (below proc ''pressure/memory''))"

definition gate_reason :: "pressure_decision \<Rightarrow> string" where
  "gate_reason d = (if pd_state d = SUSPENDED then ''pressure_gate_suspended'' else ''pressure_gate_degraded'')"

text \<open>What a snapshot without Docker carries.\<close>

definition withheld :: "string \<Rightarrow> pydict \<Rightarrow> pydict" where
  "withheld reason meta = [(''docker'', PDict (docker_down reason)), (''object_registry'', PDict (registry_down reason)), (''collector'', PDict meta)]"

definition gate_shut :: "pressure_decision \<Rightarrow> pressure_gate \<Rightarrow> rat \<Rightarrow> rat option \<Rightarrow> pyval \<Rightarrow> bool" where
  "gate_shut d g now before interval \<longleftrightarrow> pd_state d = SUSPENDED \<or> \<not> should_collect g now before interval"

definition service_snapshot ::
  "(pyval \<Rightarrow> string) \<Rightarrow> host_view \<Rightarrow> string \<Rightarrow> string \<Rightarrow> rat \<Rightarrow> collector_service \<Rightarrow> pydict \<times> collector_service" where
  "service_snapshot rep hv proc cgroup now s =
     (case evaluate (fst (gate_texts hv proc)) (snd (gate_texts hv proc)) (sv_gate s) of (d, g) \<Rightarrow>
        if gate_shut d g now (sv_last s) (PFloat (Fin 1))
        then (collector_response ''degraded'' (withheld (gate_reason d) [(''pressure_gate'', decision_as_dict d), (''stale'', PBool True)])
                [gate_reason d] (Some (gate_reason d)), s\<lparr>sv_gate := g\<rparr>)
        else
          (let docker = collect_docker_stats hv; s' = s\<lparr>sv_gate := g, sv_last := Some now\<rparr>
           in if dget docker ''available'' = PBool False
              then (collector_response ''unavailable'' [] [''docker_observation_unavailable'']
                      (Some (py_str rep (py_or (dget docker ''error'') (PStr ''docker_unavailable'')))), s')
              else
                (let registry = collect_object_registry hv proc cgroup docker
                 in (collector_response (if dget registry ''status'' = PStr ''ok'' then ''ok'' else ''degraded'')
                       [(''docker'', PDict docker), (''object_registry'', PDict registry),
                        (''collector'', PDict [(''pressure_gate'', decision_as_dict d), (''stale'', PBool False)])]
                       (map (py_str rep) (list_value (dget registry ''errors''))) None, s'))))"

text \<open>The identities the service leaves for the rescue tool.\<close>

definition identity_entry :: "rat \<Rightarrow> pydict \<Rightarrow> pydict option" where
  "identity_entry now item =
     (case (as_nonempty_str (dget item ''id''), dget item ''cgroup_path'') of
        (Some i, PStr path) \<Rightarrow>
          if prefix ''/'' path
          then Some [(''stable_id'', PStr i), (''name'', opt_val PStr (as_nonempty_str (dget item ''name''))), (''cgroup_path'', PStr path),
                     (''cgroup_inode'', dget item ''cgroup_inode''), (''observed_at'', flo now)]
          else None
      | _ \<Rightarrow> None)"

definition identity_cache :: "rat \<Rightarrow> pydict list \<Rightarrow> pydict" where
  "identity_cache now objects =
     [(''schema'', PStr ''guardian.rescue-identities.v1''), (''version'', PInt 1), (''observed_at'', flo now),
      (''entries'', PList (map PDict (List.map_filter (identity_entry now) (take 256 objects))))]"

definition check_collector_request :: "json_file \<Rightarrow> string + unit" where
  "check_collector_request value =
     (case value of
        Json (PDict d) \<Rightarrow>
          if set (map fst d) \<noteq> {''schema'', ''version'', ''operation''} then Inl ''collector_request_keys_invalid''
          else if dget d ''schema'' \<noteq> PStr COLLECTOR_REQUEST_SCHEMA \<or> \<not> py_eq (dget d ''version'') (PInt 1)
          then Inl ''collector_request_schema_invalid''
          else if dget d ''operation'' \<noteq> PStr ''snapshot'' then Inl ''collector_operation_not_supported'' else Inr ()
      | Json _ \<Rightarrow> Inl ''collector_request_keys_invalid''
      | _ \<Rightarrow> Inl ''collector_request_invalid_json'')"

text \<open>\<open>_send\<close>: the bytes of a response, or of a refusal when they are too many.\<close>

definition collector_bytes :: "(pyval \<Rightarrow> string) \<Rightarrow> pydict \<Rightarrow> string" where
  "collector_bytes dumps value =
     (let text = dumps (PDict value) @ [LF]
      in if MAX_COLLECTOR_RESPONSE < length text
         then dumps (PDict (collector_response ''unavailable'' [] [] (Some ''collector_response_too_large''))) @ [LF] else text)"

text \<open>One connection of \<open>serve_forever\<close>; \<open>failed\<close> is the text of the \<open>OSError\<close> of a failing \<open>recv\<close>.\<close>

definition serve_collector ::
  "(pyval \<Rightarrow> string) \<Rightarrow> (pyval \<Rightarrow> string) \<Rightarrow> (string \<Rightarrow> json_file) \<Rightarrow> string \<Rightarrow> host_view \<Rightarrow> string \<Rightarrow> string \<Rightarrow> rat \<Rightarrow> recv list \<Rightarrow>
   collector_service \<Rightarrow> string \<times> collector_service" where
  "serve_collector rep dumps parse failed hv proc cgroup now stream s =
     (let refuse = (\<lambda>reason. (collector_bytes dumps (collector_response ''unavailable'' [] [] (Some reason)), s))
      in case bounded_line MAX_COLLECTOR_REQUEST stream of
           Inl (LineFailed _) \<Rightarrow> refuse failed
         | Inl LineFraming \<Rightarrow> refuse ''collector_request_framing_invalid''
         | Inr line \<Rightarrow>
             (case check_collector_request (parse line) of
                Inl reason \<Rightarrow> refuse reason
              | Inr _ \<Rightarrow> (case service_snapshot rep hv proc cgroup now s of (r, s') \<Rightarrow> (collector_bytes dumps r, s'))))"

section \<open>The client\<close>

definition collector_request :: pydict where
  "collector_request =
     [(''schema'', PStr COLLECTOR_REQUEST_SCHEMA), (''version'', PInt 1), (''operation'', PStr ''snapshot'')]"

definition valid_collector_timeout :: "pyval \<Rightarrow> bool" where
  "valid_collector_timeout v = (case py_float v of Inr (Fin t) \<Rightarrow> 1 / 10 \<le> t \<and> t \<le> 30 | _ \<Rightarrow> False)"

text \<open>The answer of a snapshot: \<open>CollectorUnavailable\<close> with its reason, another exception, or the snapshot.\<close>

datatype collector_error = Unavailable string | ClientRaised py_exn

definition read_snapshot :: "(pyval \<Rightarrow> string) \<Rightarrow> json_file \<Rightarrow> collector_error + pydict" where
  "read_snapshot rep value =
     (case value of
        Json v \<Rightarrow>
          (let response = mapping_of v; data = mapping_of (dget response ''data'');
               listed = (\<lambda>key. if py_truthy (dget response key) then map_sum ClientRaised id (iterate (dget response key)) else Inr [])
           in if \<not> is_dict v \<or> dget response ''schema'' \<noteq> PStr COLLECTOR_RESPONSE_SCHEMA then Inl (Unavailable ''collector_response_schema_invalid'')
              else if \<not> hashable (dget response ''status'') then Inl (ClientRaised TypeError)
              else if \<not> str_in (dget response ''status'') [''ok'', ''degraded'']
              then Inl (Unavailable (py_str rep (py_or (dget response ''error'') (PStr ''collector_unavailable''))))
              else if \<not> is_dict (dget response ''data'') then Inl (Unavailable ''collector_data_missing'')
              else sum_bind (listed ''errors'') (\<lambda>errors. sum_bind (listed ''mutation_commands'') (\<lambda>commands.
                Inr (dset data ''collector'' (PDict
                  (dset (dset (dset (dset (mapping_of (dget data ''collector'')) ''status'' (dget response ''status'')) ''errors'' (PList errors))
                    ''read_only'' (PBool (dget response ''read_only'' = PBool True))) ''mutation_commands'' (PList commands)))))))
      | _ \<Rightarrow> Inl (Unavailable ''collector_response_invalid_json''))"

text \<open>\<open>snapshot\<close> for one exchange: no connection, or the stream of the answer.\<close>

definition client_snapshot :: "(pyval \<Rightarrow> string) \<Rightarrow> (string \<Rightarrow> json_file) \<Rightarrow> recv list option \<Rightarrow> collector_error + pydict" where
  "client_snapshot rep parse exchange =
     (case exchange of
        None \<Rightarrow> Inl (Unavailable ''collector_socket_unavailable'')
      | Some stream \<Rightarrow>
          (case bounded_line MAX_COLLECTOR_RESPONSE stream of
             Inl (LineFailed _) \<Rightarrow> Inl (Unavailable ''collector_socket_unavailable'')
           | Inl LineFraming \<Rightarrow> Inl (Unavailable ''collector_response_framing_invalid'')
           | Inr line \<Rightarrow> read_snapshot rep (parse line)))"

section \<open>The collector of the runtime\<close>

record runtime_collector =
  rc_gate :: pressure_gate
  rc_last :: "rat option"

text \<open>The name of the exception \<open>collect_observation\<close> puts into its answer.\<close>

fun error_name :: "collector_error \<Rightarrow> string" where
  "error_name (Unavailable _) = ''CollectorUnavailable''"
| "error_name (ClientRaised TypeError) = ''TypeError''"
| "error_name (ClientRaised ValueError) = ''ValueError''"
| "error_name (ClientRaised KeyError) = ''KeyError''"
| "error_name (ClientRaised OverflowError) = ''OverflowError''"
| "error_name (ClientRaised AttributeError) = ''AttributeError''"

definition with_decision :: "pressure_decision \<Rightarrow> pydict \<Rightarrow> pydict" where
  "with_decision d collected =
     dset collected ''collector'' (PDict (dset (dset (mapping_of (dget collected ''collector'')) ''pressure_gate'' (decision_as_dict d)) ''stale'' (PBool False)))"

definition runtime_answer ::
  "host_view \<Rightarrow> string \<Rightarrow> rat \<Rightarrow> pyval \<Rightarrow> collector_error + pydict \<Rightarrow> runtime_collector \<Rightarrow> (string + pydict) \<times> runtime_collector" where
  "runtime_answer hv proc now interval answer s =
     (case evaluate (fst (gate_texts hv proc)) (snd (gate_texts hv proc)) (rc_gate s) of (d, g) \<Rightarrow>
        if gate_shut d g now (rc_last s) interval
        then (Inr (withheld (gate_reason d)
                [(''status'', PStr ''degraded''), (''read_only'', PBool True), (''mutation_commands'', PList []), (''stale'', PBool True),
                 (''pressure_gate'', decision_as_dict d)]), s\<lparr>rc_gate := g\<rparr>)
        else case answer of
            Inl e \<Rightarrow> (Inl (error_name e), s\<lparr>rc_gate := g\<rparr>)
          | Inr collected \<Rightarrow> (Inr (with_decision d collected), s\<lparr>rc_gate := g, rc_last := Some now\<rparr>))"

definition runtime_observation ::
  "host_view \<Rightarrow> string \<Rightarrow> string \<Rightarrow> string list \<Rightarrow> rat \<Rightarrow> pyval \<Rightarrow> collector_error + pydict \<Rightarrow> runtime_collector \<Rightarrow>
   (py_exn + pydict) \<times> runtime_collector" where
  "runtime_observation hv proc cgroup mount_points now interval answer s =
     (case runtime_answer hv proc now interval answer s of (a, s') \<Rightarrow> (collect_observation hv proc cgroup mount_points (Some a), s'))"

end
