(* ===== verification/Guardian_Sampler.thy ===== *)
theory Guardian_Sampler
  imports Guardian_Observer Guardian_Pressure_Gate
begin

text \<open>
  \<open>ObserverSampler\<close> and \<open>_finalize_observer_event\<close> (\<open>src/guardian_observer.py\<close>): one sample with all engines, the
  administrator's view of it, and the health record an event gets before it is handed on.
\<close>

section \<open>The administrator's view\<close>

definition label_matches :: "pyval \<Rightarrow> pyval list \<Rightarrow> string list" where
  "label_matches attached rules =
     (case attached of
        PDict d \<Rightarrow>
          List.map_filter (\<lambda>rule. case as_nonempty_str rule of
              None \<Rightarrow> None
            | Some r \<Rightarrow>
                if has_key d r then Some r
                else (case py_partition CHR ''='' r of
                    (k, found, v) \<Rightarrow> if found \<and> dget d k = PStr v then Some r else None)) rules
      | _ \<Rightarrow> [])"

definition by_text :: "string \<Rightarrow> pyval list \<Rightarrow> (string \<times> pydict) list" where
  "by_text key items =
     fold (\<lambda>v acc. case v of PDict d \<Rightarrow> (case dget d key of PStr i \<Rightarrow> dset acc i d | _ \<Rightarrow> acc) | _ \<Rightarrow> acc) items []"

definition found_in :: "(string \<times> pydict) list \<Rightarrow> string \<Rightarrow> pydict" where
  "found_in table i = (case map_of table i of None \<Rightarrow> [] | Some d \<Rightarrow> d)"

record view_context =
  vc_registry :: "(string \<times> pydict) list"
  vc_protected :: "(string \<times> pydict) list"
  vc_actionable :: "string list"
  vc_labels :: "pyval list"
  vc_ranked :: "(string \<times> pydict) list"
  vc_selected :: pyval

definition view_row :: "(pyval \<Rightarrow> string) \<Rightarrow> view_context \<Rightarrow> pydict \<Rightarrow> string \<Rightarrow> py_exn + pydict" where
  "view_row rep vc item i =
     (let known = found_in (vc_registry vc) i; ranked = found_in (vc_ranked vc) i; guarded = map_of (vc_protected vc) i;
          matches = label_matches (dget known ''labels'') (vc_labels vc);
          contribution = (if dget ranked ''contribution_percent'' = PNone then dget item ''host_contribution_percent''
                          else dget ranked ''contribution_percent'');
          score = (if py_truthy (vc_selected vc) \<and> contribution \<noteq> PNone then contribution else dget item ''score'')
      in sum_bind (if py_truthy (dget item ''mapping_errors'') then iterate (dget item ''mapping_errors'') else Inr []) (\<lambda>errors.
         Inr [(''name'', py_or (py_or (dget item ''name'') (dget known ''name'')) (PStr (take 12 i))),
              (''score'', if score = PNone then contribution else score),
              (''confidence'', py_or (dget item ''confidence'') (dget known ''mapping_confidence'')),
              (''resource_contribution_percent'', contribution), (''protected'', PBool (guarded \<noteq> None \<or> matches \<noteq> [])),
              (''protection_reasons'', strs
                 ((case guarded of
                     None \<Rightarrow> []
                   | Some e \<Rightarrow> [if py_truthy (dget e ''reason'') then ''emergency_protected:'' @ py_str rep (dget e ''reason'')
                                else ''emergency_protected'']) @
                  map (\<lambda>r. ''container_label:'' @ r) matches @ map (py_str rep) (filter py_truthy errors))),
              (''actionable'', PBool (i \<in> set (vc_actionable vc))), (''mapping_errors'', PList errors)]))"

text \<open>The scores of the engines are finite.\<close>

definition view_order :: "(pyval \<Rightarrow> string) \<Rightarrow> pydict \<Rightarrow> rat \<times> string" where
  "view_order rep row = (case num_of (dget row ''score'') of Some (Fin q) \<Rightarrow> - q | _ \<Rightarrow> 1, py_str rep (dget row ''name''))"

definition view_target :: "(pyval \<Rightarrow> string) \<Rightarrow> (string \<times> pydict) list \<Rightarrow> pydict list \<Rightarrow> pydict \<Rightarrow> pyval" where
  "view_target rep registry candidates decision =
     (let target = py_or (dget decision ''target_id'') (dget decision ''top_consumer'')
      in case find (\<lambda>c. py_eq (dget c ''id'') target) candidates of
           None \<Rightarrow> dget decision ''target_name''
         | Some c \<Rightarrow> py_or (py_or (dget c ''name'') (case target of PStr i \<Rightarrow> dget (found_in registry i) ''name'' | _ \<Rightarrow> PNone))
             (PStr (take 12 (py_str rep target))))"

text \<open>
  The view, and the candidates of the event: the objects of the registry that are no candidates are appended to the
  event's own list.
\<close>

definition build_runtime_presentation ::
  "(pyval \<Rightarrow> string) \<Rightarrow> pydict \<Rightarrow> pydict \<Rightarrow> pydict \<Rightarrow> pydict \<Rightarrow> py_exn + pydict list \<times> pydict" where
  "build_runtime_presentation rep event observation emergency config =
     (let registry = dget observation ''object_registry'';
          protection = mapping_of (dget config ''protection'');
          policy = mapping_of (dget (mapping_of (dget config ''risk'')) ''emergency_shedding'');
          emergency_decision = mapping_of (dget emergency ''decision''); selected = dget emergency_decision ''resource_kind'';
          ranked = (case selected of PStr k \<Rightarrow> list_value (dget (mapping_of (dget emergency ''rankings'')) k) | _ \<Rightarrow> []);
          labels = list_value (dget protection ''container_labels'');
          decision = (case dget event ''decision'' of PDict d \<Rightarrow> d | _ \<Rightarrow> emergency_decision)
      in sum_bind (if is_dict registry then iterate (dget_default (mapping_of registry) ''objects'' (PList [])) else Inr []) (\<lambda>objects.
         let by_id = by_text ''id'' objects;
             given = map mapping_of (filter is_dict (list_value (dget event ''object_candidates'')));
             named = map (\<lambda>c. dget c ''id'') (filter (\<lambda>c. is_str (dget c ''id'')) given);
             added = map (\<lambda>d. [(''id'', dget d ''id''), (''name'', dget d ''name''), (''confidence'', PStr ''observed'')])
               (filter (\<lambda>d. is_str (dget d ''id'') \<and> dget d ''id'' \<notin> set named) (map mapping_of (filter is_dict objects)));
             candidates = given @ added;
             vc = \<lparr>vc_registry = by_id, vc_protected = by_text ''stable_id'' (list_value (dget policy ''protected_set'')),
                   vc_actionable = map fst (by_text ''stable_id'' (list_value (dget policy ''actionable_set''))),
                   vc_labels = labels, vc_ranked = by_text ''id'' ranked, vc_selected = selected\<rparr>
         in sum_bind (traverse (\<lambda>c. view_row rep vc c (case dget c ''id'' of PStr i \<Rightarrow> i | _ \<Rightarrow> []))
                        (filter (\<lambda>c. is_str (dget c ''id'')) candidates)) (\<lambda>rows.
            sum_bind (iterate (if py_truthy (dget decision ''reason_codes'') then dget decision ''reason_codes'' else PList [])) (\<lambda>codes.
            let sorted = sort_key (view_order rep) rows;
                ranks = map (\<lambda>(i, row). dset row ''rank'' (PInt (int i + 1))) (enumerate 0 sorted)
            in Inr (candidates,
                [(''schema'', PStr ''guardian.runtime.presentation.v1''),
                 (''candidate_ranking'', PDict
                    [(''status'', PStr (if dget (mapping_of registry) ''status'' = PStr ''ok'' then ''ok'' else ''degraded'')),
                     (''resource_kind'', selected), (''count'', PInt (int (length ranks))),
                     (''top'', case ranks of [] \<Rightarrow> PNone | r # _ \<Rightarrow> PDict r), (''candidates'', PList (map PDict (take 20 ranks)))]),
                 (''protection'', PDict
                    [(''protected_candidates'', PList (take 20 (map (\<lambda>r. PDict [(''name'', dget r ''name''), (''reasons'', dget r ''protection_reasons'')])
                        (filter (\<lambda>r. dget r ''protected'' = PBool True) ranks)))),
                     (''configured_systemd_units'', PInt (int (length (list_value (dget protection ''systemd_units''))))),
                     (''configured_container_labels'', PInt (int (length labels)))]),
                 (''simulation'', PDict
                    [(''mode'', dget decision ''mode''), (''action'', dget decision ''action''), (''execution'', dget decision ''execution''),
                     (''resource_kind'', dget decision ''resource_kind''), (''target_name'', view_target rep by_id candidates decision),
                     (''reason_codes'', PList codes)])])))))"

section \<open>The sampler\<close>

record observer_sampler =
  os_config :: pydict
  os_config_digest :: string
  os_config_source :: pyval
  os_mode :: string
  os_interval :: rat
  os_warning_available :: "pyfloat option"
  os_critical_available :: "pyfloat option"
  os_simulate_action :: string
  os_protected :: bool
  os_allowed :: "string list"
  os_policy :: shedding_policy
  os_memory :: risk_evaluator
  os_attributor :: attribution_evaluator
  os_cpu :: cpu_evaluator
  os_cpu_attributor :: cpu_attributor
  os_capacity :: capacity_evaluator
  os_io :: io_evaluator
  os_io_attributor :: io_attributor
  os_sample_count :: int

definition validate_interval_seconds :: "pyval \<Rightarrow> string + rat" where
  "validate_interval_seconds v =
     (case v of
        PBool _ \<Rightarrow> Inl ''interval_seconds:finite_number_required''
      | _ \<Rightarrow> (case py_float v of
          Inl _ \<Rightarrow> Inl ''interval_seconds:finite_number_required''
        | Inr (Fin q) \<Rightarrow> if 1 / 10 \<le> q \<and> q \<le> 60 then Inr q else Inl ''interval_seconds:must_be_between_0.1_and_60''
        | Inr _ \<Rightarrow> Inl ''interval_seconds:must_be_between_0.1_and_60''))"

text \<open>The results of the engines in one sample, and a step that may raise after its engine moved on.\<close>

record engine_results =
  er_attribution :: attribution_result
  er_cpu :: cpu_risk
  er_cpu_attribution :: cpu_attribution
  er_capacity :: "disk_risk \<times> pydict list"
  er_capacity_attribution :: "string \<times> string list \<times> string list"
  er_io :: "disk_risk \<times> io_readings"
  er_io_attribution :: io_attribution
  er_memory :: risk_result

definition and_then :: "('e + 'a) \<times> 's \<Rightarrow> ('a \<Rightarrow> 's \<Rightarrow> ('e + 'b) \<times> 's) \<Rightarrow> ('e + 'b) \<times> 's" where
  "and_then m f = (case m of (Inl x, s) \<Rightarrow> (Inl x, s) | (Inr a, s) \<Rightarrow> f a s)"

definition run_engines :: "observer_env \<Rightarrow> pydict \<Rightarrow> observer_sampler \<Rightarrow> (py_exn + engine_results) \<times> observer_sampler" where
  "run_engines env observation s =
     (let rep = se_rep env; now = se_monotonic env; cpu = mapping_of (dget observation ''cpu''); disk = mapping_of (dget observation ''disk'')
      in and_then (case evaluate_attribution rep observation (mapping_of (dget observation ''object_registry'')) (now 0) (os_attributor s) of
           (r, e) \<Rightarrow> (r, s\<lparr>os_attributor := e\<rparr>)) (\<lambda>attribution s.
         and_then (case evaluate_cpu rep cpu (now 1) (os_cpu s) of (r, e) \<Rightarrow> (r, s\<lparr>os_cpu := e\<rparr>)) (\<lambda>cpu_risk s.
         and_then (case attribute_cpu cpu (os_cpu_attributor s) of (r, e) \<Rightarrow> (r, s\<lparr>os_cpu_attributor := e\<rparr>)) (\<lambda>cpu_target s.
         and_then (case evaluate_capacity rep disk (now 2) (os_capacity s) of (r, e) \<Rightarrow> (r, s\<lparr>os_capacity := e\<rparr>)) (\<lambda>capacity s.
         and_then (attribute_capacity rep disk, s) (\<lambda>owner s.
         and_then (case evaluate_io rep disk (now 3) (os_io s) of (r, e) \<Rightarrow> (r, s\<lparr>os_io := e\<rparr>)) (\<lambda>io_risk s.
         and_then (case attribute_io rep disk (os_io_attributor s) of (r, e) \<Rightarrow> (r, s\<lparr>os_io_attributor := e\<rparr>)) (\<lambda>io_target s.
         case evaluate_risk rep observation (os_warning_available s) (os_critical_available s) (now 4) (os_memory s) of
           (memory, e) \<Rightarrow>
             (Inr \<lparr>er_attribution = attribution, er_cpu = cpu_risk, er_cpu_attribution = cpu_target, er_capacity = capacity,
                   er_capacity_attribution = owner, er_io = io_risk, er_io_attribution = io_target, er_memory = memory\<rparr>,
              s\<lparr>os_memory := e\<rparr>)))))))))"

definition evaluation_of :: "pyval \<Rightarrow> pyval \<Rightarrow> pyval \<Rightarrow> pyval" where
  "evaluation_of risk attribution decision = PDict [(''risk'', risk), (''attribution'', attribution), (''decision'', decision)]"

definition memory_event :: "observer_env \<Rightarrow> observer_sampler \<Rightarrow> pydict \<Rightarrow> engine_results \<Rightarrow> pydict" where
  "memory_event env s observation r =
     build_event env observation (memory_risk_dict (er_memory r)) (rk_state (er_memory r)) (rk_reasons (er_memory r)) (os_mode s)
       (os_simulate_action s) (os_protected s) (os_allowed s) (Some (memory_attribution_dict (er_attribution r)))"

definition resource_evaluations :: "observer_sampler \<Rightarrow> pydict \<Rightarrow> engine_results \<Rightarrow> py_exn + pydict" where
  "resource_evaluations s event r =
     (let simulate = (\<lambda>kind risk attribution. map_sum id (PDict \<circ> simulated_dict kind)
            (build_disk_simulation_decision (PStr risk) (PStr attribution) kind (os_mode s) (os_simulate_action s) (os_protected s) (os_allowed s)))
      in sum_bind (simulate ''disk_capacity'' (dk_state (fst (er_capacity r))) (fst (er_capacity_attribution r))) (\<lambda>capacity_plan.
         sum_bind (simulate ''io'' (dk_state (fst (er_io r))) (io_state (er_io_attribution r))) (\<lambda>io_plan.
         Inr [(''memory'', evaluation_of (dget event ''risk'') (PDict (memory_attribution_dict (er_attribution r))) (dget event ''decision'')),
              (''cpu'', evaluation_of (PDict (cpu_risk_dict (er_cpu r))) (PDict (cpu_attribution_dict (er_cpu_attribution r)))
                 (PDict (build_cpu_simulation_decision (ck_state (er_cpu r)) (cr_state (er_cpu_attribution r)) (os_mode s) (os_simulate_action s)
                    (os_protected s) (os_allowed s)))),
              (''disk_capacity'', evaluation_of
                 (PDict (disk_risk_dict ''disk_capacity'' (fst (er_capacity r)) [(''mounts'', PList (map PDict (snd (er_capacity r))))]))
                 (PDict (capacity_attribution_dict (er_capacity_attribution r))) capacity_plan),
              (''io'', evaluation_of (PDict (disk_risk_dict ''io'' (fst (er_io r)) (io_readings_dict (snd (er_io r)))))
                 (PDict (io_attribution_dict (er_io_attribution r))) io_plan)])))"

definition gated_evaluations :: "(string \<times> pydict) list \<Rightarrow> pydict \<Rightarrow> pydict" where
  "gated_evaluations risks evaluations =
     map (\<lambda>(kind, e). (kind, case map_of risks kind of None \<Rightarrow> e | Some risk \<Rightarrow> PDict (dset (mapping_of e) ''risk'' (PDict risk)))) evaluations"

definition shedding_input_of ::
  "observer_sampler \<Rightarrow> pydict \<Rightarrow> (string \<times> pydict) list \<Rightarrow> pydict list \<Rightarrow> string \<Rightarrow> string \<Rightarrow> shedding_input" where
  "shedding_input_of s observation risks candidates event_id sample_id =
     \<lparr>si_host_risks = PDict (map (\<lambda>(k, r). (k, PDict r)) risks), si_candidates = PList (map PDict candidates),
      si_registry = dget_default (mapping_of (dget observation ''object_registry'')) ''objects'' (PList []),
      si_protected_set = PList (sp_protected_set (os_policy s)), si_actionable_set = PList (sp_actionable_set (os_policy s)),
      si_mode = PStr (os_mode s), si_policy = Some (os_policy s), si_allowed_actions = strs (os_allowed s),
      si_event_id = Some event_id, si_sample_id = Some sample_id, si_config_digest = Some (os_config_digest s), si_now = None\<rparr>"

text \<open>The parts of an event that depend on the two decisions.\<close>

definition decided_event :: "observer_sampler \<Rightarrow> pydict \<Rightarrow> pydict \<Rightarrow> joint_result \<Rightarrow> shedding_result \<Rightarrow> pydict" where
  "decided_event s event evaluations joint emergency =
     (let base = dset (dset (dset event ''resource_evaluations'' (PDict evaluations)) ''joint_evaluation'' (PDict (joint_dict joint)))
                  ''emergency_shedding'' (PDict (shedding_dict emergency))
      in if sp_enabled (os_policy s)
         then dset (dset (dset base ''target_attribution'' PNone)
                ''state'' (PStr (if os_mode s = ''enforce'' \<and> sd_plan (sr_decision emergency) \<noteq> None then ''critical_confirmed'' else jr_state joint)))
                ''decision'' (PDict (shedding_decision_dict (sr_decision emergency)))
         else dset (dset (dset base ''target_attribution'' (opt_val PDict (jr_target joint))) ''state'' (PStr (jr_state joint)))
                ''decision'' (PDict (joint_decision_dict (jr_decision joint))))"

definition shed :: "observer_env \<Rightarrow> observer_sampler \<Rightarrow> pydict \<Rightarrow> pydict \<Rightarrow> py_exn + pydict \<times> shedding_result" where
  "shed env s observation evaluations =
     (let rep = se_rep env; risks = emergency_host_risks rep evaluations (sp_required_samples (os_policy s));
          gated = gated_evaluations risks evaluations
      in sum_bind (emergency_candidates rep observation gated (sp_window_seconds (os_policy s))) (\<lambda>candidates.
         Inr (gated, build_emergency_shedding_decision rep (se_iso_at env) (se_policy_sha env) (se_plan_sha env) (se_epoch env)
           (shedding_input_of s observation risks candidates (se_uuid env 0) (sample_id_of env observation)))))"

definition compose_event :: "observer_env \<Rightarrow> observer_sampler \<Rightarrow> pydict \<Rightarrow> engine_results \<Rightarrow> py_exn + pydict" where
  "compose_event env s observation r =
     (let event = memory_event env s observation r
      in sum_bind (resource_evaluations s event r) (\<lambda>evaluations.
         sum_bind (shed env s observation evaluations) (\<lambda>(gated, emergency).
         let joint = build_joint_decision (se_rep env) gated (os_mode s) (os_simulate_action s) (os_protected s) (os_allowed s);
             decided = decided_event s event gated joint emergency
         in sum_bind (build_runtime_presentation (se_rep env) decided observation (shedding_dict emergency) (os_config s)) (\<lambda>(candidates, view).
            Inr (dset (dset (dset decided ''object_candidates'' (PList (map PDict candidates))) ''presentation'' (PDict view)) ''evidence''
              (PDict (dset (dset (dset (dset (mapping_of (dget decided ''evidence'')) ''config_digest'' (PStr (os_config_digest s)))
                 ''policy_digest'' (PStr (se_policy_sha env (policy_payload (os_policy s)))))
                 ''sample_id'' (dget decided ''sample_id'')) ''config_source'' (os_config_source s))))))))"

definition sample :: "observer_env \<Rightarrow> pydict \<Rightarrow> observer_sampler \<Rightarrow> (py_exn + pydict) \<times> observer_sampler" where
  "sample env observation s =
     and_then (run_engines env observation s) (\<lambda>r s.
       case compose_event env s observation r of
         Inl x \<Rightarrow> (Inl x, s)
       | Inr event \<Rightarrow> (Inr event, s\<lparr>os_sample_count := os_sample_count s + 1\<rparr>))"

section \<open>Health and evidence\<close>

text \<open>
  The event is changed in place.  A decision of the joint arbitration is the same object as the one under
  \<open>joint_evaluation\<close>; a copied emergency decision shares its list of reason codes with the original.
\<close>

definition update_at :: "string \<Rightarrow> (pydict \<Rightarrow> pydict) \<Rightarrow> pydict \<Rightarrow> pydict" where
  "update_at k f d = dset d k (PDict (f (mapping_of (dget d k))))"

definition mirrored :: "bool \<Rightarrow> pydict \<Rightarrow> pydict" where
  "mirrored emergency event =
     (if emergency
      then update_at ''emergency_shedding'' (update_at ''decision'' (\<lambda>d. dset d ''reason_codes''
             (dget (mapping_of (dget event ''decision'')) ''reason_codes''))) event
      else update_at ''joint_evaluation'' (\<lambda>j. dset j ''decision'' (dget event ''decision'')) event)"

definition add_code :: "string \<Rightarrow> string \<Rightarrow> pydict \<Rightarrow> pydict" where
  "add_code k code d = dset d k (PList (list_value (dget d k) @ [PStr code]))"

definition block_decision :: "string \<Rightarrow> pydict \<Rightarrow> pydict" where
  "block_decision code =
     update_at ''decision'' (\<lambda>d. add_code ''reason_codes'' code (dset (dset d ''action'' (PStr ''escalate'')) ''execution'' (PStr ''not_executed'')))"

definition with_gate :: "pydict \<Rightarrow> pydict" where
  "with_gate = update_at ''evidence'' (\<lambda>e. if has_key e ''runtime_gate'' then e
     else dset e ''runtime_gate'' (PDict [(''execution_allowed'', PBool True), (''reason_codes'', PList [])]))"

definition close_gate :: "string \<Rightarrow> pydict \<Rightarrow> pydict" where
  "close_gate code =
     update_at ''evidence'' (update_at ''runtime_gate'' (\<lambda>g. add_code ''reason_codes'' code (dset g ''execution_allowed'' (PBool False))))"

definition systemd_notification_status :: "bool \<Rightarrow> bool \<Rightarrow> string" where
  "systemd_notification_status configured sent = (if \<not> configured then ''not_configured'' else if sent then ''sent'' else ''failed'')"

definition record_watchdog_status :: "string \<Rightarrow> pydict \<Rightarrow> pydict" where
  "record_watchdog_status status event =
     (let noted = update_at ''evidence'' (\<lambda>e. dset e ''watchdog_status'' (PStr status)) event;
          codes = list_value (dget (mapping_of (dget noted ''decision'')) ''reason_codes'')
      in if status \<noteq> ''failed'' then noted
         else if PStr ''watchdog_notify_failed'' \<in> set codes
         then update_at ''decision'' (\<lambda>d. dset (dset d ''action'' (PStr ''escalate'')) ''execution'' (PStr ''not_executed'')) noted
         else block_decision ''watchdog_notify_failed'' noted)"

definition SNAPSHOT_STATES :: "string list" where
  "SNAPSHOT_STATES = [''warning'', ''critical'', ''recovered'', ''escalated'']"

text \<open>The watchdog socket and its answer; the writers of the snapshot and of the audit line, when they are configured.\<close>

record health_env =
  he_socket :: bool
  he_sent :: bool
  he_snapshot :: "(pydict \<Rightarrow> string option) option"
  he_snapshot_all :: bool
  he_audit :: "(pydict \<Rightarrow> bool) option"
  he_pressure :: "pressure_decision option"

definition watchdog_stage :: "health_env \<Rightarrow> pydict \<Rightarrow> pydict" where
  "watchdog_stage he event =
     (let status = systemd_notification_status (he_socket he) (he_sent he); noted = record_watchdog_status status event
      in if status = ''failed'' then close_gate ''watchdog_notify_failed'' noted else noted)"

definition snapshot_stage :: "bool \<Rightarrow> health_env \<Rightarrow> pydict \<Rightarrow> pydict" where
  "snapshot_stage emergency he event =
     (case he_snapshot he of
        None \<Rightarrow> event
      | Some writer \<Rightarrow>
          if \<not> (he_snapshot_all he \<or> str_in (dget event ''state'') SNAPSHOT_STATES) then event
          else (case writer (mirrored emergency event) of
              Some path \<Rightarrow> update_at ''evidence'' (\<lambda>e. dset e ''snapshot_path'' (PStr path)) event
            | None \<Rightarrow> close_gate ''snapshot_capacity_exhausted'' (block_decision ''snapshot_capacity_exhausted''
                (update_at ''evidence'' (\<lambda>e. dset (dset e ''snapshot_path'' PNone) ''snapshot_status'' (PStr ''capacity_exhausted'')) event))))"

definition persisted_event :: "health_env \<Rightarrow> pydict \<Rightarrow> pydict" where
  "persisted_event he event =
     (case he_pressure he of
        Some d \<Rightarrow> if pd_state d = NORMAL then event else slim_audit_event event d
      | None \<Rightarrow> event)"

definition audit_stage :: "bool \<Rightarrow> health_env \<Rightarrow> pydict \<Rightarrow> pydict" where
  "audit_stage emergency he event =
     (case he_audit he of
        None \<Rightarrow> event
      | Some writer \<Rightarrow>
          if writer (persisted_event he (mirrored emergency event)) then update_at ''evidence'' (\<lambda>e. dset e ''audit_status'' (PStr ''written'')) event
          else close_gate ''audit_write_failed_or_capacity_exhausted'' (block_decision ''audit_write_failed_or_capacity_exhausted''
            (update_at ''evidence'' (\<lambda>e. dset e ''audit_status'' (PStr ''degraded'')) event)))"

text \<open>The reason codes of the gate are strings that the stages added.\<close>

definition dedupe_gate :: "pydict \<Rightarrow> pydict" where
  "dedupe_gate = update_at ''evidence'' (update_at ''runtime_gate'' (\<lambda>g. dset g ''reason_codes'' (PList (dict_fromkeys (list_value (dget g ''reason_codes''))))))"

definition finalize_observer_event :: "bool \<Rightarrow> health_env \<Rightarrow> pydict \<Rightarrow> pydict" where
  "finalize_observer_event emergency he event =
     mirrored emergency (dedupe_gate (audit_stage emergency he (snapshot_stage emergency he (watchdog_stage he (with_gate event)))))"

text \<open>
  The two writers: a snapshot must fit into the directory, an audit line into the file; a failing system call or a
  short write is a failure.
\<close>

definition write_snapshot :: "(pydict \<Rightarrow> string) \<Rightarrow> int option \<Rightarrow> int \<Rightarrow> bool \<Rightarrow> string \<Rightarrow> pydict \<Rightarrow> string option" where
  "write_snapshot dumps max_total used io_ok path event =
     (if \<not> io_ok \<or> opt_holds (\<lambda>m. m < used + int (length (dumps event)) + 1) max_total then None else Some path)"

definition append_audit_line :: "(pydict \<Rightarrow> string) \<Rightarrow> int option \<Rightarrow> int \<Rightarrow> (nat \<Rightarrow> nat option) \<Rightarrow> pydict \<Rightarrow> bool" where
  "append_audit_line dumps max_total held write event =
     (let payload = dumps event @ [LF]
      in \<not> opt_holds (\<lambda>m. m < held + int (length payload)) max_total \<and> write (length payload) = Some (length payload))"

end
