(* ===== verification/Guardian_Coordinator_Laws.thy ===== *)
theory Guardian_Coordinator_Laws
  imports Guardian_Coordinator
begin

text \<open>
  What one call of \<open>process\<close> and any sequence of calls and restarts guarantee: the gates before an
  adapter call, one call per event, and no call after an outcome that is not known.
\<close>

section \<open>Store traffic of the stages\<close>

lemma store_reach_slot_ops:
  "claim_action_slot env h act iid now db = (r, db') \<Longrightarrow> store_reach db db'"
  "release_action_slot env h act iid now db = (r2, db') \<Longrightarrow> store_reach db db'"
  "reconcile_pending env now db = (r3, db') \<Longrightarrow> store_reach db db'"
  using store_reach_step [of db "ClaimSlot env h act iid now"] store_reach_step [of db "ReleaseSlot env h act iid now"]
    store_reach_step [of db "Reconcile env now"]
  by simp_all

lemma release_slot_reach: "release_slot env intent iid now db = (r, db') \<Longrightarrow> store_reach db db'"
  by (auto simp: release_slot_def dest: store_reach_slot_ops split: sum.splits prod.splits bool.splits)

lemma give_back_reach: "give_back envs intent iid now reason keep reply db = (r, db') \<Longrightarrow> store_reach db db'"
  by (auto simp: give_back_def dest: release_slot_reach split: option.splits prod.splits)

lemma cooldown_stage_reach: "cooldown_stage envs broker intent now db = (r, db') \<Longrightarrow> store_reach db db'"
  by (auto simp: cooldown_stage_def dest: store_reach_ops split: sum.splits prod.splits bool.splits)

lemma slot_stage_reach: "slot_stage envs intent iid now db = (r, db') \<Longrightarrow> store_reach db db'"
  by (auto simp: slot_stage_def dest: store_reach_slot_ops split: sum.splits prod.splits bool.splits)

lemma capability_stage_reach:
  "capability_stage envs broker intent iid mode auth now cooldown db = (r, db') \<Longrightarrow> store_reach db db'"
  by (auto simp: capability_stage_def dest!: store_reach_ops give_back_reach intro: store_reach_trans
      split: sum.splits prod.splits option.splits if_splits)

lemma judge_action_reach:
  "judge_action envs intent iid mode verifier rv now cap cd ar db x = (r, db', x') \<Longrightarrow> store_reach db db'"
  by (auto simp: judge_action_def Let_def dest!: give_back_reach split: prod.splits option.splits if_splits)

lemma call_stage_reach:
  "call_stage envs broker intent iid mode rq verifier rv now cap cd db x = (r, db', x') \<Longrightarrow> store_reach db db'"
  by (auto simp: call_stage_def Let_def dest!: give_back_reach judge_action_reach store_reach_ops intro: store_reach_trans
      split: sum.splits prod.splits bool.splits adapter_outcome.splits)

section \<open>The intent along the stages\<close>

text \<open>The unfinished intent \<open>iid\<close>.\<close>

definition unfinished :: "state_db \<Rightarrow> string \<Rightarrow> bool" where
  "unfinished db iid = (\<exists>r \<in> set (intents db). int_id r = iid \<and> is_active r)"

lemma intents_frame:
  "allow_action env h obj act now c k w db = (r1, db') \<Longrightarrow> intents db' = intents db"
  "claim_action_slot env h act iid now db = (r2, db') \<Longrightarrow> intents db' = intents db"
  "release_action_slot env h act iid now db = (r3, db') \<Longrightarrow> intents db' = intents db"
  "consume_capability env a ev now db = (r4, db') \<Longrightarrow> intents db' = intents db"
  "record_action env h obj act now ok db = (r5, db') \<Longrightarrow> intents db' = intents db"
  by (auto dest!: allow_db claim_slot_db release_slot_db consume_db record_action_db)

lemma give_back_intents: "give_back envs intent iid now reason keep reply db = (r, db') \<Longrightarrow> intents db' = intents db"
  by (auto simp: give_back_def release_slot_def dest: intents_frame split: sum.splits option.splits prod.splits bool.splits)

lemma stage_intents:
  "cooldown_stage envs broker intent now db = (r, db') \<Longrightarrow> intents db' = intents db"
  "slot_stage envs intent iid now db = (r', db') \<Longrightarrow> intents db' = intents db"
  "capability_stage envs broker intent iid mode auth now cd db = (r, db') \<Longrightarrow> intents db' = intents db"
  "judge_action envs intent iid mode verifier rv now cap cd ar db x = (b, db', x') \<Longrightarrow> intents db' = intents db"
  by (auto simp: cooldown_stage_def slot_stage_def capability_stage_def judge_action_def Let_def
      dest!: intents_frame give_back_intents split: sum.splits prod.splits option.splits if_splits bool.splits)

lemma unfinished_update:
  assumes "\<And>r. int_id (f r) = int_id r" "\<And>r. is_active r \<Longrightarrow> is_active (f r)" "unfinished db i"
  shows "unfinished (update_intent db iid f) i"
proof -
  from assms(3) obtain r where r: "r \<in> set (intents db)" "int_id r = i" "is_active r" by (auto simp: unfinished_def)
  let ?r = "if int_id r = iid then f r else r"
  have "?r \<in> set (intents (update_intent db iid f))" using r(1) by (auto simp: update_intent_def)
  moreover have "int_id ?r = i" "is_active ?r" using r assms(1,2) by auto
  ultimately show ?thesis unfolding unfinished_def by blast
qed

lemma mark_unfinished:
  assumes "mark_execution_started env iid now db = (r, db')" "unfinished db i"
  shows "unfinished db' i"
proof -
  let ?f = "\<lambda>x. x\<lparr>int_state := EXECUTION_STARTED, int_updated_at := now\<rparr>"
  have "unfinished (update_intent db iid ?f) i"
    using assms(2) by (intro unfinished_update) (auto simp: is_active_def ACTIVE_INTENT_STATES_def)
  then have "unfinished (update_intent db iid ?f\<lparr>audit_records := xs\<rparr>) i" for xs
    by (simp add: unfinished_def)
  with mark_db [OF assms(1)] assms(2) show ?thesis by metis
qed

lemma call_stage_unfinished:
  assumes "call_stage envs broker intent iid mode rq verifier rv now cap cd db x = (b, db', x')" "unfinished db i"
  shows "unfinished db' i"
proof -
  obtain r1 db1 where m: "mark_execution_started (envs 6) iid now db = (r1, db1)" by force
  have "intents db' = intents db1"
    using assms(1) m
    by (auto simp: call_stage_def Let_def dest!: give_back_intents stage_intents(4)
        split: sum.splits prod.splits bool.splits adapter_outcome.splits)
  with mark_unfinished [OF m assms(2)] show ?thesis by (simp add: unfinished_def)
qed

section \<open>The shape of \<open>execute\<close>\<close>

text \<open>A stage that ends \<open>execute\<close> carries no action result, no adapter call and no execution.\<close>

definition uncalled :: "broker_result \<Rightarrow> bool" where
  "uncalled b = (br_action b = None \<and> \<not> br_called b \<and> br_execution b = ''NOT_EXECUTED'')"

lemma uncalled_simps [simp]:
  "uncalled (broker_reply st reasons)" "uncalled (refuse_action reasons rv)" "uncalled (reconcile_reply reasons)"
  "uncalled (b\<lparr>br_cooldown := s\<rparr>) = uncalled b" "uncalled (b\<lparr>br_capability := s\<rparr>) = uncalled b"
  by (simp_all add: uncalled_def refuse_action_def reconcile_reply_def broker_reply_def)

lemma uncalled_capability [simp]: "uncalled (br_capability_update f b) = uncalled b"
  by (simp add: uncalled_def)

lemma stage_uncalled:
  "revalidate_stage broker intent event mode x = (Inl r, x') \<Longrightarrow> uncalled r"
  "cooldown_stage envs broker intent now db = (Inl r, db') \<Longrightarrow> uncalled r"
  "request_stage broker mode rq now why = Inl r \<Longrightarrow> uncalled r"
  "slot_stage envs intent iid now db = (Inl r, db') \<Longrightarrow> uncalled r"
  subgoal by (auto simp: revalidate_stage_def split: if_splits option.splits prod.splits provider_outcome.splits)
  subgoal by (auto simp: cooldown_stage_def split: if_splits prod.splits sum.splits bool.splits)
  subgoal by (auto simp: request_stage_def Let_def split: if_splits sum.splits action_denied.splits)
  subgoal by (auto simp: slot_stage_def split: prod.splits sum.splits bool.splits)
  done

lemma capability_uncalled:
  "capability_stage envs broker intent iid mode auth now why db = (Inl r, db') \<Longrightarrow> uncalled r"
  by (auto simp: capability_stage_def give_back_def split: if_splits option.splits prod.splits sum.splits)

lemma broker_shape:
  assumes "broker_execute rep iso_at policy_sha envs broker intent event iid mode auth now verifier registry db x = (b, db', x')"
  obtains (stopped) rv where "revalidate_stage broker intent event mode x = (rv, x')" "store_reach db db'"
      "uncalled b" "intents db' = intents db"
  | (reached) rv x1 why db1 db2 cap db3 where
      "revalidate_stage broker intent event mode x = (Inr rv, x1)"
      "preflight rep iso_at policy_sha (ab_policy broker) intent event mode now
         (case rv of None \<Rightarrow> registry | Some r \<Rightarrow> Some (fr_registry r)) (map_option fr_event rv) = Inr None"
      "cooldown_stage envs broker intent now db = (Inr why, db1)"
      "request_stage broker mode (broker_request intent auth) now why = Inr ()"
      "slot_stage envs intent iid now db1 = (Inr (), db2)"
      "capability_stage envs broker intent iid mode auth now why db2 = (Inr cap, db3)"
      "call_stage envs broker intent iid mode (broker_request intent auth) verifier rv now cap why db3 x1 = (b, db', x')"
proof -
  note d = assms [unfolded broker_execute_def Let_def]
  obtain rv x1 where rv: "revalidate_stage broker intent event mode x = (rv, x1)" by force
  show thesis
  proof (cases rv)
    case (Inl r)
    with d rv stage_uncalled(1) show thesis by (intro stopped) auto
  next
    case v: (Inr v)
    note d = d [unfolded rv v prod.case sum.case]
    let ?pre = "preflight rep iso_at policy_sha (ab_policy broker) intent event mode now
         (case v of None \<Rightarrow> registry | Some r \<Rightarrow> Some (fr_registry r)) (map_option fr_event v)"
    show thesis
    proof (cases "?pre = Inr None")
      case False
      with d have "uncalled b" "db' = db" "x' = x1" by (auto split: sum.splits option.splits)
      with rv show thesis by (intro stopped [of rv]) simp_all
    next
      case pre: True
      obtain r1 db1 where cd: "cooldown_stage envs broker intent now db = (r1, db1)" by force
      note d = d [unfolded pre sum.case option.case cd prod.case]
      note f1 = cooldown_stage_reach [OF cd] stage_intents(1) [OF cd]
      show thesis
      proof (cases r1)
        case (Inl r)
        with d cd f1 rv stage_uncalled(2) show thesis by (intro stopped) auto
      next
        case why: (Inr why)
        show thesis
        proof (cases "request_stage broker mode (broker_request intent auth) now why")
          case (Inl r)
          with d why f1 rv stage_uncalled(3) show thesis by (intro stopped) auto
        next
          case rq: (Inr u)
          obtain r2 db2 where sl: "slot_stage envs intent iid now db1 = (r2, db2)" by force
          note d = d [unfolded why rq sum.case sl prod.case]
          note f2 = store_reach_trans [OF f1(1) slot_stage_reach [OF sl]] stage_intents(2) [OF sl]
          show thesis
          proof (cases r2)
            case (Inl r)
            with d sl f1 f2 rv stage_uncalled(4) show thesis by (intro stopped) auto
          next
            case (Inr u2)
            obtain r3 db3 where cp: "capability_stage envs broker intent iid mode auth now why db2 = (r3, db3)" by force
            note d = d [unfolded Inr sum.case cp prod.case]
            note f3 = store_reach_trans [OF f2(1) capability_stage_reach [OF cp]] stage_intents(3) [OF cp]
            show thesis
            proof (cases r3)
              case Inl3: (Inl r)
              with d cp f1 f2 f3 rv capability_uncalled show thesis by (intro stopped) auto
            next
              case Inr3: (Inr cap)
              with d rv v pre cd why rq sl Inr cp show thesis by (intro reached) auto
            qed
          qed
        qed
      qed
    qed
  qed
qed

section \<open>Adapter calls\<close>

text \<open>
  The same coordinator on a world that also keeps the list of the adapter's calls: the revalidation
  and the verification act on the world alone.
\<close>

type_synonym adapter_call = "guardian_intent \<times> action_request \<times> string"

definition on_world :: "('x \<Rightarrow> 'a \<times> 'x) \<Rightarrow> 'c \<times> 'x \<Rightarrow> 'a \<times> ('c \<times> 'x)" where
  "on_world f s = (case f (snd s) of (a, x) \<Rightarrow> (a, (fst s, x)))"

definition watched_adapter :: "'x adapter \<Rightarrow> (adapter_call list \<times> 'x) adapter" where
  "watched_adapter a =
     \<lparr>ad_fake = ad_fake a, ad_managed = ad_managed a,
      ad_run = (\<lambda>intent rq iid now s. case ad_run a intent rq iid now (snd s) of (out, x) \<Rightarrow> (out, (fst s @ [(intent, rq, iid)], x)))\<rparr>"

definition watched_broker :: "'x action_broker \<Rightarrow> (adapter_call list \<times> 'x) action_broker" where
  "watched_broker b =
     \<lparr>ab_policy = ab_policy b, ab_adapter = watched_adapter (ab_adapter b), ab_cooldown_seconds = ab_cooldown_seconds b,
      ab_max_actions = ab_max_actions b, ab_action_window = ab_action_window b, ab_max_failures = ab_max_failures b,
      ab_provider = map_option (\<lambda>p intent event. on_world (p intent event)) (ab_provider b)\<rparr>"

definition watched :: "'x coordinator \<Rightarrow> (adapter_call list \<times> 'x) coordinator" where
  "watched gc = \<lparr>gc_default_mode = gc_default_mode gc, gc_plan_ttl = gc_plan_ttl gc, gc_broker = watched_broker (gc_broker gc)\<rparr>"

definition watched_verifier :: "'x verifier \<Rightarrow> (adapter_call list \<times> 'x) verifier" where
  "watched_verifier v =
     (case v of DefaultVerification \<Rightarrow> DefaultVerification
      | Verifier verify \<Rightarrow> Verifier (\<lambda>intent ar. on_world (verify intent ar)))"

definition watched_args :: "'x process_args \<Rightarrow> (adapter_call list \<times> 'x) process_args" where
  "watched_args a =
     \<lparr>pa_mode = pa_mode a, pa_authorization = pa_authorization a, pa_registry = pa_registry a, pa_issued = pa_issued a,
      pa_now = pa_now a, pa_wall = pa_wall a, pa_monotonic = pa_monotonic a, pa_verifier = watched_verifier (pa_verifier a)\<rparr>"

lemma watched_simps [simp]:
  "ab_policy (watched_broker b) = ab_policy b" "ab_adapter (watched_broker b) = watched_adapter (ab_adapter b)"
  "ab_provider (watched_broker b) = map_option (\<lambda>p intent event. on_world (p intent event)) (ab_provider b)"
  "ad_fake (watched_adapter a) = ad_fake a" "ad_managed (watched_adapter a) = ad_managed a"
  "gc_broker (watched gc) = watched_broker (gc_broker gc)" "gc_default_mode (watched gc) = gc_default_mode gc"
  "pa_mode (watched_args args) = pa_mode args" "pa_authorization (watched_args args) = pa_authorization args"
  "pa_now (watched_args args) = pa_now args" "pa_verifier (watched_args args) = watched_verifier (pa_verifier args)"
  by (simp_all add: watched_broker_def watched_adapter_def watched_def watched_args_def)

lemma fst_on_world [simp]: "fst (snd (on_world f s)) = fst s"
  by (simp add: on_world_def split: prod.splits)

lemma on_world_fst: "on_world f s = (a, s') \<Longrightarrow> fst s' = fst s"
  using fst_on_world [of f s] by simp

text \<open>A revalidation that lets the broker go on has accepted the intent.\<close>

definition revalidated :: "'x action_broker \<Rightarrow> guardian_intent \<Rightarrow> pydict \<Rightarrow> fresh_revalidation \<Rightarrow> bool" where
  "revalidated broker intent event r \<longleftrightarrow>
     fr_accepted r \<and> (\<exists>provider x x'. ab_provider broker = Some provider \<and> provider intent event x = (Provided r, x'))"

lemma revalidate_stage_calls:
  assumes "revalidate_stage (watched_broker broker) intent event mode s = (rv, s')"
  shows "fst s' = fst s"
    "rv = Inr v \<Longrightarrow> mode \<in> {''simulate'', ''enforce''} \<Longrightarrow> \<exists>r. v = Some r \<and> revalidated broker intent event r"
  using assms
  by (auto simp: revalidate_stage_def revalidated_def on_world_def
      split: if_splits option.splits prod.splits provider_outcome.splits)

lemma judge_action_calls:
  "judge_action envs intent iid mode (watched_verifier verifier) rv now cap cd ar db s = (b, db', s') \<Longrightarrow> fst s' = fst s"
  by (auto simp: judge_action_def Let_def run_verification_def watched_verifier_def dest: on_world_fst
      split: if_splits prod.splits option.splits verifier.splits)

lemma watched_run:
  "ad_run (watched_adapter a) intent rq iid now s = (out, s') \<Longrightarrow> fst s' = fst s @ [(intent, rq, iid)]"
  by (auto simp: watched_adapter_def split: prod.splits)

lemma call_stage_calls:
  assumes "call_stage envs (watched_broker broker) intent iid mode rq (watched_verifier verifier) rv now cap cd db s = (b, db', s')"
  shows "fst s' = fst s \<or>
    (\<exists>db4. mark_execution_started (envs 6) iid now db = (Inr True, db4) \<and> store_reach db4 db' \<and>
       fst s' = fst s @ [(intent, rq, iid)])"
proof -
  obtain r1 db1 where m: "mark_execution_started (envs 6) iid now db = (r1, db1)" by force
  obtain out s1 where c: "ad_run (watched_adapter (ab_adapter broker)) intent rq iid now s = (out, s1)" by (meson surj_pair)
  show ?thesis
  proof (cases "r1 = Inr True")
    case False
    with assms m have "s' = s" by (auto simp: call_stage_def Let_def split: sum.splits prod.splits bool.splits)
    then show ?thesis by simp
  next
    case True
    with assms m c have "store_reach db1 db' \<and> fst s' = fst s1"
      by (auto simp: call_stage_def Let_def dest: give_back_reach judge_action_reach judge_action_calls
          split: prod.splits adapter_outcome.splits)
    with m True watched_run [OF c] show ?thesis by auto
  qed
qed

section \<open>The gates of a call\<close>

text \<open>What has been checked of an intent before the adapter is called.\<close>

definition gates_passed ::
  "coordinator_env \<Rightarrow> 'x action_broker \<Rightarrow> pydict \<Rightarrow> string \<Rightarrow> authorization option \<Rightarrow> rat \<Rightarrow> guardian_intent \<Rightarrow> bool" where
  "gates_passed ce broker event mode auth now intent \<longleftrightarrow>
     mode \<in> {''simulate'', ''enforce''} \<and> gi_action intent = ''graceful_stop'' \<and> now < gi_expires_at intent \<and>
     gi_policy_digest intent = ce_policy_sha ce (policy_payload (ab_policy broker)) \<and>
     (\<exists>plan. extract_plan event = Some plan \<and> dget plan ''plan_id'' = PStr (gi_plan_id intent)) \<and>
     dget (mapping_of (dget (mapping_of (dget event ''emergency_shedding'')) ''decision'')) ''resource_kind'' \<in>
       {PNone, PStr (gi_resource_kind intent)} \<and>
     check_entry (ce_iso_at ce) now (ab_policy broker) intent = None \<and>
     (\<exists>r. revalidated broker intent event r \<and> danger_confirmed (ce_rep ce) (gi_resource_kind intent) event (fr_event r) \<and>
        check_identity (ce_rep ce) intent (fr_registry r) = Inr None) \<and>
     (if mode = ''simulate'' then ad_fake (ab_adapter broker) else authorized (broker_request intent auth) now)"

text \<open>The failure breaker is closed and the cooldown ledger, as the store had it before the call, lets the action pass.\<close>

definition rate_limits_passed :: "sql_env \<Rightarrow> 'x action_broker \<Rightarrow> guardian_intent \<Rightarrow> rat \<Rightarrow> state_db \<Rightarrow> bool" where
  "rate_limits_passed env broker intent now db \<longleftrightarrow>
     failure_breaker env (gi_host_id intent) GLOBAL_COOLDOWN_OBJECT (gi_action intent) (ab_max_failures broker) db = Inr False \<and>
     fst (fst (ledger_allow now (ab_cooldown_seconds broker) (ab_max_actions broker) (ab_action_window broker)
       (ledger_view (gi_host_id intent, GLOBAL_COOLDOWN_OBJECT, gi_action intent) db)))"

text \<open>
  What the store holds when the adapter is called: the intent is started, its slot is taken, and an
  approval the broker manages itself, unspent in \<open>db\<close>, is spent.
\<close>

definition durable_at_call ::
  "'x action_broker \<Rightarrow> string \<Rightarrow> authorization option \<Rightarrow> guardian_intent \<Rightarrow> string \<Rightarrow> state_db \<Rightarrow> state_db \<Rightarrow> bool" where
  "durable_at_call broker mode auth intent iid db dbc \<longleftrightarrow>
     started dbc iid (gi_host_id intent) (gi_target_id intent) (gi_action intent) \<and>
     slot_held dbc (gi_host_id intent) (gi_action intent) iid \<and>
     (mode = ''enforce'' \<and> \<not> ad_managed (ab_adapter broker) \<longrightarrow>
        (\<exists>a. auth = Some a \<and> \<not> is_consumed db (approval_id a) \<and> is_consumed dbc (approval_id a)))"

lemma preflight_passed:
  assumes "preflight rep iso_at policy_sha policy intent event mode now registry risk_event = Inr None"
  shows "mode \<in> {''simulate'', ''enforce''} \<and> gi_action intent = ''graceful_stop'' \<and> now < gi_expires_at intent \<and>
    gi_policy_digest intent = policy_sha (policy_payload policy) \<and>
    (\<exists>plan. extract_plan event = Some plan \<and> dget plan ''plan_id'' = PStr (gi_plan_id intent)) \<and>
    dget (mapping_of (dget (mapping_of (dget event ''emergency_shedding'')) ''decision'')) ''resource_kind'' \<in>
      {PNone, PStr (gi_resource_kind intent)} \<and>
    danger_confirmed rep (gi_resource_kind intent) event (case risk_event of None \<Rightarrow> event | Some e \<Rightarrow> e) \<and>
    check_entry iso_at now policy intent = None \<and>
    check_identity rep intent (registry_of event registry) = Inr None"
  using assms by (auto simp: preflight_def Let_def split: if_splits option.splits)

lemma cooldown_passed:
  assumes "cooldown_stage envs broker intent now db = (Inr why, db')"
  shows "rate_limits_passed (envs 2) broker intent now db"
proof -
  let ?act = "allow_action (envs 3) (gi_host_id intent) GLOBAL_COOLDOWN_OBJECT (gi_action intent) now (ab_cooldown_seconds broker)
    (ab_max_actions broker) (ab_action_window broker) db"
  from assms have b: "failure_breaker (envs 2) (gi_host_id intent) GLOBAL_COOLDOWN_OBJECT (gi_action intent) (ab_max_failures broker) db = Inr False"
    and a: "?act = (Inr (True, why), db')"
    by (auto simp: cooldown_stage_def split: sum.splits bool.splits prod.splits if_splits)
  from a have "0 < ab_max_actions broker" by (auto simp: allow_action_def split: if_splits)
  from allow_action_view [OF a this] have "fst (fst (ledger_allow now (ab_cooldown_seconds broker) (ab_max_actions broker)
      (ab_action_window broker) (ledger_view (gi_host_id intent, GLOBAL_COOLDOWN_OBJECT, gi_action intent) db)))"
    by (metis fst_conv)
  with b show ?thesis by (simp add: rate_limits_passed_def)
qed

lemma rate_limits_cong:
  "action_ledger db' = action_ledger db \<Longrightarrow> rate_limits_passed env broker intent now db' = rate_limits_passed env broker intent now db"
  by (simp only: rate_limits_passed_def failure_breaker_def ledger_view_def)

lemma request_passed:
  "request_stage broker mode rq now why = Inr () \<Longrightarrow> mode \<in> {''simulate'', ''enforce''} \<Longrightarrow>
   if mode = ''simulate'' then ad_fake (ab_adapter broker) else authorized rq now"
  by (auto simp: request_stage_def Let_def validate_iff_authorized split: if_splits sum.splits action_denied.splits)

lemma slot_passed: "slot_stage envs intent iid now db = (Inr (), db') \<Longrightarrow> slot_held db' (gi_host_id intent) (gi_action intent) iid"
  by (auto simp: slot_stage_def dest: claim_slot_True split: sum.splits prod.splits bool.splits)

lemma capability_passed:
  assumes "capability_stage envs broker intent iid mode auth now why db = (Inr cap, db')"
  shows "action_slots db' = action_slots db"
    "mode = ''enforce'' \<and> \<not> ad_managed (ab_adapter broker) \<longrightarrow>
       (\<exists>a. auth = Some a \<and> \<not> is_consumed db (approval_id a) \<and> is_consumed db' (approval_id a))"
proof -
  note d = assms [unfolded capability_stage_def]
  have "db' = db \<or> (\<exists>a c. consume_capability (envs 5) a (gi_event_id intent) now db = (Inr c, db'))"
    using d by (auto split: if_splits option.splits sum.splits prod.splits)
  then show "action_slots db' = action_slots db" by (auto dest: consume_db)
  show "mode = ''enforce'' \<and> \<not> ad_managed (ab_adapter broker) \<longrightarrow>
       (\<exists>a. auth = Some a \<and> \<not> is_consumed db (approval_id a) \<and> is_consumed db' (approval_id a))"
    using d by (auto simp: is_consumed_def consume_row_def dest!: consume_allowed
        split: if_splits option.splits sum.splits prod.splits)
qed

lemma capabilities_frame:
  "cooldown_stage envs broker intent now db = (r, db') \<Longrightarrow> capabilities db' = capabilities db"
  "slot_stage envs intent iid now db = (r', db') \<Longrightarrow> capabilities db' = capabilities db"
  by (auto simp: cooldown_stage_def slot_stage_def dest!: allow_db claim_slot_db split: sum.splits prod.splits bool.splits)

lemma find_intent_cong: "intents db' = intents db \<Longrightarrow> find_intent db' iid = find_intent db iid"
  by (simp add: find_intent_def)

lemma is_consumed_cong: "capabilities db' = capabilities db \<Longrightarrow> is_consumed db' aid = is_consumed db aid"
  by (simp add: is_consumed_def)

lemma mark_started:
  assumes "mark_execution_started env iid now db = (Inr True, db')" "find_intent db iid = Some row" "intent_target row = (h, t, a)"
  shows "started db' iid h t a" "action_slots db' = action_slots db"
proof -
  from mark_True [OF assms(1)] assms(2,3) show "started db' iid h t a"
    by (auto simp: started_def find_intent_update intent_target_def)
  from slots_frame(4) [of env iid now db] assms(1) show "action_slots db' = action_slots db" by simp
qed

lemma slot_held_cong: "action_slots db' = action_slots db \<Longrightarrow> slot_held db' h a iid = slot_held db h a iid"
  by (simp add: slot_held_def)

lemma broker_calls:
  assumes e: "broker_execute (ce_rep ce) (ce_iso_at ce) (ce_policy_sha ce) envs (watched_broker broker) intent event iid mode auth now
      (watched_verifier verifier) registry db s = (b, db', s')"
    and row: "find_intent db iid = Some row" "intent_target row = (gi_host_id intent, gi_target_id intent, gi_action intent)"
  shows "fst s' = fst s \<or>
    (\<exists>dbc. fst s' = fst s @ [(intent, broker_request intent auth, iid)] \<and> gates_passed ce broker event mode auth now intent \<and>
       rate_limits_passed (envs 2) broker intent now db \<and>
       durable_at_call broker mode auth intent iid db dbc \<and> store_reach db dbc \<and> store_reach dbc db')"
  using e
proof (cases rule: broker_shape)
  case (stopped rv)
  with revalidate_stage_calls(1) show ?thesis by blast
next
  case (reached rv s1 why db1 db2 cap db3)
  note calls = revalidate_stage_calls [OF reached(1)]
  note reach = cooldown_stage_reach [OF reached(3)] slot_stage_reach [OF reached(5)] capability_stage_reach [OF reached(6)]
  note pre = preflight_passed [OF reached(2)]
  then obtain r where r: "rv = Some r" "revalidated broker intent event r" using calls(2) by blast
  from call_stage_calls [OF reached(7)] show ?thesis
  proof
    assume "\<exists>db4. mark_execution_started (envs 6) iid now db3 = (Inr True, db4) \<and> store_reach db4 db' \<and>
       fst s' = fst s1 @ [(intent, broker_request intent auth, iid)]"
    then obtain dbc where c: "mark_execution_started (envs 6) iid now db3 = (Inr True, dbc)" "store_reach dbc db'"
      "fst s' = fst s @ [(intent, broker_request intent auth, iid)]" using calls(1) by auto
    have "find_intent db3 iid = Some row"
      using row(1) stage_intents(1) [OF reached(3)] stage_intents(2) [OF reached(5)] stage_intents(3) [OF reached(6)]
      by (simp add: find_intent_def)
    note st = mark_started [OF c(1) this row(2)]
    have "slot_held dbc (gi_host_id intent) (gi_action intent) iid"
      using slot_passed [OF reached(5)] capability_passed(1) [OF reached(6)] st(2) slot_held_cong by metis
    moreover have "mode = ''enforce'' \<and> \<not> ad_managed (ab_adapter broker) \<longrightarrow>
        (\<exists>a. auth = Some a \<and> \<not> is_consumed db (approval_id a) \<and> is_consumed dbc (approval_id a))"
      using capability_passed(2) [OF reached(6)] capabilities_frame(1) [OF reached(3)] capabilities_frame(2) [OF reached(5)]
        store_reach_consumed [OF store_reach_ops(4) [OF c(1)]] is_consumed_cong by (metis watched_simps(2,5))
    ultimately have "durable_at_call broker mode auth intent iid db dbc"
      using st(1) by (simp add: durable_at_call_def)
    moreover have "store_reach db dbc"
      using reach store_reach_ops(4) [OF c(1)] by (blast intro: store_reach_trans)
    moreover have "gates_passed ce broker event mode auth now intent"
      using pre r request_passed [OF reached(4)] unfolding gates_passed_def registry_of_def watched_simps r(1) option.case option.map by blast
    moreover have "rate_limits_passed (envs 2) broker intent now db"
      using cooldown_passed [OF reached(3)] by (simp add: rate_limits_passed_def watched_broker_def)
    ultimately show ?thesis using c by blast
  qed (use calls(1) in simp)
qed

section \<open>The shape of \<open>process\<close>\<close>

lemma claim_stage_passed:
  assumes "claim_stage envs event intent now base db = (Inr iid, db')"
  shows "gi_idempotency_key intent \<notin> int_key ` set (intents db)" "gi_idempotency_key intent \<in> int_key ` set (intents db')"
    "\<exists>row. find_intent db' iid = Some row \<and> intent_target row = (gi_host_id intent, gi_target_id intent, gi_action intent)"
    "unfinished db' iid" "capabilities db' = capabilities db" "action_ledger db' = action_ledger db"
proof -
  from assms obtain claim where c: "claim_intent (envs 1) (gi_host_id intent) (gi_target_id intent) (gi_action intent)
      (gi_event_id intent) (intent_audit_payload event intent) now db = (Inr claim, db')" "ic_claimed claim"
    and k: "ic_key claim = gi_idempotency_key intent" "iid = ic_intent_id claim"
    by (auto simp: claim_stage_def split: sum.splits prod.splits if_splits)
  let ?new = "new_intent (envs 1) (gi_host_id intent) (gi_target_id intent) (gi_action intent) (gi_event_id intent) now"
  from claim_claimed [OF c] k obtain x where
    id: "iid = uuid4 (envs 1)" "gi_idempotency_key intent = int_key ?new" "iid \<notin> int_id ` set (intents db)" and
    key: "gi_idempotency_key intent \<notin> int_key ` set (intents db)" and
    db': "db' = db\<lparr>intents := intents db @ [?new], audit_records := audit_records db @ [x]\<rparr>"
    by auto
  show "gi_idempotency_key intent \<notin> int_key ` set (intents db)" by (rule key)
  show "gi_idempotency_key intent \<in> int_key ` set (intents db')" "capabilities db' = capabilities db" "action_ledger db' = action_ledger db"
    using id db' by auto
  show "unfinished db' iid"
    using id db' by (auto simp: unfinished_def is_active_def ACTIVE_INTENT_STATES_def)
  have "find_intent db' iid = Some ?new"
    unfolding db' id(1) find_intent_audit2 using id(1,3) by (intro find_intent_new) simp
  then show "\<exists>row. find_intent db' iid = Some row \<and>
      intent_target row = (gi_host_id intent, gi_target_id intent, gi_action intent)" by simp
qed

lemma claim_stage_reach: "claim_stage envs event intent now base db = (r, db') \<Longrightarrow> store_reach db db'"
proof -
  have rec: "store_reach d (snd (record_result env iid p ok ex now d))" for env iid p ok ex d
    by (rule store_reach_ops(5)) (rule prod.collapse [symmetric])
  assume "claim_stage envs event intent now base db = (r, db')"
  then show ?thesis
    by (auto simp: claim_stage_def dest!: store_reach_ops(3) intro: store_reach_trans rec
        split: sum.splits prod.splits if_splits)
qed

lemma settle_reach: "settle envs broker intent iid mode now b base db = (r, db') \<Longrightarrow> store_reach db db'"
  by (auto simp: settle_def refusal_stage_def simulation_stage_def executed_stage_def Let_def
      dest!: store_reach_ops store_reach_slot_ops intro: store_reach_trans
      split: if_splits option.splits sum.splits prod.splits bool.splits)

lemma settle_keeps:
  "settle envs broker intent iid mode now b base db = (r, db') \<Longrightarrow>
   pr_notification r = pr_notification base \<and> pr_broker r = pr_broker base \<and> pr_intent_id r = pr_intent_id base \<and>
   pr_intent r = pr_intent base"
  by (auto simp: settle_def refusal_stage_def simulation_stage_def executed_stage_def Let_def
      split: if_splits option.splits sum.splits prod.splits bool.splits)

lemma claim_stage_keeps:
  "claim_stage envs event intent now base db = (Inl r, db') \<Longrightarrow> pr_notification r = pr_notification base \<and> pr_broker r = pr_broker base"
  by (auto simp: claim_stage_def split: sum.splits prod.splits if_splits)

lemma notify_stage_queued:
  "notify_stage ce env args mode event_id event ob = (Inr notification, ob') \<Longrightarrow>
   if str_in (dget event ''state'') NOTIFIABLE_STATES then \<exists>n. notification = Some n \<and> or_status n = ''queued''
   else notification = None"
  by (auto simp: notify_stage_def Let_def split: if_splits sum.splits prod.splits)

text \<open>The event's runtime gate does not forbid an action.\<close>

definition gate_open :: "pydict \<Rightarrow> bool" where
  "gate_open event \<longleftrightarrow>
     dget (mapping_of (dget (mapping_of (dget event ''evidence'')) ''runtime_gate'')) ''execution_allowed'' \<noteq> PBool False"

lemma map_sum_Inr: "map_sum f g x = Inr r \<longleftrightarrow> (\<exists>y. x = Inr y \<and> r = g y)"
  by (cases x) auto

text \<open>Nothing has changed but the outbox, which the notification stage left as it is now.\<close>

definition only_notified ::
  "coordinator_env \<Rightarrow> (nat \<Rightarrow> sql_env) \<Rightarrow> pyval \<Rightarrow> 'x process_args \<Rightarrow> 'x coordinator_state \<Rightarrow> 'x coordinator_state \<Rightarrow> bool" where
  "only_notified ce envs event args s s' \<longleftrightarrow>
     s' = s \<or>
     (\<exists>ev mode event_id n ob. event = PDict ev \<and> notify_stage ce (envs 0) args mode event_id ev (gs_outbox s) = (n, ob) \<and>
        s' = s\<lparr>gs_outbox := ob\<rparr>)"

lemma only_notified_same [simp]: "only_notified ce envs event args s s"
  by (simp add: only_notified_def)

lemma only_notified_outbox:
  "notify_stage ce (envs 0) args mode event_id ev (gs_outbox s) = (n, ob) \<Longrightarrow> only_notified ce envs (PDict ev) args s (s\<lparr>gs_outbox := ob\<rparr>)"
  unfolding only_notified_def by blast

lemma process_shape:
  assumes "process ce envs gc event args s = (out, s')"
  obtains (idle) "gs_store s' = gs_store s" "gs_world s' = gs_world s" "gs_pending s' = gs_pending s"
      "\<And>r. out = Inr r \<Longrightarrow> pr_broker r = None" "only_notified ce envs event args s s'"
  | (acting) ev mode notification ob intent base r where
      "event = PDict ev" "mode \<in> {''simulate'', ''enforce''}" "mode = (case pa_mode args of None \<Rightarrow> gc_default_mode gc | Some m \<Rightarrow> m)"
      "notify_stage ce (envs 0) args mode (py_str (ce_rep ce) (py_or (dget ev ''event_id'') (PStr []))) ev (gs_outbox s) =
         (Inr notification, ob)"
      "gate_open ev" "gs_pending s = []"
      "action_intent_from_event (ce_rep ce) (ce_iso_at ce) (ce_sha ce)
         (Some (ce_policy_sha ce (policy_payload (ab_policy (gc_broker gc))))) (pa_issued args) (gc_plan_ttl gc) event = Inr intent"
      "pr_notification base = notification" "pr_broker base = None" "pr_intent base = Some intent" "out = Inr r"
      "act_on_intent ce envs (gc_broker gc) ev intent mode args base (s\<lparr>gs_outbox := ob\<rparr>) = (r, s')"
      "pr_execution base = ''NOT_EXECUTED''"
proof (cases "is_dict event")
  case True
  then obtain ev where PDict: "event = PDict ev" by (cases event) simp_all
  define mode where "mode = (case pa_mode args of None \<Rightarrow> gc_default_mode gc | Some m \<Rightarrow> m)"
  define event_id where "event_id = py_str (ce_rep ce) (py_or (dget ev ''event_id'') (PStr []))"
  note d = assms [unfolded process_def PDict pyval.case Let_def, folded mode_def event_id_def]
  obtain n ob where n: "notify_stage ce (envs 0) args mode event_id ev (gs_outbox s) = (n, ob)" by force
  have refused: "n = Inl r \<Longrightarrow> pr_broker r = None" for r
    using n by (auto simp: notify_stage_def process_reply_def Let_def split: if_splits sum.splits prod.splits)
  let ?intent = "action_intent_from_event (ce_rep ce) (ce_iso_at ce) (ce_sha ce)
         (Some (ce_policy_sha ce (policy_payload (ab_policy (gc_broker gc))))) (pa_issued args) (gc_plan_ttl gc) event"
  note d = d [unfolded n prod.case, folded PDict]
  note told' = only_notified_outbox [where envs = envs and s = s, OF n, folded PDict]
  have modes: "mode \<in> set SUPPORTED_MODES \<longleftrightarrow> mode = ''observe'' \<or> mode \<in> {''simulate'', ''enforce''}"
    by (auto simp: SUPPORTED_MODES_def)
  consider (mode) "mode \<notin> set SUPPORTED_MODES"
    | (told) r where "mode \<in> set SUPPORTED_MODES" "n = Inl r"
    | (observe) notification where "mode = ''observe''" "n = Inr notification"
    | (closed) notification where "mode \<noteq> ''observe''" "mode \<in> set SUPPORTED_MODES" "n = Inr notification" "\<not> gate_open ev"
    | (pending) notification where "mode \<noteq> ''observe''" "mode \<in> set SUPPORTED_MODES" "n = Inr notification" "gate_open ev" "gs_pending s \<noteq> []"
    | (refused) notification e where "mode \<noteq> ''observe''" "mode \<in> set SUPPORTED_MODES" "n = Inr notification" "gate_open ev" "gs_pending s = []"
        "?intent = Inl e"
    | (act) notification intent where "mode \<noteq> ''observe''" "mode \<in> set SUPPORTED_MODES" "n = Inr notification" "gate_open ev" "gs_pending s = []"
        "?intent = Inr intent"
    using modes by (cases n; cases ?intent) blast+
  then show thesis
  proof cases
    case mode
    with d show thesis by (intro idle) (auto simp: process_reply_def)
  next
    case told
    with d refused told' show thesis by (intro idle) auto
  next
    case observe
    with d modes told' show thesis by (intro idle) (auto simp: process_reply_def)
  next
    case closed
    with d told' show thesis by (intro idle) (auto simp: process_reply_def gate_open_def map_sum_Inr)
  next
    case pending
    with d told' show thesis by (intro idle) (auto simp: process_reply_def gate_open_def)
  next
    case refused
    with d told' show thesis by (intro idle) (auto simp: process_reply_def gate_open_def)
  next
    case (act notification intent)
    let ?base = "(process_reply mode ''denied'' event_id [])\<lparr>pr_notification := notification, pr_intent := Some intent\<rparr>"
    obtain r s2 where a: "act_on_intent ce envs (gc_broker gc) ev intent mode args ?base (s\<lparr>gs_outbox := ob\<rparr>) = (r, s2)" by force
    with d act have "out = Inr r" "s2 = s'" by (simp_all add: gate_open_def)
    with PDict act n a modes show thesis
      by (intro acting [of ev mode notification ob intent ?base r]) (auto simp: mode_def event_id_def process_reply_def)
  qed
next
  case False
  with assms have "out = Inr (process_reply ''observe'' ''denied'' [] [''event_mapping_required''])" "s' = s"
    by (cases event; simp add: process_def)+
  then show thesis by (intro idle) (auto simp: process_reply_def)
qed

lemma act_on_intent_keeps:
  assumes "act_on_intent ce envs broker ev intent mode args base s = (r, s')"
  shows "pr_notification r = pr_notification base"
  using assms by (auto simp: act_on_intent_def dest: claim_stage_keeps settle_keeps split: sum.splits prod.splits)

lemma store_reach_keys: "store_reach db db' \<Longrightarrow> int_key ` set (intents db) \<subseteq> int_key ` set (intents db')"
proof -
  have "int_key ` set (intents db) \<subseteq> int_key ` set (intents (exec_all store_step db ops))" for ops
    by (induction ops arbitrary: db) (simp_all, meson store_effect_keys store_step_effect subset_trans)
  then show "store_reach db db' \<Longrightarrow> int_key ` set (intents db) \<subseteq> int_key ` set (intents db')"
    by (auto simp: store_reach_def)
qed

section \<open>One call of \<open>process\<close>\<close>

lemma act_on_intent_calls:
  assumes a: "act_on_intent ce envs (watched_broker broker) ev intent mode (watched_args args) base s = (r, s')"
  shows "fst (gs_world s') = fst (gs_world s) \<or>
    (\<exists>iid dbc. fst (gs_world s') = fst (gs_world s) @ [(intent, broker_request intent (pa_authorization args), iid)] \<and>
       gates_passed ce broker ev mode (pa_authorization args) (pa_now args) intent \<and>
       rate_limits_passed (envs 2) broker intent (pa_now args) (gs_store s) \<and>
       durable_at_call broker mode (pa_authorization args) intent iid (gs_store s) dbc \<and>
       store_reach (gs_store s) dbc \<and> store_reach dbc (gs_store s') \<and>
       gi_idempotency_key intent \<notin> int_key ` set (intents (gs_store s)) \<and>
       gi_idempotency_key intent \<in> int_key ` set (intents (gs_store s')))"
proof -
  obtain c db1 where cl: "claim_stage envs ev intent (pa_now args) base (gs_store s) = (c, db1)" by force
  show ?thesis
  proof (cases c)
    case (Inl x)
    with a cl show ?thesis by (auto simp: act_on_intent_def)
  next
    case (Inr iid)
    note claim = claim_stage_passed [OF cl [unfolded Inr]]
    obtain b db2 x where b: "broker_execute (ce_rep ce) (ce_iso_at ce) (ce_policy_sha ce) envs (watched_broker broker) intent ev iid mode
        (pa_authorization args) (pa_now args) (watched_verifier (pa_verifier args)) (pa_registry (watched_args args)) db1 (gs_world s) = (b, db2, x)"
      by (metis surj_pair)
    obtain r' db3 where st: "settle envs (watched_broker broker) intent iid mode (pa_now args) b
        (base\<lparr>pr_intent_id := Some iid, pr_broker := Some b\<rparr>) db2 = (r', db3)" by force
    have s': "gs_world s' = x" "gs_store s' = db3" using a cl Inr b st by (auto simp: act_on_intent_def)
    have reach: "store_reach (gs_store s) db1" "store_reach db2 db3"
      using claim_stage_reach [OF cl] settle_reach [OF st] by auto
    from claim(3) obtain row where "find_intent db1 iid = Some row"
      "intent_target row = (gi_host_id intent, gi_target_id intent, gi_action intent)" by blast
    from broker_calls [OF b this] show ?thesis
    proof
      assume "\<exists>dbc. fst x = fst (gs_world s) @ [(intent, broker_request intent (pa_authorization args), iid)] \<and>
          gates_passed ce broker ev mode (pa_authorization args) (pa_now args) intent \<and>
          rate_limits_passed (envs 2) broker intent (pa_now args) db1 \<and>
          durable_at_call broker mode (pa_authorization args) intent iid db1 dbc \<and> store_reach db1 dbc \<and> store_reach dbc db2"
      then obtain dbc where d: "fst x = fst (gs_world s) @ [(intent, broker_request intent (pa_authorization args), iid)]"
        "gates_passed ce broker ev mode (pa_authorization args) (pa_now args) intent"
        "durable_at_call broker mode (pa_authorization args) intent iid db1 dbc" "store_reach db1 dbc" "store_reach dbc db2"
        "rate_limits_passed (envs 2) broker intent (pa_now args) (gs_store s)"
        using rate_limits_cong [OF claim(6)] by blast
      have "durable_at_call broker mode (pa_authorization args) intent iid (gs_store s) dbc"
        using d(3) is_consumed_cong [OF claim(5)] by (auto simp: durable_at_call_def)
      moreover have "store_reach (gs_store s) dbc" "store_reach dbc db3"
        using d reach by (blast intro: store_reach_trans)+
      moreover have "gi_idempotency_key intent \<in> int_key ` set (intents db3)"
        using store_reach_keys [of db1 db3] claim(2) d reach by (blast intro: store_reach_trans)
      ultimately show ?thesis using d(1,2,6) claim(1) s' by blast
    qed (use s' in simp)
  qed
qed

text \<open>
  C8.  One call of \<open>process\<close>, whatever the event, the arguments, the SQL failures, the observations and the
  adapter, calls the adapter at most once.  When it does, no reconciliation is pending and the
  event's runtime gate is open, the call carries the intent made from the event, the notification
  of a notifiable event is queued, the plan of the event is the plan of the intent, the fresh observation has confirmed
  the target and the danger, the policy allows it and lists it as actionable and not as protected, the failure breaker
  is closed and the cooldown lets the action pass, and in the store the intent is started
  and holds the action slot; a simulation meets a fake adapter only, an enforced call carries a
  valid approval, which a broker without its own capability handling has spent for it.
\<close>

theorem adapter_call_guarded:
  "case process ce envs (watched gc) event (watched_args args) s of (out, s') \<Rightarrow>
     fst (gs_world s') = fst (gs_world s) \<or>
     (\<exists>ev mode intent iid dbc r. event = PDict ev \<and> out = Inr r \<and>
        fst (gs_world s') = fst (gs_world s) @ [(intent, broker_request intent (pa_authorization args), iid)] \<and>
        action_intent_from_event (ce_rep ce) (ce_iso_at ce) (ce_sha ce)
          (Some (ce_policy_sha ce (policy_payload (ab_policy (gc_broker gc))))) (pa_issued args) (gc_plan_ttl gc) event = Inr intent \<and>
        gs_pending s = [] \<and> gate_open ev \<and>
        (if str_in (dget ev ''state'') NOTIFIABLE_STATES
         then \<exists>n. pr_notification r = Some n \<and> or_status n = ''queued'' else pr_notification r = None) \<and>
        mode = (case pa_mode args of None \<Rightarrow> gc_default_mode gc | Some m \<Rightarrow> m) \<and>
        gates_passed ce (gc_broker gc) ev mode (pa_authorization args) (pa_now args) intent \<and>
        rate_limits_passed (envs 2) (gc_broker gc) intent (pa_now args) (gs_store s) \<and>
        durable_at_call (gc_broker gc) mode (pa_authorization args) intent iid (gs_store s) dbc \<and>
        store_reach (gs_store s) dbc \<and> store_reach dbc (gs_store s'))"
proof -
  obtain out s' where p: "process ce envs (watched gc) event (watched_args args) s = (out, s')" by force
  then show ?thesis
  proof (cases rule: process_shape)
    case idle
    with p show ?thesis by simp
  next
    case (acting ev mode notification ob intent base r)
    have "if str_in (dget ev ''state'') NOTIFIABLE_STATES
         then \<exists>n. pr_notification r = Some n \<and> or_status n = ''queued'' else pr_notification r = None"
      using notify_stage_queued [OF acting(4)] act_on_intent_keeps [OF acting(12)] acting(8) by simp
    moreover have "mode = (case pa_mode args of None \<Rightarrow> gc_default_mode gc | Some m \<Rightarrow> m)"
      using acting(3) by (simp split: option.splits)
    moreover note act_on_intent_calls [OF acting(12) [unfolded watched_simps]]
    ultimately show ?thesis using p acting(1,5,6,7,11) by (simp add: watched_args_def watched_def) blast
  qed
qed

section \<open>Runs and restarts\<close>

text \<open>
  A run of coordinators on one store: calls of \<open>process\<close>, registrations of approvals, and restarts,
  each with its own configuration.  A constructor that fails leaves no new coordinator.
\<close>

datatype 'x coordinator_op =
    Process "nat \<Rightarrow> sql_env" "'x coordinator" pyval "'x process_args"
  | RegisterApproval sql_env authorization
  | Restart sql_env rat "'x coordinator"

fun coordinator_step :: "coordinator_env \<Rightarrow> 'x coordinator_state \<Rightarrow> 'x coordinator_op \<Rightarrow> 'x coordinator_state" where
  "coordinator_step ce s (Process envs gc event args) = snd (process ce envs gc event args s)"
| "coordinator_step ce s (RegisterApproval env a) = s\<lparr>gs_store := snd (register_capability env a (gs_store s))\<rparr>"
| "coordinator_step ce s (Restart env now gc) =
     (case make_coordinator env now (gc_default_mode gc) (gc_plan_ttl gc) (gc_broker gc) (gs_store s) of
        (Inl _, db) \<Rightarrow> s\<lparr>gs_store := db\<rparr>
      | (Inr (_, items), db) \<Rightarrow> s\<lparr>gs_store := db, gs_pending := items\<rparr>)"

lemma broker_execute_reach:
  assumes "broker_execute rep iso_at policy_sha envs broker intent event iid mode auth now verifier registry db x = (b, db', x')"
  shows "store_reach db db'" "unfinished db i \<Longrightarrow> unfinished db' i"
proof -
  have "store_reach db db' \<and> (unfinished db i \<longrightarrow> unfinished db' i)"
    using assms
  proof (cases rule: broker_shape)
    case stopped
    then show ?thesis by (simp add: unfinished_def)
  next
    case (reached rv x1 why db1 db2 cap db3)
    have "unfinished db i \<longrightarrow> unfinished db3 i"
      using stage_intents(1) [OF reached(3)] stage_intents(2) [OF reached(5)] stage_intents(3) [OF reached(6)]
      by (simp add: unfinished_def)
    moreover have "store_reach db db3"
      using cooldown_stage_reach [OF reached(3)] slot_stage_reach [OF reached(5)] capability_stage_reach [OF reached(6)]
      by (blast intro: store_reach_trans)
    ultimately show ?thesis
      using call_stage_reach [OF reached(7)] call_stage_unfinished [OF reached(7)] by (blast intro: store_reach_trans)
  qed
  then show "store_reach db db'" "unfinished db i \<Longrightarrow> unfinished db' i" by auto
qed

lemma act_on_intent_reach:
  assumes "act_on_intent ce envs broker ev intent mode args base s = (r, s')"
  shows "store_reach (gs_store s) (gs_store s')"
  using assms
  by (auto simp: act_on_intent_def dest!: claim_stage_reach broker_execute_reach(1) settle_reach intro: store_reach_trans
      split: sum.splits prod.splits)

lemma process_reach: "process ce envs gc event args s = (out, s') \<Longrightarrow> store_reach (gs_store s) (gs_store s')"
  by (cases rule: process_shape, assumption) (auto dest: act_on_intent_reach)

lemma step_reach: "store_reach (gs_store s) (gs_store (coordinator_step ce s x))"
proof (cases x)
  case (Process envs gc event args)
  then show ?thesis using process_reach [OF prod.collapse [symmetric]] by simp
next
  case (RegisterApproval env a)
  then show ?thesis by (simp add: store_reach_ops(1) [OF prod.collapse [symmetric]])
next
  case (Restart env now gc)
  then show ?thesis by (auto simp: make_coordinator_def dest: store_reach_slot_ops(3) split: prod.splits sum.splits if_splits)
qed

fun watched_op :: "'x coordinator_op \<Rightarrow> (adapter_call list \<times> 'x) coordinator_op" where
  "watched_op (Process envs gc event args) = Process envs (watched gc) event (watched_args args)"
| "watched_op (RegisterApproval env a) = RegisterApproval env a"
| "watched_op (Restart env now gc) = Restart env now (watched gc)"

definition watched_step ::
  "coordinator_env \<Rightarrow> (adapter_call list \<times> 'x) coordinator_state \<Rightarrow> 'x coordinator_op \<Rightarrow> (adapter_call list \<times> 'x) coordinator_state" where
  "watched_step ce s x = coordinator_step ce s (watched_op x)"

definition calls_of :: "(adapter_call list \<times> 'x) coordinator_state \<Rightarrow> adapter_call list" where
  "calls_of s = fst (gs_world s)"

definition call_key :: "adapter_call \<Rightarrow> string" where
  "call_key c = gi_idempotency_key (fst c)"

definition acted_key :: "coordinator_env \<Rightarrow> (adapter_call list \<times> 'x) coordinator_state \<Rightarrow> 'x coordinator_op \<Rightarrow> string option" where
  "acted_key ce s x =
     (if calls_of (watched_step ce s x) = calls_of s then None else Some (call_key (last (calls_of (watched_step ce s x)))))"

text \<open>The host, target, action and event of a call.\<close>

definition call_subject :: "adapter_call \<Rightarrow> string \<times> string \<times> string \<times> string" where
  "call_subject c = (gi_host_id (fst c), gi_target_id (fst c), gi_action (fst c), gi_event_id (fst c))"

definition keyed :: "coordinator_env \<Rightarrow> adapter_call \<Rightarrow> bool" where
  "keyed ce c = (case call_subject c of (host, target, action, event) \<Rightarrow> call_key c = intent_key (ce_sha ce) host target action event)"

lemma intent_keyed:
  "action_intent_from_event rep iso_at sha expected issued ttl event = Inr intent \<Longrightarrow>
   gi_idempotency_key intent = intent_key sha (gi_host_id intent) (gi_target_id intent) (gi_action intent) (gi_event_id intent)"
  by (auto simp: action_intent_from_event_def sum_bind_Inr Let_def split: pyval.splits option.splits)

lemma watched_step_calls:
  "calls_of (watched_step ce s x) = calls_of s \<or>
   (\<exists>c. calls_of (watched_step ce s x) = calls_of s @ [c] \<and> keyed ce c \<and> call_key c \<notin> int_key ` set (intents (gs_store s)) \<and>
      call_key c \<in> int_key ` set (intents (gs_store (watched_step ce s x))))"
proof (cases x)
  case (Process envs gc event args)
  obtain out s' where p: "process ce envs (watched gc) event (watched_args args) s = (out, s')" by force
  then have s': "watched_step ce s x = s'" by (simp add: watched_step_def Process)
  from p show ?thesis
  proof (cases rule: process_shape)
    case idle
    then show ?thesis by (simp add: calls_of_def s')
  next
    case (acting ev mode notification ob intent base r)
    from act_on_intent_calls [OF acting(12) [unfolded watched_simps]] intent_keyed [OF acting(7)] show ?thesis
      by (auto simp: calls_of_def s' keyed_def call_key_def call_subject_def)
  qed
next
  case (Restart env now gc)
  then show ?thesis by (auto simp: watched_step_def calls_of_def split: prod.splits sum.splits)
qed (simp add: watched_step_def calls_of_def)

lemma watched_step_keys: "k \<in> int_key ` set (intents (gs_store s)) \<Longrightarrow> k \<in> int_key ` set (intents (gs_store (watched_step ce s x)))"
  unfolding watched_step_def by (rule subsetD [OF store_reach_keys [OF step_reach]])

interpretation acting: one_shot "watched_step ce" "acted_key ce" "\<lambda>s k. k \<in> int_key ` set (intents (gs_store s))" for ce
proof unfold_locales
  fix s :: "(adapter_call list \<times> 'x) coordinator_state" and x k
  assume "acted_key ce s x = Some k"
  with watched_step_calls [of ce s x]
  show "k \<notin> int_key ` set (intents (gs_store s))" "k \<in> int_key ` set (intents (gs_store (watched_step ce s x)))"
    by (auto simp: acted_key_def split: if_splits)
qed (rule watched_step_keys)

lemma acted_keys:
  "map call_key (calls_of (exec_all (watched_step ce) s ops)) = map call_key (calls_of s) @ granted (watched_step ce) (acted_key ce) s ops"
proof (induction ops arbitrary: s)
  case (Cons x ops)
  from watched_step_calls [of ce s x] Cons show ?case by (auto simp: acted_key_def)
qed simp

lemma acted_keyed: "list_all (keyed ce) (calls_of s) \<Longrightarrow> list_all (keyed ce) (calls_of (exec_all (watched_step ce) s ops))"
proof (induction ops arbitrary: s)
  case (Cons x ops)
  from watched_step_calls [of ce s x] Cons.prems have "list_all (keyed ce) (calls_of (watched_step ce s x))" by auto
  with Cons.IH show ?case by simp
qed simp

text \<open>
  C9.  Over any sequence of \<open>process\<close> calls, registrations and restarts on one store, with any
  configurations, SQL failures and outcomes of the adapter, no two adapter calls are for the same
  host, target, action and event: a replayed event never acts again.
\<close>

theorem event_acts_once:
  "distinct (map call_subject (calls_of (exec_all (watched_step ce) (s\<lparr>gs_world := ([], x)\<rparr>) ops)))"
proof -
  let ?calls = "calls_of (exec_all (watched_step ce) (s\<lparr>gs_world := ([], x)\<rparr>) ops)"
  have none: "calls_of (s\<lparr>gs_world := ([], x)\<rparr>) = []" by (simp add: calls_of_def)
  have "distinct (map call_key ?calls)"
    using acted_keys [of ce "s\<lparr>gs_world := ([], x)\<rparr>" ops] acting.granted_once none by simp
  moreover have "call_key c = (case call_subject c of (h, t, a, e) \<Rightarrow> intent_key (ce_sha ce) h t a e)" if "c \<in> set ?calls" for c
    using acted_keyed [of ce "s\<lparr>gs_world := ([], x)\<rparr>" ops] none that by (simp add: list_all_iff keyed_def split: prod.splits)
  ultimately show ?thesis by (auto simp: distinct_map inj_on_def)
qed

end
