(* ===== verification/Guardian_Sampler_Laws.thy ===== *)
theory Guardian_Sampler_Laws
  imports Guardian_Sampler Guardian_Coordinator_Laws
begin

text \<open>What an event of the observer promises to the coordinator.\<close>

section \<open>Dictionaries\<close>

lemma dict_get_set [simp]: "dget (dset d k v) k' = (if k' = k then v else dget d k')"
  by (induction d) (auto simp: dget_def)

lemma dget_update_at [simp]: "dget (update_at k f d) k' = (if k' = k then PDict (f (mapping_of (dget d k))) else dget d k')"
  by (simp add: update_at_def)

lemma dget_add_code [simp]: "dget (add_code k c d) k' = (if k' = k then PList (list_value (dget d k) @ [PStr c]) else dget d k')"
  by (simp add: add_code_def)

section \<open>Closing the gate\<close>

definition gate_of :: "pydict \<Rightarrow> pydict" where
  "gate_of event = mapping_of (dget (mapping_of (dget event ''evidence'')) ''runtime_gate'')"

definition gate_closed :: "pydict \<Rightarrow> bool" where
  "gate_closed event \<longleftrightarrow> dget (gate_of event) ''execution_allowed'' = PBool False"

definition escalated :: "pydict \<Rightarrow> bool" where
  "escalated event \<longleftrightarrow> dget (mapping_of (dget event ''decision'')) ''action'' = PStr ''escalate'' \<and>
     dget (mapping_of (dget event ''decision'')) ''execution'' = PStr ''not_executed''"

lemmas gate_defs = gate_closed_def gate_of_def escalated_def

lemma stages_keep_closed:
  assumes "gate_closed event \<and> escalated event"
  shows "gate_closed (snapshot_stage emergency he event) \<and> escalated (snapshot_stage emergency he event)"
    "gate_closed (audit_stage emergency he event) \<and> escalated (audit_stage emergency he event)"
    "gate_closed (dedupe_gate event) \<and> escalated (dedupe_gate event)"
    "gate_closed (mirrored emergency event) \<and> escalated (mirrored emergency event)"
  using assms
  by (auto simp: gate_defs snapshot_stage_def audit_stage_def dedupe_gate_def mirrored_def close_gate_def block_decision_def
      split: option.splits)

lemma watchdog_closes:
  "he_socket he \<Longrightarrow> \<not> he_sent he \<Longrightarrow> gate_closed (watchdog_stage he event) \<and> escalated (watchdog_stage he event)"
  by (auto simp: gate_defs watchdog_stage_def systemd_notification_status_def record_watchdog_status_def close_gate_def block_decision_def Let_def)

lemma snapshot_closes:
  assumes "he_snapshot he = Some writer" "he_snapshot_all he \<or> str_in (dget event ''state'') SNAPSHOT_STATES" "writer (mirrored emergency event) = None"
  shows "gate_closed (snapshot_stage emergency he event) \<and> escalated (snapshot_stage emergency he event)"
  using assms by (auto simp: gate_defs snapshot_stage_def close_gate_def block_decision_def)

lemma audit_closes:
  assumes "he_audit he = Some writer" "\<not> writer (persisted_event he (mirrored emergency event))"
  shows "gate_closed (audit_stage emergency he event) \<and> escalated (audit_stage emergency he event)"
  using assms by (auto simp: gate_defs audit_stage_def close_gate_def block_decision_def)

lemma stages_keep_state [simp]:
  "dget (watchdog_stage he event) ''state'' = dget event ''state''" "dget (with_gate event) ''state'' = dget event ''state''"
  "dget (snapshot_stage emergency he event) ''state'' = dget event ''state''" "dget (audit_stage emergency he event) ''state'' = dget event ''state''"
  "dget (dedupe_gate event) ''state'' = dget event ''state''" "dget (mirrored emergency event) ''state'' = dget event ''state''"
  by (simp_all add: watchdog_stage_def record_watchdog_status_def with_gate_def snapshot_stage_def audit_stage_def dedupe_gate_def mirrored_def
      close_gate_def block_decision_def Let_def split: option.splits)

text \<open>The event before the snapshot, and before the audit line.\<close>

definition health_checked :: "health_env \<Rightarrow> pydict \<Rightarrow> pydict" where
  "health_checked he event = watchdog_stage he (with_gate event)"

definition evidence_complete :: "bool \<Rightarrow> health_env \<Rightarrow> pydict \<Rightarrow> bool" where
  "evidence_complete emergency he event \<longleftrightarrow>
     systemd_notification_status (he_socket he) (he_sent he) \<noteq> ''failed'' \<and>
     (case he_snapshot he of
        None \<Rightarrow> True
      | Some writer \<Rightarrow> (he_snapshot_all he \<or> str_in (dget event ''state'') SNAPSHOT_STATES) \<longrightarrow> writer (mirrored emergency (health_checked he event)) \<noteq> None) \<and>
     (case he_audit he of
        None \<Rightarrow> True
      | Some writer \<Rightarrow> writer (persisted_event he (mirrored emergency (snapshot_stage emergency he (health_checked he event)))))"

lemma finalize_closes:
  assumes "\<not> evidence_complete emergency he event"
  shows "gate_closed (finalize_observer_event emergency he event) \<and> escalated (finalize_observer_event emergency he event)"
proof -
  let ?w = "health_checked he event"
  let ?s = "snapshot_stage emergency he ?w"
  let ?blocked = "\<lambda>e. gate_closed e \<and> escalated e"
  have "?blocked (audit_stage emergency he ?s)"
  proof (cases "systemd_notification_status (he_socket he) (he_sent he) = ''failed''")
    case True
    then have "?blocked ?w" using watchdog_closes [of he] by (simp add: systemd_notification_status_def health_checked_def split: if_splits)
    from stages_keep_closed(2) [OF stages_keep_closed(1) [OF this]] show ?thesis .
  next
    case alive: False
    show ?thesis
    proof (cases "?blocked ?s")
      case True
      then show ?thesis by (rule stages_keep_closed(2))
    next
      case False
      then have "case he_snapshot he of None \<Rightarrow> True
        | Some writer \<Rightarrow> (he_snapshot_all he \<or> str_in (dget event ''state'') SNAPSHOT_STATES) \<longrightarrow> writer (mirrored emergency ?w) \<noteq> None"
        using snapshot_closes [of he _ ?w emergency] by (auto simp: health_checked_def split: option.splits)
      with alive assms obtain writer where "he_audit he = Some writer" "\<not> writer (persisted_event he (mirrored emergency ?s))"
        by (auto simp: evidence_complete_def split: option.splits)
      then show ?thesis by (rule audit_closes)
    qed
  qed
  from stages_keep_closed(4) [OF stages_keep_closed(3) [OF this]] show ?thesis
    by (simp add: finalize_observer_event_def health_checked_def)
qed

text \<open>
  C3.  A call of the coordinator on a finalized event changes nothing but the outbox, where the event's notification
  may have been stored, or the evidence of the event is complete: no configured watchdog failed, a due snapshot was
  written, and a configured audit line was written.
\<close>

theorem evidence_before_action:
  "case process ce envs gc (PDict (finalize_observer_event emergency he event)) args s of (out, s') \<Rightarrow>
     only_notified ce envs (PDict (finalize_observer_event emergency he event)) args s s' \<or> evidence_complete emergency he event"
proof -
  obtain out s' where p: "process ce envs gc (PDict (finalize_observer_event emergency he event)) args s = (out, s')" by force
  show ?thesis
  proof (cases "evidence_complete emergency he event")
    case False
    from finalize_closes [OF this] have shut: "\<not> gate_open (finalize_observer_event emergency he event)"
      by (simp add: gate_open_def gate_defs)
    from p show ?thesis
    proof (cases rule: process_shape)
      case idle
      then show ?thesis using p by simp
    next
      case (acting ev)
      with shut show ?thesis by simp
    qed
  qed (use p in simp)
qed

section \<open>The plan of an event\<close>

lemma and_then_Inr: "and_then m f = (Inr b, s'') \<longleftrightarrow> (\<exists>a s'. m = (Inr a, s') \<and> f a s' = (Inr b, s''))"
  by (auto simp: and_then_def split: prod.splits sum.splits)

definition same_settings :: "observer_sampler \<Rightarrow> observer_sampler \<Rightarrow> bool" where
  "same_settings s s' \<longleftrightarrow> os_policy s' = os_policy s \<and> os_mode s' = os_mode s \<and> os_allowed s' = os_allowed s \<and>
     os_config_digest s' = os_config_digest s \<and> os_config s' = os_config s"

lemma run_engines_settings: "run_engines env observation s = (Inr r, s') \<Longrightarrow> same_settings s s'"
  by (auto simp: run_engines_def same_settings_def Let_def and_then_Inr case_prod_beta)

lemma sample_composed:
  assumes "sample env observation s = (Inr event, s')"
  obtains r s1 where "run_engines env observation s = (Inr r, s1)" "same_settings s s1" "compose_event env s1 observation r = Inr event"
proof -
  from assms obtain r s1 where run: "run_engines env observation s = (Inr r, s1)"
    and rest: "(case compose_event env s1 observation r of Inl x \<Rightarrow> (Inl x, s1)
       | Inr event \<Rightarrow> (Inr event, s1\<lparr>os_sample_count := os_sample_count s1 + 1\<rparr>)) = (Inr event, s')"
    unfolding sample_def and_then_Inr by blast
  from rest have "compose_event env s1 observation r = Inr event" by (simp split: sum.splits)
  with run run_engines_settings [OF run] that show ?thesis by blast
qed

lemma composed_parts:
  assumes "compose_event env s observation r = Inr event"
  obtains evaluations gated emergency where
    "resource_evaluations s (memory_event env s observation r) r = Inr evaluations" "shed env s observation evaluations = Inr (gated, emergency)"
    "dget event ''emergency_shedding'' = PDict (shedding_dict emergency)" "dget event ''resource_evaluations'' = PDict gated"
    "sp_enabled (os_policy s) \<Longrightarrow> dget event ''decision'' = PDict (shedding_decision_dict (sr_decision emergency))"
    "sp_enabled (os_policy s) \<Longrightarrow> os_mode s = ''enforce'' \<Longrightarrow> sd_plan (sr_decision emergency) \<noteq> None \<Longrightarrow> dget event ''state'' = PStr ''critical_confirmed''"
    "\<not> sp_enabled (os_policy s) \<Longrightarrow> \<exists>d. dget event ''decision'' = PDict (joint_decision_dict d)"
    "dget event ''event_id'' = PStr (se_uuid env 0)"
proof -
  let ?joint = "\<lambda>gated. build_joint_decision (se_rep env) gated (os_mode s) (os_simulate_action s) (os_protected s) (os_allowed s)"
  obtain evaluations where e1: "resource_evaluations s (memory_event env s observation r) r = Inr evaluations"
    using assms by (cases "resource_evaluations s (memory_event env s observation r) r") (auto simp: compose_event_def)
  obtain gated emergency where e2: "shed env s observation evaluations = Inr (gated, emergency)"
    using assms e1 by (cases "shed env s observation evaluations") (auto simp: compose_event_def)
  let ?decided = "decided_event s (memory_event env s observation r) gated (?joint gated) emergency"
  obtain c v where e3: "build_runtime_presentation (se_rep env) ?decided observation (shedding_dict emergency) (os_config s) = Inr (c, v)"
    using assms e1 e2
    by (cases "build_runtime_presentation (se_rep env) ?decided observation (shedding_dict emergency) (os_config s)")
      (auto simp: compose_event_def Let_def)
  have "\<exists>e. dset (dset (dset ?decided ''object_candidates'' (PList (map PDict c))) ''presentation'' (PDict v)) ''evidence'' e = event"
    using assms e1 e2 e3 by (simp add: compose_event_def Let_def) (rule exI, assumption)
  then obtain e where event: "event = dset (dset (dset ?decided ''object_candidates'' (PList (map PDict c))) ''presentation'' (PDict v)) ''evidence'' e"
    by blast
  have "dget (memory_event env s observation r) ''event_id'' = PStr (se_uuid env 0)"
    by (simp add: memory_event_def build_event_def case_prod_beta Let_def dget_def)
  with event show ?thesis
    by (intro that [OF e1 e2]) (auto simp: decided_event_def Let_def)
qed

lemma shedding_dict_simps [simp]:
  "dget (shedding_dict r) ''decision'' = PDict (shedding_decision_dict (sr_decision r))"
  "dget (shedding_dict r) ''plan'' = opt_val (PDict \<circ> plan_as_dict) (sd_plan (sr_decision r))"
  "dget (shedding_decision_dict d) ''plan'' = opt_val (PDict \<circ> plan_as_dict) (sd_plan d)"
  "dget (joint_decision_dict j) ''plan'' = PNone"
  by (simp_all add: shedding_dict_def shedding_decision_dict_def joint_decision_dict_def dget_def opt_val_def split: option.splits)

lemma composed_plan:
  assumes "compose_event env s observation r = Inr event" "extract_plan event = Some plan"
  obtains evaluations gated emergency p where
    "resource_evaluations s (memory_event env s observation r) r = Inr evaluations" "shed env s observation evaluations = Inr (gated, emergency)"
    "dget event ''resource_evaluations'' = PDict gated" "sd_plan (sr_decision emergency) = Some p" "plan = plan_as_dict p"
    "sp_enabled (os_policy s) \<Longrightarrow> os_mode s = ''enforce'' \<Longrightarrow> dget event ''state'' = PStr ''critical_confirmed''"
proof -
  from assms(1) obtain evaluations gated emergency where c:
    "resource_evaluations s (memory_event env s observation r) r = Inr evaluations" "shed env s observation evaluations = Inr (gated, emergency)"
    "dget event ''emergency_shedding'' = PDict (shedding_dict emergency)" "dget event ''resource_evaluations'' = PDict gated"
    "sp_enabled (os_policy s) \<Longrightarrow> dget event ''decision'' = PDict (shedding_decision_dict (sr_decision emergency))"
    "\<not> sp_enabled (os_policy s) \<Longrightarrow> \<exists>d. dget event ''decision'' = PDict (joint_decision_dict d)"
    "sp_enabled (os_policy s) \<Longrightarrow> os_mode s = ''enforce'' \<Longrightarrow> sd_plan (sr_decision emergency) \<noteq> None \<Longrightarrow> dget event ''state'' = PStr ''critical_confirmed''"
    by (rule composed_parts) blast
  have "\<exists>p. sd_plan (sr_decision emergency) = Some p \<and> plan = plan_as_dict p"
  proof (cases "sd_plan (sr_decision emergency)")
    case None
    then have "dget (mapping_of (dget event ''decision'')) ''plan'' = PNone"
      using c(5,6) by (cases "sp_enabled (os_policy s)") (auto simp: opt_val_def)
    then show ?thesis using assms(2) c(3) None by (simp add: extract_plan_def opt_val_def)
  next
    case (Some p)
    then show ?thesis using assms(2) c(3) by (simp add: extract_plan_def opt_val_def)
  qed
  with c show ?thesis using that by blast
qed

section \<open>The risk behind a plan\<close>

lemma plan_as_dict_simps [simp]:
  "dget (plan_as_dict p) ''resource_kind'' = PStr (pl_resource_kind p)" "dget (plan_as_dict p) ''target_id'' = PStr (pl_target_id p)"
  "dget (mapping_of (dget (plan_as_dict p) ''target'')) ''id'' = PStr (pl_target_id p)"
  by (simp_all add: plan_as_dict_def dget_def)

lemma required_string_PStr: "required_string (PStr x) field = Inr y \<Longrightarrow> y = py_strip x"
  by (simp add: required_string_def split: if_splits)

lemma intent_of_plan:
  assumes "action_intent_from_event rep iso_at sha expected issued ttl (PDict event) = Inr intent" "extract_plan event = Some (plan_as_dict p)"
  shows "gi_target_id intent = pl_target_id p" "gi_resource_kind intent = pl_resource_kind p" "pl_resource_kind p \<in> set SUPPORTED_RESOURCES"
    "gi_action intent = ''graceful_stop''" "full_container_id (gi_target_id intent)"
proof -
  obtain so plan_id resource action ta where parts: "plan_fields rep (plan_as_dict p) so = Inr (plan_id, resource, action)"
      "target_of_plan (plan_as_dict p) = Inr ta" "gi_target_id intent = ta_id ta" "gi_resource_kind intent = resource" "gi_action intent = action"
    using assms by (auto simp: action_intent_from_event_def sum_bind_Inr Let_def)
  from parts(1) have f: "resource = pl_resource_kind p" "resource \<in> set SUPPORTED_RESOURCES" "action = ''graceful_stop''"
    by (auto simp: plan_fields_def sum_bind_Inr Let_def ensure_def py_or_def split: if_splits)
  from parts(2) have "ta_id ta = pl_target_id p" "full_container_id (ta_id ta)"
    by (auto simp: target_of_plan_def sum_bind_Inr Let_def ensure_def split: if_splits)
  with f parts show "gi_target_id intent = pl_target_id p" "gi_resource_kind intent = pl_resource_kind p" "pl_resource_kind p \<in> set SUPPORTED_RESOURCES"
    "gi_action intent = ''graceful_stop''" "full_container_id (gi_target_id intent)" by simp_all
qed

lemma emergency_risk_simps [simp]:
  "dget (emergency_risk rep n risk) ''state'' =
     (if fst (danger_gate rep n risk) then PStr ''CRITICAL_CONFIRMED'' else dget_default risk ''state'' (PStr ''normal''))"
  "dget (emergency_risk rep n risk) ''danger_confirmed'' = PBool (fst (danger_gate rep n risk))"
  "dget (emergency_risk rep n risk) ''sample_complete'' = PBool (snd (danger_gate rep n risk))"
  "dget (emergency_risk rep n risk) ''risk'' = dget risk ''risk''"
  by (simp_all add: emergency_risk_def case_prod_beta)

lemma has_key_dset [simp]: "has_key (dset d k v) k' \<longleftrightarrow> k' = k \<or> has_key d k'"
  by (induction d) (auto simp: has_key_def)

lemma emergency_risk_has_key [simp]: "has_key (emergency_risk rep n risk) ''sample_complete''"
  by (simp add: emergency_risk_def case_prod_beta)

text \<open>A confirmed and complete risk of the gate is one whose danger was confirmed, or one that came in confirmed.\<close>

lemma confirmed_danger:
  assumes "is_confirmed rep (emergency_risk rep n risk)" "dget_default risk ''state'' (PStr ''normal'') = PStr st"
    "st \<in> {''normal'', ''warning'', ''critical'', ''recovered'', ''degraded_observability''}"
  shows "fst (danger_gate rep n risk) \<and> st = ''critical''"
proof -
  have upper: "py_upper ''normal'' = ''NORMAL''" "py_upper ''warning'' = ''WARNING''" "py_upper ''critical'' = ''CRITICAL''"
    "py_upper ''recovered'' = ''RECOVERED''" "py_upper ''degraded_observability'' = ''DEGRADED_OBSERVABILITY''"
    by code_simp+
  have lower: "py_lower ''normal'' = ''normal''" "py_lower ''warning'' = ''warning''" "py_lower ''critical'' = ''critical''"
    "py_lower ''recovered'' = ''recovered''" "py_lower ''degraded_observability'' = ''degraded_observability''"
    by code_simp+
  have danger: "fst (danger_gate rep n risk)"
  proof (rule ccontr)
    assume no: "\<not> fst (danger_gate rep n risk)"
    then have "shedding_risk_state rep (emergency_risk rep n risk) = py_upper st"
      using assms(2,3) by (auto simp: shedding_risk_state_def py_or_def)
    with assms(1,3) no upper show False by (auto simp: is_confirmed_def)
  qed
  have "dget risk ''state'' = PStr st \<or> dget risk ''state'' = PNone \<and> st = ''normal''"
    using assms(2) by (auto simp: dget_default_def dget_def split: option.splits)
  then have "py_str rep (py_or (dget risk ''state'') (PStr ''normal'')) = st"
    using assms(3) by (auto simp: py_or_def)
  with danger assms(3) lower show ?thesis by (auto simp: danger_gate_def Let_def)
qed

definition ENGINE_STATES :: "string list" where
  "ENGINE_STATES = [''normal'', ''warning'', ''critical'', ''recovered'', ''degraded_observability'']"

lemma dwell_next_state:
  "candidate \<in> {''normal'', ''warning'', ''critical''} \<Longrightarrow> fst (dwell_next wfor cfor flagged candidate now d) \<in> set ENGINE_STATES"
  by (auto simp: dwell_next_def dwell_state_def ENGINE_STATES_def Let_def)

lemma memory_engine_state: "rk_state (fst (evaluate_risk rep ob w c now e)) \<in> set ENGINE_STATES"
proof -
  have "sg_candidate (read_signals rep ob w c now e) \<in> {''normal'', ''warning'', ''critical''}"
    unfolding read_signals_def Let_def case_prod_beta by (simp add: candidate_of_def)
  then show ?thesis by (auto simp: evaluate_risk_def state_of_def ENGINE_STATES_def case_prod_beta Let_def)
qed

lemma cpu_engine_state:
  assumes "fst (evaluate_cpu rep ob now e) = Inr r"
  shows "ck_state r \<in> set ENGINE_STATES"
proof -
  have "cpu_candidate w c \<in> {''normal'', ''warning'', ''critical''}" for w c by (simp add: cpu_candidate_def)
  with assms dwell_next_state show ?thesis by (auto simp: evaluate_cpu_def Let_def split: sum.splits)
qed

lemma disk_engine_state:
  "candidate \<in> {''normal'', ''warning'', ''critical''} \<Longrightarrow>
   dk_state (fst (conclude_risk w c n flags ws cs candidate ns now core)) \<in> set ENGINE_STATES"
  by (simp add: conclude_risk_def Let_def dwell_next_state)

lemma capacity_engine_state:
  assumes "fst (evaluate_capacity rep ob now e) = Inr r"
  shows "dk_state (fst r) \<in> set ENGINE_STATES"
proof -
  have "capacity_candidate w c \<in> {''normal'', ''warning'', ''critical''}" for w c by (simp add: capacity_candidate_def)
  with assms disk_engine_state show ?thesis by (auto simp: evaluate_capacity_def Let_def case_prod_beta split: sum.splits)
qed

lemma io_engine_state:
  assumes "fst (evaluate_io rep ob now e) = Inr r"
  shows "dk_state (fst r) \<in> set ENGINE_STATES"
proof -
  have "io_candidate w c \<in> {''normal'', ''warning'', ''critical''}" for w c by (simp add: io_candidate_def)
  with assms disk_engine_state show ?thesis by (auto simp: evaluate_io_def Let_def case_prod_beta split: sum.splits)
qed

text \<open>The risk of an engine, as the gate reads it.\<close>

definition engine_risk :: "pydict \<Rightarrow> bool" where
  "engine_risk risk \<longleftrightarrow> dget risk ''risk'' = PNone \<and> (\<exists>st \<in> set ENGINE_STATES. dget_default risk ''state'' (PStr ''normal'') = PStr st)"

lemma engine_risks:
  "rk_state m \<in> set ENGINE_STATES \<Longrightarrow> engine_risk (dset (memory_risk_dict m) ''reasons'' codes)"
  "ck_state c \<in> set ENGINE_STATES \<Longrightarrow> engine_risk (cpu_risk_dict c)"
  "dk_state d \<in> set ENGINE_STATES \<Longrightarrow> engine_risk (disk_risk_dict kind d [(''mounts'', v)])"
  "dk_state d \<in> set ENGINE_STATES \<Longrightarrow> engine_risk (disk_risk_dict kind d (io_readings_dict readings))"
  by (simp_all add: engine_risk_def memory_risk_dict_def cpu_risk_dict_def disk_risk_dict_def io_readings_dict_def dget_def dget_default_def)

definition engine_results_ok :: "engine_results \<Rightarrow> bool" where
  "engine_results_ok r \<longleftrightarrow> rk_state (er_memory r) \<in> set ENGINE_STATES \<and> ck_state (er_cpu r) \<in> set ENGINE_STATES \<and>
     dk_state (fst (er_capacity r)) \<in> set ENGINE_STATES \<and> dk_state (fst (er_io r)) \<in> set ENGINE_STATES"

lemma run_engines_ok: "run_engines env observation s = (Inr r, s') \<Longrightarrow> engine_results_ok r"
  by (auto simp: run_engines_def engine_results_ok_def Let_def and_then_Inr case_prod_beta memory_engine_state
      intro: cpu_engine_state capacity_engine_state io_engine_state)

text \<open>The four evaluations, in the order of the code.\<close>

definition four_evaluations :: "pydict \<Rightarrow> bool" where
  "four_evaluations evaluations \<longleftrightarrow>
     (\<exists>m c d i. evaluations = [(''memory'', m), (''cpu'', c), (''disk_capacity'', d), (''io'', i)] \<and>
        (\<forall>e \<in> {m, c, d, i}. \<exists>risk. dget (mapping_of e) ''risk'' = PDict risk \<and> engine_risk risk))"

lemma evaluation_of_risk [simp]: "dget (mapping_of (evaluation_of risk attribution decision)) ''risk'' = risk"
  by (simp add: evaluation_of_def dget_def)

lemma resource_evaluations_four:
  assumes "resource_evaluations s (memory_event env s observation r) r = Inr evaluations" "engine_results_ok r"
  shows "four_evaluations evaluations"
proof -
  have "\<exists>codes. dget (memory_event env s observation r) ''risk'' = PDict (dset (memory_risk_dict (er_memory r)) ''reasons'' codes)"
    by (simp add: memory_event_def build_event_def case_prod_beta Let_def dget_def) blast
  with assms show ?thesis
    by (auto simp: resource_evaluations_def sum_bind_Inr Let_def four_evaluations_def engine_results_ok_def engine_risks)
qed

lemma resource_names:
  "resource_kind (PStr ''memory'') = Some ''memory''" "resource_kind (PStr ''cpu'') = Some ''cpu''"
  "resource_kind (PStr ''disk_capacity'') = Some ''disk_capacity''" "resource_kind (PStr ''io'') = Some ''io''"
  by code_simp+

text \<open>The decision and the event see the same risk of a resource: the engine's, with the verdict of the gate.\<close>

lemma gated_risk:
  assumes "four_evaluations evaluations" "kind \<in> set SUPPORTED_RESOURCES"
  obtains risk where "engine_risk risk"
    "risk_of (normalized_risks (PDict (map (\<lambda>(k, r). (k, PDict r)) (emergency_host_risks rep evaluations n)))) kind = emergency_risk rep n risk"
    "mapping_of (dget (mapping_of (dget (gated_evaluations (emergency_host_risks rep evaluations n) evaluations) kind)) ''risk'') = emergency_risk rep n risk"
proof -
  from assms(1) obtain m c d i rm rc rd ri where ev: "evaluations = [(''memory'', m), (''cpu'', c), (''disk_capacity'', d), (''io'', i)]"
    and risks: "dget (mapping_of m) ''risk'' = PDict rm" "dget (mapping_of c) ''risk'' = PDict rc" "dget (mapping_of d) ''risk'' = PDict rd"
      "dget (mapping_of i) ''risk'' = PDict ri"
    and ok: "engine_risk rm" "engine_risk rc" "engine_risk rd" "engine_risk ri"
    by (auto simp: four_evaluations_def)
  have nested: "shedding_risk_mapping (PDict (emergency_risk rep n risk)) = emergency_risk rep n risk" if "engine_risk risk" for risk
    using that by (simp add: shedding_risk_mapping_def engine_risk_def)
  let ?hr = "[(''memory'', emergency_risk rep n rm), (''cpu'', emergency_risk rep n rc), (''disk_capacity'', emergency_risk rep n rd),
    (''io'', emergency_risk rep n ri)]"
  have hr: "emergency_host_risks rep evaluations n = ?hr" by (simp add: ev risks emergency_host_risks_def)
  have norm: "normalized_risks (PDict (map (\<lambda>(k, r). (k, PDict r)) ?hr)) = ?hr"
    by (simp add: normalized_risks_def resource_names nested ok del: resource_kind.simps)
  have gated: "gated_evaluations ?hr evaluations =
      [(''memory'', PDict (dset (mapping_of m) ''risk'' (PDict (emergency_risk rep n rm)))),
       (''cpu'', PDict (dset (mapping_of c) ''risk'' (PDict (emergency_risk rep n rc)))),
       (''disk_capacity'', PDict (dset (mapping_of d) ''risk'' (PDict (emergency_risk rep n rd)))),
       (''io'', PDict (dset (mapping_of i) ''risk'' (PDict (emergency_risk rep n ri))))]"
    by (simp add: ev gated_evaluations_def)
  have "kind = ''memory'' \<or> kind = ''cpu'' \<or> kind = ''io'' \<or> kind = ''disk_capacity''"
    using assms(2) by (auto simp: SUPPORTED_RESOURCES_def)
  then show ?thesis
  proof (elim disjE)
    assume "kind = ''memory''"
    with that [OF ok(1)] show ?thesis unfolding hr norm gated by (simp add: risk_of_def)
  next
    assume "kind = ''cpu''"
    with that [OF ok(2)] show ?thesis unfolding hr norm gated by (simp add: risk_of_def)
  next
    assume "kind = ''io''"
    with that [OF ok(4)] show ?thesis unfolding hr norm gated by (simp add: risk_of_def)
  next
    assume "kind = ''disk_capacity''"
    with that [OF ok(3)] show ?thesis unfolding hr norm gated by (simp add: risk_of_def)
  qed
qed

lemma extract_plan_cong:
  assumes "dget (mapping_of (dget e ''emergency_shedding'')) ''plan'' = dget (mapping_of (dget e' ''emergency_shedding'')) ''plan''"
    "dget (mapping_of (dget (mapping_of (dget e ''emergency_shedding'')) ''decision'')) ''plan'' =
     dget (mapping_of (dget (mapping_of (dget e' ''emergency_shedding'')) ''decision'')) ''plan''"
    "dget (mapping_of (dget e ''decision'')) ''plan'' = dget (mapping_of (dget e' ''decision'')) ''plan''"
  shows "extract_plan e = extract_plan e'"
  unfolding extract_plan_def Let_def assms ..

lemma stages_keep_plan [simp]:
  "extract_plan (with_gate event) = extract_plan event" "extract_plan (watchdog_stage he event) = extract_plan event"
  "extract_plan (snapshot_stage emergency he event) = extract_plan event" "extract_plan (audit_stage emergency he event) = extract_plan event"
  "extract_plan (dedupe_gate event) = extract_plan event" "extract_plan (mirrored emergency event) = extract_plan event"
  by (rule extract_plan_cong;
      simp add: with_gate_def watchdog_stage_def record_watchdog_status_def snapshot_stage_def audit_stage_def dedupe_gate_def
        mirrored_def close_gate_def block_decision_def Let_def split: option.splits)+

lemma finalize_keeps_plan [simp]: "extract_plan (finalize_observer_event emergency he event) = extract_plan event"
  by (simp add: finalize_observer_event_def)

text \<open>A risk that passed the gate, as the event shows it.\<close>

definition danger_shown :: "int \<Rightarrow> pydict \<Rightarrow> bool" where
  "danger_shown required_samples risk \<longleftrightarrow>
     dget risk ''state'' = PStr ''CRITICAL_CONFIRMED'' \<and>
     (\<exists>n. as_int (dget risk ''sample_count'') = Some n \<and> required_samples \<le> n) \<and>
     dget_default risk ''quality_status'' (PStr ''ok'') = PStr ''ok'' \<and>
     (\<exists>held required. num_of (dget risk ''candidate_for_seconds'') = Some held \<and> num_of (dget risk ''required_for_seconds'') = Some required \<and>
        fle required held)"

lemma dget_default_dset [simp]: "dget_default (dset d k v) k' w = (if k' = k then v else dget_default d k' w)"
  by (induction d) (auto simp: dget_default_def)

lemma danger_gate_shown: "fst (danger_gate rep n risk) \<Longrightarrow> danger_shown n (emergency_risk rep n risk)"
  by (auto simp: danger_shown_def danger_gate_def emergency_risk_def Let_def opt_holds_def split: option.splits)

definition event_risk :: "pydict \<Rightarrow> string \<Rightarrow> pydict" where
  "event_risk event kind =
     mapping_of (dget (mapping_of (dget (mapping_of (dget event ''resource_evaluations'')) kind)) ''risk'')"

definition entry_permits :: "(string \<Rightarrow> iso_time) \<Rightarrow> rat \<Rightarrow> string \<Rightarrow> string \<Rightarrow> pydict \<Rightarrow> bool" where
  "entry_permits iso_at now target kind e \<longleftrightarrow>
     entry_id e = Some target \<and> dget e ''environment'' = PStr ''local-disposable'' \<and>
     Some kind \<in> resource_kind ` set (list_value (dget e ''allowed_resources'')) \<and>
     (\<exists>raw t. dget e ''expires_at'' = PStr raw \<and> iso_at (offset_text raw) = Epoch t \<and> now < t)"

lemma composed_authorized:
  assumes "compose_event env s observation r = Inr event" "engine_results_ok r"
    and "action_intent_from_event rep iso_at sha expected issued ttl (PDict (finalize_observer_event emergency he event)) = Inr intent"
  shows "sp_enabled (os_policy s)" "os_mode s \<in> {''simulate'', ''enforce''}" "''graceful_stop'' \<in> set (os_allowed s)"
    "\<nexists>e. PDict e \<in> set (sp_protected_set (os_policy s)) \<and> entry_id e = Some (gi_target_id intent)"
    "\<exists>e. PDict e \<in> set (sp_actionable_set (os_policy s)) \<and> entry_permits (se_iso_at env) (se_epoch env) (gi_target_id intent) (gi_resource_kind intent) e"
    "danger_shown (sp_required_samples (os_policy s)) (event_risk event (gi_resource_kind intent))"
proof -
  obtain plan where ex: "extract_plan event = Some plan"
    using assms(3) by (auto simp: action_intent_from_event_def split: option.splits)
  obtain evaluations gated shedding p where c: "resource_evaluations s (memory_event env s observation r) r = Inr evaluations"
    "shed env s observation evaluations = Inr (gated, shedding)" "dget event ''resource_evaluations'' = PDict gated"
    "sd_plan (sr_decision shedding) = Some p" "plan = plan_as_dict p"
    by (rule composed_plan [OF assms(1) ex])
  have "extract_plan (finalize_observer_event emergency he event) = Some (plan_as_dict p)" using ex c(5) by simp
  note intent = intent_of_plan [OF assms(3) this]
  let ?risks = "emergency_host_risks (se_rep env) evaluations (sp_required_samples (os_policy s))"
  obtain candidates where sh: "gated = gated_evaluations ?risks evaluations"
    "shedding = build_emergency_shedding_decision (se_rep env) (se_iso_at env) (se_policy_sha env) (se_plan_sha env) (se_epoch env)
       (shedding_input_of s observation ?risks candidates (se_uuid env 0) (sample_id_of env observation))"
    using c(2) by (auto simp: shed_def sum_bind_Inr Let_def)
  let ?inp = "shedding_input_of s observation ?risks candidates (se_uuid env 0) (sample_id_of env observation)"
  have inp: "selected_policy ?inp = os_policy s" "si_host_risks ?inp = PDict (map (\<lambda>(k, r). (k, PDict r)) ?risks)" "si_mode ?inp = PStr (os_mode s)"
    "si_protected_set ?inp = PList (sp_protected_set (os_policy s))" "si_actionable_set ?inp = PList (sp_actionable_set (os_policy s))"
    "si_allowed_actions ?inp = strs (os_allowed s)" "current_epoch (se_epoch env) ?inp = Some (se_epoch env)"
    by (simp_all add: shedding_input_of_def selected_policy_def current_epoch_def)
  note auth = plan_authorized [OF c(4) [unfolded sh(2)], unfolded Let_def inp]
  from auth show "sp_enabled (os_policy s)" "os_mode s \<in> {''simulate'', ''enforce''}" "''graceful_stop'' \<in> set (os_allowed s)" by auto
  from auth intent(1) show "\<nexists>e. PDict e \<in> set (sp_protected_set (os_policy s)) \<and> entry_id e = Some (gi_target_id intent)" by simp
  from auth intent(1,2) show
    "\<exists>e. PDict e \<in> set (sp_actionable_set (os_policy s)) \<and> entry_permits (se_iso_at env) (se_epoch env) (gi_target_id intent) (gi_resource_kind intent) e"
    by (simp add: entry_permits_def)
  obtain risk where risk: "engine_risk risk"
    "risk_of (normalized_risks (PDict (map (\<lambda>(k, r). (k, PDict r)) ?risks))) (pl_resource_kind p) = emergency_risk (se_rep env) (sp_required_samples (os_policy s)) risk"
    "mapping_of (dget (mapping_of (dget gated (pl_resource_kind p))) ''risk'') = emergency_risk (se_rep env) (sp_required_samples (os_policy s)) risk"
    unfolding sh(1) by (rule gated_risk [OF resource_evaluations_four [OF c(1) assms(2)] intent(3)])
  from risk(1) obtain st where st: "st \<in> set ENGINE_STATES" "dget_default risk ''state'' (PStr ''normal'') = PStr st"
    by (auto simp: engine_risk_def)
  have "is_confirmed (se_rep env) (emergency_risk (se_rep env) (sp_required_samples (os_policy s)) risk)" using auth risk(2) by simp
  from confirmed_danger [OF this st(2)] st(1) have "fst (danger_gate (se_rep env) (sp_required_samples (os_policy s)) risk)"
    by (simp add: ENGINE_STATES_def)
  from danger_gate_shown [OF this] show "danger_shown (sp_required_samples (os_policy s)) (event_risk event (gi_resource_kind intent))"
    using c(3) risk(3) intent(2) by (simp add: event_risk_def)
qed

text \<open>
  C4.  From a sampled event the coordinator makes an intent only under an enabled policy in simulate or enforce mode,
  for an allowed graceful stop of a container that is in no protected entry and in an unexpired actionable
  entry for the resource, and the event shows that resource's danger confirmed: critical over the whole dwell time, on
  enough samples of good quality.  The health record of the event does not matter.
\<close>

theorem sampled_intent_authorized:
  "case sample env observation s of
     (Inl x, s') \<Rightarrow> True
   | (Inr event, s') \<Rightarrow>
       (case action_intent_from_event rep iso_at sha expected issued ttl (PDict (finalize_observer_event emergency he event)) of
          Inl reason \<Rightarrow> True
        | Inr intent \<Rightarrow>
            sp_enabled (os_policy s) \<and> os_mode s \<in> {''simulate'', ''enforce''} \<and> ''graceful_stop'' \<in> set (os_allowed s) \<and>
            (\<nexists>e. PDict e \<in> set (sp_protected_set (os_policy s)) \<and> entry_id e = Some (gi_target_id intent)) \<and>
            (\<exists>e. PDict e \<in> set (sp_actionable_set (os_policy s)) \<and>
               entry_permits (se_iso_at env) (se_epoch env) (gi_target_id intent) (gi_resource_kind intent) e) \<and>
            danger_shown (sp_required_samples (os_policy s)) (event_risk event (gi_resource_kind intent)))"
proof -
  obtain out s' where run: "sample env observation s = (out, s')" by force
  show ?thesis
  proof (cases out)
    case (Inr event)
    obtain r s1 where parts: "run_engines env observation s = (Inr r, s1)" "same_settings s s1" "compose_event env s1 observation r = Inr event"
      by (rule sample_composed [OF run [unfolded Inr]])
    have same: "os_policy s1 = os_policy s" "os_mode s1 = os_mode s" "os_allowed s1 = os_allowed s"
      using parts(2) by (simp_all add: same_settings_def)
    show ?thesis
    proof (cases "action_intent_from_event rep iso_at sha expected issued ttl (PDict (finalize_observer_event emergency he event))")
      case intent: (Inr intent)
      note composed_authorized [OF parts(3) run_engines_ok [OF parts(1)] intent, unfolded same]
      then show ?thesis unfolding run Inr prod.case sum.case intent by blast
    qed (simp add: run Inr)
  qed (simp add: run)
qed

section \<open>Actions nobody is told of\<close>

lemma plan_enabled:
  assumes "shed env s observation evaluations = Inr (gated, emergency)" "sd_plan (sr_decision emergency) = Some p"
  shows "sp_enabled (os_policy s)"
proof -
  from assms(1) obtain risks candidates where "emergency = build_emergency_shedding_decision (se_rep env) (se_iso_at env) (se_policy_sha env)
      (se_plan_sha env) (se_epoch env) (shedding_input_of s observation risks candidates (se_uuid env 0) (sample_id_of env observation))"
    by (auto simp: shed_def sum_bind_Inr Let_def)
  with assms(2) have "sp_enabled (selected_policy (shedding_input_of s observation risks candidates (se_uuid env 0) (sample_id_of env observation)))"
    using plan_authorized unfolding Let_def by blast
  then show ?thesis by (simp add: shedding_input_of_def selected_policy_def)
qed

lemma composed_enforce_state:
  assumes "compose_event env s observation r = Inr event" "os_mode s = ''enforce''" "extract_plan event = Some plan"
  shows "dget event ''state'' = PStr ''critical_confirmed''"
proof (rule composed_plan [OF assms(1,3)])
  fix evaluations gated emergency p
  assume "shed env s observation evaluations = Inr (gated, emergency)" "sd_plan (sr_decision emergency) = Some p"
    and state: "sp_enabled (os_policy s) \<Longrightarrow> os_mode s = ''enforce'' \<Longrightarrow> dget event ''state'' = PStr ''critical_confirmed''"
  from plan_enabled [OF this(1,2)] show ?thesis by (rule state) (rule assms(2))
qed

lemma other_writers_persist [simp]:
  "persisted_event (he\<lparr>he_snapshot := x\<rparr>) = persisted_event he"
  "persisted_event (he\<lparr>he_snapshot := x, he_snapshot_all := a\<rparr>) = persisted_event he"
  by (rule ext, simp add: persisted_event_def)+

lemma other_writers [simp]:
  "watchdog_stage (he\<lparr>he_snapshot := x\<rparr>) event = watchdog_stage he event"
  "watchdog_stage (he\<lparr>he_snapshot := x, he_snapshot_all := a\<rparr>) event = watchdog_stage he event"
  "audit_stage emergency (he\<lparr>he_snapshot := x\<rparr>) event = audit_stage emergency he event"
  "audit_stage emergency (he\<lparr>he_snapshot := x, he_snapshot_all := a\<rparr>) event = audit_stage emergency he event"
  by (simp_all add: watchdog_stage_def audit_stage_def split: option.splits)

lemma unnotifiable: "\<not> str_in (PStr ''critical_confirmed'') NOTIFIABLE_STATES" "\<not> str_in (PStr ''critical_confirmed'') SNAPSHOT_STATES"
  by (simp_all add: NOTIFIABLE_STATES_def SNAPSHOT_STATES_def)

text \<open>
  C14.  Every sampled event with a plan to enforce is labelled \<open>critical_confirmed\<close>, a state for which
  no notification is stored before the action and, unless a snapshot of every event is asked for, no snapshot is
  written: the notification stage of the coordinator leaves the outbox as it is, and the finalized event is the one
  without a snapshot writer.
\<close>

theorem enforced_plan_unnotified:
  "case sample env observation s of
     (Inl x, s') \<Rightarrow> True
   | (Inr event, s') \<Rightarrow>
       (if os_mode s = ''enforce'' \<and> extract_plan event \<noteq> None
        then dget event ''state'' = PStr ''critical_confirmed'' \<and>
          notify_stage ce senv args mode event_id (finalize_observer_event emergency he event) ob = (Inr None, ob) \<and>
          (he_snapshot_all he \<or>
           finalize_observer_event emergency he event = finalize_observer_event emergency (he\<lparr>he_snapshot := None\<rparr>) event)
        else True)"
proof -
  obtain out s' where run: "sample env observation s = (out, s')" by force
  show ?thesis
  proof (cases out)
    case (Inr event)
    obtain r s1 where parts: "same_settings s s1" "compose_event env s1 observation r = Inr event"
      by (rule sample_composed [OF run [unfolded Inr]])
    show ?thesis
    proof (cases "os_mode s = ''enforce'' \<and> extract_plan event \<noteq> None")
      case True
      then have "dget event ''state'' = PStr ''critical_confirmed''"
        using composed_enforce_state [OF parts(2)] parts(1) by (auto simp: same_settings_def)
      then have state: "dget event ''state'' = PStr ''critical_confirmed''"
        "dget (finalize_observer_event emergency he event) ''state'' = PStr ''critical_confirmed''"
        by (simp_all add: finalize_observer_event_def)
      then have "notify_stage ce senv args mode event_id (finalize_observer_event emergency he event) ob = (Inr None, ob)"
        by (simp add: notify_stage_def unnotifiable del: str_in.simps)
      moreover have "he_snapshot_all he \<or>
          finalize_observer_event emergency he event = finalize_observer_event emergency (he\<lparr>he_snapshot := None\<rparr>) event"
        using state(1) by (simp add: finalize_observer_event_def snapshot_stage_def unnotifiable del: str_in.simps split: option.split)
      ultimately show ?thesis using run Inr True state(1) by simp
    next
      case False
      then show ?thesis unfolding run Inr prod.case sum.case by (simp only: if_False)
    qed
  qed (simp add: run)
qed

end
