(* ===== verification/Guardian_Collect_Laws.thy ===== *)
theory Guardian_Collect_Laws
  imports Guardian_Collector Guardian_Sampler_Laws
begin

text \<open>What the reading of an observation means for the actions that follow from it.\<close>

section \<open>An observation and its event\<close>

lemma composed_signals: "compose_event env s observation r = Inr event \<Longrightarrow> dget event ''signals'' = PDict observation"
proof -
  have "dget (memory_event env s observation r) ''signals'' = PDict observation"
    by (simp add: memory_event_def build_event_def case_prod_beta Let_def dget_def)
  then show "compose_event env s observation r = Inr event \<Longrightarrow> dget event ''signals'' = PDict observation"
    by (auto simp: compose_event_def sum_bind_Inr Let_def decided_event_def split: if_splits)
qed

lemma stages_keep_signals [simp]:
  "dget (with_gate event) ''signals'' = dget event ''signals''" "dget (watchdog_stage he event) ''signals'' = dget event ''signals''"
  "dget (snapshot_stage emergency he event) ''signals'' = dget event ''signals''" "dget (audit_stage emergency he event) ''signals'' = dget event ''signals''"
  "dget (dedupe_gate event) ''signals'' = dget event ''signals''" "dget (mirrored emergency event) ''signals'' = dget event ''signals''"
  by (simp_all add: watchdog_stage_def record_watchdog_status_def with_gate_def snapshot_stage_def audit_stage_def dedupe_gate_def mirrored_def
      close_gate_def block_decision_def Let_def split: option.splits)

lemma finalize_keeps_signals [simp]: "dget (finalize_observer_event emergency he event) ''signals'' = dget event ''signals''"
  by (simp add: finalize_observer_event_def)

text \<open>The registry of an observation, as the shedding decision reads it.\<close>

definition registry_rows :: "pydict \<Rightarrow> pyval list" where
  "registry_rows observation = list_value (dget_default (mapping_of (dget observation ''object_registry'')) ''objects'' (PList []))"

lemma composed_target:
  assumes "compose_event env s observation r = Inr event"
    and "action_intent_from_event rep iso_at sha expected issued ttl (PDict (finalize_observer_event emergency he event)) = Inr intent"
  shows "\<exists>row. PDict row \<in> set (registry_rows observation) \<and> entry_id row = Some (gi_target_id intent)"
proof -
  obtain plan where ex: "extract_plan event = Some plan"
    using assms(2) by (auto simp: action_intent_from_event_def split: option.splits)
  obtain evaluations gated shedding p where c: "shed env s observation evaluations = Inr (gated, shedding)"
    "sd_plan (sr_decision shedding) = Some p" "plan = plan_as_dict p"
    by (rule composed_plan [OF assms(1) ex])
  have "extract_plan (finalize_observer_event emergency he event) = Some (plan_as_dict p)" using ex c(3) by simp
  note intent = intent_of_plan [OF assms(2) this]
  obtain risks candidates where sh:
    "shedding = build_emergency_shedding_decision (se_rep env) (se_iso_at env) (se_policy_sha env) (se_plan_sha env) (se_epoch env)
       (shedding_input_of s observation risks candidates (se_uuid env 0) (sample_id_of env observation))"
    using c(1) by (auto simp: shed_def sum_bind_Inr Let_def)
  let ?inp = "shedding_input_of s observation risks candidates (se_uuid env 0) (sample_id_of env observation)"
  obtain candidate row where "entry_id candidate = Some (pl_target_id p)" "PDict row \<in> set (list_value (si_registry ?inp))"
    "identity_fields row = identity_fields candidate"
    using plan_is_top [OF c(2) [unfolded sh]] by blast
  then have "PDict row \<in> set (registry_rows observation) \<and> entry_id row = Some (gi_target_id intent)"
    using intent(1) by (simp add: shedding_input_of_def registry_rows_def identity_fields_def)
  then show ?thesis ..
qed

section \<open>The quality of the memory reading\<close>

lemma quality_status_keys: "dget (dset d ''reasons'' v) ''quality_status'' = dget d ''quality_status''"
  by simp

lemma dget_Cons [simp]: "dget ((k, v) # d) k' = (if k' = k then v else dget d k')"
  by (simp add: dget_def)

lemma gated_memory:
  assumes "resource_evaluations s event r = Inr evaluations" "dget event ''risk'' = PDict risk"
  shows "dget (mapping_of (dget (mapping_of (dget (gated_evaluations (emergency_host_risks rep evaluations n) evaluations) ''memory'')) ''risk'')) ''quality_status''
    = dget risk ''quality_status''"
proof -
  obtain a d rest where ev: "evaluations = (''memory'', evaluation_of (PDict risk) a d) # rest"
    using assms by (auto simp: resource_evaluations_def sum_bind_Inr Let_def)
  show ?thesis
    by (simp add: ev emergency_host_risks_def gated_evaluations_def emergency_risk_def case_prod_beta)
qed

lemma composed_memory_quality:
  assumes "compose_event env s observation r = Inr event"
  shows "dget (event_risk event ''memory'') ''quality_status'' = PStr (rk_quality_status (er_memory r))"
proof -
  obtain evaluations gated emergency where c: "resource_evaluations s (memory_event env s observation r) r = Inr evaluations"
    "shed env s observation evaluations = Inr (gated, emergency)" "dget event ''resource_evaluations'' = PDict gated"
    by (rule composed_parts [OF assms])
  have gated: "gated = gated_evaluations (emergency_host_risks (se_rep env) evaluations (sp_required_samples (os_policy s))) evaluations"
    using c(2) by (auto simp: shed_def sum_bind_Inr Let_def)
  obtain codes where "dget (memory_event env s observation r) ''risk'' = PDict (dset (memory_risk_dict (er_memory r)) ''reasons'' codes)"
    by (simp add: memory_event_def build_event_def case_prod_beta Let_def dget_def)
  from gated_memory [OF c(1) this] show ?thesis
    by (simp add: event_risk_def c(3) gated memory_risk_dict_def)
qed

lemma run_engines_memory:
  assumes "run_engines env observation s = (Inr r, s')" "rk_quality_status (er_memory r) = ''ok''"
  shows "quality_section (se_rep env) observation = []"
proof -
  obtain w c now e where "er_memory r = fst (evaluate_risk (se_rep env) observation w c now e)"
    using assms(1) by (auto simp: run_engines_def Let_def and_then_Inr case_prod_beta)
  with assms(2) have "sg_flags (read_signals (se_rep env) observation w c now e) = []"
    by (simp add: evaluate_risk_def Let_def case_prod_beta split: if_splits)
  then show ?thesis by (simp add: read_signals_def Let_def case_prod_beta)
qed

text \<open>The parts of a collected observation the decisions rest on.\<close>

definition collected_flags :: "host_view \<Rightarrow> string \<Rightarrow> string \<Rightarrow> (string + pydict) option \<Rightarrow> string list" where
  "collected_flags hv proc cgroup collector =
     (case containers_of hv proc cgroup collector of (docker, registry, meta, collector_flags) \<Rightarrow>
        observation_flags hv proc (resolve_process_cgroup_root hv proc cgroup) docker collector_flags)"

lemma collected_parts:
  assumes "collect_observation hv proc cgroup mount_points collector = Inr ob"
  shows "dget ob ''quality'' = PDict [(''status'', quality_status (collected_flags hv proc cgroup collector)),
      (''flags'', str_list (sorted_set (collected_flags hv proc cgroup collector)))]"
    "dget ob ''object_registry'' = PDict (fst (snd (containers_of hv proc cgroup collector)))"
  using assms by (auto simp: collect_observation_def collected_flags_def sum_bind_Inr Let_def split: prod.splits)

lemma clean_quality:
  assumes "dget ob ''quality'' = PDict [(''status'', v), (''flags'', str_list flags)]" "quality_section rep ob = []"
  shows "\<forall>flag \<in> set flags. flag = [] \<or> flag \<in> set ATTRIBUTION_ONLY_QUALITY_FLAGS"
proof -
  have "filter (\<lambda>t. t \<notin> set ATTRIBUTION_ONLY_QUALITY_FLAGS) (map (py_str rep) (filter py_truthy (map PStr flags))) = []"
    using assms by (simp add: quality_section_def str_list_def dget_default_def dget_def)
  then show ?thesis by (auto simp: filter_empty_conv)
qed

text \<open>What a reading of the memory consists of.\<close>

definition memory_read :: "host_view \<Rightarrow> string \<Rightarrow> string \<Rightarrow> bool" where
  "memory_read hv proc cgroup \<longleftrightarrow>
     (let meminfo = hv_read hv (below proc ''meminfo'')
      in meminfo \<noteq> None \<and> map_of (parse_meminfo meminfo) ''MemTotal'' \<noteq> None \<and> map_of (parse_meminfo meminfo) ''MemAvailable'' \<noteq> None \<and>
         hv_read hv (below proc ''pressure/memory'') \<noteq> None \<and>
         hv_read hv (below (resolve_process_cgroup_root hv proc cgroup) ''memory.events'') \<noteq> None)"

definition collector_read_only :: "(string + pydict) option \<Rightarrow> bool" where
  "collector_read_only collector \<longleftrightarrow>
     (case collector of None \<Rightarrow> True
      | Some answer \<Rightarrow> dget (mapping_of (dget (collector_answer answer) ''collector'')) ''read_only'' = PBool True)"

lemma read_without_flags:
  assumes "\<forall>flag \<in> set (collected_flags hv proc cgroup collector). flag = [] \<or> flag \<in> set ATTRIBUTION_ONLY_QUALITY_FLAGS"
  shows "memory_read hv proc cgroup" "collector_read_only collector"
proof -
  obtain docker registry meta flags where parts: "containers_of hv proc cgroup collector = (docker, registry, meta, flags)"
    by (cases "containers_of hv proc cgroup collector") blast
  let ?flags = "observation_flags hv proc (resolve_process_cgroup_root hv proc cgroup) docker flags"
  have absent: "flag \<notin> set ?flags" if "flag \<noteq> []" "flag \<notin> set ATTRIBUTION_ONLY_QUALITY_FLAGS" for flag
    using assms that by (auto simp: collected_flags_def parts)
  have host: "''meminfo_missing'' \<notin> set ?flags" "''memory_psi_missing'' \<notin> set ?flags" "''memory_events_missing'' \<notin> set ?flags"
    "''memory_total_missing'' \<notin> set ?flags" "''memory_available_missing'' \<notin> set ?flags" "''collector_read_only_contract_missing'' \<notin> set ?flags"
    by (rule absent; simp add: ATTRIBUTION_ONLY_QUALITY_FLAGS_def)+
  have psi: "has_key (psi_readings hv proc) ''memory'' \<Longrightarrow> hv_read hv (below proc ''pressure/memory'') \<noteq> None"
    by (auto simp: psi_readings_def has_key_def List.map_filter_simps split: option.splits)
  have "memory_read hv proc cgroup"
    using host(1-5) psi
    by (simp add: memory_read_def observation_flags_def Let_def memory_signals_def opt_val_def split: if_splits option.splits)
  then show "memory_read hv proc cgroup" .
  show "collector_read_only collector"
  proof (cases collector)
    case (Some answer)
    then have "''collector_read_only_contract_missing'' \<notin> set flags" using host(6) by (simp add: observation_flags_def Let_def)
    with Some parts show ?thesis by (auto simp: containers_of_def Let_def collector_read_only_def)
  qed (simp add: collector_read_only_def)
qed

text \<open>
  C6.  An intent for memory that follows from a sampled observation rests on a whole reading: total and available memory,
  the memory pressure and the event counters of the observer's own cgroup could be read, and a collector that was asked
  declared itself read-only.
\<close>

theorem memory_action_needs_readings:
  "case collect_observation hv proc cgroup mount_points collector of
     Inl x \<Rightarrow> True
   | Inr ob \<Rightarrow>
       (case sample env ob s of
          (Inl x, s') \<Rightarrow> True
        | (Inr event, s') \<Rightarrow>
            (case action_intent_from_event rep iso_at sha expected issued ttl (PDict (finalize_observer_event emergency he event)) of
               Inl reason \<Rightarrow> True
             | Inr intent \<Rightarrow> if gi_resource_kind intent = ''memory'' then memory_read hv proc cgroup \<and> collector_read_only collector else True))"
proof -
  have "memory_read hv proc cgroup \<and> collector_read_only collector"
    if ob: "collect_observation hv proc cgroup mount_points collector = Inr ob" and run: "sample env ob s = (Inr event, s')"
      and intent: "action_intent_from_event rep iso_at sha expected issued ttl (PDict (finalize_observer_event emergency he event)) = Inr intent"
      and kind: "gi_resource_kind intent = ''memory''" for ob event s' intent
  proof -
    obtain r s1 where parts: "run_engines env ob s = (Inr r, s1)" "compose_event env s1 ob r = Inr event" by (rule sample_composed [OF run])
    have "danger_shown (sp_required_samples (os_policy s1)) (event_risk event ''memory'')"
      using composed_authorized(6) [OF parts(2) run_engines_ok [OF parts(1)] intent] unfolding kind .
    then have "rk_quality_status (er_memory r) = ''ok''"
      using composed_memory_quality [OF parts(2)] by (auto simp: danger_shown_def dget_def dget_default_def split: option.splits)
    from clean_quality [OF collected_parts(1) [OF ob] run_engines_memory [OF parts(1) this]]
    have "\<forall>flag \<in> set (collected_flags hv proc cgroup collector). flag = [] \<or> flag \<in> set ATTRIBUTION_ONLY_QUALITY_FLAGS" by simp
    then show ?thesis using read_without_flags by blast
  qed
  then show ?thesis by (simp split: sum.split prod.split)
qed

section \<open>The gate of the runtime\<close>

definition runtime_gate_shut :: "host_view \<Rightarrow> string \<Rightarrow> rat \<Rightarrow> pyval \<Rightarrow> runtime_collector \<Rightarrow> bool" where
  "runtime_gate_shut hv proc now interval rc \<longleftrightarrow>
     (case evaluate (fst (gate_texts hv proc)) (snd (gate_texts hv proc)) (rc_gate rc) of (d, g) \<Rightarrow> gate_shut d g now (rc_last rc) interval)"

text \<open>A snapshot that was withheld, or that could not be had, leaves an unavailable registry.\<close>

lemma runtime_registry:
  assumes "runtime_observation hv proc cgroup mount_points now interval answer rc = (Inr ob, rc')"
  shows "\<not> runtime_gate_shut hv proc now interval rc \<and> (\<exists>collected. answer = Inr collected \<and>
      dget ob ''object_registry'' = (case dget collected ''object_registry'' of PDict d \<Rightarrow> PDict d | _ \<Rightarrow> PDict (registry_down ''collector_object_registry_missing'')))
    \<or> (\<exists>reason. dget ob ''object_registry'' = PDict (registry_down reason))"
proof -
  obtain a where a: "runtime_answer hv proc now interval answer rc = (a, rc')" "collect_observation hv proc cgroup mount_points (Some a) = Inr ob"
    using assms by (auto simp: runtime_observation_def split: prod.splits)
  note registry = collected_parts(2) [OF a(2)]
  show ?thesis
  proof (cases "runtime_gate_shut hv proc now interval rc")
    case True
    then have "\<exists>reason meta. a = Inr (withheld reason meta)"
      using a(1) by (auto simp: runtime_answer_def runtime_gate_shut_def split: prod.splits)
    then show ?thesis using registry by (auto simp: containers_of_def collector_answer_def withheld_def Let_def)
  next
    case False
    then have "(\<exists>e. a = Inl (error_name e)) \<or> (\<exists>d collected. answer = Inr collected \<and> a = Inr (with_decision d collected))"
      using a(1) by (auto simp: runtime_answer_def runtime_gate_shut_def split: prod.splits sum.splits)
    then show ?thesis
    proof (elim disjE exE conjE)
      fix e
      assume "a = Inl (error_name e)"
      then show ?thesis using registry by (auto simp: containers_of_def collector_answer_def Let_def)
    next
      fix d collected
      assume ans: "answer = Inr collected" "a = Inr (with_decision d collected)"
      then have "dget ob ''object_registry'' =
          (case dget collected ''object_registry'' of PDict d \<Rightarrow> PDict d | _ \<Rightarrow> PDict (registry_down ''collector_object_registry_missing''))"
        using registry by (simp add: containers_of_def collector_answer_def with_decision_def Let_def split: pyval.split)
      with ans(1) False show ?thesis by blast
    qed
  qed
qed

lemma registry_down_simps [simp]:
  "dget (registry_down reason) ''status'' = PStr ''unavailable''" "dget_default (registry_down reason) ''objects'' v = PList []"
  by (simp_all add: registry_down_def dget_default_def)

text \<open>
  C5.  The runtime makes an intent only from an observation for which its pressure gate was open and the collector
  answered with a snapshot that lists the target: while the host is under suspension pressure, or a collection is not
  due, or the collector cannot be reached, there is nothing to act on.
\<close>

theorem runtime_intent_needs_collector:
  "case runtime_observation hv proc cgroup mount_points now interval answer rc of
     (Inl x, rc') \<Rightarrow> True
   | (Inr ob, rc') \<Rightarrow>
       (case sample env ob s of
          (Inl x, s') \<Rightarrow> True
        | (Inr event, s') \<Rightarrow>
            (case action_intent_from_event rep iso_at sha expected issued ttl (PDict (finalize_observer_event emergency he event)) of
               Inl reason \<Rightarrow> True
             | Inr intent \<Rightarrow> \<not> runtime_gate_shut hv proc now interval rc \<and>
                 (\<exists>collected row. answer = Inr collected \<and> entry_id row = Some (gi_target_id intent) \<and>
                    PDict row \<in> set (list_value (dget (mapping_of (dget collected ''object_registry'')) ''objects'')))))"
proof -
  have "\<not> runtime_gate_shut hv proc now interval rc \<and>
      (\<exists>collected row. answer = Inr collected \<and> entry_id row = Some (gi_target_id intent) \<and>
         PDict row \<in> set (list_value (dget (mapping_of (dget collected ''object_registry'')) ''objects'')))"
    if ob: "runtime_observation hv proc cgroup mount_points now interval answer rc = (Inr ob, rc')" and run: "sample env ob s = (Inr event, s')"
      and intent: "action_intent_from_event rep iso_at sha expected issued ttl (PDict (finalize_observer_event emergency he event)) = Inr intent"
    for ob rc' event s' intent
  proof -
    obtain r s1 where parts: "compose_event env s1 ob r = Inr event" by (rule sample_composed [OF run])
    obtain row where row: "PDict row \<in> set (registry_rows ob)" "entry_id row = Some (gi_target_id intent)"
      using composed_target [OF parts intent] by blast
    then have none: "dget ob ''object_registry'' \<noteq> PDict (registry_down reason)" for reason
      by (auto simp: registry_rows_def)
    with runtime_registry [OF ob] obtain collected where open_gate: "\<not> runtime_gate_shut hv proc now interval rc" "answer = Inr collected"
      "dget ob ''object_registry'' = (case dget collected ''object_registry'' of PDict d \<Rightarrow> PDict d
         | _ \<Rightarrow> PDict (registry_down ''collector_object_registry_missing''))"
      by blast
    then have "dget ob ''object_registry'' = dget collected ''object_registry''"
      using none [of "''collector_object_registry_missing''"]
      by (cases "dget collected ''object_registry''") simp_all
    note open_gate = open_gate(1,2) this
    have "PDict row \<in> set (list_value (dget (mapping_of (dget collected ''object_registry'')) ''objects''))"
      using row(1) open_gate(3) by (auto simp: registry_rows_def dget_def dget_default_def split: option.splits)
    with row(2) open_gate(1,2) show ?thesis by blast
  qed
  then show ?thesis by (simp only: split: sum.split prod.split) blast
qed

section \<open>Revalidation under pressure\<close>

lemma check_target_down:
  assumes "dget event ''signals'' = PDict ob" "dget ob ''object_registry'' = PDict (registry_down reason)"
  shows "\<not> isl (check_target rep intent target event) \<Longrightarrow> False"
  using assms by (simp add: check_target_def registry_block_def)

lemma down_not_accepted:
  assumes "revalidate_observer_event rep policy_sha wall ticks intent original (PDict event) policy expected now_epoch now_monotonic = Inr r"
    and "dget event ''signals'' = PDict ob" "dget ob ''object_registry'' = PDict (registry_down reason)"
  shows "\<not> fr_accepted r"
proof
  assume "fr_accepted r"
  from revalidate_accepted [OF assms(1) this] obtain target origin clock where
    "check_fresh rep policy_sha policy expected intent target origin clock event = Inr r" by auto
  with \<open>fr_accepted r\<close> check_target_down [OF assms(2,3), of rep intent target] show False
    by (auto simp: check_fresh_def Let_def split: option.splits if_splits sum.splits)
qed

lemma degraded_not_due:
  assumes "g_state g = DEGRADED" "now - before < 45"
  shows "\<not> should_collect g now (Some before) interval"
proof -
  have "\<not> fle (fscale 3 (fmax x (Fin 15))) (Fin (now - before))" for x
    using assms(2) by (cases x) (auto simp: fmax_def)
  then show ?thesis
    using assms(1) by (simp add: should_collect_def MIN_DEGRADED_INTERVAL_SECONDS_def DEGRADED_COLLECTION_MULTIPLIER_def split: sum.split)
      (use assms(2) in simp)
qed

text \<open>
  C7.  While the gate is degraded (memory at or below ten percent is enough), a sample taken within 45 seconds of the last collection has
  no containers, so that the fresh revalidation of an action always refuses: a plan can only be made from a sample that has
  just collected them, and its own revalidation comes too early.
\<close>

theorem degraded_host_never_revalidates:
  assumes "rc_last rc = Some before" "now - before < 45"
    and "g_state (snd (evaluate (fst (gate_texts hv proc)) (snd (gate_texts hv proc)) (rc_gate rc))) = DEGRADED"
  shows "case runtime_observation hv proc cgroup mount_points now interval answer rc of
     (Inl x, rc') \<Rightarrow> True
   | (Inr ob, rc') \<Rightarrow>
       (case sample env ob s of
          (Inl x, s') \<Rightarrow> True
        | (Inr event, s') \<Rightarrow>
            (case revalidate_observer_event rep policy_sha wall ticks intent original (PDict (finalize_observer_event emergency he event)) policy
                expected now_epoch now_monotonic of
               Inl x \<Rightarrow> True
             | Inr r \<Rightarrow> \<not> fr_accepted r))"
proof -
  have shut: "runtime_gate_shut hv proc now interval rc"
    using degraded_not_due [OF assms(3,2)] assms(1) by (simp add: runtime_gate_shut_def gate_shut_def case_prod_beta)
  have "\<not> fr_accepted r"
    if ob: "runtime_observation hv proc cgroup mount_points now interval answer rc = (Inr ob, rc')" and run: "sample env ob s = (Inr event, s')"
      and fresh: "revalidate_observer_event rep policy_sha wall ticks intent original (PDict (finalize_observer_event emergency he event)) policy
        expected now_epoch now_monotonic = Inr r" for ob rc' event s' r
  proof -
    obtain e s1 where "compose_event env s1 ob e = Inr event" by (rule sample_composed [OF run])
    then have "dget (finalize_observer_event emergency he event) ''signals'' = PDict ob" by (simp add: composed_signals)
    moreover obtain reason where "dget ob ''object_registry'' = PDict (registry_down reason)"
      using runtime_registry [OF ob] shut by blast
    ultimately show ?thesis by (rule down_not_accepted [OF fresh])
  qed
  then show ?thesis by (simp only: split: sum.split prod.split) blast
qed

definition low_memory :: "(string \<times> nat) list" where
  "low_memory = [(''MemTotal'', 10000000), (''MemAvailable'', 800000)]"

definition low_host :: host_view where
  "low_host =
     \<lparr>hv_read = (\<lambda>path. if path = below ''/proc'' ''meminfo''
         then Some (meminfo_text low_memory) else None),
      hv_is_dir = (\<lambda>_. False), hv_inode = (\<lambda>_. None), hv_statvfs = (\<lambda>_. Inl ''statvfs''), hv_run = (\<lambda>_. Inl ''docker''),
      hv_json = (\<lambda>_. None), hv_sleep = Inr 1000000, hv_cpu_count = Some 4, hv_monotonic_ns = (\<lambda>n. int n + 1), hv_utc_now = ''now''\<rparr>"

definition low_collector :: runtime_collector where
  "low_collector = \<lparr>rc_gate = new_gate, rc_last = Some 100\<rparr>"

lemma low_paths: "below ''/proc'' ''pressure/memory'' \<noteq> below ''/proc'' ''meminfo''"
  by code_simp

lemma low_texts: "gate_texts low_host ''/proc'' = (Some (meminfo_text low_memory), None)"
  by (simp only: gate_texts_def low_host_def host_view.simps low_paths refl if_True if_False)

lemma low_meminfo:
  "map_of (parse_meminfo (Some (meminfo_text low_memory))) key =
    (if key = ''MemTotal'' then Some 10240000000 else if key = ''MemAvailable'' then Some 819200000 else None)"
proof -
  have keys: "list_all (\<lambda>p. meminfo_key (fst p)) low_memory" by (simp add: low_memory_def meminfo_key_def is_line_break_def)
  have "map_of (rev low_memory) key = (if key = ''MemTotal'' then Some 10000000 else if key = ''MemAvailable'' then Some 800000 else None)"
    by (simp add: low_memory_def)
  then show ?thesis by (simp add: parse_meminfo_def splitlines_meminfo [OF keys] fold_meminfo [OF keys])
qed

lemma low_raw: "raw_state (Some 819200000) (Some 10240000000) None = (DEGRADED, [''memory_available_low''])"
  by (simp add: raw_state_def available_ratio_def SUSPENDED_AVAILABLE_RATIO_def SUSPENDED_AVAILABLE_BYTES_def DEGRADED_AVAILABLE_RATIO_def opt_holds_def)

lemma low_host_degraded:
  "g_state (snd (evaluate (fst (gate_texts low_host ''/proc'')) (snd (gate_texts low_host ''/proc'')) (rc_gate low_collector))) = DEGRADED"
  unfolding low_texts
  by (simp add: evaluate_def gate_signals_def low_meminfo low_raw read_psi_full_avg10_def splitlines_def next_state_def low_collector_def new_gate_def Let_def)

theorem degraded_host_never_revalidates_witness:
  "g_state (snd (evaluate (fst (gate_texts low_host ''/proc'')) (snd (gate_texts low_host ''/proc'')) (rc_gate low_collector))) = DEGRADED \<and>
   (\<forall>env s answer he. case runtime_observation low_host ''/proc'' ''/sys/fs/cgroup'' [''/''] 105 (PInt 5) answer low_collector of
     (Inl x, rc') \<Rightarrow> True
   | (Inr ob, rc') \<Rightarrow>
       (case sample env ob s of
          (Inl x, s') \<Rightarrow> True
        | (Inr event, s') \<Rightarrow>
            (case revalidate_observer_event (se_rep env) (\<lambda>_. []) 0 0 example_intent (PDict []) (PDict (finalize_observer_event True he event))
                (os_policy s) None None None of
               Inl x \<Rightarrow> True
             | Inr r \<Rightarrow> \<not> fr_accepted r)))"
  using degraded_host_never_revalidates [of low_collector 100 105 low_host "''/proc''"] low_host_degraded
  by (simp add: low_collector_def)

end
