(* ===== verification/Guardian_Coordinator_Outcomes.thy ===== *)
theory Guardian_Coordinator_Outcomes
  imports Guardian_Coordinator_Laws
begin

text \<open>
  What the coordinator reports and what the store then holds: unknown outcomes, real executions and
  simulations, with a concrete call.
\<close>

section \<open>The steps of a call\<close>

lemma process_broker:
  assumes "process ce envs gc event args s = (Inr r, s')" "pr_broker r = Some b"
  obtains ev mode intent iid base db1 db2 where
    "mode \<in> {''simulate'', ''enforce''}" "mode = (case pa_mode args of None \<Rightarrow> gc_default_mode gc | Some m \<Rightarrow> m)"
    "claim_stage envs ev intent (pa_now args) base (gs_store s) = (Inr iid, db1)"
    "broker_execute (ce_rep ce) (ce_iso_at ce) (ce_policy_sha ce) envs (gc_broker gc) intent ev iid mode
        (pa_authorization args) (pa_now args) (pa_verifier args) (pa_registry args) db1 (gs_world s) = (b, db2, gs_world s')"
    "settle envs (gc_broker gc) intent iid mode (pa_now args) b (base\<lparr>pr_intent_id := Some iid, pr_broker := Some b\<rparr>) db2 =
       (r, gs_store s')"
    "gs_pending s' = gs_pending s @ (if br_reconcile b then [OutcomeUnknown iid (pr_event_id base)] else [])"
    "pr_execution base = ''NOT_EXECUTED''" "pr_intent base = Some intent" "event = PDict ev"
  using assms(1)
proof (cases rule: process_shape)
  case (acting ev mode notification ob intent base r')
  obtain c db1 where cl: "claim_stage envs ev intent (pa_now args) base (gs_store s) = (c, db1)" by force
  show thesis
  proof (cases c)
    case (Inl x)
    with acting cl assms(2) claim_stage_keeps [of envs ev intent "pa_now args" base "gs_store s" x db1] show thesis
      by (auto simp: act_on_intent_def)
  next
    case (Inr iid)
    obtain b' db2 x where e: "broker_execute (ce_rep ce) (ce_iso_at ce) (ce_policy_sha ce) envs (gc_broker gc) intent ev iid mode
        (pa_authorization args) (pa_now args) (pa_verifier args) (pa_registry args) db1 (gs_world s) = (b', db2, x)"
      by (metis surj_pair)
    obtain r2 db3 where st: "settle envs (gc_broker gc) intent iid mode (pa_now args) b'
        (base\<lparr>pr_intent_id := Some iid, pr_broker := Some b'\<rparr>) db2 = (r2, db3)" by force
    have r: "r = r2" "gs_store s' = db3" "gs_world s' = x"
      "gs_pending s' = gs_pending s @ (if br_reconcile b' then [OutcomeUnknown iid (pr_event_id base)] else [])"
      using acting(11,12) cl Inr e st by (auto simp: act_on_intent_def)
    with settle_keeps [OF st] assms(2) have "b' = b" by simp
    with acting cl Inr e st r show thesis by (intro that) auto
  qed
qed (use assms in auto)

section \<open>Unknown outcomes\<close>

text \<open>A reconciliation is required, and an unfinished intent requires it again after a restart.\<close>

definition stuck :: "'x coordinator_state \<Rightarrow> bool" where
  "stuck s \<longleftrightarrow> gs_pending s \<noteq> [] \<and> (\<exists>iid. unfinished (gs_store s) iid)"

lemma reconcile_unfinished:
  assumes "reconcile_pending env now db = (res, db')" "unfinished db iid"
  shows "unfinished db' iid" "res = Inr items \<Longrightarrow> items \<noteq> []"
proof -
  from assms(2) obtain r where r: "r \<in> set (intents db)" "int_id r = iid" "is_active r" by (auto simp: unfinished_def)
  then have mem: "r \<in> set (pending_rows db)" by (simp add: pending_rows_set)
  let ?r = "r\<lparr>int_state := RECONCILIATION_REQUIRED, int_updated_at := now\<rparr>"
  have "?r \<in> set (park_intents now (int_id ` set (pending_rows db)) (intents db))"
    using r(1) mem by (force simp: park_intents_def)
  moreover have "is_active ?r" by (simp add: is_active_def ACTIVE_INTENT_STATES_def)
  moreover have "intents db' = park_intents now (int_id ` set (pending_rows db)) (intents db) \<or> db' = db"
    using reconcile_db [OF assms(1)] by auto
  moreover have "int_id ?r = iid" using r(2) by simp
  ultimately show "unfinished db' iid" using assms(2) unfolding unfinished_def by metis
  from mem have "pending_items db \<noteq> []" by (auto simp: pending_items_def)
  then show "res = Inr items \<Longrightarrow> items \<noteq> []"
    using reconcile_db [OF assms(1)] by auto
qed

lemma stuck_step: "stuck s \<Longrightarrow> stuck (coordinator_step ce s x) \<and> gs_world (coordinator_step ce s x) = gs_world s"
proof (cases x)
  case (Process envs gc event args)
  assume s: "stuck s"
  obtain out s' where p: "process ce envs gc event args s = (out, s')" by force
  then have "gs_store s' = gs_store s \<and> gs_world s' = gs_world s \<and> gs_pending s' = gs_pending s"
    by (cases rule: process_shape) (use s in \<open>auto simp: stuck_def\<close>)
  with s p Process show ?thesis by (simp add: stuck_def)
next
  case (RegisterApproval env a)
  assume "stuck s"
  moreover have "intents (snd (register_capability env a (gs_store s))) = intents (gs_store s)"
    using register_db [OF prod.collapse [symmetric], of env a "gs_store s"] by auto
  ultimately show ?thesis using RegisterApproval by (simp add: stuck_def unfinished_def)
next
  case (Restart env now gc)
  assume s: "stuck s"
  then obtain iid where "unfinished (gs_store s) iid" by (auto simp: stuck_def)
  with s Restart reconcile_unfinished [OF prod.collapse [symmetric] this, of env now]
  show ?thesis
    by (auto simp: stuck_def make_coordinator_def split: prod.splits sum.splits if_splits)
qed

lemma stuck_run: "stuck s \<Longrightarrow> stuck (exec_all (coordinator_step ce) s ops) \<and> gs_world (exec_all (coordinator_step ce) s ops) = gs_world s"
  by (induction ops arbitrary: s) (simp_all add: stuck_step)

lemma reconcile_stuck:
  assumes "process ce envs gc event args s = (Inr r, s')" "pr_broker r = Some b" "br_reconcile b"
  shows "stuck s'"
  using assms(1,2)
proof (rule process_broker)
  fix ev mode intent iid base db1 db2
  assume cl: "claim_stage envs ev intent (pa_now args) base (gs_store s) = (Inr iid, db1)"
    and e: "broker_execute (ce_rep ce) (ce_iso_at ce) (ce_policy_sha ce) envs (gc_broker gc) intent ev iid mode
        (pa_authorization args) (pa_now args) (pa_verifier args) (pa_registry args) db1 (gs_world s) = (b, db2, gs_world s')"
    and st: "settle envs (gc_broker gc) intent iid mode (pa_now args) b
        (base\<lparr>pr_intent_id := Some iid, pr_broker := Some b\<rparr>) db2 = (r, gs_store s')"
    and p: "gs_pending s' = gs_pending s @ (if br_reconcile b then [OutcomeUnknown iid (pr_event_id base)] else [])"
  from st assms(3) have "gs_store s' = db2" by (simp add: settle_def)
  moreover have "unfinished db2 iid"
    using broker_execute_reach(2) [OF e] claim_stage_passed(4) [OF cl] by simp
  ultimately show ?thesis using p assms(3) by (auto simp: stuck_def)
qed

text \<open>
  C10.  After an adapter call whose outcome is not known, an adapter refusal whose slot could not be
  released, or an unavailable verification (the broker asks for a reconciliation), nothing that
  follows on this store touches the host again: whatever events, approvals and restarts come, the
  world stays as that call left it, and a reconciliation stays required.
\<close>

theorem unknown_outcome_blocks:
  assumes "process ce envs gc event args s = (Inr r, s')" "pr_broker r = Some b" "br_reconcile b"
  shows "gs_world (exec_all (coordinator_step ce) s' ops) = gs_world s' \<and>
    gs_pending (exec_all (coordinator_step ce) s' ops) \<noteq> []"
  using stuck_run [OF reconcile_stuck [OF assms], of ce ops] by (simp add: stuck_def)

section \<open>Real executions\<close>

lemma judge_real:
  assumes "judge_action envs intent iid mode verifier rv now cap cd ar db x = (b, db', x')" "br_execution b = ''REAL''"
  shows "mode \<noteq> ''simulate''" "db' = db" "br_action b = Some ar" "res_executed ar" "\<exists>v. br_verification b = Some v" "\<not> br_reconcile b"
  using assms
  by (auto simp: judge_action_def give_back_def reconcile_reply_def broker_reply_def Let_def
      split: if_splits option.splits prod.splits)

lemma broker_real:
  assumes e: "broker_execute rep iso_at policy_sha envs broker intent event iid mode auth now verifier registry db x = (b, db', x')"
    and real: "br_execution b = ''REAL''"
    and row: "find_intent db iid = Some row" "intent_target row = (gi_host_id intent, gi_target_id intent, gi_action intent)"
  obtains ar v where "mode \<noteq> ''simulate''" "br_action b = Some ar" "res_executed ar" "br_verification b = Some v"
    "\<not> br_reconcile b" "started db' iid (gi_host_id intent) (gi_target_id intent) (gi_action intent)"
  using e
proof (cases rule: broker_shape)
  case (stopped rv)
  with real show thesis by (simp add: uncalled_def)
next
  case (reached rv x1 why db1 db2 cap db3)
  have "find_intent db3 iid = Some row"
    using row(1) stage_intents(1) [OF reached(3)] stage_intents(2) [OF reached(5)] stage_intents(3) [OF reached(6)]
    by (simp add: find_intent_def)
  moreover obtain ar dbc x2 where c: "mark_execution_started (envs 6) iid now db3 = (Inr True, dbc)"
    "judge_action envs intent iid mode verifier rv now cap why ar dbc x2 = (b, db', x')"
    using reached(7) real
    by (auto simp: call_stage_def give_back_def reconcile_reply_def broker_reply_def Let_def
        split: sum.splits prod.splits bool.splits option.splits adapter_outcome.splits)
  ultimately have "started dbc iid (gi_host_id intent) (gi_target_id intent) (gi_action intent)"
    using mark_started(1) row(2) by blast
  with judge_real [OF c(2) real] show thesis by (auto intro: that)
qed

lemma released_slot:
  "release_action_slot env host action iid now db = (Inr True, db') \<Longrightarrow> 
   intents db' = intents db \<and> filter (slot_matches host action iid) (action_slots db') = []"
  by (auto simp: release_action_slot_def transaction_Inr audit_def Let_def filter_empty_conv split: option.splits if_splits sum.splits)

lemma settle_real:
  assumes "settle envs broker intent iid mode now b base db = (r, db')"
    and "mode \<noteq> ''simulate''" "br_action b = Some ar" "res_executed ar" "br_verification b = Some v" "\<not> br_reconcile b"
    and "started db iid h t a" "br_execution b = ''REAL''" "pr_execution base = ''NOT_EXECUTED''"
  shows "if pr_execution r = ''REAL''
    then recorded_as db' iid (h, t, a) (if res_returncode ar = Some 0 \<and> tl_host_mitigated v then SUCCEEDED else FAILED) \<and>
      filter (slot_matches (gi_host_id intent) (gi_action intent) iid) (action_slots db') = [] \<and>
      (pr_state r \<in> {''mitigated'', ''business_recovered''} \<longrightarrow> res_returncode ar = Some 0 \<and> tl_host_mitigated v)
    else pr_execution r = ''NOT_EXECUTED'' \<and> pr_state r = ''manual_reconciliation_required''"
proof -
  let ?ok = "res_returncode ar = Some 0 \<and> tl_host_mitigated v"
  note d = assms(1) [unfolded settle_def executed_stage_def Let_def]
  obtain r1 db1 where rec: "record_result (envs 8) iid (verified_payload b ar) ?ok True now db = (r1, db1)" by force
  show ?thesis
  proof (cases r1)
    case (Inl e)
    with d rec assms(2-9) show ?thesis by auto
  next
    case (Inr st)
    with rec record_result_state [OF _ assms(7)] have "recorded_as db1 iid (h, t, a) (if ?ok then SUCCEEDED else FAILED)"
      by (fastforce simp: recorded_as_def final_state_def)
    moreover obtain r2 db2 where act: "record_action (envs 9) (gi_host_id intent) GLOBAL_COOLDOWN_OBJECT (gi_action intent) now ?ok db1 = (r2, db2)"
      by force
    moreover obtain r3 db3 where rel: "release_action_slot (envs 11) (gi_host_id intent) (gi_action intent) iid now db2 = (r3, db3)" by force
    ultimately have "r3 = Inr True \<Longrightarrow> recorded_as db3 iid (h, t, a) (if ?ok then SUCCEEDED else FAILED) \<and>
        filter (slot_matches (gi_host_id intent) (gi_action intent) iid) (action_slots db3) = []"
      using released_slot intents_frame(5) [OF act] by (fastforce simp: recorded_as_def find_intent_def)
    with d rec Inr act rel assms(2-9) show ?thesis
      by (auto simp: executed_outcome_def Let_def split: sum.splits bool.splits if_splits)
  qed
qed

text \<open>
  C11.  A real execution is never reported as anything else and never better than it was: either the
  intent is recorded, as SUCCEEDED exactly when the action ended with code 0 and the host was found
  mitigated, the slot is free again, and the event is reported mitigated or recovered in that case
  only; or its result could not be stored, and a manual reconciliation is required.
\<close>

theorem real_execution_reported:
  assumes "process ce envs gc event args s = (Inr r, s')" "pr_broker r = Some b" "br_execution b = ''REAL''"
  shows "\<exists>intent iid ar v. pr_intent r = Some intent \<and> pr_intent_id r = Some iid \<and>
    br_action b = Some ar \<and> res_executed ar \<and> br_verification b = Some v \<and>
    (if pr_execution r = ''REAL''
     then recorded_as (gs_store s') iid (gi_host_id intent, gi_target_id intent, gi_action intent)
            (if res_returncode ar = Some 0 \<and> tl_host_mitigated v then SUCCEEDED else FAILED) \<and>
          filter (slot_matches (gi_host_id intent) (gi_action intent) iid) (action_slots (gs_store s')) = [] \<and>
          (pr_state r \<in> {''mitigated'', ''business_recovered''} \<longrightarrow> res_returncode ar = Some 0 \<and> tl_host_mitigated v)
     else pr_execution r = ''NOT_EXECUTED'' \<and> pr_state r = ''manual_reconciliation_required'')"
  using assms(1,2)
proof (rule process_broker)
  fix ev mode intent iid base db1 db2
  assume cl: "claim_stage envs ev intent (pa_now args) base (gs_store s) = (Inr iid, db1)"
    and e: "broker_execute (ce_rep ce) (ce_iso_at ce) (ce_policy_sha ce) envs (gc_broker gc) intent ev iid mode
        (pa_authorization args) (pa_now args) (pa_verifier args) (pa_registry args) db1 (gs_world s) = (b, db2, gs_world s')"
    and st: "settle envs (gc_broker gc) intent iid mode (pa_now args) b
        (base\<lparr>pr_intent_id := Some iid, pr_broker := Some b\<rparr>) db2 = (r, gs_store s')"
    and base: "pr_execution base = ''NOT_EXECUTED''" "pr_intent base = Some intent"
  from claim_stage_passed(3) [OF cl] obtain row where "find_intent db1 iid = Some row"
    "intent_target row = (gi_host_id intent, gi_target_id intent, gi_action intent)" by blast
  from broker_real [OF e assms(3) this] obtain ar v where "mode \<noteq> ''simulate''" and ar: "br_action b = Some ar" "res_executed ar"
    "br_verification b = Some v" and "\<not> br_reconcile b" "started db2 iid (gi_host_id intent) (gi_target_id intent) (gi_action intent)" by metis
  note settle_real [OF st this(1) ar this(5,6) assms(3)]
  with settle_keeps [OF st] ar base show ?thesis by auto
qed

text \<open>
  C15.  When the result of a real execution cannot be stored, the report of the coordinator says
  NOT_EXECUTED, the default of the field, although the broker's says REAL, and no reconciliation is
  noted for the events that follow.
\<close>

theorem lost_result_reported_not_executed:
  assumes "process ce envs gc event args s = (Inr r, s')" "pr_broker r = Some b" "br_execution b = ''REAL''"
    and "open_error (envs 8) = Some e"
  shows "pr_execution r = ''NOT_EXECUTED'' \<and> pr_state r = ''manual_reconciliation_required'' \<and> gs_pending s' = gs_pending s"
  using assms(1,2)
proof (rule process_broker)
  fix ev mode intent iid base db1 db2
  assume cl: "claim_stage envs ev intent (pa_now args) base (gs_store s) = (Inr iid, db1)"
    and e: "broker_execute (ce_rep ce) (ce_iso_at ce) (ce_policy_sha ce) envs (gc_broker gc) intent ev iid mode
        (pa_authorization args) (pa_now args) (pa_verifier args) (pa_registry args) db1 (gs_world s) = (b, db2, gs_world s')"
    and st: "settle envs (gc_broker gc) intent iid mode (pa_now args) b
        (base\<lparr>pr_intent_id := Some iid, pr_broker := Some b\<rparr>) db2 = (r, gs_store s')"
    and p: "gs_pending s' = gs_pending s @ (if br_reconcile b then [OutcomeUnknown iid (pr_event_id base)] else [])"
    and base: "pr_execution base = ''NOT_EXECUTED''"
  from claim_stage_passed(3) [OF cl] obtain row where "find_intent db1 iid = Some row"
    "intent_target row = (gi_host_id intent, gi_target_id intent, gi_action intent)" by blast
  from broker_real [OF e assms(3) this] obtain ar v where ar: "mode \<noteq> ''simulate''" "br_action b = Some ar" "res_executed ar"
    "\<not> br_reconcile b" "br_verification b = Some v" by metis
  obtain m where "record_result (envs 8) iid (verified_payload b ar) (res_returncode ar = Some 0 \<and> tl_host_mitigated v) True
      (pa_now args) db2 = (Inl m, db2)"
    using assms(4) by (simp add: record_result_def transaction_def)
  with st ar base p show ?thesis by (auto simp: settle_def executed_stage_def Let_def)
qed

section \<open>Refused starts and simulations\<close>

text \<open>
  When the store cannot mark the intent as started, the adapter is not called, the world is as
  the fresh revalidation left it, but the broker answers as if the outcome of a call were unknown: a
  reconciliation is required, which blocks all further actions.
\<close>

theorem unmarked_start_blocks:
  assumes "process ce envs gc event args s = (Inr r, s')" "pr_broker r = Some b" "br_called b" "open_error (envs 6) = Some e"
  shows "pr_state r = ''manual_reconciliation_required'' \<and> pr_reasons r = [''adapter_outcome_unknown''] \<and> gs_pending s' \<noteq> [] \<and>
    (\<exists>intent ev mode rv. pr_intent r = Some intent \<and> event = PDict ev \<and>
       revalidate_stage (gc_broker gc) intent ev mode (gs_world s) = (rv, gs_world s'))"
  using assms(1,2)
proof (rule process_broker)
  fix ev mode intent iid base db1 db2
  assume e: "broker_execute (ce_rep ce) (ce_iso_at ce) (ce_policy_sha ce) envs (gc_broker gc) intent ev iid mode
        (pa_authorization args) (pa_now args) (pa_verifier args) (pa_registry args) db1 (gs_world s) = (b, db2, gs_world s')"
    and st: "settle envs (gc_broker gc) intent iid mode (pa_now args) b
        (base\<lparr>pr_intent_id := Some iid, pr_broker := Some b\<rparr>) db2 = (r, gs_store s')"
    and p: "gs_pending s' = gs_pending s @ (if br_reconcile b then [OutcomeUnknown iid (pr_event_id base)] else [])"
    and base: "pr_intent base = Some intent" "event = PDict ev"
  have mark: "\<exists>m. mark_execution_started (envs 6) iid now db = (Inl m, db)" for now db
    using assms(4) by (simp add: mark_execution_started_def transaction_def)
  from e show ?thesis
  proof (cases rule: broker_shape)
    case (stopped rv)
    with assms(3) show ?thesis by (simp add: uncalled_def)
  next
    case (reached rv x1 why db1' db2' cap db3)
    from mark [of "pa_now args" db3] reached(7)
    have "br_reconcile b" "br_reasons b = [''adapter_outcome_unknown'']" "gs_world s' = x1"
      by (auto simp: call_stage_def reconcile_reply_def broker_reply_def Let_def)
    moreover from reached(1) this have "\<exists>mode rv. revalidate_stage (gc_broker gc) intent ev mode (gs_world s) = (rv, gs_world s')" by blast
    moreover from st calculation have "r = base\<lparr>pr_intent_id := Some iid, pr_broker := Some b, pr_state := ''manual_reconciliation_required'',
        pr_reasons := br_reasons b, pr_manual_handoff := True, pr_execution := br_execution b\<rparr>" by (simp add: settle_def)
    ultimately show ?thesis using p base by auto
  qed
qed

lemma broker_unexecuted:
  assumes e: "broker_execute rep iso_at policy_sha envs broker intent event iid mode auth now verifier registry db x = (b, db', x')"
    and b: "br_action b = Some ar" "\<not> res_executed ar" "\<not> br_reconcile b"
  shows "filter (slot_matches (gi_host_id intent) (gi_action intent) iid) (action_slots db') = []"
  using e
proof (cases rule: broker_shape)
  case (stopped rv)
  with b(1) show ?thesis by (simp add: uncalled_def)
next
  case (reached rv x1 why db1 db2 cap db3)
  obtain dbc x2 ar' where c: "judge_action envs intent iid mode verifier rv now cap why ar' dbc x2 = (b, db', x')"
    using reached(7) b
    by (auto simp: call_stage_def give_back_def reconcile_reply_def broker_reply_def Let_def
        split: sum.splits prod.splits bool.splits option.splits adapter_outcome.splits)
  then have "\<exists>db4. release_action_slot (envs 7) (gi_host_id intent) (gi_action intent) iid now db4 = (Inr True, db')"
    using b
    by (auto simp: judge_action_def give_back_def release_slot_def reconcile_reply_def broker_reply_def Let_def
        split: if_splits option.splits prod.splits sum.splits bool.splits)
  with released_slot show ?thesis by blast
qed

lemma unmatched_not_released:
  "filter (slot_matches host action iid) (action_slots db) = [] \<Longrightarrow> fst (release_action_slot env host action iid now db) \<noteq> Inr True"
  by (auto simp: release_action_slot_def transaction_def audit_def Let_def filter_empty_conv find_slot_def slot_matches_def stmt_def find_Some_iff
      split: option.splits if_splits sum.splits dest: nth_mem)

text \<open>
  A simulation whose fake adapter executes nothing, with its slot released, cannot end: the
  broker has released the slot, the coordinator releases it a second time, which fails, and asks
  for a manual reconciliation of an action that never happened.
\<close>

theorem unexecuted_simulation_handoff:
  assumes "process ce envs gc event args s = (Inr r, s')" "(case pa_mode args of None \<Rightarrow> gc_default_mode gc | Some m \<Rightarrow> m) = ''simulate''"
    and "pr_broker r = Some b" "br_action b = Some ar" "\<not> res_executed ar" "\<not> br_reconcile b"
  shows "pr_state r = ''manual_reconciliation_required'' \<and> pr_manual_handoff r"
  using assms(1,3)
proof (rule process_broker)
  fix ev mode intent iid base db1 db2
  assume mode: "mode = (case pa_mode args of None \<Rightarrow> gc_default_mode gc | Some m \<Rightarrow> m)"
    and e: "broker_execute (ce_rep ce) (ce_iso_at ce) (ce_policy_sha ce) envs (gc_broker gc) intent ev iid mode
        (pa_authorization args) (pa_now args) (pa_verifier args) (pa_registry args) db1 (gs_world s) = (b, db2, gs_world s')"
    and st: "settle envs (gc_broker gc) intent iid mode (pa_now args) b
        (base\<lparr>pr_intent_id := Some iid, pr_broker := Some b\<rparr>) db2 = (r, gs_store s')"
  note free = broker_unexecuted [OF e assms(4-6)]
  obtain r1 db3 where rec: "record_result (envs 8) iid (simulation_payload b ar) False False (pa_now args) db2 = (r1, db3)" by force
  then have "action_slots db3 = action_slots db2" using slots_frame by (metis prod.sel(2))
  with free have "fst (release_action_slot (envs 11) (gi_host_id intent) (gi_action intent) iid (pa_now args) db3) \<noteq> Inr True"
    by (simp add: unmatched_not_released)
  with st rec mode assms(2,4-6) show ?thesis
    by (auto simp: settle_def simulation_stage_def Let_def split: sum.splits prod.splits bool.splits)
qed

section \<open>A concrete call\<close>

definition demo_target :: string where
  "demo_target = replicate 64 CHR ''a''"

definition demo_plan :: pydict where
  "demo_plan =
     [(''schema'', PStr EMERGENCY_SHEDDING_SCHEMA), (''plan_id'', PStr ''p1''), (''resource_kind'', PStr ''memory''),
      (''target_id'', PStr demo_target),
      (''target'', PDict [(''id'', PStr demo_target), (''created_at'', PStr ''2026-01-01''), (''cgroup_path'', PStr ''/docker''),
         (''cgroup_inode'', PInt 12), (''labels'', PDict [])]),
      (''action'', PStr ''graceful_stop''), (''root_cause_claimed'', PBool False), (''policy_digest'', PStr (replicate 64 CHR ''c'')),
      (''config_digest'', PStr (replicate 64 CHR ''d'')), (''expires_at'', PStr ''2026-01-02'')]"

definition demo_event :: pydict where
  "demo_event =
     [(''event_id'', PStr ''e1''), (''state'', PStr ''critical''), (''sample_id'', PStr ''s1''), (''host_id'', PStr ''h''),
      (''observed_at'', PStr ''t''), (''observed_monotonic_ns'', PInt 5),
      (''decision'', PDict [(''reason_codes'', PList [PStr ''r''])]),
      (''emergency_shedding'', PDict [(''plan'', PDict demo_plan),
         (''decision'', PDict [(''action'', PStr ''graceful_stop''), (''resource_kind'', PStr ''memory'')])]),
      (''resource_evaluations'', PDict [(''memory'', PDict [(''risk'', PDict [(''danger_confirmed'', PBool True)])])])]"

definition demo_policy :: shedding_policy where
  "demo_policy = default_policy\<lparr>sp_actionable_set :=
     [PDict [(''stable_id'', PStr demo_target), (''allowed_resources'', PList [PStr ''memory'']), (''action'', PStr ''graceful_stop''),
             (''environment'', PStr ''local-disposable''), (''expires_at'', PStr ''2026-01-02'')]]\<rparr>"

definition demo_env :: coordinator_env where
  "demo_env = \<lparr>ce_rep = (\<lambda>_. []), ce_exn_text = (\<lambda>_. []), ce_iso_at = (\<lambda>_. Epoch 500), ce_sha = (\<lambda>t. t),
     ce_policy_sha = (\<lambda>_. replicate 64 CHR ''c''), ce_codec = \<lparr>co_canonical = (\<lambda>_. Some []), co_sha256 = (\<lambda>t. t)\<rparr>,
     ce_outbox_policy = \<lparr>op_max_attempts = 3, op_max_age_ns = 300, op_rate_limit_count = 10, op_rate_limit_window_ns = 60000000000,
       op_max_pending = 1, op_max_payload_bytes = 1024\<rparr>\<rparr>"

definition demo_fresh :: fresh_revalidation where
  "demo_fresh = \<lparr>fr_accepted = True, fr_reason_codes = [], fr_event_id = Some ''e2'', fr_sample_id = Some ''s2'',
     fr_observed_monotonic_ns = Some (PInt 6),
     fr_registry = [[(''id'', PStr demo_target), (''created_at'', PStr ''2026-01-01''), (''cgroup_path'', PStr ''/docker''),
       (''cgroup_inode'', PInt 12), (''labels'', PDict []), (''status'', PStr ''running'')]],
     fr_event = demo_event\<rparr>"

text \<open>A coordinator whose adapter counts its calls in the world and ends with \<open>out\<close>.\<close>

definition demo_coordinator :: "bool \<Rightarrow> adapter_outcome \<Rightarrow> nat coordinator" where
  "demo_coordinator fake out =
     \<lparr>gc_default_mode = ''observe'', gc_plan_ttl = PFloat (Fin 30),
      gc_broker = \<lparr>ab_policy = demo_policy,
        ab_adapter = \<lparr>ad_fake = fake, ad_managed = True, ad_run = (\<lambda>_ _ _ _ n. (out, n + 1))\<rparr>,
        ab_cooldown_seconds = 30, ab_max_actions = 1, ab_action_window = 300, ab_max_failures = 2,
        ab_provider = Some (\<lambda>_ _ n. (Provided demo_fresh, n))\<rparr>\<rparr>"

definition demo_args :: "string \<Rightarrow> 'x verifier \<Rightarrow> 'x process_args" where
  "demo_args mode verifier =
     \<lparr>pa_mode = Some mode,
      pa_authorization = Some \<lparr>approval_id = ''a1'', auth_environment = ''local-disposable'', auth_target_id = demo_target,
        auth_action = ''graceful_stop'', auth_expires_at = Fin 1000\<rparr>,
      pa_registry = None, pa_issued = 100, pa_now = 100, pa_wall = 100, pa_monotonic = 9, pa_verifier = verifier\<rparr>"

definition demo_state :: "nat coordinator_state" where
  "demo_state = \<lparr>gs_store = empty_db, gs_outbox = empty_outbox, gs_pending = [], gs_world = 0\<rparr>"

definition demo_done :: "bool \<Rightarrow> action_result" where
  "demo_done executed = \<lparr>res_executed = executed, res_action = ''graceful_stop'', res_target_id = demo_target,
     res_returncode = (if executed then Some 0 else None), res_stdout = [], res_stderr = [], res_reason = ''done''\<rparr>"

definition demo_run :: "(nat \<Rightarrow> sql_env) \<Rightarrow> string \<Rightarrow> adapter_outcome \<Rightarrow> nat verifier \<Rightarrow> (py_exn + coordinator_result) \<times> nat coordinator_state" where
  "demo_run envs mode out verifier =
     process demo_env envs (demo_coordinator (mode = ''simulate'') out) (PDict demo_event) (demo_args mode verifier) demo_state"


definition demo_intent :: guardian_intent where
  "demo_intent = \<lparr>gi_plan_id = ''p1'', gi_event_id = ''e1'', gi_sample_id = ''s1'', gi_observed_monotonic_ns = 5, gi_host_id = ''h'',
     gi_incident_id = ''e1'', gi_resource_kind = ''memory'', gi_target_id = demo_target, gi_target_created_at = ''2026-01-01'',
     gi_target_cgroup_path = ''/docker'', gi_target_cgroup_inode = 12, gi_target_labels = [], gi_action = ''graceful_stop'',
     gi_reason_codes = [''r''], gi_policy_digest = replicate 64 CHR ''c'', gi_config_digest = replicate 64 CHR ''d'',
     gi_idempotency_key = intent_key (\<lambda>t. t) ''h'' demo_target ''graceful_stop'' ''e1'', gi_issued_at = 100, gi_expires_at = 130,
     gi_timeout_seconds = 30\<rparr>"

lemma demo_intent:
  "action_intent_from_event (ce_rep demo_env) (ce_iso_at demo_env) (ce_sha demo_env) (Some (replicate 64 CHR ''c'')) 100 (PFloat (Fin 30)) (PDict demo_event) = Inr demo_intent"
  by code_simp

lemma demo_intent_fields:
  "gi_host_id demo_intent = ''h''" "gi_target_id demo_intent = demo_target" "gi_action demo_intent = ''graceful_stop''"
  "gi_event_id demo_intent = ''e1''" "gi_timeout_seconds demo_intent = 30" 
  by code_simp+

lemma demo_key: "gi_idempotency_key demo_intent = idempotency_key env_ok ''h'' demo_target ''graceful_stop'' ''e1''"
  by code_simp

lemma demo_notify:
  "\<exists>n ob. notify_stage demo_env env_ok (demo_args mode v) mode ''e1'' demo_event empty_outbox = (Inr n, ob)"
proof -
  have "\<not> isl (fst (notify_stage demo_env env_ok (demo_args mode v) mode ''e1'' demo_event empty_outbox))" by code_simp
  then show ?thesis by (metis isl_def prod.collapse sum.collapse(2))
qed

lemma demo_preflight:
  "preflight (ce_rep demo_env) (ce_iso_at demo_env) (ce_policy_sha demo_env) demo_policy demo_intent demo_event ''enforce'' 100 (Some (fr_registry demo_fresh)) (Some demo_event) = Inr None"
  "preflight (ce_rep demo_env) (ce_iso_at demo_env) (ce_policy_sha demo_env) demo_policy demo_intent demo_event ''simulate'' 100 (Some (fr_registry demo_fresh)) (Some demo_event) = Inr None"
  by code_simp+

text \<open>The store after the claim of the intent, the claim of the slot and the start of the execution.\<close>

definition demo_row :: intent_row where
  "demo_row = new_intent env_ok ''h'' demo_target ''graceful_stop'' ''e1'' 100"

lemma demo_claim:
  assumes "envs 1 = env_ok"
  obtains db where "claim_stage envs demo_event demo_intent 100 base empty_db = (Inr ''intent-1'', db)"
    "intents db = [demo_row]" "action_slots db = []" "action_ledger db = (\<lambda>_. None)"
  using assms
  by (simp add: claim_stage_def claim_intent_def store_eval empty_db_def demo_intent_fields demo_key demo_row_def new_intent_def)

lemma demo_cooldown:
  assumes "envs 2 = env_ok" "envs 3 = env_ok" "action_ledger db = (\<lambda>_. None)"
  shows "cooldown_stage envs (gc_broker (demo_coordinator fake out)) demo_intent 100 db = (Inr ''allowed'', db)"
  using assms by (simp add: cooldown_stage_def failure_breaker_def allow_action_def store_eval demo_coordinator_def)

definition demo_slot_row :: slot_row where
  "demo_slot_row = \<lparr>slot_host = ''h'', slot_action = ''graceful_stop'', slot_intent = ''intent-1'', slot_state = SLOT_ACTIVE,
     slot_acquired_at = 100, slot_updated_at = 100\<rparr>"

lemma demo_slot:
  assumes "envs 4 = env_ok" "action_slots db = []"
  obtains db' where "slot_stage envs demo_intent ''intent-1'' 100 db = (Inr (), db')" "intents db' = intents db"
    "action_slots db' = [demo_slot_row]" "action_ledger db' = action_ledger db"
  using assms by (simp add: slot_stage_def claim_action_slot_def store_eval find_slot_def demo_intent_fields demo_slot_row_def)

lemma demo_start:
  assumes "envs 6 = env_ok" "intents db = [demo_row]"
  obtains db' where "mark_execution_started (envs 6) ''intent-1'' 100 db = (Inr True, db')" 
    "intents db' = [demo_row\<lparr>int_state := EXECUTION_STARTED, int_updated_at := 100\<rparr>]" "action_slots db' = action_slots db"
  using assms by (simp add: mark_execution_started_def store_eval demo_row_def new_intent_def)

lemma demo_request:
  "request_stage (gc_broker (demo_coordinator fake out)) ''enforce'' (broker_request demo_intent (pa_authorization (demo_args mode v))) 100 cooldown = Inr ()"
  "request_stage (gc_broker (demo_coordinator True out)) ''simulate'' (broker_request demo_intent (pa_authorization (demo_args mode v))) 100 cooldown = Inr ()"
  by code_simp+

lemma demo_gate:
  "mapping_of (dget (mapping_of (dget demo_event ''evidence'')) ''runtime_gate'') = []"
  "py_str rep (py_or (dget demo_event ''event_id'') (PStr [])) = ''e1''"
  by code_simp+

lemma demo_process:
  assumes mode: "mode = ''enforce'' \<or> mode = ''simulate'' \<and> fake"
    and ok: "envs 0 = env_ok" "envs 1 = env_ok" "envs 2 = env_ok" "envs 3 = env_ok" "envs 4 = env_ok"
  obtains db base ob capability where
    "intents db = [demo_row]" "action_slots db = [demo_slot_row]" "action_ledger db = (\<lambda>_. None)"
    "process demo_env envs (demo_coordinator fake out) (PDict demo_event) (demo_args mode v) demo_state =
       (case call_stage envs (gc_broker (demo_coordinator fake out)) demo_intent ''intent-1'' mode
              (broker_request demo_intent (pa_authorization (demo_args mode v))) v (Some demo_fresh) 100 capability ''allowed'' db 0 of
          (b, db2, x) \<Rightarrow>
            (case settle envs (gc_broker (demo_coordinator fake out)) demo_intent ''intent-1'' mode 100 b
                    (base\<lparr>pr_intent_id := Some ''intent-1'', pr_broker := Some b\<rparr>) db2 of
               (r, db3) \<Rightarrow> (Inr r, \<lparr>gs_store = db3, gs_outbox = ob,
                  gs_pending = (if br_reconcile b then [OutcomeUnknown ''intent-1'' ''e1''] else []), gs_world = x\<rparr>)))"
proof -
  obtain n ob where n: "notify_stage demo_env env_ok (demo_args mode v) mode ''e1'' demo_event empty_outbox = (Inr n, ob)"
    using demo_notify by blast
  define base where "base = (process_reply mode ''denied'' ''e1'' [])\<lparr>pr_notification := n, pr_intent := Some demo_intent\<rparr>"
  obtain db1 where c: "claim_stage envs demo_event demo_intent 100 base empty_db = (Inr ''intent-1'', db1)"
    "intents db1 = [demo_row]" "action_slots db1 = []" "action_ledger db1 = (\<lambda>_. None)"
    using demo_claim [of envs base] ok(2) by metis
  note cool = demo_cooldown [of envs db1 fake out, OF ok(3,4) c(4)]
  obtain db2 where sl: "slot_stage envs demo_intent ''intent-1'' 100 db1 = (Inr (), db2)" "intents db2 = intents db1"
    "action_slots db2 = [demo_slot_row]" "action_ledger db2 = action_ledger db1"
    using demo_slot [of envs db1] ok(5) c(3) by metis
  have req: "request_stage (gc_broker (demo_coordinator fake out)) mode (broker_request demo_intent (pa_authorization (demo_args mode v))) 100 cooldown = Inr ()" for cooldown
    using mode demo_request by auto
  have pre: "preflight (ce_rep demo_env) (ce_iso_at demo_env) (ce_policy_sha demo_env) demo_policy demo_intent demo_event mode 100 (Some (fr_registry demo_fresh)) (Some demo_event) = Inr None"
    using mode demo_preflight by auto
  obtain capability where cap: "capability_stage envs (gc_broker (demo_coordinator fake out)) demo_intent ''intent-1'' mode a 100 ''allowed'' db2 = (Inr capability, db2)" for a
    by (cases "mode = ''enforce''") (auto simp: capability_stage_def demo_coordinator_def)
  have rev: "revalidate_stage (gc_broker (demo_coordinator fake out)) demo_intent demo_event mode 0 = (Inr (Some demo_fresh), 0)"
    using mode by (auto simp: revalidate_stage_def demo_coordinator_def demo_fresh_def)
  have fe: "fr_event demo_fresh = demo_event" by (simp add: demo_fresh_def)
  have args: "pa_now (demo_args mode v) = 100" "pa_issued (demo_args mode v) = 100" "pa_verifier (demo_args mode v) = v" "pa_mode (demo_args mode v) = Some mode" for mode v
    by (simp_all add: demo_args_def)
  have br: "ab_policy (gc_broker (demo_coordinator fake out)) = demo_policy" "gc_plan_ttl (demo_coordinator fake out) = PFloat (Fin 30)"
    by (simp_all add: demo_coordinator_def)
  have sha: "ce_policy_sha demo_env p = replicate 64 CHR ''c''" for p by (simp add: demo_env_def)
  have st: "gs_store demo_state = empty_db" "gs_outbox demo_state = empty_outbox" "gs_pending demo_state = []" "gs_world demo_state = 0"
    by (simp_all add: demo_state_def)
  have ev: "pr_event_id base = ''e1''" by (simp add: base_def process_reply_def)
  have modes: "mode \<in> set SUPPORTED_MODES" "mode \<noteq> ''observe''" using mode by (auto simp: SUPPORTED_MODES_def)
  have e: "broker_execute (ce_rep demo_env) (ce_iso_at demo_env) (ce_policy_sha demo_env) envs (gc_broker (demo_coordinator fake out)) demo_intent
      demo_event ''intent-1'' mode (pa_authorization (demo_args mode v)) 100 v reg db1 0 =
    call_stage envs (gc_broker (demo_coordinator fake out)) demo_intent ''intent-1'' mode
              (broker_request demo_intent (pa_authorization (demo_args mode v))) v (Some demo_fresh) 100 capability ''allowed'' db2 0" for reg
    by (simp add: broker_execute_def rev pre br fe cool req sl cap Let_def)
  show thesis
  proof (rule that)
    show "intents db2 = [demo_row]" "action_slots db2 = [demo_slot_row]" "action_ledger db2 = (\<lambda>_. None)" using c sl by simp_all
    show "process demo_env envs (demo_coordinator fake out) (PDict demo_event) (demo_args mode v) demo_state =
       (case call_stage envs (gc_broker (demo_coordinator fake out)) demo_intent ''intent-1'' mode
              (broker_request demo_intent (pa_authorization (demo_args mode v))) v (Some demo_fresh) 100 capability ''allowed'' db2 0 of
          (b, db2, x) \<Rightarrow>
            (case settle envs (gc_broker (demo_coordinator fake out)) demo_intent ''intent-1'' mode 100 b
                    (base\<lparr>pr_intent_id := Some ''intent-1'', pr_broker := Some b\<rparr>) db2 of
               (r, db3) \<Rightarrow> (Inr r, \<lparr>gs_store = db3, gs_outbox = ob,
                  gs_pending = (if br_reconcile b then [OutcomeUnknown ''intent-1'' ''e1''] else []), gs_world = x\<rparr>)))"
      using modes
      by (simp add: process_def demo_gate args ok n st br sha demo_intent act_on_intent_def base_def [symmetric] c(1) e ev Let_def
          split: prod.split)
  qed
qed

text \<open>The store fails at one place only.\<close>

definition demo_faults :: "nat \<Rightarrow> nat \<Rightarrow> sql_env" where
  "demo_faults k i = (if i = k then env_ok\<lparr>open_error := Some ''disk full''\<rparr> else env_ok)"

lemma demo_raised:
  "\<exists>r s' b. demo_run (\<lambda>_. env_ok) ''enforce'' AdapterRaised DefaultVerification = (Inr r, s') \<and> pr_broker r = Some b \<and>
     br_reconcile b \<and> gs_world s' = 1"
proof (rule demo_process [of "''enforce''" False "\<lambda>_. env_ok" AdapterRaised DefaultVerification], goal_cases)
  case (7 db base ob cap)
  from demo_start [of "\<lambda>_. env_ok" db] 7(1) obtain db' where
    "mark_execution_started env_ok ''intent-1'' 100 db = (Inr True, db')" by blast
  then have "call_stage (\<lambda>_. env_ok) (gc_broker (demo_coordinator False AdapterRaised)) demo_intent ''intent-1'' ''enforce'' rq v rv 100 cap cd db 0 =
      ((reconcile_reply [''adapter_outcome_unknown''])\<lparr>br_capability := cap, br_called := True\<rparr>, db', 1)" for rq v rv cd
    by (simp add: call_stage_def demo_coordinator_def)
  with 7(4) show ?case by (simp add: demo_run_def settle_def reconcile_reply_def broker_reply_def)
qed simp_all

lemma demo_unmarked:
  "\<exists>r s' b. demo_run (demo_faults 6) ''enforce'' AdapterRaised DefaultVerification = (Inr r, s') \<and> pr_broker r = Some b \<and> br_called b"
proof (rule demo_process [of "''enforce''" False "demo_faults 6" AdapterRaised DefaultVerification], goal_cases)
  case (7 db base ob cap)
  have "mark_execution_started (demo_faults 6 6) ''intent-1'' 100 db = (Inl ''state_store_open_failed:disk full'', db)"
    by (simp add: mark_execution_started_def demo_faults_def transaction_def)
  then have "call_stage (demo_faults 6) (gc_broker (demo_coordinator False AdapterRaised)) demo_intent ''intent-1'' ''enforce'' rq v rv 100 cap cd db 0 =
      ((reconcile_reply [''adapter_outcome_unknown''])\<lparr>br_capability := cap, br_called := True\<rparr>, db, 0)" for rq v rv cd
    by (simp add: call_stage_def)
  with 7(4) show ?case by (simp add: demo_run_def settle_def reconcile_reply_def broker_reply_def)
qed (simp_all add: demo_faults_def)

lemma demo_executed:
  assumes "k \<in> {8, 12}"
  shows "\<exists>r s' b. demo_run (demo_faults k) ''enforce'' (AdapterDone (demo_done True)) DefaultVerification = (Inr r, s') \<and>
     pr_broker r = Some b \<and> br_execution b = ''REAL''"
proof (rule demo_process [of "''enforce''" False "demo_faults k" "AdapterDone (demo_done True)" DefaultVerification], goal_cases)
  case (7 db base ob cap)
  have "demo_faults k 6 = env_ok" using assms by (auto simp: demo_faults_def)
  from demo_start [of "demo_faults k", OF this 7(1)] obtain db' where
    "mark_execution_started (demo_faults k 6) ''intent-1'' 100 db = (Inr True, db')" by metis
  then have "\<exists>b. call_stage (demo_faults k) (gc_broker (demo_coordinator False (AdapterDone (demo_done True)))) demo_intent ''intent-1'' ''enforce''
      rq DefaultVerification rv 100 cap cd db 0 = (b, db', 1) \<and> br_execution b = ''REAL'' \<and> \<not> br_reconcile b" for rq rv cd
    by (simp add: call_stage_def judge_action_def run_verification_def demo_coordinator_def demo_done_def broker_reply_def Let_def)
  then obtain b where call: "call_stage (demo_faults k) (gc_broker (demo_coordinator False (AdapterDone (demo_done True)))) demo_intent ''intent-1'' ''enforce''
      (broker_request demo_intent (pa_authorization (demo_args ''enforce'' (DefaultVerification :: nat verifier)))) DefaultVerification (Some demo_fresh)
      100 cap ''allowed'' db 0 = (b, db', 1)" "br_execution b = ''REAL''" by blast
  obtain r db3 where st: "settle (demo_faults k) (gc_broker (demo_coordinator False (AdapterDone (demo_done True)))) demo_intent ''intent-1'' ''enforce''
      100 b (base\<lparr>pr_intent_id := Some ''intent-1'', pr_broker := Some b\<rparr>) db' = (r, db3)" by force
  with settle_keeps [OF st] 7(4) call show ?case by (simp add: demo_run_def)
qed (use assms in \<open>auto simp: demo_faults_def\<close>)

lemma demo_simulated:
  "\<exists>r s' b. demo_run (\<lambda>_. env_ok) ''simulate'' (AdapterDone (demo_done False)) DefaultVerification = (Inr r, s') \<and>
     pr_broker r = Some b \<and> br_action b = Some (demo_done False) \<and> \<not> br_reconcile b"
proof (rule demo_process [of "''simulate''" True "\<lambda>_. env_ok" "AdapterDone (demo_done False)" DefaultVerification], goal_cases)
  case (7 db base ob cap)
  from demo_start [of "\<lambda>_. env_ok" db] 7(1,2) obtain db' where m:
    "mark_execution_started env_ok ''intent-1'' 100 db = (Inr True, db')" "action_slots db' = [demo_slot_row]" by auto
  then have "\<exists>d. release_slot env_ok demo_intent ''intent-1'' 100 db' = (None, d)"
    by (simp add: release_slot_def release_action_slot_def store_eval find_slot_def demo_intent_fields demo_slot_row_def)
  with m have "\<exists>b d. call_stage (\<lambda>_. env_ok) (gc_broker (demo_coordinator True (AdapterDone (demo_done False)))) demo_intent ''intent-1'' ''simulate''
      rq DefaultVerification rv 100 cap cd db 0 = (b, d, 1) \<and> br_action b = Some (demo_done False) \<and> \<not> br_reconcile b" for rq rv cd
    by (auto simp: call_stage_def judge_action_def give_back_def demo_coordinator_def demo_done_def broker_reply_def Let_def)
  then obtain b d where call: "call_stage (\<lambda>_. env_ok) (gc_broker (demo_coordinator True (AdapterDone (demo_done False)))) demo_intent ''intent-1'' ''simulate''
      (broker_request demo_intent (pa_authorization (demo_args ''simulate'' (DefaultVerification :: nat verifier)))) DefaultVerification (Some demo_fresh)
      100 cap ''allowed'' db 0 = (b, d, 1)" "br_action b = Some (demo_done False)" "\<not> br_reconcile b" by blast
  obtain r db3 where st: "settle (\<lambda>_. env_ok) (gc_broker (demo_coordinator True (AdapterDone (demo_done False)))) demo_intent ''intent-1'' ''simulate''
      100 b (base\<lparr>pr_intent_id := Some ''intent-1'', pr_broker := Some b\<rparr>) d = (r, db3)" by force
  with settle_keeps [OF st] 7(4) call show ?case by (simp add: demo_run_def)
qed simp_all

theorem unknown_outcome_blocks_witness:
  "\<exists>s'. snd (demo_run (\<lambda>_. env_ok) ''enforce'' AdapterRaised DefaultVerification) = s' \<and> gs_world s' = 1 \<and>
     gs_world (exec_all (coordinator_step demo_env) s' [Restart env_ok 200 (demo_coordinator False AdapterRaised)]) = 1"
proof -
  from demo_raised obtain r s' b where "demo_run (\<lambda>_. env_ok) ''enforce'' AdapterRaised DefaultVerification = (Inr r, s')" "pr_broker r = Some b"
    "br_reconcile b" "gs_world s' = 1" by blast
  with unknown_outcome_blocks [of demo_env "\<lambda>_. env_ok" "demo_coordinator False AdapterRaised" "PDict demo_event"
      "demo_args ''enforce'' DefaultVerification" demo_state r s' b "[Restart env_ok 200 (demo_coordinator False AdapterRaised)]"]
  show ?thesis by (auto simp: demo_run_def)
qed

theorem unmarked_start_blocks_witness:
  "\<exists>r s'. demo_run (demo_faults 6) ''enforce'' AdapterRaised DefaultVerification = (Inr r, s') \<and> pr_reasons r = [''adapter_outcome_unknown''] \<and>
     gs_pending s' \<noteq> []"
proof -
  from demo_unmarked obtain r s' b where d: "demo_run (demo_faults 6) ''enforce'' AdapterRaised DefaultVerification = (Inr r, s')"
    "pr_broker r = Some b" "br_called b" by blast
  have "open_error (demo_faults 6 6) = Some ''disk full''" by (simp add: demo_faults_def)
  with d unmarked_start_blocks [of demo_env "demo_faults 6" "demo_coordinator False AdapterRaised" "PDict demo_event"
      "demo_args ''enforce'' DefaultVerification" demo_state r s' b] show ?thesis by (simp add: demo_run_def)
qed

theorem real_execution_reported_witness:
  "\<exists>r s' b. demo_run (demo_faults 12) ''enforce'' (AdapterDone (demo_done True)) DefaultVerification = (Inr r, s') \<and> pr_broker r = Some b \<and>
     br_execution b = ''REAL'' \<and> (\<exists>ar. br_action b = Some ar \<and> res_executed ar)"
proof -
  from demo_executed obtain r s' b where d: "demo_run (demo_faults 12) ''enforce'' (AdapterDone (demo_done True)) DefaultVerification = (Inr r, s')"
    "pr_broker r = Some b" "br_execution b = ''REAL''" by blast
  with real_execution_reported [of demo_env "demo_faults 12" "demo_coordinator False (AdapterDone (demo_done True))" "PDict demo_event"
      "demo_args ''enforce'' DefaultVerification" demo_state r s' b] show ?thesis by (auto simp: demo_run_def)
qed

theorem lost_result_reported_not_executed_witness:
  "\<exists>r s' b. demo_run (demo_faults 8) ''enforce'' (AdapterDone (demo_done True)) DefaultVerification = (Inr r, s') \<and> pr_broker r = Some b \<and>
     br_execution b = ''REAL'' \<and> pr_execution r = ''NOT_EXECUTED''"
proof -
  from demo_executed obtain r s' b where d: "demo_run (demo_faults 8) ''enforce'' (AdapterDone (demo_done True)) DefaultVerification = (Inr r, s')"
    "pr_broker r = Some b" "br_execution b = ''REAL''" by blast
  have "open_error (demo_faults 8 8) = Some ''disk full''" by (simp add: demo_faults_def)
  with d lost_result_reported_not_executed [of demo_env "demo_faults 8" "demo_coordinator False (AdapterDone (demo_done True))" "PDict demo_event"
      "demo_args ''enforce'' DefaultVerification" demo_state r s' b] show ?thesis by (auto simp: demo_run_def)
qed

theorem unexecuted_simulation_handoff_witness:
  "\<exists>r s' b. demo_run (\<lambda>_. env_ok) ''simulate'' (AdapterDone (demo_done False)) DefaultVerification = (Inr r, s') \<and> pr_broker r = Some b \<and>
     \<not> br_reconcile b \<and> pr_state r = ''manual_reconciliation_required''"
proof -
  from demo_simulated obtain r s' b where "demo_run (\<lambda>_. env_ok) ''simulate'' (AdapterDone (demo_done False)) DefaultVerification = (Inr r, s')"
    "pr_broker r = Some b" "br_action b = Some (demo_done False)" "\<not> br_reconcile b" by blast
  moreover have "\<not> res_executed (demo_done False)" "pa_mode (demo_args ''simulate'' (DefaultVerification :: nat verifier)) = Some ''simulate''"
    by (simp_all add: demo_done_def demo_args_def)
  ultimately show ?thesis
    using unexecuted_simulation_handoff [of demo_env "\<lambda>_. env_ok" "demo_coordinator True (AdapterDone (demo_done False))" "PDict demo_event"
      "demo_args ''simulate'' DefaultVerification" demo_state r s' b "demo_done False"] by (auto simp: demo_run_def)
qed

end
