(* ===== verification/Guardian_Consume.thy ===== *)
theory Guardian_Consume
  imports Guardian_Coordinator_Laws Guardian_Reserve_Broker
begin

text \<open>
  What the orchestrator does with one event (\<open>_consume_one\<close> of \<open>src/guardian_orchestrator.py\<close>): the
  reserve controller plans first; an actionable plan is notified and, in enforce mode, released;
  every other event goes to the coordinator, with the verification of \<open>_verification_provider\<close>.
  The world holds the host, the clock and the observer.  The coordinator is the real one; the result
  audit and the callback, which the runtime does not read, are left out.
\<close>

section \<open>Verification after an action\<close>

record consumer_config =
  oc_mode :: string
  oc_owns :: bool
  oc_authorization :: "authorization option"
  oc_reserve :: reserve_controller
  oc_max_wait :: rat
  oc_poll :: rat
  oc_require_health :: bool

text \<open>The observer, the clock and the sleep; a sample is the event, or \<open>None\<close> when it raises or is no mapping.\<close>

record 'x observer_world =
  ow_sample :: "'x \<Rightarrow> pydict option \<times> 'x"
  ow_clock :: "'x \<Rightarrow> rat \<times> 'x"
  ow_sleep :: "rat \<Rightarrow> 'x \<Rightarrow> 'x"

fun signal_number :: "pyval \<Rightarrow> string list \<Rightarrow> py_exn + pyfloat option" where
  "signal_number v [] =
     (case v of PInt i \<Rightarrow> map_sum id Some (py_float v) | PFloat f \<Rightarrow> Inr (Some f) | _ \<Rightarrow> Inr None)"
| "signal_number v (k # ks) = (if is_dict v then signal_number (dget (mapping_of v) k) ks else Inr None)"

definition oom_total :: "pydict \<Rightarrow> int option" where
  "oom_total event =
     (let counters = mapping_of (dget (mapping_of (dget (mapping_of (dget event ''signals'')) ''cgroup'')) ''memory_events'')
      in case (dget counters ''oom'', dget counters ''oom_kill'') of
           (PInt a, PInt b) \<Rightarrow> if 0 \<le> a \<and> 0 \<le> b then Some (a + b) else None
         | _ \<Rightarrow> None)"

definition resource_risk :: "pydict \<Rightarrow> string \<Rightarrow> pydict" where
  "resource_risk event kind =
     mapping_of (dget (mapping_of (dget (mapping_of (dget event ''resource_evaluations'')) kind)) ''risk'')"

definition target_after :: "(pyval \<Rightarrow> string) \<Rightarrow> pydict \<Rightarrow> string \<Rightarrow> bool \<times> bool \<times> string option" where
  "target_after rep event target_id =
     (let objects = list_value (dget (mapping_of (dget (mapping_of (dget event ''signals'')) ''object_registry'')) ''objects'')
      in case filter (\<lambda>item. is_dict item \<and> dget (mapping_of item) ''id'' = PStr target_id) objects of
           [item] \<Rightarrow>
             (let d = mapping_of item; status = py_lower (py_str rep (py_or (dget d ''status'') (PStr ''unknown'')))
              in (True, status \<in> {''running'', ''restarting''},
                  Some (case as_nonempty_str (dget d ''health'') of None \<Rightarrow> status | Some health \<Rightarrow> health)))
         | _ \<Rightarrow> (False, False, None))"

definition risk_text :: "(pyval \<Rightarrow> string) \<Rightarrow> pydict \<Rightarrow> string \<Rightarrow> string" where
  "risk_text rep event kind =
     py_str rep (py_or (py_or (dget (resource_risk event kind) ''state'') (dget event ''state'')) (PStr ''unknown''))"

text \<open>The host before and after the action; a number too large for a float raises.\<close>

definition host_evidence_of :: "(pyval \<Rightarrow> string) \<Rightarrow> guardian_intent \<Rightarrow> pydict \<Rightarrow> pydict \<Rightarrow> rat \<Rightarrow> py_exn + host_observation" where
  "host_evidence_of rep intent before after elapsed =
     (let kind = gi_resource_kind intent; available = [''memory'', ''available_ratio_percent'']; full = [''psi'', ''memory'', ''full'', ''avg10'']
      in sum_bind (signal_number (dget before ''signals'') available) (\<lambda>before_available.
         sum_bind (signal_number (dget after ''signals'') available) (\<lambda>after_available.
         sum_bind (signal_number (dget before ''signals'') full) (\<lambda>before_psi.
         sum_bind (signal_number (dget after ''signals'') full) (\<lambda>after_psi.
         Inr \<lparr>ho_before_available = before_available, ho_after_available = after_available,
              ho_before_psi = before_psi, ho_after_psi = after_psi, ho_before_oom = oom_total before, ho_after_oom = oom_total after,
              ho_risk_state = risk_text rep after kind, ho_after = Fin elapsed, ho_resource_kind = kind,
              ho_before_state = Some (risk_text rep before kind), ho_after_state = Some (risk_text rep after kind)\<rparr>)))))"

definition verify_sample ::
  "(pyval \<Rightarrow> string) \<Rightarrow> consumer_config \<Rightarrow> guardian_intent \<Rightarrow> pydict \<Rightarrow> pydict \<Rightarrow> rat \<Rightarrow> py_exn + two_layer_result" where
  "verify_sample rep cfg intent before after elapsed =
     map_sum id (\<lambda>host.
       case target_after rep after (gi_target_id intent) of (present, running, health) \<Rightarrow>
         assess_two_layer_recovery (default_host_policy\<lparr>hp_max_wait := Fin (oc_max_wait cfg)\<rparr>) host
           (Some \<lparr>bp_max_wait = Fin (oc_max_wait cfg), bp_healthy = {''healthy'', ''running''},
                  bp_require_probe = oc_require_health cfg, bp_action = gi_action intent\<rparr>)
           (Some \<lparr>bo_target_id = gi_target_id intent, bo_present = present, bo_running = running, bo_health = health,
                  bo_probe_ok = None, bo_after = Fin elapsed\<rparr>)
           (Some (gi_target_id intent)))
       (host_evidence_of rep intent before after elapsed)"

text \<open>The loop of \<open>verify\<close>: \<open>None\<close> out of fuel; a result \<open>None\<close> when it raises.\<close>

fun verify_loop ::
  "nat \<Rightarrow> (pyval \<Rightarrow> string) \<Rightarrow> 'x observer_world \<Rightarrow> consumer_config \<Rightarrow> guardian_intent \<Rightarrow> pydict \<Rightarrow> rat \<Rightarrow> 'x \<Rightarrow>
   (two_layer_result option \<times> 'x) option" where
  "verify_loop 0 rep ow cfg intent before t0 x = None"
| "verify_loop (Suc fuel) rep ow cfg intent before t0 x =
     (case ow_sample ow x of
        (None, x1) \<Rightarrow> Some (None, x1)
      | (Some after, x1) \<Rightarrow>
          (let elapsed = max (fst (ow_clock ow x1) - t0) 0; x2 = snd (ow_clock ow x1)
           in case verify_sample rep cfg intent before after elapsed of
                Inl _ \<Rightarrow> Some (None, x2)
              | Inr latest \<Rightarrow>
                  if tl_host_mitigated latest \<or> oc_max_wait cfg \<le> elapsed then Some (Some latest, x2)
                  else verify_loop fuel rep ow cfg intent before t0
                         (ow_sleep ow (min (oc_poll cfg) (oc_max_wait cfg - elapsed)) x2)))"

definition runtime_verify ::
  "nat \<Rightarrow> (pyval \<Rightarrow> string) \<Rightarrow> 'x observer_world \<Rightarrow> consumer_config \<Rightarrow> pydict \<Rightarrow> guardian_intent \<Rightarrow> 'x \<Rightarrow>
   (two_layer_result option \<times> 'x) option" where
  "runtime_verify fuel rep ow cfg before intent x =
     (case ow_clock ow x of (t0, x') \<Rightarrow> verify_loop fuel rep ow cfg intent before t0 x')"

text \<open>The provider; the case without fuel does not arise (\<open>verification_returns\<close>).\<close>

definition verification_provider ::
  "nat \<Rightarrow> (pyval \<Rightarrow> string) \<Rightarrow> 'x observer_world \<Rightarrow> consumer_config \<Rightarrow> pydict \<Rightarrow> 'x verifier" where
  "verification_provider fuel rep ow cfg before =
     Verifier (\<lambda>intent _ x. case runtime_verify fuel rep ow cfg before intent x of None \<Rightarrow> (None, x) | Some r \<Rightarrow> r)"

section \<open>The reserve\<close>

text \<open>What the reserve controller finds when it is called: the files and the clock.\<close>

record reserve_view =
  rv_files :: reserve_files
  rv_open :: "string \<Rightarrow> json_file"
  rv_now :: rat

definition reserve_actionable :: "pydict \<Rightarrow> bool" where
  "reserve_actionable plan \<longleftrightarrow>
     dget plan ''action'' \<noteq> PStr ''none'' \<and> dget plan ''state'' \<in> {PStr ''observed'', PStr ''simulated'', PStr ''authorized''}"

definition reserve_incident_key :: "(pyval \<Rightarrow> string) \<Rightarrow> pydict \<Rightarrow> string" where
  "reserve_incident_key rep event =
     py_str rep (py_or (py_or (dget event ''incident_id'') (dget event ''event_id'')) (PStr ''reserve''))"

text \<open>\<open>enqueue_notification_event\<close> with its exceptions turned into a rejection.\<close>

definition notify_reserve ::
  "coordinator_env \<Rightarrow> sql_env \<Rightarrow> pydict \<Rightarrow> string \<Rightarrow> int \<Rightarrow> rat \<Rightarrow> outbox_db \<Rightarrow> pydict \<times> outbox_db" where
  "notify_reserve ce env event key tick wall ob =
     (case enqueue_event env (ce_codec ce) (ce_outbox_policy ce) (ce_rep ce) (PDict event) (Some key) tick wall ob of
        (Inl e, ob1) \<Rightarrow>
          ([(''status'', PStr ''rejected''), (''reason'', PStr (''notification_persistence_failed:'' @ outbox_exn_text ce e))], ob1)
      | (Inr n, ob1) \<Rightarrow> (mapping_of (notification_as_dict n), ob1))"

definition queued :: "pydict \<Rightarrow> bool" where
  "queued notification \<longleftrightarrow> dget notification ''status'' = PStr ''queued''"

definition blocked_result :: "(pyval \<Rightarrow> string) \<Rightarrow> pydict \<Rightarrow> pydict \<Rightarrow> pydict" where
  "blocked_result rep plan notification =
     dset (dset (dset plan ''state'' (PStr ''blocked'')) ''execution'' (PStr ''not_executed'')) ''reason_codes''
       (PList [PStr ''notification_persistence_failed'',
               PStr (py_str rep (py_or (dget notification ''reason'') (dget notification ''status'')))])"

definition reserve_result_event :: "(pyval \<Rightarrow> string) \<Rightarrow> pydict \<Rightarrow> string \<Rightarrow> pydict \<Rightarrow> pydict" where
  "reserve_result_event rep event mode reply =
     dset (dset (dset event ''event_id'' (PStr (py_str rep (dget event ''event_id'') @ '':reserve-result'')))
        ''state'' (PStr (if dget reply ''state'' = PStr ''released'' then ''recovered'' else ''escalated'')))
       ''decision''
       (PDict [(''action'', dget reply ''action''), (''mode'', PStr mode), (''target_state'', dget reply ''state''),
               (''reason_codes'', dget_default reply ''reason_codes'' (PList []))])"

text \<open>\<open>list(value)\<close>: a string by characters, a mapping by keys; other values are not iterable.\<close>

fun iterated :: "pyval \<Rightarrow> py_exn + pyval list" where
  "iterated (PList xs) = Inr xs"
| "iterated (PStr s) = Inr (map (\<lambda>c. PStr [c]) s)"
| "iterated (PDict d) = Inr (map (PStr \<circ> fst) d)"
| "iterated _ = Inl TypeError"

definition unknown_result :: "pydict \<Rightarrow> py_exn + pydict" where
  "unknown_result reply =
     map_sum id (\<lambda>reasons. dset (dset (dset reply ''state'' (PStr ''unknown'')) ''execution'' (PStr ''unknown'')) ''reason_codes''
        (PList (reasons @ [PStr ''reserve_result_notification_persistence_failed'', PStr ''manual_reconciliation_required''])))
       (iterated (dget_default reply ''reason_codes'' (PList [])))"

text \<open>The release and the notification of its result; the last component is the approval given to the broker.\<close>

definition release_stage ::
  "coordinator_env \<Rightarrow> sql_env \<Rightarrow> consumer_config \<Rightarrow> reserve_view \<Rightarrow> (authorization \<Rightarrow> 'x \<Rightarrow> (py_exn + pydict) \<times> 'x) \<Rightarrow> int \<Rightarrow> rat \<Rightarrow>
   pydict \<Rightarrow> 'x coordinator_state \<Rightarrow> (py_exn + pydict) \<times> 'x coordinator_state \<times> authorization option" where
  "release_stage ce env cfg view release tick wall event s =
     (case reserve_handle (ce_rep ce) (oc_reserve cfg) (rv_files view) (rv_open view) (\<lambda>a. fst (release a (gs_world s)))
             event (oc_mode cfg) (rv_now view) True of
        (answer, asked) \<Rightarrow>
          (let s1 = (case asked of None \<Rightarrow> s | Some a \<Rightarrow> s\<lparr>gs_world := snd (release a (gs_world s))\<rparr>)
           in case answer of
                Inl e \<Rightarrow> (Inl e, s1, asked)
              | Inr reply \<Rightarrow>
                  (case notify_reserve ce env (reserve_result_event (ce_rep ce) event (oc_mode cfg) reply)
                          (reserve_incident_key (ce_rep ce) event) tick wall (gs_outbox s1) of
                     (notification, ob) \<Rightarrow>
                       (if \<not> queued notification \<and> dget reply ''execution'' = PStr ''executed''
                        then unknown_result reply else Inr reply, s1\<lparr>gs_outbox := ob\<rparr>, asked))))"

definition reserve_state_text :: "string \<Rightarrow> pydict \<Rightarrow> string" where
  "reserve_state_text mode reply =
     (if dget reply ''execution'' = PStr ''not_executed'' then if mode = ''simulate'' then ''simulated_plan_complete'' else ''observed''
      else if dget reply ''state'' = PStr ''released'' then ''recovered'' else ''manual_handoff'')"

text \<open>The payload of a reserve event and its state.\<close>

definition reserve_payload :: "(pyval \<Rightarrow> string) \<Rightarrow> string \<Rightarrow> pydict \<Rightarrow> pydict \<Rightarrow> pydict \<Rightarrow> py_exn + pydict \<times> string" where
  "reserve_payload rep mode event reply notification =
     (let execution = py_str rep (py_or (dget reply ''execution'') (PStr ''not_executed''));
          released = (dget reply ''state'' = PStr ''released'');
          semantic = (if mode = ''simulate'' \<and> execution = ''not_executed'' then ''SIMULATED_PLAN_COMPLETE''
                      else if py_str rep (py_or (dget reply ''state'') (PStr ''blocked'')) = ''released'' then ''MITIGATED''
                      else ''MANUAL_HANDOFF'');
          semantics = (if mode = ''simulate'' then ''SIMULATED'' else if execution = ''executed'' then ''REAL''
                       else if execution = ''unknown'' then ''UNKNOWN'' else ''NOT_EXECUTED'');
          st = reserve_state_text mode reply
      in map_sum id (\<lambda>reasons.
           ([(''schema'', PStr ''guardian.coordinator.result.v1''), (''mode'', PStr mode), (''state'', PStr st),
             (''event_id'', PStr (py_str rep (py_or (dget event ''event_id'') (PStr [])))), (''reason_codes'', PList reasons),
             (''notification'', PDict notification), (''intent'', PNone), (''intent_id'', PNone), (''broker'', PNone),
             (''manual_handoff'', PBool (mode = ''enforce'' \<and> \<not> released)), (''semantic_state'', PStr semantic),
             (''execution_semantics'', PStr semantics),
             (''host_state'', PStr (if released then ''reserve_released'' else ''pending'')),
             (''business_state'', PStr ''BUSINESS_DEGRADED''),
             (''state_trace'', PList [PStr ''CRITICAL_CONFIRMED'', PStr semantic])], st))
          (iterated (dget_default reply ''reason_codes'' (PList []))))"

section \<open>One event\<close>

text \<open>
  The surroundings of an event: the SQL environments of the coordinator and of the two reserve
  notifications, what the reserve controller finds at its two calls, and the readings of the clocks.
\<close>

record event_env =
  ee_sql :: "nat \<Rightarrow> sql_env"
  ee_plan_sql :: sql_env
  ee_result_sql :: sql_env
  ee_plan :: reserve_view
  ee_release :: reserve_view
  ee_tick :: int
  ee_wall :: rat
  ee_result_tick :: int
  ee_result_wall :: rat
  ee_issued :: rat
  ee_claimed :: rat

definition reserve_branch ::
  "coordinator_env \<Rightarrow> event_env \<Rightarrow> consumer_config \<Rightarrow> (authorization \<Rightarrow> 'x \<Rightarrow> (py_exn + pydict) \<times> 'x) \<Rightarrow> pydict \<Rightarrow> pydict \<Rightarrow>
   'x coordinator_state \<Rightarrow> (py_exn + pydict \<times> string) \<times> 'x coordinator_state \<times> authorization option" where
  "reserve_branch ce ee cfg release plan event s =
     (case notify_reserve ce (ee_plan_sql ee) event (reserve_incident_key (ce_rep ce) event) (ee_tick ee) (ee_wall ee) (gs_outbox s) of
        (notification, ob) \<Rightarrow>
          (case (if \<not> queued notification then (Inr (blocked_result (ce_rep ce) plan notification), s\<lparr>gs_outbox := ob\<rparr>, None)
                 else if oc_mode cfg = ''enforce''
                 then release_stage ce (ee_result_sql ee) cfg (ee_release ee) release (ee_result_tick ee) (ee_result_wall ee) event (s\<lparr>gs_outbox := ob\<rparr>)
                 else (Inr plan, s\<lparr>gs_outbox := ob\<rparr>, None)) of
             (answer, s1, asked) \<Rightarrow>
               (sum_bind answer (\<lambda>reply. map_sum id (\<lambda>(payload, st). (dset payload ''reserve_recovery'' (PDict reply), st))
                  (reserve_payload (ce_rep ce) (oc_mode cfg) event reply notification)), s1, asked)))"

definition consumer_args :: "nat \<Rightarrow> (pyval \<Rightarrow> string) \<Rightarrow> 'x observer_world \<Rightarrow> event_env \<Rightarrow> consumer_config \<Rightarrow> pydict \<Rightarrow> 'x process_args" where
  "consumer_args fuel rep ow ee cfg event =
     \<lparr>pa_mode = Some (oc_mode cfg), pa_authorization = (if oc_owns cfg then oc_authorization cfg else None), pa_registry = None,
      pa_issued = ee_issued ee, pa_now = ee_claimed ee, pa_wall = ee_wall ee, pa_monotonic = ee_tick ee,
      pa_verifier = (if oc_owns cfg \<and> oc_mode cfg = ''enforce'' then verification_provider fuel rep ow cfg event else DefaultVerification)\<rparr>"

text \<open>\<open>_consume_one\<close> up to the counting of the event: the payload and the result state.\<close>

definition consume_event ::
  "nat \<Rightarrow> coordinator_env \<Rightarrow> 'x observer_world \<Rightarrow> event_env \<Rightarrow> consumer_config \<Rightarrow> (authorization \<Rightarrow> 'x \<Rightarrow> (py_exn + pydict) \<times> 'x) \<Rightarrow>
   'x coordinator \<Rightarrow> pydict \<Rightarrow> 'x coordinator_state \<Rightarrow> (py_exn + pydict \<times> string) \<times> 'x coordinator_state \<times> authorization option" where
  "consume_event fuel ce ow ee cfg release gc event s =
     (case fst (reserve_handle (ce_rep ce) (oc_reserve cfg) (rv_files (ee_plan ee)) (rv_open (ee_plan ee))
             (\<lambda>a. fst (release a (gs_world s))) event (oc_mode cfg) (rv_now (ee_plan ee)) False) of
        Inl e \<Rightarrow> (Inl e, s, None)
      | Inr plan \<Rightarrow>
          if reserve_actionable plan \<and> oc_mode cfg \<in> {''simulate'', ''enforce''}
          then reserve_branch ce ee cfg release plan event s
          else (case process ce (ee_sql ee) gc (PDict event) (consumer_args fuel (ce_rep ce) ow ee cfg event) s of
              (out, s1) \<Rightarrow>
                (map_sum id (\<lambda>r. (dset (coordinator_as_dict r) ''reserve_recovery'' (PDict plan), pr_state r)) out, s1, None)))"

datatype consume_exn = ConsumePy py_exn | ConsumeOutbox outbox_exn

text \<open>The whole of \<open>_consume_one\<close>: after the event one pending notification is sent.\<close>

definition consume_one ::
  "nat \<Rightarrow> coordinator_env \<Rightarrow> 'x observer_world \<Rightarrow> event_env \<Rightarrow> consumer_config \<Rightarrow> (authorization \<Rightarrow> 'x \<Rightarrow> (py_exn + pydict) \<times> 'x) \<Rightarrow>
   (nat \<Rightarrow> sql_env) \<Rightarrow> (pydict \<Rightarrow> 's \<Rightarrow> send_outcome \<times> 's) \<Rightarrow> int \<Rightarrow> rat \<Rightarrow> 'x coordinator \<Rightarrow> pydict \<Rightarrow> 'x coordinator_state \<Rightarrow> 's \<Rightarrow>
   (consume_exn + pydict \<times> string) \<times> 'x coordinator_state \<times> authorization option \<times> 's" where
  "consume_one fuel ce ow ee cfg release drain_sql send tick wall gc event s sink =
     (case consume_event fuel ce ow ee cfg release gc event s of
        (Inl e, s1, asked) \<Rightarrow> (Inl (ConsumePy e), s1, asked, sink)
      | (Inr r, s1, asked) \<Rightarrow>
          (case drain_notifications ce drain_sql send 1 tick wall s1 sink of
             ((out, s2), sink') \<Rightarrow> (map_sum ConsumeOutbox (\<lambda>_. r) out, s2, asked, sink')))"

section \<open>The reserve and the coordinator\<close>

lemma reserve_handle_asked:
  "reserve_handle rep k fs open_json release event mode now execute = (answer, Some a) \<Longrightarrow>
   execute \<and> mode = ''enforce'' \<and> reserve_eligible rep event \<and>
   Guardian_Reserve_Broker.authorized rep (rk_policy k) open_json (event_incident rep event) now = Inr (Inr a)"
  by (auto simp: reserve_handle_def Let_def split: if_splits sum.splits)

lemma reserve_handle_plan:
  "snd (reserve_handle rep k fs open_json release event mode now False) = None"
  by (auto simp: reserve_handle_def Let_def split: sum.splits)

lemma queued_notification: "queued (mapping_of (notification_as_dict n)) \<longleftrightarrow> or_status n = ''queued''"
  by (simp add: queued_def notification_as_dict_def dget_def)

lemma rejected_notification [simp]: "\<not> queued [(''status'', PStr ''rejected''), (''reason'', v)]"
  by (simp add: queued_def dget_def)

lemma notify_queued:
  assumes "notify_reserve ce env event key tick wall ob = (notification, ob')" "queued notification"
  obtains n where "enqueue_event env (ce_codec ce) (ce_outbox_policy ce) (ce_rep ce) (PDict event) (Some key) tick wall ob = (Inr n, ob')"
    "or_status n = ''queued''"
  using assms by (auto simp: notify_reserve_def queued_notification split: sum.splits prod.splits)

lemma release_stage_frame:
  assumes "release_stage ce env cfg view release tick wall event s = (answer, s', asked)"
  shows "gs_store s' = gs_store s \<and> gs_pending s' = gs_pending s \<and>
    gs_world s' = (case asked of None \<Rightarrow> gs_world s | Some a \<Rightarrow> snd (release a (gs_world s)))"
  using assms by (auto simp: release_stage_def Let_def split: prod.splits sum.splits option.splits)

text \<open>
  C12.  The broker of the reserve is asked to delete the reserve file only in enforce mode, for an event
  whose disk risk is critical, with an approval valid at that moment for the incident, and after the
  notification of that event was put on the outbox; then the container path is not entered, its store and
  its pending reconciliations stay as they are.  Otherwise the world stays as it is, or
  the event is exactly a call of the coordinator's \<open>process\<close>.
\<close>

theorem reserve_release_guarded:
  "case consume_event fuel ce ow ee cfg release gc event s of (out, s', asked) \<Rightarrow>
     (case asked of
        None \<Rightarrow> gs_world s' = gs_world s \<and> gs_store s' = gs_store s \<or>
          (\<exists>out'. process ce (ee_sql ee) gc (PDict event) (consumer_args fuel (ce_rep ce) ow ee cfg event) s = (out', s'))
      | Some a \<Rightarrow> oc_mode cfg = ''enforce'' \<and> reserve_eligible (ce_rep ce) event \<and>
          Guardian_Reserve_Broker.authorized (ce_rep ce) (rk_policy (oc_reserve cfg)) (rv_open (ee_release ee))
            (event_incident (ce_rep ce) event) (rv_now (ee_release ee)) = Inr (Inr a) \<and>
          (\<exists>n ob. enqueue_event (ee_plan_sql ee) (ce_codec ce) (ce_outbox_policy ce) (ce_rep ce) (PDict event)
             (Some (reserve_incident_key (ce_rep ce) event)) (ee_tick ee) (ee_wall ee) (gs_outbox s) = (Inr n, ob) \<and>
             or_status n = ''queued'') \<and>
          gs_world s' = snd (release a (gs_world s)) \<and> gs_store s' = gs_store s \<and> gs_pending s' = gs_pending s)"
proof -
  obtain notification ob where n: "notify_reserve ce (ee_plan_sql ee) event (reserve_incident_key (ce_rep ce) event) (ee_tick ee)
      (ee_wall ee) (gs_outbox s) = (notification, ob)" by force
  obtain answer s1 asked where r: "release_stage ce (ee_result_sql ee) cfg (ee_release ee) release (ee_result_tick ee) (ee_result_wall ee)
      event (s\<lparr>gs_outbox := ob\<rparr>) = (answer, s1, asked)" by (metis surj_pair)
  note frame = release_stage_frame [OF r]
  have asked: "oc_mode cfg = ''enforce'' \<and> reserve_eligible (ce_rep ce) event \<and>
      Guardian_Reserve_Broker.authorized (ce_rep ce) (rk_policy (oc_reserve cfg)) (rv_open (ee_release ee))
        (event_incident (ce_rep ce) event) (rv_now (ee_release ee)) = Inr (Inr a)" if "asked = Some a" for a
    using r that by (auto simp: release_stage_def Let_def dest: reserve_handle_asked split: prod.splits sum.splits)
  have queue: "\<exists>m ob. enqueue_event (ee_plan_sql ee) (ce_codec ce) (ce_outbox_policy ce) (ce_rep ce) (PDict event)
      (Some (reserve_incident_key (ce_rep ce) event)) (ee_tick ee) (ee_wall ee) (gs_outbox s) = (Inr m, ob) \<and> or_status m = ''queued''"
    if "queued notification"
    using notify_queued [OF n that] by blast
  show ?thesis
    using frame asked queue
    by (auto simp: consume_event_def reserve_branch_def n r split: sum.splits prod.splits option.splits if_splits)
qed

section \<open>The verification returns\<close>

definition steady_observer :: "'x observer_world \<Rightarrow> ('x \<Rightarrow> rat) \<Rightarrow> bool" where
  "steady_observer ow time \<longleftrightarrow>
     (\<forall>x. fst (ow_clock ow x) = time x \<and> time x \<le> time (snd (ow_clock ow x))) \<and>
     (\<forall>x. time x \<le> time (snd (ow_sample ow x))) \<and> (\<forall>x d. 0 \<le> d \<longrightarrow> time x + d \<le> time (ow_sleep ow d x))"

text \<open>Reading the clock, sampling and waking up take at most \<open>slack\<close> each.\<close>

definition prompt_observer :: "'x observer_world \<Rightarrow> ('x \<Rightarrow> rat) \<Rightarrow> rat \<Rightarrow> bool" where
  "prompt_observer ow time slack \<longleftrightarrow>
     (\<forall>x. time (snd (ow_clock ow x)) \<le> time x + slack) \<and> (\<forall>x. time (snd (ow_sample ow x)) \<le> time x + slack) \<and>
     (\<forall>x d. 0 \<le> d \<longrightarrow> time (ow_sleep ow d x) \<le> time x + d + slack)"

text \<open>A sample that ends the verification without a result: it fails, or a number of it is too large for a float.\<close>

definition bad_sample :: "(pyval \<Rightarrow> string) \<Rightarrow> 'x observer_world \<Rightarrow> consumer_config \<Rightarrow> guardian_intent \<Rightarrow> pydict \<Rightarrow> 'x \<Rightarrow> bool" where
  "bad_sample rep ow cfg intent before y \<longleftrightarrow>
     (case fst (ow_sample ow y) of None \<Rightarrow> True | Some after \<Rightarrow> \<exists>elapsed. isl (verify_sample rep cfg intent before after elapsed))"

lemma verify_loop_returns:
  assumes "steady_observer ow time" "prompt_observer ow time slack" "0 < oc_poll cfg"
    and "t0 \<le> time x" "time x \<le> t0 + oc_max_wait cfg + 2 * slack" "oc_max_wait cfg - (time x - t0) \<le> of_nat n * oc_poll cfg"
  shows "\<exists>r x'. verify_loop (Suc n) rep ow cfg intent before t0 x = Some (r, x') \<and>
    (case r of None \<Rightarrow> \<exists>y. bad_sample rep ow cfg intent before y | Some v \<Rightarrow> tl_host_mitigated v \<or> oc_max_wait cfg \<le> time x' - t0) \<and>
    time x' \<le> t0 + oc_max_wait cfg + 4 * slack"
  using assms(4-6)
proof (induction n arbitrary: x)
  case (0 x)
  obtain sample x1 where smp: "ow_sample ow x = (sample, x1)" by force
  define x2 where "x2 = snd (ow_clock ow x1)"
  from assms(1,2) smp have t: "time x \<le> time x1" "fst (ow_clock ow x1) = time x1" "time x1 \<le> time x2" "time x1 \<le> time x + slack" "time x2 \<le> time x1 + slack"
    unfolding steady_observer_def prompt_observer_def x2_def by (metis snd_conv)+
  have bad: "sample = None \<or> (\<exists>after. sample = Some after \<and> isl (verify_sample rep cfg intent before after e)) \<Longrightarrow> \<exists>y. bad_sample rep ow cfg intent before y" for e
    by (rule exI [of _ x]) (auto simp: bad_sample_def smp)
  show ?case
  proof (cases "\<exists>after latest. sample = Some after \<and> verify_sample rep cfg intent before after (max (time x1 - t0) 0) = Inr latest")
    case True
    with 0 t smp show ?thesis by (auto simp: Let_def x2_def [symmetric])
  next
    case False
    with 0 t smp bad [of "max (time x1 - t0) 0"] show ?thesis by (auto simp: Let_def x2_def [symmetric] split: option.splits sum.splits)
  qed
next
  case (Suc n x)
  obtain sample x1 where smp: "ow_sample ow x = (sample, x1)" by force
  define x2 where "x2 = snd (ow_clock ow x1)"
  from assms(1,2) smp have t: "time x \<le> time x1" "fst (ow_clock ow x1) = time x1" "time x1 \<le> time x2" "time x1 \<le> time x + slack" "time x2 \<le> time x1 + slack"
    unfolding steady_observer_def prompt_observer_def x2_def by (metis snd_conv)+
  define elapsed where "elapsed = max (time x1 - t0) 0"
  define pause where "pause = min (oc_poll cfg) (oc_max_wait cfg - elapsed)"
  define x3 where "x3 = ow_sleep ow pause x2"
  have e: "elapsed = time x1 - t0" using t Suc.prems(1) by (simp add: elapsed_def)
  have bad: "sample = None \<or> (\<exists>after. sample = Some after \<and> isl (verify_sample rep cfg intent before after elapsed)) \<Longrightarrow> \<exists>y. bad_sample rep ow cfg intent before y"
    by (rule exI [of _ x]) (auto simp: bad_sample_def smp)
  have loop: "verify_loop (Suc (Suc n)) rep ow cfg intent before t0 x =
    (case sample of None \<Rightarrow> Some (None, x1) | Some after \<Rightarrow>
      (case verify_sample rep cfg intent before after elapsed of
         Inl _ \<Rightarrow> Some (None, x2)
       | Inr latest \<Rightarrow> if tl_host_mitigated latest \<or> oc_max_wait cfg \<le> elapsed then Some (Some latest, x2)
           else verify_loop (Suc n) rep ow cfg intent before t0 x3))"
    unfolding verify_loop.simps(2) [of "Suc n"] smp prod.case Let_def x3_def pause_def x2_def elapsed_def t(2) by (rule refl)
  show ?case
  proof (cases "elapsed < oc_max_wait cfg")
    case False
    then show ?thesis unfolding loop using t e Suc.prems bad by (auto split: option.splits sum.splits)
  next
    case True
    have "0 \<le> pause" "pause \<le> oc_max_wait cfg - elapsed" using True assms(3) by (simp_all add: pause_def)
    then have t3: "time x2 + pause \<le> time x3" "time x3 \<le> time x2 + pause + slack"
      using assms(1,2) unfolding steady_observer_def prompt_observer_def x3_def by blast+
    have "oc_max_wait cfg - (time x3 - t0) \<le> of_nat n * oc_poll cfg"
      using window_shrinks [OF assms(3) t(1,3)] e t3(1) Suc.prems(3) by (simp add: pause_def)
    moreover have "t0 \<le> time x3" "time x3 \<le> t0 + oc_max_wait cfg + 2 * slack"
      using t3 t e Suc.prems(1) \<open>0 \<le> pause\<close> \<open>pause \<le> oc_max_wait cfg - elapsed\<close> by linarith+
    ultimately obtain r x' where rest: "verify_loop (Suc n) rep ow cfg intent before t0 x3 = Some (r, x')"
      "case r of None \<Rightarrow> \<exists>y. bad_sample rep ow cfg intent before y | Some v \<Rightarrow> tl_host_mitigated v \<or> oc_max_wait cfg \<le> time x' - t0"
      "time x' \<le> t0 + oc_max_wait cfg + 4 * slack" using Suc.IH by blast
    have late: "time x1 \<le> t0 + oc_max_wait cfg + 4 * slack" "time x2 \<le> t0 + oc_max_wait cfg + 4 * slack"
      using t Suc.prems(2) by linarith+
    show ?thesis
    proof (cases "\<exists>after latest. sample = Some after \<and> verify_sample rep cfg intent before after elapsed = Inr latest")
      case False
      with late bad show ?thesis unfolding loop by (auto split: option.splits sum.splits)
    next
      case sampled: True
      then obtain after latest where "sample = Some after" "verify_sample rep cfg intent before after elapsed = Inr latest" by blast
      with True late rest show ?thesis unfolding loop
        by (cases "tl_host_mitigated latest") (simp_all del: verify_loop.simps)
    qed
  qed
qed

text \<open>
  C13.  On a clock that does not go back, where reading it, sampling and waking up take at most \<open>slack\<close> each, the
  verification after an action returns, and not later than the recovery window and four times \<open>slack\<close> after
  its start; it takes at most one sample more than there are poll intervals in the window, so the provider never runs
  out of fuel.  A result is a mitigated host or was taken at the end of the whole window, and there is no result
  only after a sample that failed or has a number too large for a float.
\<close>

theorem verification_returns:
  assumes "steady_observer ow time" "prompt_observer ow time slack" "0 < oc_poll cfg" "0 \<le> oc_max_wait cfg"
    and "oc_max_wait cfg \<le> of_nat n * oc_poll cfg"
  shows "\<exists>r x'. runtime_verify (Suc n) rep ow cfg before intent x = Some (r, x') \<and>
    time x' - time x \<le> oc_max_wait cfg + 4 * slack \<and>
    (case r of
       None \<Rightarrow> \<exists>y. bad_sample rep ow cfg intent before y
     | Some v \<Rightarrow> tl_host_mitigated v \<or> oc_max_wait cfg \<le> time x' - time x)"
proof -
  define x1 where "x1 = snd (ow_clock ow x)"
  have t: "fst (ow_clock ow x) = time x" "time x \<le> time x1" "time x1 \<le> time x + slack"
    using assms(1,2) by (simp_all add: steady_observer_def prompt_observer_def x1_def)
  then have "oc_max_wait cfg - (time x1 - time x) \<le> of_nat n * oc_poll cfg" "time x1 \<le> time x + oc_max_wait cfg + 2 * slack"
    using assms(4,5) by linarith+
  from verify_loop_returns [OF assms(1-3) t(2) this(2,1), of rep intent before] t(1) show ?thesis
    by (auto simp: runtime_verify_def case_prod_beta x1_def [symmetric] simp del: verify_loop.simps)
qed

definition idle_observer :: "rat observer_world" where
  "idle_observer = \<lparr>ow_sample = (\<lambda>x. (Some [], x)), ow_clock = (\<lambda>x. (x, x)), ow_sleep = (\<lambda>d x. x + d)\<rparr>"

definition window_config :: consumer_config where
  "window_config = \<lparr>oc_mode = ''enforce'', oc_owns = True, oc_authorization = None,
     oc_reserve = \<lparr>rk_policy = default_reserve_policy, rk_digest = []\<rparr>, oc_max_wait = 30, oc_poll = 1, oc_require_health = True\<rparr>"

definition window_intent :: guardian_intent where
  "window_intent = \<lparr>gi_plan_id = ''p1'', gi_event_id = ''e1'', gi_sample_id = ''s1'', gi_observed_monotonic_ns = 5, gi_host_id = ''h'',
     gi_incident_id = ''i1'', gi_resource_kind = ''memory'', gi_target_id = replicate 64 CHR ''a'', gi_target_created_at = ''t'',
     gi_target_cgroup_path = ''/c'', gi_target_cgroup_inode = 7, gi_target_labels = [], gi_action = ''graceful_stop'', gi_reason_codes = [],
     gi_policy_digest = replicate 64 CHR ''b'', gi_config_digest = replicate 64 CHR ''c'', gi_idempotency_key = replicate 64 CHR ''d'',
     gi_issued_at = 100, gi_expires_at = 130, gi_timeout_seconds = 30\<rparr>"

theorem verification_returns_witness:
  "\<exists>r x'. runtime_verify (Suc 30) (\<lambda>_. []) idle_observer window_config [] window_intent 0 = Some (r, x') \<and> x' \<le> 30"
proof -
  have "steady_observer idle_observer (\<lambda>x. x)" "prompt_observer idle_observer (\<lambda>x. x) 0"
    by (simp_all add: steady_observer_def prompt_observer_def idle_observer_def)
  then show ?thesis
    using verification_returns [of idle_observer "\<lambda>x. x" 0 window_config 30 "\<lambda>_. []" "[]" window_intent 0]
    by (auto simp: window_config_def)
qed

end
