(* ===== verification/Guardian_Action_Broker_Laws.thy ===== *)
theory Guardian_Action_Broker_Laws
  imports Guardian_Action_Broker
begin

text \<open>What a Docker call of the action broker presupposes, how often an approval starts one, and what the client makes of a reply.\<close>

section \<open>The shape of a handled connection\<close>

lemma refuse_unless_Inr [simp]: "refuse_unless b e = Inr u \<longleftrightarrow> b"
  by (simp add: refuse_unless_def)

lemma check_action_passed:
  assumes "check_action s c db = (Inr (a, request, d), db')"
  obtains req where "read_action c = Inr req" "verify_live_config s c = Inr ()" "validate_action s c req = Inr (a, request, d)"
    "verify_durable_intent (ac_sql c 1) d db = Inr ()" "verify_live_identity c d = Inr ()" "\<exists>m. db' = db\<lparr>action_ledger := m\<rparr>"
  using assms
  by (auto simp: check_action_def verify_runtime_guards_def sum_bind_def dest!: allow_db split: sum.splits prod.splits bool.splits)

lemma check_action_db: "check_action s c db = (r, db') \<Longrightarrow> \<exists>m. db' = db\<lparr>action_ledger := m\<rparr>"
proof -
  assume "check_action s c db = (r, db')"
  then have "db' = db \<or> (\<exists>m. db' = db\<lparr>action_ledger := m\<rparr>)"
    by (auto simp: check_action_def verify_runtime_guards_def dest!: allow_db split: sum.splits prod.splits bool.splits)
  moreover have "db = db\<lparr>action_ledger := action_ledger db\<rparr>" by simp
  ultimately show ?thesis by metis
qed

lemma validate_action_passed:
  assumes "validate_action s c req = Inr (a, request, d)"
  shows "check_policy_entry c (as_policy s) d = Inr ()" "Guardian_Actions.authorized request (ac_now c)" "req_authorization request = Some a"
    "req_target_id request = ad_target d" "req_action request = ''graceful_stop''" "req_event_id request = ad_event d"
  using assms by (auto simp: validate_action_def sum_bind_def action_request_of_def split: sum.splits prod.splits)

lemma handle_started:
  assumes "handle_action s runner c (db, w) = (reply, db', w')" "w' \<noteq> w"
  obtains uid gid a request d db1 cap where "ac_peer c = Inr (uid, gid)" "as_uid s = Some uid" "as_enabled s"
    "check_action s c db = (Inr (a, request, d), db1)"
    "consume_capability (ac_sql c 4) a (ad_event d) (ac_now c) db1 = (Inr cap, db')" "cd_allowed cap"
    "run_action c runner request w = (reply, w')"
  using assms by (auto simp: handle_action_def split: sum.splits prod.splits if_splits)

lemma docker_stop_logged:
  assumes "Guardian_Actions.authorized r now" "req_action r = ''graceful_stop''"
  shows "fst (snd (docker_execute (log_runner runner) r now s)) =
    fst s @ [([''docker'', ''kill'', ''--signal'', ''TERM'', req_target_id r], req_timeout_seconds r + 5)]"
  using assms by (simp add: docker_execute_log docker_command_def Guardian_Actions.authorized_def)

lemma run_action_logged:
  "run_action c (log_runner runner) r s = (reply, s') \<Longrightarrow> fst s' = fst (snd (docker_execute (log_runner runner) r (ac_now c) s))"
  by (auto simp: run_action_def split: prod.splits exec_outcome.splits if_splits)

text \<open>
  C16.  A connection starts at most one Docker command, and only when the peer is the allowed user, the
  broker is enabled, the configuration on disk still has the digests the broker was started with, the request
  lies inside the authorization boundary, its target is actionable and unprotected in the broker's own policy,
  the durable intent it names is started for the same event, target and key, and the live container has the
  identity of the request; the approval, unspent before, is spent after it, and the command is the
  TERM signal to that container.
\<close>

theorem docker_call_guarded:
  "case handle_action s (log_runner runner) c (db, (commands, w)) of (reply, db', w') \<Rightarrow>
     fst w' = commands \<or>
     (\<exists>uid gid a request d row. ac_peer c = Inr (uid, gid) \<and> as_uid s = Some uid \<and> as_enabled s \<and> verify_live_config s c = Inr () \<and>
        Guardian_Actions.authorized request (ac_now c) \<and> req_authorization request = Some a \<and> req_target_id request = ad_target d \<and>
        check_policy_entry c (as_policy s) d = Inr () \<and>
        find_intent db (ad_intent d) = Some row \<and> int_state row = EXECUTION_STARTED \<and> int_event row = req_event_id request \<and>
        int_object row = req_target_id request \<and> int_action row = req_action request \<and> int_key row = ad_key d \<and>
        verify_live_identity c d = Inr () \<and>
        \<not> is_consumed db (approval_id a) \<and> is_consumed db' (approval_id a) \<and>
        fst w' = commands @ [([''docker'', ''kill'', ''--signal'', ''TERM'', ad_target d], req_timeout_seconds request + 5)])"
proof -
  obtain reply db' w' where h: "handle_action s (log_runner runner) c (db, (commands, w)) = (reply, db', w')" by (metis surj_pair)
  show ?thesis
  proof (cases "fst w' = commands")
    case False
    then have moved: "w' \<noteq> (commands, w)" by (metis fst_conv)
    obtain uid gid a request d db1 cap where peer: "ac_peer c = Inr (uid, gid)" "as_uid s = Some uid" "as_enabled s"
      and chk: "check_action s c db = (Inr (a, request, d), db1)"
      and cons: "consume_capability (ac_sql c 4) a (ad_event d) (ac_now c) db1 = (Inr cap, db')" "cd_allowed cap"
      and run: "run_action c (log_runner runner) request (commands, w) = (reply, w')"
      by (rule handle_started [OF h moved]) (rule that)
    obtain req where r: "verify_live_config s c = Inr ()" "validate_action s c req = Inr (a, request, d)"
      "verify_durable_intent (ac_sql c 1) d db = Inr ()" "verify_live_identity c d = Inr ()" "\<exists>m. db1 = db\<lparr>action_ledger := m\<rparr>"
      using check_action_passed [OF chk] by metis
    note v = validate_action_passed [OF r(2)]
    from r(3) obtain row where row: "find_intent db (ad_intent d) = Some row" "int_state row = EXECUTION_STARTED"
        "int_event row = req_event_id request" "int_object row = req_target_id request" "int_action row = req_action request" "int_key row = ad_key d"
      using v by (auto simp: verify_durable_intent_def get_intent_def intent_executable_def split: option.splits sum.splits if_splits)
    from consume_allowed [OF cons] r(5) have spent: "\<not> is_consumed db (approval_id a)" "is_consumed db' (approval_id a)"
      by (auto simp: is_consumed_def consume_row_def)
    have "fst w' = commands @ [([''docker'', ''kill'', ''--signal'', ''TERM'', ad_target d], req_timeout_seconds request + 5)]"
      using run_action_logged [OF run] docker_stop_logged [OF v(2,5), of runner "(commands, w)"] v(4) by simp
    with peer r v row spent show ?thesis
      unfolding h prod.case
      by (intro disjI2 exI [of _ uid] exI [of _ gid] exI [of _ a] exI [of _ request] exI [of _ d] exI [of _ row] conjI) simp_all
  qed (use h in simp)
qed

text \<open>
  An approval that parses but does not cover the request is not refused: the exception of
  \<open>validate_request\<close> leaves the handler, and the client gets no answer.
\<close>

lemma uncovered_approval_unanswered:
  assumes "ac_peer c = Inr (uid, gid)" "as_uid s = Some uid" "as_gid s = None" "as_enabled s"
    and "read_action c = Inr req" "verify_live_config s c = Inr ()" "check_header s (ac_now c) req = Inr d0"
      "check_action_target req d0 = Inr (timeout, d)" "action_approval (dget req ''authorization'') = Inr a"
      "check_policy_entry c (as_policy s) d = Inr ()"
    and "auth_target_id a \<noteq> ad_target d \<or> fle (auth_expires_at a) (Fin (ac_now c))"
  shows "handle_action s runner c (db, w) = (\<lparr>ar_sent = None, ar_uncaught = True\<rparr>, db, w)"
proof -
  have "\<exists>e. validate_request (action_request_of d timeout a) (ac_now c) = Inl e"
    using assms(11) by (auto simp: validate_request_def action_request_of_def)
  then have "check_action s c db = (Inl Uncaught, db)"
    using assms by (auto simp: check_action_def validate_action_def)
  then show ?thesis using assms by (simp add: handle_action_def action_refusal_def)
qed

section \<open>Runs of the broker\<close>

text \<open>Connections of the broker and operations of the other users of its store.\<close>

datatype broker_op = Connection action_connection | Elsewhere store_op

fun broker_step :: "action_server \<Rightarrow> 'w runner \<Rightarrow> state_db \<times> 'w \<Rightarrow> broker_op \<Rightarrow> state_db \<times> 'w" where
  "broker_step s runner dw (Connection c) = snd (handle_action s runner c dw)"
| "broker_step s runner dw (Elsewhere x) = (store_step (fst dw) x, snd dw)"

text \<open>The approval a step starts Docker with.\<close>

fun docker_approval :: "action_server \<Rightarrow> 'w runner \<Rightarrow> state_db \<times> ((string list \<times> int) list \<times> 'w) \<Rightarrow> broker_op \<Rightarrow> string option" where
  "docker_approval s runner dw (Connection c) =
     (if length (fst (snd (snd (handle_action s (log_runner runner) c dw)))) = length (fst (snd dw)) then None
      else case check_action s c (fst dw) of (Inr (a, _, _), _) \<Rightarrow> Some (approval_id a) | _ \<Rightarrow> None)"
| "docker_approval s runner dw (Elsewhere x) = None"

lemma connection_calls:
  assumes "handle_action s (log_runner runner) c (db, cw) = (reply, db', cw')"
  shows "length (fst cw') = length (fst cw) \<or>
    (\<exists>a request d db1. check_action s c db = (Inr (a, request, d), db1) \<and> length (fst cw') = Suc (length (fst cw)) \<and>
       \<not> is_consumed db (approval_id a) \<and> is_consumed db' (approval_id a))"
proof -
  show ?thesis
  proof (cases "length (fst cw') = length (fst cw)")
    case False
    then have moved: "cw' \<noteq> cw" by blast
    obtain a request d db1 cap where chk: "check_action s c db = (Inr (a, request, d), db1)"
      and cons: "consume_capability (ac_sql c 4) a (ad_event d) (ac_now c) db1 = (Inr cap, db')" "cd_allowed cap"
      and run: "run_action c (log_runner runner) request cw = (reply, cw')"
      by (rule handle_started [OF assms moved]) (rule that)
    obtain req where val: "validate_action s c req = Inr (a, request, d)" and m: "\<exists>m. db1 = db\<lparr>action_ledger := m\<rparr>"
      using check_action_passed [OF chk] by metis
    note v = validate_action_passed [OF val]
    have "length (fst cw') = Suc (length (fst cw))"
      using run_action_logged [OF run] docker_stop_logged [OF v(2,5), of runner cw] by simp
    moreover from consume_allowed [OF cons] m have "\<not> is_consumed db (approval_id a)" "is_consumed db' (approval_id a)"
      by (auto simp: is_consumed_def consume_row_def)
    ultimately show ?thesis using chk by blast
  qed simp
qed

lemma handle_db:
  assumes "check_action s c db = (r, db1)"
  shows "fst (snd (handle_action s runner c (db, w))) \<in> {db, db1} \<or>
    (\<exists>a ev. fst (snd (handle_action s runner c (db, w))) = snd (consume_capability (ac_sql c 4) a ev (ac_now c) db1))"
proof (cases r)
  case (Inr p)
  obtain a request d where p: "p = (a, request, d)" by (cases p)
  obtain q db2 where cons: "consume_capability (ac_sql c 4) a (ad_event d) (ac_now c) db1 = (q, db2)" by force
  then have ex: "\<exists>a ev. db2 = snd (consume_capability (ac_sql c 4) a ev (ac_now c) db1)" by (metis snd_conv)
  have "fst (snd (handle_action s runner c (db, w))) \<in> {db, db1, db2}"
    using assms Inr p cons by (auto simp: handle_action_def split: sum.splits prod.splits)
  with ex show ?thesis by auto
qed (use assms in \<open>simp add: handle_action_def split: sum.splits prod.splits\<close>)

lemma handle_keeps_consumed:
  assumes "handle_action s runner c (db, w) = (reply, db', w')" "is_consumed db k"
  shows "is_consumed db' k"
proof -
  obtain r db1 where chk: "check_action s c db = (r, db1)" by force
  have one: "is_consumed db1 k" using check_action_db [OF chk] assms(2) by auto
  have "is_consumed (snd (consume_capability (ac_sql c 4) a ev (ac_now c) db1)) k" for a ev
    using capability_grant.spent_stays [OF one, of "Consume (ac_sql c 4) a ev (ac_now c)"] by simp
  with handle_db [OF chk, of runner w] assms one show ?thesis by auto
qed

lemma broker_step_grant:
  assumes "docker_approval s runner dw x = Some k"
  shows "\<not> is_consumed (fst dw) k \<and> is_consumed (fst (broker_step s (log_runner runner) dw x)) k \<and>
    length (fst (snd (broker_step s (log_runner runner) dw x))) = Suc (length (fst (snd dw)))"
proof (cases x)
  case (Connection c)
  obtain reply db' cw' where h: "handle_action s (log_runner runner) c dw = (reply, db', cw')" by (metis surj_pair)
  with connection_calls [of s runner c "fst dw" "snd dw"] assms Connection show ?thesis
    by (auto split: if_splits prod.splits sum.splits)
qed (use assms in simp)

lemma broker_step_no_grant:
  assumes "docker_approval s runner dw x = None"
  shows "length (fst (snd (broker_step s (log_runner runner) dw x))) = length (fst (snd dw))"
proof (cases x)
  case (Connection c)
  obtain reply db' cw' where h: "handle_action s (log_runner runner) c dw = (reply, db', cw')" by (metis surj_pair)
  with connection_calls [of s runner c "fst dw" "snd dw"] assms Connection show ?thesis
    by (auto split: if_splits prod.splits sum.splits)
qed simp

lemma broker_step_consumed:
  assumes "is_consumed (fst dw) k"
  shows "is_consumed (fst (broker_step s runner dw x)) k"
proof (cases x)
  case (Connection c)
  obtain reply db' w' where h: "handle_action s runner c (fst dw, snd dw) = (reply, db', w')" by (metis surj_pair)
  from handle_keeps_consumed [OF h assms] h Connection show ?thesis by simp
qed (use capability_grant.spent_stays [OF assms] in simp)

context one_shot
begin

lemma granted_spent: "set (granted step grant d xs) \<subseteq> {k. spent (exec_all step d xs) k}"
proof (induction xs arbitrary: d)
  case (Cons x xs)
  have stays: "spent d' k \<Longrightarrow> spent (exec_all step d' xs) k" for d' k
    by (induction xs arbitrary: d') (simp_all add: spent_stays)
  show ?case
  proof (cases "grant d x")
    case (Some k)
    then have "spent (exec_all step (step d x) xs) k" by (intro stays grant_spends)
    with Some Cons [of "step d x"] show ?thesis by auto
  qed (use Cons [of "step d x"] in simp)
qed simp

end

interpretation docker_calls: one_shot "broker_step s (log_runner runner)" "docker_approval s runner" "\<lambda>dw. is_consumed (fst dw)" for s runner
  by unfold_locales (use broker_step_grant broker_step_consumed in blast)+

lemma docker_calls_counted:
  "length (fst (snd (exec_all (broker_step s (log_runner runner)) dw ops))) =
   length (fst (snd dw)) + length (granted (broker_step s (log_runner runner)) (docker_approval s runner) dw ops)"
proof (induction ops arbitrary: dw)
  case (Cons x ops)
  show ?case
    using Cons.IH [of "broker_step s (log_runner runner) dw x"] broker_step_grant [of s runner dw x] broker_step_no_grant [of s runner dw x]
    by (cases "docker_approval s runner dw x") (auto simp: Let_def)
qed simp

text \<open>
  C17.  Over any sequence of connections, with any requests, files and failures, and of other operations on
  the shared store, the broker starts Docker once per approval at most: there are as many commands as
  pairwise distinct approvals, each unspent before the run and spent after it.
\<close>

theorem docker_once_per_approval:
  "\<exists>approvals. distinct approvals \<and> set approvals \<subseteq> {k. \<not> is_consumed db k} \<and>
     set approvals \<subseteq> {k. is_consumed (fst (exec_all (broker_step s (log_runner runner)) (db, ([], w)) ops)) k} \<and>
     length (fst (snd (exec_all (broker_step s (log_runner runner)) (db, ([], w)) ops))) = length approvals"
proof (intro exI conjI)
  let ?g = "granted (broker_step s (log_runner runner)) (docker_approval s runner) (db, ([], w)) ops"
  show "distinct ?g" by (rule docker_calls.granted_once)
  show "set ?g \<subseteq> {k. \<not> is_consumed db k}" using docker_calls.spent_never_granted [of "(db, ([], w))"] by fastforce
  show "set ?g \<subseteq> {k. is_consumed (fst (exec_all (broker_step s (log_runner runner)) (db, ([], w)) ops)) k}"
    by (rule docker_calls.granted_spent)
qed (simp add: docker_calls_counted)

section \<open>The client's reading of an answer\<close>

text \<open>The complete and well-formed answer of a stream.\<close>

definition answer_of :: "(string \<Rightarrow> json_file) \<Rightarrow> recv list \<Rightarrow> pydict option" where
  "answer_of parse stream =
     (case receive_upto MAX_RESPONSE_BYTES 0 stream of
        Inl _ \<Rightarrow> None
      | Inr raw \<Rightarrow>
          if MAX_RESPONSE_BYTES < length raw \<or> LF \<notin> set raw then None
          else case parse (first_line raw) of
              Json (PDict response) \<Rightarrow> if dget response ''schema'' = PStr ACTION_RESPONSE_SCHEMA then Some response else None
            | _ \<Rightarrow> None)"

lemma read_answer_cases:
  "read_answer rep parse request stream =
     (case answer_of parse stream of
        Some response \<Rightarrow> client_status response request rep
      | None \<Rightarrow> if receive_upto MAX_RESPONSE_BYTES 0 stream = Inl False then AdapterDenied ''broker_connection_failed'' else AdapterRaised)"
  by (simp add: read_answer_def answer_of_def split: sum.splits bool.splits json_file.splits pyval.splits)

lemma client_status_done:
  assumes "client_status response request rep = AdapterDone r"
  shows "dget response ''status'' = PStr ''EXECUTED'' \<and> dget (mapping_of (dget response ''result'')) ''target_id'' = PStr (req_target_id request) \<and>
    dget (mapping_of (dget response ''result'')) ''action'' = PStr (req_action request) \<and> res_target_id r = req_target_id request \<and>
    res_action r = req_action request \<and> (res_executed r \<longleftrightarrow> dget (mapping_of (dget response ''result'')) ''executed'' = PBool True)"
  using assms by (auto simp: client_status_def Let_def split: if_splits pyval.splits)

lemma client_status_denied: "client_status response request rep = AdapterDenied e \<Longrightarrow> dget response ''status'' = PStr ''DENIED''"
  by (auto simp: client_status_def Let_def split: if_splits pyval.splits)

text \<open>
  C18.  What the runtime's client makes of an exchange.  A result means that an answer saying
  EXECUTED for this target and action arrived, and an execution is reported only when it says so; a denial means that no
  connection was made, that the connection broke after the request was sent, or that the answer says DENIED.
\<close>

theorem client_outcome_classified:
  "case execute_intent rep client intent request iid x of (outcome, x') \<Rightarrow>
     (case outcome of
        AdapterDone r \<Rightarrow>
          (\<exists>text stream response. bc_exchange client text x = (Inr stream, x') \<and> answer_of (bc_parse client) stream = Some response \<and>
             dget response ''status'' = PStr ''EXECUTED'' \<and>
             dget (mapping_of (dget response ''result'')) ''target_id'' = PStr (req_target_id request) \<and>
             dget (mapping_of (dget response ''result'')) ''action'' = PStr (req_action request) \<and>
             res_target_id r = req_target_id request \<and> res_action r = req_action request \<and>
             (res_executed r \<longleftrightarrow> dget (mapping_of (dget response ''result'')) ''executed'' = PBool True))
      | AdapterDenied e \<Rightarrow>
          (\<exists>text. bc_exchange client text x \<in> {(Inl NoSocket, x'), (Inl ConnectRefused, x'), (Inl ConnectFailure, x')}) \<or>
          (\<exists>text stream. bc_exchange client text x = (Inr stream, x') \<and> receive_upto MAX_RESPONSE_BYTES 0 stream = Inl False) \<or>
          (\<exists>text stream response. bc_exchange client text x = (Inr stream, x') \<and> answer_of (bc_parse client) stream = Some response \<and>
             dget response ''status'' = PStr ''DENIED'')
      | _ \<Rightarrow> True)"
proof -
  let ?text = "bc_dumps client (PDict (build_broker_request intent request iid ''enforce'')) @ [LF]"
  obtain q x' where ex: "bc_exchange client ?text x = (q, x')" by force
  show ?thesis
  proof (cases "MAX_REQUEST_BYTES < length ?text")
    case False
    show ?thesis
    proof (cases q)
      case (Inl e)
      then show ?thesis using ex False by (cases e) (auto simp: execute_intent_def)
    next
      case (Inr stream)
      then have run: "execute_intent rep client intent request iid x = (read_answer rep (bc_parse client) request stream, x')"
        using ex False by (simp add: execute_intent_def)
      show ?thesis
      proof (cases "answer_of (bc_parse client) stream")
        case None
        then have "read_answer rep (bc_parse client) request stream = (if receive_upto MAX_RESPONSE_BYTES 0 stream = Inl False
          then AdapterDenied ''broker_connection_failed'' else AdapterRaised)" by (simp add: read_answer_cases)
        then show ?thesis using ex Inr run by auto
      next
        case (Some response)
        then have read: "read_answer rep (bc_parse client) request stream = client_status response request rep"
          by (simp add: read_answer_cases)
        show ?thesis
        proof (cases "client_status response request rep")
          case (AdapterDone r)
          with client_status_done [OF this] show ?thesis using ex Inr run read Some by simp blast
        next
          case (AdapterDenied e)
          with client_status_denied [OF this] show ?thesis using ex Inr run read Some by simp blast
        qed (use run read in simp_all)
      qed
    qed
  qed (simp add: execute_intent_def)
qed

text \<open>
  A connection that breaks after the request was delivered is a denial, whatever the other side did:
  here the broker handles the request and only its reply is lost.
\<close>

definition broken_exchange :: "action_server \<Rightarrow> 'w runner \<Rightarrow> action_connection \<Rightarrow> string \<Rightarrow> state_db \<times> 'w \<Rightarrow>
    (connect_error + recv list) \<times> (state_db \<times> 'w)" where
  "broken_exchange s runner c text dw =
     (Inr [RecvFailure], snd (handle_action s runner (c\<lparr>ac_stream := [Bytes text]\<rparr>) dw))"

lemma lost_reply_denied:
  assumes "bc_exchange client = broken_exchange s runner c"
    and "text = bc_dumps client (PDict (build_broker_request intent request iid ''enforce'')) @ [LF]" "length text \<le> MAX_REQUEST_BYTES"
  shows "execute_intent rep client intent request iid dw =
    (AdapterDenied ''broker_connection_failed'', snd (handle_action s runner (c\<lparr>ac_stream := [Bytes text]\<rparr>) dw))"
  using assms by (simp add: execute_intent_def broken_exchange_def read_answer_def)

end
