(* ===== verification/Guardian_Runtime_Loop.thy ===== *)
theory Guardian_Runtime_Loop
  imports Guardian_Prelude
begin

text \<open>
  The two threads of the runtime (\<open>src/guardian_orchestrator.py\<close>, \<open>RuntimeOrchestrator\<close>): the
  producer samples the observer and puts events on a bounded queue, the consumer hands them to the
  coordinator, the main thread waits and joins, and a signal may request a stop at any time.  An
  action is one atomic step of one thread between two accesses to shared state; a schedule is any
  list of actions, and an action that is not enabled does nothing.  Calls into the observer and the
  coordinator return or raise, as the schedule says.  \<open>put\<close> and the counter it is followed by, the
  flags \<open>_fail_closed\<close> sets, and the reason and the flag of \<open>request_stop\<close> change in one action each.
\<close>

section \<open>State\<close>

datatype 'e producer = PHead | PCheck 'e | PPut 'e | PPosted | PWait | PDiscard | PDone

datatype 'e consumer = CHead | CGet | CEmpty | CWork 'e | CCounted 'e | CDiscard | CDone

datatype main_thread = MRun | MJoinProducer | MDropProducer | MJoinConsumer | MDropConsumer | MOver

text \<open>
  The last three fields are history: the events put on the queue, in order, and the events taken
  from it, in order, each with whether the coordinator got it.
\<close>

record 'e runtime =
  rt_queue :: "'e list"
  rt_stop :: bool
  rt_fatal :: bool
  rt_error :: "string option"
  rt_readiness :: string
  rt_shutdown :: "string option"
  rt_reconcile :: nat
  rt_sampled :: nat
  rt_enqueued :: nat
  rt_processed :: nat
  rt_queue_full :: nat
  rt_observer_errors :: nat
  rt_coordinator_errors :: nat
  rt_max_depth :: nat
  rt_producer :: "'e producer"
  rt_consumer :: "'e consumer"
  rt_main :: main_thread
  rt_posted :: "'e list"
  rt_taken :: "('e \<times> bool) list"

definition start_runtime :: "nat \<Rightarrow> 'e runtime" where
  "start_runtime pending =
     \<lparr>rt_queue = [], rt_stop = False, rt_fatal = False, rt_error = None,
      rt_readiness = (if pending = 0 then ''starting'' else ''reconciliation_required''), rt_shutdown = None, rt_reconcile = pending,
      rt_sampled = 0, rt_enqueued = 0, rt_processed = 0, rt_queue_full = 0, rt_observer_errors = 0, rt_coordinator_errors = 0,
      rt_max_depth = 0, rt_producer = PHead, rt_consumer = CHead, rt_main = MRun, rt_posted = [], rt_taken = []\<rparr>"

section \<open>Operations of all threads\<close>

definition request_stop :: "string \<Rightarrow> 'e runtime \<Rightarrow> 'e runtime" where
  "request_stop reason s =
     s\<lparr>rt_shutdown := (case rt_shutdown s of None \<Rightarrow> Some (take 128 reason) | Some r \<Rightarrow> Some r), rt_stop := True\<rparr>"

text \<open>\<open>_fail_closed\<close> up to the discarding of the queue; the text of an exception is an argument.\<close>

definition fail_closed :: "string \<Rightarrow> string \<Rightarrow> 'e runtime \<Rightarrow> 'e runtime" where
  "fail_closed reason text s =
     s\<lparr>rt_error := Some (if take 256 text = [] then reason else reason @ '':'' @ take 256 text),
       rt_readiness := ''failed'', rt_fatal := True, rt_stop := True\<rparr>"

text \<open>One round of \<open>_discard_queued_events\<close>; \<open>f\<close> is what follows an empty queue.\<close>

definition discard :: "('e runtime \<Rightarrow> 'e runtime) \<Rightarrow> 'e runtime \<Rightarrow> 'e runtime" where
  "discard f s =
     (case rt_queue s of
        [] \<Rightarrow> f s
      | e # q \<Rightarrow> s\<lparr>rt_queue := q, rt_taken := rt_taken s @ [(e, False)]\<rparr>)"

definition mark_ready :: "'e runtime \<Rightarrow> 'e runtime" where
  "mark_ready s = (if rt_reconcile s = 0 \<and> rt_readiness s = ''starting'' then s\<lparr>rt_readiness := ''ready''\<rparr> else s)"

section \<open>The producer\<close>

datatype 'e producer_act = Sample "string + 'e" | CheckStop | Put | PutTimeout | Posted | Tick | BadInterval | ProducerDiscard

datatype consumer_act = Look | Get | Leave | Work "string option" | Finish "string option" | ConsumerDiscard

datatype main_act = Signal string | RunOver | Interrupt | Join | JoinTimeout | MainDiscard

datatype 'e action = Producer "'e producer_act" | Consumer consumer_act | Main main_act

definition sample_failed :: "string \<Rightarrow> 'e runtime \<Rightarrow> 'e runtime" where
  "sample_failed text s =
     (fail_closed ''observer_failed'' text s)\<lparr>rt_observer_errors := rt_observer_errors s + 1, rt_producer := PDiscard\<rparr>"

definition put_event :: "'e \<Rightarrow> 'e runtime \<Rightarrow> 'e runtime" where
  "put_event e s =
     s\<lparr>rt_queue := rt_queue s @ [e], rt_enqueued := rt_enqueued s + 1, rt_posted := rt_posted s @ [e], rt_producer := PPosted\<rparr>"

definition after_put :: "nat option \<Rightarrow> 'e runtime \<Rightarrow> 'e runtime" where
  "after_put limit s =
     (let s' = s\<lparr>rt_max_depth := max (rt_max_depth s) (length (rt_queue s))\<rparr>
      in case limit of
           None \<Rightarrow> s'\<lparr>rt_producer := PWait\<rparr>
         | Some n \<Rightarrow> if n \<le> rt_sampled s' then (request_stop ''sample_limit'' s')\<lparr>rt_producer := PDone\<rparr> else s'\<lparr>rt_producer := PWait\<rparr>)"

fun producer_step :: "nat \<Rightarrow> nat option \<Rightarrow> 'e producer_act \<Rightarrow> 'e runtime \<Rightarrow> 'e producer \<Rightarrow> 'e runtime option" where
  "producer_step cap limit (Sample r) s PHead =
     Some (if rt_stop s then s\<lparr>rt_producer := PDone\<rparr>
           else case r of Inl text \<Rightarrow> sample_failed text s
                        | Inr e \<Rightarrow> s\<lparr>rt_sampled := rt_sampled s + 1, rt_producer := PCheck e\<rparr>)"
| "producer_step cap limit CheckStop s (PCheck e) = Some (s\<lparr>rt_producer := if rt_stop s then PDone else PPut e\<rparr>)"
| "producer_step cap limit Put s (PPut e) = (if length (rt_queue s) < cap then Some (put_event e s) else None)"
| "producer_step cap limit PutTimeout s (PPut e) =
     (if length (rt_queue s) < cap then None
      else Some ((fail_closed ''event_queue_full'' [] s)\<lparr>rt_queue_full := rt_queue_full s + 1, rt_producer := PDiscard\<rparr>))"
| "producer_step cap limit Posted s PPosted = Some (after_put limit s)"
| "producer_step cap limit Tick s PWait = Some (s\<lparr>rt_producer := if rt_stop s then PDone else PHead\<rparr>)"
| "producer_step cap limit BadInterval s PWait =
     Some ((fail_closed ''observer_interval_invalid'' [] s)\<lparr>rt_producer := PDiscard\<rparr>)"
| "producer_step cap limit ProducerDiscard s PDiscard = Some (discard (\<lambda>s. s\<lparr>rt_producer := PDone\<rparr>) s)"
| "producer_step cap limit _ s _ = None"

section \<open>The consumer and the main thread\<close>

definition take_event :: "'e runtime \<Rightarrow> 'e runtime" where
  "take_event s =
     (case rt_queue s of
        [] \<Rightarrow> s\<lparr>rt_consumer := CEmpty\<rparr>
      | e # q \<Rightarrow> s\<lparr>rt_queue := q, rt_taken := rt_taken s @ [(e, True)], rt_consumer := CWork e\<rparr>)"

definition consume_failed :: "string \<Rightarrow> 'e runtime \<Rightarrow> 'e runtime" where
  "consume_failed text s =
     (fail_closed ''coordinator_failed'' text s)\<lparr>rt_coordinator_errors := rt_coordinator_errors s + 1, rt_consumer := CDiscard\<rparr>"

fun consumer_step :: "consumer_act \<Rightarrow> 'e runtime \<Rightarrow> 'e consumer \<Rightarrow> 'e runtime option" where
  "consumer_step Look s CHead = Some (s\<lparr>rt_consumer := if rt_fatal s then CDiscard else CGet\<rparr>)"
| "consumer_step Get s CGet = Some (take_event s)"
| "consumer_step Leave s CEmpty = Some (s\<lparr>rt_consumer := if rt_stop s then CDone else CHead\<rparr>)"
| "consumer_step (Work r) s (CWork e) =
     Some (case r of Some text \<Rightarrow> consume_failed text s
                   | None \<Rightarrow> s\<lparr>rt_processed := rt_processed s + 1, rt_consumer := CCounted e\<rparr>)"
| "consumer_step (Finish r) s (CCounted e) =
     Some (case r of Some text \<Rightarrow> consume_failed text s | None \<Rightarrow> (mark_ready s)\<lparr>rt_consumer := CHead\<rparr>)"
| "consumer_step ConsumerDiscard s CDiscard = Some (discard (\<lambda>s. s\<lparr>rt_consumer := CDone\<rparr>) s)"
| "consumer_step _ s _ = None"

fun main_step :: "main_act \<Rightarrow> 'e runtime \<Rightarrow> main_thread \<Rightarrow> 'e runtime option" where
  "main_step (Signal reason) s _ = Some (request_stop reason s)"
| "main_step RunOver s MRun =
     (if rt_producer s = PDone \<and> rt_consumer s = CDone
      then Some ((if rt_stop s then s else request_stop ''runtime_completed'' s)\<lparr>rt_main := MJoinProducer\<rparr>) else None)"
| "main_step Interrupt s MRun = Some ((request_stop ''keyboard_interrupt'' s)\<lparr>rt_main := MJoinProducer\<rparr>)"
| "main_step Join s MJoinProducer = (if rt_producer s = PDone then Some (s\<lparr>rt_main := MJoinConsumer\<rparr>) else None)"
| "main_step Join s MJoinConsumer = (if rt_consumer s = CDone then Some (s\<lparr>rt_main := MOver\<rparr>) else None)"
| "main_step JoinTimeout s MJoinProducer =
     (if rt_producer s = PDone then None else Some ((fail_closed ''producer_shutdown_timeout'' [] s)\<lparr>rt_main := MDropProducer\<rparr>))"
| "main_step JoinTimeout s MJoinConsumer =
     (if rt_consumer s = CDone then None else Some ((fail_closed ''consumer_shutdown_timeout'' [] s)\<lparr>rt_main := MDropConsumer\<rparr>))"
| "main_step MainDiscard s MDropProducer = Some (discard (\<lambda>s. s\<lparr>rt_main := MJoinConsumer\<rparr>) s)"
| "main_step MainDiscard s MDropConsumer = Some (discard (\<lambda>s. s\<lparr>rt_main := MOver\<rparr>) s)"
| "main_step _ s _ = None"

text \<open>One action, and one action of a schedule.\<close>

fun act :: "nat \<Rightarrow> nat option \<Rightarrow> 'e action \<Rightarrow> 'e runtime \<Rightarrow> 'e runtime option" where
  "act cap limit (Producer a) s = producer_step cap limit a s (rt_producer s)"
| "act cap limit (Consumer a) s = consumer_step a s (rt_consumer s)"
| "act cap limit (Main a) s = main_step a s (rt_main s)"

definition advance :: "nat \<Rightarrow> nat option \<Rightarrow> 'e runtime \<Rightarrow> 'e action \<Rightarrow> 'e runtime" where
  "advance cap limit s a = (case act cap limit a s of None \<Rightarrow> s | Some s' \<Rightarrow> s')"

text \<open>The status and exit code \<open>join\<close> returns.\<close>

definition join_outcome :: "'e runtime \<Rightarrow> string \<times> int" where
  "join_outcome s = (if rt_error s = None then (''STOPPED'', 0) else (''FAILED'', 1))"

definition handled :: "'e runtime \<Rightarrow> 'e list" where
  "handled s = map fst (filter snd (rt_taken s))"

section \<open>What an action does\<close>

lemma fail_closed_simps [simp]:
  "rt_queue (fail_closed reason text s) = rt_queue s" "rt_stop (fail_closed reason text s)" "rt_fatal (fail_closed reason text s)"
  "\<exists>y. rt_error (fail_closed reason text s) = Some y" "rt_readiness (fail_closed reason text s) = ''failed''"
  "rt_enqueued (fail_closed reason text s) = rt_enqueued s" "rt_max_depth (fail_closed reason text s) = rt_max_depth s"
  "rt_posted (fail_closed reason text s) = rt_posted s" "rt_taken (fail_closed reason text s) = rt_taken s"
  "rt_producer (fail_closed reason text s) = rt_producer s" "rt_consumer (fail_closed reason text s) = rt_consumer s"
  "rt_main (fail_closed reason text s) = rt_main s"
  by (simp_all add: fail_closed_def)

lemma request_stop_simps [simp]:
  "rt_queue (request_stop reason s) = rt_queue s" "rt_stop (request_stop reason s)" "rt_fatal (request_stop reason s) = rt_fatal s"
  "rt_error (request_stop reason s) = rt_error s" "rt_readiness (request_stop reason s) = rt_readiness s"
  "rt_enqueued (request_stop reason s) = rt_enqueued s" "rt_max_depth (request_stop reason s) = rt_max_depth s"
  "rt_processed (request_stop reason s) = rt_processed s"
  "rt_posted (request_stop reason s) = rt_posted s" "rt_taken (request_stop reason s) = rt_taken s"
  "rt_producer (request_stop reason s) = rt_producer s" "rt_consumer (request_stop reason s) = rt_consumer s"
  "rt_main (request_stop reason s) = rt_main s"
  by (simp_all add: request_stop_def)

lemma mark_ready_simps [simp]:
  "rt_queue (mark_ready s) = rt_queue s" "rt_stop (mark_ready s) = rt_stop s" "rt_fatal (mark_ready s) = rt_fatal s"
  "rt_error (mark_ready s) = rt_error s" "rt_enqueued (mark_ready s) = rt_enqueued s" "rt_max_depth (mark_ready s) = rt_max_depth s"
  "rt_processed (mark_ready s) = rt_processed s" "rt_posted (mark_ready s) = rt_posted s" "rt_taken (mark_ready s) = rt_taken s"
  "rt_producer (mark_ready s) = rt_producer s" "rt_main (mark_ready s) = rt_main s"
  "rt_readiness s = ''failed'' \<Longrightarrow> rt_readiness (mark_ready s) = ''failed''"
  by (simp_all add: mark_ready_def)

text \<open>
  The shapes of an action, one rule per branch of the code, with only the facts the proofs need.
\<close>

lemmas step_updates = sample_failed_def put_event_def after_put_def take_event_def consume_failed_def discard_def Let_def

definition queue_ok :: "nat \<Rightarrow> 'e runtime \<Rightarrow> bool" where
  "queue_ok cap s \<longleftrightarrow> rt_posted s = map fst (rt_taken s) @ rt_queue s \<and> rt_enqueued s = length (rt_posted s) \<and>
     length (rt_queue s) \<le> cap \<and> rt_max_depth s \<le> cap"

definition fatal_ok :: "'e runtime \<Rightarrow> bool" where
  "fatal_ok s \<longleftrightarrow> (rt_fatal s \<longleftrightarrow> rt_error s \<noteq> None) \<and> (rt_fatal s \<longrightarrow> rt_stop s \<and> rt_readiness s = ''failed'')"

definition in_work :: "'e consumer \<Rightarrow> nat" where
  "in_work pc = (case pc of CWork _ \<Rightarrow> 1 | _ \<Rightarrow> 0)"

definition graceful_ok :: "'e runtime \<Rightarrow> bool" where
  "graceful_ok s \<longleftrightarrow> (\<not> rt_fatal s \<longrightarrow>
     (\<forall>p \<in> set (rt_taken s). snd p) \<and> rt_producer s \<noteq> PDiscard \<and> rt_consumer s \<noteq> CDiscard \<and>
     rt_main s \<notin> {MDropProducer, MDropConsumer} \<and> length (rt_taken s) = rt_processed s + in_work (rt_consumer s))"

fun_cases producer_elim: "producer_step cap limit a s pc = Some s'"
fun_cases consumer_elim: "consumer_step a s pc = Some s'"
fun_cases main_elim: "main_step a s pc = Some s'"

lemmas step_splits = if_splits sum.splits list.splits option.splits

lemma producer_keeps:
  assumes "producer_step cap limit a s pc = Some s'" "rt_producer s = pc"
  shows "queue_ok cap s \<Longrightarrow> queue_ok cap s'" "fatal_ok s \<Longrightarrow> fatal_ok s'" "graceful_ok s \<Longrightarrow> graceful_ok s'"
  subgoal using assms(1) by (elim producer_elim) (auto simp: queue_ok_def step_updates split: step_splits)
  subgoal using assms(1) by (elim producer_elim) (auto simp: fatal_ok_def step_updates split: step_splits)
  subgoal using assms by (elim producer_elim) (auto simp: graceful_ok_def step_updates split: step_splits)
  done

lemma consumer_keeps:
  assumes "consumer_step a s pc = Some s'" "rt_consumer s = pc"
  shows "queue_ok cap s \<Longrightarrow> queue_ok cap s'" "fatal_ok s \<Longrightarrow> fatal_ok s'" "graceful_ok s \<Longrightarrow> graceful_ok s'"
  subgoal using assms(1) by (elim consumer_elim) (auto simp: queue_ok_def step_updates split: step_splits)
  subgoal using assms(1) by (elim consumer_elim) (auto simp: fatal_ok_def step_updates split: step_splits)
  subgoal using assms by (elim consumer_elim) (auto simp: graceful_ok_def in_work_def step_updates split: step_splits)
  done

lemma main_keeps:
  assumes "main_step a s pc = Some s'" "rt_main s = pc"
  shows "queue_ok cap s \<Longrightarrow> queue_ok cap s'" "fatal_ok s \<Longrightarrow> fatal_ok s'" "graceful_ok s \<Longrightarrow> graceful_ok s'"
  subgoal using assms(1) by (elim main_elim) (auto simp: queue_ok_def step_updates split: step_splits)
  subgoal using assms(1) by (elim main_elim) (auto simp: fatal_ok_def step_updates split: step_splits)
  subgoal using assms by (elim main_elim) (auto simp: graceful_ok_def step_updates split: step_splits)
  done

definition runtime_ok :: "nat \<Rightarrow> 'e runtime \<Rightarrow> bool" where
  "runtime_ok cap s \<longleftrightarrow> queue_ok cap s \<and> fatal_ok s \<and> graceful_ok s"

lemma act_ok: "act cap limit a s = Some s' \<Longrightarrow> runtime_ok cap s \<Longrightarrow> runtime_ok cap s'"
  by (cases a) (auto simp: runtime_ok_def dest: producer_keeps consumer_keeps main_keeps)

interpretation runtime_inv: invariant_system "advance cap limit" "runtime_ok cap" for cap limit
  by unfold_locales (auto simp: advance_def dest: act_ok split: option.splits)

lemma start_ok: "runtime_ok cap (start_runtime pending)"
  by (simp add: runtime_ok_def queue_ok_def fatal_ok_def graceful_ok_def start_runtime_def in_work_def)

text \<open>
  C20.  In every schedule of the threads, signals and timeouts: the events leave the queue in the order
  in which they were put on it, the queue never exceeds its capacity, an error is recorded exactly
  when the runtime has failed closed, which stops it and makes it unready, and until then no event
  has been discarded: the coordinator got every event taken, and all but the one in its hands have
  been counted as processed.
\<close>

theorem runtime_accounts:
  "let s = exec_all (advance cap limit) (start_runtime pending) schedule in
    rt_posted s = map fst (rt_taken s) @ rt_queue s \<and> rt_enqueued s = length (rt_posted s) \<and>
    length (rt_queue s) \<le> cap \<and> rt_max_depth s \<le> cap \<and>
    rt_fatal s = (rt_error s \<noteq> None) \<and>
    (if rt_fatal s then rt_stop s \<and> rt_readiness s = ''failed''
     else rt_posted s = handled s @ rt_queue s \<and> length (handled s) = rt_processed s + in_work (rt_consumer s))"
proof -
  define s where "s = exec_all (advance cap limit) (start_runtime pending) schedule"
  have ok: "runtime_ok cap s" unfolding s_def by (rule runtime_inv.run_inv) (rule start_ok)
  then have "handled s = map fst (rt_taken s)" if "\<not> rt_fatal s"
    using that by (simp add: handled_def runtime_ok_def graceful_ok_def)
  with ok show ?thesis
    unfolding Let_def s_def [symmetric]
    by (auto simp: runtime_ok_def queue_ok_def fatal_ok_def graceful_ok_def)
qed

section \<open>Failing closed\<close>

definition hands :: "'e runtime \<Rightarrow> nat" where
  "hands s = length (handled s) + (if rt_consumer s = CGet then 1 else 0)"

lemma act_fatal:
  assumes "act cap limit a s = Some s'" "rt_fatal s"
  shows "rt_fatal s' \<and> hands s' \<le> hands s"
proof (cases a)
  case (Producer b)
  with assms(1) have "producer_step cap limit b s (rt_producer s) = Some s'" by simp
  with assms(2) show ?thesis
    by (elim producer_elim) (auto simp: hands_def handled_def step_updates split: step_splits)
next
  case (Consumer b)
  with assms(1) obtain pc where "consumer_step b s pc = Some s'" "rt_consumer s = pc" by simp
  with assms(2) show ?thesis
    by (elim consumer_elim) (auto simp: hands_def handled_def step_updates split: step_splits)
next
  case (Main b)
  with assms(1) have "main_step b s (rt_main s) = Some s'" by simp
  with assms(2) show ?thesis
    by (elim main_elim) (auto simp: hands_def handled_def step_updates split: step_splits)
qed

lemma run_fatal: "rt_fatal s \<Longrightarrow> rt_fatal (exec_all (advance cap limit) s as) \<and> hands (exec_all (advance cap limit) s as) \<le> hands s"
proof (induction as arbitrary: s)
  case (Cons a as)
  have "rt_fatal (advance cap limit s a) \<and> hands (advance cap limit s a) \<le> hands s"
    using Cons.prems by (auto simp: advance_def dest: act_fatal split: option.splits)
  with Cons.IH show ?case by (force intro: le_trans)
qed simp

text \<open>
  Once the runtime has failed closed it stays failed, and whatever the threads do from then on,
  the coordinator gets at most one further event, and that one only if the consumer had already
  passed its test of the failure.
\<close>

theorem fail_closed_stops:
  assumes "rt_fatal s"
  shows "rt_fatal (exec_all (advance cap limit) s schedule) \<and>
    length (handled (exec_all (advance cap limit) s schedule)) \<le> length (handled s) + (if rt_consumer s = CGet then 1 else 0)"
  using run_fatal [OF assms, of cap limit schedule] by (auto simp: hands_def split: if_splits)

theorem fail_closed_stops_witness:
  "let s = fail_closed ''observer_failed'' ''boom'' (start_runtime 0 :: nat runtime); s' = exec_all (advance 8 None) s [Consumer Look, Consumer ConsumerDiscard] in
    rt_fatal s \<and> rt_fatal s' \<and> length (handled s') \<le> length (handled s) + (if rt_consumer s = CGet then 1 else 0)"
  using fail_closed_stops [of "fail_closed ''observer_failed'' ''boom'' (start_runtime 0 :: nat runtime)" 8 None "[Consumer Look, Consumer ConsumerDiscard]"]
  by (simp add: Let_def)

section \<open>Shutdown\<close>

text \<open>A run in which every action is enabled.\<close>

fun run_all :: "nat \<Rightarrow> nat option \<Rightarrow> 'e action list \<Rightarrow> 'e runtime \<Rightarrow> 'e runtime option" where
  "run_all cap limit [] s = Some s"
| "run_all cap limit (a # as) s = (case act cap limit a s of None \<Rightarrow> None | Some s' \<Rightarrow> run_all cap limit as s')"

definition is_signal :: "'e action \<Rightarrow> bool" where
  "is_signal a = (case a of Main (Signal _) \<Rightarrow> True | _ \<Rightarrow> False)"

definition finished :: "'e runtime \<Rightarrow> bool" where
  "finished s \<longleftrightarrow> rt_producer s = PDone \<and> rt_consumer s = CDone \<and> rt_main s = MOver"

fun producer_left :: "'e producer \<Rightarrow> nat" where
  "producer_left PHead = 22"
| "producer_left (PCheck _) = 21"
| "producer_left (PPut _) = 20"
| "producer_left PPosted = 5"
| "producer_left PWait = 3"
| "producer_left PDiscard = 1"
| "producer_left PDone = 0"

fun consumer_left :: "'e consumer \<Rightarrow> nat" where
  "consumer_left (CWork _) = 9"
| "consumer_left (CCounted _) = 8"
| "consumer_left CHead = 5"
| "consumer_left CGet = 4"
| "consumer_left CEmpty = 3"
| "consumer_left CDiscard = 1"
| "consumer_left CDone = 0"

fun main_left :: "main_thread \<Rightarrow> nat" where
  "main_left MRun = 6"
| "main_left MJoinProducer = 5"
| "main_left MDropProducer = 4"
| "main_left MJoinConsumer = 3"
| "main_left MDropConsumer = 2"
| "main_left MOver = 0"

definition work_left :: "'e runtime \<Rightarrow> nat" where
  "work_left s = 10 * length (rt_queue s) + producer_left (rt_producer s) + consumer_left (rt_consumer s) + main_left (rt_main s)"

lemma act_stop:
  assumes "act cap limit a s = Some s'" "rt_stop s" "\<not> is_signal a"
  shows "rt_stop s' \<and> work_left s' < work_left s"
proof (cases a)
  case (Producer b)
  with assms(1) obtain pc where "producer_step cap limit b s pc = Some s'" "rt_producer s = pc" by simp
  with assms(2) show ?thesis
    by (elim producer_elim) (auto simp: work_left_def step_updates split: step_splits)
next
  case (Consumer b)
  with assms(1) obtain pc where "consumer_step b s pc = Some s'" "rt_consumer s = pc" by simp
  with assms(2) show ?thesis
    by (elim consumer_elim) (auto simp: work_left_def step_updates mark_ready_def split: step_splits)
next
  case (Main b)
  with assms(1) obtain pc where "main_step b s pc = Some s'" "rt_main s = pc" by simp
  with assms(2,3) Main show ?thesis
    by (elim main_elim) (auto simp: work_left_def is_signal_def step_updates split: step_splits)
qed

lemma run_stop:
  "run_all cap limit as s = Some s' \<Longrightarrow> rt_stop s \<Longrightarrow> list_all (\<lambda>a. \<not> is_signal a) as \<Longrightarrow> length as + work_left s' \<le> work_left s"
proof (induction as arbitrary: s)
  case (Cons a as)
  then obtain t where t: "act cap limit a s = Some t" "run_all cap limit as t = Some s'" by (auto split: option.splits)
  with act_stop [OF t(1)] Cons show ?case by force
qed simp

lemma stop_progress: "\<not> finished s \<Longrightarrow> \<exists>a s'. \<not> is_signal a \<and> act cap limit a s = Some s'"
proof -
  assume "\<not> finished s"
  then consider "rt_producer s \<noteq> PDone" | "rt_consumer s \<noteq> CDone" | "rt_producer s = PDone" "rt_consumer s = CDone" "rt_main s \<noteq> MOver"
    by (auto simp: finished_def)
  then show ?thesis
  proof cases
    case 1
    then have "\<exists>b s'. producer_step cap limit b s (rt_producer s) = Some s'"
    proof (cases "rt_producer s")
      case (PPut e)
      then show ?thesis
        by (cases "length (rt_queue s) < cap") (auto intro: exI [of _ Put] exI [of _ PutTimeout])
    qed (auto intro: producer_step.simps)
    then obtain b s' where "act cap limit (Producer b) s = Some s'" by auto
    moreover have "\<not> is_signal (Producer b)" by (simp add: is_signal_def)
    ultimately show ?thesis by blast
  next
    case 2
    then have "\<exists>b s'. consumer_step b s (rt_consumer s) = Some s'"
      by (cases "rt_consumer s") (auto intro: consumer_step.simps)
    then obtain b s' where "act cap limit (Consumer b) s = Some s'" by auto
    moreover have "\<not> is_signal (Consumer b)" by (simp add: is_signal_def)
    ultimately show ?thesis by blast
  next
    case 3
    then have "\<exists>b \<in> {RunOver, Join, MainDiscard}. main_step b s (rt_main s) \<noteq> None"
      by (cases "rt_main s") simp_all
    then have "\<exists>b s'. (\<forall>r. b \<noteq> Signal r) \<and> main_step b s (rt_main s) = Some s'" by auto
    then obtain b s' where "act cap limit (Main b) s = Some s'" "\<forall>r. b \<noteq> Signal r" by auto
    moreover from this have "\<not> is_signal (Main b)" by (auto simp: is_signal_def split: main_act.splits)
    ultimately show ?thesis by blast
  qed
qed

text \<open>
  C21.  A requested stop completes: after it the threads make at most \<open>work_left\<close> further steps, whatever
  the schedule, and until both have ended and the main thread has joined them a step is possible.
\<close>

theorem shutdown_completes:
  assumes "rt_stop s" "run_all cap limit schedule s = Some s'" "list_all (\<lambda>a. \<not> is_signal a) schedule"
  shows "length schedule \<le> work_left s \<and> (finished s' \<or> (\<exists>a s''. \<not> is_signal a \<and> act cap limit a s' = Some s''))"
  using run_stop [OF assms(2,1,3)] stop_progress by fastforce

theorem shutdown_completes_witness:
  "let s = request_stop ''sigterm'' (start_runtime 0 :: nat runtime); schedule = [Producer (Sample (Inl [])), Consumer Look] in
    rt_stop s \<and> length schedule \<le> work_left s \<and>
    (\<exists>s'. run_all 8 None schedule s = Some s' \<and> (finished s' \<or> (\<exists>a s''. \<not> is_signal a \<and> act 8 None a s' = Some s'')))"
proof -
  let ?s = "request_stop ''sigterm'' (start_runtime 0 :: nat runtime)" and ?as = "[Producer (Sample (Inl [])), Consumer Look]"
  obtain s' where s': "run_all 8 None ?as ?s = Some s'" by (simp add: start_runtime_def request_stop_def)
  moreover have "rt_stop ?s" "list_all (\<lambda>a. \<not> is_signal a) ?as" by (simp_all add: is_signal_def)
  ultimately show ?thesis
    unfolding Let_def using shutdown_completes [of ?s 8 None ?as s'] by blast
qed

definition losing_schedule :: "'e \<Rightarrow> 'e action list" where
  "losing_schedule e =
     [Consumer Look, Consumer Get, Producer (Sample (Inr e)), Producer CheckStop, Producer Put, Producer Posted,
      Consumer Leave, Main RunOver, Main Join, Main Join]"

text \<open>
  A stop can lose an event: when the consumer has found the queue empty but has not yet tested
  the stop, the producer may put its last event and request the stop at the sample limit; the
  consumer then ends, the runtime reports STOPPED with exit code 0, and the event is still in the
  queue.
\<close>

lemma stop_loses_event:
  "\<exists>s. run_all 8 (Some 1) (losing_schedule e) (start_runtime 0) = Some s \<and> finished s \<and> join_outcome s = (''STOPPED'', 0) \<and>
     rt_shutdown s = Some ''sample_limit'' \<and> rt_posted s = [e] \<and> handled s = [] \<and> rt_queue s = [e]"
  by (simp add: losing_schedule_def start_runtime_def take_event_def put_event_def after_put_def request_stop_def finished_def
      join_outcome_def handled_def)

end
