(* ===== verification/Guardian_Reserve_Broker_Laws.thy ===== *)
theory Guardian_Reserve_Broker_Laws
  imports Guardian_Reserve_Broker
begin

text \<open>
  What the reserve broker guarantees, over its store: when the helper starts, that it starts at most
  once per approval and per incident in any sequence of connections, and how the reply, the store
  and the client's answer agree.
\<close>

section \<open>A connection is a sequence of store effects\<close>

lemma register_effect: "reserve_effect db (snd (reserve_register env a e t act ex now db))"
  using reserve_step_effect [of db "RRegister env a e t act ex now"] by simp

lemma claim_effect: "reserve_effect db (snd (claim_execution env inc a e t act ex tgt now db))"
  using reserve_step_effect [of db "RClaim env inc a e t act ex tgt now"] by simp

lemma finish_effect: "reserve_effect db (snd (finish_execution env inc st res now db))"
  using reserve_step_effect [of db "RFinish env inc st res now"] by simp

lemma load_policy_effect: "reserve_effect db (snd (load_policy c db))"
  using register_effect
  by (auto simp: load_policy_def reserve_effect.same split: sum.splits prod.splits) (metis snd_conv)+

lemma validate_effect: "reserve_effect db (snd (validate_reserve c req db))"
  using load_policy_effect [of db c]
  by (auto simp: validate_reserve_def reserve_effect.same split: sum.splits prod.splits)

lemma run_claimed_effect: "reserve_effect db (snd (run_claimed c policy ap inc db))"
  using finish_effect [of db "cn_finish_env c" inc _ _ "cn_finish_time c"]
  by (auto simp: run_claimed_def reserve_effect.same split: sum.splits prod.splits option.splits) (metis snd_conv)+

lemma claim_and_run_effects: "reserve_effect\<^sup>*\<^sup>* db (snd (claim_and_run c req db))"
proof -
  obtain incident a policy where req: "req = (incident, a, policy)" by (rule prod_cases3)
  obtain r db1 where claim: "claim_execution (cn_claim_env c) incident (approval_id a) (auth_environment a) (auth_target_id a) RESERVE_ACTION
      (auth_expires_at a) (rp_root policy) (cn_now c) db = (r, db1)" by force
  then have "reserve_effect db db1" by (metis claim_effect snd_conv)
  with run_claimed_effect show ?thesis
    by (auto simp: claim_and_run_def req claim split: sum.splits intro: rtranclp.rtrancl_into_rtrancl)
qed

lemma handle_effects: "reserve_effect\<^sup>*\<^sup>* db (snd (handle_connection s c db))"
  using validate_effect [of db c] claim_and_run_effects
  by (auto simp: handle_connection_def Let_def split: sum.splits prod.splits)
     (metis converse_rtranclp_into_rtranclp r_into_rtranclp snd_conv)+

lemma effects_keep:
  assumes "reserve_effect\<^sup>*\<^sup>* db db'"
  shows "reserve_spent db a \<Longrightarrow> reserve_spent db' a" "reserve_incidents db inc \<noteq> None \<Longrightarrow> reserve_incidents db' inc \<noteq> None"
    "reserve_ok db \<Longrightarrow> reserve_ok db'"
  using assms
  by (induction rule: rtranclp_induct)
     (auto dest: reserve_effect_spent reserve_effect_incident reserve_effect_ok)

section \<open>When the helper starts\<close>

lemma run_claimed_helper: "oc_helper (fst (run_claimed c policy ap inc db)) = Some (ap, inc)"
  by (auto simp: run_claimed_def refusal_def split: prod.splits sum.splits option.splits)

lemma refusal_helper [simp]: "oc_helper (refusal c started x) = started"
  by (cases x) (simp_all add: refusal_def)

lemma claim_and_run_helper:
  assumes "claim_and_run c (incident, a, policy) db = (o1, db')" and "oc_helper o1 = Some (ap, inc)"
  obtains cap xs where "ap = approval_id a" "inc = incident"
    "reserve_capabilities db ap = Some cap" "rcap_consumed_at cap = None"
    "reserve_incidents db inc = None" "reserve_slots db RESERVE_SLOT = None"
    "run_claimed c policy ap inc (claimed_db inc ap RESERVE_ACTION (rp_root policy) (cn_now c) cap xs db) = (o1, db')"
proof -
  obtain r db1 where claim: "claim_execution (cn_claim_env c) incident (approval_id a) (auth_environment a) (auth_target_id a) RESERVE_ACTION
      (auth_expires_at a) (rp_root policy) (cn_now c) db = (r, db1)" by force
  with assms obtain cl where r: "r = Inr cl" "rec_claimed cl" and run: "run_claimed c policy (approval_id a) incident db1 = (o1, db')"
    by (auto simp: claim_and_run_def split: sum.splits if_splits)
  then have "ap = approval_id a" "inc = incident"
    using assms(2) run_claimed_helper [of c policy "approval_id a" incident db1] by simp_all
  with claim_execution_db [OF claim] r run that show thesis by auto
qed

lemma validate_reserve_Inr:
  assumes "validate_reserve c req db = (Inr (incident, a, policy), db')"
  obtains digest where "check_request (cn_now c) req = Inr incident" "load_policy c db = (Inr (policy, digest), db')"
    "check_scope c req policy digest = Inr a"
  using assms by (auto simp: validate_reserve_def sum_bind_Inr split: sum.splits prod.splits)

lemma load_policy_Inr:
  assumes "load_policy c db = (Inr (policy, digest), db')"
  shows "\<exists>a. configured_approval c = Inr (policy, digest, a)" "reserve_slots db' = reserve_slots db"
    "reserve_incidents db' = reserve_incidents db"
  using assms by (auto simp: load_policy_def dest!: reserve_register_db split: sum.splits prod.splits)

lemma handle_helper:
  assumes "handle_connection s c db = (o1, db')" and "oc_helper o1 = Some (ap, inc)"
  obtains req a policy db1 where "rs_enabled s" "cn_peer c = Inr (rs_allowed_uid s)" "read_request c = Inr req"
    "validate_reserve c req db = (Inr (inc, a, policy), db1)" "ap = approval_id a"
    "claim_and_run c (inc, a, policy) db1 = (o1, db')"
proof -
  obtain req where req: "rs_enabled s" "cn_peer c = Inr (rs_allowed_uid s)" "read_request c = Inr req"
    using assms by (auto simp: handle_connection_def Let_def split: sum.splits if_splits)
  obtain r db1 where v: "validate_reserve c req db = (r, db1)" by force
  with assms req obtain incident a policy where r: "r = Inr (incident, a, policy)"
      and run: "claim_and_run c (incident, a, policy) db1 = (o1, db')"
    by (cases r) (auto simp: handle_connection_def)
  from claim_and_run_helper [OF run assms(2)] have "ap = approval_id a" "inc = incident" by blast+
  with req v r run that show thesis by blast
qed

text \<open>The state of the store when the helper starts.\<close>

lemma helper_fresh:
  assumes "handle_connection s c db = (o1, db')" and "oc_helper o1 = Some (ap, inc)"
  shows "\<not> reserve_spent db ap" "reserve_incidents db inc = None" "reserve_slots db RESERVE_SLOT = None"
    "reserve_spent db' ap" "reserve_incidents db' inc \<noteq> None"
proof -
  obtain req a policy db1 where v: "validate_reserve c req db = (Inr (inc, a, policy), db1)"
      and run: "claim_and_run c (inc, a, policy) db1 = (o1, db')"
    using handle_helper [OF assms] by metis
  obtain cap xs where cap: "reserve_capabilities db1 ap = Some cap" "rcap_consumed_at cap = None"
      and fresh: "reserve_incidents db1 inc = None" "reserve_slots db1 RESERVE_SLOT = None"
      and finish: "run_claimed c policy ap inc (claimed_db inc ap RESERVE_ACTION (rp_root policy) (cn_now c) cap xs db1) = (o1, db')"
    using claim_and_run_helper [OF run assms(2)] by metis
  let ?db2 = "claimed_db inc ap RESERVE_ACTION (rp_root policy) (cn_now c) cap xs db1"
  have e: "reserve_effect db db1" using validate_effect [of db c req] v by simp
  have "\<not> reserve_spent db1 ap" using cap by (auto simp: reserve_spent_def)
  then show "\<not> reserve_spent db ap" using reserve_effect_spent [OF e] by blast
  obtain digest where "load_policy c db = (Inr (policy, digest), db1)" using validate_reserve_Inr [OF v] by metis
  from load_policy_Inr [OF this] fresh
  show "reserve_incidents db inc = None" "reserve_slots db RESERVE_SLOT = None" by simp_all
  have "reserve_effect ?db2 db'" using run_claimed_effect [of ?db2 c policy ap inc] finish by simp
  then show "reserve_spent db' ap" "reserve_incidents db' inc \<noteq> None"
    by (auto intro: reserve_effect_spent dest: reserve_effect_incident [where inc = inc])
qed

definition serve :: "reserve_server \<Rightarrow> reserve_db \<Rightarrow> connection \<Rightarrow> reserve_db" where
  "serve s db c = snd (handle_connection s c db)"

definition helper_for :: "reserve_server \<Rightarrow> reserve_db \<Rightarrow> connection \<Rightarrow> (string \<times> string) option" where
  "helper_for s db c = oc_helper (fst (handle_connection s c db))"

lemma helper_for_Some:
  assumes "helper_for s db c = Some (ap, inc)"
  shows "\<not> reserve_spent db ap" "reserve_incidents db inc = None" "reserve_spent (serve s db c) ap"
    "reserve_incidents (serve s db c) inc \<noteq> None"
  using helper_fresh [of s c db "fst (handle_connection s c db)" "snd (handle_connection s c db)" ap inc] assms
  by (simp_all add: helper_for_def serve_def)

interpretation helper_approval: one_shot "serve s" "\<lambda>db c. map_option fst (helper_for s db c)" reserve_spent for s
  by unfold_locales
     (auto dest: helper_for_Some intro: effects_keep(1) [OF handle_effects] simp: serve_def)

lemma serve_keeps_incident: "reserve_incidents db inc = Some row \<Longrightarrow> \<exists>row'. reserve_incidents (serve s db c) inc = Some row'"
  using effects_keep(2) [OF handle_effects, of db inc s c] by (auto simp: serve_def)

interpretation helper_incident: one_shot "serve s" "\<lambda>db c. map_option snd (helper_for s db c)"
    "\<lambda>db inc. reserve_incidents db inc \<noteq> None" for s
  by unfold_locales
     (auto dest: helper_for_Some serve_keeps_incident)

interpretation serve_inv: invariant_system "serve s" reserve_ok for s
  by unfold_locales (simp add: serve_def effects_keep(3) [OF handle_effects])

text \<open>
  C31.  Over any sequence of connections to the reserve broker, whatever they send and whichever SQL
  statement fails, the root helper starts at most once for an approval and at most once for an
  incident, and the store keeps its single slot in step with the one unresolved incident.
\<close>

theorem helper_starts_once:
  "distinct (granted (serve s) (\<lambda>db c. map_option fst (helper_for s db c)) db cs) \<and>
   distinct (granted (serve s) (\<lambda>db c. map_option snd (helper_for s db c)) db cs) \<and>
   reserve_ok (exec_all (serve s) empty_reserve_db cs)"
  using helper_approval.granted_once helper_incident.granted_once serve_inv.run_inv [OF empty_reserve_ok] by blast

text \<open>What the configuration, the approval file and the request must say.\<close>

definition reserve_section :: "pydict \<Rightarrow> pydict" where
  "reserve_section config = mapping_of (dget_default (mapping_of (dget config ''risk'')) ''disk_reserve_recovery'' (PDict []))"

lemma configured_approval_Inr:
  assumes "configured_approval c = Inr (policy, digest, a)"
  obtains v config where "cn_config c = Json v" "validate_config v = Inr config" "digest = cn_digest c config"
    "dget (reserve_section config) ''enabled'' = PBool True"
    "rp_root policy = RESERVE_ROOT" "rp_mount_point policy = ''/''"
    "rp_authorization_file policy = map_option pure_path (as_nonempty_str (dget (reserve_section config) ''authorization_file''))"
proof -
  obtain config where config: "load_reserve_config c = Inr config" "reserve_policy_of_config c config = Inr policy"
      "digest = cn_digest c config"
    using assms by (auto simp: configured_approval_def sum_bind_Inr)
  moreover obtain v where "cn_config c = Json v" "validate_config v = Inr config"
    using config(1)
    by (auto simp: load_reserve_config_def sum_bind_Inr json_or_def split: json_file.splits sum.splits config_error.splits)
  moreover have "dget (reserve_section config) ''enabled'' = PBool True" "rp_root policy = RESERVE_ROOT" "rp_mount_point policy = ''/''"
      "rp_authorization_file policy = map_option pure_path (as_nonempty_str (dget (reserve_section config) ''authorization_file''))"
    using config(2)
    by (auto simp: reserve_policy_of_config_def reserve_policy_from_def sum_bind_Inr Let_def reserve_section_def
        split: sum.splits if_splits)
  ultimately show thesis using that by blast
qed

lemma check_scope_Inr:
  assumes "check_scope c req policy digest = Inr auth"
  obtains path v where "dget req ''config_digest'' = PStr digest"
    "broker_authorization (dget req ''authorization'') = Inr auth" "auth_environment auth = ''local-disposable''"
    "auth_target_id auth = RESERVE_ROOT" "auth_action auth = RESERVE_ACTION" "\<not> fle (auth_expires_at auth) (Fin (cn_now c))"
    "rp_authorization_file policy = Some path" "cn_auth_second c path = Json v" "py_eq v (PDict (authorization_dict auth))"
  using assms
  by (auto simp: check_scope_def sum_bind_Inr auth_path_def json_or_def split: if_splits option.splits json_file.splits)

lemma check_request_incident: "check_request now req = Inr incident \<Longrightarrow> dget req ''incident_id'' = PStr incident"
  by (auto simp: check_request_def sum_bind_Inr broker_text_def split: if_splits option.splits)

text \<open>
  C32.  The helper starts only on an enabled server, for a connection of the allowed user, when the
  configuration is valid and enables the reserve, the request carries the digest of that
  configuration, and its approval is the content of the configured file, unexpired and scoped to
  the reserve; the approval was unspent, the incident new and the slot free.
\<close>

theorem helper_needs_consent:
  assumes "handle_connection s c db = (o1, db')" and "oc_helper o1 = Some (approval, incident)"
  shows "rs_enabled s \<and> cn_peer c = Inr (rs_allowed_uid s) \<and> \<not> reserve_spent db approval \<and>
    reserve_incidents db incident = None \<and> reserve_slots db RESERVE_SLOT = None \<and>
    (\<exists>req v config name w auth. read_request c = Inr req \<and> dget req ''incident_id'' = PStr incident \<and>
       cn_config c = Json v \<and> validate_config v = Inr config \<and> dget (reserve_section config) ''enabled'' = PBool True \<and>
       dget req ''config_digest'' = PStr (cn_digest c config) \<and>
       dget (reserve_section config) ''authorization_file'' = PStr name \<and> cn_auth_second c (pure_path name) = Json w \<and>
       broker_authorization (dget req ''authorization'') = Inr auth \<and> py_eq w (PDict (authorization_dict auth)) \<and>
       approval_id auth = approval \<and> auth_environment auth = ''local-disposable'' \<and> auth_target_id auth = RESERVE_ROOT \<and>
       auth_action auth = RESERVE_ACTION \<and> \<not> fle (auth_expires_at auth) (Fin (cn_now c)))"
proof -
  obtain req a policy db1 where h: "rs_enabled s" "cn_peer c = Inr (rs_allowed_uid s)" "read_request c = Inr req"
      "validate_reserve c req db = (Inr (incident, a, policy), db1)" "approval = approval_id a"
    using handle_helper [OF assms] by metis
  obtain digest where v: "check_request (cn_now c) req = Inr incident" "load_policy c db = (Inr (policy, digest), db1)"
      "check_scope c req policy digest = Inr a"
    using validate_reserve_Inr [OF h(4)] by metis
  obtain b where b: "configured_approval c = Inr (policy, digest, b)" using load_policy_Inr(1) [OF v(2)] by blast
  obtain val config where config: "cn_config c = Json val" "validate_config val = Inr config" "digest = cn_digest c config"
      "dget (reserve_section config) ''enabled'' = PBool True"
      "rp_authorization_file policy = map_option pure_path (as_nonempty_str (dget (reserve_section config) ''authorization_file''))"
    using configured_approval_Inr [OF b] by metis
  from v(3) show ?thesis
  proof (rule check_scope_Inr)
    fix path w
    assume scope: "dget req ''config_digest'' = PStr digest"
      "broker_authorization (dget req ''authorization'') = Inr a" "auth_environment a = ''local-disposable''"
      "auth_target_id a = RESERVE_ROOT" "auth_action a = RESERVE_ACTION" "\<not> fle (auth_expires_at a) (Fin (cn_now c))"
      "rp_authorization_file policy = Some path" "cn_auth_second c path = Json w" "py_eq w (PDict (authorization_dict a))"
    then obtain name where "dget (reserve_section config) ''authorization_file'' = PStr name" "path = pure_path name"
      using config(5) by auto
    with scope h v config check_request_incident [OF v(1)] helper_fresh [OF assms] show ?thesis by blast
  qed
qed

section \<open>Reply, store and answer agree\<close>

lemma finish_after_claim:
  assumes "finish_execution env inc st res t (claimed_db inc ap act tgt now cap xs db) = (r, db')" and "st \<in> set TERMINAL_STATES"
  shows "(\<exists>e. r = Inl e) \<and> db' = claimed_db inc ap act tgt now cap xs db \<or>
    (\<exists>row. reserve_incidents db' inc = Some row \<and> rinc_state row = st \<and>
       (if st \<in> {''UNKNOWN'', ''EXECUTED_UNVERIFIED''} then \<exists>slot. reserve_slots db' RESERVE_SLOT = Some slot \<and> rslot_incident slot = inc
        else reserve_slots db' RESERVE_SLOT = None))"
proof (cases r)
  case (Inl e)
  with finish_execution_db [OF assms(1)] show ?thesis by auto
next
  case (Inr b)
  have "b" using assms Inr
    by (auto simp: finish_execution_def transaction_Inr Let_def split: if_splits option.splits sum.splits)
  with finish_execution_db [OF assms(1)] Inr show ?thesis
    by (auto simp: finished_slots_def claimed_db_def)
qed

lemma judge_helper_states:
  assumes "judge_helper c policy inc = Some (state, status, reasons, payload)"
  shows "state \<in> set TERMINAL_STATES" "fst ` set payload \<subseteq> set RESULT_KEYS"
    "status = (if state = ''RELEASED'' then ''EXECUTED'' else if state = ''FAILED'' then ''DENIED'' else ''UNKNOWN'')"
  using assms
  by (auto simp: judge_helper_def judge_exit_def Let_def TERMINAL_STATES_def RESULT_KEYS_def split: helper_run.splits if_splits)

lemma judge_helper_released:
  assumes "judge_helper c policy inc = Some (''RELEASED'', status, reasons, payload)"
  shows "\<exists>out d before after. cn_helper c = HelperExit 0 out \<and> cn_loads c (py_strip out) = Some (PDict d) \<and>
    dget d ''path'' = PStr (reserve_path (rp_root policy)) \<and>
    int_like (dget d ''before_free_bytes'') = Some before \<and> int_like (dget d ''after_free_bytes'') = Some after \<and> before < after"
  using assms
  by (auto simp: judge_helper_def judge_exit_def Let_def opt_holds_def helper_valid_def
      split: helper_run.splits if_splits option.splits pyval.splits)

lemma respond_status [dest]: "respond c status reasons result = Some r \<Longrightarrow> br_status r = status \<and> br_result r = result"
  by (auto simp: respond_def Let_def split: if_splits)

lemma refusal_status: "oc_reply (refusal c started x) = Some r \<Longrightarrow> br_status r = ''DENIED'' \<and> br_result r = None"
  by (cases x) (auto simp: refusal_def)

lemma denied_without_helper:
  assumes "handle_connection s c db = (o1, db')" "oc_reply o1 = Some r" "oc_helper o1 = None"
  shows "br_status r = ''DENIED'' \<and> br_result r = None"
proof -
  have "br_status r = ''DENIED'' \<and> br_result r = None" if "claim_and_run c request d = (o1, db')" for request d
    using that assms(2,3) run_claimed_helper
    by (auto simp: claim_and_run_def refusal_status split: prod.splits sum.splits if_splits) (metis fst_conv option.distinct(1))+
  with assms show ?thesis
    by (auto simp: handle_connection_def Let_def refusal_status split: sum.splits prod.splits if_splits)
qed

lemma handle_run:
  assumes "handle_connection s c db = (o1, db')" and "oc_helper o1 = Some (ap, inc)"
  obtains policy cap xs db1 where "rp_root policy = RESERVE_ROOT"
    "run_claimed c policy ap inc (claimed_db inc ap RESERVE_ACTION RESERVE_ROOT (cn_now c) cap xs db1) = (o1, db')"
proof -
  obtain req a policy db1 where v: "validate_reserve c req db = (Inr (inc, a, policy), db1)"
      and run: "claim_and_run c (inc, a, policy) db1 = (o1, db')"
    using handle_helper [OF assms] by metis
  obtain digest where "load_policy c db = (Inr (policy, digest), db1)" using validate_reserve_Inr [OF v] by metis
  from load_policy_Inr(1) [OF this] obtain b where "configured_approval c = Inr (policy, digest, b)" by blast
  then have "rp_root policy = RESERVE_ROOT" using configured_approval_Inr by metis
  with claim_and_run_helper [OF run assms(2)] that show thesis by metis
qed

text \<open>
  A reply other than DENIED is true: EXECUTED means that the helper exited normally, reported
  the reserve's path and more free space than before, and that the incident is RELEASED in the
  store with the slot free; UNKNOWN means that the incident is UNKNOWN or EXECUTED_UNVERIFIED and
  keeps the slot.
\<close>

theorem reply_matches_store:
  assumes "handle_connection s c db = (o1, db')" and "oc_reply o1 = Some r" and "br_status r \<noteq> ''DENIED''"
  shows "\<exists>ap inc row. oc_helper o1 = Some (ap, inc) \<and> reserve_incidents db' inc = Some row \<and>
    (br_status r = ''EXECUTED'' \<and> rinc_state row = ''RELEASED'' \<and> reserve_slots db' RESERVE_SLOT = None \<and>
       (\<exists>out d before after. cn_helper c = HelperExit 0 out \<and> cn_loads c (py_strip out) = Some (PDict d) \<and>
          dget d ''path'' = PStr (reserve_path RESERVE_ROOT) \<and>
          int_like (dget d ''before_free_bytes'') = Some before \<and> int_like (dget d ''after_free_bytes'') = Some after \<and>
          before < after) \<or>
     br_status r = ''UNKNOWN'' \<and> rinc_state row \<in> {''UNKNOWN'', ''EXECUTED_UNVERIFIED''} \<and>
       (\<exists>slot. reserve_slots db' RESERVE_SLOT = Some slot \<and> rslot_incident slot = inc))"
proof -
  obtain ap inc where h: "oc_helper o1 = Some (ap, inc)"
    using denied_without_helper [OF assms(1,2)] assms(3) by (cases "oc_helper o1") auto
  obtain policy cap xs db1 where policy: "rp_root policy = RESERVE_ROOT"
      and run: "run_claimed c policy ap inc (claimed_db inc ap RESERVE_ACTION RESERVE_ROOT (cn_now c) cap xs db1) = (o1, db')"
    using handle_run [OF assms(1) h] by metis
  obtain state status reasons payload where j: "judge_helper c policy inc = Some (state, status, reasons, payload)"
    using run assms(2) by (cases "judge_helper c policy inc") (auto simp: run_claimed_def refusal_def)
  note states = judge_helper_states [OF j]
  obtain u where f: "finish_execution (cn_finish_env c) inc state payload (cn_finish_time c)
      (claimed_db inc ap RESERVE_ACTION RESERVE_ROOT (cn_now c) cap xs db1) = (Inr u, db')" and r: "br_status r = status"
    using run assms(2,3) respond_status [of c status reasons "Some payload" r]
    by (auto simp: run_claimed_def j refusal_status split: prod.splits sum.splits)
  from finish_after_claim [OF f states(1)] h states(1,3) r assms(3)
  show ?thesis
    using judge_helper_released [of c policy inc status reasons payload] j policy
    by (auto simp: TERMINAL_STATES_def split: if_splits)
qed

section \<open>The client's answer\<close>

lemma dget_dset: "dget (dset d k v) k' = (if k' = k then v else dget d k')"
  by (simp add: dget_def)

lemma dget_merge: "k \<notin> fst ` set e \<Longrightarrow> dget (merge d e) k = dget d k"
  unfolding merge_def by (induction e arbitrary: d) (auto simp: dget_def)

lemma read_reply:
  assumes "br_status r \<in> {''EXECUTED'', ''DENIED'', ''UNKNOWN''}"
    and "\<forall>d. br_result r = Some d \<longrightarrow> fst ` set d \<subseteq> set RESULT_KEYS"
  shows "\<exists>d. read_response (Json (PDict (response_dict r))) = Inr d \<and>
    dget d ''state'' = PStr (fst (status_meaning (br_status r))) \<and> dget d ''execution'' = PStr (snd (status_meaning (br_status r)))"
proof -
  let ?result = "mapping_of (opt_val PDict (br_result r))"
  have keys: "fst ` set ?result \<subseteq> set RESULT_KEYS" using assms(2) by (cases "br_result r") (auto simp: opt_val_def)
  then have other: "k \<notin> fst ` set (filter (\<lambda>(k, _). k \<noteq> ''action'') ?result)" if "k \<in> {''state'', ''execution''}" for k
    using that by (auto simp: RESULT_KEYS_def)
  have valid: "response_valid (PDict (response_dict r))"
    by (auto simp: response_valid_def response_dict_def keys_are_def)
  have strings: "\<not> list_ex (\<lambda>x. \<not> is_str x) (map PStr xs)" for xs by (auto simp: list_ex_iff)
  have result: "opt_val PDict (br_result r) = PNone \<or> is_dict (opt_val PDict (br_result r))"
    by (cases "br_result r") (simp_all add: opt_val_def)
  have allowed: "\<not> list_ex (\<lambda>(k, _). k \<notin> set RESULT_KEYS) ?result"
    using keys by (force simp: list_ex_iff)
  show ?thesis
    using assms(1) valid result allowed other strings
    by (auto simp: read_response_def Let_def response_dict_def dget_merge dget_dset split: prod.splits)
qed

text \<open>
  C33.  When the store cannot be opened after the helper has run, the broker replies DENIED although
  the reserve may be gone: the incident stays EXECUTION_STARTED, and the client tells the runtime
  that the release was blocked and not executed.
\<close>

theorem lost_outcome_not_executed:
  assumes "handle_connection s c db = (o1, db')" and "oc_helper o1 = Some (ap, inc)"
    and "open_error (cn_finish_env c) = Some e" and "oc_reply o1 = Some r"
  shows "br_status r = ''DENIED'' \<and> (\<exists>row. reserve_incidents db' inc = Some row \<and> rinc_state row = ''EXECUTION_STARTED'') \<and>
    (\<exists>d. read_response (Json (PDict (response_dict r))) = Inr d \<and>
       dget d ''state'' = PStr ''blocked'' \<and> dget d ''execution'' = PStr ''not_executed'')"
proof -
  obtain policy cap xs db1 where
    run: "run_claimed c policy ap inc (claimed_db inc ap RESERVE_ACTION RESERVE_ROOT (cn_now c) cap xs db1) = (o1, db')"
    using handle_run [OF assms(1,2)] by metis
  obtain state status reasons payload where j: "judge_helper c policy inc = Some (state, status, reasons, payload)"
    using run assms(4) by (cases "judge_helper c policy inc") (auto simp: run_claimed_def refusal_def)
  have "finish_execution (cn_finish_env c) inc state payload t d = (Inl (''reserve_state_open_failed:'' @ e), d)" for t d
    using assms(3) judge_helper_states(1) [OF j] by (simp add: finish_execution_def transaction_def)
  with run j have o1: "o1 = refusal c (Some (ap, inc)) (Refused (''reserve_state_open_failed:'' @ e))"
      and db': "db' = claimed_db inc ap RESERVE_ACTION RESERVE_ROOT (cn_now c) cap xs db1"
    by (auto simp: run_claimed_def)
  from o1 assms(4) have r: "br_status r = ''DENIED''" "br_result r = None" using refusal_status by blast+
  with read_reply [of r] db' show ?thesis by (simp add: status_meaning_def)
qed

section \<open>The request of the client\<close>

text \<open>
  C34.  The request the client builds from an approval passes the server's validation: with the
  digest of the server's configuration, the approval in the configured file, and a server clock
  between the moment of the request and its expiry.
\<close>

theorem client_request_accepted:
  assumes auth: "approval_id a \<noteq> []" "length (approval_id a) \<le> 256" "auth_environment a = ''local-disposable''"
      "auth_target_id a = RESERVE_ROOT" "auth_action a = RESERVE_ACTION" "auth_expires_at a = Fin e"
    and incident: "incident \<noteq> []" "length incident \<le> 256"
    and digest: "hex_fullmatch 64 64 (cl_sha256 net (''reserve:'' @ incident))"
    and time: "now \<le> cn_now c" "cn_now c < e" "cn_now c < now + 300"
    and policy: "rp_mount_point policy = mount" "rp_authorization_file policy = Some path"
      "cn_auth_second c path = Json (PDict (authorization_dict a))"
  shows "check_request (cn_now c) (client_request net incident a config_digest mount now) = Inr incident \<and>
    check_scope c (client_request net incident a config_digest mount now) policy config_digest = Inr a"
proof -
  have key: "cl_sha256 net (''reserve:'' @ incident) \<noteq> []" "length (cl_sha256 net (''reserve:'' @ incident)) = 64"
    using digest by (auto simp: hex_fullmatch_def)
  have "length ''local-disposable'' \<le> 256" "length RESERVE_ROOT \<le> 256" "length RESERVE_ACTION \<le> 256"
    by (simp_all add: RESERVE_ROOT_def RESERVE_ACTION_def)
  moreover have "RESERVE_ROOT \<noteq> []" "RESERVE_ACTION \<noteq> []" by (simp_all add: RESERVE_ROOT_def RESERVE_ACTION_def)
  ultimately have "broker_authorization (PDict (authorization_dict a)) = Inr a"
    using auth by (auto simp: broker_authorization_def authorization_dict_def keys_are_def AUTH_KEYS_def broker_text_def broker_number_def)
  moreover have "py_eq (PDict (authorization_dict a)) (PDict (authorization_dict a))"
    using auth by (simp add: authorization_dict_def)
  moreover have "target_fixed (client_request net incident a config_digest mount now) policy"
    using policy by (auto simp: target_fixed_def client_request_def build_reserve_request_def keys_are_def)
  ultimately have "check_scope c (client_request net incident a config_digest mount now) policy config_digest = Inr a"
    using auth time policy
    by (simp add: check_scope_def client_request_def build_reserve_request_def auth_path_def json_or_def)
  moreover have "check_request (cn_now c) (client_request net incident a config_digest mount now) = Inr incident"
    using auth time incident key digest
    by (auto simp: check_request_def client_request_def build_reserve_request_def keys_are_def REQUEST_KEYS_def broker_text_def
        broker_number_def fmin_def)
  ultimately show ?thesis by blast
qed

section \<open>A release\<close>

text \<open>A host with the reserve enabled, its approval, a request of the runtime, and a helper that frees space.\<close>

definition reserve_on :: pyval where
  "reserve_on = PDict (dset (dset (mapping_of default_disk_reserve_recovery) ''enabled'' (PBool True))
     ''authorization_file'' (PStr ''/etc/guardian/reserve.json''))"

definition reserve_config :: pyval where
  "reserve_config = PDict (dset (mapping_of safe_defaults) ''risk''
     (PDict (dset (mapping_of (dget (mapping_of safe_defaults) ''risk'')) ''disk_reserve_recovery'' reserve_on)))"

lemma reserve_on_ok: "check_reserve reserve_on = Inr ()"
  by (simp add: check_reserve_def reserve_on_def default_disk_reserve_recovery_def check_authorization_file_def config_eval
      del: check_number.simps(1))

lemma reserve_config_valid: "validate_config reserve_config = Inr (mapping_of reserve_config)"
  using default_sections_ok default_resources_ok default_rest_ok reserve_on_ok
  by (simp add: validate_config_def reserve_config_def safe_defaults_def optional_section_def check_risk_keys_def
      default_agent_def config_eval)

definition release_auth :: authorization where
  "release_auth = \<lparr>approval_id = ''ap'', auth_environment = ''local-disposable'', auth_target_id = RESERVE_ROOT,
     auth_action = RESERVE_ACTION, auth_expires_at = Fin 900\<rparr>"

definition release_net :: client_net where
  "release_net = \<lparr>cl_connect = None, cl_stream = [], cl_parse = (\<lambda>_. Unreadable), cl_dumps = (\<lambda>_. []),
     cl_sha256 = (\<lambda>_. replicate 64 CHR ''a'')\<rparr>"

definition release_connection :: "sql_env \<Rightarrow> connection" where
  "release_connection env =
     \<lparr>cn_peer = Inr 7, cn_stream = [Bytes (''request'' @ [LF])],
      cn_parse = (\<lambda>_. Json (PDict (client_request release_net ''inc'' release_auth ''digest'' ''/'' 10))),
      cn_now = 11, cn_config = Json reserve_config, cn_digest = (\<lambda>_. ''digest''),
      cn_auth_first = (\<lambda>_. Json (PDict (authorization_dict release_auth))),
      cn_auth_second = (\<lambda>_. Json (PDict (authorization_dict release_auth))),
      cn_register_env = reserve_env, cn_register_time = 11, cn_claim_env = reserve_env,
      cn_helper = HelperExit 0 [],
      cn_loads = (\<lambda>_. Some (PDict [(''status'', PStr ''released''), (''path'', PStr (reserve_path RESERVE_ROOT)),
        (''before_free_bytes'', PInt 100), (''after_free_bytes'', PInt 200)])),
      cn_finish_env = env, cn_finish_time = 12, cn_dumps = (\<lambda>_. []), cn_sends = True, cn_rep = (\<lambda>_. [])\<rparr>"

definition release_server :: reserve_server where
  "release_server = \<lparr>rs_enabled = True, rs_allowed_uid = 7\<rparr>"

definition release_policy :: reserve_policy where
  "release_policy = \<lparr>rp_enabled = True, rp_root = RESERVE_ROOT, rp_mount_point = ''/'', rp_max_releases = 1,
     rp_authorization_file = Some ''/etc/guardian/reserve.json''\<rparr>"

lemma release_key: "hex_fullmatch 64 64 (replicate 64 CHR ''a'')"
  by (simp add: hex_fullmatch_def is_hex_char_def list_all_iff)

lemma release_accepted:
  "check_request 11 (client_request release_net ''inc'' release_auth ''digest'' ''/'' 10) = Inr ''inc''"
  "check_scope (release_connection env) (client_request release_net ''inc'' release_auth ''digest'' ''/'' 10) release_policy ''digest'' = Inr release_auth"
  by code_simp+

theorem client_request_accepted_witness:
  "check_request (cn_now (release_connection reserve_env)) (client_request release_net ''inc'' release_auth ''digest'' ''/'' 10) = Inr ''inc'' \<and>
   check_scope (release_connection reserve_env) (client_request release_net ''inc'' release_auth ''digest'' ''/'' 10) release_policy ''digest'' =
     Inr release_auth"
  by (rule client_request_accepted [of _ 900])
     (simp_all add: release_auth_def release_net_def release_connection_def release_policy_def release_key)

lemma release_request: "read_request (release_connection env) = Inr (client_request release_net ''inc'' release_auth ''digest'' ''/'' 10)"
  by (simp add: read_request_def release_connection_def read_line_def MAX_MESSAGE_BYTES_def first_line_def LF_def)

lemma release_policy_of_config: "reserve_policy_of_config (release_connection env) (mapping_of reserve_config) = Inr release_policy"
  by code_simp

lemma release_connection_simps [simp]:
  "cn_peer (release_connection env) = Inr 7" "cn_now (release_connection env) = 11" "cn_config (release_connection env) = Json reserve_config"
  "cn_digest (release_connection env) = (\<lambda>_. ''digest'')"
  "cn_auth_first (release_connection env) = (\<lambda>_. Json (PDict (authorization_dict release_auth)))"
  "cn_register_env (release_connection env) = reserve_env" "cn_register_time (release_connection env) = 11"
  "cn_claim_env (release_connection env) = reserve_env" "cn_finish_env (release_connection env) = env"
  "cn_finish_time (release_connection env) = 12"
  by (simp_all add: release_connection_def)

lemma release_fields:
  "approval_id release_auth = ''ap''" "auth_environment release_auth = ''local-disposable''" "auth_target_id release_auth = RESERVE_ROOT"
  "auth_expires_at release_auth = Fin 900" "rp_root release_policy = RESERVE_ROOT"
  by (simp_all add: release_auth_def release_policy_def)

lemma release_configured: "configured_approval (release_connection env) = Inr (release_policy, ''digest'', release_auth)"
proof -
  have "broker_authorization (PDict (authorization_dict release_auth)) = Inr release_auth" by code_simp
  then show ?thesis
    by (simp add: configured_approval_def load_reserve_config_def json_or_def reserve_config_valid release_policy_of_config
        auth_path_def release_policy_def)
qed

lemma release_judged:
  "\<exists>reasons payload. judge_helper (release_connection env) release_policy ''inc'' = Some (''RELEASED'', ''EXECUTED'', reasons, payload)"
  by (simp add: judge_helper_def judge_exit_def Let_def release_connection_def release_policy_def opt_holds_def helper_valid_def)

lemma respond_release:
  "respond (release_connection env) status reasons result =
     Some \<lparr>br_status = status, br_reasons = take 16 (dict_fromkeys reasons), br_result = result\<rparr>"
  by (simp add: respond_def Let_def release_connection_def MAX_MESSAGE_BYTES_def)

definition registered_db :: reserve_db where
  "registered_db = snd (reserve_register reserve_env ''ap'' ''local-disposable'' RESERVE_ROOT RESERVE_ACTION (Fin 900) 11 empty_reserve_db)"

lemma release_registered:
  "load_policy (release_connection env) empty_reserve_db = (Inr (release_policy, ''digest''), registered_db)"
  by (simp add: load_policy_def release_configured registered_db_def release_auth_def reserve_env_def reserve_register_def
      reserve_audit_def reserve_json_def empty_reserve_db_def Let_def)

lemma release_claimed:
  "\<exists>cl db. claim_execution reserve_env ''inc'' ''ap'' ''local-disposable'' RESERVE_ROOT RESERVE_ACTION (Fin 900) RESERVE_ROOT 11 registered_db =
     (Inr cl, db) \<and> rec_claimed cl"
  by (simp add: claim_execution_def registered_db_def reserve_env_def reserve_register_def reserve_audit_def reserve_json_def
      empty_reserve_db_def Let_def RESERVE_ROOT_def RESERVE_ACTION_def)

lemma release_run:
  "\<exists>cap xs db. handle_connection release_server (release_connection env) empty_reserve_db =
     run_claimed (release_connection env) release_policy ''ap'' ''inc'' (claimed_db ''inc'' ''ap'' RESERVE_ACTION RESERVE_ROOT 11 cap xs db)"
proof -
  have v: "validate_reserve (release_connection env) (client_request release_net ''inc'' release_auth ''digest'' ''/'' 10) empty_reserve_db =
      (Inr (''inc'', release_auth, release_policy), registered_db)"
    using release_accepted by (simp add: validate_reserve_def release_registered)
  obtain cl db where claim: "claim_execution reserve_env ''inc'' ''ap'' ''local-disposable'' RESERVE_ROOT RESERVE_ACTION (Fin 900) RESERVE_ROOT 11
      registered_db = (Inr cl, db)" "rec_claimed cl" using release_claimed by blast
  moreover have "handle_connection release_server (release_connection env) empty_reserve_db = run_claimed (release_connection env) release_policy ''ap'' ''inc'' db"
    using claim by (simp add: handle_connection_def release_server_def release_request v claim_and_run_def release_fields)
  ultimately show ?thesis using claim_execution_db [OF claim(1)] by auto
qed

lemma release_handled:
  "\<exists>o1 db' r. handle_connection release_server (release_connection env) empty_reserve_db = (o1, db') \<and>
     oc_helper o1 = Some (''ap'', ''inc'') \<and> oc_reply o1 = Some r \<and> (env = reserve_env \<longrightarrow> br_status r = ''EXECUTED'')"
proof -
  obtain cap xs db where run: "handle_connection release_server (release_connection env) empty_reserve_db =
      run_claimed (release_connection env) release_policy ''ap'' ''inc'' (claimed_db ''inc'' ''ap'' RESERVE_ACTION RESERVE_ROOT 11 cap xs db)"
    using release_run by blast
  obtain reasons payload where j: "judge_helper (release_connection env) release_policy ''inc'' = Some (''RELEASED'', ''EXECUTED'', reasons, payload)"
    using release_judged by blast
  let ?finish = "finish_execution env ''inc'' ''RELEASED'' payload 12 (claimed_db ''inc'' ''ap'' RESERVE_ACTION RESERVE_ROOT 11 cap xs db)"
  have "env = reserve_env \<Longrightarrow> fst ?finish = Inr True"
    by (simp add: finish_execution_def reserve_env_def reserve_json_def reserve_audit_def TERMINAL_STATES_def Let_def)
  then show ?thesis
    by (cases ?finish) (auto simp: run run_claimed_def j refusal_def respond_release split: sum.splits)
qed

theorem helper_needs_consent_witness:
  "helper_for release_server empty_reserve_db (release_connection reserve_env) = Some (''ap'', ''inc'') \<and>
   rs_enabled release_server \<and> cn_peer (release_connection reserve_env) = Inr (rs_allowed_uid release_server)"
proof -
  obtain o1 db' where h: "handle_connection release_server (release_connection reserve_env) empty_reserve_db = (o1, db')"
      "oc_helper o1 = Some (''ap'', ''inc'')"
    using release_handled by blast
  from helper_needs_consent [OF h] h show ?thesis by (simp add: helper_for_def)
qed

theorem reply_matches_store_witness:
  "\<exists>o1 db' row. handle_connection release_server (release_connection reserve_env) empty_reserve_db = (o1, db') \<and>
     reserve_incidents db' ''inc'' = Some row \<and> rinc_state row = ''RELEASED''"
proof -
  obtain o1 db' r where h: "handle_connection release_server (release_connection reserve_env) empty_reserve_db = (o1, db')"
      "oc_helper o1 = Some (''ap'', ''inc'')" "oc_reply o1 = Some r" "br_status r = ''EXECUTED''"
    using release_handled by blast
  with reply_matches_store [OF h(1,3)] show ?thesis by auto
qed

definition closed_env :: sql_env where
  "closed_env = reserve_env\<lparr>open_error := Some ''disk full''\<rparr>"

theorem lost_outcome_not_executed_witness:
  "\<exists>o1 db' r. handle_connection release_server (release_connection closed_env) empty_reserve_db = (o1, db') \<and>
     oc_helper o1 = Some (''ap'', ''inc'') \<and> oc_reply o1 = Some r \<and> br_status r = ''DENIED'' \<and>
     (\<exists>d. read_response (Json (PDict (response_dict r))) = Inr d \<and> dget d ''execution'' = PStr ''not_executed'')"
proof -
  obtain o1 db' r where h: "handle_connection release_server (release_connection closed_env) empty_reserve_db = (o1, db')"
      "oc_helper o1 = Some (''ap'', ''inc'')" "oc_reply o1 = Some r"
    using release_handled by blast
  have "open_error (cn_finish_env (release_connection closed_env)) = Some ''disk full''" by (simp add: closed_env_def)
  from lost_outcome_not_executed [OF h(1,2) this h(3)] h show ?thesis by blast
qed

section \<open>The controller of the runtime\<close>

text \<open>
  The broker is asked only in enforce mode, for a critical disk risk, with the policy enabled, a
  configuration digest, and an approval of the configured file that is scoped to the reserve and
  has not expired.
\<close>

theorem broker_asked_only_when:
  assumes "reserve_handle rep k fs open_json release event mode now execute = (answer, Some auth)"
  shows "rp_enabled (rk_policy k) \<and> reserve_eligible rep event \<and> mode = ''enforce'' \<and> execute \<and> rk_digest k \<noteq> [] \<and>
    event_incident rep event \<noteq> [] \<and> \<not> fle (auth_expires_at auth) (Fin now) \<and> auth_target_id auth = rp_root (rk_policy k) \<and>
    (\<exists>path d. rp_authorization_file (rk_policy k) = Some path \<and> open_json path = Json (PDict d) \<and>
       dget d ''environment'' = PStr ''local-disposable'' \<and> dget d ''action'' = PStr RESERVE_ACTION \<and>
       dget d ''target_id'' = PStr (rp_root (rk_policy k)) \<and> py_float (dget d ''expires_at'') = Inr (auth_expires_at auth))"
proof -
  have h: "rp_enabled (rk_policy k)" "reserve_eligible rep event" "mode = ''enforce''" "execute" "rk_digest k \<noteq> []"
      "authorized rep (rk_policy k) open_json (event_incident rep event) now = Inr (Inr auth)"
    using assms by (auto simp: reserve_handle_def Let_def split: if_splits sum.splits)
  then show ?thesis
    by (auto simp: authorized_def split: option.splits json_file.splits pyval.splits if_splits sum.splits py_exn.splits)
qed

end
