(* ===== verification/Guardian_Shedding_Laws.thy ===== *)
theory Guardian_Shedding_Laws
  imports Guardian_Shedding
begin

text \<open>
  Further laws of emergency shedding: the shape of every decision, and the agreement of the two
  readers of the configuration block, the validator of \<open>src/guardian_config.py\<close> and
  \<open>policy_from_mapping\<close> of \<open>src/guardian_emergency_shedding.py\<close>.
\<close>

section \<open>Shape of a decision\<close>

definition refused :: "shedding_decision \<Rightarrow> bool" where
  "refused d \<longleftrightarrow> sd_action d = ''none'' \<and> sd_target_id d = None \<and> sd_plan d = None \<and> sd_plans_count d = 0 \<and>
     sd_reason_codes d \<noteq> []"

definition planned :: "shedding_decision \<Rightarrow> bool" where
  "planned d \<longleftrightarrow> (\<exists>p. sd_plan d = Some p \<and> sd_target_id d = Some (pl_target_id p) \<and>
     sd_resource_kind d = Some (pl_resource_kind p)) \<and>
     sd_action d = ''graceful_stop'' \<and> sd_execution d = ''not_executed'' \<and> sd_plans_count d = 1"

lemma empty_decision_refused:
  "\<exists>r \<in> set reasons. r \<noteq> [] \<Longrightarrow> refused (empty_decision mode execution reasons resource extra)"
  by (auto simp: refused_def empty_decision_def filter_empty_conv)

lemma check_inputs_reasons: "check_inputs iso_at now inp = Inl (reasons, extra) \<Longrightarrow> \<exists>r \<in> set reasons. r \<noteq> []"
  by (auto simp: check_inputs_def Let_def split: prod.splits if_splits)

lemma select_top_reasons: "select_top active rankings minimum = Inl (reasons, resource, extra) \<Longrightarrow> \<exists>r \<in> set reasons. r \<noteq> []"
  by (auto simp: select_top_def Let_def split: if_splits)

lemma entry_refusal_reasons: "entry_refusal iso_at now allowed entry resource target = Some (reasons, extra) \<Longrightarrow> \<exists>r \<in> set reasons. r \<noteq> []"
  by (auto simp: entry_refusal_def split: option.splits if_splits)

lemma make_plan_target [simp]:
  "pl_target_id (make_plan rep policy_sha plan_sha inp policy candidates entry resource target) = target"
  "pl_resource_kind (make_plan rep policy_sha plan_sha inp policy candidates entry resource target) = resource"
  by (simp_all add: make_plan_def Let_def)

lemma decide_shape:
  "refused (sr_decision (decide rep iso_at policy_sha plan_sha now inp policy mode execution active inputs)) \<or>
   planned (sr_decision (decide rep iso_at policy_sha plan_sha now inp policy mode execution active inputs))"
  by (auto simp: decide_def Let_def planned_def split: prod.splits sum.splits option.splits
      intro!: empty_decision_refused dest: select_top_reasons entry_refusal_reasons)

text \<open>
  C40. Every shedding decision is either a refusal (no action, no target, no plan, at least one
  reason) or exactly one graceful-stop plan for its target that is not executed.
\<close>
theorem shedding_refusal_or_one_plan:
  "let d = sr_decision (build_emergency_shedding_decision rep iso_at policy_sha plan_sha clock inp)
   in refused d \<noteq> planned d"
proof -
  let ?d = "sr_decision (build_emergency_shedding_decision rep iso_at policy_sha plan_sha clock inp)"
  have "refused ?d \<or> planned ?d"
    using decide_shape
    by (auto simp: build_emergency_shedding_decision_def refuse_early_def Let_def split: sum.splits option.splits
        intro!: empty_decision_refused dest: check_inputs_reasons)
  then show ?thesis by (auto simp: refused_def planned_def)
qed

section \<open>Validated configurations\<close>

lemma dget_default_key: "has_key d k \<Longrightarrow> dget_default d k w = dget d k"
  by (auto simp: has_key_def dget_default_def dget_def split: option.splits)

lemma exact_keys_has: "exact_keys d expected path = Inr () \<Longrightarrow> k \<in> set expected \<Longrightarrow> has_key d k"
  by (auto simp: exact_keys_def missing_keys_def filter_empty_conv)

lemma finite_number_num:
  "check_number v path = Inr () \<Longrightarrow> between lo hi (num v) \<Longrightarrow> \<exists>q. finite_number v = Some q \<and> lo \<le> q \<and> q \<le> hi"
  by (cases v rule: finite_number.cases) (auto simp: between_def split: if_splits)

lemma check_strings_texts:
  assumes "check_strings v path = Inr ()"
  shows "\<exists>vs. v = PList vs \<and> list_all is_str vs \<and> str_list v = map text_of vs"
proof -
  obtain vs where vs: "v = PList vs" "list_all (\<lambda>x. as_nonempty_str x \<noteq> None) vs"
    using assms by (cases v) (auto simp: check_strings_def)
  have "list_all is_str vs \<and> List.map_filter as_nonempty_str vs = map text_of vs"
    using vs(2) by (induction vs) (auto simp: map_filter_simps)
  with vs(1) show ?thesis by (simp add: str_list_def)
qed

text \<open>
  Whatever block the configuration validator accepts also builds a policy, with the same
  switch, sample count, priority and entries; the decision engine never rejects a validated block.
\<close>
theorem validated_block_builds_policy:
  assumes "check_shedding v = Inr ()"
  shows "let s = mapping_of v in
    \<exists>p. policy_from_mapping v = Inr p \<and> (sp_enabled p \<longleftrightarrow> dget s ''enabled'' = PBool True) \<and>
      PInt (sp_required_samples p) = dget s ''required_samples'' \<and>
      sp_resource_priority p = str_list (dget s ''resource_priority'') \<and>
      sp_protected_set p = entries_of (dget s ''protected_set'') \<and>
      sp_actionable_set p = entries_of (dget s ''actionable_set'')"
proof -
  let ?s = "mapping_of v"
  note parts = assms [unfolded check_shedding_def Let_def checks_Inr set_append ball_Un set_map ball_simps
      list.set require_Inr]
  obtain path where keys: "exact_keys ?s [''schema'', ''enabled'', ''window_seconds'', ''required_samples'',
      ''min_host_contribution_percent'', ''resource_priority'', ''action'', ''protected_set'', ''actionable_set''] path = Inr ()"
    using parts by - (elim conjE, rule that, assumption)
  note has = exact_keys_has [OF keys]
  have bool: "check_bool (dget ?s ''enabled'') (''risk.emergency_shedding'' @ ''.enabled'') = Inr ()"
    and window: "check_number (dget ?s ''window_seconds'') (''risk.emergency_shedding'' @ ''.window_seconds'') = Inr ()"
      "between 1 60 (num (dget ?s ''window_seconds''))"
    and samples: "int_between 1 60 (dget ?s ''required_samples'')"
    and minimum: "check_number (dget ?s ''min_host_contribution_percent'')
        (''risk.emergency_shedding'' @ ''.min_host_contribution_percent'') = Inr ()"
      "between 0 100 (num (dget ?s ''min_host_contribution_percent''))"
    and strings: "check_strings (dget ?s ''resource_priority'') (''risk.emergency_shedding'' @ ''.resource_priority'') = Inr ()"
    and priority: "length (str_list (dget ?s ''resource_priority'')) = length EMERGENCY_RESOURCES"
      "set (str_list (dget ?s ''resource_priority'')) = set EMERGENCY_RESOURCES"
    and action: "dget ?s ''action'' = PStr ''graceful_stop''"
    and schema: "dget ?s ''schema'' = PStr ''guardian.emergency_shedding.v1''"
    and lists: "object_list (dget ?s ''protected_set'')" "object_list (dget ?s ''actionable_set'')"
    using parts by - (elim conjE, assumption)+
  obtain w where w: "finite_number (dget ?s ''window_seconds'') = Some w" "0 < w"
    using finite_number_num [OF window] by (auto simp: less_le_trans)
  obtain m where m: "finite_number (dget ?s ''min_host_contribution_percent'') = Some m" "0 \<le> m" "m \<le> 100"
    using finite_number_num [OF minimum] by auto
  obtain n where n: "dget ?s ''required_samples'' = PInt n"
    using samples by (auto simp: int_between_def split: option.splits)
  obtain b where b: "dget ?s ''enabled'' = PBool b"
    using bool by (cases "dget ?s ''enabled''") (auto simp: check_bool_def)
  obtain ps where ps: "dget ?s ''resource_priority'' = PList ps" "list_all is_str ps" "str_list (PList ps) = map text_of ps"
    using check_strings_texts [OF strings] by metis
  have entries: "entry_tuple ?s k = Inr (entries_of (dget ?s k))" if "has_key ?s k" "object_list (dget ?s k)" for k
    using that by (cases "dget ?s k") (auto simp: entry_tuple_def dget_default_key object_list_def entries_of_def)
  have ne: "?s \<noteq> []" using has [of "''schema''"] by auto
  have keep: "dget_default ?s ''enabled'' d1 = PBool b" "dget_default ?s ''resource_priority'' d2 = PList ps"
    "dget_default ?s ''window_seconds'' d3 = dget ?s ''window_seconds''" "dget_default ?s ''required_samples'' d4 = PInt n"
    "dget_default ?s ''min_host_contribution_percent'' d5 = dget ?s ''min_host_contribution_percent''"
    "dget_default ?s ''action'' d6 = PStr ''graceful_stop''" for d1 d2 d3 d4 d5 d6
    using has b ps(1) n action by (simp_all add: dget_default_key)
  have sets: "entry_tuple ?s ''protected_set'' = Inr (entries_of (dget ?s ''protected_set''))"
    "entry_tuple ?s ''actionable_set'' = Inr (entries_of (dget ?s ''actionable_set''))"
    using entries has lists by simp_all
  have len: "length ps = length SUPPORTED_RESOURCES" "text_of ` set ps = set SUPPORTED_RESOURCES"
    using priority ps(1,3) by (simp_all add: EMERGENCY_RESOURCES_def SUPPORTED_RESOURCES_def)
  have s: "1 \<le> n" "n \<le> 60" using samples n by (simp_all add: int_between_def)
  show ?thesis
    using ne b w m s ps len
    by (simp add: policy_from_mapping_def Let_def keep sets schema EMERGENCY_SHEDDING_SCHEMA_def make_policy_def
        opt_holds_def int_between_def n)
qed

theorem validated_block_builds_policy_witness:
  "\<exists>p. policy_from_mapping example_shedding = Inr p \<and> sp_enabled p"
  using validated_block_builds_policy [OF example_shedding_ok] unfolding Let_def
  by (auto simp: example_shedding_def)

end
