(* ===== verification/Guardian_Enforce.thy ===== *)
theory Guardian_Enforce
  imports Guardian_Controller
begin

text \<open>
  The one-shot bridge from an event file to the controller (\<open>src/guardian_enforce.py\<close>): reading an
  approval, reading the state of a container, the polling recovery probe, and \<open>run_enforce\<close>.

  The probe runs on a world \<open>'w\<close> through the process runner, the monotonic clock and \<open>sleep\<close>;
  \<open>parse\<close> is \<open>json.loads\<close> on the standard output (\<open>None\<close> for no output or no JSON).  Its loop
  may run forever on a clock that stands still, so it takes fuel: \<open>None\<close> is "not yet returned".
\<close>

section \<open>Approvals and container states\<close>

definition AUTHORIZATION_KEYS :: "string list" where
  "AUTHORIZATION_KEYS = [''approval_id'', ''environment'', ''target_id'', ''action'', ''expires_at'']"

text \<open>
  \<open>load_authorization\<close> on the decoded file: a missing key, a non-number and a non-object are a
  \<open>ValueError\<close>; an integer beyond the float range escapes as \<open>OverflowError\<close>.
\<close>

definition load_authorization :: "(pyval \<Rightarrow> string) \<Rightarrow> pyval \<Rightarrow> py_exn + authorization" where
  "load_authorization rep file =
     (let data = mapping_of file
      in if \<not> is_dict file \<or> \<not> list_all (has_key data) AUTHORIZATION_KEYS then Inl ValueError
         else (case py_float (dget data ''expires_at'') of
             Inl e \<Rightarrow> Inl (if e = OverflowError then OverflowError else ValueError)
           | Inr expires \<Rightarrow>
               Inr \<lparr>approval_id = py_str rep (dget data ''approval_id''),
                    auth_environment = py_str rep (dget data ''environment''),
                    auth_target_id = py_str rep (dget data ''target_id''),
                    auth_action = py_str rep (dget data ''action''), auth_expires_at = expires\<rparr>))"

record container_state =
  cs_running :: bool
  cs_health :: "string option"
  cs_status :: string
  cs_exit_code :: "int option"

definition state_from_inspect :: "(pyval \<Rightarrow> string) \<Rightarrow> int \<Rightarrow> pyval option \<Rightarrow> py_exn + container_state" where
  "state_from_inspect rep returncode parsed =
     (if returncode \<noteq> 0 then Inr \<lparr>cs_running = False, cs_health = None, cs_status = ''absent'', cs_exit_code = None\<rparr>
      else (case parsed of
          Some (PDict state) \<Rightarrow>
            (let running = py_truthy (dget_default state ''Running'' (PBool False));
                 status = py_str rep (py_or (dget state ''Status'') (PStr (if running then ''running'' else ''exited'')));
                 raw = dget state ''ExitCode'';
                 reported = dget (mapping_of (dget state ''Health'')) ''Status'';
                 health = (if reported \<noteq> PNone then py_str rep reported else if running then ''running'' else status)
             in if raw = PNone
                then Inr \<lparr>cs_running = running, cs_health = Some health, cs_status = status, cs_exit_code = None\<rparr>
                else (case py_int raw of
                    Inl OverflowError \<Rightarrow> Inl OverflowError
                  | Inl _ \<Rightarrow>
                      Inr \<lparr>cs_running = running, cs_health = Some health, cs_status = status, cs_exit_code = None\<rparr>
                  | Inr code \<Rightarrow>
                      Inr \<lparr>cs_running = running, cs_health = Some health, cs_status = status, cs_exit_code = Some code\<rparr>))
        | _ \<Rightarrow> Inr \<lparr>cs_running = False, cs_health = None, cs_status = ''invalid'', cs_exit_code = None\<rparr>))"

section \<open>The recovery probe\<close>

record 'w probe_world =
  pw_runner :: "'w runner"
  pw_parse :: "string option \<Rightarrow> pyval option"
  pw_clock :: "'w \<Rightarrow> rat \<times> 'w"
  pw_sleep :: "rat \<Rightarrow> 'w \<Rightarrow> 'w"

text \<open>What leaves the probe: an observation, or an exception of the runner or of \<open>int\<close>.\<close>

datatype probe_exn = InspectTimeout | InspectRaised | ProbePy py_exn

definition inspect_command :: "string \<Rightarrow> string list" where
  "inspect_command target = [''docker'', ''inspect'', ''--format'', ''{{json .State}}'', target]"

definition container_recovered :: "string \<Rightarrow> bool \<Rightarrow> container_state \<Rightarrow> bool" where
  "container_recovered action present st =
     (if action \<in> {''graceful_stop'', ''terminate''} then \<not> present \<or> \<not> cs_running st
      else present \<and> cs_running st \<and> opt_in (cs_health st) {''healthy'', ''running''})"

definition probe_observation :: "string \<Rightarrow> bool \<Rightarrow> bool \<Rightarrow> rat \<Rightarrow> container_state \<Rightarrow> recovery_observation" where
  "probe_observation target present recovered elapsed st =
     \<lparr>ro_target_id = target, ro_present = present, ro_running = cs_running st, ro_health = cs_health st,
      ro_risk_state = (if recovered then ''normal'' else ''critical''), ro_after = Fin elapsed,
      ro_exit_code = cs_exit_code st\<rparr>"

fun probe_loop ::
  "nat \<Rightarrow> (pyval \<Rightarrow> string) \<Rightarrow> 'w probe_world \<Rightarrow> action_request \<Rightarrow> rat \<Rightarrow> rat \<Rightarrow> rat \<Rightarrow> 'w \<Rightarrow>
   ((probe_exn + recovery_observation) \<times> 'w) option" where
  "probe_loop 0 rep pw request max_wait poll t0 w = None"
| "probe_loop (Suc fuel) rep pw request max_wait poll t0 w =
     (case pw_runner pw (inspect_command (req_target_id request)) 3 w of
        (TimeoutExpired _, w1) \<Rightarrow> Some (Inl InspectTimeout, w1)
      | (RunRaised, w1) \<Rightarrow> Some (Inl InspectRaised, w1)
      | (Completed returncode out _, w1) \<Rightarrow>
          (case state_from_inspect rep returncode (pw_parse pw out) of
             Inl e \<Rightarrow> Some (Inl (ProbePy e), w1)
           | Inr st \<Rightarrow>
               (let elapsed = max (fst (pw_clock pw w1) - t0) 0; w2 = snd (pw_clock pw w1);
                    present = (returncode = 0 \<and> cs_status st \<noteq> ''absent'');
                    recovered = container_recovered (req_action request) present st
                in if recovered \<or> max_wait \<le> elapsed
                   then Some (Inr (probe_observation (req_target_id request) present recovered elapsed st), w2)
                   else probe_loop fuel rep pw request max_wait poll t0
                          (pw_sleep pw (min (max poll 0) (max_wait - elapsed)) w2))))"

definition probe_container_recovery ::
  "nat \<Rightarrow> (pyval \<Rightarrow> string) \<Rightarrow> 'w probe_world \<Rightarrow> action_request \<Rightarrow> rat \<Rightarrow> rat \<Rightarrow> 'w \<Rightarrow>
   ((probe_exn + recovery_observation) \<times> 'w) option" where
  "probe_container_recovery fuel rep pw request max_wait poll w =
     (case pw_clock pw w of (t0, w') \<Rightarrow> probe_loop fuel rep pw request max_wait poll t0 w')"

section \<open>The bridge\<close>

datatype run_exn = BadExecutorKind | RunDenied string | RunPy py_exn | RunEnforce enforce_exn

text \<open>
  What the controller sees of the probe.  Its handler catches \<open>OSError\<close>, \<open>TimeoutError\<close> and
  \<open>ValueError\<close>; \<open>subprocess.TimeoutExpired\<close> is none of them.  \<open>caught\<close> says whether another
  exception of the runner is one of the three, and with which text.
\<close>

definition probe_for_controller :: "string option \<Rightarrow> probe_exn + recovery_observation \<Rightarrow> probe_outcome" where
  "probe_for_controller caught r =
     (case r of
        Inr ob \<Rightarrow> ProbeResult (Some ob)
      | Inl InspectRaised \<Rightarrow> (case caught of Some text \<Rightarrow> ProbeError text | None \<Rightarrow> ProbeEscaped)
      | Inl _ \<Rightarrow> ProbeEscaped)"

record run_args =
  ra_authorization :: authorization
  ra_allowed :: "string list"
  ra_executor_kind :: string
  ra_confirm_local_disposable :: bool
  ra_now :: rat
  ra_recovery_wait :: pyfloat
  ra_ledger :: "cooldown_ledger option"
  ra_store :: "state_db option"
  ra_cooldown :: rat
  ra_max_actions :: int
  ra_window :: rat
  ra_max_failures :: int

definition event_action :: "pyval \<Rightarrow> pyval" where
  "event_action event = dget (mapping_of (dget (mapping_of event) ''decision'')) ''action''"

definition controller_args ::
  "run_args \<Rightarrow> string \<Rightarrow> (action_request \<Rightarrow> action_result \<Rightarrow> probe_outcome) option \<Rightarrow> enforce_args" where
  "controller_args a action probe =
     \<lparr>ea_authorization = Some (ra_authorization a), ea_allowed = ra_allowed a, ea_now = ra_now a,
      ea_recovery_observation = None,
      ea_recovery_policy = Some \<lparr>rp_action = action, rp_max_wait = ra_recovery_wait a, rp_healthy = {''healthy'', ''running''}\<rparr>,
      ea_recovery_probe = probe, ea_host_observation = None, ea_host_policy = None, ea_business_observation = None,
      ea_business_policy = None, ea_cooldown = ra_cooldown a, ea_max_actions = ra_max_actions a, ea_window = ra_window a,
      ea_max_failures = ra_max_failures a\<rparr>"

text \<open>
  \<open>run_enforce\<close> on a controller built from the optional ledger and store: the result, the store and
  ledger afterwards, and the runner's world.  \<open>probe\<close> is the closure over
  \<open>probe_container_recovery\<close>, used with the Docker executor only.
\<close>

definition run_enforce ::
  "(pyval \<Rightarrow> string) \<Rightarrow> (nat \<Rightarrow> sql_env) \<Rightarrow> 'w runner \<Rightarrow> (action_request \<Rightarrow> action_result \<Rightarrow> probe_outcome) \<Rightarrow> pyval \<Rightarrow>
   run_args \<Rightarrow> 'w \<Rightarrow> (run_exn + controller_result) \<times> state_db option \<times> cooldown_ledger \<times> 'w" where
  "run_enforce rep envs runner probe event a w =
     (let ledger = (case ra_ledger a of None \<Rightarrow> empty_ledger | Some l \<Rightarrow> l);
          stop = (\<lambda>e. (Inl e, ra_store a, ledger, w));
          docker = (ra_executor_kind a = ''docker'')
      in if ra_executor_kind a \<notin> {''mock'', ''docker''} then stop BadExecutorKind
         else if docker \<and> \<not> ra_confirm_local_disposable a then stop (RunDenied ''local_disposable_confirmation_required'')
         else if docker \<and> ra_ledger a = None then stop (RunDenied ''persistent_ledger_required'')
         else if docker \<and> ra_store a = None then stop (RunDenied ''persistent_state_store_required'')
         else if \<not> hashable (event_action event) then stop (RunPy TypeError)
         else (case event_action event of
             PStr action \<Rightarrow>
               if action \<notin> set SUPPORTED_ACTIONS then stop (RunDenied ''event_action_not_supported'')
               else if docker
               then (case enforce rep envs (docker_execute runner) event (controller_args a action (Some probe))
                        \<lparr>ct_store = ra_store a, ct_ledger = ledger, ct_exec = w\<rparr> of
                   (out, c) \<Rightarrow> (map_sum RunEnforce id out, ct_store c, ct_ledger c, ct_exec c))
               else (case enforce rep envs mock_execute event (controller_args a action None)
                        \<lparr>ct_store = ra_store a, ct_ledger = ledger, ct_exec = []\<rparr> of
                   (out, c) \<Rightarrow> (map_sum RunEnforce id out, ct_store c, ct_ledger c, w))
           | _ \<Rightarrow> stop (RunDenied ''event_action_not_supported'')))"

definition serialize_action_result :: "action_result \<Rightarrow> pyval" where
  "serialize_action_result r =
     PDict [(''executed'', PBool (res_executed r)), (''action'', PStr (res_action r)), (''target_id'', PStr (res_target_id r)),
            (''returncode'', opt_val PInt (res_returncode r)), (''stdout'', PStr (res_stdout r)),
            (''stderr'', PStr (res_stderr r)), (''reason'', PStr (res_reason r))]"

definition serialize_recovery :: "recovery_result \<Rightarrow> pyval" where
  "serialize_recovery r =
     PDict [(''state'', PStr (rr_state r)), (''recovered'', PBool (rr_recovered r)),
            (''reason_codes'', PList (map PStr (rr_reasons r)))]"

definition serialize_layers :: "two_layer_result \<Rightarrow> pyval" where
  "serialize_layers l =
     PDict [(''host_state'', PStr (tl_host_state l)), (''business_state'', PStr (tl_business_state l)),
            (''overall_state'', PStr (tl_overall_state l)), (''host_mitigated'', PBool (tl_host_mitigated l)),
            (''business_recovered'', PBool (tl_business_recovered l)), (''reason_codes'', PList (map PStr (tl_reasons l)))]"

definition serialize_result :: "controller_result \<Rightarrow> pydict" where
  "serialize_result r =
     [(''state'', PStr (cr_state r)), (''event_id'', PStr (cr_event_id r)),
      (''action_result'', opt_val serialize_action_result (cr_action_result r)),
      (''recovery'', opt_val serialize_recovery (cr_recovery r)), (''reason_codes'', PList (map PStr (cr_reasons r))),
      (''cooldown_state'', PStr (cr_cooldown_state r)), (''failure_breaker_tripped'', PBool (cr_breaker_tripped r)),
      (''intent_id'', opt_val PStr (cr_intent_id r)), (''recovery_layers'', opt_val serialize_layers (cr_recovery_layers r))]"

section \<open>The probe returns\<close>

text \<open>
  The documented behaviour of the clock: \<open>time\<close> is what it reads, reading it and running a process
  do not turn it back, and \<open>sleep(d)\<close> lasts at least \<open>d\<close>.
\<close>

definition steady_clock :: "'w probe_world \<Rightarrow> ('w \<Rightarrow> rat) \<Rightarrow> bool" where
  "steady_clock pw time \<longleftrightarrow>
     (\<forall>w. fst (pw_clock pw w) = time w \<and> time w \<le> time (snd (pw_clock pw w))) \<and>
     (\<forall>w command timeout. time w \<le> time (snd (pw_runner pw command timeout w))) \<and>
     (\<forall>w d. 0 \<le> d \<longrightarrow> time w + d \<le> time (pw_sleep pw d w))"

lemma probe_loop_returns:
  assumes "steady_clock pw time" "0 < poll" "t0 \<le> time w" "max_wait - (time w - t0) \<le> of_nat n * poll"
  shows "probe_loop (Suc n) rep pw request max_wait poll t0 w \<noteq> None"
  using assms(3,4)
proof (induction n arbitrary: w)
  case 0
  obtain out w1 where r: "pw_runner pw (inspect_command (req_target_id request)) 3 w = (out, w1)" by force
  with assms(1) have "time w \<le> time w1" "fst (pw_clock pw w1) = time w1" unfolding steady_clock_def by (metis snd_conv)+
  with 0 r show ?case by (auto simp: Let_def split: run_outcome.splits sum.splits)
next
  case (Suc n)
  obtain out w1 where r: "pw_runner pw (inspect_command (req_target_id request)) 3 w = (out, w1)" by force
  then have t1: "time w \<le> time w1" "fst (pw_clock pw w1) = time w1" "time w1 \<le> time (snd (pw_clock pw w1))"
    using assms(1) unfolding steady_clock_def by (metis snd_conv)+
  define elapsed where "elapsed = max (time w1 - t0) 0"
  define w3 where "w3 = pw_sleep pw (min (max poll 0) (max_wait - elapsed)) (snd (pw_clock pw w1))"
  have e: "elapsed = time w1 - t0" using t1 Suc.prems(1) by (simp add: elapsed_def)
  have next_round: "probe_loop (Suc n) rep pw request max_wait poll t0 w3 \<noteq> None" if "elapsed < max_wait"
  proof (rule Suc.IH)
    have "0 \<le> min (max poll 0) (max_wait - elapsed)" using that assms(2) by simp
    then have t3: "time (snd (pw_clock pw w1)) + min (max poll 0) (max_wait - elapsed) \<le> time w3"
      using assms(1) unfolding steady_clock_def w3_def by blast
    then show "t0 \<le> time w3" using t1 Suc.prems(1) \<open>0 \<le> min (max poll 0) (max_wait - elapsed)\<close> by linarith
    show "max_wait - (time w3 - t0) \<le> of_nat n * poll"
    proof (cases "poll \<le> max_wait - elapsed")
      case True
      then have "time w1 + poll \<le> time w3" using t3 t1(3) assms(2) by simp
      then show ?thesis using Suc.prems(2) t1(1) by (simp add: algebra_simps)
    next
      case False
      then have "time w1 + (max_wait - elapsed) \<le> time w3" using t3 t1(3) assms(2) by simp
      moreover have "0 \<le> of_nat n * poll" using assms(2) by simp
      ultimately show ?thesis using e by linarith
    qed
  qed
  show ?case
    using next_round
    by (cases "elapsed < max_wait")
      (auto simp: r t1(2) Let_def simp flip: elapsed_def w3_def split: run_outcome.splits sum.splits)
qed

lemma probe_loop_observation:
  "probe_loop fuel rep pw request max_wait poll t0 w = Some (Inr ob, w') \<Longrightarrow>
     ro_target_id ob = req_target_id request \<and>
     (ro_risk_state ob = ''normal'' \<or> (\<exists>elapsed. ro_after ob = Fin elapsed \<and> max_wait \<le> elapsed))"
proof (induction fuel arbitrary: w)
  case (Suc fuel)
  then show ?case
    by (auto simp: Let_def probe_observation_def split: prod.splits run_outcome.splits sum.splits if_splits)
qed simp

section \<open>The bridge and the controller\<close>

lemma enforce_executor_state:
  assumes "enforce rep envs execute event args c = (out, c')"
  shows "ct_exec c' = ct_exec c \<or>
    (\<exists>rq. authorized rq (ea_now args) \<and> req_authorization rq = ea_authorization args \<and>
       ct_exec c' = snd (execute rq (ea_now args) (ct_exec c)))"
  using assms
proof (cases rule: enforce_shape)
  case (tried host ev p c1 why t)
  from tried(3) show ?thesis
  proof (cases rule: attempt_shape)
    case stopped
    with check_cooldown_frame [OF tried(2)] show ?thesis by simp
  next
    case (ran c2 intent)
    with check_cooldown_frame [OF tried(2)] claim_durably_frame [OF ran(2)] run_executor_frame [OF ran(3)]
    show ?thesis by (metis make_request_simps(3))
  qed
qed simp

lemma conclude_escaped: "conclude envs host ev p args rq tr intent ar c = (Inl e, c') \<Longrightarrow> c' = c"
  by (auto simp: conclude_def Let_def split: sum.splits prod.splits if_splits)

lemma enforce_probe_raised:
  assumes "enforce rep envs execute event args c = (Inl ProbeRaised, c')" "ct_store c = Some db"
  shows "\<exists>iid host target action db' auth. actionable event target action \<and> ct_store c' = Some db' \<and>
    ea_authorization args = Some auth \<and> is_consumed db' (approval_id auth) \<and>
    recorded_as db' iid (host, target, action) EXECUTION_STARTED"
proof -
  obtain host ev p c1 r t where
    e: "plan_of_event event (ea_allowed args) = Inr (Inr p)" "check_cooldown envs host p args c = (r, c1)"
      "attempt envs execute host ev event p args (make_request ev p args t) False c1 = (Inl ProbeRaised, c')"
    using assms(1) by (auto simp: enforce_def Let_def split: sum.splits prod.splits if_splits)
  obtain c2 intent where
    a: "claim_durably envs host ev event p args c1 = (Claimed intent, c2)"
      "run_executor envs execute host ev p args (make_request ev p args t) False intent c2 = (Inl ProbeRaised, c')"
    using e(3) by (auto simp: attempt_def split: sum.splits prod.splits claim_outcome.splits action_denied.splits)
  obtain db1 where "ct_store c1 = Some db1"
    using check_cooldown_frame [OF e(2)] assms(2) by (auto simp: ctl_reach_def split: option.splits)
  from claim_durably_Claimed [OF a(1) this] obtain auth db2 iid where
    c: "ea_authorization args = Some auth" "ct_store c2 = Some db2" "is_consumed db2 (approval_id auth)"
      "started db2 iid host (pl_target p) (pl_action p)" by blast
  have "ct_store c' = ct_store c2"
    using a(2) by (auto simp: run_executor_def Let_def dest!: conclude_escaped
        split: prod.splits exec_outcome.splits option.splits sum.splits)
  with c plan_actionable [OF e(1)] show ?thesis by (auto simp: started_recorded)
qed

lemma run_enforce_raised:
  assumes "run_enforce rep envs runner probe event a w = (Inl (RunEnforce e), store, ledger, w')"
  shows "(\<exists>action c' l. enforce rep envs (docker_execute runner) event (controller_args a action (Some probe))
        \<lparr>ct_store = ra_store a, ct_ledger = l, ct_exec = w\<rparr> = (Inl e, c') \<and> store = ct_store c') \<or>
      (\<exists>action c' l. enforce rep envs mock_execute event (controller_args a action None)
        \<lparr>ct_store = ra_store a, ct_ledger = l, ct_exec = []\<rparr> = (Inl e, c') \<and> store = ct_store c')"
proof -
  have raised: "map_sum RunEnforce id out = Inl (RunEnforce e) \<longleftrightarrow> out = Inl e" for out :: "enforce_exn + controller_result"
    by (cases out) auto
  show ?thesis
    using assms by (auto simp: run_enforce_def Let_def raised split: prod.splits pyval.splits if_splits; blast)
qed

section \<open>Properties\<close>

text \<open>
  The recovery probe returns: on a clock that does not run backwards and a sleep that lasts,
  with a positive poll interval, after at most \<open>n + 1\<close> inspections when \<open>n\<close> intervals cover the
  window.  An observation is about the request's target, and reports a critical risk only after
  the whole window has passed.
\<close>
theorem probe_returns:
  assumes "steady_clock pw time" and "0 < poll" and "max_wait \<le> of_nat n * poll"
  shows "\<exists>r w'. probe_container_recovery (Suc n) rep pw request max_wait poll w = Some (r, w') \<and>
    (case r of Inl _ \<Rightarrow> True | Inr ob \<Rightarrow> ro_target_id ob = req_target_id request \<and>
       (ro_risk_state ob = ''normal'' \<or> (\<exists>elapsed. ro_after ob = Fin elapsed \<and> max_wait \<le> elapsed)))"
proof -
  let ?t0 = "fst (pw_clock pw w)" and ?w = "snd (pw_clock pw w)"
  have t: "?t0 \<le> time ?w" using assms(1) by (simp add: steady_clock_def)
  then have "max_wait - (time ?w - ?t0) \<le> of_nat n * poll" using assms(3) by linarith
  from probe_loop_returns [OF assms(1,2) t this, of rep request]
  obtain r w' where r: "probe_loop (Suc n) rep pw request max_wait poll ?t0 ?w = Some (r, w')" by auto
  have "probe_container_recovery (Suc n) rep pw request max_wait poll w = Some (r, w')"
    using r unfolding probe_container_recovery_def by (simp add: case_prod_beta)
  moreover have "case r of Inl _ \<Rightarrow> True | Inr ob \<Rightarrow> ro_target_id ob = req_target_id request \<and>
       (ro_risk_state ob = ''normal'' \<or> (\<exists>elapsed. ro_after ob = Fin elapsed \<and> max_wait \<le> elapsed))"
    using r probe_loop_observation by (cases r) (simp_all del: probe_loop.simps)
  ultimately show ?thesis by blast
qed

text \<open>A world that is only a time: every inspection finds the container running.\<close>

definition idle_world :: "rat probe_world" where
  "idle_world =
     \<lparr>pw_runner = (\<lambda>_ _ w. (Completed 0 None None, w + 1)),
      pw_parse = (\<lambda>_. Some (PDict [(''Running'', PBool True), (''Status'', PStr ''running'')])),
      pw_clock = (\<lambda>w. (w, w)), pw_sleep = (\<lambda>d w. w + d)\<rparr>"

theorem probe_returns_witness:
  "\<exists>r w'. probe_container_recovery (Suc 30) (\<lambda>_. []) idle_world example_request 30 1 0 = Some (r, w')"
proof -
  have "steady_clock idle_world (\<lambda>w. w)" by (simp add: steady_clock_def idle_world_def)
  then show ?thesis using probe_returns [of idle_world "\<lambda>w. w" 1 30 30 "\<lambda>_. []" example_request 0] by auto
qed

text \<open>
  C26. Whatever the event, the approval and the failures, \<open>run_enforce\<close> starts no action process
  unless the Docker executor was chosen and confirmed with a ledger and a durable store, and then
  at most one, the command of a request inside the authorization boundary of the given approval.
\<close>
theorem run_enforce_gated:
  "case run_enforce rep envs (log_runner runner) probe event a (commands, w) of (out, store, ledger, w') \<Rightarrow>
     fst w' = commands \<or>
     (\<exists>rq. fst w' = commands @ [(projr (docker_command rq), req_timeout_seconds rq + 5)] \<and>
        authorized rq (ra_now a) \<and> req_authorization rq = Some (ra_authorization a) \<and>
        ra_executor_kind a = ''docker'' \<and> ra_confirm_local_disposable a \<and> ra_ledger a \<noteq> None \<and> ra_store a \<noteq> None)"
proof -
  have docker: "fst (ct_exec c') = commands \<or>
      (\<exists>rq. fst (ct_exec c') = commands @ [(projr (docker_command rq), req_timeout_seconds rq + 5)] \<and>
        authorized rq (ra_now a) \<and> req_authorization rq = Some (ra_authorization a))"
    if "enforce rep envs (docker_execute (log_runner runner)) event (controller_args a action (Some probe))
        \<lparr>ct_store = s, ct_ledger = l, ct_exec = (commands, w)\<rparr> = (out, c')" for action s l out c'
    using enforce_executor_state [OF that] docker_execute_log [of runner _ _ "(commands, w)"]
    by (auto simp: controller_args_def)
  show ?thesis
    by (auto simp: run_enforce_def Let_def split: prod.splits pyval.splits dest!: docker)
qed

text \<open>
  A \<open>docker inspect\<close> that exceeds its time limit escapes the controller, which does not catch
  \<open>subprocess.TimeoutExpired\<close>: the action has run, yet the call raises, the approval is spent and
  the intent is left EXECUTION_STARTED without a recorded result.
\<close>
theorem probe_timeout_leaves_intent_started:
  assumes "run_enforce rep envs runner (\<lambda>_ _. probe_for_controller caught (Inl InspectTimeout)) event a w =
      (Inl (RunEnforce ProbeRaised), store, ledger, w')"
    and "ra_store a = Some db"
  shows "\<exists>iid host target action db'. actionable event target action \<and> store = Some db' \<and>
    is_consumed db' (approval_id (ra_authorization a)) \<and>
    recorded_as db' iid (host, target, action) EXECUTION_STARTED"
proof -
  let ?probe = "\<lambda>_ _. probe_for_controller caught (Inl InspectTimeout)"
  from run_enforce_raised [OF assms(1)] show ?thesis
  proof (elim disjE exE conjE)
    fix action c' l
    assume e: "enforce rep envs (docker_execute runner) event (controller_args a action (Some ?probe))
        \<lparr>ct_store = ra_store a, ct_ledger = l, ct_exec = w\<rparr> = (Inl ProbeRaised, c')" and "store = ct_store c'"
    then show ?thesis
      using enforce_probe_raised [OF e] assms(2) by (fastforce simp: controller_args_def)
  next
    fix action c' l
    assume e: "enforce rep envs mock_execute event (controller_args a action None)
        \<lparr>ct_store = ra_store a, ct_ledger = l, ct_exec = []\<rparr> = (Inl ProbeRaised, c')" and "store = ct_store c'"
    then show ?thesis
      using enforce_probe_raised [OF e] assms(2) by (fastforce simp: controller_args_def)
  qed
qed

definition example_run_args :: run_args where
  "example_run_args =
     \<lparr>ra_authorization = example_authorization, ra_allowed = [''graceful_stop''], ra_executor_kind = ''docker'',
      ra_confirm_local_disposable = True, ra_now = 100, ra_recovery_wait = Fin 30, ra_ledger = Some empty_ledger,
      ra_store = Some empty_db, ra_cooldown = 60, ra_max_actions = 1, ra_window = 600, ra_max_failures = 2\<rparr>"

definition example_bridge_run :: "(run_exn + controller_result) \<times> state_db option \<times> cooldown_ledger \<times> nat" where
  "example_bridge_run = run_enforce (\<lambda>_. []) (\<lambda>_. env_ok) ok_runner
     (\<lambda>_ _. probe_for_controller None (Inl InspectTimeout)) example_event example_run_args 0"

text \<open>The gates before the executor do not look at the recovery arguments.\<close>

definition with_probe :: "recovery_policy \<Rightarrow> (action_request \<Rightarrow> action_result \<Rightarrow> probe_outcome) \<Rightarrow> enforce_args \<Rightarrow> enforce_args" where
  "with_probe policy probe args = args\<lparr>ea_recovery_policy := Some policy, ea_recovery_probe := Some probe\<rparr>"

lemma with_probe_fields:
  "ea_now (with_probe policy probe args) = ea_now args" "ea_allowed (with_probe policy probe args) = ea_allowed args"
  "ea_cooldown (with_probe policy probe args) = ea_cooldown args"
  "ea_max_actions (with_probe policy probe args) = ea_max_actions args"
  "ea_window (with_probe policy probe args) = ea_window args"
  "ea_max_failures (with_probe policy probe args) = ea_max_failures args"
  "ea_authorization (with_probe policy probe args) = ea_authorization args"
  by (simp_all add: with_probe_def)

lemma with_probe_gates:
  "check_cooldown envs host p (with_probe policy probe args) c = check_cooldown envs host p args c"
  "claim_durably envs host ev event p (with_probe policy probe args) c = claim_durably envs host ev event p args c"
  "make_request ev p (with_probe policy probe args) t = make_request ev p args t"
  unfolding check_cooldown_def claim_durably_def make_request_def with_probe_fields by (rule refl)+

lemma example_probe_raises:
  "fst (enforce rep (\<lambda>_. env_ok) (docker_execute ok_runner) example_event
     (with_probe policy (\<lambda>_ _. ProbeEscaped) example_args) (example_controller 0)) = Inl ProbeRaised"
proof -
  obtain why where cd: "check_cooldown (\<lambda>_. env_ok) ''host-a'' example_plan example_args (example_controller (0 :: nat)) =
     (Inr (False, True, why), example_controller 0)" by (rule exE [OF example_cooldown])
  have probe: "assess_action (with_probe policy (\<lambda>_ _. ProbeEscaped) example_args) target request ar = Inl ProbeRaised"
    if "res_executed ar" "res_returncode ar = Some 0" for target request ar
    using that by (simp add: assess_action_def with_probe_def example_args_def)
  show ?thesis
    unfolding enforce_def attempt_def run_executor_def with_probe_fields with_probe_gates example_plan
    by (simp add: cd example_timeout example_ids py_or_def Let_def example_claim(1) example_docker
        conclude_def probe validate_iff_authorized [THEN iffD2, OF example_make_request])
qed

lemma example_bridge_raises: "fst example_bridge_run = Inl (RunEnforce ProbeRaised)"
proof -
  let ?policy = "\<lparr>rp_action = ''graceful_stop'', rp_max_wait = Fin 30, rp_healthy = {''healthy'', ''running''}\<rparr>"
  have args: "controller_args example_run_args ''graceful_stop'' (Some (\<lambda>_ _. probe_for_controller None (Inl InspectTimeout))) =
      with_probe ?policy (\<lambda>_ _. ProbeEscaped) example_args"
    by (simp add: controller_args_def example_run_args_def example_args_def with_probe_def probe_for_controller_def)
  have c: "\<lparr>ct_store = Some empty_db, ct_ledger = empty_ledger, ct_exec = 0 :: nat\<rparr> = example_controller 0"
    by (simp add: example_controller_def)
  have ev: "event_action example_event = PStr ''graceful_stop''" by (simp add: event_action_def example_event_def)
  show ?thesis
    unfolding example_bridge_run_def run_enforce_def ev Let_def
    using example_probe_raises [of "\<lambda>_. []" ?policy]
    by (simp add: args) (simp add: example_run_args_def SUPPORTED_ACTIONS_def c case_prod_beta)
qed

theorem probe_timeout_leaves_intent_started_witness:
  "\<exists>iid host target action db'. actionable example_event target action \<and> fst (snd example_bridge_run) = Some db' \<and>
     is_consumed db' (approval_id example_authorization) \<and>
     recorded_as db' iid (host, target, action) EXECUTION_STARTED"
proof -
  obtain store ledger w' where r: "example_bridge_run = (Inl (RunEnforce ProbeRaised), store, ledger, w')"
    using example_bridge_raises by (metis prod.collapse)
  then have "fst (snd example_bridge_run) = store" by (metis fst_conv snd_conv)
  with probe_timeout_leaves_intent_started [OF r [unfolded example_bridge_run_def], of empty_db] show ?thesis
    by (simp add: example_run_args_def)
qed

end
