(* ===== verification/Guardian_Outbox_Laws.thy ===== *)
theory Guardian_Outbox_Laws
  imports Guardian_Outbox
begin

text \<open>
  What the notification outbox keeps.  Every method is a sequence of elementary moves on the
  tables (\<open>outbox_move\<close>); the invariants are proved by rule induction on the moves, and a method
  inherits them from the lemma that it only makes moves.
\<close>

section \<open>Elementary moves\<close>

definition delivered_of :: "outbox_db \<Rightarrow> string \<Rightarrow> string list" where
  "delivered_of db key = (case ot_dedup db key of None \<Rightarrow> [] | Some d \<Rightarrow> dd_delivered d)"

definition active_count :: "outbox_db \<Rightarrow> int" where
  "active_count db = int (length (filter outbox_active (ot_rows db)))"

text \<open>The status changes; the last one needs an explicit redrive.\<close>

definition status_move :: "bool \<Rightarrow> outbox_status \<Rightarrow> outbox_status \<Rightarrow> bool" where
  "status_move redrive st st' \<longleftrightarrow>
     st = PENDING \<and> st' = IN_FLIGHT \<or> st = IN_FLIGHT \<and> st' \<in> {DELIVERED, DEAD_LETTER} \<or>
     redrive \<and> st = DEAD_LETTER \<and> st' = PENDING"

definition keeps_identity :: "(outbox_row \<Rightarrow> outbox_row) \<Rightarrow> outbox_status \<Rightarrow> bool" where
  "keeps_identity f st' \<longleftrightarrow>
     (\<forall>r. ob_id (f r) = ob_id r \<and> ob_payload (f r) = ob_payload r \<and> ob_status (f r) = st')"

definition audit_ok :: "codec \<Rightarrow> string option \<Rightarrow> delivery_audit \<Rightarrow> bool" where
  "audit_ok co previous a \<longleftrightarrow>
     da_previous a = previous \<and> da_authorization a = ''unchanged'' \<and> outbox_digest co (audit_body a) = Some (da_digest a)"

inductive outbox_move :: "codec \<Rightarrow> outbox_policy \<Rightarrow> bool \<Rightarrow> outbox_db \<Rightarrow> outbox_db \<Rightarrow> bool"
  for co policy redrive where
  Audit: "audit_ok co (last_digest (ot_audits db)) a \<Longrightarrow>
     outbox_move co policy redrive db (db\<lparr>ot_audits := ot_audits db @ [a]\<rparr>)"
| Insert: "ob_status r = PENDING \<Longrightarrow> \<forall>q\<in>set (ot_rows db). ob_id q \<noteq> ob_id r \<Longrightarrow>
     dget (ob_payload r) ''notification_id'' = PStr (ob_id r) \<Longrightarrow> ob_severity r \<notin> set (delivered_of db (ob_key r)) \<Longrightarrow>
     active_count db < op_max_pending policy \<Longrightarrow> dd_delivered d = delivered_of db (ob_key r) \<Longrightarrow>
     outbox_move co policy redrive db (db\<lparr>ot_rows := ot_rows db @ [r], ot_dedup := (ot_dedup db)(ob_key r \<mapsto> d)\<rparr>)"
| Status: "keeps_identity f st' \<Longrightarrow> status_move redrive st st' \<Longrightarrow> outbox_move co policy redrive db (update_rows i st f db)"
| Delivered: "outbox_move co policy redrive db (mark_delivered row db)"
| Attempts: "outbox_move co policy redrive db (db\<lparr>ot_attempts := ts\<rparr>)"

abbreviation outbox_moves :: "codec \<Rightarrow> outbox_policy \<Rightarrow> bool \<Rightarrow> outbox_db \<Rightarrow> outbox_db \<Rightarrow> bool" where
  "outbox_moves co policy redrive \<equiv> (outbox_move co policy redrive)\<^sup>*\<^sup>*"

definition commits_to :: "('d \<Rightarrow> bool) \<Rightarrow> ('a, 'd) tx \<Rightarrow> bool" where
  "commits_to P body \<longleftrightarrow> (\<forall>a db'. body = Commit a db' \<longrightarrow> P db')"

lemma commits_to_simps [simp]:
  "commits_to P (Commit a d) = P d" "commits_to P (Rollback a)" "commits_to P (SqlFail e)" "commits_to P (StoreFail e)"
  by (simp_all add: commits_to_def)

lemma commits_to_stmt [simp]: "commits_to P k \<Longrightarrow> commits_to P (stmt env i k)"
  by (simp add: commits_to_def)

lemma commits_to_option:
  "(x = None \<Longrightarrow> commits_to P a) \<Longrightarrow> (\<And>y. x = Some y \<Longrightarrow> commits_to P (f y)) \<Longrightarrow>
   commits_to P (case x of None \<Rightarrow> a | Some y \<Rightarrow> f y)"
  by (cases x) simp_all

lemma commits_to_if:
  "(b \<Longrightarrow> commits_to P k) \<Longrightarrow> (\<not> b \<Longrightarrow> commits_to P l) \<Longrightarrow> commits_to P (if b then k else l)"
  by simp

lemmas commits_intros = commits_to_stmt commits_to_option commits_to_if

lemma transaction_keeps: "P db \<Longrightarrow> commits_to P body \<Longrightarrow> P (snd (transaction env p q db body))"
  by (auto simp: transaction_def commits_to_def split: option.splits tx.splits)

lemma transaction_moves:
  "commits_to (outbox_moves co policy redrive db) body \<Longrightarrow>
   outbox_moves co policy redrive db (snd (transaction env p q db body))"
  by (rule transaction_keeps) simp_all

lemmas moves_step = rtranclp.rtrancl_into_rtrancl

lemma append_audit_moves:
  assumes "outbox_moves co policy redrive db0 db"
    and "\<And>db'. outbox_moves co policy redrive db0 db' \<Longrightarrow> commits_to (outbox_moves co policy redrive db0) (k db')"
  shows "commits_to (outbox_moves co policy redrive db0) (append_audit env i co db payload status attempts reason now k)"
proof -
  let ?a = "new_audit co (ot_audits db) payload status attempts reason now"
  have "outbox_moves co policy redrive db0 (db\<lparr>ot_audits := ot_audits db @ [?a\<lparr>da_digest := d\<rparr>]\<rparr>)"
    if "outbox_digest co (audit_body ?a) = Some d" for d
  proof -
    have "audit_ok co (last_digest (ot_audits db)) (?a\<lparr>da_digest := d\<rparr>)"
      using that by (simp add: audit_ok_def audit_body_def new_audit_def)
    from moves_step [OF assms(1) outbox_move.Audit [OF this]] show ?thesis .
  qed
  then show ?thesis
    using assms(2) by (auto simp: append_audit_def Let_def intro!: commits_to_stmt split: option.splits)
qed

section \<open>Every method only makes moves\<close>

lemma status_moves:
  "outbox_moves co policy redrive db0 db \<Longrightarrow> keeps_identity f st' \<Longrightarrow> status_move redrive st st' \<Longrightarrow>
   outbox_moves co policy redrive db0 (update_rows i st f db)"
  by (rule moves_step) (auto intro: outbox_move.Status)

lemma finish_enqueue_moves:
  "outbox_moves co policy redrive db0 db \<Longrightarrow>
   commits_to (outbox_moves co policy redrive db0) (finish_enqueue env i co db payload st ast n reason ost now)"
  unfolding finish_enqueue_def by (rule append_audit_moves) simp_all

lemma record_rejection_moves:
  "outbox_moves co policy redrive db (snd (record_rejection env co payload reason now db))"
  unfolding record_rejection_def
  by (intro transaction_moves commits_intros append_audit_moves) simp_all

lemma enqueue_tx_moves:
  assumes "\<exists>i. dget payload ''notification_id'' = PStr i"
  shows "commits_to (outbox_moves co policy redrive db) (enqueue_tx env co policy payload now db)"
proof -
  obtain i where i: "dget payload ''notification_id'' = PStr i"
    using assms by blast
  have insert: "outbox_moves co policy redrive db
      (db\<lparr>ot_rows := ot_rows db @ [r], ot_dedup := (ot_dedup db)(key \<mapsto> d)\<rparr>)"
    if "ob_key r = key" "ob_status r = PENDING" "\<forall>q\<in>set (ot_rows db). ob_id q \<noteq> ob_id r" "ob_id r = i" "ob_payload r = payload"
      "ob_severity r \<notin> set (delivered_of db (ob_key r))" "active_count db < op_max_pending policy"
      "dd_delivered d = delivered_of db (ob_key r)" for r d key
    using r_into_rtranclp [where r = "outbox_move co policy redrive", OF outbox_move.Insert [of r db policy d]] that i
    by simp
  show ?thesis
    unfolding enqueue_tx_def Let_def i pyval.case
    by (intro commits_intros finish_enqueue_moves rtranclp.rtrancl_refl insert)
       (simp_all add: active_count_def delivered_of_def find_None_iff not_le split: option.splits)
qed

lemma validate_payload_id: "validate_payload co policy d mono_ns = Inr None \<Longrightarrow> \<exists>i. dget d ''notification_id'' = PStr i"
  by (cases "dget d ''notification_id''")
     (simp_all add: validate_payload_def Let_def split: if_splits)

lemma enqueue_moves: "outbox_moves co policy redrive db (snd (enqueue env co policy payload mono_ns now db))"
proof (cases payload)
  case (PDict d)
  consider (raised) e where "validate_payload co policy d mono_ns = Inl e"
    | (rejected) reason where "validate_payload co policy d mono_ns = Inr (Some reason)"
    | (valid) "validate_payload co policy d mono_ns = Inr None"
    by (metis old.sum.exhaust option.exhaust)
  then show ?thesis
  proof cases
    case valid
    then have "outbox_moves co policy redrive db
        (snd (transaction env ''outbox_open_failed:'' ''outbox_enqueue_failed:'' db (enqueue_tx env co policy d now db)))"
      by (intro transaction_moves enqueue_tx_moves) (simp_all add: validate_payload_id)
    with valid PDict show ?thesis
      by (simp add: enqueue_def Let_def split_beta)
  qed (simp_all add: enqueue_def PDict Let_def split_beta record_rejection_moves)
qed (simp_all add: enqueue_def Let_def split_beta record_rejection_moves)

lemma claim_one_moves: "outbox_moves co policy redrive db (snd (claim_one env co now db))"
  unfolding claim_one_def
  by (intro transaction_moves commits_intros append_audit_moves status_moves [where st' = IN_FLIGHT])
     (simp_all add: keeps_identity_def status_move_def)

lemma allow_attempt_moves: "outbox_moves co policy redrive db (snd (allow_attempt env policy mono_ns db))"
  unfolding allow_attempt_def Let_def
  by (intro transaction_moves commits_intros) (simp_all add: r_into_rtranclp outbox_move.Attempts)

lemma mark_final_moves:
  assumes "status \<in> {DELIVERED, DEAD_LETTER}"
  shows "outbox_moves co policy redrive db (snd (mark_final env co row status txt attempts reason now db))"
proof -
  have "outbox_moves co policy redrive db (update_rows (ob_id row) IN_FLIGHT
      (\<lambda>r. r\<lparr>ob_status := status, ob_attempts := attempts, ob_last_error := reason, ob_updated_at := now\<rparr>) db)"
    using assms by (intro status_moves rtranclp.rtrancl_refl) (auto simp: keeps_identity_def status_move_def)
  note this [THEN moves_step, OF outbox_move.Delivered] this
  then show ?thesis
    unfolding mark_final_def Let_def
    by (intro transaction_moves commits_intros append_audit_moves) simp_all
qed

lemma rate_limited_moves: "outbox_moves co policy redrive db (snd (rate_limited env co row now db))"
  unfolding rate_limited_def
  by (intro transaction_moves commits_intros append_audit_moves status_moves [where st' = DEAD_LETTER])
     (simp_all add: keeps_identity_def status_move_def)

lemma deliver_row_moves: "outbox_moves co policy redrive db (snd (fst (deliver_row envs co policy send row mono_ns now db s)))"
proof -
  obtain ok db1 where g: "allow_attempt (envs 0) policy mono_ns db = (ok, db1)"
    by fastforce
  then have "outbox_moves co policy redrive db db1"
    using allow_attempt_moves [of co policy redrive db "envs 0" mono_ns] by simp
  note later = rtranclp_trans [OF this mark_final_moves] rtranclp_trans [OF this rate_limited_moves] this
  show ?thesis
    by (simp add: deliver_row_def g later mark_final_moves split: prod.split sum.split bool.split)
qed

lemma drain_one_moves: "outbox_moves co policy redrive db (snd (fst (drain_one envs co policy send mono_ns now db s)))"
proof -
  obtain c db1 where c: "claim_one (envs 0) co now db = (c, db1)"
    by fastforce
  then have "outbox_moves co policy redrive db db1"
    using claim_one_moves [of co policy redrive db "envs 0" now] by simp
  then show ?thesis
    using deliver_row_moves [of co policy redrive db1 "\<lambda>n. envs (n + 1)" send _ mono_ns now s]
    by (simp add: drain_one_def c split_beta rtranclp_trans split: sum.splits option.splits)
qed

lemma drain_loop_moves: "outbox_moves co policy redrive db (snd (fst (drain_loop n envs co policy send mono_ns now db s)))"
proof (induction n envs co policy send mono_ns now db s rule: drain_loop.induct)
  case (2 n envs co policy send mono_ns now db s)
  obtain r db1 s1 where r: "drain_one envs co policy send mono_ns now db s = ((r, db1), s1)"
    by (metis prod.exhaust)
  then have "outbox_moves co policy redrive db db1"
    using drain_one_moves [of co policy redrive db envs send mono_ns now s] by simp
  with 2 [OF r [symmetric] refl] show ?case
    by (auto simp: r split_beta split: sum.splits option.splits intro: rtranclp_trans)
qed simp

lemma drain_pending_moves:
  "outbox_moves co policy redrive db (snd (fst (drain_pending n envs co policy send mono_ns now db s)))"
  using drain_loop_moves [of co policy redrive db "nat n" envs send mono_ns now s]
  by (simp add: drain_pending_def split_beta)

lemma requeue_rows_moves:
  assumes "keeps_identity f st'" "status_move redrive st st'"
    and "\<And>n db'. outbox_moves co policy redrive db0 db' \<Longrightarrow> commits_to (outbox_moves co policy redrive db0) (k n db')"
  shows "outbox_moves co policy redrive db0 db \<Longrightarrow>
    commits_to (outbox_moves co policy redrive db0) (requeue_rows env i co st f txt reason now rows db k)"
proof (induction rows arbitrary: i db)
  case (Cons row rows)
  have "commits_to (outbox_moves co policy redrive db0)
      (append_audit env (i + 1) co (update_rows (ob_id row) st f db) (ob_payload row) txt (ob_attempts row) (Some reason) now
        (\<lambda>db'. requeue_rows env (i + 3) co st f txt reason now rows db' k))"
    by (rule append_audit_moves [OF status_moves [OF Cons.prems assms(1,2)]]) (rule Cons.IH)
  then show ?case by simp
qed (simp add: assms(3))

lemma reconcile_moves: "outbox_moves co policy redrive db (snd (reconcile_in_flight env co now db))"
  unfolding reconcile_in_flight_def Let_def
  by (intro transaction_moves commits_intros requeue_rows_moves [where st' = DEAD_LETTER])
     (simp_all add: keeps_identity_def status_move_def)

lemma redrive_queue_moves: "outbox_moves co policy True db (snd (redrive_queue env co n now db))"
  unfolding redrive_queue_def Let_def
  by (intro transaction_moves commits_intros requeue_rows_moves [where st' = PENDING])
     (simp_all add: keeps_identity_def status_move_def)

lemma redrive_moves:
  "outbox_moves co policy True db (snd (fst (redrive_dead_letters n envs co policy send mono_ns now db s)))"
proof -
  obtain r db1 where r: "redrive_queue (envs 0) co (nat n) now db = (r, db1)"
    by fastforce
  then have "outbox_moves co policy True db db1"
    using redrive_queue_moves [of co policy db "envs 0" "nat n" now] by simp
  then show ?thesis
    using drain_pending_moves [of co policy True db1 n "\<lambda>k. envs (k + 1)" send mono_ns now s]
    by (simp add: redrive_dead_letters_def r rtranclp_trans split: sum.splits)
qed

section \<open>What the moves keep\<close>

lemma moves_keep:
  assumes "outbox_moves co policy redrive db db'" "P db"
    and "\<And>d d'. outbox_move co policy redrive d d' \<Longrightarrow> P d \<Longrightarrow> P d'"
  shows "P db'"
  using assms by (induction rule: rtranclp_induct) auto

lemma audit_errors_snoc:
  "audit_errors co n previous (audits @ [a]) = [] \<longleftrightarrow>
     audit_errors co n previous audits = [] \<and>
     audit_ok co (if audits = [] then previous else last_digest audits) a"
  by (induction audits arbitrary: n previous) (auto simp: audit_ok_def last_digest_def)

lemma outbox_simps [simp]:
  "ot_audits (update_rows i st f db) = ot_audits db" "ot_dedup (update_rows i st f db) = ot_dedup db"
  "ot_audits (mark_delivered row db) = ot_audits db" "ot_rows (mark_delivered row db) = ot_rows db"
  by (simp_all add: update_rows_def mark_delivered_def Let_def split_beta)

lemma move_keeps_chain:
  "outbox_move co policy redrive db db' \<Longrightarrow> fst (verify_audit co db) \<Longrightarrow> fst (verify_audit co db')"
  by (induction rule: outbox_move.induct)
     (auto simp: verify_audit_def Let_def audit_errors_snoc last_digest_def)

definition recovered_sent :: "string \<Rightarrow> outbox_db \<Rightarrow> bool" where
  "recovered_sent key db \<longleftrightarrow> ''recovered'' \<in> set (delivered_of db key)"

lemma move_keeps_recovered:
  "outbox_move co policy redrive db db' \<Longrightarrow> recovered_sent key db \<Longrightarrow> recovered_sent key db'"
  by (induction rule: outbox_move.induct)
     (auto simp: recovered_sent_def delivered_of_def mark_delivered_def delivered_after_def Let_def split: option.splits)

text \<open>An identifier that is in the table and not waiting there.\<close>

definition spent_id :: "outbox_db \<Rightarrow> string \<Rightarrow> bool" where
  "spent_id db i \<longleftrightarrow> (\<exists>r\<in>set (ot_rows db). ob_id r = i) \<and> (\<forall>r\<in>set (ot_rows db). ob_id r = i \<longrightarrow> ob_status r \<noteq> PENDING)"

definition payload_ids :: "outbox_db \<Rightarrow> bool" where
  "payload_ids db \<longleftrightarrow> (\<forall>r\<in>set (ot_rows db). dget (ob_payload r) ''notification_id'' = PStr (ob_id r))"

lemma move_keeps_spent: "outbox_move co policy False db db' \<Longrightarrow> spent_id db i \<Longrightarrow> spent_id db' i"
  by (induction rule: outbox_move.induct)
     (auto simp: spent_id_def update_rows_def keeps_identity_def status_move_def)

lemma move_keeps_payload_ids: "outbox_move co policy redrive db db' \<Longrightarrow> payload_ids db \<Longrightarrow> payload_ids db'"
  by (induction rule: outbox_move.induct) (auto simp: payload_ids_def update_rows_def keeps_identity_def)

lemma moves_keep_spent: "outbox_moves co policy False db db' \<Longrightarrow> spent_id db i \<Longrightarrow> spent_id db' i"
  by (erule (1) moves_keep) (rule move_keeps_spent)

lemma moves_keep_payload_ids: "outbox_moves co policy redrive db db' \<Longrightarrow> payload_ids db \<Longrightarrow> payload_ids db'"
  by (erule (1) moves_keep) (rule move_keeps_payload_ids)

lemma active_update_rows:
  assumes "keeps_identity f st'" "status_move False st st'"
  shows "active_count (update_rows i st f db) \<le> active_count db"
proof -
  have "length (filter outbox_active (map (\<lambda>r. if ob_id r = i \<and> ob_status r = st then f r else r) rows))
        \<le> length (filter outbox_active rows)" for rows
    using assms by (induction rows) (auto simp: outbox_active_def keeps_identity_def status_move_def)
  then show ?thesis
    by (simp add: active_count_def update_rows_def)
qed

lemma move_keeps_capacity:
  "outbox_move co policy False db db' \<Longrightarrow> active_count db \<le> op_max_pending policy \<Longrightarrow> active_count db' \<le> op_max_pending policy"
proof (induction rule: outbox_move.induct)
  case (Status f st' st db i)
  then show ?case
    using active_update_rows [of f st' st i db] by linarith
qed (simp_all add: active_count_def)

section \<open>Runs\<close>

text \<open>
  The outbox's callers, one operation each with the environments of its transactions.  The sink
  state counts the calls and lists the identifiers of the payloads it took; the outcome of the
  \<open>n\<close>-th call is arbitrary.
\<close>

datatype outbox_op =
    EnqueueOp sql_env pyval int rat
  | DrainOp "nat \<Rightarrow> sql_env" int int rat
  | ReconcileOp sql_env rat

datatype outbox_full_op = Automatic outbox_op | RedriveOp "nat \<Rightarrow> sql_env" int int rat

type_synonym sink_log = "nat \<times> pyval list"

definition recording_sink :: "(nat \<Rightarrow> send_outcome) \<Rightarrow> pydict \<Rightarrow> sink_log \<Rightarrow> send_outcome \<times> sink_log" where
  "recording_sink = labelling_sink (\<lambda>payload. dget payload ''notification_id'')"

fun outbox_step :: "codec \<Rightarrow> outbox_policy \<Rightarrow> (pydict \<Rightarrow> 's \<Rightarrow> send_outcome \<times> 's) \<Rightarrow> outbox_db \<times> 's \<Rightarrow> outbox_op \<Rightarrow> outbox_db \<times> 's" where
  "outbox_step co policy send (db, s) (EnqueueOp env payload mono_ns now) =
     (snd (enqueue env co policy payload mono_ns now db), s)"
| "outbox_step co policy send (db, s) (DrainOp envs n mono_ns now) =
     (case drain_pending n envs co policy send mono_ns now db s of ((_, db'), s') \<Rightarrow> (db', s'))"
| "outbox_step co policy send (db, s) (ReconcileOp env now) = (snd (reconcile_in_flight env co now db), s)"

fun outbox_full_step ::
  "codec \<Rightarrow> outbox_policy \<Rightarrow> (pydict \<Rightarrow> 's \<Rightarrow> send_outcome \<times> 's) \<Rightarrow> outbox_db \<times> 's \<Rightarrow> outbox_full_op \<Rightarrow> outbox_db \<times> 's" where
  "outbox_full_step co policy send d (Automatic x) = outbox_step co policy send d x"
| "outbox_full_step co policy send (db, s) (RedriveOp envs n mono_ns now) =
     (case redrive_dead_letters n envs co policy send mono_ns now db s of ((_, db'), s') \<Rightarrow> (db', s'))"

lemma outbox_step_moves: "outbox_moves co policy redrive (fst d) (fst (outbox_step co policy send d x))"
proof (cases x)
  case (DrainOp envs n mono_ns now)
  then show ?thesis
    using drain_pending_moves [of co policy redrive "fst d" n envs send mono_ns now "snd d"]
    by (cases d) (simp add: split_beta)
qed (cases d, simp add: enqueue_moves reconcile_moves)+

lemma outbox_full_step_moves: "outbox_moves co policy True (fst d) (fst (outbox_full_step co policy send d x))"
proof (cases x)
  case (RedriveOp envs n mono_ns now)
  then show ?thesis
    using redrive_moves [of co policy "fst d" n envs send mono_ns now "snd d"]
    by (cases d) (simp add: split_beta)
qed (simp add: outbox_step_moves)

interpretation chain: invariant_system "outbox_full_step co policy send" "\<lambda>d. fst (verify_audit co (fst d))"
  for co policy send
  by unfold_locales (rule moves_keep [OF outbox_full_step_moves _ move_keeps_chain])

interpretation stuck: invariant_system "outbox_full_step co policy send" "\<lambda>d. recovered_sent key (fst d)"
  for co policy send key
  by unfold_locales (rule moves_keep [OF outbox_full_step_moves _ move_keeps_recovered])

interpretation capacity: invariant_system "outbox_step co policy send" "\<lambda>d. active_count (fst d) \<le> op_max_pending policy"
  for co policy send
  by unfold_locales (rule moves_keep [OF outbox_step_moves _ move_keeps_capacity])

section \<open>One delivery per notification\<close>

lemma deliver_row_log:
  "snd (snd (deliver_row envs co policy (recording_sink outcome) row mono_ns now db (c, taken)))
     \<in> {taken, taken @ [dget (ob_payload row) ''notification_id'']}"
  by (auto simp: deliver_row_def recording_sink_def dest!: send_loop_log split: prod.split sum.split bool.split if_splits)

text \<open>A claimed row was waiting, and its identifier is spent from then on.\<close>

lemma next_pending_in: "next_pending db = Some r \<Longrightarrow> r \<in> set (ot_rows db) \<and> ob_status r = PENDING"
  by (auto simp: next_pending_def dest!: arg_cong [where f = set] split: list.splits)

lemma claim_one_spends:
  assumes "claim_one env co now db = (Inr (Some row), db')"
  shows "\<not> spent_id db (ob_id row)" "spent_id db' (ob_id row)" "\<exists>r\<in>set (ot_rows db). ob_id r = ob_id row \<and> ob_payload r = ob_payload row"
proof -
  obtain r where r: "next_pending db = Some r" "row = r\<lparr>ob_status := IN_FLIGHT\<rparr>"
      "ot_rows db' = ot_rows (update_rows (ob_id r) PENDING (\<lambda>q. q\<lparr>ob_status := IN_FLIGHT, ob_updated_at := now\<rparr>) db)"
    using assms by (auto simp: claim_one_def transaction_Inr append_audit_def Let_def split: option.splits)
  note r_in = next_pending_in [OF r(1)]
  show "\<not> spent_id db (ob_id row)" "\<exists>r\<in>set (ot_rows db). ob_id r = ob_id row \<and> ob_payload r = ob_payload row"
    using r_in r(2) by (auto simp: spent_id_def)
  have "map ob_id (ot_rows db') = map ob_id (ot_rows db)"
    using r(3) by (simp add: update_rows_def)
  moreover have "ob_id row \<in> set (map ob_id (ot_rows db))"
    using r_in r(2) by simp
  ultimately have "ob_id row \<in> ob_id ` set (ot_rows db')"
    by (metis list.set_map)
  moreover have "ob_status q \<noteq> PENDING" if "q \<in> set (ot_rows db')" "ob_id q = ob_id row" for q
    using that r(2,3) by (auto simp: update_rows_def)
  ultimately show "spent_id db' (ob_id row)"
    by (auto simp: spent_id_def)
qed

definition once_inv :: "outbox_db \<times> sink_log \<Rightarrow> bool" where
  "once_inv d \<longleftrightarrow> payload_ids (fst d) \<and> distinct (snd (snd d)) \<and> (\<forall>v\<in>set (snd (snd d)). \<exists>i. v = PStr i \<and> spent_id (fst d) i)"

lemma once_moves: "once_inv (db, s) \<Longrightarrow> outbox_moves co policy False db db' \<Longrightarrow> once_inv (db', s)"
  unfolding once_inv_def fst_conv snd_conv using moves_keep_payload_ids moves_keep_spent by blast

lemma drain_one_once:
  assumes "once_inv (db, s)" "drain_one envs co policy (recording_sink outcome) mono_ns now db s = ((r, db'), s')"
  shows "once_inv (db', s')"
proof -
  obtain c db1 where c: "claim_one (envs 0) co now db = (c, db1)"
    by fastforce
  have db1: "once_inv (db1, s)"
    using once_moves [OF assms(1) claim_one_moves [of co policy False db "envs 0" now]] c by simp
  show ?thesis
  proof (cases "\<exists>row. c = Inr (Some row)")
    case True
    then obtain row where row: "c = Inr (Some row)" ..
    note claimed = claim_one_spends [OF c [unfolded row]]
    let ?d = "deliver_row (\<lambda>n. envs (n + 1)) co policy (recording_sink outcome) row mono_ns now db1 s"
    have d: "db' = snd (fst ?d)" "s' = snd ?d"
      using assms(2) by (simp_all add: drain_one_def c row split_beta)
    have id: "dget (ob_payload row) ''notification_id'' = PStr (ob_id row)"
      using claimed(3) assms(1) by (auto simp: once_inv_def payload_ids_def)
    then have "snd s' \<in> {snd s, snd s @ [PStr (ob_id row)]}"
      using deliver_row_log [of "\<lambda>n. envs (n + 1)" co policy outcome row mono_ns now db1 "fst s" "snd s"] d by simp
    moreover have "PStr (ob_id row) \<notin> set (snd s)"
      using assms(1) claimed(1) by (auto simp: once_inv_def)
    ultimately have "once_inv (db1, s')"
      using db1 claimed(2) by (auto simp: once_inv_def)
    then show ?thesis
      using d(1) deliver_row_moves once_moves by metis
  next
    case False
    then show ?thesis
      using assms(2) db1 by (auto simp: drain_one_def c split: sum.splits option.splits)
  qed
qed

lemma drain_loop_once:
  "once_inv (db, s) \<Longrightarrow>
   once_inv (snd (fst (drain_loop n envs co policy (recording_sink outcome) mono_ns now db s)),
             snd (drain_loop n envs co policy (recording_sink outcome) mono_ns now db s))"
proof (induction n arbitrary: envs db s)
  case (Suc n)
  obtain r1 db1 s1 where d: "drain_one envs co policy (recording_sink outcome) mono_ns now db s = ((r1, db1), s1)"
    by (metis prod.exhaust)
  note one = drain_one_once [OF Suc.prems d]
  show ?case
    using Suc.IH [OF one] one by (simp add: d split_beta split: sum.splits option.splits)
qed simp

interpretation once: invariant_system "outbox_step co policy (recording_sink outcome)" once_inv
  for co policy outcome
proof
  fix d x
  assume inv: "once_inv d"
  obtain db s where d: "d = (db, s)" by (cases d)
  show "once_inv (outbox_step co policy (recording_sink outcome) d x)"
  proof (cases x)
    case (DrainOp envs n mono_ns now)
    then show ?thesis
      using inv d drain_loop_once [of db s "nat n" envs co policy outcome mono_ns now]
      by (simp add: drain_pending_def split_beta)
  qed (use inv d in \<open>auto intro: once_moves enqueue_moves reconcile_moves\<close>)
qed

section \<open>Properties\<close>

text \<open>A codec, a policy of one pending row and valid payloads for the witnesses.\<close>

definition sample_codec :: codec where
  "sample_codec = \<lparr>co_canonical = (\<lambda>_. Some ''text''), co_sha256 = (\<lambda>t. t)\<rparr>"

definition sample_policy :: outbox_policy where
  "sample_policy = \<lparr>op_max_attempts = 3, op_max_age_ns = 300, op_rate_limit_count = 10, op_rate_limit_window_ns = 60000000000,
     op_max_pending = 1, op_max_payload_bytes = 1024\<rparr>"

definition sample_payload :: "string \<Rightarrow> string \<Rightarrow> pydict" where
  "sample_payload i severity =
     [(''schema'', PStr ''guardian.notification.v1''), (''notification_id'', PStr i), (''dedup_key'', PStr ''memory''),
      (''severity'', PStr severity), (''observed_monotonic_ns'', PInt 5), (''source'', PDict [(''event_id'', PStr i)]),
      (''action_context'', PDict [(''execution'', PStr ''not_executed''), (''authorization'', PStr ''unchanged'')]),
      (''security'', PDict [(''credentials_included'', PBool False), (''raw_signals_included'', PBool False),
         (''action_authorization_changed'', PBool False)])]"

definition sample_env :: sql_env where
  "sample_env = no_faults (\<lambda>_. Some []) [] (\<lambda>t. t)"

definition sample_row :: outbox_row where
  "sample_row = \<lparr>ob_id = ''n1'', ob_key = ''memory'', ob_event = ''n1'', ob_severity = ''recovered'', ob_observed = 5,
     ob_payload = sample_payload ''n1'' ''recovered'', ob_status = IN_FLIGHT, ob_attempts = 0, ob_last_error = None,
     ob_created_at = 0, ob_updated_at = 0\<rparr>"

lemma sample_enqueued:
  "map ob_id (ot_rows (snd (enqueue sample_env sample_codec sample_policy (PDict (sample_payload ''n1'' ''warning'')) 9 0 empty_outbox)))
     = [''n1'']"
  by code_simp

text \<open>
  C28.  However calls of \<open>enqueue\<close>, \<open>drain_pending\<close> and \<open>reconcile_in_flight\<close> are interleaved, whichever
  statements fail and whatever the sink answers, the sink takes each notification at most once:
  without an explicit redrive there is no second delivery, not even after a crash between the
  delivery and its commit.
\<close>

theorem delivered_at_most_once:
  "distinct (snd (snd (exec_all (outbox_step co policy (recording_sink outcome)) (empty_outbox, 0, []) ops)))"
  using once.run_inv [of "(empty_outbox, 0, [])" co policy outcome ops]
  by (simp add: once_inv_def payload_ids_def empty_outbox_def)

text \<open>
  C35.  After any run of the outbox, redrives included, \<open>verify_audit\<close> accepts the audit table: the
  hash chain has no gap and no record of a changed action authorization.
\<close>

theorem outbox_audit_valid:
  "fst (verify_audit co (fst (exec_all (outbox_full_step co policy send) (empty_outbox, s) ops)))"
  using chain.run_inv [of co "(empty_outbox, s)" policy send ops]
  by (simp add: verify_audit_def empty_outbox_def)

lemma outbox_policy_bounds:
  assumes "make_outbox_policy attempts age count window pending bytes = Inr policy"
  shows "1 \<le> op_max_pending policy" "op_max_pending policy \<le> 100000"
  using assms
  by (auto simp: make_outbox_policy_def bounded_int_Inr notify_policy.defs outbox_policy.defs split: sum.splits)

text \<open>
  Without a redrive the rows pending or in flight never exceed the limit \<open>max_pending\<close> of an
  outbox whose constructor accepted its arguments.
\<close>

theorem outbox_capacity:
  assumes "make_outbox_policy attempts age count window pending bytes = Inr policy"
  shows "active_count (fst (exec_all (outbox_step co policy send) (empty_outbox, s) ops)) \<le> op_max_pending policy"
  using capacity.run_inv [of "(empty_outbox, s)" policy co send ops] outbox_policy_bounds(1) [OF assms]
  by (simp add: active_count_def empty_outbox_def)

theorem outbox_capacity_witness:
  "active_count (fst (exec_all (outbox_step sample_codec sample_policy (recording_sink (\<lambda>_. Sent))) (empty_outbox, 0, [])
     [EnqueueOp sample_env (PDict (sample_payload ''n1'' ''warning'')) 9 0,
      EnqueueOp sample_env (PDict (sample_payload ''n2'' ''critical'')) 9 0])) \<le> op_max_pending sample_policy"
proof (rule outbox_capacity)
  show "make_outbox_policy (PInt 3) (PFloat (Fin (3 / 10000000))) (PInt 10) (PInt 60) (PInt 1) (PInt 1024) = Inr sample_policy"
    by (simp add: make_outbox_policy_def make_notify_policy_def bounded_int_def duration_to_ns_def to_float_def float_limit_def
        trunc_def sample_policy_def notify_policy.defs outbox_policy.defs)
qed

lemma append_audit_commits:
  "(\<And>audits. commits_to P (k (db\<lparr>ot_audits := audits\<rparr>))) \<Longrightarrow> commits_to P (append_audit env i co db payload st n reason now k)"
  by (auto simp: append_audit_def Let_def intro!: commits_to_stmt split: option.splits)

lemma finish_enqueue_rows: "commits_to (\<lambda>d. ot_rows d = ot_rows db) (finish_enqueue env i co db payload st ast n reason ost now)"
  unfolding finish_enqueue_def by (intro append_audit_commits commits_to_stmt) simp

lemma enqueue_tx_suppressed:
  assumes "dget p ''dedup_key'' = PStr key" "dget p ''severity'' = PStr sev" "sev \<in> set (delivered_of db key)"
  shows "commits_to (\<lambda>d. ot_rows d = ot_rows db) (enqueue_tx env co policy p now db)"
  using assms(3) unfolding enqueue_tx_def Let_def assms(1,2) pyval.case delivered_of_def [symmetric]
  by (intro commits_intros finish_enqueue_rows) simp_all

lemma enqueue_suppressed:
  assumes "dget p ''dedup_key'' = PStr key" "dget p ''severity'' = PStr sev" "sev \<in> set (delivered_of db key)"
  shows "ot_rows (snd (enqueue env co policy (PDict p) mono_ns now db)) = ot_rows db"
proof -
  let ?P = "\<lambda>d. ot_rows d = ot_rows db"
  have "?P (snd (record_rejection env co p reason now db))" for reason
    unfolding record_rejection_def
    by (rule transaction_keeps) (auto intro!: append_audit_commits commits_to_stmt)
  moreover have "?P (snd (transaction env ''outbox_open_failed:'' ''outbox_enqueue_failed:'' db (enqueue_tx env co policy p now db)))"
    using enqueue_tx_suppressed [OF assms] by (rule transaction_keeps [rotated]) simp
  ultimately show ?thesis
    by (simp add: enqueue_def Let_def split_beta split: sum.split option.split)
qed

lemma mark_final_recovered:
  assumes "mark_final env co row DELIVERED txt n reason now db = (Inr r, db1)" "ob_severity row = ''recovered''"
  shows "recovered_sent (ob_key row) db1"
  using assms
  by (auto simp: mark_final_def Let_def transaction_Inr append_audit_def recovered_sent_def delivered_of_def mark_delivered_def
      delivered_after_def split: option.splits)

text \<open>
  C36.  Once a recovery has been delivered for a dedup key, no later recovery with that key is ever
  queued, however many incidents of the key are delivered in between and whatever is redriven:
  \<open>_mark_final\<close> clears the delivered severities on a recovery and then puts \<open>recovered\<close> back.
\<close>

theorem second_recovery_never_queued:
  fixes s :: 's
  assumes "mark_final env co row DELIVERED txt n reason now db = (Inr r, db1)"
    and "ob_severity row = ''recovered''"
    and "dget p ''dedup_key'' = PStr (ob_key row)" "dget p ''severity'' = PStr ''recovered''"
    and "db2 = fst (exec_all (outbox_full_step co policy send) (db1, s) ops)"
  shows "ot_rows (snd (enqueue env' co policy (PDict p) mono_ns now' db2)) = ot_rows db2"
proof -
  have "recovered_sent (ob_key row) db2"
    using stuck.run_inv [of "ob_key row" "(db1, s)" co policy send ops] mark_final_recovered [OF assms(1,2)] assms(5)
    by simp
  then show ?thesis
    using assms(3,4) by (intro enqueue_suppressed) (simp_all add: recovered_sent_def)
qed

definition sample_finished :: "(string + outbox_result) \<times> outbox_db" where
  "sample_finished = mark_final sample_env sample_codec sample_row DELIVERED ''DELIVERED'' 1 None 0 (empty_outbox\<lparr>ot_rows := [sample_row]\<rparr>)"

lemma sample_finished_ok: "sample_finished = (Inr (projr (fst sample_finished)), snd sample_finished)"
proof -
  have "\<not> isl (fst sample_finished)" by code_simp
  then show ?thesis by (simp add: prod_eq_iff)
qed

definition sample_later :: outbox_db where
  "sample_later = fst (exec_all (outbox_full_step sample_codec sample_policy (recording_sink (\<lambda>_. Sent))) (snd sample_finished, 0, [])
     [Automatic (EnqueueOp sample_env (PDict (sample_payload ''n2'' ''critical'')) 9 1),
      Automatic (DrainOp (\<lambda>_. sample_env) 5 9 1)])"

theorem second_recovery_never_queued_witness:
  "map ob_id (ot_rows sample_later) = [''n1'', ''n2''] \<and>
   ot_rows (snd (enqueue sample_env sample_codec sample_policy (PDict (sample_payload ''n3'' ''recovered'')) 9 2 sample_later))
     = ot_rows sample_later"
proof
  show "map ob_id (ot_rows sample_later) = [''n1'', ''n2'']" by code_simp
  show "ot_rows (snd (enqueue sample_env sample_codec sample_policy (PDict (sample_payload ''n3'' ''recovered'')) 9 2 sample_later))
     = ot_rows sample_later"
    by (rule second_recovery_never_queued [OF sample_finished_ok [unfolded sample_finished_def] _ _ _
          sample_later_def [unfolded sample_finished_def]])
       (simp_all add: sample_row_def sample_payload_def)
qed

text \<open>
  What \<open>build_notification_event\<close> builds, the outbox accepts: with a 64-digit SHA-256, a clock that
  has reached the event and is within its age limit, and a serialisable payload of allowed size,
  validation finds no reason to reject the event.
\<close>

theorem built_event_valid:
  assumes "build_notification_event (co_sha256 co) rep source incident_key = Inr p"
    and "\<forall>t. length (co_sha256 co t) = 64"
    and "dget p ''observed_monotonic_ns'' = PInt n" "n \<le> mono_ns" "mono_ns - n \<le> op_max_age_ns policy"
    and "co_canonical co (PDict p) = Some encoded" "int (length encoded) \<le> op_max_payload_bytes policy"
  shows "validate_payload co policy p mono_ns = Inr None"
proof -
  from assms(1) obtain e state event_id seen_at n' where "source = PDict e" and parts: "state \<in> set NOTIFIABLE_STATES" "event_id \<noteq> []"
      "event_stamp e = Some n'" and p: "p = notification_payload (co_sha256 co) rep e incident_key state event_id seen_at n'"
    by (rule build_event_parts)
  have sha: "co_sha256 co t \<noteq> []" for t
    using assms(2) by (metis length_0_conv zero_neq_numeral)
  have n: "n' = n" "0 < n"
    using assms(3) event_stamp_positive [OF parts(3)] by (auto simp: p notification_payload_def Let_def)
  have fields: "dget p ''schema'' = PStr NOTIFICATION_SCHEMA" "as_nonempty_str (dget p ''notification_id'') \<noteq> None"
    "as_nonempty_str (dget p ''dedup_key'') \<noteq> None" "dget p ''severity'' = PStr state"
    "dget (mapping_of (dget p ''source'')) ''event_id'' = PStr event_id"
    "dget (mapping_of (dget p ''action_context'')) ''execution'' = PStr ''not_executed''"
    "dget (mapping_of (dget p ''action_context'')) ''authorization'' = PStr ''unchanged''"
    "dget (mapping_of (dget p ''security'')) ''credentials_included'' = PBool False"
    "dget (mapping_of (dget p ''security'')) ''raw_signals_included'' = PBool False"
    "dget (mapping_of (dget p ''security'')) ''action_authorization_changed'' = PBool False"
    using sha by (simp_all add: p notification_payload_def event_dedup_key_def Let_def)
  then show ?thesis
    using assms(3-7) n parts by (simp add: validate_payload_def Let_def)
qed

definition digest_codec :: codec where
  "digest_codec = \<lparr>co_canonical = (\<lambda>_. Some ''text''), co_sha256 = (\<lambda>_. replicate 64 (CHR ''0''))\<rparr>"

definition sample_built :: pydict where
  "sample_built = projr (build_notification_event (co_sha256 digest_codec) (\<lambda>_. []) (PDict sample_event) None)"

theorem built_event_valid_witness: "validate_payload digest_codec sample_policy sample_built 9 = Inr None"
proof (rule built_event_valid [where encoded = "''text''" and n = 5])
  show "build_notification_event (co_sha256 digest_codec) (\<lambda>_. []) (PDict sample_event) None = Inr sample_built"
    by (simp add: sample_built_def build_notification_event_def sample_event_def notify_string_def NOTIFIABLE_STATES_def event_stamp_def)
  show "dget sample_built ''observed_monotonic_ns'' = PInt 5"
    by (simp add: sample_built_def build_notification_event_def sample_event_def notify_string_def NOTIFIABLE_STATES_def event_stamp_def
        notification_payload_def Let_def)
qed (simp_all add: digest_codec_def sample_policy_def)

end
