(* ===== verification/Guardian_State_Contract.thy ===== *)
theory Guardian_State_Contract
  imports Guardian_State_Laws
begin

text \<open>
  What the durable store promises, as a small abstract machine: maps from approvals, intents and slots to their
  state, with one deterministic step and one answer per operation.  The store refines it: over any run, with any SQL
  failures, its tables read through \<open>contract_of\<close> are those of the machine after the operations that returned, and
  they returned its answers.
\<close>

section \<open>The abstract machine\<close>

type_synonym approval_scope = "string \<times> string \<times> string \<times> pyfloat"

text \<open>An approval with whether it is spent; an intent with its target and key; a slot with its holder.\<close>

record store_contract =
  sc_approvals :: "string \<rightharpoonup> approval_scope \<times> bool"
  sc_intents :: "string \<rightharpoonup> (string \<times> string \<times> string) \<times> string \<times> intent_state"
  sc_slots :: "string \<times> string \<rightharpoonup> string \<times> slot_state"

datatype store_answer = Done_Answer | Yes_No bool | Now_In intent_state | Parked "string set" "(string \<times> string) set"

definition scope_of :: "authorization \<Rightarrow> approval_scope" where
  "scope_of a = (auth_environment a, auth_target_id a, auth_action a, auth_expires_at a)"

definition same_scope :: "approval_scope \<Rightarrow> approval_scope \<Rightarrow> bool" where
  "same_scope x y \<longleftrightarrow> (case (x, y) of ((e, t, a, q), (e', t', a', q')) \<Rightarrow> e = e' \<and> t = t' \<and> a = a' \<and> feq q q')"

definition spendable :: "store_contract \<Rightarrow> authorization \<Rightarrow> rat \<Rightarrow> bool" where
  "spendable sc a now \<longleftrightarrow>
     (case sc_approvals sc (approval_id a) of
        None \<Rightarrow> False
      | Some (scope, spent) \<Rightarrow> same_scope scope (scope_of a) \<and> \<not> spent \<and> \<not> fle (auth_expires_at a) (Fin now))"

definition claimable :: "store_contract \<Rightarrow> string \<times> string \<times> string \<Rightarrow> string \<Rightarrow> bool" where
  "claimable sc target key \<longleftrightarrow>
     (\<forall>(t, k, st) \<in> ran (sc_intents sc). k \<noteq> key \<and> \<not> (st \<in> set ACTIVE_INTENT_STATES \<and> t = target))"

definition parked_intent :: "(string \<times> string \<times> string) \<times> string \<times> intent_state \<Rightarrow> (string \<times> string \<times> string) \<times> string \<times> intent_state" where
  "parked_intent x = (case x of (t, k, st) \<Rightarrow> (t, k, if st \<in> set ACTIVE_INTENT_STATES then RECONCILIATION_REQUIRED else st))"

definition parked_slot :: "string \<times> slot_state \<Rightarrow> string \<times> slot_state" where
  "parked_slot x = (fst x, SLOT_RECONCILIATION_REQUIRED)"

fun contract_step :: "store_contract \<Rightarrow> store_op \<Rightarrow> store_answer \<times> store_contract" where
  "contract_step sc (Register env a) =
     (Done_Answer, case sc_approvals sc (approval_id a) of
        None \<Rightarrow> sc\<lparr>sc_approvals := (sc_approvals sc)(approval_id a \<mapsto> (scope_of a, False))\<rparr> | Some _ \<Rightarrow> sc)"
| "contract_step sc (Consume env a ev now) =
     (if spendable sc a now
      then (Yes_No True, sc\<lparr>sc_approvals := (sc_approvals sc)(approval_id a \<mapsto> (scope_of a, True))\<rparr>)
      else (Yes_No False, sc))"
| "contract_step sc (ClaimIntent env h obj act ev p now) =
     (let key = idempotency_key env h obj act ev
      in if claimable sc (h, obj, act) key
         then (Yes_No True, sc\<lparr>sc_intents := (sc_intents sc)(uuid4 env \<mapsto> ((h, obj, act), key, INTENT_RECORDED))\<rparr>)
         else (Yes_No False, sc))"
| "contract_step sc (MarkStarted env iid now) =
     (case sc_intents sc iid of
        Some (t, k, INTENT_RECORDED) \<Rightarrow> (Yes_No True, sc\<lparr>sc_intents := (sc_intents sc)(iid \<mapsto> (t, k, EXECUTION_STARTED))\<rparr>)
      | _ \<Rightarrow> (Yes_No False, sc))"
| "contract_step sc (RecordResult env iid res ok ex now) =
     (case sc_intents sc iid of
        None \<Rightarrow> (Done_Answer, sc)
      | Some (t, k, st) \<Rightarrow>
          if st \<in> set FINAL_INTENT_STATES then (Now_In st, sc)
          else (Now_In (final_state ok ex), sc\<lparr>sc_intents := (sc_intents sc)(iid \<mapsto> (t, k, final_state ok ex))\<rparr>))"
| "contract_step sc (Reconcile env now) =
     (Parked {iid. \<exists>t k st. sc_intents sc iid = Some (t, k, st) \<and> st \<in> set ACTIVE_INTENT_STATES} {k. \<exists>iid. sc_slots sc k = Some (iid, SLOT_ACTIVE)},
      sc\<lparr>sc_intents := map_option parked_intent \<circ> sc_intents sc, sc_slots := map_option parked_slot \<circ> sc_slots sc\<rparr>)"
| "contract_step sc (ClaimSlot env h act iid now) =
     (case sc_slots sc (h, act) of
        None \<Rightarrow> (Yes_No True, sc\<lparr>sc_slots := (sc_slots sc)((h, act) \<mapsto> (iid, SLOT_ACTIVE))\<rparr>)
      | Some _ \<Rightarrow> (Yes_No False, sc))"
| "contract_step sc (ReleaseSlot env h act iid now) =
     (if sc_slots sc (h, act) = Some (iid, SLOT_ACTIVE) then (Yes_No True, sc\<lparr>sc_slots := (sc_slots sc)((h, act) := None)\<rparr>)
      else (Yes_No False, sc))"
| "contract_step sc (AllowAction env h obj act now c m w) = (Done_Answer, sc)"
| "contract_step sc (RecordAction env h obj act now ok) = (Done_Answer, sc)"

fun contract_run :: "store_contract \<Rightarrow> store_op list \<Rightarrow> store_answer list \<times> store_contract" where
  "contract_run sc [] = ([], sc)"
| "contract_run sc (x # xs) = (case contract_step sc x of (a, sc') \<Rightarrow> map_prod (Cons a) id (contract_run sc' xs))"

section \<open>The tables and the answers of the store\<close>

definition approval_view :: "capability_row \<Rightarrow> approval_scope \<times> bool" where
  "approval_view row = ((cap_environment row, cap_target_id row, cap_action row, cap_expires_at row), cap_consumed_at row \<noteq> None)"

definition intent_view :: "intent_row \<Rightarrow> (string \<times> string \<times> string) \<times> string \<times> intent_state" where
  "intent_view r = (intent_target r, int_key r, int_state r)"

definition slot_view :: "slot_row \<Rightarrow> string \<times> slot_state" where
  "slot_view s = (slot_intent s, slot_state s)"

definition contract_of :: "state_db \<Rightarrow> store_contract" where
  "contract_of db =
     \<lparr>sc_approvals = map_option approval_view \<circ> capabilities db, sc_intents = (\<lambda>iid. map_option intent_view (find_intent db iid)),
      sc_slots = (\<lambda>(h, act). map_option slot_view (find_slot db h act))\<rparr>"

definition returned :: "('a \<Rightarrow> store_answer) \<Rightarrow> (string + 'a) \<times> state_db \<Rightarrow> store_answer option" where
  "returned f r = (case fst r of Inl _ \<Rightarrow> None | Inr a \<Rightarrow> Some (f a))"

definition parked_ids :: "pending_item list \<Rightarrow> string set" where
  "parked_ids items = {iid. \<exists>h obj act ev. PendingIntent iid h obj act ev \<in> set items}"

definition parked_keys :: "pending_item list \<Rightarrow> (string \<times> string) set" where
  "parked_keys items = {(h, act). \<exists>iid. PendingSlot h act iid \<in> set items}"

fun store_answer_of :: "state_db \<Rightarrow> store_op \<Rightarrow> store_answer option" where
  "store_answer_of db (Register env a) = returned (\<lambda>_. Done_Answer) (register_capability env a db)"
| "store_answer_of db (Consume env a ev now) = returned (\<lambda>d. Yes_No (cd_allowed d)) (consume_capability env a ev now db)"
| "store_answer_of db (ClaimIntent env h obj act ev p now) = returned (\<lambda>c. Yes_No (ic_claimed c)) (claim_intent env h obj act ev p now db)"
| "store_answer_of db (MarkStarted env iid now) = returned Yes_No (mark_execution_started env iid now db)"
| "store_answer_of db (RecordResult env iid res ok ex now) = returned Now_In (record_result env iid res ok ex now db)"
| "store_answer_of db (Reconcile env now) = returned (\<lambda>items. Parked (parked_ids items) (parked_keys items)) (reconcile_pending env now db)"
| "store_answer_of db (ClaimSlot env h act iid now) = returned Yes_No (claim_action_slot env h act iid now db)"
| "store_answer_of db (ReleaseSlot env h act iid now) = returned Yes_No (release_action_slot env h act iid now db)"
| "store_answer_of db (AllowAction env h obj act now c m w) = returned (\<lambda>_. Done_Answer) (allow_action env h obj act now c m w db)"
| "store_answer_of db (RecordAction env h obj act now ok) = returned (\<lambda>_. Done_Answer) (record_action env h obj act now ok db)"

text \<open>The operations of a run that returned, with their answers.\<close>

fun answered :: "state_db \<Rightarrow> store_op list \<Rightarrow> (store_op \<times> store_answer) list" where
  "answered db [] = []"
| "answered db (x # xs) =
     (case store_answer_of db x of None \<Rightarrow> [] | Some a \<Rightarrow> [(x, a)]) @ answered (store_step db x) xs"

section \<open>Views of changed tables\<close>

lemma find_map_key:
  "(\<And>r. key (g r) = key r) \<Longrightarrow> find (\<lambda>r. key r = k) (map g xs) = map_option g (find (\<lambda>r. key r = k) xs)"
  by (induction xs) auto

lemma find_append_new: "key r \<notin> key ` set xs \<Longrightarrow>
    find (\<lambda>r. key r = k) (xs @ [r]) = (if k = key r then Some r else find (\<lambda>r. key r = k) xs)"
  by (induction xs) auto

lemma find_filter_key:
  assumes "distinct (map key xs)" "\<And>x. Q x \<Longrightarrow> key x = k0" "r \<in> set xs" "Q r"
  shows "find (\<lambda>r. key r = k) (filter (\<lambda>x. \<not> Q x) xs) = (if k = k0 then None else find (\<lambda>r. key r = k) xs)"
proof (cases "k = k0")
  case True
  have "x = r" if "x \<in> set xs" "key x = k0" for x
    using that assms by (auto simp: distinct_map inj_on_def)
  with True assms(4) show ?thesis by (auto simp: find_None_iff)
next
  case False
  then have "find (\<lambda>r. key r = k) (filter (\<lambda>x. \<not> Q x) ys) = find (\<lambda>r. key r = k) ys" for ys
    using assms(2) by (induction ys) auto
  with False show ?thesis by simp
qed

lemma find_slot_key: "find_slot db h act = find (\<lambda>s. slot_key s = (h, act)) (action_slots db)"
  by (simp add: find_slot_def slot_key_def)

lemma contract_frame [simp]: "contract_of (db\<lparr>action_ledger := m\<rparr>) = contract_of db"
  by (simp add: contract_of_def find_intent_def find_slot_def)

lemma contract_slot: "sc_slots (contract_of db) (h, act) = map_option slot_view (find_slot db h act)"
  by (simp add: contract_of_def)

text \<open>An audit record, in front of an update of another table, is not seen.\<close>

lemma contract_audit [simp]: "contract_of (db\<lparr>audit_records := x\<rparr>) = contract_of db"
  by (simp add: contract_of_def find_intent_def find_slot_def)

lemma contract_approval:
  "contract_of (db\<lparr>capabilities := (capabilities db)(aid \<mapsto> row)\<rparr>) =
     (contract_of db)\<lparr>sc_approvals := (sc_approvals (contract_of db))(aid \<mapsto> approval_view row)\<rparr>"
  by (auto simp: contract_of_def find_intent_def find_slot_def)

lemma contract_new_intent:
  assumes "int_id r \<notin> int_id ` set (intents db)"
  shows "contract_of (db\<lparr>intents := intents db @ [r]\<rparr>) =
    (contract_of db)\<lparr>sc_intents := (sc_intents (contract_of db))(int_id r \<mapsto> intent_view r)\<rparr>"
  by (auto simp: contract_of_def find_intent_def find_append_new [OF assms] find_slot_def)

lemma contract_update_intent:
  assumes "\<And>r. int_id (f r) = int_id r" "\<And>r. find_intent db iid = Some r \<Longrightarrow> intent_view (f r) = v" "find_intent db iid = Some r0"
  shows "contract_of (update_intent db iid f) = (contract_of db)\<lparr>sc_intents := (sc_intents (contract_of db))(iid \<mapsto> v)\<rparr>"
proof -
  have "find_intent (update_intent db iid f) j =
      map_option (\<lambda>r. if int_id r = iid then f r else r) (find_intent db j)" for j
    unfolding find_intent_def update_intent_simps by (rule find_map_key) (simp add: assms(1))
  then have "map_option intent_view (find_intent (update_intent db iid f) j) =
      ((\<lambda>i. map_option intent_view (find_intent db i))(iid \<mapsto> v)) j" for j
    using find_intent_SomeD [of db j] assms(2,3) by (cases "find_intent db j") auto
  then show ?thesis by (simp add: contract_of_def find_slot_def fun_eq_iff)
qed

lemma contract_new_slot:
  assumes "slot_key s \<notin> slot_key ` set (action_slots db)"
  shows "contract_of (db\<lparr>action_slots := action_slots db @ [s]\<rparr>) =
    (contract_of db)\<lparr>sc_slots := (sc_slots (contract_of db))(slot_key s \<mapsto> slot_view s)\<rparr>"
  by (auto simp: contract_of_def find_slot_key find_append_new [OF assms] find_intent_def)

lemma contract_release:
  assumes "store_ok db" "s \<in> set (action_slots db)" "slot_matches h act iid s"
  shows "contract_of (db\<lparr>action_slots := filter (\<lambda>s. \<not> slot_matches h act iid s) (action_slots db)\<rparr>) =
    (contract_of db)\<lparr>sc_slots := (sc_slots (contract_of db))((h, act) := None)\<rparr>"
proof -
  have "find (\<lambda>s. slot_key s = k) (filter (\<lambda>s. \<not> slot_matches h act iid s) (action_slots db)) =
      (if k = (h, act) then None else find (\<lambda>s. slot_key s = k) (action_slots db))" for k
    using assms by (intro find_filter_key [where key = slot_key]) (simp_all add: store_ok_def, simp add: slot_matches_def slot_key_def)
  then show ?thesis by (auto simp: contract_of_def find_slot_key find_intent_def)
qed

lemma pending_iff_active:
  assumes "store_ok db" "find_intent db iid = Some r"
  shows "iid \<in> int_id ` set (pending_rows db) \<longleftrightarrow> is_active r"
  using find_intent_unique [OF assms] find_intent_SomeD [OF assms(2)] by (auto simp: pending_rows_set)

lemma park_intents_view:
  assumes "store_ok db"
  shows "map_option intent_view (find (\<lambda>r. int_id r = iid) (park_intents now (int_id ` set (pending_rows db)) (intents db))) =
    map_option parked_intent (map_option intent_view (find_intent db iid))"
proof -
  let ?g = "\<lambda>r. if int_id r \<in> int_id ` set (pending_rows db) then r\<lparr>int_state := RECONCILIATION_REQUIRED, int_updated_at := now\<rparr> else r"
  have "intent_view (?g r) = parked_intent (intent_view r)" if "find_intent db iid = Some r" for r
  proof -
    have "int_id r \<in> int_id ` set (pending_rows db) \<longleftrightarrow> is_active r"
      using pending_iff_active [OF assms that] find_intent_SomeD [OF that] by simp
    then show ?thesis by (auto simp: intent_view_def parked_intent_def is_active_def intent_target_def)
  qed
  moreover have "find (\<lambda>r. int_id r = iid) (park_intents now (int_id ` set (pending_rows db)) (intents db)) = map_option ?g (find_intent db iid)"
    unfolding park_intents_def find_intent_def by (rule find_map_key) simp
  ultimately show ?thesis by (cases "find_intent db iid") simp_all
qed

lemma park_slots_view:
  "map_option slot_view (find (\<lambda>s. slot_key s = k) (park_slots now (slot_key ` set (active_slots db)) (action_slots db))) =
    map_option parked_slot (map_option slot_view (find (\<lambda>s. slot_key s = k) (action_slots db)))"
proof -
  let ?g = "\<lambda>s. if slot_key s \<in> slot_key ` set (active_slots db) \<and> slot_state s = SLOT_ACTIVE
    then s\<lparr>slot_state := SLOT_RECONCILIATION_REQUIRED, slot_updated_at := now\<rparr> else s"
  have "slot_view (?g s) = parked_slot (slot_view s)" if "s \<in> set (action_slots db)" for s
    using that by (cases "slot_state s") (auto simp: slot_view_def parked_slot_def active_slots_set)
  moreover have "find (\<lambda>s. slot_key s = k) (park_slots now (slot_key ` set (active_slots db)) (action_slots db)) =
      map_option ?g (find (\<lambda>s. slot_key s = k) (action_slots db))"
    unfolding park_slots_def by (rule find_map_key) (simp add: slot_key_def)
  moreover have "s \<in> set (action_slots db)" if "find (\<lambda>s. slot_key s = k) (action_slots db) = Some s" for s
    using that by (auto simp: find_Some_iff)
  ultimately show ?thesis by (cases "find (\<lambda>s. slot_key s = k) (action_slots db)") simp_all
qed

lemma contract_reconcile:
  assumes "store_ok db"
  shows "contract_of (db\<lparr>intents := park_intents now (int_id ` set (pending_rows db)) (intents db),
      action_slots := park_slots now (slot_key ` set (active_slots db)) (action_slots db), audit_records := xs\<rparr>) =
    (contract_of db)\<lparr>sc_intents := map_option parked_intent \<circ> sc_intents (contract_of db),
      sc_slots := map_option parked_slot \<circ> sc_slots (contract_of db)\<rparr>"
  using park_intents_view [OF assms, of _ now] park_slots_view [of _ now db]
  by (simp add: contract_of_def find_slot_key fun_eq_iff) (simp add: find_intent_def)

lemma intents_contract: "ran (sc_intents (contract_of db)) = intent_view ` set (intents db)" if "store_ok db"
proof -
  have "find_intent db (int_id r) = Some r" if "r \<in> set (intents db)" for r
  proof (cases "find_intent db (int_id r)")
    case None
    with that show ?thesis by (auto simp: find_intent_def find_None_iff)
  next
    case (Some r')
    with find_intent_unique [OF \<open>store_ok db\<close> Some that] show ?thesis by simp
  qed
  then show ?thesis
    by (force simp: contract_of_def ran_def dest: find_intent_SomeD)
qed

lemma pending_items_contract:
  assumes "store_ok db"
  shows "parked_ids (pending_items db) = {iid. \<exists>t k st. sc_intents (contract_of db) iid = Some (t, k, st) \<and> st \<in> set ACTIVE_INTENT_STATES}"
    "parked_keys (pending_items db) = {k. \<exists>iid. sc_slots (contract_of db) k = Some (iid, SLOT_ACTIVE)}"
proof -
  have "parked_ids (pending_items db) = int_id ` set (pending_rows db)"
    by (simp add: parked_ids_def pending_items_def image_iff set_eq_iff) metis
  moreover have "(\<exists>t k st. sc_intents (contract_of db) iid = Some (t, k, st) \<and> st \<in> set ACTIVE_INTENT_STATES) \<longleftrightarrow>
      iid \<in> int_id ` set (pending_rows db)" for iid
  proof (cases "find_intent db iid")
    case None
    then have "\<forall>r \<in> set (intents db). int_id r \<noteq> iid" by (auto simp: find_intent_def find_None_iff)
    with None show ?thesis by (auto simp: contract_of_def pending_rows_set)
  next
    case (Some r)
    then show ?thesis
      by (simp add: pending_iff_active [OF assms Some]) (simp add: contract_of_def intent_view_def is_active_def intent_target_def)
  qed
  ultimately show "parked_ids (pending_items db) = {iid. \<exists>t k st. sc_intents (contract_of db) iid = Some (t, k, st) \<and> st \<in> set ACTIVE_INTENT_STATES}"
    by blast
  have "parked_keys (pending_items db) = slot_key ` set (active_slots db)"
    by (auto simp: parked_keys_def pending_items_def slot_key_def image_iff)
  moreover have "(\<exists>iid. sc_slots (contract_of db) k = Some (iid, SLOT_ACTIVE)) \<longleftrightarrow> k \<in> slot_key ` set (active_slots db)" for k
  proof (cases "find (\<lambda>s. slot_key s = k) (action_slots db)")
    case None
    then have "\<forall>s \<in> set (action_slots db). slot_key s \<noteq> k" by (auto simp: find_None_iff)
    with None show ?thesis by (cases k) (auto simp: contract_slot find_slot_key active_slots_set)
  next
    case (Some s)
    then have s: "s \<in> set (action_slots db)" "slot_key s = k" by (auto simp: find_Some_iff)
    have inj: "inj_on slot_key (set (action_slots db))" using assms by (simp add: store_ok_def distinct_map)
    have "k \<in> slot_key ` set (active_slots db) \<longleftrightarrow> slot_state s = SLOT_ACTIVE"
    proof
      assume "k \<in> slot_key ` set (active_slots db)"
      then obtain s' where "s' \<in> set (action_slots db)" "slot_state s' = SLOT_ACTIVE" "slot_key s' = k"
        unfolding active_slots_set by blast
      with inj_onD [OF inj, of s' s] s show "slot_state s = SLOT_ACTIVE" by simp
    next
      assume "slot_state s = SLOT_ACTIVE"
      with s show "k \<in> slot_key ` set (active_slots db)" unfolding active_slots_set by blast
    qed
    with Some show ?thesis by (cases k) (simp add: contract_slot find_slot_key slot_view_def)
  qed
  ultimately show "parked_keys (pending_items db) = {k. \<exists>iid. sc_slots (contract_of db) k = Some (iid, SLOT_ACTIVE)}"
    by blast
qed

section \<open>One operation\<close>

lemma returned_Some: "returned f r = Some a \<longleftrightarrow> (\<exists>v. r = (Inr v, snd r) \<and> a = f v)"
  by (cases r) (auto simp: returned_def split: sum.splits)

lemma register_refines:
  assumes "register_capability env a db = (Inr u, db')"
  shows "contract_step (contract_of db) (Register env a) = (Done_Answer, contract_of db')"
proof (cases "capabilities db (approval_id a)")
  case None
  with assms have "db' = db\<lparr>capabilities := (capabilities db)(approval_id a \<mapsto> new_capability a)\<rparr>"
    by (auto simp: register_capability_def authorization_fields_def transaction_Inr new_capability_def split: if_splits)
  moreover have "approval_view (new_capability a) = (scope_of a, False)"
    by (simp add: approval_view_def new_capability_def scope_of_def)
  ultimately show ?thesis using None by (simp only: contract_approval) (simp add: contract_of_def)
next
  case (Some row)
  with assms have "db' = db"
    by (auto simp: register_capability_def authorization_fields_def transaction_Inr split: if_splits)
  with Some show ?thesis by (simp add: contract_of_def)
qed

lemma consume_refines:
  assumes "consume_capability env a ev now db = (Inr d, db')"
  shows "contract_step (contract_of db) (Consume env a ev now) = (Yes_No (cd_allowed d), contract_of db')"
proof -
  have view: "spendable (contract_of db) a now \<longleftrightarrow>
      (\<exists>row. capabilities db (approval_id a) = Some row \<and> cap_consumed_at row = None \<and> \<not> fle (auth_expires_at a) (Fin now) \<and>
         cap_environment row = auth_environment a \<and> cap_target_id row = auth_target_id a \<and> cap_action row = auth_action a \<and>
         feq (cap_expires_at row) (auth_expires_at a))"
    by (auto simp: spendable_def contract_of_def approval_view_def same_scope_def scope_of_def split: option.splits)
  show ?thesis
  proof (cases "cd_allowed d")
    case True
    from consume_allowed [OF assms True] obtain row x where
      row: "capabilities db (approval_id a) = Some row" "cap_consumed_at row = None" "\<not> fle (auth_expires_at a) (Fin now)"
        "cap_target_id row = auth_target_id a" "cap_action row = auth_action a" "cap_environment row = auth_environment a"
        "cap_expires_at row = auth_expires_at a"
      and db': "db' = db\<lparr>capabilities := (capabilities db)(approval_id a \<mapsto> consume_row now ev row), audit_records := audit_records db @ [x]\<rparr>"
      by blast
    have "feq (cap_expires_at row) (auth_expires_at a)"
      using assms True row(1)
      by (auto simp: consume_capability_def authorization_fields_def transaction_Inr split: if_splits)
    with row have "spendable (contract_of db) a now" by (auto simp: view)
    moreover have "approval_view (consume_row now ev row) = (scope_of a, True)"
      using row by (simp add: approval_view_def consume_row_def scope_of_def)
    ultimately show ?thesis using True unfolding db' by (simp add: contract_approval)
  next
    case False
    with assms have "db' = db \<and> \<not> spendable (contract_of db) a now"
      unfolding view
      by (auto simp: consume_capability_def authorization_fields_def transaction_Inr Let_def split: option.splits if_splits)
    with False show ?thesis by simp
  qed
qed

lemma claim_refines:
  assumes "claim_intent env h obj act ev p now db = (Inr c, db')" "store_ok db"
  shows "contract_step (contract_of db) (ClaimIntent env h obj act ev p now) = (Yes_No (ic_claimed c), contract_of db')"
proof -
  let ?key = "idempotency_key env h obj act ev"
  have view: "claimable (contract_of db) (h, obj, act) ?key \<longleftrightarrow>
      find (\<lambda>r. int_key r = ?key) (intents db) = None \<and> find (active_intent h obj act) (intents db) = None"
    by (auto simp: claimable_def intents_contract [OF assms(2)] intent_view_def find_None_iff active_intent_def intent_target_def)
  show ?thesis
  proof (cases "ic_claimed c")
    case True
    from claim_claimed [OF assms(1) True] obtain x where
      c: "uuid4 env \<notin> int_id ` set (intents db)"
        "db' = db\<lparr>intents := intents db @ [new_intent env h obj act ev now], audit_records := audit_records db @ [x]\<rparr>" by blast
    have "claimable (contract_of db) (h, obj, act) ?key"
      using assms(1) True unfolding view by (auto simp: claim_intent_def transaction_Inr Let_def split: option.splits if_splits)
    moreover have "contract_of db' = (contract_of db)\<lparr>sc_intents := (sc_intents (contract_of db))
        (uuid4 env \<mapsto> ((h, obj, act), ?key, INTENT_RECORDED))\<rparr>"
      unfolding c(2) using c(1) contract_new_intent [of "new_intent env h obj act ev now" db]
      by (simp add: intent_view_def)
    ultimately show ?thesis using True by (simp add: Let_def)
  next
    case False
    with assms(1) have "db' = db \<and> \<not> claimable (contract_of db) (h, obj, act) ?key"
      unfolding view by (auto simp: claim_intent_def transaction_Inr Let_def split: option.splits if_splits)
    with False show ?thesis by (simp add: Let_def)
  qed
qed

lemma mark_refines:
  assumes "mark_execution_started env iid now db = (Inr b, db')"
  shows "contract_step (contract_of db) (MarkStarted env iid now) = (Yes_No b, contract_of db')"
proof -
  from assms obtain r where r: "find_intent db iid = Some r"
    by (auto simp: mark_execution_started_def transaction_Inr split: option.splits)
  then have sc: "sc_intents (contract_of db) iid = Some (intent_target r, int_key r, int_state r)"
    by (simp add: contract_of_def intent_view_def)
  show ?thesis
  proof (cases "int_state r = INTENT_RECORDED")
    case True
    let ?f = "\<lambda>x. x\<lparr>int_state := EXECUTION_STARTED, int_updated_at := now\<rparr>"
    from assms r True obtain x where "b" "db' = update_intent db iid ?f\<lparr>audit_records := audit_records db @ [x]\<rparr>"
      by (auto simp: mark_execution_started_def transaction_Inr Let_def)
    with contract_update_intent [of ?f db iid "(intent_target r, int_key r, EXECUTION_STARTED)" r] r sc True show ?thesis
      by (simp add: intent_view_def intent_target_def)
  next
    case False
    with assms r have "\<not> b" "db' = db" by (auto simp: mark_execution_started_def transaction_Inr)
    with sc False show ?thesis by (cases "int_state r") simp_all
  qed
qed

lemma result_refines:
  assumes "record_result env iid res ok ex now db = (Inr st, db')"
  shows "contract_step (contract_of db) (RecordResult env iid res ok ex now) = (Now_In st, contract_of db')"
proof -
  from assms obtain r where r: "find_intent db iid = Some r"
    by (auto simp: record_result_def transaction_Inr split: option.splits)
  then have sc: "sc_intents (contract_of db) iid = Some (intent_target r, int_key r, int_state r)"
    by (simp add: contract_of_def intent_view_def)
  show ?thesis
  proof (cases "int_state r \<in> set FINAL_INTENT_STATES")
    case True
    with assms r sc show ?thesis by (auto simp: record_result_def transaction_Inr)
  next
    case False
    from assms r False obtain x doc where "st = final_state ok ex" and
      db': "db' = update_intent db iid (\<lambda>x. x\<lparr>int_state := final_state ok ex, int_updated_at := now, int_result := Some doc\<rparr>)
        \<lparr>audit_records := audit_records db @ [x]\<rparr>"
      by (auto simp: record_result_def transaction_Inr Let_def split: sum.splits)
    then show ?thesis
      using contract_update_intent [of "\<lambda>x. x\<lparr>int_state := final_state ok ex, int_updated_at := now, int_result := Some doc\<rparr>" db iid
          "(intent_target r, int_key r, final_state ok ex)" r] r sc False
      by (simp add: intent_view_def intent_target_def)
  qed
qed

lemma claim_slot_refines:
  assumes "claim_action_slot env h act iid now db = (Inr b, db')"
  shows "contract_step (contract_of db) (ClaimSlot env h act iid now) = (Yes_No b, contract_of db')"
proof (cases "find_slot db h act")
  case None
  with assms obtain x where "b" "db' = db\<lparr>action_slots := action_slots db @ [new_slot h act iid now], audit_records := audit_records db @ [x]\<rparr>"
    by (auto simp: claim_action_slot_def transaction_Inr new_slot_def)
  moreover have "contract_of (db\<lparr>action_slots := action_slots db @ [new_slot h act iid now]\<rparr>) =
      (contract_of db)\<lparr>sc_slots := (sc_slots (contract_of db))((h, act) \<mapsto> (iid, SLOT_ACTIVE))\<rparr>"
    using contract_new_slot [of "new_slot h act iid now" db] None
    by (simp add: find_slot_None slot_view_def) (simp add: new_slot_def)
  ultimately show ?thesis using None by (simp add: contract_slot)
next
  case (Some s)
  with assms show ?thesis by (auto simp: claim_action_slot_def transaction_Inr contract_slot)
qed

lemma release_refines:
  assumes "release_action_slot env h act iid now db = (Inr b, db')" "store_ok db"
  shows "contract_step (contract_of db) (ReleaseSlot env h act iid now) = (Yes_No b, contract_of db')"
proof (cases "find_slot db h act")
  case None
  with assms(1) show ?thesis by (auto simp: release_action_slot_def transaction_Inr contract_of_def)
next
  case (Some s)
  then have sc: "sc_slots (contract_of db) (h, act) = Some (slot_intent s, slot_state s)"
    by (simp add: contract_of_def slot_view_def)
  show ?thesis
  proof (cases "slot_intent s = iid \<and> slot_state s = SLOT_ACTIVE")
    case True
    with assms(1) Some obtain x where "b"
      "db' = db\<lparr>action_slots := filter (\<lambda>s. \<not> slot_matches h act iid s) (action_slots db), audit_records := audit_records db @ [x]\<rparr>"
      by (auto simp: release_action_slot_def transaction_Inr Let_def)
    moreover have "s \<in> set (action_slots db)" "slot_matches h act iid s"
      using find_slot_SomeD [OF Some] True by (auto simp: slot_matches_def slot_key_def)
    ultimately show ?thesis using sc True contract_release [OF assms(2)] by simp
  next
    case False
    with assms(1) Some have "\<not> b" "db' = db" by (auto simp: release_action_slot_def transaction_Inr split: if_splits)
    with sc False show ?thesis by auto
  qed
qed

lemma reconcile_refines:
  assumes "reconcile_pending env now db = (Inr items, db')" "store_ok db"
  shows "contract_step (contract_of db) (Reconcile env now) = (Parked (parked_ids items) (parked_keys items), contract_of db')"
  using reconcile_db [OF assms(1)] contract_reconcile [OF assms(2), where now = now] pending_items_contract [OF assms(2)] by auto

lemma step_refines:
  assumes "store_ok db" "store_answer_of db x = Some a"
  shows "contract_step (contract_of db) x = (a, contract_of (store_step db x))"
proof (cases x)
  case (AllowAction env h obj act now c m w)
  then show ?thesis using assms(2) allow_db [OF pair_dest, of env h obj act now c m w db] by (auto simp: returned_Some)
next
  case (RecordAction env h obj act now ok)
  then show ?thesis using assms(2) record_action_db [OF pair_dest, of env h obj act now ok db] by (auto simp: returned_Some)
qed (use assms register_refines consume_refines claim_refines mark_refines result_refines reconcile_refines claim_slot_refines
    release_refines in \<open>auto simp: returned_Some simp del: contract_step.simps\<close>)

lemma raised_unchanged:
  assumes "store_answer_of db x = None"
  shows "store_step db x = db"
proof (rule store_error_atomic)
  show "store_raises db x" using assms by (cases x) (auto simp: returned_def split: sum.splits)
qed

lemma run_refines: "store_ok db \<Longrightarrow>
  contract_run (contract_of db) (map fst (answered db ops)) = (map snd (answered db ops), contract_of (exec_all store_step db ops))"
proof (induction ops arbitrary: db)
  case (Cons x ops)
  note IH = Cons.IH [OF store_inv.step_inv [OF Cons.prems, of x]]
  show ?case
  proof (cases "store_answer_of db x")
    case None
    with raised_unchanged [OF None] IH show ?thesis by simp
  next
    case (Some a)
    with step_refines [OF Cons.prems Some] IH show ?thesis by (simp del: contract_step.simps)
  qed
qed simp

section \<open>Property\<close>

text \<open>
  C29.  Refinement: after any sequence of store operations, with any arguments and SQL failures, the tables read as a
  contract are the state the abstract machine reaches with the operations that returned, and these returned the
  machine's answers; the operations that raised have left no trace.
\<close>

theorem store_refines_contract:
  "contract_run (contract_of empty_db) (map fst (answered empty_db ops)) =
     (map snd (answered empty_db ops), contract_of (exec_all store_step empty_db ops))"
  by (rule run_refines) simp

end
