(* ===== verification/Guardian_Cooldown.thy ===== *)
theory Guardian_Cooldown
  imports Guardian_Recovery
begin

text \<open>
  The durable cooldown over runs: attempts that ask \<open>allow_action\<close> and, when admitted, write \<open>record_action\<close>, as the
  controller and the action broker do, between any other operations of the store.
\<close>

section \<open>Attempts on the durable ledger\<close>

text \<open>
  What a controller does with the durable ledger of one host, object and action: \<open>allow_action\<close> and, when it
  allows, \<open>record_action\<close>, at one time of the clock; between the attempts anything else happens on the store.
\<close>

datatype ledger_use = Attempt sql_env sql_env rat bool | Meanwhile store_op

fun use_step :: "ledger_key \<Rightarrow> rat \<Rightarrow> int \<Rightarrow> rat \<Rightarrow> state_db \<Rightarrow> ledger_use \<Rightarrow> state_db" where
  "use_step k c m w db (Attempt e1 e2 now ok) =
     (case allow_action e1 (fst k) (fst (snd k)) (snd (snd k)) now c m w db of
        (Inr (True, _), db1) \<Rightarrow> snd (record_action e2 (fst k) (fst (snd k)) (snd (snd k)) now ok db1)
      | (_, db1) \<Rightarrow> db1)"
| "use_step k c m w db (Meanwhile x) = store_step db x"

text \<open>The time of an attempt that was admitted and recorded.\<close>

fun admitted :: "ledger_key \<Rightarrow> rat \<Rightarrow> int \<Rightarrow> rat \<Rightarrow> state_db \<Rightarrow> ledger_use \<Rightarrow> rat option" where
  "admitted k c m w db (Attempt e1 e2 now ok) =
     (case allow_action e1 (fst k) (fst (snd k)) (snd (snd k)) now c m w db of
        (Inr (True, _), db1) \<Rightarrow>
          if fst (record_action e2 (fst k) (fst (snd k)) (snd (snd k)) now ok db1) = Inr () then Some now else None
      | _ \<Rightarrow> None)"
| "admitted k c m w db (Meanwhile x) = None"

text \<open>The clock does not go back, and nobody else writes the ledger of the key.\<close>

fun attempt_time :: "ledger_use \<Rightarrow> rat option" where
  "attempt_time (Attempt e1 e2 now ok) = Some now"
| "attempt_time (Meanwhile x) = None"

fun leaves_ledger :: "ledger_key \<Rightarrow> ledger_use \<Rightarrow> bool" where
  "leaves_ledger k (Meanwhile (AllowAction env h obj act now c m w)) = ((h, obj, act) \<noteq> k)"
| "leaves_ledger k (Meanwhile (RecordAction env h obj act now ok)) = ((h, obj, act) \<noteq> k)"
| "leaves_ledger k _ = True"

definition paced :: "ledger_key \<Rightarrow> ledger_use list \<Rightarrow> bool" where
  "paced k ops \<longleftrightarrow> sorted (List.map_filter attempt_time ops) \<and> list_all (leaves_ledger k) ops"

definition ledger_times :: "ledger_key \<Rightarrow> state_db \<Rightarrow> rat list" where
  "ledger_times k db = (case action_ledger db k of None \<Rightarrow> [] | Some row \<Rightarrow> (case led_times row of None \<Rightarrow> [] | Some ts \<Rightarrow> ts))"

definition ledger_last :: "ledger_key \<Rightarrow> state_db \<Rightarrow> rat option" where
  "ledger_last k db = Option.bind (action_ledger db k) led_last_action_at"

section \<open>What the ledger remembers\<close>

lemma other_op_ledger:
  assumes "leaves_ledger k (Meanwhile x)"
  shows "action_ledger (store_step db x) k = action_ledger db k"
proof (cases x)
  case (Register env a)
  then show ?thesis using register_db [OF pair_dest, of env a db] by auto
next
  case (Consume env a ev now)
  then show ?thesis using consume_db [OF pair_dest, of env a ev now db] by auto
next
  case (ClaimIntent env h obj act ev p now)
  then show ?thesis using claim_db [OF pair_dest, of env h obj act ev p now db] by auto
next
  case (MarkStarted env iid now)
  then show ?thesis using mark_db [OF pair_dest, of env iid now db] by auto
next
  case (RecordResult env iid res ok ex now)
  then show ?thesis using result_db [OF pair_dest, of env iid res ok ex now db] by auto
next
  case (Reconcile env now)
  then show ?thesis using reconcile_db [OF pair_dest, of env now db] by auto
next
  case (ClaimSlot env h act iid now)
  then show ?thesis using claim_slot_db [OF pair_dest, of env h act iid now db] by auto
next
  case (ReleaseSlot env h act iid now)
  then show ?thesis using release_slot_db [OF pair_dest, of env h act iid now db] by auto
next
  case (AllowAction env h obj act now c m w)
  with assms show ?thesis
    by (auto simp: allow_action_def transaction_def stmt_def Let_def split: option.splits tx.splits)
next
  case (RecordAction env h obj act now ok)
  with assms show ?thesis
    by (auto simp: record_action_def transaction_def stmt_def Let_def split: option.splits tx.splits)
qed

lemma allow_ledger:
  assumes "allow_action env (fst k) (fst (snd k)) (snd (snd k)) now c m w db = (Inr (True, why), db')" 
  shows "ledger_times k db' = filter (\<lambda>t. now - t \<le> w) (ledger_times k db) \<or> ledger_times k db' = [] \<and> ledger_times k db = []"
    "int (length (filter (\<lambda>t. now - t \<le> w) (ledger_times k db))) < m" "ledger_last k db' = ledger_last k db"
    "case ledger_last k db of None \<Rightarrow> True | Some t \<Rightarrow> c \<le> now - t"
    "ledger_readable k db"
  using assms
  by (cases k; auto simp: allow_action_def transaction_Inr ledger_times_def ledger_last_def ledger_readable_def Let_def split: if_splits option.splits)+

lemma record_ledger:
  "record_action env (fst k) (fst (snd k)) (snd (snd k)) now ok db = (Inr (), db') \<Longrightarrow>
     ledger_times k db' = ledger_times k db @ [now] \<and> ledger_last k db' = Some now"
  "record_action env (fst k) (fst (snd k)) (snd (snd k)) now ok db = (Inl e, db') \<Longrightarrow> db' = db"
  by (cases k; auto simp: record_action_def transaction_def stmt_def ledger_times_def ledger_last_def split: option.splits tx.splits)+

text \<open>The admissions \<open>G\<close> so far, none after \<open>T\<close>, and the ledger that remembers those that still count.\<close>

definition remembers :: "ledger_key \<Rightarrow> rat \<Rightarrow> int \<Rightarrow> rat \<Rightarrow> rat \<Rightarrow> rat list \<Rightarrow> state_db \<Rightarrow> bool" where
  "remembers k c m w T G db \<longleftrightarrow>
     (\<forall>n\<ge>T. length (filter (\<lambda>t. n - t \<le> w) G) \<le> length (filter (\<lambda>t. n - t \<le> w) (ledger_times k db))) \<and>
     (\<forall>s. int (length (filter (\<lambda>t. s \<le> t \<and> t \<le> s + w) G)) \<le> max 0 m) \<and>
     successively (\<lambda>a b. c \<le> b - a) G \<and> (G \<noteq> [] \<longrightarrow> ledger_last k db = Some (last G))"

lemma remembers_cong:
  "remembers k c m w T G db \<Longrightarrow> T \<le> T' \<Longrightarrow> ledger_times k db' = ledger_times k db \<Longrightarrow> ledger_last k db' = ledger_last k db \<Longrightarrow>
   remembers k c m w T' G db'"
  by (auto simp: remembers_def)

lemma remembers_allowed:
  assumes "remembers k c m w T G db" "T \<le> now"
    and "allow_action env (fst k) (fst (snd k)) (snd (snd k)) now c m w db = (Inr (True, why), db')"
  shows "remembers k c m w now G db'"
proof -
  note a = allow_ledger [OF assms(3)]
  have "filter (\<lambda>t. n - t \<le> w) (ledger_times k db') = filter (\<lambda>t. n - t \<le> w) (ledger_times k db)" if "now \<le> n" for n
  proof -
    have "now - t \<le> w \<and> n - t \<le> w \<longleftrightarrow> n - t \<le> w" for t using that by auto
    then show ?thesis using a(1) by auto
  qed
  with assms(1,2) a(3) show ?thesis by (auto simp: remembers_def)
qed

lemma remembers_admitted:
  assumes "remembers k c m w T G db" "T \<le> now"
    and allow: "allow_action e1 (fst k) (fst (snd k)) (snd (snd k)) now c m w db = (Inr (True, why), db1)"
    and rec: "record_action e2 (fst k) (fst (snd k)) (snd (snd k)) now ok db1 = (Inr (), db2)"
  shows "remembers k c m w now (G @ [now]) db2"
proof -
  note a = allow_ledger [OF allow]
  have 1: "remembers k c m w now G db1" by (rule remembers_allowed [OF assms(1,2) allow])
  note r = record_ledger(1) [OF rec]
  have "int (length (filter (\<lambda>t. s \<le> t \<and> t \<le> s + w) (G @ [now]))) \<le> max 0 m" for s
  proof (cases "s \<le> now \<and> now \<le> s + w")
    case True
    have "filter (\<lambda>t. s \<le> t \<and> t \<le> s + w) G = filter (\<lambda>t. s \<le> t \<and> t \<le> s + w) (filter (\<lambda>t. now - t \<le> w) G)"
      using True by (auto intro!: filter_cong)
    then have "length (filter (\<lambda>t. s \<le> t \<and> t \<le> s + w) G) \<le> length (filter (\<lambda>t. now - t \<le> w) G)"
      by (metis length_filter_le)
    also have "\<dots> \<le> length (filter (\<lambda>t. now - t \<le> w) (ledger_times k db))"
      using assms(1,2) by (simp add: remembers_def)
    finally show ?thesis using a(2) True by simp
  next
    case False
    then show ?thesis using 1 by (auto simp: remembers_def)
  qed
  moreover have "successively (\<lambda>a b. c \<le> b - a) (G @ [now])"
    using 1 a(3,4) by (cases "G = []") (auto simp: remembers_def successively_append_iff)
  ultimately show ?thesis using 1 r by (auto simp: remembers_def)
qed

lemma remembers_run:
  assumes "remembers k c m w T G db" "paced k ops" "\<forall>t \<in> set (List.map_filter attempt_time ops). T \<le> t"
  shows "\<exists>T'. remembers k c m w T' (G @ granted (use_step k c m w) (admitted k c m w) db ops) (exec_all (use_step k c m w) db ops)"
  using assms
proof (induction ops arbitrary: T G db)
  case (Cons x ops)
  show ?case
  proof (cases x)
    case (Meanwhile y)
    with Cons.prems have p: "paced k ops" "leaves_ledger k (Meanwhile y)" "\<forall>t \<in> set (List.map_filter attempt_time ops). T \<le> t"
      by (auto simp: paced_def map_filter_simps)
    have "remembers k c m w T G (store_step db y)"
      using remembers_cong [OF Cons.prems(1) order.refl] other_op_ledger [OF p(2)] by (simp add: ledger_times_def ledger_last_def)
    from Cons.IH [OF this p(1,3)] Meanwhile show ?thesis by simp
  next
    case (Attempt e1 e2 now ok)
    with Cons.prems have p: "paced k ops" "T \<le> now" "\<forall>t \<in> set (List.map_filter attempt_time ops). now \<le> t"
      by (auto simp: paced_def map_filter_simps)
    obtain d db1 where allow: "allow_action e1 (fst k) (fst (snd k)) (snd (snd k)) now c m w db = (d, db1)" by force
    show ?thesis
    proof (cases "\<exists>why. d = Inr (True, why)")
      case False
      then have "use_step k c m w db x = db1" "admitted k c m w db x = None"
        using Attempt allow by (auto split: sum.splits prod.splits bool.splits)
      moreover have "action_ledger db1 k = action_ledger db k"
        using allow False by (cases k; auto simp: allow_action_def transaction_def stmt_def Let_def split: if_splits option.splits tx.splits)
      then have "remembers k c m w now G db1"
        using remembers_cong [OF Cons.prems(1) p(2)] by (simp add: ledger_times_def ledger_last_def)
      ultimately show ?thesis using Cons.IH [OF _ p(1,3), of G db1] by simp
    next
      case True
      then obtain why where d: "d = Inr (True, why)" by blast
      obtain res db2 where rec: "record_action e2 (fst k) (fst (snd k)) (snd (snd k)) now ok db1 = (res, db2)" by force
      show ?thesis
      proof (cases res)
        case (Inl e)
        then have "use_step k c m w db x = db1" "admitted k c m w db x = None"
          using Attempt allow d rec record_ledger(2) [of e2 k now ok db1 e db2] by auto
        with Cons.IH [OF remembers_allowed [OF Cons.prems(1) p(2) allow [unfolded d]] p(1,3)] show ?thesis by simp
      next
        case (Inr u)
        then have "use_step k c m w db x = db2" "admitted k c m w db x = Some now" using Attempt allow d rec by auto
        with Cons.IH [OF remembers_admitted [OF Cons.prems(1) p(2) allow [unfolded d]] p(1,3)] rec Inr show ?thesis by simp
      qed
    qed
  qed
qed auto

section \<open>Property\<close>

text \<open>
  C39.  Whatever attempts are made on one host, object and action, with any SQL failures and any other operations
  of the store in between, at most \<open>max_actions\<close> of them are admitted and recorded in any period of the length of the
  window, and consecutive ones are at least the cooldown apart, provided the clock does not go back and nobody else
  writes this ledger row.
\<close>

theorem durable_window_bound:
  assumes "paced k ops"
  shows "int (length (filter (\<lambda>t. s \<le> t \<and> t \<le> s + w) (granted (use_step k c m w) (admitted k c m w) db ops))) \<le> max 0 m \<and>
    successively (\<lambda>a b. c \<le> b - a) (granted (use_step k c m w) (admitted k c m w) db ops)"
proof -
  define T where "T = (case List.map_filter attempt_time ops of [] \<Rightarrow> 0 | t # _ \<Rightarrow> t)"
  have "remembers k c m w T [] db" by (simp add: remembers_def)
  moreover have "\<forall>t \<in> set (List.map_filter attempt_time ops). T \<le> t"
    using assms by (auto simp: T_def paced_def split: list.splits)
  ultimately obtain T' where "remembers k c m w T' ([] @ granted (use_step k c m w) (admitted k c m w) db ops) (exec_all (use_step k c m w) db ops)"
    using remembers_run [OF _ assms] by blast
  then show ?thesis by (simp add: remembers_def)
qed

theorem durable_window_bound_witness:
  "granted (use_step (''h'', ''c'', ''graceful_stop'') 30 1 300) (admitted (''h'', ''c'', ''graceful_stop'') 30 1 300) empty_db
     [Attempt env_ok env_ok 100 True, Attempt env_ok env_ok 250 True, Attempt env_ok env_ok 401 True] = [100, 401] \<and>
   (\<forall>s. int (length (filter (\<lambda>t. s \<le> t \<and> t \<le> s + 300) [100 :: rat, 401])) \<le> 1)"
proof -
  let ?k = "(''h'', ''c'', ''graceful_stop'')" and ?ops = "[Attempt env_ok env_ok 100 True, Attempt env_ok env_ok 250 True, Attempt env_ok env_ok 401 True]"
  have "paced ?k ?ops" by (simp add: paced_def map_filter_simps)
  from durable_window_bound [OF this, where c = 30 and m = 1 and w = 300 and db = empty_db] 
  have "int (length (filter (\<lambda>t. s \<le> t \<and> t \<le> s + 300) (granted (use_step ?k 30 1 300) (admitted ?k 30 1 300) empty_db ?ops))) \<le> 1" for s
    by simp
  moreover have "granted (use_step ?k 30 1 300) (admitted ?k 30 1 300) empty_db ?ops = [100, 401]"
    by (simp add: allow_action_def record_action_def transaction_def empty_db_def)
  ultimately show ?thesis by simp
qed

end
