(* ===== verification/Guardian_Rescue.thy ===== *)
theory Guardian_Rescue
  imports Guardian_Collect Guardian_Enforce
begin

text \<open>
  The manual rescue action (\<open>src/guardian_rescue_action.py\<close>): one explicitly authorised TERM signal to one
  target, by Docker or, when Docker does not answer, to the processes of its cgroup, and the later verification.
\<close>

section \<open>The surroundings\<close>

datatype signal_result = Signalled | NoSuchProcess | SignalDenied

text \<open>
  The world the helper acts on: what its files say, the command \<open>docker kill\<close> (its return code, or \<open>None\<close> for an
  exception), \<open>os.kill\<close>, the append to the audit file, the clock and the sleep.
\<close>

record 'w rescue_world =
  rw_view :: "'w \<Rightarrow> host_view"
  rw_docker :: "string list \<Rightarrow> 'w \<Rightarrow> int option \<times> 'w"
  rw_signal :: "int \<Rightarrow> 'w \<Rightarrow> signal_result \<times> 'w"
  rw_append :: "pydict \<Rightarrow> 'w \<Rightarrow> bool \<times> 'w"
  rw_clock :: "'w \<Rightarrow> rat \<times> 'w"
  rw_sleep :: "rat \<Rightarrow> 'w \<Rightarrow> 'w"

text \<open>The user, the mode and the size of the authorization file.\<close>

record file_stat =
  fs_uid :: int
  fs_mode :: int
  fs_size :: int

record rescue_config =
  rg_enabled :: bool
  rg_allowed :: "string list"
  rg_policy :: shedding_policy

record rescue_env =
  rq_rep :: "pyval \<Rightarrow> string"
  rq_stamp :: "string \<Rightarrow> rat option"
  rq_wall :: rat
  rq_config :: "rescue_config option"
  rq_stat :: "file_stat option"
  rq_register :: sql_env
  rq_consume :: sql_env
  rq_event_id :: string
  rq_incident_id :: string

text \<open>\<open>RescueActionError\<close> with its reason, an \<open>OSError\<close> nobody handles, or another exception.\<close>

datatype rescue_exn = Rescue string | RescueOs | RescuePy py_exn

definition MAX_AUTH_BYTES :: int where "MAX_AUTH_BYTES = 16 * 1024"

definition read_mapping :: "host_view \<Rightarrow> string \<Rightarrow> rescue_exn + pydict" where
  "read_mapping hv path =
     (case Option.bind (hv_read hv path) (hv_json hv) of
        None \<Rightarrow> Inl (Rescue ''json_unavailable'')
      | Some (PDict d) \<Rightarrow> Inr d
      | Some _ \<Rightarrow> Inl (Rescue ''json_mapping_required''))"

section \<open>The checks of a stop\<close>

definition rescue_authorization :: "rescue_env \<Rightarrow> host_view \<Rightarrow> string \<Rightarrow> string \<Rightarrow> rat \<Rightarrow> rescue_exn + authorization" where
  "rescue_authorization env hv path target now =
     (case rq_stat env of
        None \<Rightarrow> Inl (Rescue ''authorization_file_unavailable'')
      | Some st \<Rightarrow>
          if fs_uid st \<noteq> 0 \<or> fs_mode st mod 64 \<noteq> 0 then Inl (Rescue ''authorization_file_permissions_invalid'')
          else if MAX_AUTH_BYTES < fs_size st then Inl (Rescue ''authorization_file_too_large'')
          else sum_bind (read_mapping hv path) (\<lambda>value.
            case load_authorization (rq_rep env) (PDict value) of
              Inl OverflowError \<Rightarrow> Inl (RescuePy OverflowError)
            | Inl _ \<Rightarrow> Inl (Rescue ''authorization_invalid'')
            | Inr a \<Rightarrow>
                if auth_environment a \<noteq> ''local-disposable'' \<or> auth_action a \<noteq> ''graceful_stop'' then Inl (Rescue ''authorization_scope_invalid'')
                else if auth_target_id a \<noteq> target \<or> fle (auth_expires_at a) (Fin now) then Inl (Rescue ''authorization_target_or_expiry_invalid'')
                else Inr a))"

definition workload_prefix :: "string \<Rightarrow> string" where
  "workload_prefix cgroup = below cgroup ''workload.slice''"

text \<open>Older than a minute or from the future; NaN is neither.\<close>

definition stale_identity :: "rat \<Rightarrow> pyfloat \<Rightarrow> bool" where
  "stale_identity now observed =
     (case observed of Fin q \<Rightarrow> 60 < now - q \<or> now < q | NaN \<Rightarrow> False | _ \<Rightarrow> True)"

definition rescue_identity :: "host_view \<Rightarrow> string \<Rightarrow> string \<Rightarrow> rat \<Rightarrow> string \<Rightarrow> rescue_exn + pydict" where
  "rescue_identity hv cache target now cgroup =
     sum_bind (read_mapping hv cache) (\<lambda>value.
       if dget value ''schema'' \<noteq> PStr ''guardian.rescue-identities.v1'' then Inl (Rescue ''identity_cache_schema_invalid'')
       else case dget value ''entries'' of
           PList entries \<Rightarrow>
             (case filter (\<lambda>e. dget e ''stable_id'' = PStr target) (map mapping_of (filter is_dict entries)) of
                [item] \<Rightarrow>
                  if num_of (dget item ''observed_at'') = None then Inl (Rescue ''target_identity_stale'')
                  else sum_bind (map_sum RescuePy id (py_float (dget item ''observed_at''))) (\<lambda>observed.
                    if stale_identity now observed then Inl (Rescue ''target_identity_stale'')
                    else case dget item ''cgroup_path'' of
                        PStr path \<Rightarrow> if prefix (workload_prefix cgroup @ ''/'') path then Inr item else Inl (Rescue ''target_outside_workload_slice'')
                      | _ \<Rightarrow> Inl (Rescue ''target_outside_workload_slice''))
              | _ \<Rightarrow> Inl (Rescue ''target_identity_missing_or_ambiguous''))
         | _ \<Rightarrow> Inl (Rescue ''identity_cache_entries_invalid''))"

definition cgroup_pids :: "host_view \<Rightarrow> string \<Rightarrow> rescue_exn + int list" where
  "cgroup_pids hv path =
     (case hv_read hv (below path ''cgroup.procs'') of
        None \<Rightarrow> Inl (Rescue ''target_cgroup_unavailable'')
      | Some text \<Rightarrow> Inr (take 4096 (filter (\<lambda>pid. 1 < pid) (List.map_filter parse_int (splitlines text)))))"

text \<open>The first entry of the policy that names the target decides.\<close>

definition listed_target :: "pydict \<Rightarrow> pyval" where
  "listed_target item = py_or (py_or (dget item ''stable_id'') (dget item ''container_id'')) (dget item ''id'')"

definition plus_zone :: "string \<Rightarrow> string" where
  "plus_zone s = concat (map (\<lambda>c. if c = CHR ''Z'' then ''+00:00'' else [c]) s)"

definition rescue_entry :: "rescue_env \<Rightarrow> rescue_config \<Rightarrow> string \<Rightarrow> rescue_exn + pydict" where
  "rescue_entry env cfg target =
     (if \<not> rg_enabled cfg \<or> ''graceful_stop'' \<notin> set (rg_allowed cfg) then Inl (Rescue ''manual_actions_disabled'')
      else case find (\<lambda>item. listed_target item = PStr target) (map mapping_of (sp_actionable_set (rg_policy cfg))) of
          None \<Rightarrow> Inl (Rescue ''target_not_allowlisted'')
        | Some item \<Rightarrow>
            if dget item ''environment'' \<noteq> PStr ''local-disposable'' \<or> dget item ''action'' \<noteq> PStr ''graceful_stop''
            then Inl (Rescue ''target_not_allowlisted'')
            else (case rq_stamp env (plus_zone (py_str (rq_rep env) (dget item ''expires_at''))) of
                None \<Rightarrow> Inl (Rescue ''target_allowlist_expiry_invalid'')
              | Some expiry \<Rightarrow> if expiry \<le> rq_wall env then Inl (Rescue ''target_allowlist_expired'') else Inr item))"

text \<open>What was checked before the approval is spent: the approval, the cgroup, its inode and its processes.\<close>

record rescue_target =
  rt_approval :: authorization
  rt_path :: string
  rt_inode :: int
  rt_pids :: "int list"

definition check_rescue ::
  "rescue_env \<Rightarrow> host_view \<Rightarrow> string \<Rightarrow> string \<Rightarrow> string \<Rightarrow> bool \<Rightarrow> string \<Rightarrow> rat \<Rightarrow> rescue_exn + rescue_target" where
  "check_rescue env hv auth_file cache cgroup confirm target now =
     (if \<not> confirm then Inl (Rescue ''explicit_confirmation_required'')
      else if \<not> full_container_id target then Inl (Rescue ''target_full_id_required'')
      else case rq_config env of
          None \<Rightarrow> Inl (Rescue ''config_invalid'')
        | Some cfg \<Rightarrow>
            sum_bind (rescue_entry env cfg target) (\<lambda>_.
            sum_bind (rescue_authorization env hv auth_file target now) (\<lambda>a.
            sum_bind (rescue_identity hv cache target now cgroup) (\<lambda>identity.
              let path = pure_path (text_of (dget identity ''cgroup_path''))
              in if \<not> hv_is_dir hv path \<or> \<not> prefix (workload_prefix cgroup) path then Inl (Rescue ''target_cgroup_invalid'')
                 else case int_like (dget identity ''cgroup_inode'') of
                     None \<Rightarrow> Inl (Rescue ''target_cgroup_changed'')
                   | Some inode \<Rightarrow>
                       (case hv_inode hv path of
                          None \<Rightarrow> Inl RescueOs
                        | Some n \<Rightarrow>
                            if n \<noteq> inode then Inl (Rescue ''target_cgroup_changed'')
                            else sum_bind (cgroup_pids hv path) (\<lambda>pids.
                              if pids = [] then Inl (Rescue ''target_not_running'')
                              else Inr \<lparr>rt_approval = a, rt_path = path, rt_inode = inode, rt_pids = pids\<rparr>))))))"

section \<open>The action\<close>

text \<open>\<open>_host_snapshot\<close>.\<close>

fun available_line :: "string list \<Rightarrow> int option" where
  "available_line [] = None"
| "available_line (line # lines) =
     (if prefix ''MemAvailable:'' line
      then (case py_split line of _ # raw # _ \<Rightarrow> map_option (\<lambda>n. n * 1024) (parse_int raw) | _ \<Rightarrow> None)
      else available_line lines)"

text \<open>The loop over the pressure lines keeps the value of the last \<open>full\<close> line; a \<open>ValueError\<close> ends it.\<close>

fun full_lines :: "string list \<Rightarrow> pyfloat option \<Rightarrow> pyfloat option" where
  "full_lines [] psi = psi"
| "full_lines (line # lines) psi =
     (if \<not> prefix ''full '' line then full_lines lines psi
      else case find (prefix ''avg10='') (tl (py_split line)) of
          None \<Rightarrow> full_lines lines psi
        | Some field \<Rightarrow> (case parse_float (drop 6 field) of None \<Rightarrow> psi | Some f \<Rightarrow> full_lines lines (Some f)))"

definition host_snapshot :: "host_view \<Rightarrow> string \<Rightarrow> pydict" where
  "host_snapshot hv proc =
     [(''available_bytes'', opt_val PInt (available_line (splitlines (Guardian_Cpu.text_or_empty (hv_read hv (below proc ''meminfo'')))))),
      (''memory_full_avg10'', opt_val PFloat (full_lines (splitlines (Guardian_Cpu.text_or_empty (hv_read hv (below proc ''pressure/memory'')))) None))]"

text \<open>The loop over the processes; a process that is gone is skipped, a denied signal ends it.\<close>

fun signal_pids :: "'w rescue_world \<Rightarrow> int list \<Rightarrow> 'w \<Rightarrow> bool \<times> 'w" where
  "signal_pids rw [] w = (True, w)"
| "signal_pids rw (pid # pids) w =
     (case rw_signal rw pid w of (r, w') \<Rightarrow> if r = SignalDenied then (False, w') else signal_pids rw pids w')"

text \<open>The signals for a checked target, by Docker and else by the cgroup: the method.\<close>

definition term_command :: "string \<Rightarrow> string list" where
  "term_command target = [''docker'', ''kill'', ''--signal'', ''TERM'', target]"

definition send_term :: "'w rescue_world \<Rightarrow> string \<Rightarrow> rescue_target \<Rightarrow> 'w \<Rightarrow> (rescue_exn + string) \<times> 'w" where
  "send_term rw target rt w =
     (case rw_docker rw (term_command target) w of
        (code, w1) \<Rightarrow>
          if code = Some 0 then (Inr ''docker'', w1)
          else (case hv_inode (rw_view rw w1) (rt_path rt) of
              None \<Rightarrow> (Inl (Rescue ''target_cgroup_unavailable''), w1)
            | Some n \<Rightarrow>
                if n \<noteq> rt_inode rt then (Inl (Rescue ''target_cgroup_changed''), w1)
                else (case signal_pids rw (rt_pids rt) w1 of
                    (ok, w2) \<Rightarrow> (if ok then Inr ''cgroup'' else Inl (Rescue ''target_signal_denied''), w2))))"

text \<open>The record of the action needs the cgroup once more: its inode is read again.\<close>

definition record_rescue ::
  "rescue_env \<Rightarrow> 'w rescue_world \<Rightarrow> string \<Rightarrow> rescue_target \<Rightarrow> pydict \<Rightarrow> rat \<Rightarrow> string \<Rightarrow> 'w \<Rightarrow> (rescue_exn + pydict) \<times> 'w" where
  "record_rescue env rw target rt before now route w =
     (case hv_inode (rw_view rw w) (rt_path rt) of
        None \<Rightarrow> (Inl RescueOs, w)
      | Some inode \<Rightarrow>
          (let entry = [(''schema'', PStr ''guardian.rescue.action.v1''), (''incident_id'', PStr (''rescue-'' @ rq_incident_id env)),
             (''target_id'', PStr target), (''action'', PStr ''graceful_stop''), (''method'', PStr route), (''target_cgroup_path'', PStr (rt_path rt)),
             (''target_cgroup_inode'', PInt inode), (''before'', PDict before), (''requested_at'', PFloat (Fin now)),
             (''authorization'', PStr (approval_id (rt_approval rt)))]
           in case rw_append rw entry w of
                (False, w') \<Rightarrow> (Inl RescueOs, w')
              | (True, w') \<Rightarrow>
                  (Inr (entry @ [(''execution'', PStr ''term_sent''),
                     (''pids_signaled'', if route = ''cgroup'' then PInt (int (length (rt_pids rt))) else PNone)]), w')))"

text \<open>
  Registering and spending the approval.  The construction of the store before it is taken to succeed: its error is
  raised outside the handler and would end the command with nothing sent.
\<close>

definition spend_approval :: "rescue_env \<Rightarrow> authorization \<Rightarrow> rat \<Rightarrow> state_db \<Rightarrow> (rescue_exn + unit) \<times> state_db" where
  "spend_approval env a now db =
     (case register_capability (rq_register env) a db of
        (Inl _, db1) \<Rightarrow> (Inl (Rescue ''authorization_state_unavailable''), db1)
      | (Inr _, db1) \<Rightarrow>
          (case consume_capability (rq_consume env) a (''rescue-'' @ rq_event_id env) now db1 of
             (Inl _, db2) \<Rightarrow> (Inl (Rescue ''authorization_state_unavailable''), db2)
           | (Inr d, db2) \<Rightarrow> (if cd_allowed d then Inr () else Inl (Rescue (cd_reason d)), db2)))"

definition rescue_stop ::
  "rescue_env \<Rightarrow> 'w rescue_world \<Rightarrow> string \<Rightarrow> string \<Rightarrow> string \<Rightarrow> bool \<Rightarrow> string \<Rightarrow> rat \<Rightarrow> state_db \<times> 'w \<Rightarrow>
   (rescue_exn + pydict) \<times> state_db \<times> 'w" where
  "rescue_stop env rw auth_file cache cgroup confirm target now = (\<lambda>(db, w).
     (case check_rescue env (rw_view rw w) auth_file cache cgroup confirm target now of
        Inl e \<Rightarrow> (Inl e, db, w)
      | Inr rt \<Rightarrow>
          (case spend_approval env (rt_approval rt) now db of
             (Inl e, db') \<Rightarrow> (Inl e, db', w)
           | (Inr _, db') \<Rightarrow>
               (let before = host_snapshot (rw_view rw w) ''/proc''
                in case send_term rw target rt w of
                     (Inl e, w') \<Rightarrow> (Inl e, db', w')
                   | (Inr route, w') \<Rightarrow>
                       (case record_rescue env rw target rt before now route w' of (out, w'') \<Rightarrow> (out, db', w''))))))"

section \<open>The verification\<close>

text \<open>\<open>_cgroup_memory_snapshot\<close>.\<close>

definition limit_entry :: "host_view \<Rightarrow> string \<Rightarrow> string \<Rightarrow> pydict" where
  "limit_entry hv path key =
     (case hv_read hv (below path (''memory.'' @ key)) of
        None \<Rightarrow> []
      | Some text \<Rightarrow>
          if py_strip text = ''max'' then [(key, PStr ''max'')]
          else (case parse_int (py_strip text) of Some n \<Rightarrow> if 0 \<le> n then [(key, PInt n)] else [] | None \<Rightarrow> []))"

definition memory_event_counts :: "string \<Rightarrow> (string \<times> int) list" where
  "memory_event_counts text =
     fold (\<lambda>line acc. case py_partition CHR '' '' line of (key, found, raw) \<Rightarrow>
         (case (if found then parse_int (py_strip raw) else None) of Some n \<Rightarrow> if 0 \<le> n then dset acc key n else acc | None \<Rightarrow> acc))
       (splitlines text) []"

definition cgroup_memory :: "host_view \<Rightarrow> string \<Rightarrow> pydict" where
  "cgroup_memory hv path =
     (let limits = limit_entry hv path ''current'' @ limit_entry hv path ''high'' @ limit_entry hv path ''max'';
          events = (case hv_read hv (below path ''memory.events'') of None \<Rightarrow> [] | Some text \<Rightarrow> [(''events'', int_dict (memory_event_counts text))]);
          above = (case (as_int (dget limits ''current''), as_int (dget limits ''high'')) of (Some c, Some h) \<Rightarrow> h \<le> c | _ \<Rightarrow> False)
      in limits @ events @ [(''above_high'', PBool above)])"

text \<open>\<open>_wait_for_exit\<close> after its argument check; \<open>None\<close> without fuel.\<close>

fun wait_loop :: "nat \<Rightarrow> 'w rescue_world \<Rightarrow> string \<Rightarrow> rat \<Rightarrow> rat \<Rightarrow> 'w \<Rightarrow> ((rescue_exn + int list \<times> rat) \<times> 'w) option" where
  "wait_loop 0 rw path limit t0 w = None"
| "wait_loop (Suc fuel) rw path limit t0 w =
     (case (if hv_is_dir (rw_view rw w) path then cgroup_pids (rw_view rw w) path else Inr []) of
        Inl e \<Rightarrow> Some (Inl e, w)
      | Inr pids \<Rightarrow>
          (case rw_clock rw w of
             (t, w') \<Rightarrow>
               if pids = [] then Some (Inr ([], t - t0), w')
               else if limit \<le> t - t0 then Some (Inr (pids, t - t0), w')
               else wait_loop fuel rw path limit t0 (rw_sleep rw (min (1 / 5) (limit - (t - t0))) w')))"

definition wait_for_exit :: "nat \<Rightarrow> 'w rescue_world \<Rightarrow> string \<Rightarrow> pyfloat \<Rightarrow> 'w \<Rightarrow> ((rescue_exn + int list \<times> rat) \<times> 'w) option" where
  "wait_for_exit fuel rw path wait_seconds w =
     (case wait_seconds of
        Fin limit \<Rightarrow>
          if 0 \<le> limit \<and> limit \<le> 120 then (case rw_clock rw w of (t, w') \<Rightarrow> wait_loop fuel rw path limit t w')
          else Some (Inl (Rescue ''verify_wait_seconds_out_of_bounds''), w)
      | _ \<Rightarrow> Some (Inl (Rescue ''verify_wait_seconds_out_of_bounds''), w))"

text \<open>The stop records of a target; a line that is not JSON makes the file unavailable.\<close>

definition rescue_records :: "host_view \<Rightarrow> string \<Rightarrow> string \<Rightarrow> rescue_exn + pydict list" where
  "rescue_records hv audit_file target =
     (case hv_read hv audit_file of
        None \<Rightarrow> Inl (Rescue ''rescue_audit_unavailable'')
      | Some text \<Rightarrow>
          if list_ex (\<lambda>line. hv_json hv line = None) (splitlines text) then Inl (Rescue ''rescue_audit_unavailable'')
          else Inr (filter (\<lambda>d. dget d ''target_id'' = PStr target \<and> dget d ''action'' = PStr ''graceful_stop'')
            (map mapping_of (filter is_dict (List.map_filter (hv_json hv) (splitlines text))))))"

definition improved :: "pydict \<Rightarrow> pydict \<Rightarrow> bool" where
  "improved before after \<longleftrightarrow>
     (case (int_like (dget before ''available_bytes''), int_like (dget after ''available_bytes'')) of (Some b, Some a) \<Rightarrow> b < a | _ \<Rightarrow> False) \<or>
     (case (num_of (dget before ''memory_full_avg10''), num_of (dget after ''memory_full_avg10'')) of (Some b, Some a) \<Rightarrow> flt a b | _ \<Rightarrow> False)"

definition verify_result :: "string \<Rightarrow> pydict \<Rightarrow> pydict \<Rightarrow> pydict \<Rightarrow> int list \<Rightarrow> rat \<Rightarrow> rat \<Rightarrow> pydict" where
  "verify_result target before after memory pids wait waited =
     (let recovered = (pids = [] \<and> improved before after)
      in [(''schema'', PStr ''guardian.rescue.verify.v1''), (''target_id'', PStr target),
          (''state'', PStr (if recovered then ''recovered'' else ''pending'')), (''target_running'', PBool (pids \<noteq> [])),
          (''before'', PDict before), (''after'', PDict after), (''target_cgroup_memory'', PDict memory),
          (''cleanup'', PDict [(''wait_seconds'', flo wait), (''waited_seconds'', flo (round_digits 3 waited)),
             (''remaining_pids'', PList (map PInt pids)), (''escalation'', PStr ''none'')]),
          (''reason_codes'', strs ([if recovered then ''target_stopped_and_memory_improved'' else ''target_or_host_recovery_pending''] @
             (if py_truthy (dget memory ''above_high'') then [''target_above_memory_high''] else []) @
             (if pids \<noteq> [] \<and> wait \<noteq> 0 then [''term_wait_timeout_no_escalation''] else [])))])"

definition rescue_verify ::
  "nat \<Rightarrow> 'w rescue_world \<Rightarrow> (pyval \<Rightarrow> string) \<Rightarrow> string \<Rightarrow> string \<Rightarrow> pyfloat \<Rightarrow> 'w \<Rightarrow> ((rescue_exn + pydict) \<times> 'w) option" where
  "rescue_verify fuel rw rep audit_file target wait_seconds w =
     (if \<not> full_container_id target then Some (Inl (Rescue ''target_full_id_required''), w)
      else case rescue_records (rw_view rw w) audit_file target of
          Inl e \<Rightarrow> Some (Inl e, w)
        | Inr records \<Rightarrow>
            if records = [] then Some (Inl (Rescue ''rescue_action_not_found''), w)
            else
              (let latest = last records; path = pure_path (py_str rep (py_or (dget latest ''target_cgroup_path'') (PStr [])))
               in case wait_for_exit fuel rw path wait_seconds w of
                    None \<Rightarrow> None
                  | Some (Inl e, w') \<Rightarrow> Some (Inl e, w')
                  | Some (Inr (pids, waited), w') \<Rightarrow>
                      (let hv = rw_view rw w'; memory = (if hv_is_dir hv path then cgroup_memory hv path else [(''absent'', PBool True)]);
                           result = verify_result target (mapping_of (dget latest ''before'')) (host_snapshot hv ''/proc'') memory pids
                             (case wait_seconds of Fin q \<Rightarrow> q | _ \<Rightarrow> 0) waited
                       in case rw_append rw result w' of
                            (False, w'') \<Rightarrow> Some (Inl RescueOs, w'')
                          | (True, w'') \<Rightarrow> Some (Inr result, w''))))"

end
