(* ===== verification/Guardian_Rescue_Laws.thy ===== *)
theory Guardian_Rescue_Laws
  imports Guardian_Rescue
begin

text \<open>What a signal of the manual rescue presupposes, and what is lost when its target is gone at once.\<close>

section \<open>The signals of a stop\<close>

datatype rescue_signal = Command "string list" | Kill int

text \<open>The same world with a list of the commands and signals it was asked for.\<close>

definition on_second :: "('w \<Rightarrow> 'a \<times> 'w) \<Rightarrow> 'c \<times> 'w \<Rightarrow> 'a \<times> ('c \<times> 'w)" where
  "on_second f s = (case f (snd s) of (a, w) \<Rightarrow> (a, (fst s, w)))"

definition watched_rescue :: "'w rescue_world \<Rightarrow> (rescue_signal list \<times> 'w) rescue_world" where
  "watched_rescue rw =
     \<lparr>rw_view = rw_view rw \<circ> snd,
      rw_docker = (\<lambda>cmd s. case rw_docker rw cmd (snd s) of (r, w) \<Rightarrow> (r, (fst s @ [Command cmd], w))),
      rw_signal = (\<lambda>pid s. case rw_signal rw pid (snd s) of (r, w) \<Rightarrow> (r, (fst s @ [Kill pid], w))),
      rw_append = (\<lambda>line. on_second (rw_append rw line)), rw_clock = on_second (rw_clock rw),
      rw_sleep = (\<lambda>d s. (fst s, rw_sleep rw d (snd s)))\<rparr>"

lemma watched_rescue_simps [simp]:
  "rw_view (watched_rescue rw) s = rw_view rw (snd s)"
  "rw_docker (watched_rescue rw) cmd s = (fst (rw_docker rw cmd (snd s)), (fst s @ [Command cmd], snd (rw_docker rw cmd (snd s))))"
  "rw_signal (watched_rescue rw) pid s = (fst (rw_signal rw pid (snd s)), (fst s @ [Kill pid], snd (rw_signal rw pid (snd s))))"
  by (simp_all add: watched_rescue_def case_prod_beta)




section \<open>The checks\<close>










section \<open>The waiting returns\<close>

definition steady_rescue :: "'w rescue_world \<Rightarrow> ('w \<Rightarrow> rat) \<Rightarrow> bool" where
  "steady_rescue rw time \<longleftrightarrow>
     (\<forall>w. fst (rw_clock rw w) = time w \<and> time w \<le> time (snd (rw_clock rw w))) \<and>
     (\<forall>w d. 0 \<le> d \<longrightarrow> time w + d \<le> time (rw_sleep rw d w))"

text \<open>It asks at most once more than there are fifths of a second in the limit.\<close>

lemma wait_returns:
  assumes "steady_rescue rw time" "limit - (time w - t0) \<le> of_nat n * (1 / 5)"
  shows "\<exists>r w'. wait_loop (Suc n) rw path limit t0 w = Some (r, w')"
  using assms(2)
proof (induction n arbitrary: w)
  case (0 w)
  have "fst (rw_clock rw w) = time w" using assms(1) by (simp add: steady_rescue_def)
  with 0 show ?case by (cases "rw_clock rw w") (auto split: sum.splits)
next
  case (Suc n w)
  define w1 where "w1 = snd (rw_clock rw w)"
  have t: "rw_clock rw w = (time w, w1)" "time w \<le> time w1" using assms(1) by (simp_all add: steady_rescue_def w1_def prod_eq_iff)
  show ?case
  proof (cases "time w - t0 < limit")
    case True
    define w2 where "w2 = rw_sleep rw (min (1 / 5) (limit - (time w - t0))) w1"
    have "time w1 + min (1 / 5) (limit - (time w - t0)) \<le> time w2"
      using assms(1) True unfolding steady_rescue_def w2_def by simp
    with window_shrinks [of "1 / 5" "time w" "time w" "time w1" limit t0 "time w2" n] t(2) Suc.prems
    have "limit - (time w2 - t0) \<le> of_nat n * (1 / 5)" by simp
    from Suc.IH [OF this] t(1) show ?thesis
      by (auto simp: w2_def wait_loop.simps(2) [of "Suc n"] simp del: wait_loop.simps split: sum.splits)
  next
    case False
    with t(1) show ?thesis by (auto simp: wait_loop.simps(2) [of "Suc n"] simp del: wait_loop.simps split: sum.splits)
  qed
qed

section \<open>Properties\<close>


text \<open>
  The record of a stop reads the inode of the cgroup once more.  When the container ends at once and its cgroup is
  gone, that \<open>OSError\<close> is nobody's: the container was stopped and the approval is spent, but nothing is recorded, and the
  later verification finds no action.
\<close>

lemma vanished_target_unrecorded:
  assumes "check_rescue env (rw_view rw w) auth_file cache cgroup confirm target now = Inr rt"
    and "spend_approval env (rt_approval rt) now db = (Inr (), db')"
    and "rw_docker rw (term_command target) w = (Some 0, w')" "hv_inode (rw_view rw w') (rt_path rt) = None"
  shows "rescue_stop env rw auth_file cache cgroup confirm target now (db, w) = (Inl RescueOs, db', w')"
  using assms by (simp add: rescue_stop_def send_term_def record_rescue_def Let_def)

end
