(* ===== verification/Spec2Isabelle.thy ===== *)
theory Spec2Isabelle
  imports Guardian_Collect_Laws Guardian_Coordinator_Outcomes Guardian_Consume Guardian_Action_Broker_Laws Guardian_Runtime_Loop Guardian_Pressure_Gate Guardian_Risk Guardian_Reserve_Broker_Laws
    Guardian_Shedding_Laws Guardian_Revalidation Guardian_Enforce Guardian_Disk Guardian_Outbox_Laws
    Guardian_State_Contract Guardian_Cooldown Guardian_Rescue_Laws
begin

text \<open>
  Server Resource Guardian: a development beside the Python sources under \<open>src/src\<close>.

  \<^bold>\<open>The program.\<close>  The Guardian watches the memory, CPU, disk and I/O of one host.  Observations pass
  a pressure gate, become a risk state per resource, are attributed to a container and arbitrated
  into one joint decision or one emergency-shedding plan.  A plan becomes an action only through
  the controller, under a one-shot approval, a cooldown, a durable intent and a fresh
  revalidation; afterwards the recovery is assessed and recorded.  A separate broker may release a
  reserve file once per incident, and notifications leave through a durable outbox.  The sources
  keep their durable facts in three SQLite databases.

  \<^bold>\<open>Theories and sources.\<close>

  \<^item> \<open>Guardian_Prelude\<close>, \<open>Guardian_Text\<close>: Python values, floats, dictionaries, string methods and
    number conversions as the sources use them; the interfaces shared by the components, as
    locales: \<open>invariant_system\<close>, \<open>one_shot\<close> (a key is handed out at most once) and \<open>append_only\<close>.
  \<^item> \<open>Guardian_Actions\<close> (\<open>guardian_actions.py\<close>): validation of a request, argument vectors, the
    mock and Docker executors, and the locale \<open>action_executor\<close> that both interpret.
  \<^item> \<open>Guardian_Sql\<close>, \<open>Guardian_State\<close>, \<open>Guardian_State_Laws\<close> (\<open>guardian_state.py\<close>): the five tables as a
    record and one definition per method; each SQL statement of a method has a number and may
    fail, which rolls the transaction back.  The laws: approvals and intents are one-shot, rows move along the life
    cycle, the audit log only grows, an error changes nothing.
  \<^item> \<open>Guardian_State_Contract\<close>: the store as an abstract machine on approvals, intents and slots with one
    deterministic step and one answer per operation; the tables of every run of the store refine it.
  \<^item> \<open>Guardian_Recovery\<close> (\<open>guardian_recovery.py\<close>): the recovery assessments, the in-memory ledger, and
    the durable cooldown of the store as its refinement.
  \<^item> \<open>Guardian_Cooldown\<close>: attempts that ask the durable ledger and write it when admitted, between other operations of
    the store: how many are admitted in any window, and how far apart.
  \<^item> \<open>Guardian_Controller\<close> (\<open>guardian_controller.py\<close>): the whole \<open>enforce\<close> handler, in stages that follow
    its blocks; what reaches the executor, and how the report and the durable intent agree.
  \<^item> \<open>Guardian_Enforce\<close> (\<open>guardian_enforce.py\<close>): approvals from files, the state of a container, the
    polling recovery probe and \<open>run_enforce\<close> on top of the controller.
  \<^item> \<open>Guardian_Pressure_Gate\<close> (\<open>guardian_pressure_gate.py\<close>): procfs parsing, classification, hysteresis,
    schedule and audit slimming; the gate equals a specification on the whole history.
  \<^item> \<open>Guardian_Dwell\<close>: the rule the four risk evaluators share, and the locale \<open>dwell_engine\<close> with the
    contract of \<open>evaluate\<close>; in every run an emission follows a full dwell time without quality flags
    and a recovery follows an emission.  Each evaluator interprets the locale.
  \<^item> \<open>Guardian_Risk\<close> (\<open>guardian_risk.py\<close>): the composite memory risk evaluator.
  \<^item> \<open>Guardian_Cpu\<close> (\<open>guardian_cpu.py\<close>): the procfs and cgroup parsers, the sample, the CPU risk
    evaluator and the attribution of CPU time to a cgroup; the confirmed object leads all others.
  \<^item> \<open>Guardian_Disk\<close> (\<open>guardian_disk.py\<close>): mount, device and cgroup parsers, the sample, the capacity
    and I/O risk evaluators, both attributions and the simulated decision; the confirmed I/O object
    leads the high-confidence objects only.
  \<^item> \<open>Guardian_Reserve_State\<close> (\<open>guardian_reserve_state.py\<close>): the broker's store and its single slot.
  \<^item> \<open>Guardian_Reserve_Broker\<close>, \<open>Guardian_Reserve_Broker_Laws\<close> (\<open>guardian_reserve_recovery.py\<close>,
    \<open>guardian_reserve_broker.py\<close>): the controller of the runtime, the client, and the server's handler
    over that store; the helper starts once per approval and incident and only with consent, the
    replies agree with the store, except when the store fails after the helper ran.
  \<^item> \<open>Guardian_Multirisk\<close> (\<open>guardian_multirisk.py\<close>, \<open>guardian_audit.py\<close>): joint arbitration and the audit
    verifier.
  \<^item> \<open>Guardian_Attribution\<close> (\<open>guardian_attribution.py\<close>): the registry parsers and the evaluator that
    compares two registries and confirms at most one container.
  \<^item> \<open>Guardian_Config\<close> (\<open>guardian_config.py\<close>): \<open>validate_config\<close> section by section and the defaults.
  \<^item> \<open>Guardian_Shedding\<close>, \<open>Guardian_Shedding_Laws\<close> (\<open>guardian_emergency_shedding.py\<close>): the policy, the
    validation of protected and actionable entries, ranking and the decision with all refusals;
    what a plan guarantees, and that every validated configuration block builds a policy.
  \<^item> \<open>Guardian_Revalidation\<close> (\<open>guardian_revalidation.py\<close>): the check of an intent against a fresh event.
  \<^item> \<open>Guardian_Notifications\<close> (\<open>guardian_notifications.py\<close>): the redacted event, the sinks, the limits
    and the in-memory dispatcher; identities leave only as digests, an event is sent once.
  \<^item> \<open>Guardian_Outbox\<close>, \<open>Guardian_Outbox_Laws\<close> (\<open>guardian_notification_outbox.py\<close>): the four tables, the
    operations on them and the delivery loop against an arbitrary sink.  The methods only make
    elementary moves (\<open>outbox_move\<close>); by rule induction the sink takes a notification at most once
    without a redrive, the audit chain verifies, the pending rows are bounded, and a delivered
    recovery blocks every later recovery of its key.
  \<^item> \<open>Guardian_Intent\<close>, \<open>Guardian_Coordinator\<close>, \<open>Guardian_Coordinator_Laws\<close>,
    \<open>Guardian_Coordinator_Outcomes\<close> (\<open>guardian_coordinator.py\<close>): the strict intent made from a plan; the adapters, the action broker and
    \<open>process\<close>, in stages that follow the code, over the state store, the outbox and an arbitrary
    world of adapter, revalidation and verification.  The laws put a recording adapter in place: a
    call meets every gate and a durable intent and slot, and over any run of events, approvals and
    restarts the calls are for distinct subjects.  The outcomes: an unknown one blocks the store's
    world for good, a real one is recorded and never reported better than it was, and three cases in
    which the report is wrong or a reconciliation is asked for nothing.
  \<^item> \<open>Guardian_Observer\<close>, \<open>Guardian_Sampler\<close>, \<open>Guardian_Sampler_Laws\<close> (\<open>guardian_observer.py\<close>): the results of
    the engines as the dictionaries the code returns, the memory event with its decision, the danger gate, the join of the
    registry with the contributions, one \<open>sample\<close> that threads the engines' states, the administrator's view, and
    the health stage that changes the event in place.  The laws connect an event with the coordinator: incomplete
    evidence closes the gate, an intent from a sampled event is authorised and its danger confirmed over the dwell
    time, and a plan to enforce is neither notified nor snapshotted.
  \<^item> \<open>Guardian_Collect\<close>, \<open>Guardian_Collector\<close>, \<open>Guardian_Collect_Laws\<close> (\<open>guardian_observer.py\<close>,
    \<open>guardian_attribution.py\<close>, \<open>guardian_collector_service.py\<close>, \<open>guardian_collector_client.py\<close> and the collector in
    \<open>guardian_orchestrator.py\<close>): the reading of the host and of the registry of containers, the separate collector with
    its gate and its messages, and the runtime's collector.  The laws: a memory action needs a whole reading, the runtime
    acts only on containers its collector has just listed, and under degraded pressure no action survives its
    own revalidation.
  \<^item> \<open>Guardian_Action_Broker\<close>, \<open>Guardian_Action_Broker_Laws\<close> (\<open>guardian_broker_client.py\<close>,
    \<open>guardian_broker_service.py\<close>): the adapter the runtime uses over a socket, and the handler of the
    privileged service that alone starts Docker, with each of its checks.  The laws: a Docker command follows all
    checks and a spent approval, at most one per approval in every run, and what each outcome
    of the client says of the exchange; a lost reply counts as a denial, and an approval that does not
    cover the request is not answered.
  \<^item> \<open>Guardian_Runtime_Loop\<close> (\<open>guardian_orchestrator.py\<close>): the producer, the consumer and the main
    thread as interleaved actions on one record; the queue and the counters agree in every schedule,
    failing closed stops the consumer, a requested stop completes, and may lose one event.
  \<^item> \<open>Guardian_Consume\<close> (\<open>guardian_orchestrator.py\<close>): what the consumer does with one event, on top of
    the reserve controller, the outbox and the coordinator, with the verification loop that samples
    the observer again; \<open>verification_returns\<close> bounds the loop's fuel by the poll intervals of the window, and its
    end by the window.
  \<^item> \<open>Guardian_Rescue\<close>, \<open>Guardian_Rescue_Laws\<close> (\<open>guardian_rescue_action.py\<close>): the manual stop of one target
    with all its checks, its signals and its record, and the later verification; what every signal presupposes, and the
    record that is lost when the target is gone at once.

  \<^bold>\<open>How the code is rendered.\<close>  A method is a function from the state record to a result and the new
  state; an exception is \<open>Inl\<close> of the sum the function returns.  A long method is split along its
  blocks, the definitions being composed in the order of the code.  A mapping is an association
  list in insertion order; a list and a tuple are both \<open>PList\<close>.  Clock readings are arguments.
  Floats are exact rationals with the two infinities and NaN: comparisons follow IEEE 754,
  rounding is left out, and an integer beyond the range of a double overflows in \<open>float()\<close>.
  Characters have eight bits.

  \<^bold>\<open>Parameters.\<close>  The text of floats and containers (\<open>rep\<close>), the SQL environment (\<open>sql_env\<close>: which
  statement fails, fresh identifiers, JSON text, digest), the process runner, clock and sleep,
  \<open>json.loads\<close>, \<open>datetime.fromisoformat\<close> and SHA-256 are arguments of the definitions that use them.
  Only the termination of the probe and of the verification and the bound of the cooldown assume anything of them: a
  clock that does not run backwards and a sleep that lasts (\<open>steady_clock\<close>, \<open>steady_observer\<close>), a bound on the time
  the observer takes (\<open>prompt_observer\<close>), and attempts in the order of the clock (\<open>paced\<close>).

  \<^bold>\<open>Loops.\<close>  Loops over data are structural recursion or folds.  The recovery probe and the
  verification loop can run forever, on a clock that stands still, as can the waiting of the manual rescue; they have
  fuel, and
  \<open>probe_returns\<close> and \<open>verification_returns\<close> show that one more than the number of poll intervals in
  the window is enough (\<open>wait_returns\<close> for the rescue).

  \<^bold>\<open>Not modelled.\<close>  Of the observer the command line loop; the accept loop of the collector and the
  writing of its identity file; the command line tools (processes, sockets, files); of the orchestrator the wiring in
  its constructor and the result audit; the accept loops of the two brokers, which admit one connection at a time; the
  HTTP adapters of the external monitor.  Of the modelled files: file reading and writing,
  permissions of the database files, argument parsing and log output.
\<close>

end
